(* ===== verification/Prelude.thy ===== *)
theory Prelude
  imports Main "HOL-Library.Word"
begin

text \<open>
  Shared vocabulary of the development: the machine words of the 64-bit targets the library
  supports, the outcomes of Go code (a value, or a panic that unwinds the caller), the monadic
  composition of such outcomes, and generic list lemmas that several components use.
\<close>

section \<open>Machine words\<close>

type_synonym byte = "8 word"
type_synonym uintptr = "64 word"
type_synonym u32 = "32 word"

section \<open>Panics as values\<close>

text \<open>
  Everything that stops the normal flow of a Go function is a value of this type:
  an explicit \<open>panic\<close> with a string, a \<open>panic(err)\<close> that carries an error's text, a read or
  write of unmapped memory, an index past the end of an array, and an exhausted heap. \<open>Diverges\<close> is
  the outcome of a loop that never ends: the function neither returns nor panics.
\<close>

datatype panic =
    PanicMsg string
  | PanicErr string
  | Segv uintptr
  | IndexOutOfRange nat nat
  | OutOfMemory
  | Diverges

type_synonym 'a res = "panic + 'a"

definition bind_res :: "'a res \<Rightarrow> ('a \<Rightarrow> 'b res) \<Rightarrow> 'b res" where
  "bind_res r f = (case r of Inl e \<Rightarrow> Inl e | Inr x \<Rightarrow> f x)"

named_theorems res_simps "evaluation and inversion of panicking computations"

lemma bind_res_Inl [simp]: "bind_res (Inl e) f = Inl e"
  by (simp add: bind_res_def)

lemma bind_res_Inr [simp]: "bind_res (Inr x) f = f x"
  by (simp add: bind_res_def)

lemma bind_res_eq_Inr [res_simps]:
  "bind_res r f = Inr y \<longleftrightarrow> (\<exists>x. r = Inr x \<and> f x = Inr y)"
  by (cases r) auto

lemma bind_res_eq_Inl [res_simps]:
  "bind_res r f = Inl e \<longleftrightarrow> r = Inl e \<or> (\<exists>x. r = Inr x \<and> f x = Inl e)"
  by (cases r) auto

lemma bind_res_assoc: "bind_res (bind_res r f) g = bind_res r (\<lambda>x. bind_res (f x) g)"
  by (cases r) auto

lemma bind_res_cong [fundef_cong]:
  "r = r' \<Longrightarrow> (\<And>x. r' = Inr x \<Longrightarrow> f x = g x) \<Longrightarrow> bind_res r f = bind_res r' g"
  by (cases r') auto

text \<open>A loop that collects the results of a panicking body, stopping at the first panic.\<close>

fun map_res :: "('a \<Rightarrow> 'b res) \<Rightarrow> 'a list \<Rightarrow> 'b list res" where
  "map_res f [] = Inr []"
| "map_res f (x # xs) = bind_res (f x) (\<lambda>y. bind_res (map_res f xs) (\<lambda>ys. Inr (y # ys)))"

lemma map_res_cong [fundef_cong]:
  "xs = ys \<Longrightarrow> (\<And>x. x \<in> set ys \<Longrightarrow> f x = g x) \<Longrightarrow> map_res f xs = map_res g ys"
  by (induction ys arbitrary: xs) auto

lemma map_res_Inr_iff [res_simps]:
  "map_res f xs = Inr ys \<longleftrightarrow> list_all2 (\<lambda>x y. f x = Inr y) xs ys"
  by (induction xs arbitrary: ys) (auto simp: res_simps list_all2_Cons1)

lemma map_res_all_Inr:
  "(\<And>x. x \<in> set xs \<Longrightarrow> f x = Inr (g x)) \<Longrightarrow> map_res f xs = Inr (map g xs)"
  by (induction xs) auto

lemma map_res_Inl_ex:
  "(\<exists>x\<in>set xs. \<exists>e. f x = Inl e) \<longleftrightarrow> (\<exists>e. map_res f xs = Inl e)"
proof (induction xs)
  case Nil
  then show ?case by simp
next
  case (Cons x xs)
  then show ?case by (cases "f x"; cases "map_res f xs") auto
qed

lemma map_res_length: "map_res f xs = Inr ys \<Longrightarrow> length ys = length xs"
  by (auto simp: res_simps dest: list_all2_lengthD)

section \<open>Stateful code\<close>

text \<open>
  Code that keeps its effects when it panics: the state after a panic is what deferred functions
  and later calls see.
\<close>

type_synonym ('s, 'a) prog = "'s \<Rightarrow> 'a res \<times> 's"

definition pure_st :: "'a \<Rightarrow> ('s, 'a) prog" where
  "pure_st x = (\<lambda>s. (Inr x, s))"

definition bind_st :: "('s, 'a) prog \<Rightarrow> ('a \<Rightarrow> ('s, 'b) prog) \<Rightarrow> ('s, 'b) prog" where
  "bind_st p f = (\<lambda>s. case p s of (Inl e, s') \<Rightarrow> (Inl e, s') | (Inr x, s') \<Rightarrow> f x s')"

text \<open>\<open>defer_st\<close> runs the deferred update whether the body returns or panics.\<close>

definition defer_st :: "('s \<Rightarrow> 's) \<Rightarrow> ('s, 'a) prog \<Rightarrow> ('s, 'a) prog" where
  "defer_st d p = (\<lambda>s. case p s of (r, s') \<Rightarrow> (r, d s'))"

definition panic_st :: "panic \<Rightarrow> ('s, 'a) prog" where
  "panic_st e = (\<lambda>s. (Inl e, s))"

text \<open>A step that either panics and changes nothing, or returns a value and a new state.\<close>

definition lift_st :: "('s \<Rightarrow> ('a \<times> 's) res) \<Rightarrow> ('s, 'a) prog" where
  "lift_st f = (\<lambda>s. case f s of Inl e \<Rightarrow> (Inl e, s) | Inr (x, s') \<Rightarrow> (Inr x, s'))"

named_theorems st_simps "running stateful code"

lemma run_pure_st [simp, st_simps]: "pure_st x s = (Inr x, s)"
  by (simp add: pure_st_def)

lemma run_panic_st [simp, st_simps]: "panic_st e s = (Inl e, s)"
  by (simp add: panic_st_def)

lemma bind_st_Inr: "p s = (Inr x, s') \<Longrightarrow> bind_st p f s = f x s'"
  by (simp add: bind_st_def)

lemma bind_st_Inl: "p s = (Inl e, s') \<Longrightarrow> bind_st p f s = (Inl e, s')"
  by (simp add: bind_st_def)

lemma bind_st_eq_Inr [st_simps]:
  "bind_st p f s = (Inr y, s'') \<longleftrightarrow> (\<exists>x s'. p s = (Inr x, s') \<and> f x s' = (Inr y, s''))"
  by (cases "p s"; cases "fst (p s)") (auto simp: bind_st_def)

lemma lift_st_eq_Inr [st_simps]: "lift_st f s = (Inr x, s') \<longleftrightarrow> f s = Inr (x, s')"
  by (auto simp: lift_st_def split: sum.splits)

lemma lift_st_Inl: "f s = Inl e \<Longrightarrow> lift_st f s = (Inl e, s)"
  by (simp add: lift_st_def)

text \<open>
  A property of states that every step keeps is kept by the whole, also on the panicking paths.
\<close>

definition keeps :: "('s \<Rightarrow> bool) \<Rightarrow> ('s, 'a) prog \<Rightarrow> bool" where
  "keeps I p \<longleftrightarrow> (\<forall>s. I s \<longrightarrow> I (snd (p s)))"

named_theorems keeps_intros "steps that keep an invariant"

lemma keeps_pure [keeps_intros]: "keeps I (pure_st x)"
  by (simp add: keeps_def)

lemma keeps_panic [keeps_intros]: "keeps I (panic_st e)"
  by (simp add: keeps_def)

lemma keeps_bind [keeps_intros]:
  assumes "keeps I p" "\<And>x. keeps I (f x)"
  shows "keeps I (bind_st p f)"
  unfolding keeps_def
proof (intro allI impI)
  fix s assume "I s"
  then have "I (snd (p s))"
    using assms(1) by (simp add: keeps_def)
  then show "I (snd (bind_st p f s))"
    using assms(2) by (cases "p s"; cases "fst (p s)") (auto simp: bind_st_def keeps_def)
qed

lemma keeps_lift: "(\<And>s x s'. I s \<Longrightarrow> f s = Inr (x, s') \<Longrightarrow> I s') \<Longrightarrow> keeps I (lift_st f)"
  by (auto simp: keeps_def lift_st_def split: sum.splits)

lemma keeps_run: "keeps I p \<Longrightarrow> I s \<Longrightarrow> I (snd (p s))"
  by (simp add: keeps_def)

section \<open>Lists used as fixed-size arrays\<close>

named_theorems array_simps "arrays of a fixed length, updated by index"

lemma foldl_list_update_length [array_simps]:
  "length (foldl (\<lambda>xs i. xs[i := f i]) xs is) = length xs"
  by (induction "is" arbitrary: xs) auto

lemma foldl_list_update_upt [array_simps]:
  "n \<le> length xs \<Longrightarrow>
     foldl (\<lambda>xs i. xs[i := f i]) xs [0..<n] = map f [0..<n] @ drop n xs"
proof (induction n)
  case 0
  then show ?case by simp
next
  case (Suc n)
  then have "foldl (\<lambda>xs i. xs[i := f i]) xs [0..<Suc n] = (map f [0..<n] @ drop n xs)[n := f n]"
    by simp
  also have "\<dots> = map f [0..<n] @ (drop n xs)[0 := f n]"
    by (simp add: list_update_append)
  also have "(drop n xs)[0 := f n] = f n # drop (Suc n) xs"
    using Suc.prems by (simp add: Cons_nth_drop_Suc [symmetric])
  finally show ?case by simp
qed

lemma map_nth_upt [array_simps]: "n \<le> length xs \<Longrightarrow> map ((!) xs) [0..<n] = take n xs"
  by (intro nth_equalityI) auto

end
