(* ===== verification/GoReflect.thy ===== *)
theory GoReflect
  imports Prelude
begin

text \<open>
  What the library reads of Go types through package \<open>reflect\<close>: the kind of a type, its element,
  field, parameter and result types, and the size and alignment the Go compiler gives it on the
  64-bit targets (\<open>amd64\<close>, \<open>arm64\<close>). A defined type carries its package, its name and its underlying
  type, so that two types are identical exactly when their values here are equal.
\<close>

section \<open>The target\<close>

text \<open>\<open>runtime.GOOS\<close> and \<open>runtime.GOARCH\<close>.\<close>

datatype goos = Darwin | IOS | FreeBSD | Linux | Android | NetBSD | OpenBSD | DragonFly
  | Solaris | Illumos | Windows

datatype goarch = AMD64 | ARM64 | ARM | OtherArch

section \<open>Kinds and types\<close>

datatype kind =
    KBool | KInt | KInt8 | KInt16 | KInt32 | KInt64
  | KUint | KUint8 | KUint16 | KUint32 | KUint64 | KUintptr
  | KFloat32 | KFloat64 | KComplex64 | KComplex128
  | KArray | KChan | KFunc | KInterface | KMap | KPointer | KSlice | KString | KStruct | KUnsafePointer

text \<open>The predeclared types that are not built from other types.\<close>

datatype prim =
    PBool | PInt | PInt8 | PInt16 | PInt32 | PInt64
  | PUint | PUint8 | PUint16 | PUint32 | PUint64 | PUintptr
  | PFloat32 | PFloat64 | PComplex64 | PComplex128 | PString | PUnsafePointer

datatype go_type =
    TPrim prim
  | TNamed string string go_type
  | TPointer go_type
  | TSlice go_type
  | TArray nat go_type
  | TStruct "(string \<times> go_type) list"
  | TFunc "go_type list" "go_type list" bool
  | TInterface
  | TMap go_type go_type
  | TChan go_type

fun prim_kind :: "prim \<Rightarrow> kind" where
  "prim_kind PBool = KBool"
| "prim_kind PInt = KInt"
| "prim_kind PInt8 = KInt8"
| "prim_kind PInt16 = KInt16"
| "prim_kind PInt32 = KInt32"
| "prim_kind PInt64 = KInt64"
| "prim_kind PUint = KUint"
| "prim_kind PUint8 = KUint8"
| "prim_kind PUint16 = KUint16"
| "prim_kind PUint32 = KUint32"
| "prim_kind PUint64 = KUint64"
| "prim_kind PUintptr = KUintptr"
| "prim_kind PFloat32 = KFloat32"
| "prim_kind PFloat64 = KFloat64"
| "prim_kind PComplex64 = KComplex64"
| "prim_kind PComplex128 = KComplex128"
| "prim_kind PString = KString"
| "prim_kind PUnsafePointer = KUnsafePointer"

fun Kind :: "go_type \<Rightarrow> kind" where
  "Kind (TPrim p) = prim_kind p"
| "Kind (TNamed _ _ t) = Kind t"
| "Kind (TPointer _) = KPointer"
| "Kind (TSlice _) = KSlice"
| "Kind (TArray _ _) = KArray"
| "Kind (TStruct _) = KStruct"
| "Kind (TFunc _ _ _) = KFunc"
| "Kind TInterface = KInterface"
| "Kind (TMap _ _) = KMap"
| "Kind (TChan _) = KChan"

text \<open>\<open>reflect.Kind.String\<close>, which the panic messages print.\<close>

fun kind_string :: "kind \<Rightarrow> string" where
  "kind_string KBool = ''bool''"
| "kind_string KInt = ''int''"
| "kind_string KInt8 = ''int8''"
| "kind_string KInt16 = ''int16''"
| "kind_string KInt32 = ''int32''"
| "kind_string KInt64 = ''int64''"
| "kind_string KUint = ''uint''"
| "kind_string KUint8 = ''uint8''"
| "kind_string KUint16 = ''uint16''"
| "kind_string KUint32 = ''uint32''"
| "kind_string KUint64 = ''uint64''"
| "kind_string KUintptr = ''uintptr''"
| "kind_string KFloat32 = ''float32''"
| "kind_string KFloat64 = ''float64''"
| "kind_string KComplex64 = ''complex64''"
| "kind_string KComplex128 = ''complex128''"
| "kind_string KArray = ''array''"
| "kind_string KChan = ''chan''"
| "kind_string KFunc = ''func''"
| "kind_string KInterface = ''interface''"
| "kind_string KMap = ''map''"
| "kind_string KPointer = ''ptr''"
| "kind_string KSlice = ''slice''"
| "kind_string KString = ''string''"
| "kind_string KStruct = ''struct''"
| "kind_string KUnsafePointer = ''unsafe.Pointer''"

text \<open>\<open>Type.Name\<close>: the name of a defined or predeclared type, empty for a type literal.\<close>

fun prim_name :: "prim \<Rightarrow> string" where
  "prim_name PUnsafePointer = ''Pointer''"
| "prim_name p = kind_string (prim_kind p)"

fun type_Name :: "go_type \<Rightarrow> string" where
  "type_Name (TNamed _ n _) = n"
| "type_Name (TPrim p) = prim_name p"
| "type_Name _ = []"

fun underlying :: "go_type \<Rightarrow> go_type" where
  "underlying (TNamed _ _ t) = underlying t"
| "underlying t = t"

lemma Kind_underlying [simp]: "Kind (underlying t) = Kind t"
  by (induction t) auto

section \<open>Functions\<close>

text \<open>
  A Go function value: one of the program's functions; the function \<open>NewCallback\<close> builds around
  a function of the given type whose first parameter is a marker; the function that every block of
  package \<open>objc\<close> enters, and the one that disposes of a block; the accessors of an instance variable
  of the given type at the given offset.
\<close>

datatype closure =
    UserFn nat
  | MarkerWrapper go_type closure
  | BlockDispatcher
  | BlockDisposer
  | IvarSetter go_type "64 word"
  | IvarGetter go_type "64 word"

fun func_ins :: "go_type \<Rightarrow> go_type list" where
  "func_ins (TFunc ins _ _) = ins"
| "func_ins (TNamed _ _ t) = func_ins t"
| "func_ins _ = []"

fun func_outs :: "go_type \<Rightarrow> go_type list" where
  "func_outs (TFunc _ outs _) = outs"
| "func_outs (TNamed _ _ t) = func_outs t"
| "func_outs _ = []"

fun IsVariadic :: "go_type \<Rightarrow> bool" where
  "IsVariadic (TFunc _ _ v) = v"
| "IsVariadic (TNamed _ _ t) = IsVariadic t"
| "IsVariadic _ = False"

definition NumIn :: "go_type \<Rightarrow> nat" where
  "NumIn t = length (func_ins t)"

definition NumOut :: "go_type \<Rightarrow> nat" where
  "NumOut t = length (func_outs t)"

definition errorType :: go_type where
  "errorType = TNamed [] ''error'' TInterface"

section \<open>How types print\<close>

fun decimal :: "nat \<Rightarrow> string" where
  "decimal n = (if n < 10 then [char_of (48 + n)] else decimal (n div 10) @ [char_of (48 + n mod 10)])"

fun join :: "string \<Rightarrow> string list \<Rightarrow> string" where
  "join sep [] = []"
| "join sep [s] = s"
| "join sep (s # t # ss) = s @ sep @ join sep (t # ss)"

text \<open>
  \<open>Type.String\<close>, which the messages of package \<open>objc\<close> print. The qualifier is the last part of the
  package path.
\<close>

definition package_name :: "string \<Rightarrow> string" where
  "package_name path = rev (takeWhile (\<lambda>c. c \<noteq> CHR ''/'') (rev path))"

definition variadic_string :: "string list \<Rightarrow> string list" where
  "variadic_string ins = butlast ins @ [''...'' @ drop 2 (last ins)]"

fun type_String :: "go_type \<Rightarrow> string" where
  "type_String (TPrim p) = kind_string (prim_kind p)"
| "type_String (TNamed pkg n _) = (if pkg = [] then n else package_name pkg @ ''.'' @ n)"
| "type_String (TPointer t) = ''*'' @ type_String t"
| "type_String (TSlice t) = ''[]'' @ type_String t"
| "type_String (TArray n t) = ''['' @ decimal n @ '']'' @ type_String t"
| "type_String (TStruct fs) =
     (if fs = [] then ''struct {}''
      else ''struct { '' @ join ''; '' (map (\<lambda>(n, t). n @ '' '' @ type_String t) fs) @ '' }'')"
| "type_String (TFunc ins outs v) =
     (let ps = map type_String ins; os = map type_String outs
      in ''func('' @ join '', '' (if v then variadic_string ps else ps) @ '')'' @
         (case os of [] \<Rightarrow> [] | [r] \<Rightarrow> '' '' @ r | _ \<Rightarrow> '' ('' @ join '', '' os @ '')''))"
| "type_String TInterface = ''interface {}''"
| "type_String (TMap k v) = ''map['' @ type_String k @ '']'' @ type_String v"
| "type_String (TChan t) = ''chan '' @ type_String t"

section \<open>Size and alignment\<close>

fun prim_size :: "prim \<Rightarrow> nat" where
  "prim_size PBool = 1"
| "prim_size PInt8 = 1"
| "prim_size PUint8 = 1"
| "prim_size PInt16 = 2"
| "prim_size PUint16 = 2"
| "prim_size PInt32 = 4"
| "prim_size PUint32 = 4"
| "prim_size PFloat32 = 4"
| "prim_size PComplex128 = 16"
| "prim_size PString = 16"
| "prim_size _ = 8"

fun prim_align :: "prim \<Rightarrow> nat" where
  "prim_align PComplex64 = 4"
| "prim_align PComplex128 = 8"
| "prim_align PString = 8"
| "prim_align p = prim_size p"

definition align_up :: "nat \<Rightarrow> nat \<Rightarrow> nat" where
  "align_up n a = (n + a - 1) div a * a"

text \<open>
  \<open>struct_end\<close> lays the fields out from an offset: each field starts at the next multiple of its
  alignment. It returns the end of the last field and that field's size. The Go compiler adds one
  byte to a non-empty struct whose last field has size zero, so that the address of that field
  stays inside the struct.
\<close>

fun Size :: "go_type \<Rightarrow> nat"
and Align :: "go_type \<Rightarrow> nat"
and struct_end :: "(string \<times> go_type) list \<Rightarrow> nat \<Rightarrow> nat \<Rightarrow> nat \<times> nat"
and fields_align :: "(string \<times> go_type) list \<Rightarrow> nat" where
  "Size (TPrim p) = prim_size p"
| "Size (TNamed _ _ t) = Size t"
| "Size (TPointer _) = 8"
| "Size (TSlice _) = 24"
| "Size (TArray n t) = n * Size t"
| "Size (TStruct fs) =
     (let (e, l) = struct_end fs 0 1;
          e' = (if 0 < e \<and> l = 0 then e + 1 else e)
      in align_up e' (fields_align fs))"
| "Size (TFunc _ _ _) = 8"
| "Size TInterface = 16"
| "Size (TMap _ _) = 8"
| "Size (TChan _) = 8"
| "Align (TPrim p) = prim_align p"
| "Align (TNamed _ _ t) = Align t"
| "Align (TPointer _) = 8"
| "Align (TSlice _) = 8"
| "Align (TArray _ t) = Align t"
| "Align (TStruct fs) = fields_align fs"
| "Align (TFunc _ _ _) = 8"
| "Align TInterface = 8"
| "Align (TMap _ _) = 8"
| "Align (TChan _) = 8"
| "struct_end [] off l = (off, l)"
| "struct_end ((_, t) # fs) off l = struct_end fs (align_up off (Align t) + Size t) (Size t)"
| "fields_align [] = 1"
| "fields_align ((_, t) # fs) = max (Align t) (fields_align fs)"

lemma prim_align_pos: "0 < prim_align p"
  by (cases p) auto

lemma fields_align_pos [simp]: "0 < fields_align fs"
proof (induction fs)
  case (Cons f fs)
  then show ?case by (cases f) (simp add: less_max_iff_disj)
qed simp

lemma Align_pos [simp]: "0 < Align t"
  by (induction t) (simp_all add: prim_align_pos)

lemma align_up_dvd [simp]: "a dvd align_up n a"
  by (simp add: align_up_def)

lemma align_up_ge:
  assumes "0 < a"
  shows "n \<le> align_up n a"
proof -
  have "n + a - 1 = align_up n a + (n + a - 1) mod a"
    by (simp add: align_up_def)
  moreover have "(n + a - 1) mod a < a"
    using assms by simp
  ultimately show ?thesis
    by linarith
qed

lemma align_up_id:
  assumes "0 < a" "a dvd n"
  shows "align_up n a = n"
proof -
  obtain k where n: "n = a * k"
    using assms(2) by blast
  have "n + a - 1 = (a - 1) + a * k"
    using assms(1) n by simp
  also have "\<dots> div a = k"
    using assms(1) by (subst div_mult_self2) auto
  finally show ?thesis
    by (simp add: align_up_def n)
qed

lemma prim_align_dvd: "prim_align p dvd prim_size p"
  by (cases p) auto

lemma Align_dvd_Size: "Align t dvd Size t"
  by (induction t) (auto simp: prim_align_dvd Let_def split: prod.splits)

end
