(* ===== verification/FfiDesc.thy ===== *)
theory FfiDesc
  imports GoReflect
begin

text \<open>
  The translation of Go types to the call engine's type descriptors (\<open>goTypeToFfiType\<close> and
  \<open>goArgTypeToFfiType\<close> of \<^verbatim>\<open>purego.go\<close>): which types are accepted, which panic with which message,
  and when the descriptor of an aggregate describes the memory layout that Go really uses.
\<close>

section \<open>Descriptors\<close>

text \<open>
  The engine's predefined descriptors are constants of its package, named here as there. A
  descriptor the library builds itself has kind \<open>StructType\<close>, a size, an alignment and members.
\<close>

datatype ffi_type =
    VoidTypeDescriptor
  | SInt8TypeDescriptor | UInt8TypeDescriptor
  | SInt16TypeDescriptor | UInt16TypeDescriptor
  | SInt32TypeDescriptor | UInt32TypeDescriptor
  | SInt64TypeDescriptor | UInt64TypeDescriptor
  | FloatTypeDescriptor | DoubleTypeDescriptor
  | PointerTypeDescriptor
  | StructDescriptor nat nat "ffi_type list"

definition unsupported_kind :: "kind \<Rightarrow> panic" where
  "unsupported_kind k = PanicMsg (''purego: unsupported kind '' @ kind_string k)"

fun scalar_descriptor :: "kind \<Rightarrow> ffi_type res" where
  "scalar_descriptor KInt8 = Inr SInt8TypeDescriptor"
| "scalar_descriptor KUint8 = Inr UInt8TypeDescriptor"
| "scalar_descriptor KBool = Inr UInt8TypeDescriptor"
| "scalar_descriptor KInt16 = Inr SInt16TypeDescriptor"
| "scalar_descriptor KUint16 = Inr UInt16TypeDescriptor"
| "scalar_descriptor KInt32 = Inr SInt32TypeDescriptor"
| "scalar_descriptor KUint32 = Inr UInt32TypeDescriptor"
| "scalar_descriptor KInt64 = Inr SInt64TypeDescriptor"
| "scalar_descriptor KInt = Inr SInt64TypeDescriptor"
| "scalar_descriptor KUint64 = Inr UInt64TypeDescriptor"
| "scalar_descriptor KUint = Inr UInt64TypeDescriptor"
| "scalar_descriptor KUintptr = Inr UInt64TypeDescriptor"
| "scalar_descriptor KFloat32 = Inr FloatTypeDescriptor"
| "scalar_descriptor KFloat64 = Inr DoubleTypeDescriptor"
| "scalar_descriptor KPointer = Inr PointerTypeDescriptor"
| "scalar_descriptor KUnsafePointer = Inr PointerTypeDescriptor"
| "scalar_descriptor KFunc = Inr PointerTypeDescriptor"
| "scalar_descriptor KSlice = Inr PointerTypeDescriptor"
| "scalar_descriptor KString = Inr PointerTypeDescriptor"
| "scalar_descriptor k = Inl (unsupported_kind k)"

fun goTypeToFfiType :: "go_type \<Rightarrow> ffi_type res"
and fields_to_ffi :: "(string \<times> go_type) list \<Rightarrow> ffi_type list res" where
  "goTypeToFfiType (TNamed _ _ t) = goTypeToFfiType t"
| "goTypeToFfiType (TArray n t) =
     bind_res (goTypeToFfiType t) (\<lambda>elemDesc.
       Inr (StructDescriptor (Size (TArray n t)) (Align (TArray n t)) (replicate n elemDesc)))"
| "goTypeToFfiType (TStruct fs) =
     bind_res (fields_to_ffi fs) (\<lambda>ms.
       Inr (StructDescriptor (Size (TStruct fs)) (Align (TStruct fs)) ms))"
| "goTypeToFfiType t = scalar_descriptor (Kind t)"
| "fields_to_ffi [] = Inr []"
| "fields_to_ffi ((_, t) # fs) =
     bind_res (goTypeToFfiType t) (\<lambda>d. bind_res (fields_to_ffi fs) (\<lambda>ds. Inr (d # ds)))"

definition goArgTypeToFfiType :: "go_type \<Rightarrow> ffi_type res" where
  "goArgTypeToFfiType t = (if Kind t = KArray then Inr PointerTypeDescriptor else goTypeToFfiType t)"

section \<open>Which types are accepted\<close>

text \<open>
  The first kind without a descriptor, in the order the conversion visits the parts of a type.
  Pointers, slices, functions and strings are not looked into.
\<close>

fun first_unsupported :: "go_type \<Rightarrow> kind option"
and first_unsupported_field :: "(string \<times> go_type) list \<Rightarrow> kind option" where
  "first_unsupported (TNamed _ _ t) = first_unsupported t"
| "first_unsupported (TArray _ t) = first_unsupported t"
| "first_unsupported (TStruct fs) = first_unsupported_field fs"
| "first_unsupported (TPrim PComplex64) = Some KComplex64"
| "first_unsupported (TPrim PComplex128) = Some KComplex128"
| "first_unsupported TInterface = Some KInterface"
| "first_unsupported (TMap _ _) = Some KMap"
| "first_unsupported (TChan _) = Some KChan"
| "first_unsupported _ = None"
| "first_unsupported_field [] = None"
| "first_unsupported_field ((_, t) # fs) =
     (case first_unsupported t of Some k \<Rightarrow> Some k | None \<Rightarrow> first_unsupported_field fs)"

lemma prim_descriptor_cases:
  "case first_unsupported (TPrim p) of
     None \<Rightarrow> \<exists>d. goTypeToFfiType (TPrim p) = Inr d
   | Some k \<Rightarrow> goTypeToFfiType (TPrim p) = Inl (unsupported_kind k)"
  by (cases p) auto

lemma goTypeToFfiType_cases:
  "case first_unsupported t of
     None \<Rightarrow> \<exists>d. goTypeToFfiType t = Inr d
   | Some k \<Rightarrow> goTypeToFfiType t = Inl (unsupported_kind k)"
  "case first_unsupported_field fs of
     None \<Rightarrow> \<exists>ds. fields_to_ffi fs = Inr ds
   | Some k \<Rightarrow> fields_to_ffi fs = Inl (unsupported_kind k)"
proof (induction t and fs rule: goTypeToFfiType_fields_to_ffi.induct)
  case "4_1"
  show ?case by (rule prim_descriptor_cases)
qed (auto split: option.splits)

text \<open>
  The conversion of a Go type either succeeds, exactly when no part of the type that
  is stored by value has an unsupported kind, or panics with the message that names the first such
  kind in field order.
\<close>

lemma goTypeToFfiType_accepts:
  "(\<exists>d. goTypeToFfiType t = Inr d) = (first_unsupported t = None) \<and>
   (goTypeToFfiType t = Inl e) = (\<exists>k. first_unsupported t = Some k \<and>
      e = PanicMsg (''purego: unsupported kind '' @ kind_string k))"
  using goTypeToFfiType_cases(1) [of t]
  by (auto simp: unsupported_kind_def split: option.splits)

section \<open>Descriptors that agree with the memory layout\<close>

text \<open>
  The natural-alignment layout of the C ABIs of the supported targets, computed from the members of
  a descriptor alone.
\<close>

fun c_size :: "ffi_type \<Rightarrow> nat"
and c_align :: "ffi_type \<Rightarrow> nat"
and c_end :: "ffi_type list \<Rightarrow> nat \<Rightarrow> nat"
and c_aligns :: "ffi_type list \<Rightarrow> nat" where
  "c_size VoidTypeDescriptor = 0"
| "c_size SInt8TypeDescriptor = 1"
| "c_size UInt8TypeDescriptor = 1"
| "c_size SInt16TypeDescriptor = 2"
| "c_size UInt16TypeDescriptor = 2"
| "c_size SInt32TypeDescriptor = 4"
| "c_size UInt32TypeDescriptor = 4"
| "c_size SInt64TypeDescriptor = 8"
| "c_size UInt64TypeDescriptor = 8"
| "c_size FloatTypeDescriptor = 4"
| "c_size DoubleTypeDescriptor = 8"
| "c_size PointerTypeDescriptor = 8"
| "c_size (StructDescriptor _ _ ms) = align_up (c_end ms 0) (c_aligns ms)"
| "c_align (StructDescriptor _ _ ms) = c_aligns ms"
| "c_align VoidTypeDescriptor = 1"
| "c_align d = c_size d"
| "c_end [] off = off"
| "c_end (d # ds) off = c_end ds (align_up off (c_align d) + c_size d)"
| "c_aligns [] = 1"
| "c_aligns (d # ds) = max (c_align d) (c_aligns ds)"

text \<open>Every size and alignment a descriptor records is the one its members have.\<close>

fun desc_layout_ok :: "ffi_type \<Rightarrow> bool" where
  "desc_layout_ok (StructDescriptor s a ms) \<longleftrightarrow>
     s = align_up (c_end ms 0) (c_aligns ms) \<and> a = c_aligns ms \<and> (\<forall>d\<in>set ms. desc_layout_ok d)"
| "desc_layout_ok _ \<longleftrightarrow> True"

text \<open>
  The types whose Go layout is a C layout: no string or slice stored by value (Go stores two or
  three words, the descriptor has one pointer), and no struct that ends in a zero-size field after
  other data (Go pads it, C does not).
\<close>

fun c_compatible :: "go_type \<Rightarrow> bool"
and c_compatible_fields :: "(string \<times> go_type) list \<Rightarrow> bool" where
  "c_compatible (TNamed _ _ t) \<longleftrightarrow> c_compatible t"
| "c_compatible (TArray _ t) \<longleftrightarrow> c_compatible t"
| "c_compatible (TStruct fs) \<longleftrightarrow> c_compatible_fields fs \<and>
     (case struct_end fs 0 1 of (e, l) \<Rightarrow> \<not> (0 < e \<and> l = 0))"
| "c_compatible (TPrim p) \<longleftrightarrow> p \<noteq> PString"
| "c_compatible (TSlice _) \<longleftrightarrow> False"
| "c_compatible _ \<longleftrightarrow> True"
| "c_compatible_fields [] \<longleftrightarrow> True"
| "c_compatible_fields ((_, t) # fs) \<longleftrightarrow> c_compatible t \<and> c_compatible_fields fs"

lemma c_end_replicate:
  "c_align d dvd off \<Longrightarrow> c_align d dvd c_size d \<Longrightarrow> 0 < c_align d \<Longrightarrow>
     c_end (replicate n d) off = off + n * c_size d"
  by (induction n arbitrary: off) (auto simp: align_up_id algebra_simps)

lemma c_aligns_replicate: "0 < c_align d \<Longrightarrow> c_aligns (replicate n d) = (if n = 0 then 1 else c_align d)"
  by (induction n) (auto simp: max_def split: if_splits)

text \<open>
  An empty array has alignment 1 in the descriptor but the element's alignment in Go, so the
  agreement is stated for types whose arrays are not empty.
\<close>

fun no_empty_array :: "go_type \<Rightarrow> bool"
and no_empty_array_fields :: "(string \<times> go_type) list \<Rightarrow> bool" where
  "no_empty_array (TNamed _ _ t) \<longleftrightarrow> no_empty_array t"
| "no_empty_array (TArray n t) \<longleftrightarrow> 0 < n \<and> no_empty_array t"
| "no_empty_array (TStruct fs) \<longleftrightarrow> no_empty_array_fields fs"
| "no_empty_array _ \<longleftrightarrow> True"
| "no_empty_array_fields [] \<longleftrightarrow> True"
| "no_empty_array_fields ((_, t) # fs) \<longleftrightarrow> no_empty_array t \<and> no_empty_array_fields fs"

lemma prim_descriptor_layout:
  "goTypeToFfiType (TPrim p) = Inr d \<Longrightarrow> p \<noteq> PString \<Longrightarrow>
     desc_layout_ok d \<and> c_size d = prim_size p \<and> c_align d = prim_align p"
  by (cases p) auto

lemma descriptor_layout:
  "goTypeToFfiType t = Inr d \<Longrightarrow> c_compatible t \<Longrightarrow> no_empty_array t \<Longrightarrow>
     desc_layout_ok d \<and> c_size d = Size t \<and> c_align d = Align t"
  "fields_to_ffi fs = Inr ds \<Longrightarrow> c_compatible_fields fs \<Longrightarrow> no_empty_array_fields fs \<Longrightarrow>
     (\<forall>d\<in>set ds. desc_layout_ok d) \<and> c_aligns ds = fields_align fs \<and>
     (\<forall>off l. c_end ds off = fst (struct_end fs off l))"
proof (induction t and fs arbitrary: d and ds rule: goTypeToFfiType_fields_to_ffi.induct)
  case (2 n t)
  then obtain e where e: "goTypeToFfiType t = Inr e"
    and d: "d = StructDescriptor (n * Size t) (Align t) (replicate n e)"
    by (auto simp: res_simps)
  with 2 have IH: "desc_layout_ok e" "c_size e = Size t" "c_align e = Align t"
    by auto
  then have "c_end (replicate n e) 0 = n * Size t" "c_aligns (replicate n e) = Align t"
    using "2.prems"(3) by (simp_all add: c_end_replicate c_aligns_replicate Align_dvd_Size)
  moreover have "align_up (n * Size t) (Align t) = n * Size t"
    by (intro align_up_id) (auto simp: Align_dvd_Size)
  ultimately show ?case
    using IH d by (auto simp: in_set_replicate)
next
  case (3 fs)
  then obtain ms where ms: "fields_to_ffi fs = Inr ms"
    and d: "d = StructDescriptor (Size (TStruct fs)) (Align (TStruct fs)) ms"
    by (auto simp: res_simps)
  with 3 have IH: "\<forall>d\<in>set ms. desc_layout_ok d" "c_aligns ms = fields_align fs"
    "c_end ms 0 = fst (struct_end fs 0 1)"
    by auto
  have "Size (TStruct fs) = align_up (c_end ms 0) (c_aligns ms)"
    using "3.prems"(2) IH by (auto simp: Let_def split: prod.splits)
  then show ?case
    using IH d by simp
next
  case "4_1"
  then show ?case by (simp add: prim_descriptor_layout)
qed (auto simp: res_simps)

text \<open>
  Property C17. For a type whose layout C shares (no string or slice stored by value, no padding
  behind a trailing zero-size field, no empty array), the descriptor records the size and alignment
  Go uses, and these are the ones the C ABI computes from its members, at every level of nesting.
\<close>

theorem goTypeToFfiType_layout:
  assumes "goTypeToFfiType t = Inr d" "c_compatible t" "no_empty_array t"
  shows "desc_layout_ok d \<and> c_size d = Size t \<and> c_align d = Align t"
  using descriptor_layout(1) [OF assms] .

definition nested_example :: go_type where
  "nested_example = TStruct [(''A'', TPrim PUint8),
     (''R'', TStruct [(''X'', TPrim PFloat64), (''Y'', TArray 3 (TPrim PInt16))]), (''B'', TPrim PInt32)]"

theorem goTypeToFfiType_layout_witness:
  "\<exists>d. goTypeToFfiType nested_example = Inr d \<and> desc_layout_ok d \<and> c_size d = 32"
proof -
  obtain d where d: "goTypeToFfiType nested_example = Inr d"
    by (simp add: nested_example_def)
  have "c_compatible nested_example" "no_empty_array nested_example" "Size nested_example = 32"
    by (simp_all add: nested_example_def align_up_def)
  with goTypeToFfiType_layout [OF d] d show ?thesis
    by auto
qed

text \<open>
  A struct with a string field is accepted, but its descriptor records Go's size, in
  which the string takes two words, over members in which it is one pointer: the recorded size and
  the members' size differ, and the field after the string sits at another offset.
\<close>

lemma struct_with_string_layout_mismatch:
  "goTypeToFfiType (TStruct [(''S'', TPrim PString), (''N'', TPrim PInt64)]) =
     Inr (StructDescriptor 24 8 [PointerTypeDescriptor, SInt64TypeDescriptor]) \<and>
   c_size (StructDescriptor 24 8 [PointerTypeDescriptor, SInt64TypeDescriptor]) = 16"
  by (simp add: align_up_def)

end
