(* ===== verification/GoMemory.thy ===== *)
theory GoMemory
  imports Prelude
begin

text \<open>
  The process memory that Go code, the call engine and native code share: bytes at 64-bit
  addresses, of which some are mapped, plus the Go heap, from which \<open>new\<close>, \<open>make\<close>, \<open>append\<close> and
  \<open>reflect.New\<close> take fresh blocks. The rest of the process (loaded libraries, file system, C
  globals) is the field \<open>world\<close>, of any type. Words are little-endian, as on the supported targets.
\<close>

section \<open>Little-endian words\<close>

fun le_bytes :: "nat \<Rightarrow> uintptr \<Rightarrow> byte list" where
  "le_bytes 0 w = []"
| "le_bytes (Suc n) w = ucast w # le_bytes n (drop_bit 8 w)"

fun of_le :: "byte list \<Rightarrow> uintptr" where
  "of_le [] = 0"
| "of_le (b # bs) = or (ucast b) (push_bit 8 (of_le bs))"

lemma length_le_bytes [simp]: "length (le_bytes n w) = n"
  by (induction n arbitrary: w) auto

lemma of_le_le_bytes: "of_le (le_bytes n w) = take_bit (8 * n) w"
proof (induction n arbitrary: w)
  case (Suc n)
  show ?case
    by (rule bit_word_eqI) (auto simp: Suc bit_simps)
qed simp

lemma of_le_le_bytes_8 [simp]: "of_le (le_bytes 8 w) = w"
  by (simp add: of_le_le_bytes take_bit_length_eq [of w, simplified])

lemma take_le_bytes: "m \<le> n \<Longrightarrow> take m (le_bytes n w) = le_bytes m w"
proof (induction n arbitrary: m w)
  case (Suc n)
  then show ?case by (cases m) auto
qed simp

lemma of_le_append_zeros: "of_le (bs @ replicate k 0) = of_le bs"
proof (induction bs)
  case Nil
  then show ?case by (induction k) auto
qed simp

lemma le_bytes_of_le: "length bs = n \<Longrightarrow> n \<le> 8 \<Longrightarrow> le_bytes n (of_le bs) = bs"
proof (induction bs arbitrary: n)
  case (Cons b bs)
  then obtain k where n: "n = Suc k" "length bs = k" "k \<le> 7"
    by (cases n) auto
  have high: "\<not> bit (of_le bs) i" if "56 \<le> i" for i
  proof -
    have gen: "8 * length xs \<le> i \<Longrightarrow> \<not> bit (of_le xs) i" for xs :: "byte list" and i
      by (induction xs arbitrary: i) (auto simp: bit_simps dest: bit_imp_le_length)
    show ?thesis
      by (rule gen) (use n that in simp)
  qed
  have "ucast (of_le (b # bs)) = b"
    by (rule bit_word_eqI) (auto simp: bit_simps)
  moreover have "drop_bit 8 (of_le (b # bs)) = of_le bs"
  proof (rule bit_word_eqI)
    fix i
    show "bit (drop_bit 8 (of_le (b # bs))) i = bit (of_le bs) i"
      using high [of i] by (cases "i < 56") (auto simp: bit_simps dest: bit_imp_le_length)
  qed
  ultimately show ?case
    using Cons.IH [of k] n by simp
qed simp

section \<open>Loads, stores and allocation\<close>

record 'w mem =
  mbytes :: "uintptr \<Rightarrow> byte option"
  mbrk :: nat
  world :: 'w

definition load_byte :: "'w mem \<Rightarrow> uintptr \<Rightarrow> byte res" where
  "load_byte m a = (case mbytes m a of None \<Rightarrow> Inl (Segv a) | Some b \<Rightarrow> Inr b)"

fun load :: "'w mem \<Rightarrow> uintptr \<Rightarrow> nat \<Rightarrow> byte list res" where
  "load m a 0 = Inr []"
| "load m a (Suc n) =
     bind_res (load_byte m a) (\<lambda>b. bind_res (load m (a + 1) n) (\<lambda>bs. Inr (b # bs)))"

definition load_word :: "'w mem \<Rightarrow> uintptr \<Rightarrow> uintptr res" where
  "load_word m a = bind_res (load m a 8) (\<lambda>bs. Inr (of_le bs))"

fun store :: "'w mem \<Rightarrow> uintptr \<Rightarrow> byte list \<Rightarrow> 'w mem res" where
  "store m a [] = Inr m"
| "store m a (b # bs) =
     bind_res (load_byte m a) (\<lambda>_.
       store (m\<lparr>mbytes := (mbytes m)(a \<mapsto> b)\<rparr>) (a + 1) bs)"

definition heap_limit :: nat where
  "heap_limit = 2 ^ 47"

text \<open>A fresh heap block that holds the given bytes: \<open>new\<close> or \<open>append\<close>, and the initialisation.\<close>

definition gnew :: "byte list \<Rightarrow> 'w mem \<Rightarrow> (uintptr \<times> 'w mem) res" where
  "gnew bs m =
     (if mbrk m + length bs < heap_limit
      then Inr (of_nat (mbrk m),
        m\<lparr>mbytes := (\<lambda>x. if mbrk m \<le> unat x \<and> unat x < mbrk m + length bs
                          then Some (bs ! (unat x - mbrk m)) else mbytes m x),
          mbrk := mbrk m + max 1 (length bs)\<rparr>)
      else Inl OutOfMemory)"

section \<open>Characterisations\<close>

named_theorems mem_simps "what loads, stores and allocations do to memory"

lemma load_byte_Inr [mem_simps]: "load_byte m a = Inr b \<longleftrightarrow> mbytes m a = Some b"
  by (auto simp: load_byte_def split: option.splits)

lemma load_Inr_iff:
  "load m a n = Inr bs \<longleftrightarrow>
     length bs = n \<and> (\<forall>i<n. mbytes m (a + of_nat i) = Some (bs ! i))"
proof (induction n arbitrary: a bs)
  case (Suc n)
  show ?case
  proof (cases bs)
    case (Cons b bs')
    have *: "load m (a + 1) n = Inr bs' \<longleftrightarrow>
        length bs' = n \<and> (\<forall>i<n. mbytes m (a + of_nat (Suc i)) = Some (bs' ! i))"
      by (simp add: Suc add.assoc add.commute add.left_commute)
    show ?thesis
      unfolding Cons
      by (auto simp: res_simps mem_simps * All_less_Suc2 simp del: of_nat_Suc)
  qed (simp add: res_simps)
qed auto

lemma load_length: "load m a n = Inr bs \<Longrightarrow> length bs = n"
  by (simp add: load_Inr_iff)

lemma load_append:
  "load m a (length xs + length ys) = Inr (xs @ ys) \<longleftrightarrow>
     load m a (length xs) = Inr xs \<and> load m (a + of_nat (length xs)) (length ys) = Inr ys"
proof -
  have "(\<forall>i<length xs + length ys. P i) \<longleftrightarrow>
      (\<forall>i<length xs. P i) \<and> (\<forall>j<length ys. P (length xs + j))" for P :: "nat \<Rightarrow> bool"
    by (auto, metis add_diff_inverse_nat nat_add_left_cancel_less)
  then show ?thesis
    by (simp add: load_Inr_iff nth_append add.assoc)
qed

lemma load_prefix: "load m a n = Inr bs \<Longrightarrow> k \<le> n \<Longrightarrow> load m a k = Inr (take k bs)"
  by (simp add: load_Inr_iff)

lemma store_bytes_other:
  "store m a bs = Inr m' \<Longrightarrow> (\<forall>i<length bs. x \<noteq> a + of_nat i) \<Longrightarrow> mbytes m' x = mbytes m x"
proof (induction bs arbitrary: m a)
  case (Cons b bs)
  have "\<forall>i<length bs. x \<noteq> (a + 1) + of_nat i"
  proof (intro allI impI)
    fix i assume "i < length bs"
    then have "x \<noteq> a + of_nat (Suc i)"
      using Cons.prems(2) by (auto simp del: of_nat_Suc)
    then show "x \<noteq> (a + 1) + of_nat i"
      by (simp add: add.assoc)
  qed
  moreover have "x \<noteq> a"
    using Cons.prems(2) by force
  ultimately show ?case
    using Cons.IH [of _ "a + 1"] Cons.prems(1) by (auto simp: res_simps)
qed simp

lemma store_frame:
  "store m a bs = Inr m' \<Longrightarrow> mbrk m' = mbrk m \<and> world m' = world m \<and>
     (\<forall>x. mbytes m' x = None \<longleftrightarrow> mbytes m x = None)"
proof (induction bs arbitrary: m a)
  case (Cons b bs)
  then show ?case
    by (fastforce simp: res_simps mem_simps split: if_splits)
qed simp

lemma store_load:
  "store m a bs = Inr m' \<Longrightarrow> length bs \<le> 2 ^ 64 \<Longrightarrow> load m' a (length bs) = Inr bs"
proof (induction bs arbitrary: m a)
  case (Cons b bs)
  let ?m = "m\<lparr>mbytes := (mbytes m)(a \<mapsto> b)\<rparr>"
  have st: "store ?m (a + 1) bs = Inr m'"
    using Cons.prems(1) by (auto simp: res_simps)
  have "\<forall>i<length bs. a \<noteq> (a + 1) + of_nat i"
  proof (intro allI impI notI)
    fix i assume i: "i < length bs" and "a = (a + 1) + of_nat i"
    then have "(of_nat (Suc i) :: uintptr) = 0"
      by (simp add: add.assoc)
    then have "2 ^ 64 dvd Suc i"
      by (simp add: word_of_nat_eq_0_iff del: of_nat_Suc)
    with i Cons.prems(2) show False
      by (auto dest: dvd_imp_le)
  qed
  with st have "mbytes m' a = Some b"
    by (subst store_bytes_other [OF st]) auto
  moreover have "load m' (a + 1) (length bs) = Inr bs"
    using Cons.IH [OF st] Cons.prems(2) by simp
  ultimately show ?case
    by (simp add: load_byte_def)
qed simp

lemma store_total:
  "(\<forall>i<length bs. mbytes m (a + of_nat i) \<noteq> None) \<Longrightarrow> \<exists>m'. store m a bs = Inr m'"
proof (induction bs arbitrary: m a)
  case (Cons b bs)
  have "mbytes m a \<noteq> None"
    using Cons.prems by force
  moreover have "\<forall>i<length bs. mbytes m (a + 1 + of_nat i) \<noteq> None"
  proof (intro allI impI)
    fix i assume "i < length bs"
    then show "mbytes m (a + 1 + of_nat i) \<noteq> None"
      using Cons.prems [rule_format, of "Suc i"] by (simp add: add.assoc)
  qed
  ultimately show ?case
    using Cons.IH [of "m\<lparr>mbytes := (mbytes m)(a \<mapsto> b)\<rparr>" "a + 1"]
    by (auto simp: load_byte_def)
qed simp

section \<open>Blocks at offsets from a base\<close>

lemma load_cong_bytes:
  "(\<forall>i<n. mbytes m' (a + of_nat i) = mbytes m (a + of_nat i)) \<Longrightarrow> load m' a n = load m a n"
proof (induction n arbitrary: a)
  case (Suc n)
  have "\<forall>i<n. mbytes m' (a + 1 + of_nat i) = mbytes m (a + 1 + of_nat i)"
  proof (intro allI impI)
    fix i assume "i < n"
    then show "mbytes m' (a + 1 + of_nat i) = mbytes m (a + 1 + of_nat i)"
      using Suc.prems [rule_format, of "Suc i"] by (simp add: add.assoc)
  qed
  moreover have "mbytes m' a = mbytes m a"
    using Suc.prems [rule_format, of 0] by simp
  ultimately show ?case
    using Suc.IH [of "a + 1"] by (simp add: load_byte_def)
qed simp

lemma offset_eq_iff:
  "i < 2 ^ 64 \<Longrightarrow> j < 2 ^ 64 \<Longrightarrow> (a :: uintptr) + of_nat i = a + of_nat j \<longleftrightarrow> i = j"
  by (simp only: add_left_cancel) (simp add: word_unat_eq_iff unat_of_nat)

text \<open>A store to one block leaves a disjoint block of the same object as it was.\<close>

lemma store_disjoint:
  assumes st: "store m (a + of_nat p) bs = Inr m'"
    and dis: "p + length bs \<le> q \<or> q + n \<le> p"
    and small: "p + length bs \<le> 2 ^ 63" "q + n \<le> 2 ^ 63"
  shows "load m' (a + of_nat q) n = load m (a + of_nat q) n"
proof (rule load_cong_bytes, intro allI impI)
  fix i assume i: "i < n"
  have "a + of_nat (q + i) \<noteq> a + of_nat (p + j)" if "j < length bs" for j
  proof -
    have "(2::nat) ^ 63 \<le> 2 ^ 64"
      by simp
    then have "q + i < 2 ^ 64" "p + j < 2 ^ 64"
      using i that small by linarith+
    moreover have "q + i \<noteq> p + j"
      using i that dis by linarith
    ultimately show ?thesis
      by (simp only: offset_eq_iff not_False_eq_True)
  qed
  then show "mbytes m' (a + of_nat q + of_nat i) = mbytes m (a + of_nat q + of_nat i)"
    by (intro store_bytes_other [OF st]) (simp add: add.assoc)
qed

text \<open>A part of a block holds the corresponding part of its bytes.\<close>

lemma load_slice:
  assumes "load m a (length bs) = Inr bs" "k + n \<le> length bs"
  shows "load m (a + of_nat k) n = Inr (take n (drop k bs))"
proof -
  have "mbytes m (a + of_nat k + of_nat i) = Some (bs ! (k + i))" if "i < n" for i
    using assms that load_Inr_iff [of m a "length bs" bs] by (simp add: add.assoc flip: of_nat_add)
  then show ?thesis
    using assms(2) by (simp add: load_Inr_iff)
qed

section \<open>The Go heap only grows\<close>

text \<open>
  \<open>mem_ext m m'\<close>: every address below the heap's end in \<open>m\<close> still holds what it held, and so does
  every address outside the region the Go heap may still take.
\<close>

definition mem_ext :: "'w mem \<Rightarrow> 'w mem \<Rightarrow> bool" where
  "mem_ext m m' \<longleftrightarrow> mbrk m \<le> mbrk m' \<and>
     (\<forall>x. unat x < mbrk m \<or> heap_limit \<le> unat x \<longrightarrow> mbytes m' x = mbytes m x)"

lemma mem_ext_refl [simp]: "mem_ext m m"
  by (simp add: mem_ext_def)

lemma mem_ext_trans [trans]: "mem_ext m1 m2 \<Longrightarrow> mem_ext m2 m3 \<Longrightarrow> mem_ext m1 m3"
  unfolding mem_ext_def by (metis le_trans less_le_trans)

text \<open>A block \<open>owned\<close> by the heap, or by native code, is not touched by later allocations.\<close>

definition settled :: "'w mem \<Rightarrow> uintptr \<Rightarrow> nat \<Rightarrow> bool" where
  "settled m a n \<longleftrightarrow> (\<forall>i<n. unat (a + of_nat i) < mbrk m \<or> heap_limit \<le> unat (a + of_nat i))"

lemma load_mem_ext:
  "mem_ext m m' \<Longrightarrow> settled m a n \<Longrightarrow> load m' a n = Inr bs \<longleftrightarrow> load m a n = Inr bs"
  by (auto simp: mem_ext_def settled_def load_Inr_iff)

lemma settled_mem_ext: "mem_ext m m' \<Longrightarrow> settled m a n \<Longrightarrow> settled m' a n"
  unfolding mem_ext_def settled_def by (meson less_le_trans)

lemma unat_heap_offset:
  assumes "b + n < heap_limit" "i < n"
  shows "unat (of_nat b + of_nat i :: uintptr) = b + i"
proof -
  have "unat (of_nat (b + i) :: uintptr) = b + i"
    using assms unfolding unat_of_nat by (simp add: heap_limit_def)
  then show ?thesis
    by simp
qed

lemma gnew_spec:
  assumes "gnew bs m = Inr (a, m')"
  shows "mem_ext m m'" "load m' a (length bs) = Inr bs" "settled m' a (length bs)"
    "a = of_nat (mbrk m)" "world m' = world m" "mbrk m < mbrk m'"
proof -
  from assms have lim: "mbrk m + length bs < heap_limit" and a: "a = of_nat (mbrk m)"
    and m': "m' = m\<lparr>mbytes := (\<lambda>x. if mbrk m \<le> unat x \<and> unat x < mbrk m + length bs
          then Some (bs ! (unat x - mbrk m)) else mbytes m x),
        mbrk := mbrk m + max 1 (length bs)\<rparr>"
    by (auto simp: gnew_def split: if_splits)
  show "mem_ext m m'"
    using lim by (auto simp: mem_ext_def m')
  show "load m' a (length bs) = Inr bs"
    using unat_heap_offset [OF lim] by (auto simp: load_Inr_iff m' a)
  show "settled m' a (length bs)"
    using unat_heap_offset [OF lim] by (auto simp: settled_def m' a)
  show "a = of_nat (mbrk m)" "world m' = world m" "mbrk m < mbrk m'"
    by (simp_all add: a m')
qed

section \<open>Memory stays mapped\<close>

text \<open>
  The weakest thing every step of a call guarantees: nothing that was mapped is unmapped, and the Go
  heap does not shrink or leave its region.
\<close>

definition grows :: "'w mem \<Rightarrow> 'w mem \<Rightarrow> bool" where
  "grows m m' \<longleftrightarrow> mbrk m \<le> mbrk m' \<and> (mbrk m \<le> heap_limit \<longrightarrow> mbrk m' \<le> heap_limit) \<and>
     (\<forall>a. mbytes m a \<noteq> None \<longrightarrow> mbytes m' a \<noteq> None)"

lemma grows_refl [simp]: "grows m m"
  by (simp add: grows_def)

lemma grows_trans [trans]: "grows m1 m2 \<Longrightarrow> grows m2 m3 \<Longrightarrow> grows m1 m3"
  unfolding grows_def by (meson le_trans)

lemma grows_gnew: "gnew bs m = Inr (a, m') \<Longrightarrow> grows m m'"
  by (auto simp: gnew_def grows_def split: if_splits)

lemma grows_store: "store m a bs = Inr m' \<Longrightarrow> grows m m'"
  using store_frame [of m a bs m'] by (simp add: grows_def)

end
