(* ===== verification/Goffi.thy ===== *)
theory Goffi
  imports FfiDesc GoMemory
begin

text \<open>
  The interface of the call engine (module \<^verbatim>\<open>github.com/go-webgpu/goffi\<close>, not part of this
  repository). Its entry points are the fields of one record, an argument of every definition that
  calls the engine, so nothing here says what the engine does. Pointers are addresses in the shared
  memory: \<open>CallFunction\<close> gets the call interface, the native function, the address for the result and
  the addresses of the argument values, and may change memory and the rest of the process.
\<close>

datatype convention = DefaultCall | UnixCallingConvention

text \<open>
  \<open>types.CallInterface\<close>, as far as this library reads or fills it: the argument types, the return
  type, the convention, and for a variadic call the number of fixed arguments.
\<close>

record call_interface =
  cif_convention :: convention
  cif_ret :: ffi_type
  ArgTypes :: "ffi_type list"
  cif_fixed :: "nat option"

definition zero_cif :: call_interface where
  "zero_cif = \<lparr>cif_convention = DefaultCall, cif_ret = VoidTypeDescriptor, ArgTypes = [], cif_fixed = None\<rparr>"

text \<open>
  The two preparing functions fill an interface through a pointer and return an error; some callers
  ignore the error and go on with the interface as it was left, so both results are there. The last
  three fields are what the Windows files take from the system instead: \<open>SetLastError\<close> of
  \<^verbatim>\<open>kernel32.dll\<close>, and \<open>GetLastError\<close> and \<open>SyscallN\<close> of Go's package \<open>syscall\<close>.
\<close>

record 'w goffi =
  PrepareCallInterface :: "convention \<Rightarrow> ffi_type \<Rightarrow> ffi_type list \<Rightarrow> string option \<times> call_interface"
  PrepareVariadicCallInterface ::
    "convention \<Rightarrow> nat \<Rightarrow> ffi_type \<Rightarrow> ffi_type list \<Rightarrow> string option \<times> call_interface"
  CallFunction ::
    "call_interface \<Rightarrow> uintptr \<Rightarrow> uintptr \<Rightarrow> uintptr list \<Rightarrow> 'w mem \<Rightarrow> uintptr \<times> string option \<times> 'w mem"
  LoadLibrary :: "string \<Rightarrow> 'w mem \<Rightarrow> (string + uintptr) \<times> 'w mem"
  GetSymbol :: "uintptr \<Rightarrow> string \<Rightarrow> 'w mem \<Rightarrow> string + uintptr"
  FreeLibrary :: "uintptr \<Rightarrow> 'w mem \<Rightarrow> string option \<times> 'w mem"
  ffi_NewCallback :: "go_type \<Rightarrow> closure \<Rightarrow> 'w mem \<Rightarrow> (uintptr \<times> 'w mem) res"
  SetLastError :: "uintptr \<Rightarrow> 'w mem \<Rightarrow> 'w mem"
  GetLastError :: "'w mem \<Rightarrow> uintptr"
  syscall_SyscallN :: "uintptr \<Rightarrow> uintptr list \<Rightarrow> 'w mem \<Rightarrow> (uintptr \<times> uintptr \<times> uintptr) \<times> 'w mem"

text \<open>
  What the properties rely on where they name it: an interface prepared without an error records
  what it was prepared with; and a native call, whatever it does to memory, does not unmap memory
  or shrink the Go heap.
\<close>

definition records_types :: "'w goffi \<Rightarrow> bool" where
  "records_types E \<longleftrightarrow>
     (\<forall>c r ts cif. PrepareCallInterface E c r ts = (None, cif) \<longrightarrow> ArgTypes cif = ts \<and> cif_ret cif = r) \<and>
     (\<forall>c n r ts cif. PrepareVariadicCallInterface E c n r ts = (None, cif) \<longrightarrow>
        ArgTypes cif = ts \<and> cif_ret cif = r \<and> cif_fixed cif = Some n)"

definition keeps_heap :: "'w goffi \<Rightarrow> bool" where
  "keeps_heap E \<longleftrightarrow>
     (\<forall>cif fn rv args m e err m'. CallFunction E cif fn rv args m = (e, err, m') \<longrightarrow> grows m m') \<and>
     (\<forall>e m. grows m (SetLastError E e m))"

lemma keeps_heap_call: "keeps_heap E \<Longrightarrow> CallFunction E cif fn rv args m = (e, err, m') \<Longrightarrow> grows m m'"
  unfolding keeps_heap_def by blast

text \<open>
  An engine that prepares everything and performs no call: it makes witnesses concrete.
\<close>

definition idle_engine :: "'w goffi" where
  "idle_engine = \<lparr>
     PrepareCallInterface = (\<lambda>c r ts. (None, \<lparr>cif_convention = c, cif_ret = r, ArgTypes = ts, cif_fixed = None\<rparr>)),
     PrepareVariadicCallInterface =
       (\<lambda>c n r ts. (None, \<lparr>cif_convention = c, cif_ret = r, ArgTypes = ts, cif_fixed = Some n\<rparr>)),
     CallFunction = (\<lambda>cif fn rv args m. (0, None, m)),
     LoadLibrary = (\<lambda>p m. (Inl ''cannot open'', m)),
     GetSymbol = (\<lambda>h n m. Inl ''undefined symbol''),
     FreeLibrary = (\<lambda>h m. (None, m)),
     ffi_NewCallback = (\<lambda>t f m. Inr (4096, m)),
     SetLastError = (\<lambda>e m. m),
     GetLastError = (\<lambda>m. 0),
     syscall_SyscallN = (\<lambda>fn args m. ((0, 0, 0), m))\<rparr>"

lemma records_types_idle [simp]: "records_types idle_engine"
  by (simp add: records_types_def idle_engine_def)

lemma keeps_heap_idle [simp]: "keeps_heap idle_engine"
  by (simp add: keeps_heap_def idle_engine_def)

end
