(* ===== verification/GoPool.thy ===== *)
theory GoPool
  imports GoMemory
begin

text \<open>
  Pools of reusable call contexts (\<open>sync.Pool\<close>). The library keeps three: for the fast path, for the
  reflect path and for \<open>SyscallN\<close>. A pool is the list of the addresses of the contexts that were put
  back; \<open>Get\<close> takes one of them or allocates a zeroed context. Which one it takes, and whether the
  garbage collector has emptied the pool meanwhile, is the caller's choice of the list: the
  properties hold for every list that satisfies the invariant.
\<close>

section \<open>Mapped blocks\<close>

definition mapped :: "'w mem \<Rightarrow> uintptr \<Rightarrow> nat \<Rightarrow> bool" where
  "mapped m a n \<longleftrightarrow> (\<forall>i<n. mbytes m (a + of_nat i) \<noteq> None)"

lemma mapped_load: "load m a n = Inr bs \<Longrightarrow> mapped m a n"
  by (simp add: load_Inr_iff mapped_def)

lemma load_mapped: "mapped m a n \<Longrightarrow> \<exists>bs. load m a n = Inr bs"
proof (induction n arbitrary: a)
  case (Suc n)
  have "mapped m (a + 1) n"
    unfolding mapped_def
  proof (intro allI impI)
    fix i assume "i < n"
    then show "mbytes m (a + 1 + of_nat i) \<noteq> None"
      using Suc.prems [unfolded mapped_def, rule_format, of "Suc i"] by (simp add: add.assoc)
  qed
  moreover have "mbytes m a \<noteq> None"
    using Suc.prems [unfolded mapped_def, rule_format, of 0] by simp
  ultimately show ?case
    using Suc.IH by (fastforce simp: load_byte_def)
qed simp

lemma mapped_part: "mapped m a n \<Longrightarrow> k + j \<le> n \<Longrightarrow> mapped m (a + of_nat k) j"
  unfolding mapped_def
proof (intro allI impI)
  fix i assume "\<forall>i<n. mbytes m (a + of_nat i) \<noteq> None" "k + j \<le> n" "i < j"
  then show "mbytes m (a + of_nat k + of_nat i) \<noteq> None"
    by (simp add: add.assoc flip: of_nat_add)
qed

lemma mapped_store: "store m a bs = Inr m' \<Longrightarrow> mapped m' x n = mapped m x n"
  by (simp add: mapped_def store_frame)

lemma store_mapped: "mapped m a (length bs) \<Longrightarrow> \<exists>m'. store m a bs = Inr m'"
  by (rule store_total) (simp add: mapped_def)

lemma mapped_mem_ext: "mem_ext m m' \<Longrightarrow> settled m a n \<Longrightarrow> mapped m a n \<Longrightarrow> mapped m' a n"
  using load_mapped [of m a n] load_mem_ext [of m m' a n] mapped_load by blast

section \<open>The pool\<close>

definition pool_get :: "('w mem \<Rightarrow> ('c \<times> 'w mem) res) \<Rightarrow> 'c list \<Rightarrow> 'w mem \<Rightarrow> ('c \<times> 'c list \<times> 'w mem) res" where
  "pool_get new pool m =
     (case pool of
        ctx # rest \<Rightarrow> Inr (ctx, rest, m)
      | [] \<Rightarrow> bind_res (new m) (\<lambda>(ctx, m'). Inr (ctx, [], m')))"

text \<open>
  The invariant: every context is a mapped block of the Go heap, and no two of them overlap.
\<close>

definition apart :: "nat \<Rightarrow> uintptr \<Rightarrow> uintptr \<Rightarrow> bool" where
  "apart csize a b \<longleftrightarrow> unat a + csize \<le> unat b \<or> unat b + csize \<le> unat a"

definition pool_ok :: "nat \<Rightarrow> 'w mem \<Rightarrow> uintptr list \<Rightarrow> bool" where
  "pool_ok csize m pool \<longleftrightarrow> mbrk m \<le> heap_limit \<and>
     (\<forall>ctx\<in>set pool. mapped m ctx csize \<and> unat ctx + csize \<le> mbrk m) \<and>
     sorted_wrt (apart csize) pool"

lemma settled_block:
  assumes "unat a + n \<le> mbrk m" "mbrk m \<le> heap_limit"
  shows "settled m a n"
  unfolding settled_def
proof (intro allI impI disjI1)
  fix i assume "i < n"
  have "unat (a + of_nat i) = unat a + i"
  proof -
    have "a + of_nat i = of_nat (unat a + i)"
      by simp
    then show ?thesis
      using assms \<open>i < n\<close> by (simp only: unat_of_nat) (simp add: heap_limit_def)
  qed
  then show "unat (a + of_nat i) < mbrk m"
    using assms \<open>i < n\<close> by simp
qed

lemma pool_ok_Nil: "mbrk m \<le> heap_limit \<Longrightarrow> pool_ok csize m []"
  by (simp add: pool_ok_def)

lemma gnew_block:
  assumes "gnew bs m = Inr (a, m')" "0 < length bs"
  shows "unat a = mbrk m" "mbrk m' = mbrk m + length bs" "mbrk m' \<le> heap_limit" "mapped m' a (length bs)"
proof -
  have lim: "mbrk m + length bs < heap_limit"
    using assms(1) by (auto simp: gnew_def split: if_splits)
  then show "mbrk m' = mbrk m + length bs" "mbrk m' \<le> heap_limit"
    using assms by (auto simp: gnew_def)
  have "unat (of_nat (mbrk m) :: uintptr) = mbrk m"
    using lim by (simp only: unat_of_nat) (simp add: heap_limit_def)
  then show "unat a = mbrk m"
    by (simp add: gnew_spec(4) [OF assms(1)])
  show "mapped m' a (length bs)"
    using gnew_spec(2) [OF assms(1)] by (rule mapped_load)
qed

text \<open>
  A constructor of contexts (\<open>New\<close> of the pool): it takes one fresh block of the given size at the
  address of the context.
\<close>

definition news :: "nat \<Rightarrow> ('c \<Rightarrow> uintptr) \<Rightarrow> ('w mem \<Rightarrow> ('c \<times> 'w mem) res) \<Rightarrow> bool" where
  "news csize addr new \<longleftrightarrow>
     (\<forall>m. mbrk m + csize < heap_limit \<longrightarrow> (\<exists>ctx m'. new m = Inr (ctx, m'))) \<and>
     (\<forall>m ctx m'. new m = Inr (ctx, m') \<longrightarrow> mem_ext m m' \<and> unat (addr ctx) = mbrk m \<and>
        mbrk m' = mbrk m + csize \<and> mbrk m' \<le> heap_limit \<and> mapped m' (addr ctx) csize)"

lemma pool_get_total:
  "news csize addr new \<Longrightarrow> pool \<noteq> [] \<or> mbrk m + csize < heap_limit \<Longrightarrow>
     \<exists>ctx rest m'. pool_get new pool m = Inr (ctx, rest, m')"
  by (cases pool) (fastforce simp: pool_get_def news_def)+

lemma pool_ok_mem_ext:
  assumes "pool_ok csize m pool" "mem_ext m m'" "mbrk m' \<le> heap_limit"
  shows "pool_ok csize m' pool"
  unfolding pool_ok_def
proof (intro conjI ballI)
  fix ctx assume "ctx \<in> set pool"
  then have "mapped m ctx csize" "unat ctx + csize \<le> mbrk m"
    using assms(1) by (auto simp: pool_ok_def)
  then show "mapped m' ctx csize" "unat ctx + csize \<le> mbrk m'"
    using assms mapped_mem_ext [OF assms(2)] settled_block [of ctx csize m]
    by (auto simp: pool_ok_def mem_ext_def)
qed (use assms in \<open>auto simp: pool_ok_def\<close>)

lemma pool_ok_grows:
  assumes "pool_ok csize m pool" "grows m m'"
  shows "pool_ok csize m' pool"
  using assms unfolding pool_ok_def grows_def mapped_def by (meson le_trans)

text \<open>\<open>busy\<close> are the contexts that calls in progress have taken out.\<close>

lemma pool_get_ok:
  assumes nw: "news csize addr new" and ok: "pool_ok csize m (map addr (busy @ pool))"
    and get: "pool_get new pool m = Inr (ctx, rest, m')"
  shows "mem_ext m m' \<and> pool_ok csize m' (map addr (busy @ ctx # rest))"
proof (cases pool)
  case Nil
  then have g: "new m = Inr (ctx, m')" and rest: "rest = []"
    using get by (auto simp: pool_get_def res_simps)
  have new: "mem_ext m m'" "unat (addr ctx) = mbrk m" "mbrk m' = mbrk m + csize" "mbrk m' \<le> heap_limit"
      "mapped m' (addr ctx) csize"
    using nw g unfolding news_def by blast+
  have "pool_ok csize m' (map addr busy)"
    using pool_ok_mem_ext [OF _ new(1,4)] ok Nil by simp
  moreover have "\<forall>c\<in>set busy. apart csize (addr c) (addr ctx)"
    using ok new by (auto simp: pool_ok_def apart_def)
  ultimately show ?thesis
    using new by (auto simp: pool_ok_def rest sorted_wrt_append)
next
  case (Cons c cs)
  then show ?thesis
    using ok get by (simp add: pool_get_def)
qed

lemma gnew_news:
  assumes "0 < csize"
  shows "news csize id (gnew (replicate csize 0))"
  unfolding news_def
proof (intro conjI allI impI)
  fix m :: "'a mem"
  assume "mbrk m + csize < heap_limit"
  then show "\<exists>ctx m'. gnew (replicate csize 0) m = Inr (ctx, m')"
    by (simp add: gnew_def)
next
  fix m m' :: "'a mem" and ctx
  assume g: "gnew (replicate csize 0) m = Inr (ctx, m')"
  show "mem_ext m m'" "unat (id ctx) = mbrk m" "mbrk m' = mbrk m + csize" "mbrk m' \<le> heap_limit"
    "mapped m' (id ctx) csize"
    using gnew_block [OF g] gnew_spec(1) [OF g] assms by simp_all
qed

section \<open>What the users of a pool rely on\<close>

text \<open>
  The interface of a context pool: \<open>Get\<close> succeeds while there is a pooled context or heap, and what
  it hands out is mapped, overlaps no context in use or in the pool, and leaves the rest of memory
  alone.
\<close>

locale context_pool =
  fixes get :: "'c list \<Rightarrow> 'w mem \<Rightarrow> ('c \<times> 'c list \<times> 'w mem) res"
    and addr :: "'c \<Rightarrow> uintptr"
    and csize :: nat
  assumes get_total: "pool \<noteq> [] \<or> mbrk m + csize < heap_limit \<Longrightarrow> \<exists>ctx rest m'. get pool m = Inr (ctx, rest, m')"
    and get_ok: "pool_ok csize m (map addr (busy @ pool)) \<Longrightarrow> get pool m = Inr (ctx, rest, m') \<Longrightarrow>
      mem_ext m m' \<and> pool_ok csize m' (map addr (busy @ ctx # rest))"
begin

lemma get_mapped:
  "pool_ok csize m (map addr pool) \<Longrightarrow> get pool m = Inr (ctx, rest, m') \<Longrightarrow> mapped m' (addr ctx) csize"
  using get_ok [of m "[]" pool ctx rest m'] by (simp add: pool_ok_def)

text \<open>
  Two calls that are in progress at the same time, one inside the other or on two threads, work on
  disjoint contexts.
\<close>

lemma nested_apart:
  assumes "pool_ok csize m (map addr pool)" "get pool m = Inr (c1, rest1, m1)"
    "get rest1 m1 = Inr (c2, rest2, m2)"
  shows "apart csize (addr c1) (addr c2)"
proof -
  have "pool_ok csize m1 (map addr ([c1] @ rest1))"
    using get_ok [of m "[]"] assms(1,2) by simp
  from get_ok [OF this assms(3)] show ?thesis
    by (simp add: pool_ok_def)
qed

text \<open>
  Putting the context back restores the invariant, whatever the native code did in between, as long
  as it did not unmap or reclaim Go memory.
\<close>

lemma put_ok:
  assumes "pool_ok csize m (map addr pool)" "get pool m = Inr (ctx, rest, m1)" "grows m1 m2"
  shows "pool_ok csize m2 (map addr (ctx # rest))"
proof (rule pool_ok_grows)
  show "pool_ok csize m1 (map addr (ctx # rest))"
    using get_ok [of m "[]"] assms(1,2) by simp
qed (rule assms(3))

end

end
