(* ===== verification/FastCall.thy ===== *)
theory FastCall
  imports Goffi GoPool
begin

text \<open>
  The run-time part of the fast call path (\<^verbatim>\<open>zz_fast_func.go\<close>): the pooled call context,
  \<open>fastCallIF\<close>, the shape of the generated wrappers, and the parametric wrapper that the generator
  \<^verbatim>\<open>genfastfunc.go\<close> emits for a signature. The generated wrappers themselves are in the theories
  that import this one.
\<close>

section \<open>Arguments and wrappers\<close>

text \<open>
  The parameter types a wrapper is compiled with. \<open>PWord\<close> and \<open>PPtr\<close> are the two instances of
  \<open>fastWord\<close>: \<open>uintptr\<close> and \<open>unsafe.Pointer\<close>.
\<close>

datatype fparam = PWord | PPtr | PF32 | PF64

datatype fval = FWord uintptr | FPtr uintptr | FF32 u32 | FF64 uintptr

fun fval_param :: "fval \<Rightarrow> fparam" where
  "fval_param (FWord _) = PWord"
| "fval_param (FPtr _) = PPtr"
| "fval_param (FF32 _) = PF32"
| "fval_param (FF64 _) = PF64"

text \<open>The conversions the wrappers apply to their parameters.\<close>

fun conv_uintptr :: "fval \<Rightarrow> uintptr" where
  "conv_uintptr (FWord w) = w"
| "conv_uintptr (FPtr p) = p"
| "conv_uintptr (FF32 x) = ucast x"
| "conv_uintptr (FF64 x) = x"

fun Float32bits :: "fval \<Rightarrow> u32" where
  "Float32bits (FF32 x) = x"
| "Float32bits v = ucast (conv_uintptr v)"

fun Float64bits :: "fval \<Rightarrow> uintptr" where
  "Float64bits (FF64 x) = x"
| "Float64bits v = conv_uintptr v"

abbreviation zeros15 :: "uintptr list" where
  "zeros15 \<equiv> replicate 15 0"

abbreviation zeros8 :: "uintptr list" where
  "zeros8 \<equiv> replicate 8 0"

text \<open>
  A wrapper closure: the parameter types it is compiled with, whether it returns a \<open>uintptr\<close>, the
  two arrays it fills from its arguments before it calls \<open>fastCallIF\<close>, and the arguments it keeps
  alive until that call has returned.
\<close>

record fast_impl =
  impl_params :: "fparam list"
  impl_result :: bool
  impl_ints :: "fval list \<Rightarrow> uintptr list"
  impl_floats :: "fval list \<Rightarrow> uintptr list"
  impl_keep :: "nat list"

section \<open>The call\<close>

text \<open>
  A \<open>fastCallContext\<close> lives at an address: \<open>ints\<close> at offset 0, \<open>floats\<close> at 120, \<open>args\<close> at 184 and
  \<open>ret\<close> at 368. The pool is the list of the addresses of the contexts that were put back.
\<close>

definition fast_ctx_size :: nat where
  "fast_ctx_size = 376"

definition words_bytes :: "uintptr list \<Rightarrow> byte list" where
  "words_bytes ws = concat (map (le_bytes 8) ws)"

definition fast_pool_get :: "uintptr list \<Rightarrow> 'w mem \<Rightarrow> (uintptr \<times> uintptr list \<times> 'w mem) res" where
  "fast_pool_get = pool_get (gnew (replicate fast_ctx_size 0))"

text \<open>The loop over \<open>cif.ArgTypes\<close>; an index past one of the three arrays panics.\<close>

fun fast_args :: "uintptr \<Rightarrow> ffi_type list \<Rightarrow> nat \<Rightarrow> nat \<Rightarrow> nat \<Rightarrow> uintptr list res" where
  "fast_args ctx [] argIdx iIdx fIdx = Inr []"
| "fast_args ctx (t # ts) argIdx iIdx fIdx =
     (if 23 \<le> argIdx then Inl (IndexOutOfRange argIdx 23)
      else if t = FloatTypeDescriptor \<or> t = DoubleTypeDescriptor then
        (if 8 \<le> fIdx then Inl (IndexOutOfRange fIdx 8)
         else bind_res (fast_args ctx ts (argIdx + 1) iIdx (fIdx + 1)) (\<lambda>ps.
           Inr ((ctx + of_nat (120 + 8 * fIdx)) # ps)))
      else
        (if 15 \<le> iIdx then Inl (IndexOutOfRange iIdx 15)
         else bind_res (fast_args ctx ts (argIdx + 1) (iIdx + 1) fIdx) (\<lambda>ps.
           Inr ((ctx + of_nat (8 * iIdx)) # ps))))"

definition fastCallIF ::
  "'w goffi \<Rightarrow> call_interface \<Rightarrow> uintptr \<Rightarrow> uintptr list \<Rightarrow> uintptr list \<Rightarrow> uintptr list \<Rightarrow> 'w mem \<Rightarrow>
     (uintptr \<times> uintptr list \<times> 'w mem) res" where
  "fastCallIF E cif cfn ints floats pool m =
     bind_res (fast_pool_get pool m) (\<lambda>(ctx, rest, m1).
     bind_res (store m1 ctx (words_bytes ints)) (\<lambda>m2.
     bind_res (store m2 (ctx + 120) (words_bytes floats)) (\<lambda>m3.
     bind_res (fast_args ctx (ArgTypes cif) 0 0 0) (\<lambda>args.
     bind_res (store m3 (ctx + 368) (le_bytes 8 0)) (\<lambda>m4.
       case CallFunction E cif cfn (ctx + 368) args m4 of (_, _, m5) \<Rightarrow>
         bind_res (load_word m5 (ctx + 368)) (\<lambda>ret. Inr (ret, ctx # rest, m5)))))))"

text \<open>Running a wrapper: fill the arrays, call, return the result word if there is one.\<close>

definition run_impl ::
  "'w goffi \<Rightarrow> call_interface \<Rightarrow> uintptr \<Rightarrow> fast_impl \<Rightarrow> fval list \<Rightarrow> uintptr list \<Rightarrow> 'w mem \<Rightarrow>
     (uintptr option \<times> uintptr list \<times> 'w mem) res" where
  "run_impl E cif cfn w args pool m =
     bind_res (fastCallIF E cif cfn (impl_ints w args) (impl_floats w args) pool m) (\<lambda>(r, pool', m').
       Inr (if impl_result w then Some r else None, pool', m'))"

section \<open>What the generator emits for one signature\<close>

text \<open>
  \<open>emitWrapper\<close> of the generator: \<open>n\<close> integer parameters of the given types, then one float
  parameter if \<open>bits\<close> is 32 or 64; one assignment per integer, one for the float, the call, one
  \<open>KeepAlive\<close> per integer.
\<close>

definition emitWrapper :: "fparam list \<Rightarrow> nat \<Rightarrow> bool \<Rightarrow> fast_impl" where
  "emitWrapper As bits ret =
     \<lparr>impl_params = As @ (if bits = 0 then [] else if bits = 32 then [PF32] else [PF64]),
      impl_result = ret,
      impl_ints = (\<lambda>a. foldl (\<lambda>ints i. ints[i := conv_uintptr (a ! i)]) zeros15 [0..<length As]),
      impl_floats = (\<lambda>a. if bits = 0 then zeros8
         else if bits = 32 then zeros8[0 := ucast (Float32bits (a ! length As))]
         else zeros8[0 := Float64bits (a ! length As)]),
      impl_keep = [0..<length As]\<rparr>"

text \<open>
  \<open>emitInterleavedFloat32x1\<close>: \<open>totalArgs\<close> parameters, all of them \<open>uintptr\<close> but the \<open>float32\<close> at
  position \<open>floatPos\<close>; the integers are numbered in order, skipping that position.
\<close>

definition emitInterleaved :: "nat \<Rightarrow> nat \<Rightarrow> bool \<Rightarrow> fast_impl" where
  "emitInterleaved totalArgs floatPos ret =
     \<lparr>impl_params = map (\<lambda>i. if i = floatPos then PF32 else PWord) [0..<totalArgs],
      impl_result = ret,
      impl_ints = (\<lambda>a. foldl (\<lambda>ints i. ints[i := conv_uintptr (a ! (if i < floatPos then i else Suc i))])
         zeros15 [0..<totalArgs - 1]),
      impl_floats = (\<lambda>a. zeros8[0 := ucast (Float32bits (a ! floatPos))]),
      impl_keep = []\<rparr>"

text \<open>The type arguments for a pointer mask: bit \<open>i\<close> set means integer argument \<open>i\<close> is a pointer.\<close>

definition mask_params :: "nat \<Rightarrow> u32 \<Rightarrow> fparam list" where
  "mask_params n ptrMask = map (\<lambda>i. if bit ptrMask i then PPtr else PWord) [0..<n]"

definition maxPointerMaskArgs :: nat where
  "maxPointerMaskArgs = 6"

text \<open>
  The table \<open>emitDispatch\<close> writes: for each float width the counts up to 15 (14 with a float), for
  each count the masks below \<open>2 ^ n\<close>, or only the mask 0 above \<open>maxPointerMaskArgs\<close>.
\<close>

definition emitDispatch :: "nat \<Rightarrow> u32 \<Rightarrow> nat \<Rightarrow> bool \<Rightarrow> fast_impl option" where
  "emitDispatch n ptrMask bits ret =
     (if bits \<in> {0, 32, 64} \<and> n \<le> (if bits = 0 then 15 else 14) \<and>
         unat ptrMask < (if n \<le> maxPointerMaskArgs then 2 ^ n else 1)
      then Some (emitWrapper (mask_params n ptrMask) bits ret) else None)"

section \<open>The pool of call contexts\<close>

lemma fast_news: "news fast_ctx_size id (gnew (replicate fast_ctx_size 0))"
  by (rule gnew_news) (simp add: fast_ctx_size_def)

interpretation fast_pool: context_pool fast_pool_get id fast_ctx_size
  unfolding fast_pool_get_def
  by standard (rule pool_get_total [OF fast_news], assumption, rule pool_get_ok [OF fast_news])

named_theorems wrapper_eqs "each generated wrapper is the generator's wrapper for its signature"

end
