(* ===== verification/FastWrappers.thy ===== *)
theory FastWrappers
  imports FastCall
begin

text \<open>
  The generated wrappers of \<^verbatim>\<open>zz_fast_func.go\<close> for integer arguments with at most one trailing float,
  one definition per function, in the file's order. A type parameter \<open>A1\<close> of the source is an
  argument here, so that an instance such as \<open>fastInts2R[uintptr, unsafe.Pointer]\<close> is
  \<open>fastInts2R PWord PPtr\<close>. Each is proved equal to what the generator emits for its signature.
\<close>

section \<open>The wrappers\<close>

named_theorems wrapper_defs "the definitions of the generated wrappers"

definition fastInts0R :: "fast_impl" where [wrapper_defs]:
  "fastInts0R =
    \<lparr>impl_params = [], impl_result = True,
      impl_ints = (\<lambda>a. zeros15),
      impl_floats = (\<lambda>a. zeros8), impl_keep = []\<rparr>"

definition fastInts0V :: "fast_impl" where [wrapper_defs]:
  "fastInts0V =
    \<lparr>impl_params = [], impl_result = False,
      impl_ints = (\<lambda>a. zeros15),
      impl_floats = (\<lambda>a. zeros8), impl_keep = []\<rparr>"

definition fastInts1R :: "fparam \<Rightarrow> fast_impl" where [wrapper_defs]:
  "fastInts1R A1 =
    \<lparr>impl_params = [A1], impl_result = True,
      impl_ints = (\<lambda>a. zeros15[0 := conv_uintptr (a ! 0)]),
      impl_floats = (\<lambda>a. zeros8), impl_keep = [0]\<rparr>"

definition fastInts1V :: "fparam \<Rightarrow> fast_impl" where [wrapper_defs]:
  "fastInts1V A1 =
    \<lparr>impl_params = [A1], impl_result = False,
      impl_ints = (\<lambda>a. zeros15[0 := conv_uintptr (a ! 0)]),
      impl_floats = (\<lambda>a. zeros8), impl_keep = [0]\<rparr>"

definition fastInts2R :: "fparam \<Rightarrow> fparam \<Rightarrow> fast_impl" where [wrapper_defs]:
  "fastInts2R A1 A2 =
    \<lparr>impl_params = [A1, A2], impl_result = True,
      impl_ints = (\<lambda>a. zeros15[0 := conv_uintptr (a ! 0), 1 := conv_uintptr (a ! 1)]),
      impl_floats = (\<lambda>a. zeros8), impl_keep = [0, 1]\<rparr>"

definition fastInts2V :: "fparam \<Rightarrow> fparam \<Rightarrow> fast_impl" where [wrapper_defs]:
  "fastInts2V A1 A2 =
    \<lparr>impl_params = [A1, A2], impl_result = False,
      impl_ints = (\<lambda>a. zeros15[0 := conv_uintptr (a ! 0), 1 := conv_uintptr (a ! 1)]),
      impl_floats = (\<lambda>a. zeros8), impl_keep = [0, 1]\<rparr>"

definition fastInts3R :: "fparam \<Rightarrow> fparam \<Rightarrow> fparam \<Rightarrow> fast_impl" where [wrapper_defs]:
  "fastInts3R A1 A2 A3 =
    \<lparr>impl_params = [A1, A2, A3], impl_result = True,
      impl_ints = (\<lambda>a. zeros15[0 := conv_uintptr (a ! 0), 1 := conv_uintptr (a ! 1),
          2 := conv_uintptr (a ! 2)]),
      impl_floats = (\<lambda>a. zeros8), impl_keep = [0, 1, 2]\<rparr>"

definition fastInts3V :: "fparam \<Rightarrow> fparam \<Rightarrow> fparam \<Rightarrow> fast_impl" where [wrapper_defs]:
  "fastInts3V A1 A2 A3 =
    \<lparr>impl_params = [A1, A2, A3], impl_result = False,
      impl_ints = (\<lambda>a. zeros15[0 := conv_uintptr (a ! 0), 1 := conv_uintptr (a ! 1),
          2 := conv_uintptr (a ! 2)]),
      impl_floats = (\<lambda>a. zeros8), impl_keep = [0, 1, 2]\<rparr>"

definition fastInts4R :: "fparam \<Rightarrow> fparam \<Rightarrow> fparam \<Rightarrow> fparam \<Rightarrow> fast_impl" where [wrapper_defs]:
  "fastInts4R A1 A2 A3 A4 =
    \<lparr>impl_params = [A1, A2, A3, A4], impl_result = True,
      impl_ints = (\<lambda>a. zeros15[0 := conv_uintptr (a ! 0), 1 := conv_uintptr (a ! 1),
          2 := conv_uintptr (a ! 2), 3 := conv_uintptr (a ! 3)]),
      impl_floats = (\<lambda>a. zeros8), impl_keep = [0, 1, 2, 3]\<rparr>"

definition fastInts4V :: "fparam \<Rightarrow> fparam \<Rightarrow> fparam \<Rightarrow> fparam \<Rightarrow> fast_impl" where [wrapper_defs]:
  "fastInts4V A1 A2 A3 A4 =
    \<lparr>impl_params = [A1, A2, A3, A4], impl_result = False,
      impl_ints = (\<lambda>a. zeros15[0 := conv_uintptr (a ! 0), 1 := conv_uintptr (a ! 1),
          2 := conv_uintptr (a ! 2), 3 := conv_uintptr (a ! 3)]),
      impl_floats = (\<lambda>a. zeros8), impl_keep = [0, 1, 2, 3]\<rparr>"

definition fastInts5R :: "fparam \<Rightarrow> fparam \<Rightarrow> fparam \<Rightarrow> fparam \<Rightarrow> fparam \<Rightarrow> fast_impl" where [wrapper_defs]:
  "fastInts5R A1 A2 A3 A4 A5 =
    \<lparr>impl_params = [A1, A2, A3, A4, A5], impl_result = True,
      impl_ints = (\<lambda>a. zeros15[0 := conv_uintptr (a ! 0), 1 := conv_uintptr (a ! 1),
          2 := conv_uintptr (a ! 2), 3 := conv_uintptr (a ! 3), 4 := conv_uintptr (a ! 4)]),
      impl_floats = (\<lambda>a. zeros8), impl_keep = [0, 1, 2, 3, 4]\<rparr>"

definition fastInts5V :: "fparam \<Rightarrow> fparam \<Rightarrow> fparam \<Rightarrow> fparam \<Rightarrow> fparam \<Rightarrow> fast_impl" where [wrapper_defs]:
  "fastInts5V A1 A2 A3 A4 A5 =
    \<lparr>impl_params = [A1, A2, A3, A4, A5], impl_result = False,
      impl_ints = (\<lambda>a. zeros15[0 := conv_uintptr (a ! 0), 1 := conv_uintptr (a ! 1),
          2 := conv_uintptr (a ! 2), 3 := conv_uintptr (a ! 3), 4 := conv_uintptr (a ! 4)]),
      impl_floats = (\<lambda>a. zeros8), impl_keep = [0, 1, 2, 3, 4]\<rparr>"

definition fastInts6R :: "fparam \<Rightarrow> fparam \<Rightarrow> fparam \<Rightarrow> fparam \<Rightarrow> fparam \<Rightarrow> fparam \<Rightarrow> fast_impl" where [wrapper_defs]:
  "fastInts6R A1 A2 A3 A4 A5 A6 =
    \<lparr>impl_params = [A1, A2, A3, A4, A5, A6], impl_result = True,
      impl_ints = (\<lambda>a. zeros15[0 := conv_uintptr (a ! 0), 1 := conv_uintptr (a ! 1),
          2 := conv_uintptr (a ! 2), 3 := conv_uintptr (a ! 3), 4 := conv_uintptr (a ! 4),
          5 := conv_uintptr (a ! 5)]),
      impl_floats = (\<lambda>a. zeros8), impl_keep = [0, 1, 2, 3, 4, 5]\<rparr>"

definition fastInts6V :: "fparam \<Rightarrow> fparam \<Rightarrow> fparam \<Rightarrow> fparam \<Rightarrow> fparam \<Rightarrow> fparam \<Rightarrow> fast_impl" where [wrapper_defs]:
  "fastInts6V A1 A2 A3 A4 A5 A6 =
    \<lparr>impl_params = [A1, A2, A3, A4, A5, A6], impl_result = False,
      impl_ints = (\<lambda>a. zeros15[0 := conv_uintptr (a ! 0), 1 := conv_uintptr (a ! 1),
          2 := conv_uintptr (a ! 2), 3 := conv_uintptr (a ! 3), 4 := conv_uintptr (a ! 4),
          5 := conv_uintptr (a ! 5)]),
      impl_floats = (\<lambda>a. zeros8), impl_keep = [0, 1, 2, 3, 4, 5]\<rparr>"

definition fastInts7R :: "fparam \<Rightarrow> fparam \<Rightarrow> fparam \<Rightarrow> fparam \<Rightarrow> fparam \<Rightarrow> fparam \<Rightarrow> fparam \<Rightarrow> fast_impl" where [wrapper_defs]:
  "fastInts7R A1 A2 A3 A4 A5 A6 A7 =
    \<lparr>impl_params = [A1, A2, A3, A4, A5, A6, A7], impl_result = True,
      impl_ints = (\<lambda>a. zeros15[0 := conv_uintptr (a ! 0), 1 := conv_uintptr (a ! 1),
          2 := conv_uintptr (a ! 2), 3 := conv_uintptr (a ! 3), 4 := conv_uintptr (a ! 4),
          5 := conv_uintptr (a ! 5), 6 := conv_uintptr (a ! 6)]),
      impl_floats = (\<lambda>a. zeros8), impl_keep = [0, 1, 2, 3, 4, 5, 6]\<rparr>"

definition fastInts7V :: "fparam \<Rightarrow> fparam \<Rightarrow> fparam \<Rightarrow> fparam \<Rightarrow> fparam \<Rightarrow> fparam \<Rightarrow> fparam \<Rightarrow> fast_impl" where [wrapper_defs]:
  "fastInts7V A1 A2 A3 A4 A5 A6 A7 =
    \<lparr>impl_params = [A1, A2, A3, A4, A5, A6, A7], impl_result = False,
      impl_ints = (\<lambda>a. zeros15[0 := conv_uintptr (a ! 0), 1 := conv_uintptr (a ! 1),
          2 := conv_uintptr (a ! 2), 3 := conv_uintptr (a ! 3), 4 := conv_uintptr (a ! 4),
          5 := conv_uintptr (a ! 5), 6 := conv_uintptr (a ! 6)]),
      impl_floats = (\<lambda>a. zeros8), impl_keep = [0, 1, 2, 3, 4, 5, 6]\<rparr>"

definition fastInts8R :: "fparam \<Rightarrow> fparam \<Rightarrow> fparam \<Rightarrow> fparam \<Rightarrow> fparam \<Rightarrow> fparam \<Rightarrow> fparam \<Rightarrow> fparam \<Rightarrow> fast_impl" where [wrapper_defs]:
  "fastInts8R A1 A2 A3 A4 A5 A6 A7 A8 =
    \<lparr>impl_params = [A1, A2, A3, A4, A5, A6, A7, A8], impl_result = True,
      impl_ints = (\<lambda>a. zeros15[0 := conv_uintptr (a ! 0), 1 := conv_uintptr (a ! 1),
          2 := conv_uintptr (a ! 2), 3 := conv_uintptr (a ! 3), 4 := conv_uintptr (a ! 4),
          5 := conv_uintptr (a ! 5), 6 := conv_uintptr (a ! 6), 7 := conv_uintptr (a ! 7)]),
      impl_floats = (\<lambda>a. zeros8), impl_keep = [0, 1, 2, 3, 4, 5, 6, 7]\<rparr>"

definition fastInts8V :: "fparam \<Rightarrow> fparam \<Rightarrow> fparam \<Rightarrow> fparam \<Rightarrow> fparam \<Rightarrow> fparam \<Rightarrow> fparam \<Rightarrow> fparam \<Rightarrow> fast_impl" where [wrapper_defs]:
  "fastInts8V A1 A2 A3 A4 A5 A6 A7 A8 =
    \<lparr>impl_params = [A1, A2, A3, A4, A5, A6, A7, A8], impl_result = False,
      impl_ints = (\<lambda>a. zeros15[0 := conv_uintptr (a ! 0), 1 := conv_uintptr (a ! 1),
          2 := conv_uintptr (a ! 2), 3 := conv_uintptr (a ! 3), 4 := conv_uintptr (a ! 4),
          5 := conv_uintptr (a ! 5), 6 := conv_uintptr (a ! 6), 7 := conv_uintptr (a ! 7)]),
      impl_floats = (\<lambda>a. zeros8), impl_keep = [0, 1, 2, 3, 4, 5, 6, 7]\<rparr>"

definition fastInts9R :: "fparam \<Rightarrow> fparam \<Rightarrow> fparam \<Rightarrow> fparam \<Rightarrow> fparam \<Rightarrow> fparam \<Rightarrow> fparam \<Rightarrow> fparam \<Rightarrow> fparam \<Rightarrow> fast_impl" where [wrapper_defs]:
  "fastInts9R A1 A2 A3 A4 A5 A6 A7 A8 A9 =
    \<lparr>impl_params = [A1, A2, A3, A4, A5, A6, A7, A8, A9], impl_result = True,
      impl_ints = (\<lambda>a. zeros15[0 := conv_uintptr (a ! 0), 1 := conv_uintptr (a ! 1),
          2 := conv_uintptr (a ! 2), 3 := conv_uintptr (a ! 3), 4 := conv_uintptr (a ! 4),
          5 := conv_uintptr (a ! 5), 6 := conv_uintptr (a ! 6), 7 := conv_uintptr (a ! 7),
          8 := conv_uintptr (a ! 8)]),
      impl_floats = (\<lambda>a. zeros8), impl_keep = [0, 1, 2, 3, 4, 5, 6, 7, 8]\<rparr>"

definition fastInts9V :: "fparam \<Rightarrow> fparam \<Rightarrow> fparam \<Rightarrow> fparam \<Rightarrow> fparam \<Rightarrow> fparam \<Rightarrow> fparam \<Rightarrow> fparam \<Rightarrow> fparam \<Rightarrow> fast_impl" where [wrapper_defs]:
  "fastInts9V A1 A2 A3 A4 A5 A6 A7 A8 A9 =
    \<lparr>impl_params = [A1, A2, A3, A4, A5, A6, A7, A8, A9], impl_result = False,
      impl_ints = (\<lambda>a. zeros15[0 := conv_uintptr (a ! 0), 1 := conv_uintptr (a ! 1),
          2 := conv_uintptr (a ! 2), 3 := conv_uintptr (a ! 3), 4 := conv_uintptr (a ! 4),
          5 := conv_uintptr (a ! 5), 6 := conv_uintptr (a ! 6), 7 := conv_uintptr (a ! 7),
          8 := conv_uintptr (a ! 8)]),
      impl_floats = (\<lambda>a. zeros8), impl_keep = [0, 1, 2, 3, 4, 5, 6, 7, 8]\<rparr>"

definition fastInts10R :: "fparam \<Rightarrow> fparam \<Rightarrow> fparam \<Rightarrow> fparam \<Rightarrow> fparam \<Rightarrow> fparam \<Rightarrow> fparam \<Rightarrow> fparam \<Rightarrow> fparam \<Rightarrow> fparam \<Rightarrow> fast_impl" where [wrapper_defs]:
  "fastInts10R A1 A2 A3 A4 A5 A6 A7 A8 A9 A10 =
    \<lparr>impl_params = [A1, A2, A3, A4, A5, A6, A7, A8, A9, A10], impl_result = True,
      impl_ints = (\<lambda>a. zeros15[0 := conv_uintptr (a ! 0), 1 := conv_uintptr (a ! 1),
          2 := conv_uintptr (a ! 2), 3 := conv_uintptr (a ! 3), 4 := conv_uintptr (a ! 4),
          5 := conv_uintptr (a ! 5), 6 := conv_uintptr (a ! 6), 7 := conv_uintptr (a ! 7),
          8 := conv_uintptr (a ! 8), 9 := conv_uintptr (a ! 9)]),
      impl_floats = (\<lambda>a. zeros8), impl_keep = [0, 1, 2, 3, 4, 5, 6, 7, 8, 9]\<rparr>"

definition fastInts10V :: "fparam \<Rightarrow> fparam \<Rightarrow> fparam \<Rightarrow> fparam \<Rightarrow> fparam \<Rightarrow> fparam \<Rightarrow> fparam \<Rightarrow> fparam \<Rightarrow> fparam \<Rightarrow> fparam \<Rightarrow> fast_impl" where [wrapper_defs]:
  "fastInts10V A1 A2 A3 A4 A5 A6 A7 A8 A9 A10 =
    \<lparr>impl_params = [A1, A2, A3, A4, A5, A6, A7, A8, A9, A10], impl_result = False,
      impl_ints = (\<lambda>a. zeros15[0 := conv_uintptr (a ! 0), 1 := conv_uintptr (a ! 1),
          2 := conv_uintptr (a ! 2), 3 := conv_uintptr (a ! 3), 4 := conv_uintptr (a ! 4),
          5 := conv_uintptr (a ! 5), 6 := conv_uintptr (a ! 6), 7 := conv_uintptr (a ! 7),
          8 := conv_uintptr (a ! 8), 9 := conv_uintptr (a ! 9)]),
      impl_floats = (\<lambda>a. zeros8), impl_keep = [0, 1, 2, 3, 4, 5, 6, 7, 8, 9]\<rparr>"

definition fastInts11R :: "fparam \<Rightarrow> fparam \<Rightarrow> fparam \<Rightarrow> fparam \<Rightarrow> fparam \<Rightarrow> fparam \<Rightarrow> fparam \<Rightarrow> fparam \<Rightarrow> fparam \<Rightarrow> fparam \<Rightarrow> fparam \<Rightarrow> fast_impl" where [wrapper_defs]:
  "fastInts11R A1 A2 A3 A4 A5 A6 A7 A8 A9 A10 A11 =
    \<lparr>impl_params = [A1, A2, A3, A4, A5, A6, A7, A8, A9, A10, A11], impl_result = True,
      impl_ints = (\<lambda>a. zeros15[0 := conv_uintptr (a ! 0), 1 := conv_uintptr (a ! 1),
          2 := conv_uintptr (a ! 2), 3 := conv_uintptr (a ! 3), 4 := conv_uintptr (a ! 4),
          5 := conv_uintptr (a ! 5), 6 := conv_uintptr (a ! 6), 7 := conv_uintptr (a ! 7),
          8 := conv_uintptr (a ! 8), 9 := conv_uintptr (a ! 9), 10 := conv_uintptr (a ! 10)]),
      impl_floats = (\<lambda>a. zeros8), impl_keep = [0, 1, 2, 3, 4, 5, 6, 7, 8, 9, 10]\<rparr>"

definition fastInts11V :: "fparam \<Rightarrow> fparam \<Rightarrow> fparam \<Rightarrow> fparam \<Rightarrow> fparam \<Rightarrow> fparam \<Rightarrow> fparam \<Rightarrow> fparam \<Rightarrow> fparam \<Rightarrow> fparam \<Rightarrow> fparam \<Rightarrow> fast_impl" where [wrapper_defs]:
  "fastInts11V A1 A2 A3 A4 A5 A6 A7 A8 A9 A10 A11 =
    \<lparr>impl_params = [A1, A2, A3, A4, A5, A6, A7, A8, A9, A10, A11], impl_result = False,
      impl_ints = (\<lambda>a. zeros15[0 := conv_uintptr (a ! 0), 1 := conv_uintptr (a ! 1),
          2 := conv_uintptr (a ! 2), 3 := conv_uintptr (a ! 3), 4 := conv_uintptr (a ! 4),
          5 := conv_uintptr (a ! 5), 6 := conv_uintptr (a ! 6), 7 := conv_uintptr (a ! 7),
          8 := conv_uintptr (a ! 8), 9 := conv_uintptr (a ! 9), 10 := conv_uintptr (a ! 10)]),
      impl_floats = (\<lambda>a. zeros8), impl_keep = [0, 1, 2, 3, 4, 5, 6, 7, 8, 9, 10]\<rparr>"

definition fastInts12R :: "fparam \<Rightarrow> fparam \<Rightarrow> fparam \<Rightarrow> fparam \<Rightarrow> fparam \<Rightarrow> fparam \<Rightarrow> fparam \<Rightarrow> fparam \<Rightarrow> fparam \<Rightarrow> fparam \<Rightarrow> fparam \<Rightarrow> fparam \<Rightarrow> fast_impl" where [wrapper_defs]:
  "fastInts12R A1 A2 A3 A4 A5 A6 A7 A8 A9 A10 A11 A12 =
    \<lparr>impl_params = [A1, A2, A3, A4, A5, A6, A7, A8, A9, A10, A11, A12], impl_result = True,
      impl_ints = (\<lambda>a. zeros15[0 := conv_uintptr (a ! 0), 1 := conv_uintptr (a ! 1),
          2 := conv_uintptr (a ! 2), 3 := conv_uintptr (a ! 3), 4 := conv_uintptr (a ! 4),
          5 := conv_uintptr (a ! 5), 6 := conv_uintptr (a ! 6), 7 := conv_uintptr (a ! 7),
          8 := conv_uintptr (a ! 8), 9 := conv_uintptr (a ! 9), 10 := conv_uintptr (a ! 10),
          11 := conv_uintptr (a ! 11)]),
      impl_floats = (\<lambda>a. zeros8), impl_keep = [0, 1, 2, 3, 4, 5, 6, 7, 8, 9, 10, 11]\<rparr>"

definition fastInts12V :: "fparam \<Rightarrow> fparam \<Rightarrow> fparam \<Rightarrow> fparam \<Rightarrow> fparam \<Rightarrow> fparam \<Rightarrow> fparam \<Rightarrow> fparam \<Rightarrow> fparam \<Rightarrow> fparam \<Rightarrow> fparam \<Rightarrow> fparam \<Rightarrow> fast_impl" where [wrapper_defs]:
  "fastInts12V A1 A2 A3 A4 A5 A6 A7 A8 A9 A10 A11 A12 =
    \<lparr>impl_params = [A1, A2, A3, A4, A5, A6, A7, A8, A9, A10, A11, A12], impl_result = False,
      impl_ints = (\<lambda>a. zeros15[0 := conv_uintptr (a ! 0), 1 := conv_uintptr (a ! 1),
          2 := conv_uintptr (a ! 2), 3 := conv_uintptr (a ! 3), 4 := conv_uintptr (a ! 4),
          5 := conv_uintptr (a ! 5), 6 := conv_uintptr (a ! 6), 7 := conv_uintptr (a ! 7),
          8 := conv_uintptr (a ! 8), 9 := conv_uintptr (a ! 9), 10 := conv_uintptr (a ! 10),
          11 := conv_uintptr (a ! 11)]),
      impl_floats = (\<lambda>a. zeros8), impl_keep = [0, 1, 2, 3, 4, 5, 6, 7, 8, 9, 10, 11]\<rparr>"

definition fastInts13R :: "fparam \<Rightarrow> fparam \<Rightarrow> fparam \<Rightarrow> fparam \<Rightarrow> fparam \<Rightarrow> fparam \<Rightarrow> fparam \<Rightarrow> fparam \<Rightarrow> fparam \<Rightarrow> fparam \<Rightarrow> fparam \<Rightarrow> fparam \<Rightarrow> fparam \<Rightarrow> fast_impl" where [wrapper_defs]:
  "fastInts13R A1 A2 A3 A4 A5 A6 A7 A8 A9 A10 A11 A12 A13 =
    \<lparr>impl_params = [A1, A2, A3, A4, A5, A6, A7, A8, A9, A10, A11, A12, A13], impl_result = True,
      impl_ints = (\<lambda>a. zeros15[0 := conv_uintptr (a ! 0), 1 := conv_uintptr (a ! 1),
          2 := conv_uintptr (a ! 2), 3 := conv_uintptr (a ! 3), 4 := conv_uintptr (a ! 4),
          5 := conv_uintptr (a ! 5), 6 := conv_uintptr (a ! 6), 7 := conv_uintptr (a ! 7),
          8 := conv_uintptr (a ! 8), 9 := conv_uintptr (a ! 9), 10 := conv_uintptr (a ! 10),
          11 := conv_uintptr (a ! 11), 12 := conv_uintptr (a ! 12)]),
      impl_floats = (\<lambda>a. zeros8), impl_keep = [0, 1, 2, 3, 4, 5, 6, 7, 8, 9, 10, 11, 12]\<rparr>"

definition fastInts13V :: "fparam \<Rightarrow> fparam \<Rightarrow> fparam \<Rightarrow> fparam \<Rightarrow> fparam \<Rightarrow> fparam \<Rightarrow> fparam \<Rightarrow> fparam \<Rightarrow> fparam \<Rightarrow> fparam \<Rightarrow> fparam \<Rightarrow> fparam \<Rightarrow> fparam \<Rightarrow> fast_impl" where [wrapper_defs]:
  "fastInts13V A1 A2 A3 A4 A5 A6 A7 A8 A9 A10 A11 A12 A13 =
    \<lparr>impl_params = [A1, A2, A3, A4, A5, A6, A7, A8, A9, A10, A11, A12, A13], impl_result = False,
      impl_ints = (\<lambda>a. zeros15[0 := conv_uintptr (a ! 0), 1 := conv_uintptr (a ! 1),
          2 := conv_uintptr (a ! 2), 3 := conv_uintptr (a ! 3), 4 := conv_uintptr (a ! 4),
          5 := conv_uintptr (a ! 5), 6 := conv_uintptr (a ! 6), 7 := conv_uintptr (a ! 7),
          8 := conv_uintptr (a ! 8), 9 := conv_uintptr (a ! 9), 10 := conv_uintptr (a ! 10),
          11 := conv_uintptr (a ! 11), 12 := conv_uintptr (a ! 12)]),
      impl_floats = (\<lambda>a. zeros8), impl_keep = [0, 1, 2, 3, 4, 5, 6, 7, 8, 9, 10, 11, 12]\<rparr>"

definition fastInts14R :: "fparam \<Rightarrow> fparam \<Rightarrow> fparam \<Rightarrow> fparam \<Rightarrow> fparam \<Rightarrow> fparam \<Rightarrow> fparam \<Rightarrow> fparam \<Rightarrow> fparam \<Rightarrow> fparam \<Rightarrow> fparam \<Rightarrow> fparam \<Rightarrow> fparam \<Rightarrow> fparam \<Rightarrow> fast_impl" where [wrapper_defs]:
  "fastInts14R A1 A2 A3 A4 A5 A6 A7 A8 A9 A10 A11 A12 A13 A14 =
    \<lparr>impl_params = [A1, A2, A3, A4, A5, A6, A7, A8, A9, A10, A11, A12, A13, A14], impl_result = True,
      impl_ints = (\<lambda>a. zeros15[0 := conv_uintptr (a ! 0), 1 := conv_uintptr (a ! 1),
          2 := conv_uintptr (a ! 2), 3 := conv_uintptr (a ! 3), 4 := conv_uintptr (a ! 4),
          5 := conv_uintptr (a ! 5), 6 := conv_uintptr (a ! 6), 7 := conv_uintptr (a ! 7),
          8 := conv_uintptr (a ! 8), 9 := conv_uintptr (a ! 9), 10 := conv_uintptr (a ! 10),
          11 := conv_uintptr (a ! 11), 12 := conv_uintptr (a ! 12), 13 := conv_uintptr (a ! 13)]),
      impl_floats = (\<lambda>a. zeros8), impl_keep = [0, 1, 2, 3, 4, 5, 6, 7, 8, 9, 10, 11, 12, 13]\<rparr>"

definition fastInts14V :: "fparam \<Rightarrow> fparam \<Rightarrow> fparam \<Rightarrow> fparam \<Rightarrow> fparam \<Rightarrow> fparam \<Rightarrow> fparam \<Rightarrow> fparam \<Rightarrow> fparam \<Rightarrow> fparam \<Rightarrow> fparam \<Rightarrow> fparam \<Rightarrow> fparam \<Rightarrow> fparam \<Rightarrow> fast_impl" where [wrapper_defs]:
  "fastInts14V A1 A2 A3 A4 A5 A6 A7 A8 A9 A10 A11 A12 A13 A14 =
    \<lparr>impl_params = [A1, A2, A3, A4, A5, A6, A7, A8, A9, A10, A11, A12, A13, A14], impl_result = False,
      impl_ints = (\<lambda>a. zeros15[0 := conv_uintptr (a ! 0), 1 := conv_uintptr (a ! 1),
          2 := conv_uintptr (a ! 2), 3 := conv_uintptr (a ! 3), 4 := conv_uintptr (a ! 4),
          5 := conv_uintptr (a ! 5), 6 := conv_uintptr (a ! 6), 7 := conv_uintptr (a ! 7),
          8 := conv_uintptr (a ! 8), 9 := conv_uintptr (a ! 9), 10 := conv_uintptr (a ! 10),
          11 := conv_uintptr (a ! 11), 12 := conv_uintptr (a ! 12), 13 := conv_uintptr (a ! 13)]),
      impl_floats = (\<lambda>a. zeros8), impl_keep = [0, 1, 2, 3, 4, 5, 6, 7, 8, 9, 10, 11, 12, 13]\<rparr>"

definition fastInts15R :: "fparam \<Rightarrow> fparam \<Rightarrow> fparam \<Rightarrow> fparam \<Rightarrow> fparam \<Rightarrow> fparam \<Rightarrow> fparam \<Rightarrow> fparam \<Rightarrow> fparam \<Rightarrow> fparam \<Rightarrow> fparam \<Rightarrow> fparam \<Rightarrow> fparam \<Rightarrow> fparam \<Rightarrow> fparam \<Rightarrow> fast_impl" where [wrapper_defs]:
  "fastInts15R A1 A2 A3 A4 A5 A6 A7 A8 A9 A10 A11 A12 A13 A14 A15 =
    \<lparr>impl_params = [A1, A2, A3, A4, A5, A6, A7, A8, A9, A10, A11, A12, A13, A14, A15],
        impl_result = True,
      impl_ints = (\<lambda>a. zeros15[0 := conv_uintptr (a ! 0), 1 := conv_uintptr (a ! 1),
          2 := conv_uintptr (a ! 2), 3 := conv_uintptr (a ! 3), 4 := conv_uintptr (a ! 4),
          5 := conv_uintptr (a ! 5), 6 := conv_uintptr (a ! 6), 7 := conv_uintptr (a ! 7),
          8 := conv_uintptr (a ! 8), 9 := conv_uintptr (a ! 9), 10 := conv_uintptr (a ! 10),
          11 := conv_uintptr (a ! 11), 12 := conv_uintptr (a ! 12), 13 := conv_uintptr (a ! 13),
          14 := conv_uintptr (a ! 14)]),
      impl_floats = (\<lambda>a. zeros8), impl_keep = [0, 1, 2, 3, 4, 5, 6, 7, 8, 9, 10, 11, 12, 13,
          14]\<rparr>"

definition fastInts15V :: "fparam \<Rightarrow> fparam \<Rightarrow> fparam \<Rightarrow> fparam \<Rightarrow> fparam \<Rightarrow> fparam \<Rightarrow> fparam \<Rightarrow> fparam \<Rightarrow> fparam \<Rightarrow> fparam \<Rightarrow> fparam \<Rightarrow> fparam \<Rightarrow> fparam \<Rightarrow> fparam \<Rightarrow> fparam \<Rightarrow> fast_impl" where [wrapper_defs]:
  "fastInts15V A1 A2 A3 A4 A5 A6 A7 A8 A9 A10 A11 A12 A13 A14 A15 =
    \<lparr>impl_params = [A1, A2, A3, A4, A5, A6, A7, A8, A9, A10, A11, A12, A13, A14, A15],
        impl_result = False,
      impl_ints = (\<lambda>a. zeros15[0 := conv_uintptr (a ! 0), 1 := conv_uintptr (a ! 1),
          2 := conv_uintptr (a ! 2), 3 := conv_uintptr (a ! 3), 4 := conv_uintptr (a ! 4),
          5 := conv_uintptr (a ! 5), 6 := conv_uintptr (a ! 6), 7 := conv_uintptr (a ! 7),
          8 := conv_uintptr (a ! 8), 9 := conv_uintptr (a ! 9), 10 := conv_uintptr (a ! 10),
          11 := conv_uintptr (a ! 11), 12 := conv_uintptr (a ! 12), 13 := conv_uintptr (a ! 13),
          14 := conv_uintptr (a ! 14)]),
      impl_floats = (\<lambda>a. zeros8), impl_keep = [0, 1, 2, 3, 4, 5, 6, 7, 8, 9, 10, 11, 12, 13,
          14]\<rparr>"

definition fastInts0F32R :: "fast_impl" where [wrapper_defs]:
  "fastInts0F32R =
    \<lparr>impl_params = [PF32], impl_result = True,
      impl_ints = (\<lambda>a. zeros15),
      impl_floats = (\<lambda>a. zeros8[0 := ucast (Float32bits (a ! 0))]), impl_keep = []\<rparr>"

definition fastInts0F32V :: "fast_impl" where [wrapper_defs]:
  "fastInts0F32V =
    \<lparr>impl_params = [PF32], impl_result = False,
      impl_ints = (\<lambda>a. zeros15),
      impl_floats = (\<lambda>a. zeros8[0 := ucast (Float32bits (a ! 0))]), impl_keep = []\<rparr>"

definition fastInts1F32R :: "fparam \<Rightarrow> fast_impl" where [wrapper_defs]:
  "fastInts1F32R A1 =
    \<lparr>impl_params = [A1, PF32], impl_result = True,
      impl_ints = (\<lambda>a. zeros15[0 := conv_uintptr (a ! 0)]),
      impl_floats = (\<lambda>a. zeros8[0 := ucast (Float32bits (a ! 1))]), impl_keep = [0]\<rparr>"

definition fastInts1F32V :: "fparam \<Rightarrow> fast_impl" where [wrapper_defs]:
  "fastInts1F32V A1 =
    \<lparr>impl_params = [A1, PF32], impl_result = False,
      impl_ints = (\<lambda>a. zeros15[0 := conv_uintptr (a ! 0)]),
      impl_floats = (\<lambda>a. zeros8[0 := ucast (Float32bits (a ! 1))]), impl_keep = [0]\<rparr>"

definition fastInts2F32R :: "fparam \<Rightarrow> fparam \<Rightarrow> fast_impl" where [wrapper_defs]:
  "fastInts2F32R A1 A2 =
    \<lparr>impl_params = [A1, A2, PF32], impl_result = True,
      impl_ints = (\<lambda>a. zeros15[0 := conv_uintptr (a ! 0), 1 := conv_uintptr (a ! 1)]),
      impl_floats = (\<lambda>a. zeros8[0 := ucast (Float32bits (a ! 2))]), impl_keep = [0, 1]\<rparr>"

definition fastInts2F32V :: "fparam \<Rightarrow> fparam \<Rightarrow> fast_impl" where [wrapper_defs]:
  "fastInts2F32V A1 A2 =
    \<lparr>impl_params = [A1, A2, PF32], impl_result = False,
      impl_ints = (\<lambda>a. zeros15[0 := conv_uintptr (a ! 0), 1 := conv_uintptr (a ! 1)]),
      impl_floats = (\<lambda>a. zeros8[0 := ucast (Float32bits (a ! 2))]), impl_keep = [0, 1]\<rparr>"

definition fastInts3F32R :: "fparam \<Rightarrow> fparam \<Rightarrow> fparam \<Rightarrow> fast_impl" where [wrapper_defs]:
  "fastInts3F32R A1 A2 A3 =
    \<lparr>impl_params = [A1, A2, A3, PF32], impl_result = True,
      impl_ints = (\<lambda>a. zeros15[0 := conv_uintptr (a ! 0), 1 := conv_uintptr (a ! 1),
          2 := conv_uintptr (a ! 2)]),
      impl_floats = (\<lambda>a. zeros8[0 := ucast (Float32bits (a ! 3))]), impl_keep = [0, 1, 2]\<rparr>"

definition fastInts3F32V :: "fparam \<Rightarrow> fparam \<Rightarrow> fparam \<Rightarrow> fast_impl" where [wrapper_defs]:
  "fastInts3F32V A1 A2 A3 =
    \<lparr>impl_params = [A1, A2, A3, PF32], impl_result = False,
      impl_ints = (\<lambda>a. zeros15[0 := conv_uintptr (a ! 0), 1 := conv_uintptr (a ! 1),
          2 := conv_uintptr (a ! 2)]),
      impl_floats = (\<lambda>a. zeros8[0 := ucast (Float32bits (a ! 3))]), impl_keep = [0, 1, 2]\<rparr>"

definition fastInts4F32R :: "fparam \<Rightarrow> fparam \<Rightarrow> fparam \<Rightarrow> fparam \<Rightarrow> fast_impl" where [wrapper_defs]:
  "fastInts4F32R A1 A2 A3 A4 =
    \<lparr>impl_params = [A1, A2, A3, A4, PF32], impl_result = True,
      impl_ints = (\<lambda>a. zeros15[0 := conv_uintptr (a ! 0), 1 := conv_uintptr (a ! 1),
          2 := conv_uintptr (a ! 2), 3 := conv_uintptr (a ! 3)]),
      impl_floats = (\<lambda>a. zeros8[0 := ucast (Float32bits (a ! 4))]), impl_keep = [0, 1, 2, 3]\<rparr>"

definition fastInts4F32V :: "fparam \<Rightarrow> fparam \<Rightarrow> fparam \<Rightarrow> fparam \<Rightarrow> fast_impl" where [wrapper_defs]:
  "fastInts4F32V A1 A2 A3 A4 =
    \<lparr>impl_params = [A1, A2, A3, A4, PF32], impl_result = False,
      impl_ints = (\<lambda>a. zeros15[0 := conv_uintptr (a ! 0), 1 := conv_uintptr (a ! 1),
          2 := conv_uintptr (a ! 2), 3 := conv_uintptr (a ! 3)]),
      impl_floats = (\<lambda>a. zeros8[0 := ucast (Float32bits (a ! 4))]), impl_keep = [0, 1, 2, 3]\<rparr>"

definition fastInts5F32R :: "fparam \<Rightarrow> fparam \<Rightarrow> fparam \<Rightarrow> fparam \<Rightarrow> fparam \<Rightarrow> fast_impl" where [wrapper_defs]:
  "fastInts5F32R A1 A2 A3 A4 A5 =
    \<lparr>impl_params = [A1, A2, A3, A4, A5, PF32], impl_result = True,
      impl_ints = (\<lambda>a. zeros15[0 := conv_uintptr (a ! 0), 1 := conv_uintptr (a ! 1),
          2 := conv_uintptr (a ! 2), 3 := conv_uintptr (a ! 3), 4 := conv_uintptr (a ! 4)]),
      impl_floats = (\<lambda>a. zeros8[0 := ucast (Float32bits (a ! 5))]), impl_keep = [0, 1, 2, 3,
          4]\<rparr>"

definition fastInts5F32V :: "fparam \<Rightarrow> fparam \<Rightarrow> fparam \<Rightarrow> fparam \<Rightarrow> fparam \<Rightarrow> fast_impl" where [wrapper_defs]:
  "fastInts5F32V A1 A2 A3 A4 A5 =
    \<lparr>impl_params = [A1, A2, A3, A4, A5, PF32], impl_result = False,
      impl_ints = (\<lambda>a. zeros15[0 := conv_uintptr (a ! 0), 1 := conv_uintptr (a ! 1),
          2 := conv_uintptr (a ! 2), 3 := conv_uintptr (a ! 3), 4 := conv_uintptr (a ! 4)]),
      impl_floats = (\<lambda>a. zeros8[0 := ucast (Float32bits (a ! 5))]), impl_keep = [0, 1, 2, 3,
          4]\<rparr>"

definition fastInts6F32R :: "fparam \<Rightarrow> fparam \<Rightarrow> fparam \<Rightarrow> fparam \<Rightarrow> fparam \<Rightarrow> fparam \<Rightarrow> fast_impl" where [wrapper_defs]:
  "fastInts6F32R A1 A2 A3 A4 A5 A6 =
    \<lparr>impl_params = [A1, A2, A3, A4, A5, A6, PF32], impl_result = True,
      impl_ints = (\<lambda>a. zeros15[0 := conv_uintptr (a ! 0), 1 := conv_uintptr (a ! 1),
          2 := conv_uintptr (a ! 2), 3 := conv_uintptr (a ! 3), 4 := conv_uintptr (a ! 4),
          5 := conv_uintptr (a ! 5)]),
      impl_floats = (\<lambda>a. zeros8[0 := ucast (Float32bits (a ! 6))]), impl_keep = [0, 1, 2, 3, 4,
          5]\<rparr>"

definition fastInts6F32V :: "fparam \<Rightarrow> fparam \<Rightarrow> fparam \<Rightarrow> fparam \<Rightarrow> fparam \<Rightarrow> fparam \<Rightarrow> fast_impl" where [wrapper_defs]:
  "fastInts6F32V A1 A2 A3 A4 A5 A6 =
    \<lparr>impl_params = [A1, A2, A3, A4, A5, A6, PF32], impl_result = False,
      impl_ints = (\<lambda>a. zeros15[0 := conv_uintptr (a ! 0), 1 := conv_uintptr (a ! 1),
          2 := conv_uintptr (a ! 2), 3 := conv_uintptr (a ! 3), 4 := conv_uintptr (a ! 4),
          5 := conv_uintptr (a ! 5)]),
      impl_floats = (\<lambda>a. zeros8[0 := ucast (Float32bits (a ! 6))]), impl_keep = [0, 1, 2, 3, 4,
          5]\<rparr>"

definition fastInts7F32R :: "fparam \<Rightarrow> fparam \<Rightarrow> fparam \<Rightarrow> fparam \<Rightarrow> fparam \<Rightarrow> fparam \<Rightarrow> fparam \<Rightarrow> fast_impl" where [wrapper_defs]:
  "fastInts7F32R A1 A2 A3 A4 A5 A6 A7 =
    \<lparr>impl_params = [A1, A2, A3, A4, A5, A6, A7, PF32], impl_result = True,
      impl_ints = (\<lambda>a. zeros15[0 := conv_uintptr (a ! 0), 1 := conv_uintptr (a ! 1),
          2 := conv_uintptr (a ! 2), 3 := conv_uintptr (a ! 3), 4 := conv_uintptr (a ! 4),
          5 := conv_uintptr (a ! 5), 6 := conv_uintptr (a ! 6)]),
      impl_floats = (\<lambda>a. zeros8[0 := ucast (Float32bits (a ! 7))]), impl_keep = [0, 1, 2, 3, 4, 5,
          6]\<rparr>"

definition fastInts7F32V :: "fparam \<Rightarrow> fparam \<Rightarrow> fparam \<Rightarrow> fparam \<Rightarrow> fparam \<Rightarrow> fparam \<Rightarrow> fparam \<Rightarrow> fast_impl" where [wrapper_defs]:
  "fastInts7F32V A1 A2 A3 A4 A5 A6 A7 =
    \<lparr>impl_params = [A1, A2, A3, A4, A5, A6, A7, PF32], impl_result = False,
      impl_ints = (\<lambda>a. zeros15[0 := conv_uintptr (a ! 0), 1 := conv_uintptr (a ! 1),
          2 := conv_uintptr (a ! 2), 3 := conv_uintptr (a ! 3), 4 := conv_uintptr (a ! 4),
          5 := conv_uintptr (a ! 5), 6 := conv_uintptr (a ! 6)]),
      impl_floats = (\<lambda>a. zeros8[0 := ucast (Float32bits (a ! 7))]), impl_keep = [0, 1, 2, 3, 4, 5,
          6]\<rparr>"

definition fastInts8F32R :: "fparam \<Rightarrow> fparam \<Rightarrow> fparam \<Rightarrow> fparam \<Rightarrow> fparam \<Rightarrow> fparam \<Rightarrow> fparam \<Rightarrow> fparam \<Rightarrow> fast_impl" where [wrapper_defs]:
  "fastInts8F32R A1 A2 A3 A4 A5 A6 A7 A8 =
    \<lparr>impl_params = [A1, A2, A3, A4, A5, A6, A7, A8, PF32], impl_result = True,
      impl_ints = (\<lambda>a. zeros15[0 := conv_uintptr (a ! 0), 1 := conv_uintptr (a ! 1),
          2 := conv_uintptr (a ! 2), 3 := conv_uintptr (a ! 3), 4 := conv_uintptr (a ! 4),
          5 := conv_uintptr (a ! 5), 6 := conv_uintptr (a ! 6), 7 := conv_uintptr (a ! 7)]),
      impl_floats = (\<lambda>a. zeros8[0 := ucast (Float32bits (a ! 8))]), impl_keep = [0, 1, 2, 3, 4, 5, 6,
          7]\<rparr>"

definition fastInts8F32V :: "fparam \<Rightarrow> fparam \<Rightarrow> fparam \<Rightarrow> fparam \<Rightarrow> fparam \<Rightarrow> fparam \<Rightarrow> fparam \<Rightarrow> fparam \<Rightarrow> fast_impl" where [wrapper_defs]:
  "fastInts8F32V A1 A2 A3 A4 A5 A6 A7 A8 =
    \<lparr>impl_params = [A1, A2, A3, A4, A5, A6, A7, A8, PF32], impl_result = False,
      impl_ints = (\<lambda>a. zeros15[0 := conv_uintptr (a ! 0), 1 := conv_uintptr (a ! 1),
          2 := conv_uintptr (a ! 2), 3 := conv_uintptr (a ! 3), 4 := conv_uintptr (a ! 4),
          5 := conv_uintptr (a ! 5), 6 := conv_uintptr (a ! 6), 7 := conv_uintptr (a ! 7)]),
      impl_floats = (\<lambda>a. zeros8[0 := ucast (Float32bits (a ! 8))]), impl_keep = [0, 1, 2, 3, 4, 5, 6,
          7]\<rparr>"

definition fastInts9F32R :: "fparam \<Rightarrow> fparam \<Rightarrow> fparam \<Rightarrow> fparam \<Rightarrow> fparam \<Rightarrow> fparam \<Rightarrow> fparam \<Rightarrow> fparam \<Rightarrow> fparam \<Rightarrow> fast_impl" where [wrapper_defs]:
  "fastInts9F32R A1 A2 A3 A4 A5 A6 A7 A8 A9 =
    \<lparr>impl_params = [A1, A2, A3, A4, A5, A6, A7, A8, A9, PF32], impl_result = True,
      impl_ints = (\<lambda>a. zeros15[0 := conv_uintptr (a ! 0), 1 := conv_uintptr (a ! 1),
          2 := conv_uintptr (a ! 2), 3 := conv_uintptr (a ! 3), 4 := conv_uintptr (a ! 4),
          5 := conv_uintptr (a ! 5), 6 := conv_uintptr (a ! 6), 7 := conv_uintptr (a ! 7),
          8 := conv_uintptr (a ! 8)]),
      impl_floats = (\<lambda>a. zeros8[0 := ucast (Float32bits (a ! 9))]), impl_keep = [0, 1, 2, 3, 4, 5, 6,
          7, 8]\<rparr>"

definition fastInts9F32V :: "fparam \<Rightarrow> fparam \<Rightarrow> fparam \<Rightarrow> fparam \<Rightarrow> fparam \<Rightarrow> fparam \<Rightarrow> fparam \<Rightarrow> fparam \<Rightarrow> fparam \<Rightarrow> fast_impl" where [wrapper_defs]:
  "fastInts9F32V A1 A2 A3 A4 A5 A6 A7 A8 A9 =
    \<lparr>impl_params = [A1, A2, A3, A4, A5, A6, A7, A8, A9, PF32], impl_result = False,
      impl_ints = (\<lambda>a. zeros15[0 := conv_uintptr (a ! 0), 1 := conv_uintptr (a ! 1),
          2 := conv_uintptr (a ! 2), 3 := conv_uintptr (a ! 3), 4 := conv_uintptr (a ! 4),
          5 := conv_uintptr (a ! 5), 6 := conv_uintptr (a ! 6), 7 := conv_uintptr (a ! 7),
          8 := conv_uintptr (a ! 8)]),
      impl_floats = (\<lambda>a. zeros8[0 := ucast (Float32bits (a ! 9))]), impl_keep = [0, 1, 2, 3, 4, 5, 6,
          7, 8]\<rparr>"

definition fastInts10F32R :: "fparam \<Rightarrow> fparam \<Rightarrow> fparam \<Rightarrow> fparam \<Rightarrow> fparam \<Rightarrow> fparam \<Rightarrow> fparam \<Rightarrow> fparam \<Rightarrow> fparam \<Rightarrow> fparam \<Rightarrow> fast_impl" where [wrapper_defs]:
  "fastInts10F32R A1 A2 A3 A4 A5 A6 A7 A8 A9 A10 =
    \<lparr>impl_params = [A1, A2, A3, A4, A5, A6, A7, A8, A9, A10, PF32], impl_result = True,
      impl_ints = (\<lambda>a. zeros15[0 := conv_uintptr (a ! 0), 1 := conv_uintptr (a ! 1),
          2 := conv_uintptr (a ! 2), 3 := conv_uintptr (a ! 3), 4 := conv_uintptr (a ! 4),
          5 := conv_uintptr (a ! 5), 6 := conv_uintptr (a ! 6), 7 := conv_uintptr (a ! 7),
          8 := conv_uintptr (a ! 8), 9 := conv_uintptr (a ! 9)]),
      impl_floats = (\<lambda>a. zeros8[0 := ucast (Float32bits (a ! 10))]), impl_keep = [0, 1, 2, 3, 4, 5,
          6, 7, 8, 9]\<rparr>"

definition fastInts10F32V :: "fparam \<Rightarrow> fparam \<Rightarrow> fparam \<Rightarrow> fparam \<Rightarrow> fparam \<Rightarrow> fparam \<Rightarrow> fparam \<Rightarrow> fparam \<Rightarrow> fparam \<Rightarrow> fparam \<Rightarrow> fast_impl" where [wrapper_defs]:
  "fastInts10F32V A1 A2 A3 A4 A5 A6 A7 A8 A9 A10 =
    \<lparr>impl_params = [A1, A2, A3, A4, A5, A6, A7, A8, A9, A10, PF32], impl_result = False,
      impl_ints = (\<lambda>a. zeros15[0 := conv_uintptr (a ! 0), 1 := conv_uintptr (a ! 1),
          2 := conv_uintptr (a ! 2), 3 := conv_uintptr (a ! 3), 4 := conv_uintptr (a ! 4),
          5 := conv_uintptr (a ! 5), 6 := conv_uintptr (a ! 6), 7 := conv_uintptr (a ! 7),
          8 := conv_uintptr (a ! 8), 9 := conv_uintptr (a ! 9)]),
      impl_floats = (\<lambda>a. zeros8[0 := ucast (Float32bits (a ! 10))]), impl_keep = [0, 1, 2, 3, 4, 5,
          6, 7, 8, 9]\<rparr>"

definition fastInts11F32R :: "fparam \<Rightarrow> fparam \<Rightarrow> fparam \<Rightarrow> fparam \<Rightarrow> fparam \<Rightarrow> fparam \<Rightarrow> fparam \<Rightarrow> fparam \<Rightarrow> fparam \<Rightarrow> fparam \<Rightarrow> fparam \<Rightarrow> fast_impl" where [wrapper_defs]:
  "fastInts11F32R A1 A2 A3 A4 A5 A6 A7 A8 A9 A10 A11 =
    \<lparr>impl_params = [A1, A2, A3, A4, A5, A6, A7, A8, A9, A10, A11, PF32], impl_result = True,
      impl_ints = (\<lambda>a. zeros15[0 := conv_uintptr (a ! 0), 1 := conv_uintptr (a ! 1),
          2 := conv_uintptr (a ! 2), 3 := conv_uintptr (a ! 3), 4 := conv_uintptr (a ! 4),
          5 := conv_uintptr (a ! 5), 6 := conv_uintptr (a ! 6), 7 := conv_uintptr (a ! 7),
          8 := conv_uintptr (a ! 8), 9 := conv_uintptr (a ! 9), 10 := conv_uintptr (a ! 10)]),
      impl_floats = (\<lambda>a. zeros8[0 := ucast (Float32bits (a ! 11))]), impl_keep = [0, 1, 2, 3, 4, 5,
          6, 7, 8, 9, 10]\<rparr>"

definition fastInts11F32V :: "fparam \<Rightarrow> fparam \<Rightarrow> fparam \<Rightarrow> fparam \<Rightarrow> fparam \<Rightarrow> fparam \<Rightarrow> fparam \<Rightarrow> fparam \<Rightarrow> fparam \<Rightarrow> fparam \<Rightarrow> fparam \<Rightarrow> fast_impl" where [wrapper_defs]:
  "fastInts11F32V A1 A2 A3 A4 A5 A6 A7 A8 A9 A10 A11 =
    \<lparr>impl_params = [A1, A2, A3, A4, A5, A6, A7, A8, A9, A10, A11, PF32], impl_result = False,
      impl_ints = (\<lambda>a. zeros15[0 := conv_uintptr (a ! 0), 1 := conv_uintptr (a ! 1),
          2 := conv_uintptr (a ! 2), 3 := conv_uintptr (a ! 3), 4 := conv_uintptr (a ! 4),
          5 := conv_uintptr (a ! 5), 6 := conv_uintptr (a ! 6), 7 := conv_uintptr (a ! 7),
          8 := conv_uintptr (a ! 8), 9 := conv_uintptr (a ! 9), 10 := conv_uintptr (a ! 10)]),
      impl_floats = (\<lambda>a. zeros8[0 := ucast (Float32bits (a ! 11))]), impl_keep = [0, 1, 2, 3, 4, 5,
          6, 7, 8, 9, 10]\<rparr>"

definition fastInts12F32R :: "fparam \<Rightarrow> fparam \<Rightarrow> fparam \<Rightarrow> fparam \<Rightarrow> fparam \<Rightarrow> fparam \<Rightarrow> fparam \<Rightarrow> fparam \<Rightarrow> fparam \<Rightarrow> fparam \<Rightarrow> fparam \<Rightarrow> fparam \<Rightarrow> fast_impl" where [wrapper_defs]:
  "fastInts12F32R A1 A2 A3 A4 A5 A6 A7 A8 A9 A10 A11 A12 =
    \<lparr>impl_params = [A1, A2, A3, A4, A5, A6, A7, A8, A9, A10, A11, A12, PF32], impl_result = True,
      impl_ints = (\<lambda>a. zeros15[0 := conv_uintptr (a ! 0), 1 := conv_uintptr (a ! 1),
          2 := conv_uintptr (a ! 2), 3 := conv_uintptr (a ! 3), 4 := conv_uintptr (a ! 4),
          5 := conv_uintptr (a ! 5), 6 := conv_uintptr (a ! 6), 7 := conv_uintptr (a ! 7),
          8 := conv_uintptr (a ! 8), 9 := conv_uintptr (a ! 9), 10 := conv_uintptr (a ! 10),
          11 := conv_uintptr (a ! 11)]),
      impl_floats = (\<lambda>a. zeros8[0 := ucast (Float32bits (a ! 12))]), impl_keep = [0, 1, 2, 3, 4, 5,
          6, 7, 8, 9, 10, 11]\<rparr>"

definition fastInts12F32V :: "fparam \<Rightarrow> fparam \<Rightarrow> fparam \<Rightarrow> fparam \<Rightarrow> fparam \<Rightarrow> fparam \<Rightarrow> fparam \<Rightarrow> fparam \<Rightarrow> fparam \<Rightarrow> fparam \<Rightarrow> fparam \<Rightarrow> fparam \<Rightarrow> fast_impl" where [wrapper_defs]:
  "fastInts12F32V A1 A2 A3 A4 A5 A6 A7 A8 A9 A10 A11 A12 =
    \<lparr>impl_params = [A1, A2, A3, A4, A5, A6, A7, A8, A9, A10, A11, A12, PF32], impl_result = False,
      impl_ints = (\<lambda>a. zeros15[0 := conv_uintptr (a ! 0), 1 := conv_uintptr (a ! 1),
          2 := conv_uintptr (a ! 2), 3 := conv_uintptr (a ! 3), 4 := conv_uintptr (a ! 4),
          5 := conv_uintptr (a ! 5), 6 := conv_uintptr (a ! 6), 7 := conv_uintptr (a ! 7),
          8 := conv_uintptr (a ! 8), 9 := conv_uintptr (a ! 9), 10 := conv_uintptr (a ! 10),
          11 := conv_uintptr (a ! 11)]),
      impl_floats = (\<lambda>a. zeros8[0 := ucast (Float32bits (a ! 12))]), impl_keep = [0, 1, 2, 3, 4, 5,
          6, 7, 8, 9, 10, 11]\<rparr>"

definition fastInts13F32R :: "fparam \<Rightarrow> fparam \<Rightarrow> fparam \<Rightarrow> fparam \<Rightarrow> fparam \<Rightarrow> fparam \<Rightarrow> fparam \<Rightarrow> fparam \<Rightarrow> fparam \<Rightarrow> fparam \<Rightarrow> fparam \<Rightarrow> fparam \<Rightarrow> fparam \<Rightarrow> fast_impl" where [wrapper_defs]:
  "fastInts13F32R A1 A2 A3 A4 A5 A6 A7 A8 A9 A10 A11 A12 A13 =
    \<lparr>impl_params = [A1, A2, A3, A4, A5, A6, A7, A8, A9, A10, A11, A12, A13, PF32], impl_result = True,
      impl_ints = (\<lambda>a. zeros15[0 := conv_uintptr (a ! 0), 1 := conv_uintptr (a ! 1),
          2 := conv_uintptr (a ! 2), 3 := conv_uintptr (a ! 3), 4 := conv_uintptr (a ! 4),
          5 := conv_uintptr (a ! 5), 6 := conv_uintptr (a ! 6), 7 := conv_uintptr (a ! 7),
          8 := conv_uintptr (a ! 8), 9 := conv_uintptr (a ! 9), 10 := conv_uintptr (a ! 10),
          11 := conv_uintptr (a ! 11), 12 := conv_uintptr (a ! 12)]),
      impl_floats = (\<lambda>a. zeros8[0 := ucast (Float32bits (a ! 13))]), impl_keep = [0, 1, 2, 3, 4, 5,
          6, 7, 8, 9, 10, 11, 12]\<rparr>"

definition fastInts13F32V :: "fparam \<Rightarrow> fparam \<Rightarrow> fparam \<Rightarrow> fparam \<Rightarrow> fparam \<Rightarrow> fparam \<Rightarrow> fparam \<Rightarrow> fparam \<Rightarrow> fparam \<Rightarrow> fparam \<Rightarrow> fparam \<Rightarrow> fparam \<Rightarrow> fparam \<Rightarrow> fast_impl" where [wrapper_defs]:
  "fastInts13F32V A1 A2 A3 A4 A5 A6 A7 A8 A9 A10 A11 A12 A13 =
    \<lparr>impl_params = [A1, A2, A3, A4, A5, A6, A7, A8, A9, A10, A11, A12, A13, PF32], impl_result = False,
      impl_ints = (\<lambda>a. zeros15[0 := conv_uintptr (a ! 0), 1 := conv_uintptr (a ! 1),
          2 := conv_uintptr (a ! 2), 3 := conv_uintptr (a ! 3), 4 := conv_uintptr (a ! 4),
          5 := conv_uintptr (a ! 5), 6 := conv_uintptr (a ! 6), 7 := conv_uintptr (a ! 7),
          8 := conv_uintptr (a ! 8), 9 := conv_uintptr (a ! 9), 10 := conv_uintptr (a ! 10),
          11 := conv_uintptr (a ! 11), 12 := conv_uintptr (a ! 12)]),
      impl_floats = (\<lambda>a. zeros8[0 := ucast (Float32bits (a ! 13))]), impl_keep = [0, 1, 2, 3, 4, 5,
          6, 7, 8, 9, 10, 11, 12]\<rparr>"

definition fastInts14F32R :: "fparam \<Rightarrow> fparam \<Rightarrow> fparam \<Rightarrow> fparam \<Rightarrow> fparam \<Rightarrow> fparam \<Rightarrow> fparam \<Rightarrow> fparam \<Rightarrow> fparam \<Rightarrow> fparam \<Rightarrow> fparam \<Rightarrow> fparam \<Rightarrow> fparam \<Rightarrow> fparam \<Rightarrow> fast_impl" where [wrapper_defs]:
  "fastInts14F32R A1 A2 A3 A4 A5 A6 A7 A8 A9 A10 A11 A12 A13 A14 =
    \<lparr>impl_params = [A1, A2, A3, A4, A5, A6, A7, A8, A9, A10, A11, A12, A13, A14, PF32],
        impl_result = True,
      impl_ints = (\<lambda>a. zeros15[0 := conv_uintptr (a ! 0), 1 := conv_uintptr (a ! 1),
          2 := conv_uintptr (a ! 2), 3 := conv_uintptr (a ! 3), 4 := conv_uintptr (a ! 4),
          5 := conv_uintptr (a ! 5), 6 := conv_uintptr (a ! 6), 7 := conv_uintptr (a ! 7),
          8 := conv_uintptr (a ! 8), 9 := conv_uintptr (a ! 9), 10 := conv_uintptr (a ! 10),
          11 := conv_uintptr (a ! 11), 12 := conv_uintptr (a ! 12), 13 := conv_uintptr (a ! 13)]),
      impl_floats = (\<lambda>a. zeros8[0 := ucast (Float32bits (a ! 14))]), impl_keep = [0, 1, 2, 3, 4, 5,
          6, 7, 8, 9, 10, 11, 12, 13]\<rparr>"

definition fastInts14F32V :: "fparam \<Rightarrow> fparam \<Rightarrow> fparam \<Rightarrow> fparam \<Rightarrow> fparam \<Rightarrow> fparam \<Rightarrow> fparam \<Rightarrow> fparam \<Rightarrow> fparam \<Rightarrow> fparam \<Rightarrow> fparam \<Rightarrow> fparam \<Rightarrow> fparam \<Rightarrow> fparam \<Rightarrow> fast_impl" where [wrapper_defs]:
  "fastInts14F32V A1 A2 A3 A4 A5 A6 A7 A8 A9 A10 A11 A12 A13 A14 =
    \<lparr>impl_params = [A1, A2, A3, A4, A5, A6, A7, A8, A9, A10, A11, A12, A13, A14, PF32],
        impl_result = False,
      impl_ints = (\<lambda>a. zeros15[0 := conv_uintptr (a ! 0), 1 := conv_uintptr (a ! 1),
          2 := conv_uintptr (a ! 2), 3 := conv_uintptr (a ! 3), 4 := conv_uintptr (a ! 4),
          5 := conv_uintptr (a ! 5), 6 := conv_uintptr (a ! 6), 7 := conv_uintptr (a ! 7),
          8 := conv_uintptr (a ! 8), 9 := conv_uintptr (a ! 9), 10 := conv_uintptr (a ! 10),
          11 := conv_uintptr (a ! 11), 12 := conv_uintptr (a ! 12), 13 := conv_uintptr (a ! 13)]),
      impl_floats = (\<lambda>a. zeros8[0 := ucast (Float32bits (a ! 14))]), impl_keep = [0, 1, 2, 3, 4, 5,
          6, 7, 8, 9, 10, 11, 12, 13]\<rparr>"

definition fastInts0F64R :: "fast_impl" where [wrapper_defs]:
  "fastInts0F64R =
    \<lparr>impl_params = [PF64], impl_result = True,
      impl_ints = (\<lambda>a. zeros15),
      impl_floats = (\<lambda>a. zeros8[0 := Float64bits (a ! 0)]), impl_keep = []\<rparr>"

definition fastInts0F64V :: "fast_impl" where [wrapper_defs]:
  "fastInts0F64V =
    \<lparr>impl_params = [PF64], impl_result = False,
      impl_ints = (\<lambda>a. zeros15),
      impl_floats = (\<lambda>a. zeros8[0 := Float64bits (a ! 0)]), impl_keep = []\<rparr>"

definition fastInts1F64R :: "fparam \<Rightarrow> fast_impl" where [wrapper_defs]:
  "fastInts1F64R A1 =
    \<lparr>impl_params = [A1, PF64], impl_result = True,
      impl_ints = (\<lambda>a. zeros15[0 := conv_uintptr (a ! 0)]),
      impl_floats = (\<lambda>a. zeros8[0 := Float64bits (a ! 1)]), impl_keep = [0]\<rparr>"

definition fastInts1F64V :: "fparam \<Rightarrow> fast_impl" where [wrapper_defs]:
  "fastInts1F64V A1 =
    \<lparr>impl_params = [A1, PF64], impl_result = False,
      impl_ints = (\<lambda>a. zeros15[0 := conv_uintptr (a ! 0)]),
      impl_floats = (\<lambda>a. zeros8[0 := Float64bits (a ! 1)]), impl_keep = [0]\<rparr>"

definition fastInts2F64R :: "fparam \<Rightarrow> fparam \<Rightarrow> fast_impl" where [wrapper_defs]:
  "fastInts2F64R A1 A2 =
    \<lparr>impl_params = [A1, A2, PF64], impl_result = True,
      impl_ints = (\<lambda>a. zeros15[0 := conv_uintptr (a ! 0), 1 := conv_uintptr (a ! 1)]),
      impl_floats = (\<lambda>a. zeros8[0 := Float64bits (a ! 2)]), impl_keep = [0, 1]\<rparr>"

definition fastInts2F64V :: "fparam \<Rightarrow> fparam \<Rightarrow> fast_impl" where [wrapper_defs]:
  "fastInts2F64V A1 A2 =
    \<lparr>impl_params = [A1, A2, PF64], impl_result = False,
      impl_ints = (\<lambda>a. zeros15[0 := conv_uintptr (a ! 0), 1 := conv_uintptr (a ! 1)]),
      impl_floats = (\<lambda>a. zeros8[0 := Float64bits (a ! 2)]), impl_keep = [0, 1]\<rparr>"

definition fastInts3F64R :: "fparam \<Rightarrow> fparam \<Rightarrow> fparam \<Rightarrow> fast_impl" where [wrapper_defs]:
  "fastInts3F64R A1 A2 A3 =
    \<lparr>impl_params = [A1, A2, A3, PF64], impl_result = True,
      impl_ints = (\<lambda>a. zeros15[0 := conv_uintptr (a ! 0), 1 := conv_uintptr (a ! 1),
          2 := conv_uintptr (a ! 2)]),
      impl_floats = (\<lambda>a. zeros8[0 := Float64bits (a ! 3)]), impl_keep = [0, 1, 2]\<rparr>"

definition fastInts3F64V :: "fparam \<Rightarrow> fparam \<Rightarrow> fparam \<Rightarrow> fast_impl" where [wrapper_defs]:
  "fastInts3F64V A1 A2 A3 =
    \<lparr>impl_params = [A1, A2, A3, PF64], impl_result = False,
      impl_ints = (\<lambda>a. zeros15[0 := conv_uintptr (a ! 0), 1 := conv_uintptr (a ! 1),
          2 := conv_uintptr (a ! 2)]),
      impl_floats = (\<lambda>a. zeros8[0 := Float64bits (a ! 3)]), impl_keep = [0, 1, 2]\<rparr>"

definition fastInts4F64R :: "fparam \<Rightarrow> fparam \<Rightarrow> fparam \<Rightarrow> fparam \<Rightarrow> fast_impl" where [wrapper_defs]:
  "fastInts4F64R A1 A2 A3 A4 =
    \<lparr>impl_params = [A1, A2, A3, A4, PF64], impl_result = True,
      impl_ints = (\<lambda>a. zeros15[0 := conv_uintptr (a ! 0), 1 := conv_uintptr (a ! 1),
          2 := conv_uintptr (a ! 2), 3 := conv_uintptr (a ! 3)]),
      impl_floats = (\<lambda>a. zeros8[0 := Float64bits (a ! 4)]), impl_keep = [0, 1, 2, 3]\<rparr>"

definition fastInts4F64V :: "fparam \<Rightarrow> fparam \<Rightarrow> fparam \<Rightarrow> fparam \<Rightarrow> fast_impl" where [wrapper_defs]:
  "fastInts4F64V A1 A2 A3 A4 =
    \<lparr>impl_params = [A1, A2, A3, A4, PF64], impl_result = False,
      impl_ints = (\<lambda>a. zeros15[0 := conv_uintptr (a ! 0), 1 := conv_uintptr (a ! 1),
          2 := conv_uintptr (a ! 2), 3 := conv_uintptr (a ! 3)]),
      impl_floats = (\<lambda>a. zeros8[0 := Float64bits (a ! 4)]), impl_keep = [0, 1, 2, 3]\<rparr>"

definition fastInts5F64R :: "fparam \<Rightarrow> fparam \<Rightarrow> fparam \<Rightarrow> fparam \<Rightarrow> fparam \<Rightarrow> fast_impl" where [wrapper_defs]:
  "fastInts5F64R A1 A2 A3 A4 A5 =
    \<lparr>impl_params = [A1, A2, A3, A4, A5, PF64], impl_result = True,
      impl_ints = (\<lambda>a. zeros15[0 := conv_uintptr (a ! 0), 1 := conv_uintptr (a ! 1),
          2 := conv_uintptr (a ! 2), 3 := conv_uintptr (a ! 3), 4 := conv_uintptr (a ! 4)]),
      impl_floats = (\<lambda>a. zeros8[0 := Float64bits (a ! 5)]), impl_keep = [0, 1, 2, 3, 4]\<rparr>"

definition fastInts5F64V :: "fparam \<Rightarrow> fparam \<Rightarrow> fparam \<Rightarrow> fparam \<Rightarrow> fparam \<Rightarrow> fast_impl" where [wrapper_defs]:
  "fastInts5F64V A1 A2 A3 A4 A5 =
    \<lparr>impl_params = [A1, A2, A3, A4, A5, PF64], impl_result = False,
      impl_ints = (\<lambda>a. zeros15[0 := conv_uintptr (a ! 0), 1 := conv_uintptr (a ! 1),
          2 := conv_uintptr (a ! 2), 3 := conv_uintptr (a ! 3), 4 := conv_uintptr (a ! 4)]),
      impl_floats = (\<lambda>a. zeros8[0 := Float64bits (a ! 5)]), impl_keep = [0, 1, 2, 3, 4]\<rparr>"

definition fastInts6F64R :: "fparam \<Rightarrow> fparam \<Rightarrow> fparam \<Rightarrow> fparam \<Rightarrow> fparam \<Rightarrow> fparam \<Rightarrow> fast_impl" where [wrapper_defs]:
  "fastInts6F64R A1 A2 A3 A4 A5 A6 =
    \<lparr>impl_params = [A1, A2, A3, A4, A5, A6, PF64], impl_result = True,
      impl_ints = (\<lambda>a. zeros15[0 := conv_uintptr (a ! 0), 1 := conv_uintptr (a ! 1),
          2 := conv_uintptr (a ! 2), 3 := conv_uintptr (a ! 3), 4 := conv_uintptr (a ! 4),
          5 := conv_uintptr (a ! 5)]),
      impl_floats = (\<lambda>a. zeros8[0 := Float64bits (a ! 6)]), impl_keep = [0, 1, 2, 3, 4, 5]\<rparr>"

definition fastInts6F64V :: "fparam \<Rightarrow> fparam \<Rightarrow> fparam \<Rightarrow> fparam \<Rightarrow> fparam \<Rightarrow> fparam \<Rightarrow> fast_impl" where [wrapper_defs]:
  "fastInts6F64V A1 A2 A3 A4 A5 A6 =
    \<lparr>impl_params = [A1, A2, A3, A4, A5, A6, PF64], impl_result = False,
      impl_ints = (\<lambda>a. zeros15[0 := conv_uintptr (a ! 0), 1 := conv_uintptr (a ! 1),
          2 := conv_uintptr (a ! 2), 3 := conv_uintptr (a ! 3), 4 := conv_uintptr (a ! 4),
          5 := conv_uintptr (a ! 5)]),
      impl_floats = (\<lambda>a. zeros8[0 := Float64bits (a ! 6)]), impl_keep = [0, 1, 2, 3, 4, 5]\<rparr>"

definition fastInts7F64R :: "fparam \<Rightarrow> fparam \<Rightarrow> fparam \<Rightarrow> fparam \<Rightarrow> fparam \<Rightarrow> fparam \<Rightarrow> fparam \<Rightarrow> fast_impl" where [wrapper_defs]:
  "fastInts7F64R A1 A2 A3 A4 A5 A6 A7 =
    \<lparr>impl_params = [A1, A2, A3, A4, A5, A6, A7, PF64], impl_result = True,
      impl_ints = (\<lambda>a. zeros15[0 := conv_uintptr (a ! 0), 1 := conv_uintptr (a ! 1),
          2 := conv_uintptr (a ! 2), 3 := conv_uintptr (a ! 3), 4 := conv_uintptr (a ! 4),
          5 := conv_uintptr (a ! 5), 6 := conv_uintptr (a ! 6)]),
      impl_floats = (\<lambda>a. zeros8[0 := Float64bits (a ! 7)]), impl_keep = [0, 1, 2, 3, 4, 5, 6]\<rparr>"

definition fastInts7F64V :: "fparam \<Rightarrow> fparam \<Rightarrow> fparam \<Rightarrow> fparam \<Rightarrow> fparam \<Rightarrow> fparam \<Rightarrow> fparam \<Rightarrow> fast_impl" where [wrapper_defs]:
  "fastInts7F64V A1 A2 A3 A4 A5 A6 A7 =
    \<lparr>impl_params = [A1, A2, A3, A4, A5, A6, A7, PF64], impl_result = False,
      impl_ints = (\<lambda>a. zeros15[0 := conv_uintptr (a ! 0), 1 := conv_uintptr (a ! 1),
          2 := conv_uintptr (a ! 2), 3 := conv_uintptr (a ! 3), 4 := conv_uintptr (a ! 4),
          5 := conv_uintptr (a ! 5), 6 := conv_uintptr (a ! 6)]),
      impl_floats = (\<lambda>a. zeros8[0 := Float64bits (a ! 7)]), impl_keep = [0, 1, 2, 3, 4, 5, 6]\<rparr>"

definition fastInts8F64R :: "fparam \<Rightarrow> fparam \<Rightarrow> fparam \<Rightarrow> fparam \<Rightarrow> fparam \<Rightarrow> fparam \<Rightarrow> fparam \<Rightarrow> fparam \<Rightarrow> fast_impl" where [wrapper_defs]:
  "fastInts8F64R A1 A2 A3 A4 A5 A6 A7 A8 =
    \<lparr>impl_params = [A1, A2, A3, A4, A5, A6, A7, A8, PF64], impl_result = True,
      impl_ints = (\<lambda>a. zeros15[0 := conv_uintptr (a ! 0), 1 := conv_uintptr (a ! 1),
          2 := conv_uintptr (a ! 2), 3 := conv_uintptr (a ! 3), 4 := conv_uintptr (a ! 4),
          5 := conv_uintptr (a ! 5), 6 := conv_uintptr (a ! 6), 7 := conv_uintptr (a ! 7)]),
      impl_floats = (\<lambda>a. zeros8[0 := Float64bits (a ! 8)]), impl_keep = [0, 1, 2, 3, 4, 5, 6,
          7]\<rparr>"

definition fastInts8F64V :: "fparam \<Rightarrow> fparam \<Rightarrow> fparam \<Rightarrow> fparam \<Rightarrow> fparam \<Rightarrow> fparam \<Rightarrow> fparam \<Rightarrow> fparam \<Rightarrow> fast_impl" where [wrapper_defs]:
  "fastInts8F64V A1 A2 A3 A4 A5 A6 A7 A8 =
    \<lparr>impl_params = [A1, A2, A3, A4, A5, A6, A7, A8, PF64], impl_result = False,
      impl_ints = (\<lambda>a. zeros15[0 := conv_uintptr (a ! 0), 1 := conv_uintptr (a ! 1),
          2 := conv_uintptr (a ! 2), 3 := conv_uintptr (a ! 3), 4 := conv_uintptr (a ! 4),
          5 := conv_uintptr (a ! 5), 6 := conv_uintptr (a ! 6), 7 := conv_uintptr (a ! 7)]),
      impl_floats = (\<lambda>a. zeros8[0 := Float64bits (a ! 8)]), impl_keep = [0, 1, 2, 3, 4, 5, 6,
          7]\<rparr>"

definition fastInts9F64R :: "fparam \<Rightarrow> fparam \<Rightarrow> fparam \<Rightarrow> fparam \<Rightarrow> fparam \<Rightarrow> fparam \<Rightarrow> fparam \<Rightarrow> fparam \<Rightarrow> fparam \<Rightarrow> fast_impl" where [wrapper_defs]:
  "fastInts9F64R A1 A2 A3 A4 A5 A6 A7 A8 A9 =
    \<lparr>impl_params = [A1, A2, A3, A4, A5, A6, A7, A8, A9, PF64], impl_result = True,
      impl_ints = (\<lambda>a. zeros15[0 := conv_uintptr (a ! 0), 1 := conv_uintptr (a ! 1),
          2 := conv_uintptr (a ! 2), 3 := conv_uintptr (a ! 3), 4 := conv_uintptr (a ! 4),
          5 := conv_uintptr (a ! 5), 6 := conv_uintptr (a ! 6), 7 := conv_uintptr (a ! 7),
          8 := conv_uintptr (a ! 8)]),
      impl_floats = (\<lambda>a. zeros8[0 := Float64bits (a ! 9)]), impl_keep = [0, 1, 2, 3, 4, 5, 6, 7,
          8]\<rparr>"

definition fastInts9F64V :: "fparam \<Rightarrow> fparam \<Rightarrow> fparam \<Rightarrow> fparam \<Rightarrow> fparam \<Rightarrow> fparam \<Rightarrow> fparam \<Rightarrow> fparam \<Rightarrow> fparam \<Rightarrow> fast_impl" where [wrapper_defs]:
  "fastInts9F64V A1 A2 A3 A4 A5 A6 A7 A8 A9 =
    \<lparr>impl_params = [A1, A2, A3, A4, A5, A6, A7, A8, A9, PF64], impl_result = False,
      impl_ints = (\<lambda>a. zeros15[0 := conv_uintptr (a ! 0), 1 := conv_uintptr (a ! 1),
          2 := conv_uintptr (a ! 2), 3 := conv_uintptr (a ! 3), 4 := conv_uintptr (a ! 4),
          5 := conv_uintptr (a ! 5), 6 := conv_uintptr (a ! 6), 7 := conv_uintptr (a ! 7),
          8 := conv_uintptr (a ! 8)]),
      impl_floats = (\<lambda>a. zeros8[0 := Float64bits (a ! 9)]), impl_keep = [0, 1, 2, 3, 4, 5, 6, 7,
          8]\<rparr>"

definition fastInts10F64R :: "fparam \<Rightarrow> fparam \<Rightarrow> fparam \<Rightarrow> fparam \<Rightarrow> fparam \<Rightarrow> fparam \<Rightarrow> fparam \<Rightarrow> fparam \<Rightarrow> fparam \<Rightarrow> fparam \<Rightarrow> fast_impl" where [wrapper_defs]:
  "fastInts10F64R A1 A2 A3 A4 A5 A6 A7 A8 A9 A10 =
    \<lparr>impl_params = [A1, A2, A3, A4, A5, A6, A7, A8, A9, A10, PF64], impl_result = True,
      impl_ints = (\<lambda>a. zeros15[0 := conv_uintptr (a ! 0), 1 := conv_uintptr (a ! 1),
          2 := conv_uintptr (a ! 2), 3 := conv_uintptr (a ! 3), 4 := conv_uintptr (a ! 4),
          5 := conv_uintptr (a ! 5), 6 := conv_uintptr (a ! 6), 7 := conv_uintptr (a ! 7),
          8 := conv_uintptr (a ! 8), 9 := conv_uintptr (a ! 9)]),
      impl_floats = (\<lambda>a. zeros8[0 := Float64bits (a ! 10)]), impl_keep = [0, 1, 2, 3, 4, 5, 6, 7, 8,
          9]\<rparr>"

definition fastInts10F64V :: "fparam \<Rightarrow> fparam \<Rightarrow> fparam \<Rightarrow> fparam \<Rightarrow> fparam \<Rightarrow> fparam \<Rightarrow> fparam \<Rightarrow> fparam \<Rightarrow> fparam \<Rightarrow> fparam \<Rightarrow> fast_impl" where [wrapper_defs]:
  "fastInts10F64V A1 A2 A3 A4 A5 A6 A7 A8 A9 A10 =
    \<lparr>impl_params = [A1, A2, A3, A4, A5, A6, A7, A8, A9, A10, PF64], impl_result = False,
      impl_ints = (\<lambda>a. zeros15[0 := conv_uintptr (a ! 0), 1 := conv_uintptr (a ! 1),
          2 := conv_uintptr (a ! 2), 3 := conv_uintptr (a ! 3), 4 := conv_uintptr (a ! 4),
          5 := conv_uintptr (a ! 5), 6 := conv_uintptr (a ! 6), 7 := conv_uintptr (a ! 7),
          8 := conv_uintptr (a ! 8), 9 := conv_uintptr (a ! 9)]),
      impl_floats = (\<lambda>a. zeros8[0 := Float64bits (a ! 10)]), impl_keep = [0, 1, 2, 3, 4, 5, 6, 7, 8,
          9]\<rparr>"

definition fastInts11F64R :: "fparam \<Rightarrow> fparam \<Rightarrow> fparam \<Rightarrow> fparam \<Rightarrow> fparam \<Rightarrow> fparam \<Rightarrow> fparam \<Rightarrow> fparam \<Rightarrow> fparam \<Rightarrow> fparam \<Rightarrow> fparam \<Rightarrow> fast_impl" where [wrapper_defs]:
  "fastInts11F64R A1 A2 A3 A4 A5 A6 A7 A8 A9 A10 A11 =
    \<lparr>impl_params = [A1, A2, A3, A4, A5, A6, A7, A8, A9, A10, A11, PF64], impl_result = True,
      impl_ints = (\<lambda>a. zeros15[0 := conv_uintptr (a ! 0), 1 := conv_uintptr (a ! 1),
          2 := conv_uintptr (a ! 2), 3 := conv_uintptr (a ! 3), 4 := conv_uintptr (a ! 4),
          5 := conv_uintptr (a ! 5), 6 := conv_uintptr (a ! 6), 7 := conv_uintptr (a ! 7),
          8 := conv_uintptr (a ! 8), 9 := conv_uintptr (a ! 9), 10 := conv_uintptr (a ! 10)]),
      impl_floats = (\<lambda>a. zeros8[0 := Float64bits (a ! 11)]), impl_keep = [0, 1, 2, 3, 4, 5, 6, 7, 8,
          9, 10]\<rparr>"

definition fastInts11F64V :: "fparam \<Rightarrow> fparam \<Rightarrow> fparam \<Rightarrow> fparam \<Rightarrow> fparam \<Rightarrow> fparam \<Rightarrow> fparam \<Rightarrow> fparam \<Rightarrow> fparam \<Rightarrow> fparam \<Rightarrow> fparam \<Rightarrow> fast_impl" where [wrapper_defs]:
  "fastInts11F64V A1 A2 A3 A4 A5 A6 A7 A8 A9 A10 A11 =
    \<lparr>impl_params = [A1, A2, A3, A4, A5, A6, A7, A8, A9, A10, A11, PF64], impl_result = False,
      impl_ints = (\<lambda>a. zeros15[0 := conv_uintptr (a ! 0), 1 := conv_uintptr (a ! 1),
          2 := conv_uintptr (a ! 2), 3 := conv_uintptr (a ! 3), 4 := conv_uintptr (a ! 4),
          5 := conv_uintptr (a ! 5), 6 := conv_uintptr (a ! 6), 7 := conv_uintptr (a ! 7),
          8 := conv_uintptr (a ! 8), 9 := conv_uintptr (a ! 9), 10 := conv_uintptr (a ! 10)]),
      impl_floats = (\<lambda>a. zeros8[0 := Float64bits (a ! 11)]), impl_keep = [0, 1, 2, 3, 4, 5, 6, 7, 8,
          9, 10]\<rparr>"

definition fastInts12F64R :: "fparam \<Rightarrow> fparam \<Rightarrow> fparam \<Rightarrow> fparam \<Rightarrow> fparam \<Rightarrow> fparam \<Rightarrow> fparam \<Rightarrow> fparam \<Rightarrow> fparam \<Rightarrow> fparam \<Rightarrow> fparam \<Rightarrow> fparam \<Rightarrow> fast_impl" where [wrapper_defs]:
  "fastInts12F64R A1 A2 A3 A4 A5 A6 A7 A8 A9 A10 A11 A12 =
    \<lparr>impl_params = [A1, A2, A3, A4, A5, A6, A7, A8, A9, A10, A11, A12, PF64], impl_result = True,
      impl_ints = (\<lambda>a. zeros15[0 := conv_uintptr (a ! 0), 1 := conv_uintptr (a ! 1),
          2 := conv_uintptr (a ! 2), 3 := conv_uintptr (a ! 3), 4 := conv_uintptr (a ! 4),
          5 := conv_uintptr (a ! 5), 6 := conv_uintptr (a ! 6), 7 := conv_uintptr (a ! 7),
          8 := conv_uintptr (a ! 8), 9 := conv_uintptr (a ! 9), 10 := conv_uintptr (a ! 10),
          11 := conv_uintptr (a ! 11)]),
      impl_floats = (\<lambda>a. zeros8[0 := Float64bits (a ! 12)]), impl_keep = [0, 1, 2, 3, 4, 5, 6, 7, 8,
          9, 10, 11]\<rparr>"

definition fastInts12F64V :: "fparam \<Rightarrow> fparam \<Rightarrow> fparam \<Rightarrow> fparam \<Rightarrow> fparam \<Rightarrow> fparam \<Rightarrow> fparam \<Rightarrow> fparam \<Rightarrow> fparam \<Rightarrow> fparam \<Rightarrow> fparam \<Rightarrow> fparam \<Rightarrow> fast_impl" where [wrapper_defs]:
  "fastInts12F64V A1 A2 A3 A4 A5 A6 A7 A8 A9 A10 A11 A12 =
    \<lparr>impl_params = [A1, A2, A3, A4, A5, A6, A7, A8, A9, A10, A11, A12, PF64], impl_result = False,
      impl_ints = (\<lambda>a. zeros15[0 := conv_uintptr (a ! 0), 1 := conv_uintptr (a ! 1),
          2 := conv_uintptr (a ! 2), 3 := conv_uintptr (a ! 3), 4 := conv_uintptr (a ! 4),
          5 := conv_uintptr (a ! 5), 6 := conv_uintptr (a ! 6), 7 := conv_uintptr (a ! 7),
          8 := conv_uintptr (a ! 8), 9 := conv_uintptr (a ! 9), 10 := conv_uintptr (a ! 10),
          11 := conv_uintptr (a ! 11)]),
      impl_floats = (\<lambda>a. zeros8[0 := Float64bits (a ! 12)]), impl_keep = [0, 1, 2, 3, 4, 5, 6, 7, 8,
          9, 10, 11]\<rparr>"

definition fastInts13F64R :: "fparam \<Rightarrow> fparam \<Rightarrow> fparam \<Rightarrow> fparam \<Rightarrow> fparam \<Rightarrow> fparam \<Rightarrow> fparam \<Rightarrow> fparam \<Rightarrow> fparam \<Rightarrow> fparam \<Rightarrow> fparam \<Rightarrow> fparam \<Rightarrow> fparam \<Rightarrow> fast_impl" where [wrapper_defs]:
  "fastInts13F64R A1 A2 A3 A4 A5 A6 A7 A8 A9 A10 A11 A12 A13 =
    \<lparr>impl_params = [A1, A2, A3, A4, A5, A6, A7, A8, A9, A10, A11, A12, A13, PF64], impl_result = True,
      impl_ints = (\<lambda>a. zeros15[0 := conv_uintptr (a ! 0), 1 := conv_uintptr (a ! 1),
          2 := conv_uintptr (a ! 2), 3 := conv_uintptr (a ! 3), 4 := conv_uintptr (a ! 4),
          5 := conv_uintptr (a ! 5), 6 := conv_uintptr (a ! 6), 7 := conv_uintptr (a ! 7),
          8 := conv_uintptr (a ! 8), 9 := conv_uintptr (a ! 9), 10 := conv_uintptr (a ! 10),
          11 := conv_uintptr (a ! 11), 12 := conv_uintptr (a ! 12)]),
      impl_floats = (\<lambda>a. zeros8[0 := Float64bits (a ! 13)]), impl_keep = [0, 1, 2, 3, 4, 5, 6, 7, 8,
          9, 10, 11, 12]\<rparr>"

definition fastInts13F64V :: "fparam \<Rightarrow> fparam \<Rightarrow> fparam \<Rightarrow> fparam \<Rightarrow> fparam \<Rightarrow> fparam \<Rightarrow> fparam \<Rightarrow> fparam \<Rightarrow> fparam \<Rightarrow> fparam \<Rightarrow> fparam \<Rightarrow> fparam \<Rightarrow> fparam \<Rightarrow> fast_impl" where [wrapper_defs]:
  "fastInts13F64V A1 A2 A3 A4 A5 A6 A7 A8 A9 A10 A11 A12 A13 =
    \<lparr>impl_params = [A1, A2, A3, A4, A5, A6, A7, A8, A9, A10, A11, A12, A13, PF64], impl_result = False,
      impl_ints = (\<lambda>a. zeros15[0 := conv_uintptr (a ! 0), 1 := conv_uintptr (a ! 1),
          2 := conv_uintptr (a ! 2), 3 := conv_uintptr (a ! 3), 4 := conv_uintptr (a ! 4),
          5 := conv_uintptr (a ! 5), 6 := conv_uintptr (a ! 6), 7 := conv_uintptr (a ! 7),
          8 := conv_uintptr (a ! 8), 9 := conv_uintptr (a ! 9), 10 := conv_uintptr (a ! 10),
          11 := conv_uintptr (a ! 11), 12 := conv_uintptr (a ! 12)]),
      impl_floats = (\<lambda>a. zeros8[0 := Float64bits (a ! 13)]), impl_keep = [0, 1, 2, 3, 4, 5, 6, 7, 8,
          9, 10, 11, 12]\<rparr>"

definition fastInts14F64R :: "fparam \<Rightarrow> fparam \<Rightarrow> fparam \<Rightarrow> fparam \<Rightarrow> fparam \<Rightarrow> fparam \<Rightarrow> fparam \<Rightarrow> fparam \<Rightarrow> fparam \<Rightarrow> fparam \<Rightarrow> fparam \<Rightarrow> fparam \<Rightarrow> fparam \<Rightarrow> fparam \<Rightarrow> fast_impl" where [wrapper_defs]:
  "fastInts14F64R A1 A2 A3 A4 A5 A6 A7 A8 A9 A10 A11 A12 A13 A14 =
    \<lparr>impl_params = [A1, A2, A3, A4, A5, A6, A7, A8, A9, A10, A11, A12, A13, A14, PF64],
        impl_result = True,
      impl_ints = (\<lambda>a. zeros15[0 := conv_uintptr (a ! 0), 1 := conv_uintptr (a ! 1),
          2 := conv_uintptr (a ! 2), 3 := conv_uintptr (a ! 3), 4 := conv_uintptr (a ! 4),
          5 := conv_uintptr (a ! 5), 6 := conv_uintptr (a ! 6), 7 := conv_uintptr (a ! 7),
          8 := conv_uintptr (a ! 8), 9 := conv_uintptr (a ! 9), 10 := conv_uintptr (a ! 10),
          11 := conv_uintptr (a ! 11), 12 := conv_uintptr (a ! 12), 13 := conv_uintptr (a ! 13)]),
      impl_floats = (\<lambda>a. zeros8[0 := Float64bits (a ! 14)]), impl_keep = [0, 1, 2, 3, 4, 5, 6, 7, 8,
          9, 10, 11, 12, 13]\<rparr>"

definition fastInts14F64V :: "fparam \<Rightarrow> fparam \<Rightarrow> fparam \<Rightarrow> fparam \<Rightarrow> fparam \<Rightarrow> fparam \<Rightarrow> fparam \<Rightarrow> fparam \<Rightarrow> fparam \<Rightarrow> fparam \<Rightarrow> fparam \<Rightarrow> fparam \<Rightarrow> fparam \<Rightarrow> fparam \<Rightarrow> fast_impl" where [wrapper_defs]:
  "fastInts14F64V A1 A2 A3 A4 A5 A6 A7 A8 A9 A10 A11 A12 A13 A14 =
    \<lparr>impl_params = [A1, A2, A3, A4, A5, A6, A7, A8, A9, A10, A11, A12, A13, A14, PF64],
        impl_result = False,
      impl_ints = (\<lambda>a. zeros15[0 := conv_uintptr (a ! 0), 1 := conv_uintptr (a ! 1),
          2 := conv_uintptr (a ! 2), 3 := conv_uintptr (a ! 3), 4 := conv_uintptr (a ! 4),
          5 := conv_uintptr (a ! 5), 6 := conv_uintptr (a ! 6), 7 := conv_uintptr (a ! 7),
          8 := conv_uintptr (a ! 8), 9 := conv_uintptr (a ! 9), 10 := conv_uintptr (a ! 10),
          11 := conv_uintptr (a ! 11), 12 := conv_uintptr (a ! 12), 13 := conv_uintptr (a ! 13)]),
      impl_floats = (\<lambda>a. zeros8[0 := Float64bits (a ! 14)]), impl_keep = [0, 1, 2, 3, 4, 5, 6, 7, 8,
          9, 10, 11, 12, 13]\<rparr>"

section \<open>Each wrapper is the one the generator specifies\<close>

lemma generated_wrappers [wrapper_eqs]:
  "fastInts0R = emitWrapper [] 0 True"
  "fastInts0V = emitWrapper [] 0 False"
  "fastInts1R A1 = emitWrapper [A1] 0 True"
  "fastInts1V A1 = emitWrapper [A1] 0 False"
  "fastInts2R A1 A2 = emitWrapper [A1, A2] 0 True"
  "fastInts2V A1 A2 = emitWrapper [A1, A2] 0 False"
  "fastInts3R A1 A2 A3 = emitWrapper [A1, A2, A3] 0 True"
  "fastInts3V A1 A2 A3 = emitWrapper [A1, A2, A3] 0 False"
  "fastInts4R A1 A2 A3 A4 = emitWrapper [A1, A2, A3, A4] 0 True"
  "fastInts4V A1 A2 A3 A4 = emitWrapper [A1, A2, A3, A4] 0 False"
  "fastInts5R A1 A2 A3 A4 A5 = emitWrapper [A1, A2, A3, A4, A5] 0 True"
  "fastInts5V A1 A2 A3 A4 A5 = emitWrapper [A1, A2, A3, A4, A5] 0 False"
  "fastInts6R A1 A2 A3 A4 A5 A6 = emitWrapper [A1, A2, A3, A4, A5, A6] 0 True"
  "fastInts6V A1 A2 A3 A4 A5 A6 = emitWrapper [A1, A2, A3, A4, A5, A6] 0 False"
  "fastInts7R A1 A2 A3 A4 A5 A6 A7 = emitWrapper [A1, A2, A3, A4, A5, A6, A7] 0 True"
  "fastInts7V A1 A2 A3 A4 A5 A6 A7 = emitWrapper [A1, A2, A3, A4, A5, A6, A7] 0 False"
  "fastInts8R A1 A2 A3 A4 A5 A6 A7 A8 = emitWrapper [A1, A2, A3, A4, A5, A6, A7, A8] 0 True"
  "fastInts8V A1 A2 A3 A4 A5 A6 A7 A8 = emitWrapper [A1, A2, A3, A4, A5, A6, A7, A8] 0 False"
  "fastInts9R A1 A2 A3 A4 A5 A6 A7 A8 A9 = emitWrapper [A1, A2, A3, A4, A5, A6, A7, A8, A9] 0 True"
  "fastInts9V A1 A2 A3 A4 A5 A6 A7 A8 A9 = emitWrapper [A1, A2, A3, A4, A5, A6, A7, A8, A9] 0 False"
  "fastInts10R A1 A2 A3 A4 A5 A6 A7 A8 A9 A10 = emitWrapper [A1, A2, A3, A4, A5, A6, A7, A8, A9, A10] 0 True"
  "fastInts10V A1 A2 A3 A4 A5 A6 A7 A8 A9 A10 = emitWrapper [A1, A2, A3, A4, A5, A6, A7, A8, A9, A10] 0 False"
  "fastInts11R A1 A2 A3 A4 A5 A6 A7 A8 A9 A10 A11 = emitWrapper [A1, A2, A3, A4, A5, A6, A7, A8, A9, A10,
      A11] 0 True"
  "fastInts11V A1 A2 A3 A4 A5 A6 A7 A8 A9 A10 A11 = emitWrapper [A1, A2, A3, A4, A5, A6, A7, A8, A9, A10,
      A11] 0 False"
  "fastInts12R A1 A2 A3 A4 A5 A6 A7 A8 A9 A10 A11 A12 = emitWrapper [A1, A2, A3, A4, A5, A6, A7, A8, A9, A10,
      A11, A12] 0 True"
  "fastInts12V A1 A2 A3 A4 A5 A6 A7 A8 A9 A10 A11 A12 = emitWrapper [A1, A2, A3, A4, A5, A6, A7, A8, A9, A10,
      A11, A12] 0 False"
  "fastInts13R A1 A2 A3 A4 A5 A6 A7 A8 A9 A10 A11 A12 A13 = emitWrapper [A1, A2, A3, A4, A5, A6, A7, A8, A9,
      A10, A11, A12, A13] 0 True"
  "fastInts13V A1 A2 A3 A4 A5 A6 A7 A8 A9 A10 A11 A12 A13 = emitWrapper [A1, A2, A3, A4, A5, A6, A7, A8, A9,
      A10, A11, A12, A13] 0 False"
  "fastInts14R A1 A2 A3 A4 A5 A6 A7 A8 A9 A10 A11 A12 A13 A14 = emitWrapper [A1, A2, A3, A4, A5, A6, A7, A8,
      A9, A10, A11, A12, A13, A14] 0 True"
  "fastInts14V A1 A2 A3 A4 A5 A6 A7 A8 A9 A10 A11 A12 A13 A14 = emitWrapper [A1, A2, A3, A4, A5, A6, A7, A8,
      A9, A10, A11, A12, A13, A14] 0 False"
  "fastInts15R A1 A2 A3 A4 A5 A6 A7 A8 A9 A10 A11 A12 A13 A14 A15 = emitWrapper [A1, A2, A3, A4, A5, A6, A7,
      A8, A9, A10, A11, A12, A13, A14, A15] 0 True"
  "fastInts15V A1 A2 A3 A4 A5 A6 A7 A8 A9 A10 A11 A12 A13 A14 A15 = emitWrapper [A1, A2, A3, A4, A5, A6, A7,
      A8, A9, A10, A11, A12, A13, A14, A15] 0 False"
  "fastInts0F32R = emitWrapper [] 32 True"
  "fastInts0F32V = emitWrapper [] 32 False"
  "fastInts1F32R A1 = emitWrapper [A1] 32 True"
  "fastInts1F32V A1 = emitWrapper [A1] 32 False"
  "fastInts2F32R A1 A2 = emitWrapper [A1, A2] 32 True"
  "fastInts2F32V A1 A2 = emitWrapper [A1, A2] 32 False"
  "fastInts3F32R A1 A2 A3 = emitWrapper [A1, A2, A3] 32 True"
  "fastInts3F32V A1 A2 A3 = emitWrapper [A1, A2, A3] 32 False"
  "fastInts4F32R A1 A2 A3 A4 = emitWrapper [A1, A2, A3, A4] 32 True"
  "fastInts4F32V A1 A2 A3 A4 = emitWrapper [A1, A2, A3, A4] 32 False"
  "fastInts5F32R A1 A2 A3 A4 A5 = emitWrapper [A1, A2, A3, A4, A5] 32 True"
  "fastInts5F32V A1 A2 A3 A4 A5 = emitWrapper [A1, A2, A3, A4, A5] 32 False"
  "fastInts6F32R A1 A2 A3 A4 A5 A6 = emitWrapper [A1, A2, A3, A4, A5, A6] 32 True"
  "fastInts6F32V A1 A2 A3 A4 A5 A6 = emitWrapper [A1, A2, A3, A4, A5, A6] 32 False"
  "fastInts7F32R A1 A2 A3 A4 A5 A6 A7 = emitWrapper [A1, A2, A3, A4, A5, A6, A7] 32 True"
  "fastInts7F32V A1 A2 A3 A4 A5 A6 A7 = emitWrapper [A1, A2, A3, A4, A5, A6, A7] 32 False"
  "fastInts8F32R A1 A2 A3 A4 A5 A6 A7 A8 = emitWrapper [A1, A2, A3, A4, A5, A6, A7, A8] 32 True"
  "fastInts8F32V A1 A2 A3 A4 A5 A6 A7 A8 = emitWrapper [A1, A2, A3, A4, A5, A6, A7, A8] 32 False"
  "fastInts9F32R A1 A2 A3 A4 A5 A6 A7 A8 A9 = emitWrapper [A1, A2, A3, A4, A5, A6, A7, A8, A9] 32 True"
  "fastInts9F32V A1 A2 A3 A4 A5 A6 A7 A8 A9 = emitWrapper [A1, A2, A3, A4, A5, A6, A7, A8, A9] 32 False"
  "fastInts10F32R A1 A2 A3 A4 A5 A6 A7 A8 A9 A10 = emitWrapper [A1, A2, A3, A4, A5, A6, A7, A8, A9,
      A10] 32 True"
  "fastInts10F32V A1 A2 A3 A4 A5 A6 A7 A8 A9 A10 = emitWrapper [A1, A2, A3, A4, A5, A6, A7, A8, A9,
      A10] 32 False"
  "fastInts11F32R A1 A2 A3 A4 A5 A6 A7 A8 A9 A10 A11 = emitWrapper [A1, A2, A3, A4, A5, A6, A7, A8, A9, A10,
      A11] 32 True"
  "fastInts11F32V A1 A2 A3 A4 A5 A6 A7 A8 A9 A10 A11 = emitWrapper [A1, A2, A3, A4, A5, A6, A7, A8, A9, A10,
      A11] 32 False"
  "fastInts12F32R A1 A2 A3 A4 A5 A6 A7 A8 A9 A10 A11 A12 = emitWrapper [A1, A2, A3, A4, A5, A6, A7, A8, A9,
      A10, A11, A12] 32 True"
  "fastInts12F32V A1 A2 A3 A4 A5 A6 A7 A8 A9 A10 A11 A12 = emitWrapper [A1, A2, A3, A4, A5, A6, A7, A8, A9,
      A10, A11, A12] 32 False"
  "fastInts13F32R A1 A2 A3 A4 A5 A6 A7 A8 A9 A10 A11 A12 A13 = emitWrapper [A1, A2, A3, A4, A5, A6, A7, A8,
      A9, A10, A11, A12, A13] 32 True"
  "fastInts13F32V A1 A2 A3 A4 A5 A6 A7 A8 A9 A10 A11 A12 A13 = emitWrapper [A1, A2, A3, A4, A5, A6, A7, A8,
      A9, A10, A11, A12, A13] 32 False"
  "fastInts14F32R A1 A2 A3 A4 A5 A6 A7 A8 A9 A10 A11 A12 A13 A14 = emitWrapper [A1, A2, A3, A4, A5, A6, A7,
      A8, A9, A10, A11, A12, A13, A14] 32 True"
  "fastInts14F32V A1 A2 A3 A4 A5 A6 A7 A8 A9 A10 A11 A12 A13 A14 = emitWrapper [A1, A2, A3, A4, A5, A6, A7,
      A8, A9, A10, A11, A12, A13, A14] 32 False"
  "fastInts0F64R = emitWrapper [] 64 True"
  "fastInts0F64V = emitWrapper [] 64 False"
  "fastInts1F64R A1 = emitWrapper [A1] 64 True"
  "fastInts1F64V A1 = emitWrapper [A1] 64 False"
  "fastInts2F64R A1 A2 = emitWrapper [A1, A2] 64 True"
  "fastInts2F64V A1 A2 = emitWrapper [A1, A2] 64 False"
  "fastInts3F64R A1 A2 A3 = emitWrapper [A1, A2, A3] 64 True"
  "fastInts3F64V A1 A2 A3 = emitWrapper [A1, A2, A3] 64 False"
  "fastInts4F64R A1 A2 A3 A4 = emitWrapper [A1, A2, A3, A4] 64 True"
  "fastInts4F64V A1 A2 A3 A4 = emitWrapper [A1, A2, A3, A4] 64 False"
  "fastInts5F64R A1 A2 A3 A4 A5 = emitWrapper [A1, A2, A3, A4, A5] 64 True"
  "fastInts5F64V A1 A2 A3 A4 A5 = emitWrapper [A1, A2, A3, A4, A5] 64 False"
  "fastInts6F64R A1 A2 A3 A4 A5 A6 = emitWrapper [A1, A2, A3, A4, A5, A6] 64 True"
  "fastInts6F64V A1 A2 A3 A4 A5 A6 = emitWrapper [A1, A2, A3, A4, A5, A6] 64 False"
  "fastInts7F64R A1 A2 A3 A4 A5 A6 A7 = emitWrapper [A1, A2, A3, A4, A5, A6, A7] 64 True"
  "fastInts7F64V A1 A2 A3 A4 A5 A6 A7 = emitWrapper [A1, A2, A3, A4, A5, A6, A7] 64 False"
  "fastInts8F64R A1 A2 A3 A4 A5 A6 A7 A8 = emitWrapper [A1, A2, A3, A4, A5, A6, A7, A8] 64 True"
  "fastInts8F64V A1 A2 A3 A4 A5 A6 A7 A8 = emitWrapper [A1, A2, A3, A4, A5, A6, A7, A8] 64 False"
  "fastInts9F64R A1 A2 A3 A4 A5 A6 A7 A8 A9 = emitWrapper [A1, A2, A3, A4, A5, A6, A7, A8, A9] 64 True"
  "fastInts9F64V A1 A2 A3 A4 A5 A6 A7 A8 A9 = emitWrapper [A1, A2, A3, A4, A5, A6, A7, A8, A9] 64 False"
  "fastInts10F64R A1 A2 A3 A4 A5 A6 A7 A8 A9 A10 = emitWrapper [A1, A2, A3, A4, A5, A6, A7, A8, A9,
      A10] 64 True"
  "fastInts10F64V A1 A2 A3 A4 A5 A6 A7 A8 A9 A10 = emitWrapper [A1, A2, A3, A4, A5, A6, A7, A8, A9,
      A10] 64 False"
  "fastInts11F64R A1 A2 A3 A4 A5 A6 A7 A8 A9 A10 A11 = emitWrapper [A1, A2, A3, A4, A5, A6, A7, A8, A9, A10,
      A11] 64 True"
  "fastInts11F64V A1 A2 A3 A4 A5 A6 A7 A8 A9 A10 A11 = emitWrapper [A1, A2, A3, A4, A5, A6, A7, A8, A9, A10,
      A11] 64 False"
  "fastInts12F64R A1 A2 A3 A4 A5 A6 A7 A8 A9 A10 A11 A12 = emitWrapper [A1, A2, A3, A4, A5, A6, A7, A8, A9,
      A10, A11, A12] 64 True"
  "fastInts12F64V A1 A2 A3 A4 A5 A6 A7 A8 A9 A10 A11 A12 = emitWrapper [A1, A2, A3, A4, A5, A6, A7, A8, A9,
      A10, A11, A12] 64 False"
  "fastInts13F64R A1 A2 A3 A4 A5 A6 A7 A8 A9 A10 A11 A12 A13 = emitWrapper [A1, A2, A3, A4, A5, A6, A7, A8,
      A9, A10, A11, A12, A13] 64 True"
  "fastInts13F64V A1 A2 A3 A4 A5 A6 A7 A8 A9 A10 A11 A12 A13 = emitWrapper [A1, A2, A3, A4, A5, A6, A7, A8,
      A9, A10, A11, A12, A13] 64 False"
  "fastInts14F64R A1 A2 A3 A4 A5 A6 A7 A8 A9 A10 A11 A12 A13 A14 = emitWrapper [A1, A2, A3, A4, A5, A6, A7,
      A8, A9, A10, A11, A12, A13, A14] 64 True"
  "fastInts14F64V A1 A2 A3 A4 A5 A6 A7 A8 A9 A10 A11 A12 A13 A14 = emitWrapper [A1, A2, A3, A4, A5, A6, A7,
      A8, A9, A10, A11, A12, A13, A14] 64 False"
  by (simp_all add: wrapper_defs emitWrapper_def eval_nat_numeral)

end
