(* ===== verification/FastDispatch.thy ===== *)
theory FastDispatch
  imports FastWrappers
begin

text \<open>
  \<open>registerFastFunc\<close> of \<^verbatim>\<open>zz_fast_func.go\<close>: the generated nested \<open>switch\<close> over the float width, the
  number of integer arguments and the pointer mask. The innermost \<open>switch\<close> of each pair is a
  definition of its own, \<open>dispatch_<bits>_<count>\<close>. \<open>None\<close> is \<open>return false\<close>; \<open>Some w\<close> is the
  installation of the wrapper \<open>w\<close> and \<open>return true\<close>. A switch of more than sixteen cases is cut
  into runs of sixteen, \<open>dispatch_<bits>_<count>_from_<mask>\<close>, that are tried in order.
\<close>

section \<open>The tables\<close>

fun or_else :: "'a option \<Rightarrow> 'a option \<Rightarrow> 'a option" where
  "or_else (Some x) y = Some x"
| "or_else None y = y"

definition dispatch_0_0 :: "u32 \<Rightarrow> bool \<Rightarrow> fast_impl option" where
  "dispatch_0_0 ptrMask hasReturn =
    (if ptrMask = 0 then Some (if hasReturn then fastInts0R
       else fastInts0V)
     else None)"

definition dispatch_0_1 :: "u32 \<Rightarrow> bool \<Rightarrow> fast_impl option" where
  "dispatch_0_1 ptrMask hasReturn =
    (if ptrMask = 0 then Some (if hasReturn then fastInts1R PWord
       else fastInts1V PWord)
     else if ptrMask = 1 then Some (if hasReturn then fastInts1R PPtr
       else fastInts1V PPtr)
     else None)"

definition dispatch_0_2 :: "u32 \<Rightarrow> bool \<Rightarrow> fast_impl option" where
  "dispatch_0_2 ptrMask hasReturn =
    (if ptrMask = 0 then Some (if hasReturn then fastInts2R PWord PWord
       else fastInts2V PWord PWord)
     else if ptrMask = 1 then Some (if hasReturn then fastInts2R PPtr PWord
       else fastInts2V PPtr PWord)
     else if ptrMask = 2 then Some (if hasReturn then fastInts2R PWord PPtr
       else fastInts2V PWord PPtr)
     else if ptrMask = 3 then Some (if hasReturn then fastInts2R PPtr PPtr
       else fastInts2V PPtr PPtr)
     else None)"

definition dispatch_0_3 :: "u32 \<Rightarrow> bool \<Rightarrow> fast_impl option" where
  "dispatch_0_3 ptrMask hasReturn =
    (if ptrMask = 0 then Some (if hasReturn then fastInts3R PWord PWord PWord
       else fastInts3V PWord PWord PWord)
     else if ptrMask = 1 then Some (if hasReturn then fastInts3R PPtr PWord PWord
       else fastInts3V PPtr PWord PWord)
     else if ptrMask = 2 then Some (if hasReturn then fastInts3R PWord PPtr PWord
       else fastInts3V PWord PPtr PWord)
     else if ptrMask = 3 then Some (if hasReturn then fastInts3R PPtr PPtr PWord
       else fastInts3V PPtr PPtr PWord)
     else if ptrMask = 4 then Some (if hasReturn then fastInts3R PWord PWord PPtr
       else fastInts3V PWord PWord PPtr)
     else if ptrMask = 5 then Some (if hasReturn then fastInts3R PPtr PWord PPtr
       else fastInts3V PPtr PWord PPtr)
     else if ptrMask = 6 then Some (if hasReturn then fastInts3R PWord PPtr PPtr
       else fastInts3V PWord PPtr PPtr)
     else if ptrMask = 7 then Some (if hasReturn then fastInts3R PPtr PPtr PPtr
       else fastInts3V PPtr PPtr PPtr)
     else None)"

definition dispatch_0_4 :: "u32 \<Rightarrow> bool \<Rightarrow> fast_impl option" where
  "dispatch_0_4 ptrMask hasReturn =
    (if ptrMask = 0 then Some (if hasReturn then fastInts4R PWord PWord PWord PWord
       else fastInts4V PWord PWord PWord PWord)
     else if ptrMask = 1 then Some (if hasReturn then fastInts4R PPtr PWord PWord PWord
       else fastInts4V PPtr PWord PWord PWord)
     else if ptrMask = 2 then Some (if hasReturn then fastInts4R PWord PPtr PWord PWord
       else fastInts4V PWord PPtr PWord PWord)
     else if ptrMask = 3 then Some (if hasReturn then fastInts4R PPtr PPtr PWord PWord
       else fastInts4V PPtr PPtr PWord PWord)
     else if ptrMask = 4 then Some (if hasReturn then fastInts4R PWord PWord PPtr PWord
       else fastInts4V PWord PWord PPtr PWord)
     else if ptrMask = 5 then Some (if hasReturn then fastInts4R PPtr PWord PPtr PWord
       else fastInts4V PPtr PWord PPtr PWord)
     else if ptrMask = 6 then Some (if hasReturn then fastInts4R PWord PPtr PPtr PWord
       else fastInts4V PWord PPtr PPtr PWord)
     else if ptrMask = 7 then Some (if hasReturn then fastInts4R PPtr PPtr PPtr PWord
       else fastInts4V PPtr PPtr PPtr PWord)
     else if ptrMask = 8 then Some (if hasReturn then fastInts4R PWord PWord PWord PPtr
       else fastInts4V PWord PWord PWord PPtr)
     else if ptrMask = 9 then Some (if hasReturn then fastInts4R PPtr PWord PWord PPtr
       else fastInts4V PPtr PWord PWord PPtr)
     else if ptrMask = 10 then Some (if hasReturn then fastInts4R PWord PPtr PWord PPtr
       else fastInts4V PWord PPtr PWord PPtr)
     else if ptrMask = 11 then Some (if hasReturn then fastInts4R PPtr PPtr PWord PPtr
       else fastInts4V PPtr PPtr PWord PPtr)
     else if ptrMask = 12 then Some (if hasReturn then fastInts4R PWord PWord PPtr PPtr
       else fastInts4V PWord PWord PPtr PPtr)
     else if ptrMask = 13 then Some (if hasReturn then fastInts4R PPtr PWord PPtr PPtr
       else fastInts4V PPtr PWord PPtr PPtr)
     else if ptrMask = 14 then Some (if hasReturn then fastInts4R PWord PPtr PPtr PPtr
       else fastInts4V PWord PPtr PPtr PPtr)
     else if ptrMask = 15 then Some (if hasReturn then fastInts4R PPtr PPtr PPtr PPtr
       else fastInts4V PPtr PPtr PPtr PPtr)
     else None)"

definition dispatch_0_5_from_0 :: "u32 \<Rightarrow> bool \<Rightarrow> fast_impl option" where
  "dispatch_0_5_from_0 ptrMask hasReturn =
    (if ptrMask = 0 then Some (if hasReturn then fastInts5R PWord PWord PWord PWord PWord
       else fastInts5V PWord PWord PWord PWord PWord)
     else if ptrMask = 1 then Some (if hasReturn then fastInts5R PPtr PWord PWord PWord PWord
       else fastInts5V PPtr PWord PWord PWord PWord)
     else if ptrMask = 2 then Some (if hasReturn then fastInts5R PWord PPtr PWord PWord PWord
       else fastInts5V PWord PPtr PWord PWord PWord)
     else if ptrMask = 3 then Some (if hasReturn then fastInts5R PPtr PPtr PWord PWord PWord
       else fastInts5V PPtr PPtr PWord PWord PWord)
     else if ptrMask = 4 then Some (if hasReturn then fastInts5R PWord PWord PPtr PWord PWord
       else fastInts5V PWord PWord PPtr PWord PWord)
     else if ptrMask = 5 then Some (if hasReturn then fastInts5R PPtr PWord PPtr PWord PWord
       else fastInts5V PPtr PWord PPtr PWord PWord)
     else if ptrMask = 6 then Some (if hasReturn then fastInts5R PWord PPtr PPtr PWord PWord
       else fastInts5V PWord PPtr PPtr PWord PWord)
     else if ptrMask = 7 then Some (if hasReturn then fastInts5R PPtr PPtr PPtr PWord PWord
       else fastInts5V PPtr PPtr PPtr PWord PWord)
     else if ptrMask = 8 then Some (if hasReturn then fastInts5R PWord PWord PWord PPtr PWord
       else fastInts5V PWord PWord PWord PPtr PWord)
     else if ptrMask = 9 then Some (if hasReturn then fastInts5R PPtr PWord PWord PPtr PWord
       else fastInts5V PPtr PWord PWord PPtr PWord)
     else if ptrMask = 10 then Some (if hasReturn then fastInts5R PWord PPtr PWord PPtr PWord
       else fastInts5V PWord PPtr PWord PPtr PWord)
     else if ptrMask = 11 then Some (if hasReturn then fastInts5R PPtr PPtr PWord PPtr PWord
       else fastInts5V PPtr PPtr PWord PPtr PWord)
     else if ptrMask = 12 then Some (if hasReturn then fastInts5R PWord PWord PPtr PPtr PWord
       else fastInts5V PWord PWord PPtr PPtr PWord)
     else if ptrMask = 13 then Some (if hasReturn then fastInts5R PPtr PWord PPtr PPtr PWord
       else fastInts5V PPtr PWord PPtr PPtr PWord)
     else if ptrMask = 14 then Some (if hasReturn then fastInts5R PWord PPtr PPtr PPtr PWord
       else fastInts5V PWord PPtr PPtr PPtr PWord)
     else if ptrMask = 15 then Some (if hasReturn then fastInts5R PPtr PPtr PPtr PPtr PWord
       else fastInts5V PPtr PPtr PPtr PPtr PWord)
     else None)"

definition dispatch_0_5_from_16 :: "u32 \<Rightarrow> bool \<Rightarrow> fast_impl option" where
  "dispatch_0_5_from_16 ptrMask hasReturn =
    (if ptrMask = 16 then Some (if hasReturn then fastInts5R PWord PWord PWord PWord PPtr
       else fastInts5V PWord PWord PWord PWord PPtr)
     else if ptrMask = 17 then Some (if hasReturn then fastInts5R PPtr PWord PWord PWord PPtr
       else fastInts5V PPtr PWord PWord PWord PPtr)
     else if ptrMask = 18 then Some (if hasReturn then fastInts5R PWord PPtr PWord PWord PPtr
       else fastInts5V PWord PPtr PWord PWord PPtr)
     else if ptrMask = 19 then Some (if hasReturn then fastInts5R PPtr PPtr PWord PWord PPtr
       else fastInts5V PPtr PPtr PWord PWord PPtr)
     else if ptrMask = 20 then Some (if hasReturn then fastInts5R PWord PWord PPtr PWord PPtr
       else fastInts5V PWord PWord PPtr PWord PPtr)
     else if ptrMask = 21 then Some (if hasReturn then fastInts5R PPtr PWord PPtr PWord PPtr
       else fastInts5V PPtr PWord PPtr PWord PPtr)
     else if ptrMask = 22 then Some (if hasReturn then fastInts5R PWord PPtr PPtr PWord PPtr
       else fastInts5V PWord PPtr PPtr PWord PPtr)
     else if ptrMask = 23 then Some (if hasReturn then fastInts5R PPtr PPtr PPtr PWord PPtr
       else fastInts5V PPtr PPtr PPtr PWord PPtr)
     else if ptrMask = 24 then Some (if hasReturn then fastInts5R PWord PWord PWord PPtr PPtr
       else fastInts5V PWord PWord PWord PPtr PPtr)
     else if ptrMask = 25 then Some (if hasReturn then fastInts5R PPtr PWord PWord PPtr PPtr
       else fastInts5V PPtr PWord PWord PPtr PPtr)
     else if ptrMask = 26 then Some (if hasReturn then fastInts5R PWord PPtr PWord PPtr PPtr
       else fastInts5V PWord PPtr PWord PPtr PPtr)
     else if ptrMask = 27 then Some (if hasReturn then fastInts5R PPtr PPtr PWord PPtr PPtr
       else fastInts5V PPtr PPtr PWord PPtr PPtr)
     else if ptrMask = 28 then Some (if hasReturn then fastInts5R PWord PWord PPtr PPtr PPtr
       else fastInts5V PWord PWord PPtr PPtr PPtr)
     else if ptrMask = 29 then Some (if hasReturn then fastInts5R PPtr PWord PPtr PPtr PPtr
       else fastInts5V PPtr PWord PPtr PPtr PPtr)
     else if ptrMask = 30 then Some (if hasReturn then fastInts5R PWord PPtr PPtr PPtr PPtr
       else fastInts5V PWord PPtr PPtr PPtr PPtr)
     else if ptrMask = 31 then Some (if hasReturn then fastInts5R PPtr PPtr PPtr PPtr PPtr
       else fastInts5V PPtr PPtr PPtr PPtr PPtr)
     else None)"

definition dispatch_0_5 :: "u32 \<Rightarrow> bool \<Rightarrow> fast_impl option" where
  "dispatch_0_5 ptrMask hasReturn = or_else (dispatch_0_5_from_0 ptrMask hasReturn)
    (dispatch_0_5_from_16 ptrMask hasReturn)"

definition dispatch_0_6_from_0 :: "u32 \<Rightarrow> bool \<Rightarrow> fast_impl option" where
  "dispatch_0_6_from_0 ptrMask hasReturn =
    (if ptrMask = 0 then Some (if hasReturn then fastInts6R PWord PWord PWord PWord PWord PWord
       else fastInts6V PWord PWord PWord PWord PWord PWord)
     else if ptrMask = 1 then Some (if hasReturn then fastInts6R PPtr PWord PWord PWord PWord PWord
       else fastInts6V PPtr PWord PWord PWord PWord PWord)
     else if ptrMask = 2 then Some (if hasReturn then fastInts6R PWord PPtr PWord PWord PWord PWord
       else fastInts6V PWord PPtr PWord PWord PWord PWord)
     else if ptrMask = 3 then Some (if hasReturn then fastInts6R PPtr PPtr PWord PWord PWord PWord
       else fastInts6V PPtr PPtr PWord PWord PWord PWord)
     else if ptrMask = 4 then Some (if hasReturn then fastInts6R PWord PWord PPtr PWord PWord PWord
       else fastInts6V PWord PWord PPtr PWord PWord PWord)
     else if ptrMask = 5 then Some (if hasReturn then fastInts6R PPtr PWord PPtr PWord PWord PWord
       else fastInts6V PPtr PWord PPtr PWord PWord PWord)
     else if ptrMask = 6 then Some (if hasReturn then fastInts6R PWord PPtr PPtr PWord PWord PWord
       else fastInts6V PWord PPtr PPtr PWord PWord PWord)
     else if ptrMask = 7 then Some (if hasReturn then fastInts6R PPtr PPtr PPtr PWord PWord PWord
       else fastInts6V PPtr PPtr PPtr PWord PWord PWord)
     else if ptrMask = 8 then Some (if hasReturn then fastInts6R PWord PWord PWord PPtr PWord PWord
       else fastInts6V PWord PWord PWord PPtr PWord PWord)
     else if ptrMask = 9 then Some (if hasReturn then fastInts6R PPtr PWord PWord PPtr PWord PWord
       else fastInts6V PPtr PWord PWord PPtr PWord PWord)
     else if ptrMask = 10 then Some (if hasReturn then fastInts6R PWord PPtr PWord PPtr PWord PWord
       else fastInts6V PWord PPtr PWord PPtr PWord PWord)
     else if ptrMask = 11 then Some (if hasReturn then fastInts6R PPtr PPtr PWord PPtr PWord PWord
       else fastInts6V PPtr PPtr PWord PPtr PWord PWord)
     else if ptrMask = 12 then Some (if hasReturn then fastInts6R PWord PWord PPtr PPtr PWord PWord
       else fastInts6V PWord PWord PPtr PPtr PWord PWord)
     else if ptrMask = 13 then Some (if hasReturn then fastInts6R PPtr PWord PPtr PPtr PWord PWord
       else fastInts6V PPtr PWord PPtr PPtr PWord PWord)
     else if ptrMask = 14 then Some (if hasReturn then fastInts6R PWord PPtr PPtr PPtr PWord PWord
       else fastInts6V PWord PPtr PPtr PPtr PWord PWord)
     else if ptrMask = 15 then Some (if hasReturn then fastInts6R PPtr PPtr PPtr PPtr PWord PWord
       else fastInts6V PPtr PPtr PPtr PPtr PWord PWord)
     else None)"

definition dispatch_0_6_from_16 :: "u32 \<Rightarrow> bool \<Rightarrow> fast_impl option" where
  "dispatch_0_6_from_16 ptrMask hasReturn =
    (if ptrMask = 16 then Some (if hasReturn then fastInts6R PWord PWord PWord PWord PPtr PWord
       else fastInts6V PWord PWord PWord PWord PPtr PWord)
     else if ptrMask = 17 then Some (if hasReturn then fastInts6R PPtr PWord PWord PWord PPtr PWord
       else fastInts6V PPtr PWord PWord PWord PPtr PWord)
     else if ptrMask = 18 then Some (if hasReturn then fastInts6R PWord PPtr PWord PWord PPtr PWord
       else fastInts6V PWord PPtr PWord PWord PPtr PWord)
     else if ptrMask = 19 then Some (if hasReturn then fastInts6R PPtr PPtr PWord PWord PPtr PWord
       else fastInts6V PPtr PPtr PWord PWord PPtr PWord)
     else if ptrMask = 20 then Some (if hasReturn then fastInts6R PWord PWord PPtr PWord PPtr PWord
       else fastInts6V PWord PWord PPtr PWord PPtr PWord)
     else if ptrMask = 21 then Some (if hasReturn then fastInts6R PPtr PWord PPtr PWord PPtr PWord
       else fastInts6V PPtr PWord PPtr PWord PPtr PWord)
     else if ptrMask = 22 then Some (if hasReturn then fastInts6R PWord PPtr PPtr PWord PPtr PWord
       else fastInts6V PWord PPtr PPtr PWord PPtr PWord)
     else if ptrMask = 23 then Some (if hasReturn then fastInts6R PPtr PPtr PPtr PWord PPtr PWord
       else fastInts6V PPtr PPtr PPtr PWord PPtr PWord)
     else if ptrMask = 24 then Some (if hasReturn then fastInts6R PWord PWord PWord PPtr PPtr PWord
       else fastInts6V PWord PWord PWord PPtr PPtr PWord)
     else if ptrMask = 25 then Some (if hasReturn then fastInts6R PPtr PWord PWord PPtr PPtr PWord
       else fastInts6V PPtr PWord PWord PPtr PPtr PWord)
     else if ptrMask = 26 then Some (if hasReturn then fastInts6R PWord PPtr PWord PPtr PPtr PWord
       else fastInts6V PWord PPtr PWord PPtr PPtr PWord)
     else if ptrMask = 27 then Some (if hasReturn then fastInts6R PPtr PPtr PWord PPtr PPtr PWord
       else fastInts6V PPtr PPtr PWord PPtr PPtr PWord)
     else if ptrMask = 28 then Some (if hasReturn then fastInts6R PWord PWord PPtr PPtr PPtr PWord
       else fastInts6V PWord PWord PPtr PPtr PPtr PWord)
     else if ptrMask = 29 then Some (if hasReturn then fastInts6R PPtr PWord PPtr PPtr PPtr PWord
       else fastInts6V PPtr PWord PPtr PPtr PPtr PWord)
     else if ptrMask = 30 then Some (if hasReturn then fastInts6R PWord PPtr PPtr PPtr PPtr PWord
       else fastInts6V PWord PPtr PPtr PPtr PPtr PWord)
     else if ptrMask = 31 then Some (if hasReturn then fastInts6R PPtr PPtr PPtr PPtr PPtr PWord
       else fastInts6V PPtr PPtr PPtr PPtr PPtr PWord)
     else None)"

definition dispatch_0_6_from_32 :: "u32 \<Rightarrow> bool \<Rightarrow> fast_impl option" where
  "dispatch_0_6_from_32 ptrMask hasReturn =
    (if ptrMask = 32 then Some (if hasReturn then fastInts6R PWord PWord PWord PWord PWord PPtr
       else fastInts6V PWord PWord PWord PWord PWord PPtr)
     else if ptrMask = 33 then Some (if hasReturn then fastInts6R PPtr PWord PWord PWord PWord PPtr
       else fastInts6V PPtr PWord PWord PWord PWord PPtr)
     else if ptrMask = 34 then Some (if hasReturn then fastInts6R PWord PPtr PWord PWord PWord PPtr
       else fastInts6V PWord PPtr PWord PWord PWord PPtr)
     else if ptrMask = 35 then Some (if hasReturn then fastInts6R PPtr PPtr PWord PWord PWord PPtr
       else fastInts6V PPtr PPtr PWord PWord PWord PPtr)
     else if ptrMask = 36 then Some (if hasReturn then fastInts6R PWord PWord PPtr PWord PWord PPtr
       else fastInts6V PWord PWord PPtr PWord PWord PPtr)
     else if ptrMask = 37 then Some (if hasReturn then fastInts6R PPtr PWord PPtr PWord PWord PPtr
       else fastInts6V PPtr PWord PPtr PWord PWord PPtr)
     else if ptrMask = 38 then Some (if hasReturn then fastInts6R PWord PPtr PPtr PWord PWord PPtr
       else fastInts6V PWord PPtr PPtr PWord PWord PPtr)
     else if ptrMask = 39 then Some (if hasReturn then fastInts6R PPtr PPtr PPtr PWord PWord PPtr
       else fastInts6V PPtr PPtr PPtr PWord PWord PPtr)
     else if ptrMask = 40 then Some (if hasReturn then fastInts6R PWord PWord PWord PPtr PWord PPtr
       else fastInts6V PWord PWord PWord PPtr PWord PPtr)
     else if ptrMask = 41 then Some (if hasReturn then fastInts6R PPtr PWord PWord PPtr PWord PPtr
       else fastInts6V PPtr PWord PWord PPtr PWord PPtr)
     else if ptrMask = 42 then Some (if hasReturn then fastInts6R PWord PPtr PWord PPtr PWord PPtr
       else fastInts6V PWord PPtr PWord PPtr PWord PPtr)
     else if ptrMask = 43 then Some (if hasReturn then fastInts6R PPtr PPtr PWord PPtr PWord PPtr
       else fastInts6V PPtr PPtr PWord PPtr PWord PPtr)
     else if ptrMask = 44 then Some (if hasReturn then fastInts6R PWord PWord PPtr PPtr PWord PPtr
       else fastInts6V PWord PWord PPtr PPtr PWord PPtr)
     else if ptrMask = 45 then Some (if hasReturn then fastInts6R PPtr PWord PPtr PPtr PWord PPtr
       else fastInts6V PPtr PWord PPtr PPtr PWord PPtr)
     else if ptrMask = 46 then Some (if hasReturn then fastInts6R PWord PPtr PPtr PPtr PWord PPtr
       else fastInts6V PWord PPtr PPtr PPtr PWord PPtr)
     else if ptrMask = 47 then Some (if hasReturn then fastInts6R PPtr PPtr PPtr PPtr PWord PPtr
       else fastInts6V PPtr PPtr PPtr PPtr PWord PPtr)
     else None)"

definition dispatch_0_6_from_48 :: "u32 \<Rightarrow> bool \<Rightarrow> fast_impl option" where
  "dispatch_0_6_from_48 ptrMask hasReturn =
    (if ptrMask = 48 then Some (if hasReturn then fastInts6R PWord PWord PWord PWord PPtr PPtr
       else fastInts6V PWord PWord PWord PWord PPtr PPtr)
     else if ptrMask = 49 then Some (if hasReturn then fastInts6R PPtr PWord PWord PWord PPtr PPtr
       else fastInts6V PPtr PWord PWord PWord PPtr PPtr)
     else if ptrMask = 50 then Some (if hasReturn then fastInts6R PWord PPtr PWord PWord PPtr PPtr
       else fastInts6V PWord PPtr PWord PWord PPtr PPtr)
     else if ptrMask = 51 then Some (if hasReturn then fastInts6R PPtr PPtr PWord PWord PPtr PPtr
       else fastInts6V PPtr PPtr PWord PWord PPtr PPtr)
     else if ptrMask = 52 then Some (if hasReturn then fastInts6R PWord PWord PPtr PWord PPtr PPtr
       else fastInts6V PWord PWord PPtr PWord PPtr PPtr)
     else if ptrMask = 53 then Some (if hasReturn then fastInts6R PPtr PWord PPtr PWord PPtr PPtr
       else fastInts6V PPtr PWord PPtr PWord PPtr PPtr)
     else if ptrMask = 54 then Some (if hasReturn then fastInts6R PWord PPtr PPtr PWord PPtr PPtr
       else fastInts6V PWord PPtr PPtr PWord PPtr PPtr)
     else if ptrMask = 55 then Some (if hasReturn then fastInts6R PPtr PPtr PPtr PWord PPtr PPtr
       else fastInts6V PPtr PPtr PPtr PWord PPtr PPtr)
     else if ptrMask = 56 then Some (if hasReturn then fastInts6R PWord PWord PWord PPtr PPtr PPtr
       else fastInts6V PWord PWord PWord PPtr PPtr PPtr)
     else if ptrMask = 57 then Some (if hasReturn then fastInts6R PPtr PWord PWord PPtr PPtr PPtr
       else fastInts6V PPtr PWord PWord PPtr PPtr PPtr)
     else if ptrMask = 58 then Some (if hasReturn then fastInts6R PWord PPtr PWord PPtr PPtr PPtr
       else fastInts6V PWord PPtr PWord PPtr PPtr PPtr)
     else if ptrMask = 59 then Some (if hasReturn then fastInts6R PPtr PPtr PWord PPtr PPtr PPtr
       else fastInts6V PPtr PPtr PWord PPtr PPtr PPtr)
     else if ptrMask = 60 then Some (if hasReturn then fastInts6R PWord PWord PPtr PPtr PPtr PPtr
       else fastInts6V PWord PWord PPtr PPtr PPtr PPtr)
     else if ptrMask = 61 then Some (if hasReturn then fastInts6R PPtr PWord PPtr PPtr PPtr PPtr
       else fastInts6V PPtr PWord PPtr PPtr PPtr PPtr)
     else if ptrMask = 62 then Some (if hasReturn then fastInts6R PWord PPtr PPtr PPtr PPtr PPtr
       else fastInts6V PWord PPtr PPtr PPtr PPtr PPtr)
     else if ptrMask = 63 then Some (if hasReturn then fastInts6R PPtr PPtr PPtr PPtr PPtr PPtr
       else fastInts6V PPtr PPtr PPtr PPtr PPtr PPtr)
     else None)"

definition dispatch_0_6 :: "u32 \<Rightarrow> bool \<Rightarrow> fast_impl option" where
  "dispatch_0_6 ptrMask hasReturn = or_else (dispatch_0_6_from_0 ptrMask hasReturn)
    (or_else (dispatch_0_6_from_16 ptrMask hasReturn)
    (or_else (dispatch_0_6_from_32 ptrMask hasReturn)
    (dispatch_0_6_from_48 ptrMask hasReturn)))"

definition dispatch_0_7 :: "u32 \<Rightarrow> bool \<Rightarrow> fast_impl option" where
  "dispatch_0_7 ptrMask hasReturn =
    (if ptrMask = 0 then Some (if hasReturn then fastInts7R PWord PWord PWord PWord PWord PWord PWord
       else fastInts7V PWord PWord PWord PWord PWord PWord PWord)
     else None)"

definition dispatch_0_8 :: "u32 \<Rightarrow> bool \<Rightarrow> fast_impl option" where
  "dispatch_0_8 ptrMask hasReturn =
    (if ptrMask = 0 then Some (if hasReturn then fastInts8R PWord PWord PWord PWord PWord PWord PWord PWord
       else fastInts8V PWord PWord PWord PWord PWord PWord PWord PWord)
     else None)"

definition dispatch_0_9 :: "u32 \<Rightarrow> bool \<Rightarrow> fast_impl option" where
  "dispatch_0_9 ptrMask hasReturn =
    (if ptrMask = 0 then Some (if hasReturn then fastInts9R PWord PWord PWord PWord PWord PWord PWord PWord PWord
       else fastInts9V PWord PWord PWord PWord PWord PWord PWord PWord PWord)
     else None)"

definition dispatch_0_10 :: "u32 \<Rightarrow> bool \<Rightarrow> fast_impl option" where
  "dispatch_0_10 ptrMask hasReturn =
    (if ptrMask = 0 then Some (if hasReturn then fastInts10R PWord PWord PWord PWord PWord PWord PWord PWord PWord PWord
       else fastInts10V PWord PWord PWord PWord PWord PWord PWord PWord PWord PWord)
     else None)"

definition dispatch_0_11 :: "u32 \<Rightarrow> bool \<Rightarrow> fast_impl option" where
  "dispatch_0_11 ptrMask hasReturn =
    (if ptrMask = 0 then Some (if hasReturn then fastInts11R PWord PWord PWord PWord PWord PWord PWord PWord PWord PWord PWord
       else fastInts11V PWord PWord PWord PWord PWord PWord PWord PWord PWord PWord PWord)
     else None)"

definition dispatch_0_12 :: "u32 \<Rightarrow> bool \<Rightarrow> fast_impl option" where
  "dispatch_0_12 ptrMask hasReturn =
    (if ptrMask = 0 then Some (if hasReturn then fastInts12R PWord PWord PWord PWord PWord PWord PWord PWord PWord PWord PWord PWord
       else fastInts12V PWord PWord PWord PWord PWord PWord PWord PWord PWord PWord PWord PWord)
     else None)"

definition dispatch_0_13 :: "u32 \<Rightarrow> bool \<Rightarrow> fast_impl option" where
  "dispatch_0_13 ptrMask hasReturn =
    (if ptrMask = 0 then Some (if hasReturn then fastInts13R PWord PWord PWord PWord PWord PWord PWord PWord PWord PWord PWord PWord PWord
       else fastInts13V PWord PWord PWord PWord PWord PWord PWord PWord PWord PWord PWord PWord PWord)
     else None)"

definition dispatch_0_14 :: "u32 \<Rightarrow> bool \<Rightarrow> fast_impl option" where
  "dispatch_0_14 ptrMask hasReturn =
    (if ptrMask = 0 then Some (if hasReturn then fastInts14R PWord PWord PWord PWord PWord PWord PWord PWord PWord PWord PWord PWord PWord PWord
       else fastInts14V PWord PWord PWord PWord PWord PWord PWord PWord PWord PWord PWord PWord PWord PWord)
     else None)"

definition dispatch_0_15 :: "u32 \<Rightarrow> bool \<Rightarrow> fast_impl option" where
  "dispatch_0_15 ptrMask hasReturn =
    (if ptrMask = 0 then Some (if hasReturn then fastInts15R PWord PWord PWord PWord PWord PWord PWord PWord PWord PWord PWord PWord PWord PWord PWord
       else fastInts15V PWord PWord PWord PWord PWord PWord PWord PWord PWord PWord PWord PWord PWord PWord PWord)
     else None)"

definition dispatch_32_0 :: "u32 \<Rightarrow> bool \<Rightarrow> fast_impl option" where
  "dispatch_32_0 ptrMask hasReturn =
    (if ptrMask = 0 then Some (if hasReturn then fastInts0F32R
       else fastInts0F32V)
     else None)"

definition dispatch_32_1 :: "u32 \<Rightarrow> bool \<Rightarrow> fast_impl option" where
  "dispatch_32_1 ptrMask hasReturn =
    (if ptrMask = 0 then Some (if hasReturn then fastInts1F32R PWord
       else fastInts1F32V PWord)
     else if ptrMask = 1 then Some (if hasReturn then fastInts1F32R PPtr
       else fastInts1F32V PPtr)
     else None)"

definition dispatch_32_2 :: "u32 \<Rightarrow> bool \<Rightarrow> fast_impl option" where
  "dispatch_32_2 ptrMask hasReturn =
    (if ptrMask = 0 then Some (if hasReturn then fastInts2F32R PWord PWord
       else fastInts2F32V PWord PWord)
     else if ptrMask = 1 then Some (if hasReturn then fastInts2F32R PPtr PWord
       else fastInts2F32V PPtr PWord)
     else if ptrMask = 2 then Some (if hasReturn then fastInts2F32R PWord PPtr
       else fastInts2F32V PWord PPtr)
     else if ptrMask = 3 then Some (if hasReturn then fastInts2F32R PPtr PPtr
       else fastInts2F32V PPtr PPtr)
     else None)"

definition dispatch_32_3 :: "u32 \<Rightarrow> bool \<Rightarrow> fast_impl option" where
  "dispatch_32_3 ptrMask hasReturn =
    (if ptrMask = 0 then Some (if hasReturn then fastInts3F32R PWord PWord PWord
       else fastInts3F32V PWord PWord PWord)
     else if ptrMask = 1 then Some (if hasReturn then fastInts3F32R PPtr PWord PWord
       else fastInts3F32V PPtr PWord PWord)
     else if ptrMask = 2 then Some (if hasReturn then fastInts3F32R PWord PPtr PWord
       else fastInts3F32V PWord PPtr PWord)
     else if ptrMask = 3 then Some (if hasReturn then fastInts3F32R PPtr PPtr PWord
       else fastInts3F32V PPtr PPtr PWord)
     else if ptrMask = 4 then Some (if hasReturn then fastInts3F32R PWord PWord PPtr
       else fastInts3F32V PWord PWord PPtr)
     else if ptrMask = 5 then Some (if hasReturn then fastInts3F32R PPtr PWord PPtr
       else fastInts3F32V PPtr PWord PPtr)
     else if ptrMask = 6 then Some (if hasReturn then fastInts3F32R PWord PPtr PPtr
       else fastInts3F32V PWord PPtr PPtr)
     else if ptrMask = 7 then Some (if hasReturn then fastInts3F32R PPtr PPtr PPtr
       else fastInts3F32V PPtr PPtr PPtr)
     else None)"

definition dispatch_32_4 :: "u32 \<Rightarrow> bool \<Rightarrow> fast_impl option" where
  "dispatch_32_4 ptrMask hasReturn =
    (if ptrMask = 0 then Some (if hasReturn then fastInts4F32R PWord PWord PWord PWord
       else fastInts4F32V PWord PWord PWord PWord)
     else if ptrMask = 1 then Some (if hasReturn then fastInts4F32R PPtr PWord PWord PWord
       else fastInts4F32V PPtr PWord PWord PWord)
     else if ptrMask = 2 then Some (if hasReturn then fastInts4F32R PWord PPtr PWord PWord
       else fastInts4F32V PWord PPtr PWord PWord)
     else if ptrMask = 3 then Some (if hasReturn then fastInts4F32R PPtr PPtr PWord PWord
       else fastInts4F32V PPtr PPtr PWord PWord)
     else if ptrMask = 4 then Some (if hasReturn then fastInts4F32R PWord PWord PPtr PWord
       else fastInts4F32V PWord PWord PPtr PWord)
     else if ptrMask = 5 then Some (if hasReturn then fastInts4F32R PPtr PWord PPtr PWord
       else fastInts4F32V PPtr PWord PPtr PWord)
     else if ptrMask = 6 then Some (if hasReturn then fastInts4F32R PWord PPtr PPtr PWord
       else fastInts4F32V PWord PPtr PPtr PWord)
     else if ptrMask = 7 then Some (if hasReturn then fastInts4F32R PPtr PPtr PPtr PWord
       else fastInts4F32V PPtr PPtr PPtr PWord)
     else if ptrMask = 8 then Some (if hasReturn then fastInts4F32R PWord PWord PWord PPtr
       else fastInts4F32V PWord PWord PWord PPtr)
     else if ptrMask = 9 then Some (if hasReturn then fastInts4F32R PPtr PWord PWord PPtr
       else fastInts4F32V PPtr PWord PWord PPtr)
     else if ptrMask = 10 then Some (if hasReturn then fastInts4F32R PWord PPtr PWord PPtr
       else fastInts4F32V PWord PPtr PWord PPtr)
     else if ptrMask = 11 then Some (if hasReturn then fastInts4F32R PPtr PPtr PWord PPtr
       else fastInts4F32V PPtr PPtr PWord PPtr)
     else if ptrMask = 12 then Some (if hasReturn then fastInts4F32R PWord PWord PPtr PPtr
       else fastInts4F32V PWord PWord PPtr PPtr)
     else if ptrMask = 13 then Some (if hasReturn then fastInts4F32R PPtr PWord PPtr PPtr
       else fastInts4F32V PPtr PWord PPtr PPtr)
     else if ptrMask = 14 then Some (if hasReturn then fastInts4F32R PWord PPtr PPtr PPtr
       else fastInts4F32V PWord PPtr PPtr PPtr)
     else if ptrMask = 15 then Some (if hasReturn then fastInts4F32R PPtr PPtr PPtr PPtr
       else fastInts4F32V PPtr PPtr PPtr PPtr)
     else None)"

definition dispatch_32_5_from_0 :: "u32 \<Rightarrow> bool \<Rightarrow> fast_impl option" where
  "dispatch_32_5_from_0 ptrMask hasReturn =
    (if ptrMask = 0 then Some (if hasReturn then fastInts5F32R PWord PWord PWord PWord PWord
       else fastInts5F32V PWord PWord PWord PWord PWord)
     else if ptrMask = 1 then Some (if hasReturn then fastInts5F32R PPtr PWord PWord PWord PWord
       else fastInts5F32V PPtr PWord PWord PWord PWord)
     else if ptrMask = 2 then Some (if hasReturn then fastInts5F32R PWord PPtr PWord PWord PWord
       else fastInts5F32V PWord PPtr PWord PWord PWord)
     else if ptrMask = 3 then Some (if hasReturn then fastInts5F32R PPtr PPtr PWord PWord PWord
       else fastInts5F32V PPtr PPtr PWord PWord PWord)
     else if ptrMask = 4 then Some (if hasReturn then fastInts5F32R PWord PWord PPtr PWord PWord
       else fastInts5F32V PWord PWord PPtr PWord PWord)
     else if ptrMask = 5 then Some (if hasReturn then fastInts5F32R PPtr PWord PPtr PWord PWord
       else fastInts5F32V PPtr PWord PPtr PWord PWord)
     else if ptrMask = 6 then Some (if hasReturn then fastInts5F32R PWord PPtr PPtr PWord PWord
       else fastInts5F32V PWord PPtr PPtr PWord PWord)
     else if ptrMask = 7 then Some (if hasReturn then fastInts5F32R PPtr PPtr PPtr PWord PWord
       else fastInts5F32V PPtr PPtr PPtr PWord PWord)
     else if ptrMask = 8 then Some (if hasReturn then fastInts5F32R PWord PWord PWord PPtr PWord
       else fastInts5F32V PWord PWord PWord PPtr PWord)
     else if ptrMask = 9 then Some (if hasReturn then fastInts5F32R PPtr PWord PWord PPtr PWord
       else fastInts5F32V PPtr PWord PWord PPtr PWord)
     else if ptrMask = 10 then Some (if hasReturn then fastInts5F32R PWord PPtr PWord PPtr PWord
       else fastInts5F32V PWord PPtr PWord PPtr PWord)
     else if ptrMask = 11 then Some (if hasReturn then fastInts5F32R PPtr PPtr PWord PPtr PWord
       else fastInts5F32V PPtr PPtr PWord PPtr PWord)
     else if ptrMask = 12 then Some (if hasReturn then fastInts5F32R PWord PWord PPtr PPtr PWord
       else fastInts5F32V PWord PWord PPtr PPtr PWord)
     else if ptrMask = 13 then Some (if hasReturn then fastInts5F32R PPtr PWord PPtr PPtr PWord
       else fastInts5F32V PPtr PWord PPtr PPtr PWord)
     else if ptrMask = 14 then Some (if hasReturn then fastInts5F32R PWord PPtr PPtr PPtr PWord
       else fastInts5F32V PWord PPtr PPtr PPtr PWord)
     else if ptrMask = 15 then Some (if hasReturn then fastInts5F32R PPtr PPtr PPtr PPtr PWord
       else fastInts5F32V PPtr PPtr PPtr PPtr PWord)
     else None)"

definition dispatch_32_5_from_16 :: "u32 \<Rightarrow> bool \<Rightarrow> fast_impl option" where
  "dispatch_32_5_from_16 ptrMask hasReturn =
    (if ptrMask = 16 then Some (if hasReturn then fastInts5F32R PWord PWord PWord PWord PPtr
       else fastInts5F32V PWord PWord PWord PWord PPtr)
     else if ptrMask = 17 then Some (if hasReturn then fastInts5F32R PPtr PWord PWord PWord PPtr
       else fastInts5F32V PPtr PWord PWord PWord PPtr)
     else if ptrMask = 18 then Some (if hasReturn then fastInts5F32R PWord PPtr PWord PWord PPtr
       else fastInts5F32V PWord PPtr PWord PWord PPtr)
     else if ptrMask = 19 then Some (if hasReturn then fastInts5F32R PPtr PPtr PWord PWord PPtr
       else fastInts5F32V PPtr PPtr PWord PWord PPtr)
     else if ptrMask = 20 then Some (if hasReturn then fastInts5F32R PWord PWord PPtr PWord PPtr
       else fastInts5F32V PWord PWord PPtr PWord PPtr)
     else if ptrMask = 21 then Some (if hasReturn then fastInts5F32R PPtr PWord PPtr PWord PPtr
       else fastInts5F32V PPtr PWord PPtr PWord PPtr)
     else if ptrMask = 22 then Some (if hasReturn then fastInts5F32R PWord PPtr PPtr PWord PPtr
       else fastInts5F32V PWord PPtr PPtr PWord PPtr)
     else if ptrMask = 23 then Some (if hasReturn then fastInts5F32R PPtr PPtr PPtr PWord PPtr
       else fastInts5F32V PPtr PPtr PPtr PWord PPtr)
     else if ptrMask = 24 then Some (if hasReturn then fastInts5F32R PWord PWord PWord PPtr PPtr
       else fastInts5F32V PWord PWord PWord PPtr PPtr)
     else if ptrMask = 25 then Some (if hasReturn then fastInts5F32R PPtr PWord PWord PPtr PPtr
       else fastInts5F32V PPtr PWord PWord PPtr PPtr)
     else if ptrMask = 26 then Some (if hasReturn then fastInts5F32R PWord PPtr PWord PPtr PPtr
       else fastInts5F32V PWord PPtr PWord PPtr PPtr)
     else if ptrMask = 27 then Some (if hasReturn then fastInts5F32R PPtr PPtr PWord PPtr PPtr
       else fastInts5F32V PPtr PPtr PWord PPtr PPtr)
     else if ptrMask = 28 then Some (if hasReturn then fastInts5F32R PWord PWord PPtr PPtr PPtr
       else fastInts5F32V PWord PWord PPtr PPtr PPtr)
     else if ptrMask = 29 then Some (if hasReturn then fastInts5F32R PPtr PWord PPtr PPtr PPtr
       else fastInts5F32V PPtr PWord PPtr PPtr PPtr)
     else if ptrMask = 30 then Some (if hasReturn then fastInts5F32R PWord PPtr PPtr PPtr PPtr
       else fastInts5F32V PWord PPtr PPtr PPtr PPtr)
     else if ptrMask = 31 then Some (if hasReturn then fastInts5F32R PPtr PPtr PPtr PPtr PPtr
       else fastInts5F32V PPtr PPtr PPtr PPtr PPtr)
     else None)"

definition dispatch_32_5 :: "u32 \<Rightarrow> bool \<Rightarrow> fast_impl option" where
  "dispatch_32_5 ptrMask hasReturn = or_else (dispatch_32_5_from_0 ptrMask hasReturn)
    (dispatch_32_5_from_16 ptrMask hasReturn)"

definition dispatch_32_6_from_0 :: "u32 \<Rightarrow> bool \<Rightarrow> fast_impl option" where
  "dispatch_32_6_from_0 ptrMask hasReturn =
    (if ptrMask = 0 then Some (if hasReturn then fastInts6F32R PWord PWord PWord PWord PWord PWord
       else fastInts6F32V PWord PWord PWord PWord PWord PWord)
     else if ptrMask = 1 then Some (if hasReturn then fastInts6F32R PPtr PWord PWord PWord PWord PWord
       else fastInts6F32V PPtr PWord PWord PWord PWord PWord)
     else if ptrMask = 2 then Some (if hasReturn then fastInts6F32R PWord PPtr PWord PWord PWord PWord
       else fastInts6F32V PWord PPtr PWord PWord PWord PWord)
     else if ptrMask = 3 then Some (if hasReturn then fastInts6F32R PPtr PPtr PWord PWord PWord PWord
       else fastInts6F32V PPtr PPtr PWord PWord PWord PWord)
     else if ptrMask = 4 then Some (if hasReturn then fastInts6F32R PWord PWord PPtr PWord PWord PWord
       else fastInts6F32V PWord PWord PPtr PWord PWord PWord)
     else if ptrMask = 5 then Some (if hasReturn then fastInts6F32R PPtr PWord PPtr PWord PWord PWord
       else fastInts6F32V PPtr PWord PPtr PWord PWord PWord)
     else if ptrMask = 6 then Some (if hasReturn then fastInts6F32R PWord PPtr PPtr PWord PWord PWord
       else fastInts6F32V PWord PPtr PPtr PWord PWord PWord)
     else if ptrMask = 7 then Some (if hasReturn then fastInts6F32R PPtr PPtr PPtr PWord PWord PWord
       else fastInts6F32V PPtr PPtr PPtr PWord PWord PWord)
     else if ptrMask = 8 then Some (if hasReturn then fastInts6F32R PWord PWord PWord PPtr PWord PWord
       else fastInts6F32V PWord PWord PWord PPtr PWord PWord)
     else if ptrMask = 9 then Some (if hasReturn then fastInts6F32R PPtr PWord PWord PPtr PWord PWord
       else fastInts6F32V PPtr PWord PWord PPtr PWord PWord)
     else if ptrMask = 10 then Some (if hasReturn then fastInts6F32R PWord PPtr PWord PPtr PWord PWord
       else fastInts6F32V PWord PPtr PWord PPtr PWord PWord)
     else if ptrMask = 11 then Some (if hasReturn then fastInts6F32R PPtr PPtr PWord PPtr PWord PWord
       else fastInts6F32V PPtr PPtr PWord PPtr PWord PWord)
     else if ptrMask = 12 then Some (if hasReturn then fastInts6F32R PWord PWord PPtr PPtr PWord PWord
       else fastInts6F32V PWord PWord PPtr PPtr PWord PWord)
     else if ptrMask = 13 then Some (if hasReturn then fastInts6F32R PPtr PWord PPtr PPtr PWord PWord
       else fastInts6F32V PPtr PWord PPtr PPtr PWord PWord)
     else if ptrMask = 14 then Some (if hasReturn then fastInts6F32R PWord PPtr PPtr PPtr PWord PWord
       else fastInts6F32V PWord PPtr PPtr PPtr PWord PWord)
     else if ptrMask = 15 then Some (if hasReturn then fastInts6F32R PPtr PPtr PPtr PPtr PWord PWord
       else fastInts6F32V PPtr PPtr PPtr PPtr PWord PWord)
     else None)"

definition dispatch_32_6_from_16 :: "u32 \<Rightarrow> bool \<Rightarrow> fast_impl option" where
  "dispatch_32_6_from_16 ptrMask hasReturn =
    (if ptrMask = 16 then Some (if hasReturn then fastInts6F32R PWord PWord PWord PWord PPtr PWord
       else fastInts6F32V PWord PWord PWord PWord PPtr PWord)
     else if ptrMask = 17 then Some (if hasReturn then fastInts6F32R PPtr PWord PWord PWord PPtr PWord
       else fastInts6F32V PPtr PWord PWord PWord PPtr PWord)
     else if ptrMask = 18 then Some (if hasReturn then fastInts6F32R PWord PPtr PWord PWord PPtr PWord
       else fastInts6F32V PWord PPtr PWord PWord PPtr PWord)
     else if ptrMask = 19 then Some (if hasReturn then fastInts6F32R PPtr PPtr PWord PWord PPtr PWord
       else fastInts6F32V PPtr PPtr PWord PWord PPtr PWord)
     else if ptrMask = 20 then Some (if hasReturn then fastInts6F32R PWord PWord PPtr PWord PPtr PWord
       else fastInts6F32V PWord PWord PPtr PWord PPtr PWord)
     else if ptrMask = 21 then Some (if hasReturn then fastInts6F32R PPtr PWord PPtr PWord PPtr PWord
       else fastInts6F32V PPtr PWord PPtr PWord PPtr PWord)
     else if ptrMask = 22 then Some (if hasReturn then fastInts6F32R PWord PPtr PPtr PWord PPtr PWord
       else fastInts6F32V PWord PPtr PPtr PWord PPtr PWord)
     else if ptrMask = 23 then Some (if hasReturn then fastInts6F32R PPtr PPtr PPtr PWord PPtr PWord
       else fastInts6F32V PPtr PPtr PPtr PWord PPtr PWord)
     else if ptrMask = 24 then Some (if hasReturn then fastInts6F32R PWord PWord PWord PPtr PPtr PWord
       else fastInts6F32V PWord PWord PWord PPtr PPtr PWord)
     else if ptrMask = 25 then Some (if hasReturn then fastInts6F32R PPtr PWord PWord PPtr PPtr PWord
       else fastInts6F32V PPtr PWord PWord PPtr PPtr PWord)
     else if ptrMask = 26 then Some (if hasReturn then fastInts6F32R PWord PPtr PWord PPtr PPtr PWord
       else fastInts6F32V PWord PPtr PWord PPtr PPtr PWord)
     else if ptrMask = 27 then Some (if hasReturn then fastInts6F32R PPtr PPtr PWord PPtr PPtr PWord
       else fastInts6F32V PPtr PPtr PWord PPtr PPtr PWord)
     else if ptrMask = 28 then Some (if hasReturn then fastInts6F32R PWord PWord PPtr PPtr PPtr PWord
       else fastInts6F32V PWord PWord PPtr PPtr PPtr PWord)
     else if ptrMask = 29 then Some (if hasReturn then fastInts6F32R PPtr PWord PPtr PPtr PPtr PWord
       else fastInts6F32V PPtr PWord PPtr PPtr PPtr PWord)
     else if ptrMask = 30 then Some (if hasReturn then fastInts6F32R PWord PPtr PPtr PPtr PPtr PWord
       else fastInts6F32V PWord PPtr PPtr PPtr PPtr PWord)
     else if ptrMask = 31 then Some (if hasReturn then fastInts6F32R PPtr PPtr PPtr PPtr PPtr PWord
       else fastInts6F32V PPtr PPtr PPtr PPtr PPtr PWord)
     else None)"

definition dispatch_32_6_from_32 :: "u32 \<Rightarrow> bool \<Rightarrow> fast_impl option" where
  "dispatch_32_6_from_32 ptrMask hasReturn =
    (if ptrMask = 32 then Some (if hasReturn then fastInts6F32R PWord PWord PWord PWord PWord PPtr
       else fastInts6F32V PWord PWord PWord PWord PWord PPtr)
     else if ptrMask = 33 then Some (if hasReturn then fastInts6F32R PPtr PWord PWord PWord PWord PPtr
       else fastInts6F32V PPtr PWord PWord PWord PWord PPtr)
     else if ptrMask = 34 then Some (if hasReturn then fastInts6F32R PWord PPtr PWord PWord PWord PPtr
       else fastInts6F32V PWord PPtr PWord PWord PWord PPtr)
     else if ptrMask = 35 then Some (if hasReturn then fastInts6F32R PPtr PPtr PWord PWord PWord PPtr
       else fastInts6F32V PPtr PPtr PWord PWord PWord PPtr)
     else if ptrMask = 36 then Some (if hasReturn then fastInts6F32R PWord PWord PPtr PWord PWord PPtr
       else fastInts6F32V PWord PWord PPtr PWord PWord PPtr)
     else if ptrMask = 37 then Some (if hasReturn then fastInts6F32R PPtr PWord PPtr PWord PWord PPtr
       else fastInts6F32V PPtr PWord PPtr PWord PWord PPtr)
     else if ptrMask = 38 then Some (if hasReturn then fastInts6F32R PWord PPtr PPtr PWord PWord PPtr
       else fastInts6F32V PWord PPtr PPtr PWord PWord PPtr)
     else if ptrMask = 39 then Some (if hasReturn then fastInts6F32R PPtr PPtr PPtr PWord PWord PPtr
       else fastInts6F32V PPtr PPtr PPtr PWord PWord PPtr)
     else if ptrMask = 40 then Some (if hasReturn then fastInts6F32R PWord PWord PWord PPtr PWord PPtr
       else fastInts6F32V PWord PWord PWord PPtr PWord PPtr)
     else if ptrMask = 41 then Some (if hasReturn then fastInts6F32R PPtr PWord PWord PPtr PWord PPtr
       else fastInts6F32V PPtr PWord PWord PPtr PWord PPtr)
     else if ptrMask = 42 then Some (if hasReturn then fastInts6F32R PWord PPtr PWord PPtr PWord PPtr
       else fastInts6F32V PWord PPtr PWord PPtr PWord PPtr)
     else if ptrMask = 43 then Some (if hasReturn then fastInts6F32R PPtr PPtr PWord PPtr PWord PPtr
       else fastInts6F32V PPtr PPtr PWord PPtr PWord PPtr)
     else if ptrMask = 44 then Some (if hasReturn then fastInts6F32R PWord PWord PPtr PPtr PWord PPtr
       else fastInts6F32V PWord PWord PPtr PPtr PWord PPtr)
     else if ptrMask = 45 then Some (if hasReturn then fastInts6F32R PPtr PWord PPtr PPtr PWord PPtr
       else fastInts6F32V PPtr PWord PPtr PPtr PWord PPtr)
     else if ptrMask = 46 then Some (if hasReturn then fastInts6F32R PWord PPtr PPtr PPtr PWord PPtr
       else fastInts6F32V PWord PPtr PPtr PPtr PWord PPtr)
     else if ptrMask = 47 then Some (if hasReturn then fastInts6F32R PPtr PPtr PPtr PPtr PWord PPtr
       else fastInts6F32V PPtr PPtr PPtr PPtr PWord PPtr)
     else None)"

definition dispatch_32_6_from_48 :: "u32 \<Rightarrow> bool \<Rightarrow> fast_impl option" where
  "dispatch_32_6_from_48 ptrMask hasReturn =
    (if ptrMask = 48 then Some (if hasReturn then fastInts6F32R PWord PWord PWord PWord PPtr PPtr
       else fastInts6F32V PWord PWord PWord PWord PPtr PPtr)
     else if ptrMask = 49 then Some (if hasReturn then fastInts6F32R PPtr PWord PWord PWord PPtr PPtr
       else fastInts6F32V PPtr PWord PWord PWord PPtr PPtr)
     else if ptrMask = 50 then Some (if hasReturn then fastInts6F32R PWord PPtr PWord PWord PPtr PPtr
       else fastInts6F32V PWord PPtr PWord PWord PPtr PPtr)
     else if ptrMask = 51 then Some (if hasReturn then fastInts6F32R PPtr PPtr PWord PWord PPtr PPtr
       else fastInts6F32V PPtr PPtr PWord PWord PPtr PPtr)
     else if ptrMask = 52 then Some (if hasReturn then fastInts6F32R PWord PWord PPtr PWord PPtr PPtr
       else fastInts6F32V PWord PWord PPtr PWord PPtr PPtr)
     else if ptrMask = 53 then Some (if hasReturn then fastInts6F32R PPtr PWord PPtr PWord PPtr PPtr
       else fastInts6F32V PPtr PWord PPtr PWord PPtr PPtr)
     else if ptrMask = 54 then Some (if hasReturn then fastInts6F32R PWord PPtr PPtr PWord PPtr PPtr
       else fastInts6F32V PWord PPtr PPtr PWord PPtr PPtr)
     else if ptrMask = 55 then Some (if hasReturn then fastInts6F32R PPtr PPtr PPtr PWord PPtr PPtr
       else fastInts6F32V PPtr PPtr PPtr PWord PPtr PPtr)
     else if ptrMask = 56 then Some (if hasReturn then fastInts6F32R PWord PWord PWord PPtr PPtr PPtr
       else fastInts6F32V PWord PWord PWord PPtr PPtr PPtr)
     else if ptrMask = 57 then Some (if hasReturn then fastInts6F32R PPtr PWord PWord PPtr PPtr PPtr
       else fastInts6F32V PPtr PWord PWord PPtr PPtr PPtr)
     else if ptrMask = 58 then Some (if hasReturn then fastInts6F32R PWord PPtr PWord PPtr PPtr PPtr
       else fastInts6F32V PWord PPtr PWord PPtr PPtr PPtr)
     else if ptrMask = 59 then Some (if hasReturn then fastInts6F32R PPtr PPtr PWord PPtr PPtr PPtr
       else fastInts6F32V PPtr PPtr PWord PPtr PPtr PPtr)
     else if ptrMask = 60 then Some (if hasReturn then fastInts6F32R PWord PWord PPtr PPtr PPtr PPtr
       else fastInts6F32V PWord PWord PPtr PPtr PPtr PPtr)
     else if ptrMask = 61 then Some (if hasReturn then fastInts6F32R PPtr PWord PPtr PPtr PPtr PPtr
       else fastInts6F32V PPtr PWord PPtr PPtr PPtr PPtr)
     else if ptrMask = 62 then Some (if hasReturn then fastInts6F32R PWord PPtr PPtr PPtr PPtr PPtr
       else fastInts6F32V PWord PPtr PPtr PPtr PPtr PPtr)
     else if ptrMask = 63 then Some (if hasReturn then fastInts6F32R PPtr PPtr PPtr PPtr PPtr PPtr
       else fastInts6F32V PPtr PPtr PPtr PPtr PPtr PPtr)
     else None)"

definition dispatch_32_6 :: "u32 \<Rightarrow> bool \<Rightarrow> fast_impl option" where
  "dispatch_32_6 ptrMask hasReturn = or_else (dispatch_32_6_from_0 ptrMask hasReturn)
    (or_else (dispatch_32_6_from_16 ptrMask hasReturn)
    (or_else (dispatch_32_6_from_32 ptrMask hasReturn)
    (dispatch_32_6_from_48 ptrMask hasReturn)))"

definition dispatch_32_7 :: "u32 \<Rightarrow> bool \<Rightarrow> fast_impl option" where
  "dispatch_32_7 ptrMask hasReturn =
    (if ptrMask = 0 then Some (if hasReturn then fastInts7F32R PWord PWord PWord PWord PWord PWord PWord
       else fastInts7F32V PWord PWord PWord PWord PWord PWord PWord)
     else None)"

definition dispatch_32_8 :: "u32 \<Rightarrow> bool \<Rightarrow> fast_impl option" where
  "dispatch_32_8 ptrMask hasReturn =
    (if ptrMask = 0 then Some (if hasReturn then fastInts8F32R PWord PWord PWord PWord PWord PWord PWord PWord
       else fastInts8F32V PWord PWord PWord PWord PWord PWord PWord PWord)
     else None)"

definition dispatch_32_9 :: "u32 \<Rightarrow> bool \<Rightarrow> fast_impl option" where
  "dispatch_32_9 ptrMask hasReturn =
    (if ptrMask = 0 then Some (if hasReturn then fastInts9F32R PWord PWord PWord PWord PWord PWord PWord PWord PWord
       else fastInts9F32V PWord PWord PWord PWord PWord PWord PWord PWord PWord)
     else None)"

definition dispatch_32_10 :: "u32 \<Rightarrow> bool \<Rightarrow> fast_impl option" where
  "dispatch_32_10 ptrMask hasReturn =
    (if ptrMask = 0 then Some (if hasReturn then fastInts10F32R PWord PWord PWord PWord PWord PWord PWord PWord PWord PWord
       else fastInts10F32V PWord PWord PWord PWord PWord PWord PWord PWord PWord PWord)
     else None)"

definition dispatch_32_11 :: "u32 \<Rightarrow> bool \<Rightarrow> fast_impl option" where
  "dispatch_32_11 ptrMask hasReturn =
    (if ptrMask = 0 then Some (if hasReturn then fastInts11F32R PWord PWord PWord PWord PWord PWord PWord PWord PWord PWord PWord
       else fastInts11F32V PWord PWord PWord PWord PWord PWord PWord PWord PWord PWord PWord)
     else None)"

definition dispatch_32_12 :: "u32 \<Rightarrow> bool \<Rightarrow> fast_impl option" where
  "dispatch_32_12 ptrMask hasReturn =
    (if ptrMask = 0 then Some (if hasReturn then fastInts12F32R PWord PWord PWord PWord PWord PWord PWord PWord PWord PWord PWord PWord
       else fastInts12F32V PWord PWord PWord PWord PWord PWord PWord PWord PWord PWord PWord PWord)
     else None)"

definition dispatch_32_13 :: "u32 \<Rightarrow> bool \<Rightarrow> fast_impl option" where
  "dispatch_32_13 ptrMask hasReturn =
    (if ptrMask = 0 then Some (if hasReturn then fastInts13F32R PWord PWord PWord PWord PWord PWord PWord PWord PWord PWord PWord PWord PWord
       else fastInts13F32V PWord PWord PWord PWord PWord PWord PWord PWord PWord PWord PWord PWord PWord)
     else None)"

definition dispatch_32_14 :: "u32 \<Rightarrow> bool \<Rightarrow> fast_impl option" where
  "dispatch_32_14 ptrMask hasReturn =
    (if ptrMask = 0 then Some (if hasReturn then fastInts14F32R PWord PWord PWord PWord PWord PWord PWord PWord PWord PWord PWord PWord PWord PWord
       else fastInts14F32V PWord PWord PWord PWord PWord PWord PWord PWord PWord PWord PWord PWord PWord PWord)
     else None)"

definition dispatch_64_0 :: "u32 \<Rightarrow> bool \<Rightarrow> fast_impl option" where
  "dispatch_64_0 ptrMask hasReturn =
    (if ptrMask = 0 then Some (if hasReturn then fastInts0F64R
       else fastInts0F64V)
     else None)"

definition dispatch_64_1 :: "u32 \<Rightarrow> bool \<Rightarrow> fast_impl option" where
  "dispatch_64_1 ptrMask hasReturn =
    (if ptrMask = 0 then Some (if hasReturn then fastInts1F64R PWord
       else fastInts1F64V PWord)
     else if ptrMask = 1 then Some (if hasReturn then fastInts1F64R PPtr
       else fastInts1F64V PPtr)
     else None)"

definition dispatch_64_2 :: "u32 \<Rightarrow> bool \<Rightarrow> fast_impl option" where
  "dispatch_64_2 ptrMask hasReturn =
    (if ptrMask = 0 then Some (if hasReturn then fastInts2F64R PWord PWord
       else fastInts2F64V PWord PWord)
     else if ptrMask = 1 then Some (if hasReturn then fastInts2F64R PPtr PWord
       else fastInts2F64V PPtr PWord)
     else if ptrMask = 2 then Some (if hasReturn then fastInts2F64R PWord PPtr
       else fastInts2F64V PWord PPtr)
     else if ptrMask = 3 then Some (if hasReturn then fastInts2F64R PPtr PPtr
       else fastInts2F64V PPtr PPtr)
     else None)"

definition dispatch_64_3 :: "u32 \<Rightarrow> bool \<Rightarrow> fast_impl option" where
  "dispatch_64_3 ptrMask hasReturn =
    (if ptrMask = 0 then Some (if hasReturn then fastInts3F64R PWord PWord PWord
       else fastInts3F64V PWord PWord PWord)
     else if ptrMask = 1 then Some (if hasReturn then fastInts3F64R PPtr PWord PWord
       else fastInts3F64V PPtr PWord PWord)
     else if ptrMask = 2 then Some (if hasReturn then fastInts3F64R PWord PPtr PWord
       else fastInts3F64V PWord PPtr PWord)
     else if ptrMask = 3 then Some (if hasReturn then fastInts3F64R PPtr PPtr PWord
       else fastInts3F64V PPtr PPtr PWord)
     else if ptrMask = 4 then Some (if hasReturn then fastInts3F64R PWord PWord PPtr
       else fastInts3F64V PWord PWord PPtr)
     else if ptrMask = 5 then Some (if hasReturn then fastInts3F64R PPtr PWord PPtr
       else fastInts3F64V PPtr PWord PPtr)
     else if ptrMask = 6 then Some (if hasReturn then fastInts3F64R PWord PPtr PPtr
       else fastInts3F64V PWord PPtr PPtr)
     else if ptrMask = 7 then Some (if hasReturn then fastInts3F64R PPtr PPtr PPtr
       else fastInts3F64V PPtr PPtr PPtr)
     else None)"

definition dispatch_64_4 :: "u32 \<Rightarrow> bool \<Rightarrow> fast_impl option" where
  "dispatch_64_4 ptrMask hasReturn =
    (if ptrMask = 0 then Some (if hasReturn then fastInts4F64R PWord PWord PWord PWord
       else fastInts4F64V PWord PWord PWord PWord)
     else if ptrMask = 1 then Some (if hasReturn then fastInts4F64R PPtr PWord PWord PWord
       else fastInts4F64V PPtr PWord PWord PWord)
     else if ptrMask = 2 then Some (if hasReturn then fastInts4F64R PWord PPtr PWord PWord
       else fastInts4F64V PWord PPtr PWord PWord)
     else if ptrMask = 3 then Some (if hasReturn then fastInts4F64R PPtr PPtr PWord PWord
       else fastInts4F64V PPtr PPtr PWord PWord)
     else if ptrMask = 4 then Some (if hasReturn then fastInts4F64R PWord PWord PPtr PWord
       else fastInts4F64V PWord PWord PPtr PWord)
     else if ptrMask = 5 then Some (if hasReturn then fastInts4F64R PPtr PWord PPtr PWord
       else fastInts4F64V PPtr PWord PPtr PWord)
     else if ptrMask = 6 then Some (if hasReturn then fastInts4F64R PWord PPtr PPtr PWord
       else fastInts4F64V PWord PPtr PPtr PWord)
     else if ptrMask = 7 then Some (if hasReturn then fastInts4F64R PPtr PPtr PPtr PWord
       else fastInts4F64V PPtr PPtr PPtr PWord)
     else if ptrMask = 8 then Some (if hasReturn then fastInts4F64R PWord PWord PWord PPtr
       else fastInts4F64V PWord PWord PWord PPtr)
     else if ptrMask = 9 then Some (if hasReturn then fastInts4F64R PPtr PWord PWord PPtr
       else fastInts4F64V PPtr PWord PWord PPtr)
     else if ptrMask = 10 then Some (if hasReturn then fastInts4F64R PWord PPtr PWord PPtr
       else fastInts4F64V PWord PPtr PWord PPtr)
     else if ptrMask = 11 then Some (if hasReturn then fastInts4F64R PPtr PPtr PWord PPtr
       else fastInts4F64V PPtr PPtr PWord PPtr)
     else if ptrMask = 12 then Some (if hasReturn then fastInts4F64R PWord PWord PPtr PPtr
       else fastInts4F64V PWord PWord PPtr PPtr)
     else if ptrMask = 13 then Some (if hasReturn then fastInts4F64R PPtr PWord PPtr PPtr
       else fastInts4F64V PPtr PWord PPtr PPtr)
     else if ptrMask = 14 then Some (if hasReturn then fastInts4F64R PWord PPtr PPtr PPtr
       else fastInts4F64V PWord PPtr PPtr PPtr)
     else if ptrMask = 15 then Some (if hasReturn then fastInts4F64R PPtr PPtr PPtr PPtr
       else fastInts4F64V PPtr PPtr PPtr PPtr)
     else None)"

definition dispatch_64_5_from_0 :: "u32 \<Rightarrow> bool \<Rightarrow> fast_impl option" where
  "dispatch_64_5_from_0 ptrMask hasReturn =
    (if ptrMask = 0 then Some (if hasReturn then fastInts5F64R PWord PWord PWord PWord PWord
       else fastInts5F64V PWord PWord PWord PWord PWord)
     else if ptrMask = 1 then Some (if hasReturn then fastInts5F64R PPtr PWord PWord PWord PWord
       else fastInts5F64V PPtr PWord PWord PWord PWord)
     else if ptrMask = 2 then Some (if hasReturn then fastInts5F64R PWord PPtr PWord PWord PWord
       else fastInts5F64V PWord PPtr PWord PWord PWord)
     else if ptrMask = 3 then Some (if hasReturn then fastInts5F64R PPtr PPtr PWord PWord PWord
       else fastInts5F64V PPtr PPtr PWord PWord PWord)
     else if ptrMask = 4 then Some (if hasReturn then fastInts5F64R PWord PWord PPtr PWord PWord
       else fastInts5F64V PWord PWord PPtr PWord PWord)
     else if ptrMask = 5 then Some (if hasReturn then fastInts5F64R PPtr PWord PPtr PWord PWord
       else fastInts5F64V PPtr PWord PPtr PWord PWord)
     else if ptrMask = 6 then Some (if hasReturn then fastInts5F64R PWord PPtr PPtr PWord PWord
       else fastInts5F64V PWord PPtr PPtr PWord PWord)
     else if ptrMask = 7 then Some (if hasReturn then fastInts5F64R PPtr PPtr PPtr PWord PWord
       else fastInts5F64V PPtr PPtr PPtr PWord PWord)
     else if ptrMask = 8 then Some (if hasReturn then fastInts5F64R PWord PWord PWord PPtr PWord
       else fastInts5F64V PWord PWord PWord PPtr PWord)
     else if ptrMask = 9 then Some (if hasReturn then fastInts5F64R PPtr PWord PWord PPtr PWord
       else fastInts5F64V PPtr PWord PWord PPtr PWord)
     else if ptrMask = 10 then Some (if hasReturn then fastInts5F64R PWord PPtr PWord PPtr PWord
       else fastInts5F64V PWord PPtr PWord PPtr PWord)
     else if ptrMask = 11 then Some (if hasReturn then fastInts5F64R PPtr PPtr PWord PPtr PWord
       else fastInts5F64V PPtr PPtr PWord PPtr PWord)
     else if ptrMask = 12 then Some (if hasReturn then fastInts5F64R PWord PWord PPtr PPtr PWord
       else fastInts5F64V PWord PWord PPtr PPtr PWord)
     else if ptrMask = 13 then Some (if hasReturn then fastInts5F64R PPtr PWord PPtr PPtr PWord
       else fastInts5F64V PPtr PWord PPtr PPtr PWord)
     else if ptrMask = 14 then Some (if hasReturn then fastInts5F64R PWord PPtr PPtr PPtr PWord
       else fastInts5F64V PWord PPtr PPtr PPtr PWord)
     else if ptrMask = 15 then Some (if hasReturn then fastInts5F64R PPtr PPtr PPtr PPtr PWord
       else fastInts5F64V PPtr PPtr PPtr PPtr PWord)
     else None)"

definition dispatch_64_5_from_16 :: "u32 \<Rightarrow> bool \<Rightarrow> fast_impl option" where
  "dispatch_64_5_from_16 ptrMask hasReturn =
    (if ptrMask = 16 then Some (if hasReturn then fastInts5F64R PWord PWord PWord PWord PPtr
       else fastInts5F64V PWord PWord PWord PWord PPtr)
     else if ptrMask = 17 then Some (if hasReturn then fastInts5F64R PPtr PWord PWord PWord PPtr
       else fastInts5F64V PPtr PWord PWord PWord PPtr)
     else if ptrMask = 18 then Some (if hasReturn then fastInts5F64R PWord PPtr PWord PWord PPtr
       else fastInts5F64V PWord PPtr PWord PWord PPtr)
     else if ptrMask = 19 then Some (if hasReturn then fastInts5F64R PPtr PPtr PWord PWord PPtr
       else fastInts5F64V PPtr PPtr PWord PWord PPtr)
     else if ptrMask = 20 then Some (if hasReturn then fastInts5F64R PWord PWord PPtr PWord PPtr
       else fastInts5F64V PWord PWord PPtr PWord PPtr)
     else if ptrMask = 21 then Some (if hasReturn then fastInts5F64R PPtr PWord PPtr PWord PPtr
       else fastInts5F64V PPtr PWord PPtr PWord PPtr)
     else if ptrMask = 22 then Some (if hasReturn then fastInts5F64R PWord PPtr PPtr PWord PPtr
       else fastInts5F64V PWord PPtr PPtr PWord PPtr)
     else if ptrMask = 23 then Some (if hasReturn then fastInts5F64R PPtr PPtr PPtr PWord PPtr
       else fastInts5F64V PPtr PPtr PPtr PWord PPtr)
     else if ptrMask = 24 then Some (if hasReturn then fastInts5F64R PWord PWord PWord PPtr PPtr
       else fastInts5F64V PWord PWord PWord PPtr PPtr)
     else if ptrMask = 25 then Some (if hasReturn then fastInts5F64R PPtr PWord PWord PPtr PPtr
       else fastInts5F64V PPtr PWord PWord PPtr PPtr)
     else if ptrMask = 26 then Some (if hasReturn then fastInts5F64R PWord PPtr PWord PPtr PPtr
       else fastInts5F64V PWord PPtr PWord PPtr PPtr)
     else if ptrMask = 27 then Some (if hasReturn then fastInts5F64R PPtr PPtr PWord PPtr PPtr
       else fastInts5F64V PPtr PPtr PWord PPtr PPtr)
     else if ptrMask = 28 then Some (if hasReturn then fastInts5F64R PWord PWord PPtr PPtr PPtr
       else fastInts5F64V PWord PWord PPtr PPtr PPtr)
     else if ptrMask = 29 then Some (if hasReturn then fastInts5F64R PPtr PWord PPtr PPtr PPtr
       else fastInts5F64V PPtr PWord PPtr PPtr PPtr)
     else if ptrMask = 30 then Some (if hasReturn then fastInts5F64R PWord PPtr PPtr PPtr PPtr
       else fastInts5F64V PWord PPtr PPtr PPtr PPtr)
     else if ptrMask = 31 then Some (if hasReturn then fastInts5F64R PPtr PPtr PPtr PPtr PPtr
       else fastInts5F64V PPtr PPtr PPtr PPtr PPtr)
     else None)"

definition dispatch_64_5 :: "u32 \<Rightarrow> bool \<Rightarrow> fast_impl option" where
  "dispatch_64_5 ptrMask hasReturn = or_else (dispatch_64_5_from_0 ptrMask hasReturn)
    (dispatch_64_5_from_16 ptrMask hasReturn)"

definition dispatch_64_6_from_0 :: "u32 \<Rightarrow> bool \<Rightarrow> fast_impl option" where
  "dispatch_64_6_from_0 ptrMask hasReturn =
    (if ptrMask = 0 then Some (if hasReturn then fastInts6F64R PWord PWord PWord PWord PWord PWord
       else fastInts6F64V PWord PWord PWord PWord PWord PWord)
     else if ptrMask = 1 then Some (if hasReturn then fastInts6F64R PPtr PWord PWord PWord PWord PWord
       else fastInts6F64V PPtr PWord PWord PWord PWord PWord)
     else if ptrMask = 2 then Some (if hasReturn then fastInts6F64R PWord PPtr PWord PWord PWord PWord
       else fastInts6F64V PWord PPtr PWord PWord PWord PWord)
     else if ptrMask = 3 then Some (if hasReturn then fastInts6F64R PPtr PPtr PWord PWord PWord PWord
       else fastInts6F64V PPtr PPtr PWord PWord PWord PWord)
     else if ptrMask = 4 then Some (if hasReturn then fastInts6F64R PWord PWord PPtr PWord PWord PWord
       else fastInts6F64V PWord PWord PPtr PWord PWord PWord)
     else if ptrMask = 5 then Some (if hasReturn then fastInts6F64R PPtr PWord PPtr PWord PWord PWord
       else fastInts6F64V PPtr PWord PPtr PWord PWord PWord)
     else if ptrMask = 6 then Some (if hasReturn then fastInts6F64R PWord PPtr PPtr PWord PWord PWord
       else fastInts6F64V PWord PPtr PPtr PWord PWord PWord)
     else if ptrMask = 7 then Some (if hasReturn then fastInts6F64R PPtr PPtr PPtr PWord PWord PWord
       else fastInts6F64V PPtr PPtr PPtr PWord PWord PWord)
     else if ptrMask = 8 then Some (if hasReturn then fastInts6F64R PWord PWord PWord PPtr PWord PWord
       else fastInts6F64V PWord PWord PWord PPtr PWord PWord)
     else if ptrMask = 9 then Some (if hasReturn then fastInts6F64R PPtr PWord PWord PPtr PWord PWord
       else fastInts6F64V PPtr PWord PWord PPtr PWord PWord)
     else if ptrMask = 10 then Some (if hasReturn then fastInts6F64R PWord PPtr PWord PPtr PWord PWord
       else fastInts6F64V PWord PPtr PWord PPtr PWord PWord)
     else if ptrMask = 11 then Some (if hasReturn then fastInts6F64R PPtr PPtr PWord PPtr PWord PWord
       else fastInts6F64V PPtr PPtr PWord PPtr PWord PWord)
     else if ptrMask = 12 then Some (if hasReturn then fastInts6F64R PWord PWord PPtr PPtr PWord PWord
       else fastInts6F64V PWord PWord PPtr PPtr PWord PWord)
     else if ptrMask = 13 then Some (if hasReturn then fastInts6F64R PPtr PWord PPtr PPtr PWord PWord
       else fastInts6F64V PPtr PWord PPtr PPtr PWord PWord)
     else if ptrMask = 14 then Some (if hasReturn then fastInts6F64R PWord PPtr PPtr PPtr PWord PWord
       else fastInts6F64V PWord PPtr PPtr PPtr PWord PWord)
     else if ptrMask = 15 then Some (if hasReturn then fastInts6F64R PPtr PPtr PPtr PPtr PWord PWord
       else fastInts6F64V PPtr PPtr PPtr PPtr PWord PWord)
     else None)"

definition dispatch_64_6_from_16 :: "u32 \<Rightarrow> bool \<Rightarrow> fast_impl option" where
  "dispatch_64_6_from_16 ptrMask hasReturn =
    (if ptrMask = 16 then Some (if hasReturn then fastInts6F64R PWord PWord PWord PWord PPtr PWord
       else fastInts6F64V PWord PWord PWord PWord PPtr PWord)
     else if ptrMask = 17 then Some (if hasReturn then fastInts6F64R PPtr PWord PWord PWord PPtr PWord
       else fastInts6F64V PPtr PWord PWord PWord PPtr PWord)
     else if ptrMask = 18 then Some (if hasReturn then fastInts6F64R PWord PPtr PWord PWord PPtr PWord
       else fastInts6F64V PWord PPtr PWord PWord PPtr PWord)
     else if ptrMask = 19 then Some (if hasReturn then fastInts6F64R PPtr PPtr PWord PWord PPtr PWord
       else fastInts6F64V PPtr PPtr PWord PWord PPtr PWord)
     else if ptrMask = 20 then Some (if hasReturn then fastInts6F64R PWord PWord PPtr PWord PPtr PWord
       else fastInts6F64V PWord PWord PPtr PWord PPtr PWord)
     else if ptrMask = 21 then Some (if hasReturn then fastInts6F64R PPtr PWord PPtr PWord PPtr PWord
       else fastInts6F64V PPtr PWord PPtr PWord PPtr PWord)
     else if ptrMask = 22 then Some (if hasReturn then fastInts6F64R PWord PPtr PPtr PWord PPtr PWord
       else fastInts6F64V PWord PPtr PPtr PWord PPtr PWord)
     else if ptrMask = 23 then Some (if hasReturn then fastInts6F64R PPtr PPtr PPtr PWord PPtr PWord
       else fastInts6F64V PPtr PPtr PPtr PWord PPtr PWord)
     else if ptrMask = 24 then Some (if hasReturn then fastInts6F64R PWord PWord PWord PPtr PPtr PWord
       else fastInts6F64V PWord PWord PWord PPtr PPtr PWord)
     else if ptrMask = 25 then Some (if hasReturn then fastInts6F64R PPtr PWord PWord PPtr PPtr PWord
       else fastInts6F64V PPtr PWord PWord PPtr PPtr PWord)
     else if ptrMask = 26 then Some (if hasReturn then fastInts6F64R PWord PPtr PWord PPtr PPtr PWord
       else fastInts6F64V PWord PPtr PWord PPtr PPtr PWord)
     else if ptrMask = 27 then Some (if hasReturn then fastInts6F64R PPtr PPtr PWord PPtr PPtr PWord
       else fastInts6F64V PPtr PPtr PWord PPtr PPtr PWord)
     else if ptrMask = 28 then Some (if hasReturn then fastInts6F64R PWord PWord PPtr PPtr PPtr PWord
       else fastInts6F64V PWord PWord PPtr PPtr PPtr PWord)
     else if ptrMask = 29 then Some (if hasReturn then fastInts6F64R PPtr PWord PPtr PPtr PPtr PWord
       else fastInts6F64V PPtr PWord PPtr PPtr PPtr PWord)
     else if ptrMask = 30 then Some (if hasReturn then fastInts6F64R PWord PPtr PPtr PPtr PPtr PWord
       else fastInts6F64V PWord PPtr PPtr PPtr PPtr PWord)
     else if ptrMask = 31 then Some (if hasReturn then fastInts6F64R PPtr PPtr PPtr PPtr PPtr PWord
       else fastInts6F64V PPtr PPtr PPtr PPtr PPtr PWord)
     else None)"

definition dispatch_64_6_from_32 :: "u32 \<Rightarrow> bool \<Rightarrow> fast_impl option" where
  "dispatch_64_6_from_32 ptrMask hasReturn =
    (if ptrMask = 32 then Some (if hasReturn then fastInts6F64R PWord PWord PWord PWord PWord PPtr
       else fastInts6F64V PWord PWord PWord PWord PWord PPtr)
     else if ptrMask = 33 then Some (if hasReturn then fastInts6F64R PPtr PWord PWord PWord PWord PPtr
       else fastInts6F64V PPtr PWord PWord PWord PWord PPtr)
     else if ptrMask = 34 then Some (if hasReturn then fastInts6F64R PWord PPtr PWord PWord PWord PPtr
       else fastInts6F64V PWord PPtr PWord PWord PWord PPtr)
     else if ptrMask = 35 then Some (if hasReturn then fastInts6F64R PPtr PPtr PWord PWord PWord PPtr
       else fastInts6F64V PPtr PPtr PWord PWord PWord PPtr)
     else if ptrMask = 36 then Some (if hasReturn then fastInts6F64R PWord PWord PPtr PWord PWord PPtr
       else fastInts6F64V PWord PWord PPtr PWord PWord PPtr)
     else if ptrMask = 37 then Some (if hasReturn then fastInts6F64R PPtr PWord PPtr PWord PWord PPtr
       else fastInts6F64V PPtr PWord PPtr PWord PWord PPtr)
     else if ptrMask = 38 then Some (if hasReturn then fastInts6F64R PWord PPtr PPtr PWord PWord PPtr
       else fastInts6F64V PWord PPtr PPtr PWord PWord PPtr)
     else if ptrMask = 39 then Some (if hasReturn then fastInts6F64R PPtr PPtr PPtr PWord PWord PPtr
       else fastInts6F64V PPtr PPtr PPtr PWord PWord PPtr)
     else if ptrMask = 40 then Some (if hasReturn then fastInts6F64R PWord PWord PWord PPtr PWord PPtr
       else fastInts6F64V PWord PWord PWord PPtr PWord PPtr)
     else if ptrMask = 41 then Some (if hasReturn then fastInts6F64R PPtr PWord PWord PPtr PWord PPtr
       else fastInts6F64V PPtr PWord PWord PPtr PWord PPtr)
     else if ptrMask = 42 then Some (if hasReturn then fastInts6F64R PWord PPtr PWord PPtr PWord PPtr
       else fastInts6F64V PWord PPtr PWord PPtr PWord PPtr)
     else if ptrMask = 43 then Some (if hasReturn then fastInts6F64R PPtr PPtr PWord PPtr PWord PPtr
       else fastInts6F64V PPtr PPtr PWord PPtr PWord PPtr)
     else if ptrMask = 44 then Some (if hasReturn then fastInts6F64R PWord PWord PPtr PPtr PWord PPtr
       else fastInts6F64V PWord PWord PPtr PPtr PWord PPtr)
     else if ptrMask = 45 then Some (if hasReturn then fastInts6F64R PPtr PWord PPtr PPtr PWord PPtr
       else fastInts6F64V PPtr PWord PPtr PPtr PWord PPtr)
     else if ptrMask = 46 then Some (if hasReturn then fastInts6F64R PWord PPtr PPtr PPtr PWord PPtr
       else fastInts6F64V PWord PPtr PPtr PPtr PWord PPtr)
     else if ptrMask = 47 then Some (if hasReturn then fastInts6F64R PPtr PPtr PPtr PPtr PWord PPtr
       else fastInts6F64V PPtr PPtr PPtr PPtr PWord PPtr)
     else None)"

definition dispatch_64_6_from_48 :: "u32 \<Rightarrow> bool \<Rightarrow> fast_impl option" where
  "dispatch_64_6_from_48 ptrMask hasReturn =
    (if ptrMask = 48 then Some (if hasReturn then fastInts6F64R PWord PWord PWord PWord PPtr PPtr
       else fastInts6F64V PWord PWord PWord PWord PPtr PPtr)
     else if ptrMask = 49 then Some (if hasReturn then fastInts6F64R PPtr PWord PWord PWord PPtr PPtr
       else fastInts6F64V PPtr PWord PWord PWord PPtr PPtr)
     else if ptrMask = 50 then Some (if hasReturn then fastInts6F64R PWord PPtr PWord PWord PPtr PPtr
       else fastInts6F64V PWord PPtr PWord PWord PPtr PPtr)
     else if ptrMask = 51 then Some (if hasReturn then fastInts6F64R PPtr PPtr PWord PWord PPtr PPtr
       else fastInts6F64V PPtr PPtr PWord PWord PPtr PPtr)
     else if ptrMask = 52 then Some (if hasReturn then fastInts6F64R PWord PWord PPtr PWord PPtr PPtr
       else fastInts6F64V PWord PWord PPtr PWord PPtr PPtr)
     else if ptrMask = 53 then Some (if hasReturn then fastInts6F64R PPtr PWord PPtr PWord PPtr PPtr
       else fastInts6F64V PPtr PWord PPtr PWord PPtr PPtr)
     else if ptrMask = 54 then Some (if hasReturn then fastInts6F64R PWord PPtr PPtr PWord PPtr PPtr
       else fastInts6F64V PWord PPtr PPtr PWord PPtr PPtr)
     else if ptrMask = 55 then Some (if hasReturn then fastInts6F64R PPtr PPtr PPtr PWord PPtr PPtr
       else fastInts6F64V PPtr PPtr PPtr PWord PPtr PPtr)
     else if ptrMask = 56 then Some (if hasReturn then fastInts6F64R PWord PWord PWord PPtr PPtr PPtr
       else fastInts6F64V PWord PWord PWord PPtr PPtr PPtr)
     else if ptrMask = 57 then Some (if hasReturn then fastInts6F64R PPtr PWord PWord PPtr PPtr PPtr
       else fastInts6F64V PPtr PWord PWord PPtr PPtr PPtr)
     else if ptrMask = 58 then Some (if hasReturn then fastInts6F64R PWord PPtr PWord PPtr PPtr PPtr
       else fastInts6F64V PWord PPtr PWord PPtr PPtr PPtr)
     else if ptrMask = 59 then Some (if hasReturn then fastInts6F64R PPtr PPtr PWord PPtr PPtr PPtr
       else fastInts6F64V PPtr PPtr PWord PPtr PPtr PPtr)
     else if ptrMask = 60 then Some (if hasReturn then fastInts6F64R PWord PWord PPtr PPtr PPtr PPtr
       else fastInts6F64V PWord PWord PPtr PPtr PPtr PPtr)
     else if ptrMask = 61 then Some (if hasReturn then fastInts6F64R PPtr PWord PPtr PPtr PPtr PPtr
       else fastInts6F64V PPtr PWord PPtr PPtr PPtr PPtr)
     else if ptrMask = 62 then Some (if hasReturn then fastInts6F64R PWord PPtr PPtr PPtr PPtr PPtr
       else fastInts6F64V PWord PPtr PPtr PPtr PPtr PPtr)
     else if ptrMask = 63 then Some (if hasReturn then fastInts6F64R PPtr PPtr PPtr PPtr PPtr PPtr
       else fastInts6F64V PPtr PPtr PPtr PPtr PPtr PPtr)
     else None)"

definition dispatch_64_6 :: "u32 \<Rightarrow> bool \<Rightarrow> fast_impl option" where
  "dispatch_64_6 ptrMask hasReturn = or_else (dispatch_64_6_from_0 ptrMask hasReturn)
    (or_else (dispatch_64_6_from_16 ptrMask hasReturn)
    (or_else (dispatch_64_6_from_32 ptrMask hasReturn)
    (dispatch_64_6_from_48 ptrMask hasReturn)))"

definition dispatch_64_7 :: "u32 \<Rightarrow> bool \<Rightarrow> fast_impl option" where
  "dispatch_64_7 ptrMask hasReturn =
    (if ptrMask = 0 then Some (if hasReturn then fastInts7F64R PWord PWord PWord PWord PWord PWord PWord
       else fastInts7F64V PWord PWord PWord PWord PWord PWord PWord)
     else None)"

definition dispatch_64_8 :: "u32 \<Rightarrow> bool \<Rightarrow> fast_impl option" where
  "dispatch_64_8 ptrMask hasReturn =
    (if ptrMask = 0 then Some (if hasReturn then fastInts8F64R PWord PWord PWord PWord PWord PWord PWord PWord
       else fastInts8F64V PWord PWord PWord PWord PWord PWord PWord PWord)
     else None)"

definition dispatch_64_9 :: "u32 \<Rightarrow> bool \<Rightarrow> fast_impl option" where
  "dispatch_64_9 ptrMask hasReturn =
    (if ptrMask = 0 then Some (if hasReturn then fastInts9F64R PWord PWord PWord PWord PWord PWord PWord PWord PWord
       else fastInts9F64V PWord PWord PWord PWord PWord PWord PWord PWord PWord)
     else None)"

definition dispatch_64_10 :: "u32 \<Rightarrow> bool \<Rightarrow> fast_impl option" where
  "dispatch_64_10 ptrMask hasReturn =
    (if ptrMask = 0 then Some (if hasReturn then fastInts10F64R PWord PWord PWord PWord PWord PWord PWord PWord PWord PWord
       else fastInts10F64V PWord PWord PWord PWord PWord PWord PWord PWord PWord PWord)
     else None)"

definition dispatch_64_11 :: "u32 \<Rightarrow> bool \<Rightarrow> fast_impl option" where
  "dispatch_64_11 ptrMask hasReturn =
    (if ptrMask = 0 then Some (if hasReturn then fastInts11F64R PWord PWord PWord PWord PWord PWord PWord PWord PWord PWord PWord
       else fastInts11F64V PWord PWord PWord PWord PWord PWord PWord PWord PWord PWord PWord)
     else None)"

definition dispatch_64_12 :: "u32 \<Rightarrow> bool \<Rightarrow> fast_impl option" where
  "dispatch_64_12 ptrMask hasReturn =
    (if ptrMask = 0 then Some (if hasReturn then fastInts12F64R PWord PWord PWord PWord PWord PWord PWord PWord PWord PWord PWord PWord
       else fastInts12F64V PWord PWord PWord PWord PWord PWord PWord PWord PWord PWord PWord PWord)
     else None)"

definition dispatch_64_13 :: "u32 \<Rightarrow> bool \<Rightarrow> fast_impl option" where
  "dispatch_64_13 ptrMask hasReturn =
    (if ptrMask = 0 then Some (if hasReturn then fastInts13F64R PWord PWord PWord PWord PWord PWord PWord PWord PWord PWord PWord PWord PWord
       else fastInts13F64V PWord PWord PWord PWord PWord PWord PWord PWord PWord PWord PWord PWord PWord)
     else None)"

definition dispatch_64_14 :: "u32 \<Rightarrow> bool \<Rightarrow> fast_impl option" where
  "dispatch_64_14 ptrMask hasReturn =
    (if ptrMask = 0 then Some (if hasReturn then fastInts14F64R PWord PWord PWord PWord PWord PWord PWord PWord PWord PWord PWord PWord PWord PWord
       else fastInts14F64V PWord PWord PWord PWord PWord PWord PWord PWord PWord PWord PWord PWord PWord PWord)
     else None)"

definition registerFastFunc :: "nat \<Rightarrow> u32 \<Rightarrow> nat \<Rightarrow> bool \<Rightarrow> fast_impl option" where
  "registerFastFunc numInts ptrMask floatBits hasReturn =
    (if floatBits = 0 then
       (if numInts = 0 then dispatch_0_0 ptrMask hasReturn
        else if numInts = 1 then dispatch_0_1 ptrMask hasReturn
        else if numInts = 2 then dispatch_0_2 ptrMask hasReturn
        else if numInts = 3 then dispatch_0_3 ptrMask hasReturn
        else if numInts = 4 then dispatch_0_4 ptrMask hasReturn
        else if numInts = 5 then dispatch_0_5 ptrMask hasReturn
        else if numInts = 6 then dispatch_0_6 ptrMask hasReturn
        else if numInts = 7 then dispatch_0_7 ptrMask hasReturn
        else if numInts = 8 then dispatch_0_8 ptrMask hasReturn
        else if numInts = 9 then dispatch_0_9 ptrMask hasReturn
        else if numInts = 10 then dispatch_0_10 ptrMask hasReturn
        else if numInts = 11 then dispatch_0_11 ptrMask hasReturn
        else if numInts = 12 then dispatch_0_12 ptrMask hasReturn
        else if numInts = 13 then dispatch_0_13 ptrMask hasReturn
        else if numInts = 14 then dispatch_0_14 ptrMask hasReturn
        else if numInts = 15 then dispatch_0_15 ptrMask hasReturn
        else None)
     else if floatBits = 32 then
       (if numInts = 0 then dispatch_32_0 ptrMask hasReturn
        else if numInts = 1 then dispatch_32_1 ptrMask hasReturn
        else if numInts = 2 then dispatch_32_2 ptrMask hasReturn
        else if numInts = 3 then dispatch_32_3 ptrMask hasReturn
        else if numInts = 4 then dispatch_32_4 ptrMask hasReturn
        else if numInts = 5 then dispatch_32_5 ptrMask hasReturn
        else if numInts = 6 then dispatch_32_6 ptrMask hasReturn
        else if numInts = 7 then dispatch_32_7 ptrMask hasReturn
        else if numInts = 8 then dispatch_32_8 ptrMask hasReturn
        else if numInts = 9 then dispatch_32_9 ptrMask hasReturn
        else if numInts = 10 then dispatch_32_10 ptrMask hasReturn
        else if numInts = 11 then dispatch_32_11 ptrMask hasReturn
        else if numInts = 12 then dispatch_32_12 ptrMask hasReturn
        else if numInts = 13 then dispatch_32_13 ptrMask hasReturn
        else if numInts = 14 then dispatch_32_14 ptrMask hasReturn
        else None)
     else if floatBits = 64 then
       (if numInts = 0 then dispatch_64_0 ptrMask hasReturn
        else if numInts = 1 then dispatch_64_1 ptrMask hasReturn
        else if numInts = 2 then dispatch_64_2 ptrMask hasReturn
        else if numInts = 3 then dispatch_64_3 ptrMask hasReturn
        else if numInts = 4 then dispatch_64_4 ptrMask hasReturn
        else if numInts = 5 then dispatch_64_5 ptrMask hasReturn
        else if numInts = 6 then dispatch_64_6 ptrMask hasReturn
        else if numInts = 7 then dispatch_64_7 ptrMask hasReturn
        else if numInts = 8 then dispatch_64_8 ptrMask hasReturn
        else if numInts = 9 then dispatch_64_9 ptrMask hasReturn
        else if numInts = 10 then dispatch_64_10 ptrMask hasReturn
        else if numInts = 11 then dispatch_64_11 ptrMask hasReturn
        else if numInts = 12 then dispatch_64_12 ptrMask hasReturn
        else if numInts = 13 then dispatch_64_13 ptrMask hasReturn
        else if numInts = 14 then dispatch_64_14 ptrMask hasReturn
        else None)
     else None)"

section \<open>Each table is the one the generator specifies\<close>

text \<open>Masks by enumeration: a mask below a bound is one of a list of numerals.\<close>

lemma mask_enum:
  assumes "unat (m :: u32) < n"
  shows "m \<in> set (map of_nat [0..<n])"
proof -
  have "m = of_nat (unat m)"
    by simp
  then show ?thesis
    using assms by (metis atLeastLessThan_iff image_eqI list.set_map set_upt zero_le)
qed

lemma masks_0: "map of_nat [0..<1] = [0 :: u32]"
  by simp

lemma masks_1: "map of_nat [0..<2] = [0, 1 :: u32]"
  by code_simp

lemma masks_2: "map of_nat [0..<4] = [0, 1, 2, 3 :: u32]"
  by code_simp

lemma masks_3: "map of_nat [0..<8] = [0, 1, 2, 3, 4, 5, 6, 7 :: u32]"
  by code_simp

lemma masks_4: "map of_nat [0..<16] = [0, 1, 2, 3, 4, 5, 6, 7, 8, 9, 10, 11, 12, 13, 14, 15 :: u32]"
  by code_simp

lemma masks_5: "map of_nat [0..<32] = [0, 1, 2, 3, 4, 5, 6, 7, 8, 9, 10, 11, 12, 13, 14, 15, 16, 17, 18, 19,
    20, 21, 22, 23, 24, 25, 26, 27, 28, 29, 30, 31 :: u32]"
  by code_simp

lemma masks_6: "map of_nat [0..<64] = [0, 1, 2, 3, 4, 5, 6, 7, 8, 9, 10, 11, 12, 13, 14, 15, 16, 17, 18, 19,
    20, 21, 22, 23, 24, 25, 26, 27, 28, 29, 30, 31, 32, 33, 34, 35, 36, 37, 38, 39, 40, 41, 42, 43, 44, 45,
    46, 47, 48, 49, 50, 51, 52, 53, 54, 55, 56, 57, 58, 59, 60, 61, 62, 63 :: u32]"
  by code_simp

lemma upt_evals:
  "[0..<2] = [0, 1]"
  "[0..<3] = [0, 1, 2]"
  "[0..<4] = [0, 1, 2, 3]"
  "[0..<5] = [0, 1, 2, 3, 4]"
  "[0..<6] = [0, 1, 2, 3, 4, 5]"
  by code_simp+

lemmas table_simps = wrapper_eqs emitDispatch_def mask_params_def maxPointerMaskArgs_def upt_evals

lemma table_eqI:
  assumes "list_all (\<lambda>m. f m = g m) ms"
    and "map of_nat [0..<n] = (ms :: u32 list)"
    and "n \<le> unat m \<Longrightarrow> f m = g m"
  shows "f m = g m"
  using assms mask_enum [of m n] by (cases "unat m < n") (auto simp: list_all_iff)

lemma count_eqI:
  assumes "list_all (\<lambda>n. f n = g n) [0..<16]" and "16 \<le> (n :: nat) \<Longrightarrow> f n = g n"
  shows "f n = g n"
  using assms by (cases "n < 16") (auto simp: list_all_iff)

named_theorems dispatch_eqs "each generated table is the generator's table"

lemma dispatch_0_0_eq [dispatch_eqs]: "dispatch_0_0 m r = emitDispatch 0 m 0 r"
  by (rule table_eqI [OF _ masks_0])
    (simp_all add: dispatch_0_0_def table_simps word_unat_eq_iff cong: if_weak_cong)

lemma dispatch_0_1_eq [dispatch_eqs]: "dispatch_0_1 m r = emitDispatch 1 m 0 r"
  by (rule table_eqI [OF _ masks_1])
    (simp_all add: dispatch_0_1_def table_simps word_unat_eq_iff cong: if_weak_cong)

lemma dispatch_0_2_eq [dispatch_eqs]: "dispatch_0_2 m r = emitDispatch 2 m 0 r"
  by (rule table_eqI [OF _ masks_2])
    (simp_all add: dispatch_0_2_def table_simps word_unat_eq_iff cong: if_weak_cong)

lemma dispatch_0_3_eq [dispatch_eqs]: "dispatch_0_3 m r = emitDispatch 3 m 0 r"
  by (rule table_eqI [OF _ masks_3])
    (simp_all add: dispatch_0_3_def table_simps word_unat_eq_iff cong: if_weak_cong)

lemma dispatch_0_4_eq [dispatch_eqs]: "dispatch_0_4 m r = emitDispatch 4 m 0 r"
  by (rule table_eqI [OF _ masks_4])
    (simp_all add: dispatch_0_4_def table_simps word_unat_eq_iff cong: if_weak_cong)

lemma dispatch_0_5_eq [dispatch_eqs]: "dispatch_0_5 m r = emitDispatch 5 m 0 r"
  by (rule table_eqI [OF _ masks_5])
    (simp_all add: dispatch_0_5_def dispatch_0_5_from_0_def dispatch_0_5_from_16_def table_simps word_unat_eq_iff cong: if_weak_cong)

lemma dispatch_0_6_eq [dispatch_eqs]: "dispatch_0_6 m r = emitDispatch 6 m 0 r"
  by (rule table_eqI [OF _ masks_6])
    (simp_all add: dispatch_0_6_def dispatch_0_6_from_0_def dispatch_0_6_from_16_def dispatch_0_6_from_32_def dispatch_0_6_from_48_def table_simps word_unat_eq_iff cong: if_weak_cong)

lemma dispatch_32_0_eq [dispatch_eqs]: "dispatch_32_0 m r = emitDispatch 0 m 32 r"
  by (rule table_eqI [OF _ masks_0])
    (simp_all add: dispatch_32_0_def table_simps word_unat_eq_iff cong: if_weak_cong)

lemma dispatch_32_1_eq [dispatch_eqs]: "dispatch_32_1 m r = emitDispatch 1 m 32 r"
  by (rule table_eqI [OF _ masks_1])
    (simp_all add: dispatch_32_1_def table_simps word_unat_eq_iff cong: if_weak_cong)

lemma dispatch_32_2_eq [dispatch_eqs]: "dispatch_32_2 m r = emitDispatch 2 m 32 r"
  by (rule table_eqI [OF _ masks_2])
    (simp_all add: dispatch_32_2_def table_simps word_unat_eq_iff cong: if_weak_cong)

lemma dispatch_32_3_eq [dispatch_eqs]: "dispatch_32_3 m r = emitDispatch 3 m 32 r"
  by (rule table_eqI [OF _ masks_3])
    (simp_all add: dispatch_32_3_def table_simps word_unat_eq_iff cong: if_weak_cong)

lemma dispatch_32_4_eq [dispatch_eqs]: "dispatch_32_4 m r = emitDispatch 4 m 32 r"
  by (rule table_eqI [OF _ masks_4])
    (simp_all add: dispatch_32_4_def table_simps word_unat_eq_iff cong: if_weak_cong)

lemma dispatch_32_5_eq [dispatch_eqs]: "dispatch_32_5 m r = emitDispatch 5 m 32 r"
  by (rule table_eqI [OF _ masks_5])
    (simp_all add: dispatch_32_5_def dispatch_32_5_from_0_def dispatch_32_5_from_16_def table_simps word_unat_eq_iff cong: if_weak_cong)

lemma dispatch_32_6_eq [dispatch_eqs]: "dispatch_32_6 m r = emitDispatch 6 m 32 r"
  by (rule table_eqI [OF _ masks_6])
    (simp_all add: dispatch_32_6_def dispatch_32_6_from_0_def dispatch_32_6_from_16_def dispatch_32_6_from_32_def dispatch_32_6_from_48_def table_simps word_unat_eq_iff cong: if_weak_cong)

lemma dispatch_64_0_eq [dispatch_eqs]: "dispatch_64_0 m r = emitDispatch 0 m 64 r"
  by (rule table_eqI [OF _ masks_0])
    (simp_all add: dispatch_64_0_def table_simps word_unat_eq_iff cong: if_weak_cong)

lemma dispatch_64_1_eq [dispatch_eqs]: "dispatch_64_1 m r = emitDispatch 1 m 64 r"
  by (rule table_eqI [OF _ masks_1])
    (simp_all add: dispatch_64_1_def table_simps word_unat_eq_iff cong: if_weak_cong)

lemma dispatch_64_2_eq [dispatch_eqs]: "dispatch_64_2 m r = emitDispatch 2 m 64 r"
  by (rule table_eqI [OF _ masks_2])
    (simp_all add: dispatch_64_2_def table_simps word_unat_eq_iff cong: if_weak_cong)

lemma dispatch_64_3_eq [dispatch_eqs]: "dispatch_64_3 m r = emitDispatch 3 m 64 r"
  by (rule table_eqI [OF _ masks_3])
    (simp_all add: dispatch_64_3_def table_simps word_unat_eq_iff cong: if_weak_cong)

lemma dispatch_64_4_eq [dispatch_eqs]: "dispatch_64_4 m r = emitDispatch 4 m 64 r"
  by (rule table_eqI [OF _ masks_4])
    (simp_all add: dispatch_64_4_def table_simps word_unat_eq_iff cong: if_weak_cong)

lemma dispatch_64_5_eq [dispatch_eqs]: "dispatch_64_5 m r = emitDispatch 5 m 64 r"
  by (rule table_eqI [OF _ masks_5])
    (simp_all add: dispatch_64_5_def dispatch_64_5_from_0_def dispatch_64_5_from_16_def table_simps word_unat_eq_iff cong: if_weak_cong)

lemma dispatch_64_6_eq [dispatch_eqs]: "dispatch_64_6 m r = emitDispatch 6 m 64 r"
  by (rule table_eqI [OF _ masks_6])
    (simp_all add: dispatch_64_6_def dispatch_64_6_from_0_def dispatch_64_6_from_16_def dispatch_64_6_from_32_def dispatch_64_6_from_48_def table_simps word_unat_eq_iff cong: if_weak_cong)

lemma large_tables [dispatch_eqs]:
  "dispatch_0_7 m r = emitDispatch 7 m 0 r"
  "dispatch_0_8 m r = emitDispatch 8 m 0 r"
  "dispatch_0_9 m r = emitDispatch 9 m 0 r"
  "dispatch_0_10 m r = emitDispatch 10 m 0 r"
  "dispatch_0_11 m r = emitDispatch 11 m 0 r"
  "dispatch_0_12 m r = emitDispatch 12 m 0 r"
  "dispatch_0_13 m r = emitDispatch 13 m 0 r"
  "dispatch_0_14 m r = emitDispatch 14 m 0 r"
  "dispatch_0_15 m r = emitDispatch 15 m 0 r"
  "dispatch_32_7 m r = emitDispatch 7 m 32 r"
  "dispatch_32_8 m r = emitDispatch 8 m 32 r"
  "dispatch_32_9 m r = emitDispatch 9 m 32 r"
  "dispatch_32_10 m r = emitDispatch 10 m 32 r"
  "dispatch_32_11 m r = emitDispatch 11 m 32 r"
  "dispatch_32_12 m r = emitDispatch 12 m 32 r"
  "dispatch_32_13 m r = emitDispatch 13 m 32 r"
  "dispatch_32_14 m r = emitDispatch 14 m 32 r"
  "dispatch_64_7 m r = emitDispatch 7 m 64 r"
  "dispatch_64_8 m r = emitDispatch 8 m 64 r"
  "dispatch_64_9 m r = emitDispatch 9 m 64 r"
  "dispatch_64_10 m r = emitDispatch 10 m 64 r"
  "dispatch_64_11 m r = emitDispatch 11 m 64 r"
  "dispatch_64_12 m r = emitDispatch 12 m 64 r"
  "dispatch_64_13 m r = emitDispatch 13 m 64 r"
  "dispatch_64_14 m r = emitDispatch 14 m 64 r"
  by (simp_all add: dispatch_0_7_def dispatch_0_8_def dispatch_0_9_def dispatch_0_10_def dispatch_0_11_def dispatch_0_12_def dispatch_0_13_def dispatch_0_14_def dispatch_0_15_def dispatch_32_7_def dispatch_32_8_def dispatch_32_9_def dispatch_32_10_def dispatch_32_11_def dispatch_32_12_def dispatch_32_13_def dispatch_32_14_def dispatch_64_7_def dispatch_64_8_def dispatch_64_9_def dispatch_64_10_def dispatch_64_11_def dispatch_64_12_def dispatch_64_13_def dispatch_64_14_def
      wrapper_eqs emitDispatch_def mask_params_def maxPointerMaskArgs_def unat_eq_zero eval_nat_numeral)

lemma registerFastFunc_eq:
  "registerFastFunc numInts ptrMask floatBits hasReturn =
     emitDispatch numInts ptrMask floatBits hasReturn"
proof (rule count_eqI [of "\<lambda>n. registerFastFunc n ptrMask floatBits hasReturn"])
  have "[0..<16] = [0, 1, 2, 3, 4, 5, 6, 7, 8, 9, 10, 11, 12, 13, 14, 15::nat]"
    by code_simp
  then show "list_all (\<lambda>n. registerFastFunc n ptrMask floatBits hasReturn =
      emitDispatch n ptrMask floatBits hasReturn) [0..<16]"
    by (simp add: registerFastFunc_def dispatch_eqs) (simp add: emitDispatch_def)
qed (simp add: registerFastFunc_def emitDispatch_def)

text \<open>
  Property C9. For every count, mask, float width and result, the generated dispatch tables install
  exactly the wrapper the generator specifies for that signature, and install nothing exactly where
  the generator specifies none. No case of the 46 tables is missing, duplicated or swapped.
\<close>

theorem registerFastFunc_generated:
  "registerFastFunc numInts ptrMask floatBits hasReturn =
     emitDispatch numInts ptrMask floatBits hasReturn"
  by (rule registerFastFunc_eq)

end
