(* ===== verification/FastInterleaved.thy ===== *)
theory FastInterleaved
  imports FastDispatch
begin

text \<open>
  \<open>registerFastFuncInterleavedFloat32x1\<close> of \<^verbatim>\<open>zz_fast_func.go\<close>: the generated nested \<open>switch\<close> over the
  number of arguments and the position of the one \<open>float32\<close> among them. The inner \<open>switch\<close> for each
  count is a definition of its own. \<open>None\<close> means that no \<open>case\<close> applies, which leaves the function
  variable as it was: the source's function has no result to report that. The wrapper of the case
  \<open>p\<close> for \<open>n\<close> arguments is \<open>interleaved_n_p\<close>.
\<close>

section \<open>The tables\<close>

named_theorems interleaved_wrappers "the definitions of the wrappers in the tables"

definition interleaved_2_0 :: "bool \<Rightarrow> fast_impl" where [interleaved_wrappers]:
  "interleaved_2_0 hasReturn =
    (if hasReturn then
        \<lparr>impl_params = [PF32, PWord], impl_result = True,
         impl_ints = (\<lambda>a. zeros15[0 := conv_uintptr (a ! 1)]),
         impl_floats = (\<lambda>a. zeros8[0 := ucast (Float32bits (a ! 0))]), impl_keep = []\<rparr>
     else
        \<lparr>impl_params = [PF32, PWord], impl_result = False,
         impl_ints = (\<lambda>a. zeros15[0 := conv_uintptr (a ! 1)]),
         impl_floats = (\<lambda>a. zeros8[0 := ucast (Float32bits (a ! 0))]), impl_keep = []\<rparr>)"

definition interleaved_2 :: "nat \<Rightarrow> bool \<Rightarrow> fast_impl option" where
  "interleaved_2 floatPos hasReturn =
    (if floatPos = 0 then Some (interleaved_2_0 hasReturn)
     else None)"

definition interleaved_3_0 :: "bool \<Rightarrow> fast_impl" where [interleaved_wrappers]:
  "interleaved_3_0 hasReturn =
    (if hasReturn then
        \<lparr>impl_params = [PF32, PWord, PWord], impl_result = True,
         impl_ints = (\<lambda>a. zeros15[0 := conv_uintptr (a ! 1), 1 := conv_uintptr (a ! 2)]),
         impl_floats = (\<lambda>a. zeros8[0 := ucast (Float32bits (a ! 0))]), impl_keep = []\<rparr>
     else
        \<lparr>impl_params = [PF32, PWord, PWord], impl_result = False,
         impl_ints = (\<lambda>a. zeros15[0 := conv_uintptr (a ! 1), 1 := conv_uintptr (a ! 2)]),
         impl_floats = (\<lambda>a. zeros8[0 := ucast (Float32bits (a ! 0))]), impl_keep = []\<rparr>)"

definition interleaved_3_1 :: "bool \<Rightarrow> fast_impl" where [interleaved_wrappers]:
  "interleaved_3_1 hasReturn =
    (if hasReturn then
        \<lparr>impl_params = [PWord, PF32, PWord], impl_result = True,
         impl_ints = (\<lambda>a. zeros15[0 := conv_uintptr (a ! 0), 1 := conv_uintptr (a ! 2)]),
         impl_floats = (\<lambda>a. zeros8[0 := ucast (Float32bits (a ! 1))]), impl_keep = []\<rparr>
     else
        \<lparr>impl_params = [PWord, PF32, PWord], impl_result = False,
         impl_ints = (\<lambda>a. zeros15[0 := conv_uintptr (a ! 0), 1 := conv_uintptr (a ! 2)]),
         impl_floats = (\<lambda>a. zeros8[0 := ucast (Float32bits (a ! 1))]), impl_keep = []\<rparr>)"

definition interleaved_3 :: "nat \<Rightarrow> bool \<Rightarrow> fast_impl option" where
  "interleaved_3 floatPos hasReturn =
    (if floatPos = 0 then Some (interleaved_3_0 hasReturn)
     else if floatPos = 1 then Some (interleaved_3_1 hasReturn)
     else None)"

definition interleaved_4_0 :: "bool \<Rightarrow> fast_impl" where [interleaved_wrappers]:
  "interleaved_4_0 hasReturn =
    (if hasReturn then
        \<lparr>impl_params = [PF32, PWord, PWord, PWord], impl_result = True,
         impl_ints = (\<lambda>a. zeros15[0 := conv_uintptr (a ! 1), 1 := conv_uintptr (a ! 2),
             2 := conv_uintptr (a ! 3)]),
         impl_floats = (\<lambda>a. zeros8[0 := ucast (Float32bits (a ! 0))]), impl_keep = []\<rparr>
     else
        \<lparr>impl_params = [PF32, PWord, PWord, PWord], impl_result = False,
         impl_ints = (\<lambda>a. zeros15[0 := conv_uintptr (a ! 1), 1 := conv_uintptr (a ! 2),
             2 := conv_uintptr (a ! 3)]),
         impl_floats = (\<lambda>a. zeros8[0 := ucast (Float32bits (a ! 0))]), impl_keep = []\<rparr>)"

definition interleaved_4_1 :: "bool \<Rightarrow> fast_impl" where [interleaved_wrappers]:
  "interleaved_4_1 hasReturn =
    (if hasReturn then
        \<lparr>impl_params = [PWord, PF32, PWord, PWord], impl_result = True,
         impl_ints = (\<lambda>a. zeros15[0 := conv_uintptr (a ! 0), 1 := conv_uintptr (a ! 2),
             2 := conv_uintptr (a ! 3)]),
         impl_floats = (\<lambda>a. zeros8[0 := ucast (Float32bits (a ! 1))]), impl_keep = []\<rparr>
     else
        \<lparr>impl_params = [PWord, PF32, PWord, PWord], impl_result = False,
         impl_ints = (\<lambda>a. zeros15[0 := conv_uintptr (a ! 0), 1 := conv_uintptr (a ! 2),
             2 := conv_uintptr (a ! 3)]),
         impl_floats = (\<lambda>a. zeros8[0 := ucast (Float32bits (a ! 1))]), impl_keep = []\<rparr>)"

definition interleaved_4_2 :: "bool \<Rightarrow> fast_impl" where [interleaved_wrappers]:
  "interleaved_4_2 hasReturn =
    (if hasReturn then
        \<lparr>impl_params = [PWord, PWord, PF32, PWord], impl_result = True,
         impl_ints = (\<lambda>a. zeros15[0 := conv_uintptr (a ! 0), 1 := conv_uintptr (a ! 1),
             2 := conv_uintptr (a ! 3)]),
         impl_floats = (\<lambda>a. zeros8[0 := ucast (Float32bits (a ! 2))]), impl_keep = []\<rparr>
     else
        \<lparr>impl_params = [PWord, PWord, PF32, PWord], impl_result = False,
         impl_ints = (\<lambda>a. zeros15[0 := conv_uintptr (a ! 0), 1 := conv_uintptr (a ! 1),
             2 := conv_uintptr (a ! 3)]),
         impl_floats = (\<lambda>a. zeros8[0 := ucast (Float32bits (a ! 2))]), impl_keep = []\<rparr>)"

definition interleaved_4 :: "nat \<Rightarrow> bool \<Rightarrow> fast_impl option" where
  "interleaved_4 floatPos hasReturn =
    (if floatPos = 0 then Some (interleaved_4_0 hasReturn)
     else if floatPos = 1 then Some (interleaved_4_1 hasReturn)
     else if floatPos = 2 then Some (interleaved_4_2 hasReturn)
     else None)"

definition interleaved_5_0 :: "bool \<Rightarrow> fast_impl" where [interleaved_wrappers]:
  "interleaved_5_0 hasReturn =
    (if hasReturn then
        \<lparr>impl_params = [PF32, PWord, PWord, PWord, PWord], impl_result = True,
         impl_ints = (\<lambda>a. zeros15[0 := conv_uintptr (a ! 1), 1 := conv_uintptr (a ! 2),
             2 := conv_uintptr (a ! 3), 3 := conv_uintptr (a ! 4)]),
         impl_floats = (\<lambda>a. zeros8[0 := ucast (Float32bits (a ! 0))]), impl_keep = []\<rparr>
     else
        \<lparr>impl_params = [PF32, PWord, PWord, PWord, PWord], impl_result = False,
         impl_ints = (\<lambda>a. zeros15[0 := conv_uintptr (a ! 1), 1 := conv_uintptr (a ! 2),
             2 := conv_uintptr (a ! 3), 3 := conv_uintptr (a ! 4)]),
         impl_floats = (\<lambda>a. zeros8[0 := ucast (Float32bits (a ! 0))]), impl_keep = []\<rparr>)"

definition interleaved_5_1 :: "bool \<Rightarrow> fast_impl" where [interleaved_wrappers]:
  "interleaved_5_1 hasReturn =
    (if hasReturn then
        \<lparr>impl_params = [PWord, PF32, PWord, PWord, PWord], impl_result = True,
         impl_ints = (\<lambda>a. zeros15[0 := conv_uintptr (a ! 0), 1 := conv_uintptr (a ! 2),
             2 := conv_uintptr (a ! 3), 3 := conv_uintptr (a ! 4)]),
         impl_floats = (\<lambda>a. zeros8[0 := ucast (Float32bits (a ! 1))]), impl_keep = []\<rparr>
     else
        \<lparr>impl_params = [PWord, PF32, PWord, PWord, PWord], impl_result = False,
         impl_ints = (\<lambda>a. zeros15[0 := conv_uintptr (a ! 0), 1 := conv_uintptr (a ! 2),
             2 := conv_uintptr (a ! 3), 3 := conv_uintptr (a ! 4)]),
         impl_floats = (\<lambda>a. zeros8[0 := ucast (Float32bits (a ! 1))]), impl_keep = []\<rparr>)"

definition interleaved_5_2 :: "bool \<Rightarrow> fast_impl" where [interleaved_wrappers]:
  "interleaved_5_2 hasReturn =
    (if hasReturn then
        \<lparr>impl_params = [PWord, PWord, PF32, PWord, PWord], impl_result = True,
         impl_ints = (\<lambda>a. zeros15[0 := conv_uintptr (a ! 0), 1 := conv_uintptr (a ! 1),
             2 := conv_uintptr (a ! 3), 3 := conv_uintptr (a ! 4)]),
         impl_floats = (\<lambda>a. zeros8[0 := ucast (Float32bits (a ! 2))]), impl_keep = []\<rparr>
     else
        \<lparr>impl_params = [PWord, PWord, PF32, PWord, PWord], impl_result = False,
         impl_ints = (\<lambda>a. zeros15[0 := conv_uintptr (a ! 0), 1 := conv_uintptr (a ! 1),
             2 := conv_uintptr (a ! 3), 3 := conv_uintptr (a ! 4)]),
         impl_floats = (\<lambda>a. zeros8[0 := ucast (Float32bits (a ! 2))]), impl_keep = []\<rparr>)"

definition interleaved_5_3 :: "bool \<Rightarrow> fast_impl" where [interleaved_wrappers]:
  "interleaved_5_3 hasReturn =
    (if hasReturn then
        \<lparr>impl_params = [PWord, PWord, PWord, PF32, PWord], impl_result = True,
         impl_ints = (\<lambda>a. zeros15[0 := conv_uintptr (a ! 0), 1 := conv_uintptr (a ! 1),
             2 := conv_uintptr (a ! 2), 3 := conv_uintptr (a ! 4)]),
         impl_floats = (\<lambda>a. zeros8[0 := ucast (Float32bits (a ! 3))]), impl_keep = []\<rparr>
     else
        \<lparr>impl_params = [PWord, PWord, PWord, PF32, PWord], impl_result = False,
         impl_ints = (\<lambda>a. zeros15[0 := conv_uintptr (a ! 0), 1 := conv_uintptr (a ! 1),
             2 := conv_uintptr (a ! 2), 3 := conv_uintptr (a ! 4)]),
         impl_floats = (\<lambda>a. zeros8[0 := ucast (Float32bits (a ! 3))]), impl_keep = []\<rparr>)"

definition interleaved_5 :: "nat \<Rightarrow> bool \<Rightarrow> fast_impl option" where
  "interleaved_5 floatPos hasReturn =
    (if floatPos = 0 then Some (interleaved_5_0 hasReturn)
     else if floatPos = 1 then Some (interleaved_5_1 hasReturn)
     else if floatPos = 2 then Some (interleaved_5_2 hasReturn)
     else if floatPos = 3 then Some (interleaved_5_3 hasReturn)
     else None)"

definition interleaved_6_0 :: "bool \<Rightarrow> fast_impl" where [interleaved_wrappers]:
  "interleaved_6_0 hasReturn =
    (if hasReturn then
        \<lparr>impl_params = [PF32, PWord, PWord, PWord, PWord, PWord], impl_result = True,
         impl_ints = (\<lambda>a. zeros15[0 := conv_uintptr (a ! 1), 1 := conv_uintptr (a ! 2),
             2 := conv_uintptr (a ! 3), 3 := conv_uintptr (a ! 4), 4 := conv_uintptr (a ! 5)]),
         impl_floats = (\<lambda>a. zeros8[0 := ucast (Float32bits (a ! 0))]), impl_keep = []\<rparr>
     else
        \<lparr>impl_params = [PF32, PWord, PWord, PWord, PWord, PWord], impl_result = False,
         impl_ints = (\<lambda>a. zeros15[0 := conv_uintptr (a ! 1), 1 := conv_uintptr (a ! 2),
             2 := conv_uintptr (a ! 3), 3 := conv_uintptr (a ! 4), 4 := conv_uintptr (a ! 5)]),
         impl_floats = (\<lambda>a. zeros8[0 := ucast (Float32bits (a ! 0))]), impl_keep = []\<rparr>)"

definition interleaved_6_1 :: "bool \<Rightarrow> fast_impl" where [interleaved_wrappers]:
  "interleaved_6_1 hasReturn =
    (if hasReturn then
        \<lparr>impl_params = [PWord, PF32, PWord, PWord, PWord, PWord], impl_result = True,
         impl_ints = (\<lambda>a. zeros15[0 := conv_uintptr (a ! 0), 1 := conv_uintptr (a ! 2),
             2 := conv_uintptr (a ! 3), 3 := conv_uintptr (a ! 4), 4 := conv_uintptr (a ! 5)]),
         impl_floats = (\<lambda>a. zeros8[0 := ucast (Float32bits (a ! 1))]), impl_keep = []\<rparr>
     else
        \<lparr>impl_params = [PWord, PF32, PWord, PWord, PWord, PWord], impl_result = False,
         impl_ints = (\<lambda>a. zeros15[0 := conv_uintptr (a ! 0), 1 := conv_uintptr (a ! 2),
             2 := conv_uintptr (a ! 3), 3 := conv_uintptr (a ! 4), 4 := conv_uintptr (a ! 5)]),
         impl_floats = (\<lambda>a. zeros8[0 := ucast (Float32bits (a ! 1))]), impl_keep = []\<rparr>)"

definition interleaved_6_2 :: "bool \<Rightarrow> fast_impl" where [interleaved_wrappers]:
  "interleaved_6_2 hasReturn =
    (if hasReturn then
        \<lparr>impl_params = [PWord, PWord, PF32, PWord, PWord, PWord], impl_result = True,
         impl_ints = (\<lambda>a. zeros15[0 := conv_uintptr (a ! 0), 1 := conv_uintptr (a ! 1),
             2 := conv_uintptr (a ! 3), 3 := conv_uintptr (a ! 4), 4 := conv_uintptr (a ! 5)]),
         impl_floats = (\<lambda>a. zeros8[0 := ucast (Float32bits (a ! 2))]), impl_keep = []\<rparr>
     else
        \<lparr>impl_params = [PWord, PWord, PF32, PWord, PWord, PWord], impl_result = False,
         impl_ints = (\<lambda>a. zeros15[0 := conv_uintptr (a ! 0), 1 := conv_uintptr (a ! 1),
             2 := conv_uintptr (a ! 3), 3 := conv_uintptr (a ! 4), 4 := conv_uintptr (a ! 5)]),
         impl_floats = (\<lambda>a. zeros8[0 := ucast (Float32bits (a ! 2))]), impl_keep = []\<rparr>)"

definition interleaved_6_3 :: "bool \<Rightarrow> fast_impl" where [interleaved_wrappers]:
  "interleaved_6_3 hasReturn =
    (if hasReturn then
        \<lparr>impl_params = [PWord, PWord, PWord, PF32, PWord, PWord], impl_result = True,
         impl_ints = (\<lambda>a. zeros15[0 := conv_uintptr (a ! 0), 1 := conv_uintptr (a ! 1),
             2 := conv_uintptr (a ! 2), 3 := conv_uintptr (a ! 4), 4 := conv_uintptr (a ! 5)]),
         impl_floats = (\<lambda>a. zeros8[0 := ucast (Float32bits (a ! 3))]), impl_keep = []\<rparr>
     else
        \<lparr>impl_params = [PWord, PWord, PWord, PF32, PWord, PWord], impl_result = False,
         impl_ints = (\<lambda>a. zeros15[0 := conv_uintptr (a ! 0), 1 := conv_uintptr (a ! 1),
             2 := conv_uintptr (a ! 2), 3 := conv_uintptr (a ! 4), 4 := conv_uintptr (a ! 5)]),
         impl_floats = (\<lambda>a. zeros8[0 := ucast (Float32bits (a ! 3))]), impl_keep = []\<rparr>)"

definition interleaved_6_4 :: "bool \<Rightarrow> fast_impl" where [interleaved_wrappers]:
  "interleaved_6_4 hasReturn =
    (if hasReturn then
        \<lparr>impl_params = [PWord, PWord, PWord, PWord, PF32, PWord], impl_result = True,
         impl_ints = (\<lambda>a. zeros15[0 := conv_uintptr (a ! 0), 1 := conv_uintptr (a ! 1),
             2 := conv_uintptr (a ! 2), 3 := conv_uintptr (a ! 3), 4 := conv_uintptr (a ! 5)]),
         impl_floats = (\<lambda>a. zeros8[0 := ucast (Float32bits (a ! 4))]), impl_keep = []\<rparr>
     else
        \<lparr>impl_params = [PWord, PWord, PWord, PWord, PF32, PWord], impl_result = False,
         impl_ints = (\<lambda>a. zeros15[0 := conv_uintptr (a ! 0), 1 := conv_uintptr (a ! 1),
             2 := conv_uintptr (a ! 2), 3 := conv_uintptr (a ! 3), 4 := conv_uintptr (a ! 5)]),
         impl_floats = (\<lambda>a. zeros8[0 := ucast (Float32bits (a ! 4))]), impl_keep = []\<rparr>)"

definition interleaved_6 :: "nat \<Rightarrow> bool \<Rightarrow> fast_impl option" where
  "interleaved_6 floatPos hasReturn =
    (if floatPos = 0 then Some (interleaved_6_0 hasReturn)
     else if floatPos = 1 then Some (interleaved_6_1 hasReturn)
     else if floatPos = 2 then Some (interleaved_6_2 hasReturn)
     else if floatPos = 3 then Some (interleaved_6_3 hasReturn)
     else if floatPos = 4 then Some (interleaved_6_4 hasReturn)
     else None)"

definition interleaved_7_0 :: "bool \<Rightarrow> fast_impl" where [interleaved_wrappers]:
  "interleaved_7_0 hasReturn =
    (if hasReturn then
        \<lparr>impl_params = [PF32, PWord, PWord, PWord, PWord, PWord, PWord], impl_result = True,
         impl_ints = (\<lambda>a. zeros15[0 := conv_uintptr (a ! 1), 1 := conv_uintptr (a ! 2),
             2 := conv_uintptr (a ! 3), 3 := conv_uintptr (a ! 4), 4 := conv_uintptr (a ! 5),
             5 := conv_uintptr (a ! 6)]),
         impl_floats = (\<lambda>a. zeros8[0 := ucast (Float32bits (a ! 0))]), impl_keep = []\<rparr>
     else
        \<lparr>impl_params = [PF32, PWord, PWord, PWord, PWord, PWord, PWord], impl_result = False,
         impl_ints = (\<lambda>a. zeros15[0 := conv_uintptr (a ! 1), 1 := conv_uintptr (a ! 2),
             2 := conv_uintptr (a ! 3), 3 := conv_uintptr (a ! 4), 4 := conv_uintptr (a ! 5),
             5 := conv_uintptr (a ! 6)]),
         impl_floats = (\<lambda>a. zeros8[0 := ucast (Float32bits (a ! 0))]), impl_keep = []\<rparr>)"

definition interleaved_7_1 :: "bool \<Rightarrow> fast_impl" where [interleaved_wrappers]:
  "interleaved_7_1 hasReturn =
    (if hasReturn then
        \<lparr>impl_params = [PWord, PF32, PWord, PWord, PWord, PWord, PWord], impl_result = True,
         impl_ints = (\<lambda>a. zeros15[0 := conv_uintptr (a ! 0), 1 := conv_uintptr (a ! 2),
             2 := conv_uintptr (a ! 3), 3 := conv_uintptr (a ! 4), 4 := conv_uintptr (a ! 5),
             5 := conv_uintptr (a ! 6)]),
         impl_floats = (\<lambda>a. zeros8[0 := ucast (Float32bits (a ! 1))]), impl_keep = []\<rparr>
     else
        \<lparr>impl_params = [PWord, PF32, PWord, PWord, PWord, PWord, PWord], impl_result = False,
         impl_ints = (\<lambda>a. zeros15[0 := conv_uintptr (a ! 0), 1 := conv_uintptr (a ! 2),
             2 := conv_uintptr (a ! 3), 3 := conv_uintptr (a ! 4), 4 := conv_uintptr (a ! 5),
             5 := conv_uintptr (a ! 6)]),
         impl_floats = (\<lambda>a. zeros8[0 := ucast (Float32bits (a ! 1))]), impl_keep = []\<rparr>)"

definition interleaved_7_2 :: "bool \<Rightarrow> fast_impl" where [interleaved_wrappers]:
  "interleaved_7_2 hasReturn =
    (if hasReturn then
        \<lparr>impl_params = [PWord, PWord, PF32, PWord, PWord, PWord, PWord], impl_result = True,
         impl_ints = (\<lambda>a. zeros15[0 := conv_uintptr (a ! 0), 1 := conv_uintptr (a ! 1),
             2 := conv_uintptr (a ! 3), 3 := conv_uintptr (a ! 4), 4 := conv_uintptr (a ! 5),
             5 := conv_uintptr (a ! 6)]),
         impl_floats = (\<lambda>a. zeros8[0 := ucast (Float32bits (a ! 2))]), impl_keep = []\<rparr>
     else
        \<lparr>impl_params = [PWord, PWord, PF32, PWord, PWord, PWord, PWord], impl_result = False,
         impl_ints = (\<lambda>a. zeros15[0 := conv_uintptr (a ! 0), 1 := conv_uintptr (a ! 1),
             2 := conv_uintptr (a ! 3), 3 := conv_uintptr (a ! 4), 4 := conv_uintptr (a ! 5),
             5 := conv_uintptr (a ! 6)]),
         impl_floats = (\<lambda>a. zeros8[0 := ucast (Float32bits (a ! 2))]), impl_keep = []\<rparr>)"

definition interleaved_7_3 :: "bool \<Rightarrow> fast_impl" where [interleaved_wrappers]:
  "interleaved_7_3 hasReturn =
    (if hasReturn then
        \<lparr>impl_params = [PWord, PWord, PWord, PF32, PWord, PWord, PWord], impl_result = True,
         impl_ints = (\<lambda>a. zeros15[0 := conv_uintptr (a ! 0), 1 := conv_uintptr (a ! 1),
             2 := conv_uintptr (a ! 2), 3 := conv_uintptr (a ! 4), 4 := conv_uintptr (a ! 5),
             5 := conv_uintptr (a ! 6)]),
         impl_floats = (\<lambda>a. zeros8[0 := ucast (Float32bits (a ! 3))]), impl_keep = []\<rparr>
     else
        \<lparr>impl_params = [PWord, PWord, PWord, PF32, PWord, PWord, PWord], impl_result = False,
         impl_ints = (\<lambda>a. zeros15[0 := conv_uintptr (a ! 0), 1 := conv_uintptr (a ! 1),
             2 := conv_uintptr (a ! 2), 3 := conv_uintptr (a ! 4), 4 := conv_uintptr (a ! 5),
             5 := conv_uintptr (a ! 6)]),
         impl_floats = (\<lambda>a. zeros8[0 := ucast (Float32bits (a ! 3))]), impl_keep = []\<rparr>)"

definition interleaved_7_4 :: "bool \<Rightarrow> fast_impl" where [interleaved_wrappers]:
  "interleaved_7_4 hasReturn =
    (if hasReturn then
        \<lparr>impl_params = [PWord, PWord, PWord, PWord, PF32, PWord, PWord], impl_result = True,
         impl_ints = (\<lambda>a. zeros15[0 := conv_uintptr (a ! 0), 1 := conv_uintptr (a ! 1),
             2 := conv_uintptr (a ! 2), 3 := conv_uintptr (a ! 3), 4 := conv_uintptr (a ! 5),
             5 := conv_uintptr (a ! 6)]),
         impl_floats = (\<lambda>a. zeros8[0 := ucast (Float32bits (a ! 4))]), impl_keep = []\<rparr>
     else
        \<lparr>impl_params = [PWord, PWord, PWord, PWord, PF32, PWord, PWord], impl_result = False,
         impl_ints = (\<lambda>a. zeros15[0 := conv_uintptr (a ! 0), 1 := conv_uintptr (a ! 1),
             2 := conv_uintptr (a ! 2), 3 := conv_uintptr (a ! 3), 4 := conv_uintptr (a ! 5),
             5 := conv_uintptr (a ! 6)]),
         impl_floats = (\<lambda>a. zeros8[0 := ucast (Float32bits (a ! 4))]), impl_keep = []\<rparr>)"

definition interleaved_7_5 :: "bool \<Rightarrow> fast_impl" where [interleaved_wrappers]:
  "interleaved_7_5 hasReturn =
    (if hasReturn then
        \<lparr>impl_params = [PWord, PWord, PWord, PWord, PWord, PF32, PWord], impl_result = True,
         impl_ints = (\<lambda>a. zeros15[0 := conv_uintptr (a ! 0), 1 := conv_uintptr (a ! 1),
             2 := conv_uintptr (a ! 2), 3 := conv_uintptr (a ! 3), 4 := conv_uintptr (a ! 4),
             5 := conv_uintptr (a ! 6)]),
         impl_floats = (\<lambda>a. zeros8[0 := ucast (Float32bits (a ! 5))]), impl_keep = []\<rparr>
     else
        \<lparr>impl_params = [PWord, PWord, PWord, PWord, PWord, PF32, PWord], impl_result = False,
         impl_ints = (\<lambda>a. zeros15[0 := conv_uintptr (a ! 0), 1 := conv_uintptr (a ! 1),
             2 := conv_uintptr (a ! 2), 3 := conv_uintptr (a ! 3), 4 := conv_uintptr (a ! 4),
             5 := conv_uintptr (a ! 6)]),
         impl_floats = (\<lambda>a. zeros8[0 := ucast (Float32bits (a ! 5))]), impl_keep = []\<rparr>)"

definition interleaved_7 :: "nat \<Rightarrow> bool \<Rightarrow> fast_impl option" where
  "interleaved_7 floatPos hasReturn =
    (if floatPos = 0 then Some (interleaved_7_0 hasReturn)
     else if floatPos = 1 then Some (interleaved_7_1 hasReturn)
     else if floatPos = 2 then Some (interleaved_7_2 hasReturn)
     else if floatPos = 3 then Some (interleaved_7_3 hasReturn)
     else if floatPos = 4 then Some (interleaved_7_4 hasReturn)
     else if floatPos = 5 then Some (interleaved_7_5 hasReturn)
     else None)"

definition interleaved_8_0 :: "bool \<Rightarrow> fast_impl" where [interleaved_wrappers]:
  "interleaved_8_0 hasReturn =
    (if hasReturn then
        \<lparr>impl_params = [PF32, PWord, PWord, PWord, PWord, PWord, PWord, PWord], impl_result = True,
         impl_ints = (\<lambda>a. zeros15[0 := conv_uintptr (a ! 1), 1 := conv_uintptr (a ! 2),
             2 := conv_uintptr (a ! 3), 3 := conv_uintptr (a ! 4), 4 := conv_uintptr (a ! 5),
             5 := conv_uintptr (a ! 6), 6 := conv_uintptr (a ! 7)]),
         impl_floats = (\<lambda>a. zeros8[0 := ucast (Float32bits (a ! 0))]), impl_keep = []\<rparr>
     else
        \<lparr>impl_params = [PF32, PWord, PWord, PWord, PWord, PWord, PWord, PWord], impl_result = False,
         impl_ints = (\<lambda>a. zeros15[0 := conv_uintptr (a ! 1), 1 := conv_uintptr (a ! 2),
             2 := conv_uintptr (a ! 3), 3 := conv_uintptr (a ! 4), 4 := conv_uintptr (a ! 5),
             5 := conv_uintptr (a ! 6), 6 := conv_uintptr (a ! 7)]),
         impl_floats = (\<lambda>a. zeros8[0 := ucast (Float32bits (a ! 0))]), impl_keep = []\<rparr>)"

definition interleaved_8_1 :: "bool \<Rightarrow> fast_impl" where [interleaved_wrappers]:
  "interleaved_8_1 hasReturn =
    (if hasReturn then
        \<lparr>impl_params = [PWord, PF32, PWord, PWord, PWord, PWord, PWord, PWord], impl_result = True,
         impl_ints = (\<lambda>a. zeros15[0 := conv_uintptr (a ! 0), 1 := conv_uintptr (a ! 2),
             2 := conv_uintptr (a ! 3), 3 := conv_uintptr (a ! 4), 4 := conv_uintptr (a ! 5),
             5 := conv_uintptr (a ! 6), 6 := conv_uintptr (a ! 7)]),
         impl_floats = (\<lambda>a. zeros8[0 := ucast (Float32bits (a ! 1))]), impl_keep = []\<rparr>
     else
        \<lparr>impl_params = [PWord, PF32, PWord, PWord, PWord, PWord, PWord, PWord], impl_result = False,
         impl_ints = (\<lambda>a. zeros15[0 := conv_uintptr (a ! 0), 1 := conv_uintptr (a ! 2),
             2 := conv_uintptr (a ! 3), 3 := conv_uintptr (a ! 4), 4 := conv_uintptr (a ! 5),
             5 := conv_uintptr (a ! 6), 6 := conv_uintptr (a ! 7)]),
         impl_floats = (\<lambda>a. zeros8[0 := ucast (Float32bits (a ! 1))]), impl_keep = []\<rparr>)"

definition interleaved_8_2 :: "bool \<Rightarrow> fast_impl" where [interleaved_wrappers]:
  "interleaved_8_2 hasReturn =
    (if hasReturn then
        \<lparr>impl_params = [PWord, PWord, PF32, PWord, PWord, PWord, PWord, PWord], impl_result = True,
         impl_ints = (\<lambda>a. zeros15[0 := conv_uintptr (a ! 0), 1 := conv_uintptr (a ! 1),
             2 := conv_uintptr (a ! 3), 3 := conv_uintptr (a ! 4), 4 := conv_uintptr (a ! 5),
             5 := conv_uintptr (a ! 6), 6 := conv_uintptr (a ! 7)]),
         impl_floats = (\<lambda>a. zeros8[0 := ucast (Float32bits (a ! 2))]), impl_keep = []\<rparr>
     else
        \<lparr>impl_params = [PWord, PWord, PF32, PWord, PWord, PWord, PWord, PWord], impl_result = False,
         impl_ints = (\<lambda>a. zeros15[0 := conv_uintptr (a ! 0), 1 := conv_uintptr (a ! 1),
             2 := conv_uintptr (a ! 3), 3 := conv_uintptr (a ! 4), 4 := conv_uintptr (a ! 5),
             5 := conv_uintptr (a ! 6), 6 := conv_uintptr (a ! 7)]),
         impl_floats = (\<lambda>a. zeros8[0 := ucast (Float32bits (a ! 2))]), impl_keep = []\<rparr>)"

definition interleaved_8_3 :: "bool \<Rightarrow> fast_impl" where [interleaved_wrappers]:
  "interleaved_8_3 hasReturn =
    (if hasReturn then
        \<lparr>impl_params = [PWord, PWord, PWord, PF32, PWord, PWord, PWord, PWord], impl_result = True,
         impl_ints = (\<lambda>a. zeros15[0 := conv_uintptr (a ! 0), 1 := conv_uintptr (a ! 1),
             2 := conv_uintptr (a ! 2), 3 := conv_uintptr (a ! 4), 4 := conv_uintptr (a ! 5),
             5 := conv_uintptr (a ! 6), 6 := conv_uintptr (a ! 7)]),
         impl_floats = (\<lambda>a. zeros8[0 := ucast (Float32bits (a ! 3))]), impl_keep = []\<rparr>
     else
        \<lparr>impl_params = [PWord, PWord, PWord, PF32, PWord, PWord, PWord, PWord], impl_result = False,
         impl_ints = (\<lambda>a. zeros15[0 := conv_uintptr (a ! 0), 1 := conv_uintptr (a ! 1),
             2 := conv_uintptr (a ! 2), 3 := conv_uintptr (a ! 4), 4 := conv_uintptr (a ! 5),
             5 := conv_uintptr (a ! 6), 6 := conv_uintptr (a ! 7)]),
         impl_floats = (\<lambda>a. zeros8[0 := ucast (Float32bits (a ! 3))]), impl_keep = []\<rparr>)"

definition interleaved_8_4 :: "bool \<Rightarrow> fast_impl" where [interleaved_wrappers]:
  "interleaved_8_4 hasReturn =
    (if hasReturn then
        \<lparr>impl_params = [PWord, PWord, PWord, PWord, PF32, PWord, PWord, PWord], impl_result = True,
         impl_ints = (\<lambda>a. zeros15[0 := conv_uintptr (a ! 0), 1 := conv_uintptr (a ! 1),
             2 := conv_uintptr (a ! 2), 3 := conv_uintptr (a ! 3), 4 := conv_uintptr (a ! 5),
             5 := conv_uintptr (a ! 6), 6 := conv_uintptr (a ! 7)]),
         impl_floats = (\<lambda>a. zeros8[0 := ucast (Float32bits (a ! 4))]), impl_keep = []\<rparr>
     else
        \<lparr>impl_params = [PWord, PWord, PWord, PWord, PF32, PWord, PWord, PWord], impl_result = False,
         impl_ints = (\<lambda>a. zeros15[0 := conv_uintptr (a ! 0), 1 := conv_uintptr (a ! 1),
             2 := conv_uintptr (a ! 2), 3 := conv_uintptr (a ! 3), 4 := conv_uintptr (a ! 5),
             5 := conv_uintptr (a ! 6), 6 := conv_uintptr (a ! 7)]),
         impl_floats = (\<lambda>a. zeros8[0 := ucast (Float32bits (a ! 4))]), impl_keep = []\<rparr>)"

definition interleaved_8_5 :: "bool \<Rightarrow> fast_impl" where [interleaved_wrappers]:
  "interleaved_8_5 hasReturn =
    (if hasReturn then
        \<lparr>impl_params = [PWord, PWord, PWord, PWord, PWord, PF32, PWord, PWord], impl_result = True,
         impl_ints = (\<lambda>a. zeros15[0 := conv_uintptr (a ! 0), 1 := conv_uintptr (a ! 1),
             2 := conv_uintptr (a ! 2), 3 := conv_uintptr (a ! 3), 4 := conv_uintptr (a ! 4),
             5 := conv_uintptr (a ! 6), 6 := conv_uintptr (a ! 7)]),
         impl_floats = (\<lambda>a. zeros8[0 := ucast (Float32bits (a ! 5))]), impl_keep = []\<rparr>
     else
        \<lparr>impl_params = [PWord, PWord, PWord, PWord, PWord, PF32, PWord, PWord], impl_result = False,
         impl_ints = (\<lambda>a. zeros15[0 := conv_uintptr (a ! 0), 1 := conv_uintptr (a ! 1),
             2 := conv_uintptr (a ! 2), 3 := conv_uintptr (a ! 3), 4 := conv_uintptr (a ! 4),
             5 := conv_uintptr (a ! 6), 6 := conv_uintptr (a ! 7)]),
         impl_floats = (\<lambda>a. zeros8[0 := ucast (Float32bits (a ! 5))]), impl_keep = []\<rparr>)"

definition interleaved_8_6 :: "bool \<Rightarrow> fast_impl" where [interleaved_wrappers]:
  "interleaved_8_6 hasReturn =
    (if hasReturn then
        \<lparr>impl_params = [PWord, PWord, PWord, PWord, PWord, PWord, PF32, PWord], impl_result = True,
         impl_ints = (\<lambda>a. zeros15[0 := conv_uintptr (a ! 0), 1 := conv_uintptr (a ! 1),
             2 := conv_uintptr (a ! 2), 3 := conv_uintptr (a ! 3), 4 := conv_uintptr (a ! 4),
             5 := conv_uintptr (a ! 5), 6 := conv_uintptr (a ! 7)]),
         impl_floats = (\<lambda>a. zeros8[0 := ucast (Float32bits (a ! 6))]), impl_keep = []\<rparr>
     else
        \<lparr>impl_params = [PWord, PWord, PWord, PWord, PWord, PWord, PF32, PWord], impl_result = False,
         impl_ints = (\<lambda>a. zeros15[0 := conv_uintptr (a ! 0), 1 := conv_uintptr (a ! 1),
             2 := conv_uintptr (a ! 2), 3 := conv_uintptr (a ! 3), 4 := conv_uintptr (a ! 4),
             5 := conv_uintptr (a ! 5), 6 := conv_uintptr (a ! 7)]),
         impl_floats = (\<lambda>a. zeros8[0 := ucast (Float32bits (a ! 6))]), impl_keep = []\<rparr>)"

definition interleaved_8 :: "nat \<Rightarrow> bool \<Rightarrow> fast_impl option" where
  "interleaved_8 floatPos hasReturn =
    (if floatPos = 0 then Some (interleaved_8_0 hasReturn)
     else if floatPos = 1 then Some (interleaved_8_1 hasReturn)
     else if floatPos = 2 then Some (interleaved_8_2 hasReturn)
     else if floatPos = 3 then Some (interleaved_8_3 hasReturn)
     else if floatPos = 4 then Some (interleaved_8_4 hasReturn)
     else if floatPos = 5 then Some (interleaved_8_5 hasReturn)
     else if floatPos = 6 then Some (interleaved_8_6 hasReturn)
     else None)"

definition interleaved_9_0 :: "bool \<Rightarrow> fast_impl" where [interleaved_wrappers]:
  "interleaved_9_0 hasReturn =
    (if hasReturn then
        \<lparr>impl_params = [PF32, PWord, PWord, PWord, PWord, PWord, PWord, PWord, PWord],
            impl_result = True,
         impl_ints = (\<lambda>a. zeros15[0 := conv_uintptr (a ! 1), 1 := conv_uintptr (a ! 2),
             2 := conv_uintptr (a ! 3), 3 := conv_uintptr (a ! 4), 4 := conv_uintptr (a ! 5),
             5 := conv_uintptr (a ! 6), 6 := conv_uintptr (a ! 7), 7 := conv_uintptr (a ! 8)]),
         impl_floats = (\<lambda>a. zeros8[0 := ucast (Float32bits (a ! 0))]), impl_keep = []\<rparr>
     else
        \<lparr>impl_params = [PF32, PWord, PWord, PWord, PWord, PWord, PWord, PWord, PWord],
            impl_result = False,
         impl_ints = (\<lambda>a. zeros15[0 := conv_uintptr (a ! 1), 1 := conv_uintptr (a ! 2),
             2 := conv_uintptr (a ! 3), 3 := conv_uintptr (a ! 4), 4 := conv_uintptr (a ! 5),
             5 := conv_uintptr (a ! 6), 6 := conv_uintptr (a ! 7), 7 := conv_uintptr (a ! 8)]),
         impl_floats = (\<lambda>a. zeros8[0 := ucast (Float32bits (a ! 0))]), impl_keep = []\<rparr>)"

definition interleaved_9_1 :: "bool \<Rightarrow> fast_impl" where [interleaved_wrappers]:
  "interleaved_9_1 hasReturn =
    (if hasReturn then
        \<lparr>impl_params = [PWord, PF32, PWord, PWord, PWord, PWord, PWord, PWord, PWord],
            impl_result = True,
         impl_ints = (\<lambda>a. zeros15[0 := conv_uintptr (a ! 0), 1 := conv_uintptr (a ! 2),
             2 := conv_uintptr (a ! 3), 3 := conv_uintptr (a ! 4), 4 := conv_uintptr (a ! 5),
             5 := conv_uintptr (a ! 6), 6 := conv_uintptr (a ! 7), 7 := conv_uintptr (a ! 8)]),
         impl_floats = (\<lambda>a. zeros8[0 := ucast (Float32bits (a ! 1))]), impl_keep = []\<rparr>
     else
        \<lparr>impl_params = [PWord, PF32, PWord, PWord, PWord, PWord, PWord, PWord, PWord],
            impl_result = False,
         impl_ints = (\<lambda>a. zeros15[0 := conv_uintptr (a ! 0), 1 := conv_uintptr (a ! 2),
             2 := conv_uintptr (a ! 3), 3 := conv_uintptr (a ! 4), 4 := conv_uintptr (a ! 5),
             5 := conv_uintptr (a ! 6), 6 := conv_uintptr (a ! 7), 7 := conv_uintptr (a ! 8)]),
         impl_floats = (\<lambda>a. zeros8[0 := ucast (Float32bits (a ! 1))]), impl_keep = []\<rparr>)"

definition interleaved_9_2 :: "bool \<Rightarrow> fast_impl" where [interleaved_wrappers]:
  "interleaved_9_2 hasReturn =
    (if hasReturn then
        \<lparr>impl_params = [PWord, PWord, PF32, PWord, PWord, PWord, PWord, PWord, PWord],
            impl_result = True,
         impl_ints = (\<lambda>a. zeros15[0 := conv_uintptr (a ! 0), 1 := conv_uintptr (a ! 1),
             2 := conv_uintptr (a ! 3), 3 := conv_uintptr (a ! 4), 4 := conv_uintptr (a ! 5),
             5 := conv_uintptr (a ! 6), 6 := conv_uintptr (a ! 7), 7 := conv_uintptr (a ! 8)]),
         impl_floats = (\<lambda>a. zeros8[0 := ucast (Float32bits (a ! 2))]), impl_keep = []\<rparr>
     else
        \<lparr>impl_params = [PWord, PWord, PF32, PWord, PWord, PWord, PWord, PWord, PWord],
            impl_result = False,
         impl_ints = (\<lambda>a. zeros15[0 := conv_uintptr (a ! 0), 1 := conv_uintptr (a ! 1),
             2 := conv_uintptr (a ! 3), 3 := conv_uintptr (a ! 4), 4 := conv_uintptr (a ! 5),
             5 := conv_uintptr (a ! 6), 6 := conv_uintptr (a ! 7), 7 := conv_uintptr (a ! 8)]),
         impl_floats = (\<lambda>a. zeros8[0 := ucast (Float32bits (a ! 2))]), impl_keep = []\<rparr>)"

definition interleaved_9_3 :: "bool \<Rightarrow> fast_impl" where [interleaved_wrappers]:
  "interleaved_9_3 hasReturn =
    (if hasReturn then
        \<lparr>impl_params = [PWord, PWord, PWord, PF32, PWord, PWord, PWord, PWord, PWord],
            impl_result = True,
         impl_ints = (\<lambda>a. zeros15[0 := conv_uintptr (a ! 0), 1 := conv_uintptr (a ! 1),
             2 := conv_uintptr (a ! 2), 3 := conv_uintptr (a ! 4), 4 := conv_uintptr (a ! 5),
             5 := conv_uintptr (a ! 6), 6 := conv_uintptr (a ! 7), 7 := conv_uintptr (a ! 8)]),
         impl_floats = (\<lambda>a. zeros8[0 := ucast (Float32bits (a ! 3))]), impl_keep = []\<rparr>
     else
        \<lparr>impl_params = [PWord, PWord, PWord, PF32, PWord, PWord, PWord, PWord, PWord],
            impl_result = False,
         impl_ints = (\<lambda>a. zeros15[0 := conv_uintptr (a ! 0), 1 := conv_uintptr (a ! 1),
             2 := conv_uintptr (a ! 2), 3 := conv_uintptr (a ! 4), 4 := conv_uintptr (a ! 5),
             5 := conv_uintptr (a ! 6), 6 := conv_uintptr (a ! 7), 7 := conv_uintptr (a ! 8)]),
         impl_floats = (\<lambda>a. zeros8[0 := ucast (Float32bits (a ! 3))]), impl_keep = []\<rparr>)"

definition interleaved_9_4 :: "bool \<Rightarrow> fast_impl" where [interleaved_wrappers]:
  "interleaved_9_4 hasReturn =
    (if hasReturn then
        \<lparr>impl_params = [PWord, PWord, PWord, PWord, PF32, PWord, PWord, PWord, PWord],
            impl_result = True,
         impl_ints = (\<lambda>a. zeros15[0 := conv_uintptr (a ! 0), 1 := conv_uintptr (a ! 1),
             2 := conv_uintptr (a ! 2), 3 := conv_uintptr (a ! 3), 4 := conv_uintptr (a ! 5),
             5 := conv_uintptr (a ! 6), 6 := conv_uintptr (a ! 7), 7 := conv_uintptr (a ! 8)]),
         impl_floats = (\<lambda>a. zeros8[0 := ucast (Float32bits (a ! 4))]), impl_keep = []\<rparr>
     else
        \<lparr>impl_params = [PWord, PWord, PWord, PWord, PF32, PWord, PWord, PWord, PWord],
            impl_result = False,
         impl_ints = (\<lambda>a. zeros15[0 := conv_uintptr (a ! 0), 1 := conv_uintptr (a ! 1),
             2 := conv_uintptr (a ! 2), 3 := conv_uintptr (a ! 3), 4 := conv_uintptr (a ! 5),
             5 := conv_uintptr (a ! 6), 6 := conv_uintptr (a ! 7), 7 := conv_uintptr (a ! 8)]),
         impl_floats = (\<lambda>a. zeros8[0 := ucast (Float32bits (a ! 4))]), impl_keep = []\<rparr>)"

definition interleaved_9_5 :: "bool \<Rightarrow> fast_impl" where [interleaved_wrappers]:
  "interleaved_9_5 hasReturn =
    (if hasReturn then
        \<lparr>impl_params = [PWord, PWord, PWord, PWord, PWord, PF32, PWord, PWord, PWord],
            impl_result = True,
         impl_ints = (\<lambda>a. zeros15[0 := conv_uintptr (a ! 0), 1 := conv_uintptr (a ! 1),
             2 := conv_uintptr (a ! 2), 3 := conv_uintptr (a ! 3), 4 := conv_uintptr (a ! 4),
             5 := conv_uintptr (a ! 6), 6 := conv_uintptr (a ! 7), 7 := conv_uintptr (a ! 8)]),
         impl_floats = (\<lambda>a. zeros8[0 := ucast (Float32bits (a ! 5))]), impl_keep = []\<rparr>
     else
        \<lparr>impl_params = [PWord, PWord, PWord, PWord, PWord, PF32, PWord, PWord, PWord],
            impl_result = False,
         impl_ints = (\<lambda>a. zeros15[0 := conv_uintptr (a ! 0), 1 := conv_uintptr (a ! 1),
             2 := conv_uintptr (a ! 2), 3 := conv_uintptr (a ! 3), 4 := conv_uintptr (a ! 4),
             5 := conv_uintptr (a ! 6), 6 := conv_uintptr (a ! 7), 7 := conv_uintptr (a ! 8)]),
         impl_floats = (\<lambda>a. zeros8[0 := ucast (Float32bits (a ! 5))]), impl_keep = []\<rparr>)"

definition interleaved_9_6 :: "bool \<Rightarrow> fast_impl" where [interleaved_wrappers]:
  "interleaved_9_6 hasReturn =
    (if hasReturn then
        \<lparr>impl_params = [PWord, PWord, PWord, PWord, PWord, PWord, PF32, PWord, PWord],
            impl_result = True,
         impl_ints = (\<lambda>a. zeros15[0 := conv_uintptr (a ! 0), 1 := conv_uintptr (a ! 1),
             2 := conv_uintptr (a ! 2), 3 := conv_uintptr (a ! 3), 4 := conv_uintptr (a ! 4),
             5 := conv_uintptr (a ! 5), 6 := conv_uintptr (a ! 7), 7 := conv_uintptr (a ! 8)]),
         impl_floats = (\<lambda>a. zeros8[0 := ucast (Float32bits (a ! 6))]), impl_keep = []\<rparr>
     else
        \<lparr>impl_params = [PWord, PWord, PWord, PWord, PWord, PWord, PF32, PWord, PWord],
            impl_result = False,
         impl_ints = (\<lambda>a. zeros15[0 := conv_uintptr (a ! 0), 1 := conv_uintptr (a ! 1),
             2 := conv_uintptr (a ! 2), 3 := conv_uintptr (a ! 3), 4 := conv_uintptr (a ! 4),
             5 := conv_uintptr (a ! 5), 6 := conv_uintptr (a ! 7), 7 := conv_uintptr (a ! 8)]),
         impl_floats = (\<lambda>a. zeros8[0 := ucast (Float32bits (a ! 6))]), impl_keep = []\<rparr>)"

definition interleaved_9_7 :: "bool \<Rightarrow> fast_impl" where [interleaved_wrappers]:
  "interleaved_9_7 hasReturn =
    (if hasReturn then
        \<lparr>impl_params = [PWord, PWord, PWord, PWord, PWord, PWord, PWord, PF32, PWord],
            impl_result = True,
         impl_ints = (\<lambda>a. zeros15[0 := conv_uintptr (a ! 0), 1 := conv_uintptr (a ! 1),
             2 := conv_uintptr (a ! 2), 3 := conv_uintptr (a ! 3), 4 := conv_uintptr (a ! 4),
             5 := conv_uintptr (a ! 5), 6 := conv_uintptr (a ! 6), 7 := conv_uintptr (a ! 8)]),
         impl_floats = (\<lambda>a. zeros8[0 := ucast (Float32bits (a ! 7))]), impl_keep = []\<rparr>
     else
        \<lparr>impl_params = [PWord, PWord, PWord, PWord, PWord, PWord, PWord, PF32, PWord],
            impl_result = False,
         impl_ints = (\<lambda>a. zeros15[0 := conv_uintptr (a ! 0), 1 := conv_uintptr (a ! 1),
             2 := conv_uintptr (a ! 2), 3 := conv_uintptr (a ! 3), 4 := conv_uintptr (a ! 4),
             5 := conv_uintptr (a ! 5), 6 := conv_uintptr (a ! 6), 7 := conv_uintptr (a ! 8)]),
         impl_floats = (\<lambda>a. zeros8[0 := ucast (Float32bits (a ! 7))]), impl_keep = []\<rparr>)"

definition interleaved_9 :: "nat \<Rightarrow> bool \<Rightarrow> fast_impl option" where
  "interleaved_9 floatPos hasReturn =
    (if floatPos = 0 then Some (interleaved_9_0 hasReturn)
     else if floatPos = 1 then Some (interleaved_9_1 hasReturn)
     else if floatPos = 2 then Some (interleaved_9_2 hasReturn)
     else if floatPos = 3 then Some (interleaved_9_3 hasReturn)
     else if floatPos = 4 then Some (interleaved_9_4 hasReturn)
     else if floatPos = 5 then Some (interleaved_9_5 hasReturn)
     else if floatPos = 6 then Some (interleaved_9_6 hasReturn)
     else if floatPos = 7 then Some (interleaved_9_7 hasReturn)
     else None)"

definition interleaved_10_0 :: "bool \<Rightarrow> fast_impl" where [interleaved_wrappers]:
  "interleaved_10_0 hasReturn =
    (if hasReturn then
        \<lparr>impl_params = [PF32, PWord, PWord, PWord, PWord, PWord, PWord, PWord, PWord, PWord],
            impl_result = True,
         impl_ints = (\<lambda>a. zeros15[0 := conv_uintptr (a ! 1), 1 := conv_uintptr (a ! 2),
             2 := conv_uintptr (a ! 3), 3 := conv_uintptr (a ! 4), 4 := conv_uintptr (a ! 5),
             5 := conv_uintptr (a ! 6), 6 := conv_uintptr (a ! 7), 7 := conv_uintptr (a ! 8),
             8 := conv_uintptr (a ! 9)]),
         impl_floats = (\<lambda>a. zeros8[0 := ucast (Float32bits (a ! 0))]), impl_keep = []\<rparr>
     else
        \<lparr>impl_params = [PF32, PWord, PWord, PWord, PWord, PWord, PWord, PWord, PWord, PWord],
            impl_result = False,
         impl_ints = (\<lambda>a. zeros15[0 := conv_uintptr (a ! 1), 1 := conv_uintptr (a ! 2),
             2 := conv_uintptr (a ! 3), 3 := conv_uintptr (a ! 4), 4 := conv_uintptr (a ! 5),
             5 := conv_uintptr (a ! 6), 6 := conv_uintptr (a ! 7), 7 := conv_uintptr (a ! 8),
             8 := conv_uintptr (a ! 9)]),
         impl_floats = (\<lambda>a. zeros8[0 := ucast (Float32bits (a ! 0))]), impl_keep = []\<rparr>)"

definition interleaved_10_1 :: "bool \<Rightarrow> fast_impl" where [interleaved_wrappers]:
  "interleaved_10_1 hasReturn =
    (if hasReturn then
        \<lparr>impl_params = [PWord, PF32, PWord, PWord, PWord, PWord, PWord, PWord, PWord, PWord],
            impl_result = True,
         impl_ints = (\<lambda>a. zeros15[0 := conv_uintptr (a ! 0), 1 := conv_uintptr (a ! 2),
             2 := conv_uintptr (a ! 3), 3 := conv_uintptr (a ! 4), 4 := conv_uintptr (a ! 5),
             5 := conv_uintptr (a ! 6), 6 := conv_uintptr (a ! 7), 7 := conv_uintptr (a ! 8),
             8 := conv_uintptr (a ! 9)]),
         impl_floats = (\<lambda>a. zeros8[0 := ucast (Float32bits (a ! 1))]), impl_keep = []\<rparr>
     else
        \<lparr>impl_params = [PWord, PF32, PWord, PWord, PWord, PWord, PWord, PWord, PWord, PWord],
            impl_result = False,
         impl_ints = (\<lambda>a. zeros15[0 := conv_uintptr (a ! 0), 1 := conv_uintptr (a ! 2),
             2 := conv_uintptr (a ! 3), 3 := conv_uintptr (a ! 4), 4 := conv_uintptr (a ! 5),
             5 := conv_uintptr (a ! 6), 6 := conv_uintptr (a ! 7), 7 := conv_uintptr (a ! 8),
             8 := conv_uintptr (a ! 9)]),
         impl_floats = (\<lambda>a. zeros8[0 := ucast (Float32bits (a ! 1))]), impl_keep = []\<rparr>)"

definition interleaved_10_2 :: "bool \<Rightarrow> fast_impl" where [interleaved_wrappers]:
  "interleaved_10_2 hasReturn =
    (if hasReturn then
        \<lparr>impl_params = [PWord, PWord, PF32, PWord, PWord, PWord, PWord, PWord, PWord, PWord],
            impl_result = True,
         impl_ints = (\<lambda>a. zeros15[0 := conv_uintptr (a ! 0), 1 := conv_uintptr (a ! 1),
             2 := conv_uintptr (a ! 3), 3 := conv_uintptr (a ! 4), 4 := conv_uintptr (a ! 5),
             5 := conv_uintptr (a ! 6), 6 := conv_uintptr (a ! 7), 7 := conv_uintptr (a ! 8),
             8 := conv_uintptr (a ! 9)]),
         impl_floats = (\<lambda>a. zeros8[0 := ucast (Float32bits (a ! 2))]), impl_keep = []\<rparr>
     else
        \<lparr>impl_params = [PWord, PWord, PF32, PWord, PWord, PWord, PWord, PWord, PWord, PWord],
            impl_result = False,
         impl_ints = (\<lambda>a. zeros15[0 := conv_uintptr (a ! 0), 1 := conv_uintptr (a ! 1),
             2 := conv_uintptr (a ! 3), 3 := conv_uintptr (a ! 4), 4 := conv_uintptr (a ! 5),
             5 := conv_uintptr (a ! 6), 6 := conv_uintptr (a ! 7), 7 := conv_uintptr (a ! 8),
             8 := conv_uintptr (a ! 9)]),
         impl_floats = (\<lambda>a. zeros8[0 := ucast (Float32bits (a ! 2))]), impl_keep = []\<rparr>)"

definition interleaved_10_3 :: "bool \<Rightarrow> fast_impl" where [interleaved_wrappers]:
  "interleaved_10_3 hasReturn =
    (if hasReturn then
        \<lparr>impl_params = [PWord, PWord, PWord, PF32, PWord, PWord, PWord, PWord, PWord, PWord],
            impl_result = True,
         impl_ints = (\<lambda>a. zeros15[0 := conv_uintptr (a ! 0), 1 := conv_uintptr (a ! 1),
             2 := conv_uintptr (a ! 2), 3 := conv_uintptr (a ! 4), 4 := conv_uintptr (a ! 5),
             5 := conv_uintptr (a ! 6), 6 := conv_uintptr (a ! 7), 7 := conv_uintptr (a ! 8),
             8 := conv_uintptr (a ! 9)]),
         impl_floats = (\<lambda>a. zeros8[0 := ucast (Float32bits (a ! 3))]), impl_keep = []\<rparr>
     else
        \<lparr>impl_params = [PWord, PWord, PWord, PF32, PWord, PWord, PWord, PWord, PWord, PWord],
            impl_result = False,
         impl_ints = (\<lambda>a. zeros15[0 := conv_uintptr (a ! 0), 1 := conv_uintptr (a ! 1),
             2 := conv_uintptr (a ! 2), 3 := conv_uintptr (a ! 4), 4 := conv_uintptr (a ! 5),
             5 := conv_uintptr (a ! 6), 6 := conv_uintptr (a ! 7), 7 := conv_uintptr (a ! 8),
             8 := conv_uintptr (a ! 9)]),
         impl_floats = (\<lambda>a. zeros8[0 := ucast (Float32bits (a ! 3))]), impl_keep = []\<rparr>)"

definition interleaved_10_4 :: "bool \<Rightarrow> fast_impl" where [interleaved_wrappers]:
  "interleaved_10_4 hasReturn =
    (if hasReturn then
        \<lparr>impl_params = [PWord, PWord, PWord, PWord, PF32, PWord, PWord, PWord, PWord, PWord],
            impl_result = True,
         impl_ints = (\<lambda>a. zeros15[0 := conv_uintptr (a ! 0), 1 := conv_uintptr (a ! 1),
             2 := conv_uintptr (a ! 2), 3 := conv_uintptr (a ! 3), 4 := conv_uintptr (a ! 5),
             5 := conv_uintptr (a ! 6), 6 := conv_uintptr (a ! 7), 7 := conv_uintptr (a ! 8),
             8 := conv_uintptr (a ! 9)]),
         impl_floats = (\<lambda>a. zeros8[0 := ucast (Float32bits (a ! 4))]), impl_keep = []\<rparr>
     else
        \<lparr>impl_params = [PWord, PWord, PWord, PWord, PF32, PWord, PWord, PWord, PWord, PWord],
            impl_result = False,
         impl_ints = (\<lambda>a. zeros15[0 := conv_uintptr (a ! 0), 1 := conv_uintptr (a ! 1),
             2 := conv_uintptr (a ! 2), 3 := conv_uintptr (a ! 3), 4 := conv_uintptr (a ! 5),
             5 := conv_uintptr (a ! 6), 6 := conv_uintptr (a ! 7), 7 := conv_uintptr (a ! 8),
             8 := conv_uintptr (a ! 9)]),
         impl_floats = (\<lambda>a. zeros8[0 := ucast (Float32bits (a ! 4))]), impl_keep = []\<rparr>)"

definition interleaved_10_5 :: "bool \<Rightarrow> fast_impl" where [interleaved_wrappers]:
  "interleaved_10_5 hasReturn =
    (if hasReturn then
        \<lparr>impl_params = [PWord, PWord, PWord, PWord, PWord, PF32, PWord, PWord, PWord, PWord],
            impl_result = True,
         impl_ints = (\<lambda>a. zeros15[0 := conv_uintptr (a ! 0), 1 := conv_uintptr (a ! 1),
             2 := conv_uintptr (a ! 2), 3 := conv_uintptr (a ! 3), 4 := conv_uintptr (a ! 4),
             5 := conv_uintptr (a ! 6), 6 := conv_uintptr (a ! 7), 7 := conv_uintptr (a ! 8),
             8 := conv_uintptr (a ! 9)]),
         impl_floats = (\<lambda>a. zeros8[0 := ucast (Float32bits (a ! 5))]), impl_keep = []\<rparr>
     else
        \<lparr>impl_params = [PWord, PWord, PWord, PWord, PWord, PF32, PWord, PWord, PWord, PWord],
            impl_result = False,
         impl_ints = (\<lambda>a. zeros15[0 := conv_uintptr (a ! 0), 1 := conv_uintptr (a ! 1),
             2 := conv_uintptr (a ! 2), 3 := conv_uintptr (a ! 3), 4 := conv_uintptr (a ! 4),
             5 := conv_uintptr (a ! 6), 6 := conv_uintptr (a ! 7), 7 := conv_uintptr (a ! 8),
             8 := conv_uintptr (a ! 9)]),
         impl_floats = (\<lambda>a. zeros8[0 := ucast (Float32bits (a ! 5))]), impl_keep = []\<rparr>)"

definition interleaved_10_6 :: "bool \<Rightarrow> fast_impl" where [interleaved_wrappers]:
  "interleaved_10_6 hasReturn =
    (if hasReturn then
        \<lparr>impl_params = [PWord, PWord, PWord, PWord, PWord, PWord, PF32, PWord, PWord, PWord],
            impl_result = True,
         impl_ints = (\<lambda>a. zeros15[0 := conv_uintptr (a ! 0), 1 := conv_uintptr (a ! 1),
             2 := conv_uintptr (a ! 2), 3 := conv_uintptr (a ! 3), 4 := conv_uintptr (a ! 4),
             5 := conv_uintptr (a ! 5), 6 := conv_uintptr (a ! 7), 7 := conv_uintptr (a ! 8),
             8 := conv_uintptr (a ! 9)]),
         impl_floats = (\<lambda>a. zeros8[0 := ucast (Float32bits (a ! 6))]), impl_keep = []\<rparr>
     else
        \<lparr>impl_params = [PWord, PWord, PWord, PWord, PWord, PWord, PF32, PWord, PWord, PWord],
            impl_result = False,
         impl_ints = (\<lambda>a. zeros15[0 := conv_uintptr (a ! 0), 1 := conv_uintptr (a ! 1),
             2 := conv_uintptr (a ! 2), 3 := conv_uintptr (a ! 3), 4 := conv_uintptr (a ! 4),
             5 := conv_uintptr (a ! 5), 6 := conv_uintptr (a ! 7), 7 := conv_uintptr (a ! 8),
             8 := conv_uintptr (a ! 9)]),
         impl_floats = (\<lambda>a. zeros8[0 := ucast (Float32bits (a ! 6))]), impl_keep = []\<rparr>)"

definition interleaved_10_7 :: "bool \<Rightarrow> fast_impl" where [interleaved_wrappers]:
  "interleaved_10_7 hasReturn =
    (if hasReturn then
        \<lparr>impl_params = [PWord, PWord, PWord, PWord, PWord, PWord, PWord, PF32, PWord, PWord],
            impl_result = True,
         impl_ints = (\<lambda>a. zeros15[0 := conv_uintptr (a ! 0), 1 := conv_uintptr (a ! 1),
             2 := conv_uintptr (a ! 2), 3 := conv_uintptr (a ! 3), 4 := conv_uintptr (a ! 4),
             5 := conv_uintptr (a ! 5), 6 := conv_uintptr (a ! 6), 7 := conv_uintptr (a ! 8),
             8 := conv_uintptr (a ! 9)]),
         impl_floats = (\<lambda>a. zeros8[0 := ucast (Float32bits (a ! 7))]), impl_keep = []\<rparr>
     else
        \<lparr>impl_params = [PWord, PWord, PWord, PWord, PWord, PWord, PWord, PF32, PWord, PWord],
            impl_result = False,
         impl_ints = (\<lambda>a. zeros15[0 := conv_uintptr (a ! 0), 1 := conv_uintptr (a ! 1),
             2 := conv_uintptr (a ! 2), 3 := conv_uintptr (a ! 3), 4 := conv_uintptr (a ! 4),
             5 := conv_uintptr (a ! 5), 6 := conv_uintptr (a ! 6), 7 := conv_uintptr (a ! 8),
             8 := conv_uintptr (a ! 9)]),
         impl_floats = (\<lambda>a. zeros8[0 := ucast (Float32bits (a ! 7))]), impl_keep = []\<rparr>)"

definition interleaved_10_8 :: "bool \<Rightarrow> fast_impl" where [interleaved_wrappers]:
  "interleaved_10_8 hasReturn =
    (if hasReturn then
        \<lparr>impl_params = [PWord, PWord, PWord, PWord, PWord, PWord, PWord, PWord, PF32, PWord],
            impl_result = True,
         impl_ints = (\<lambda>a. zeros15[0 := conv_uintptr (a ! 0), 1 := conv_uintptr (a ! 1),
             2 := conv_uintptr (a ! 2), 3 := conv_uintptr (a ! 3), 4 := conv_uintptr (a ! 4),
             5 := conv_uintptr (a ! 5), 6 := conv_uintptr (a ! 6), 7 := conv_uintptr (a ! 7),
             8 := conv_uintptr (a ! 9)]),
         impl_floats = (\<lambda>a. zeros8[0 := ucast (Float32bits (a ! 8))]), impl_keep = []\<rparr>
     else
        \<lparr>impl_params = [PWord, PWord, PWord, PWord, PWord, PWord, PWord, PWord, PF32, PWord],
            impl_result = False,
         impl_ints = (\<lambda>a. zeros15[0 := conv_uintptr (a ! 0), 1 := conv_uintptr (a ! 1),
             2 := conv_uintptr (a ! 2), 3 := conv_uintptr (a ! 3), 4 := conv_uintptr (a ! 4),
             5 := conv_uintptr (a ! 5), 6 := conv_uintptr (a ! 6), 7 := conv_uintptr (a ! 7),
             8 := conv_uintptr (a ! 9)]),
         impl_floats = (\<lambda>a. zeros8[0 := ucast (Float32bits (a ! 8))]), impl_keep = []\<rparr>)"

definition interleaved_10 :: "nat \<Rightarrow> bool \<Rightarrow> fast_impl option" where
  "interleaved_10 floatPos hasReturn =
    (if floatPos = 0 then Some (interleaved_10_0 hasReturn)
     else if floatPos = 1 then Some (interleaved_10_1 hasReturn)
     else if floatPos = 2 then Some (interleaved_10_2 hasReturn)
     else if floatPos = 3 then Some (interleaved_10_3 hasReturn)
     else if floatPos = 4 then Some (interleaved_10_4 hasReturn)
     else if floatPos = 5 then Some (interleaved_10_5 hasReturn)
     else if floatPos = 6 then Some (interleaved_10_6 hasReturn)
     else if floatPos = 7 then Some (interleaved_10_7 hasReturn)
     else if floatPos = 8 then Some (interleaved_10_8 hasReturn)
     else None)"

definition interleaved_11_0 :: "bool \<Rightarrow> fast_impl" where [interleaved_wrappers]:
  "interleaved_11_0 hasReturn =
    (if hasReturn then
        \<lparr>impl_params = [PF32, PWord, PWord, PWord, PWord, PWord, PWord, PWord, PWord, PWord, PWord],
            impl_result = True,
         impl_ints = (\<lambda>a. zeros15[0 := conv_uintptr (a ! 1), 1 := conv_uintptr (a ! 2),
             2 := conv_uintptr (a ! 3), 3 := conv_uintptr (a ! 4), 4 := conv_uintptr (a ! 5),
             5 := conv_uintptr (a ! 6), 6 := conv_uintptr (a ! 7), 7 := conv_uintptr (a ! 8),
             8 := conv_uintptr (a ! 9), 9 := conv_uintptr (a ! 10)]),
         impl_floats = (\<lambda>a. zeros8[0 := ucast (Float32bits (a ! 0))]), impl_keep = []\<rparr>
     else
        \<lparr>impl_params = [PF32, PWord, PWord, PWord, PWord, PWord, PWord, PWord, PWord, PWord, PWord],
            impl_result = False,
         impl_ints = (\<lambda>a. zeros15[0 := conv_uintptr (a ! 1), 1 := conv_uintptr (a ! 2),
             2 := conv_uintptr (a ! 3), 3 := conv_uintptr (a ! 4), 4 := conv_uintptr (a ! 5),
             5 := conv_uintptr (a ! 6), 6 := conv_uintptr (a ! 7), 7 := conv_uintptr (a ! 8),
             8 := conv_uintptr (a ! 9), 9 := conv_uintptr (a ! 10)]),
         impl_floats = (\<lambda>a. zeros8[0 := ucast (Float32bits (a ! 0))]), impl_keep = []\<rparr>)"

definition interleaved_11_1 :: "bool \<Rightarrow> fast_impl" where [interleaved_wrappers]:
  "interleaved_11_1 hasReturn =
    (if hasReturn then
        \<lparr>impl_params = [PWord, PF32, PWord, PWord, PWord, PWord, PWord, PWord, PWord, PWord, PWord],
            impl_result = True,
         impl_ints = (\<lambda>a. zeros15[0 := conv_uintptr (a ! 0), 1 := conv_uintptr (a ! 2),
             2 := conv_uintptr (a ! 3), 3 := conv_uintptr (a ! 4), 4 := conv_uintptr (a ! 5),
             5 := conv_uintptr (a ! 6), 6 := conv_uintptr (a ! 7), 7 := conv_uintptr (a ! 8),
             8 := conv_uintptr (a ! 9), 9 := conv_uintptr (a ! 10)]),
         impl_floats = (\<lambda>a. zeros8[0 := ucast (Float32bits (a ! 1))]), impl_keep = []\<rparr>
     else
        \<lparr>impl_params = [PWord, PF32, PWord, PWord, PWord, PWord, PWord, PWord, PWord, PWord, PWord],
            impl_result = False,
         impl_ints = (\<lambda>a. zeros15[0 := conv_uintptr (a ! 0), 1 := conv_uintptr (a ! 2),
             2 := conv_uintptr (a ! 3), 3 := conv_uintptr (a ! 4), 4 := conv_uintptr (a ! 5),
             5 := conv_uintptr (a ! 6), 6 := conv_uintptr (a ! 7), 7 := conv_uintptr (a ! 8),
             8 := conv_uintptr (a ! 9), 9 := conv_uintptr (a ! 10)]),
         impl_floats = (\<lambda>a. zeros8[0 := ucast (Float32bits (a ! 1))]), impl_keep = []\<rparr>)"

definition interleaved_11_2 :: "bool \<Rightarrow> fast_impl" where [interleaved_wrappers]:
  "interleaved_11_2 hasReturn =
    (if hasReturn then
        \<lparr>impl_params = [PWord, PWord, PF32, PWord, PWord, PWord, PWord, PWord, PWord, PWord, PWord],
            impl_result = True,
         impl_ints = (\<lambda>a. zeros15[0 := conv_uintptr (a ! 0), 1 := conv_uintptr (a ! 1),
             2 := conv_uintptr (a ! 3), 3 := conv_uintptr (a ! 4), 4 := conv_uintptr (a ! 5),
             5 := conv_uintptr (a ! 6), 6 := conv_uintptr (a ! 7), 7 := conv_uintptr (a ! 8),
             8 := conv_uintptr (a ! 9), 9 := conv_uintptr (a ! 10)]),
         impl_floats = (\<lambda>a. zeros8[0 := ucast (Float32bits (a ! 2))]), impl_keep = []\<rparr>
     else
        \<lparr>impl_params = [PWord, PWord, PF32, PWord, PWord, PWord, PWord, PWord, PWord, PWord, PWord],
            impl_result = False,
         impl_ints = (\<lambda>a. zeros15[0 := conv_uintptr (a ! 0), 1 := conv_uintptr (a ! 1),
             2 := conv_uintptr (a ! 3), 3 := conv_uintptr (a ! 4), 4 := conv_uintptr (a ! 5),
             5 := conv_uintptr (a ! 6), 6 := conv_uintptr (a ! 7), 7 := conv_uintptr (a ! 8),
             8 := conv_uintptr (a ! 9), 9 := conv_uintptr (a ! 10)]),
         impl_floats = (\<lambda>a. zeros8[0 := ucast (Float32bits (a ! 2))]), impl_keep = []\<rparr>)"

definition interleaved_11_3 :: "bool \<Rightarrow> fast_impl" where [interleaved_wrappers]:
  "interleaved_11_3 hasReturn =
    (if hasReturn then
        \<lparr>impl_params = [PWord, PWord, PWord, PF32, PWord, PWord, PWord, PWord, PWord, PWord, PWord],
            impl_result = True,
         impl_ints = (\<lambda>a. zeros15[0 := conv_uintptr (a ! 0), 1 := conv_uintptr (a ! 1),
             2 := conv_uintptr (a ! 2), 3 := conv_uintptr (a ! 4), 4 := conv_uintptr (a ! 5),
             5 := conv_uintptr (a ! 6), 6 := conv_uintptr (a ! 7), 7 := conv_uintptr (a ! 8),
             8 := conv_uintptr (a ! 9), 9 := conv_uintptr (a ! 10)]),
         impl_floats = (\<lambda>a. zeros8[0 := ucast (Float32bits (a ! 3))]), impl_keep = []\<rparr>
     else
        \<lparr>impl_params = [PWord, PWord, PWord, PF32, PWord, PWord, PWord, PWord, PWord, PWord, PWord],
            impl_result = False,
         impl_ints = (\<lambda>a. zeros15[0 := conv_uintptr (a ! 0), 1 := conv_uintptr (a ! 1),
             2 := conv_uintptr (a ! 2), 3 := conv_uintptr (a ! 4), 4 := conv_uintptr (a ! 5),
             5 := conv_uintptr (a ! 6), 6 := conv_uintptr (a ! 7), 7 := conv_uintptr (a ! 8),
             8 := conv_uintptr (a ! 9), 9 := conv_uintptr (a ! 10)]),
         impl_floats = (\<lambda>a. zeros8[0 := ucast (Float32bits (a ! 3))]), impl_keep = []\<rparr>)"

definition interleaved_11_4 :: "bool \<Rightarrow> fast_impl" where [interleaved_wrappers]:
  "interleaved_11_4 hasReturn =
    (if hasReturn then
        \<lparr>impl_params = [PWord, PWord, PWord, PWord, PF32, PWord, PWord, PWord, PWord, PWord, PWord],
            impl_result = True,
         impl_ints = (\<lambda>a. zeros15[0 := conv_uintptr (a ! 0), 1 := conv_uintptr (a ! 1),
             2 := conv_uintptr (a ! 2), 3 := conv_uintptr (a ! 3), 4 := conv_uintptr (a ! 5),
             5 := conv_uintptr (a ! 6), 6 := conv_uintptr (a ! 7), 7 := conv_uintptr (a ! 8),
             8 := conv_uintptr (a ! 9), 9 := conv_uintptr (a ! 10)]),
         impl_floats = (\<lambda>a. zeros8[0 := ucast (Float32bits (a ! 4))]), impl_keep = []\<rparr>
     else
        \<lparr>impl_params = [PWord, PWord, PWord, PWord, PF32, PWord, PWord, PWord, PWord, PWord, PWord],
            impl_result = False,
         impl_ints = (\<lambda>a. zeros15[0 := conv_uintptr (a ! 0), 1 := conv_uintptr (a ! 1),
             2 := conv_uintptr (a ! 2), 3 := conv_uintptr (a ! 3), 4 := conv_uintptr (a ! 5),
             5 := conv_uintptr (a ! 6), 6 := conv_uintptr (a ! 7), 7 := conv_uintptr (a ! 8),
             8 := conv_uintptr (a ! 9), 9 := conv_uintptr (a ! 10)]),
         impl_floats = (\<lambda>a. zeros8[0 := ucast (Float32bits (a ! 4))]), impl_keep = []\<rparr>)"

definition interleaved_11_5 :: "bool \<Rightarrow> fast_impl" where [interleaved_wrappers]:
  "interleaved_11_5 hasReturn =
    (if hasReturn then
        \<lparr>impl_params = [PWord, PWord, PWord, PWord, PWord, PF32, PWord, PWord, PWord, PWord, PWord],
            impl_result = True,
         impl_ints = (\<lambda>a. zeros15[0 := conv_uintptr (a ! 0), 1 := conv_uintptr (a ! 1),
             2 := conv_uintptr (a ! 2), 3 := conv_uintptr (a ! 3), 4 := conv_uintptr (a ! 4),
             5 := conv_uintptr (a ! 6), 6 := conv_uintptr (a ! 7), 7 := conv_uintptr (a ! 8),
             8 := conv_uintptr (a ! 9), 9 := conv_uintptr (a ! 10)]),
         impl_floats = (\<lambda>a. zeros8[0 := ucast (Float32bits (a ! 5))]), impl_keep = []\<rparr>
     else
        \<lparr>impl_params = [PWord, PWord, PWord, PWord, PWord, PF32, PWord, PWord, PWord, PWord, PWord],
            impl_result = False,
         impl_ints = (\<lambda>a. zeros15[0 := conv_uintptr (a ! 0), 1 := conv_uintptr (a ! 1),
             2 := conv_uintptr (a ! 2), 3 := conv_uintptr (a ! 3), 4 := conv_uintptr (a ! 4),
             5 := conv_uintptr (a ! 6), 6 := conv_uintptr (a ! 7), 7 := conv_uintptr (a ! 8),
             8 := conv_uintptr (a ! 9), 9 := conv_uintptr (a ! 10)]),
         impl_floats = (\<lambda>a. zeros8[0 := ucast (Float32bits (a ! 5))]), impl_keep = []\<rparr>)"

definition interleaved_11_6 :: "bool \<Rightarrow> fast_impl" where [interleaved_wrappers]:
  "interleaved_11_6 hasReturn =
    (if hasReturn then
        \<lparr>impl_params = [PWord, PWord, PWord, PWord, PWord, PWord, PF32, PWord, PWord, PWord, PWord],
            impl_result = True,
         impl_ints = (\<lambda>a. zeros15[0 := conv_uintptr (a ! 0), 1 := conv_uintptr (a ! 1),
             2 := conv_uintptr (a ! 2), 3 := conv_uintptr (a ! 3), 4 := conv_uintptr (a ! 4),
             5 := conv_uintptr (a ! 5), 6 := conv_uintptr (a ! 7), 7 := conv_uintptr (a ! 8),
             8 := conv_uintptr (a ! 9), 9 := conv_uintptr (a ! 10)]),
         impl_floats = (\<lambda>a. zeros8[0 := ucast (Float32bits (a ! 6))]), impl_keep = []\<rparr>
     else
        \<lparr>impl_params = [PWord, PWord, PWord, PWord, PWord, PWord, PF32, PWord, PWord, PWord, PWord],
            impl_result = False,
         impl_ints = (\<lambda>a. zeros15[0 := conv_uintptr (a ! 0), 1 := conv_uintptr (a ! 1),
             2 := conv_uintptr (a ! 2), 3 := conv_uintptr (a ! 3), 4 := conv_uintptr (a ! 4),
             5 := conv_uintptr (a ! 5), 6 := conv_uintptr (a ! 7), 7 := conv_uintptr (a ! 8),
             8 := conv_uintptr (a ! 9), 9 := conv_uintptr (a ! 10)]),
         impl_floats = (\<lambda>a. zeros8[0 := ucast (Float32bits (a ! 6))]), impl_keep = []\<rparr>)"

definition interleaved_11_7 :: "bool \<Rightarrow> fast_impl" where [interleaved_wrappers]:
  "interleaved_11_7 hasReturn =
    (if hasReturn then
        \<lparr>impl_params = [PWord, PWord, PWord, PWord, PWord, PWord, PWord, PF32, PWord, PWord, PWord],
            impl_result = True,
         impl_ints = (\<lambda>a. zeros15[0 := conv_uintptr (a ! 0), 1 := conv_uintptr (a ! 1),
             2 := conv_uintptr (a ! 2), 3 := conv_uintptr (a ! 3), 4 := conv_uintptr (a ! 4),
             5 := conv_uintptr (a ! 5), 6 := conv_uintptr (a ! 6), 7 := conv_uintptr (a ! 8),
             8 := conv_uintptr (a ! 9), 9 := conv_uintptr (a ! 10)]),
         impl_floats = (\<lambda>a. zeros8[0 := ucast (Float32bits (a ! 7))]), impl_keep = []\<rparr>
     else
        \<lparr>impl_params = [PWord, PWord, PWord, PWord, PWord, PWord, PWord, PF32, PWord, PWord, PWord],
            impl_result = False,
         impl_ints = (\<lambda>a. zeros15[0 := conv_uintptr (a ! 0), 1 := conv_uintptr (a ! 1),
             2 := conv_uintptr (a ! 2), 3 := conv_uintptr (a ! 3), 4 := conv_uintptr (a ! 4),
             5 := conv_uintptr (a ! 5), 6 := conv_uintptr (a ! 6), 7 := conv_uintptr (a ! 8),
             8 := conv_uintptr (a ! 9), 9 := conv_uintptr (a ! 10)]),
         impl_floats = (\<lambda>a. zeros8[0 := ucast (Float32bits (a ! 7))]), impl_keep = []\<rparr>)"

definition interleaved_11_8 :: "bool \<Rightarrow> fast_impl" where [interleaved_wrappers]:
  "interleaved_11_8 hasReturn =
    (if hasReturn then
        \<lparr>impl_params = [PWord, PWord, PWord, PWord, PWord, PWord, PWord, PWord, PF32, PWord, PWord],
            impl_result = True,
         impl_ints = (\<lambda>a. zeros15[0 := conv_uintptr (a ! 0), 1 := conv_uintptr (a ! 1),
             2 := conv_uintptr (a ! 2), 3 := conv_uintptr (a ! 3), 4 := conv_uintptr (a ! 4),
             5 := conv_uintptr (a ! 5), 6 := conv_uintptr (a ! 6), 7 := conv_uintptr (a ! 7),
             8 := conv_uintptr (a ! 9), 9 := conv_uintptr (a ! 10)]),
         impl_floats = (\<lambda>a. zeros8[0 := ucast (Float32bits (a ! 8))]), impl_keep = []\<rparr>
     else
        \<lparr>impl_params = [PWord, PWord, PWord, PWord, PWord, PWord, PWord, PWord, PF32, PWord, PWord],
            impl_result = False,
         impl_ints = (\<lambda>a. zeros15[0 := conv_uintptr (a ! 0), 1 := conv_uintptr (a ! 1),
             2 := conv_uintptr (a ! 2), 3 := conv_uintptr (a ! 3), 4 := conv_uintptr (a ! 4),
             5 := conv_uintptr (a ! 5), 6 := conv_uintptr (a ! 6), 7 := conv_uintptr (a ! 7),
             8 := conv_uintptr (a ! 9), 9 := conv_uintptr (a ! 10)]),
         impl_floats = (\<lambda>a. zeros8[0 := ucast (Float32bits (a ! 8))]), impl_keep = []\<rparr>)"

definition interleaved_11_9 :: "bool \<Rightarrow> fast_impl" where [interleaved_wrappers]:
  "interleaved_11_9 hasReturn =
    (if hasReturn then
        \<lparr>impl_params = [PWord, PWord, PWord, PWord, PWord, PWord, PWord, PWord, PWord, PF32, PWord],
            impl_result = True,
         impl_ints = (\<lambda>a. zeros15[0 := conv_uintptr (a ! 0), 1 := conv_uintptr (a ! 1),
             2 := conv_uintptr (a ! 2), 3 := conv_uintptr (a ! 3), 4 := conv_uintptr (a ! 4),
             5 := conv_uintptr (a ! 5), 6 := conv_uintptr (a ! 6), 7 := conv_uintptr (a ! 7),
             8 := conv_uintptr (a ! 8), 9 := conv_uintptr (a ! 10)]),
         impl_floats = (\<lambda>a. zeros8[0 := ucast (Float32bits (a ! 9))]), impl_keep = []\<rparr>
     else
        \<lparr>impl_params = [PWord, PWord, PWord, PWord, PWord, PWord, PWord, PWord, PWord, PF32, PWord],
            impl_result = False,
         impl_ints = (\<lambda>a. zeros15[0 := conv_uintptr (a ! 0), 1 := conv_uintptr (a ! 1),
             2 := conv_uintptr (a ! 2), 3 := conv_uintptr (a ! 3), 4 := conv_uintptr (a ! 4),
             5 := conv_uintptr (a ! 5), 6 := conv_uintptr (a ! 6), 7 := conv_uintptr (a ! 7),
             8 := conv_uintptr (a ! 8), 9 := conv_uintptr (a ! 10)]),
         impl_floats = (\<lambda>a. zeros8[0 := ucast (Float32bits (a ! 9))]), impl_keep = []\<rparr>)"

definition interleaved_11 :: "nat \<Rightarrow> bool \<Rightarrow> fast_impl option" where
  "interleaved_11 floatPos hasReturn =
    (if floatPos = 0 then Some (interleaved_11_0 hasReturn)
     else if floatPos = 1 then Some (interleaved_11_1 hasReturn)
     else if floatPos = 2 then Some (interleaved_11_2 hasReturn)
     else if floatPos = 3 then Some (interleaved_11_3 hasReturn)
     else if floatPos = 4 then Some (interleaved_11_4 hasReturn)
     else if floatPos = 5 then Some (interleaved_11_5 hasReturn)
     else if floatPos = 6 then Some (interleaved_11_6 hasReturn)
     else if floatPos = 7 then Some (interleaved_11_7 hasReturn)
     else if floatPos = 8 then Some (interleaved_11_8 hasReturn)
     else if floatPos = 9 then Some (interleaved_11_9 hasReturn)
     else None)"

definition interleaved_12_0 :: "bool \<Rightarrow> fast_impl" where [interleaved_wrappers]:
  "interleaved_12_0 hasReturn =
    (if hasReturn then
        \<lparr>impl_params = [PF32, PWord, PWord, PWord, PWord, PWord, PWord, PWord, PWord, PWord, PWord,
            PWord], impl_result = True,
         impl_ints = (\<lambda>a. zeros15[0 := conv_uintptr (a ! 1), 1 := conv_uintptr (a ! 2),
             2 := conv_uintptr (a ! 3), 3 := conv_uintptr (a ! 4), 4 := conv_uintptr (a ! 5),
             5 := conv_uintptr (a ! 6), 6 := conv_uintptr (a ! 7), 7 := conv_uintptr (a ! 8),
             8 := conv_uintptr (a ! 9), 9 := conv_uintptr (a ! 10), 10 := conv_uintptr (a ! 11)]),
         impl_floats = (\<lambda>a. zeros8[0 := ucast (Float32bits (a ! 0))]), impl_keep = []\<rparr>
     else
        \<lparr>impl_params = [PF32, PWord, PWord, PWord, PWord, PWord, PWord, PWord, PWord, PWord, PWord,
            PWord], impl_result = False,
         impl_ints = (\<lambda>a. zeros15[0 := conv_uintptr (a ! 1), 1 := conv_uintptr (a ! 2),
             2 := conv_uintptr (a ! 3), 3 := conv_uintptr (a ! 4), 4 := conv_uintptr (a ! 5),
             5 := conv_uintptr (a ! 6), 6 := conv_uintptr (a ! 7), 7 := conv_uintptr (a ! 8),
             8 := conv_uintptr (a ! 9), 9 := conv_uintptr (a ! 10), 10 := conv_uintptr (a ! 11)]),
         impl_floats = (\<lambda>a. zeros8[0 := ucast (Float32bits (a ! 0))]), impl_keep = []\<rparr>)"

definition interleaved_12_1 :: "bool \<Rightarrow> fast_impl" where [interleaved_wrappers]:
  "interleaved_12_1 hasReturn =
    (if hasReturn then
        \<lparr>impl_params = [PWord, PF32, PWord, PWord, PWord, PWord, PWord, PWord, PWord, PWord, PWord,
            PWord], impl_result = True,
         impl_ints = (\<lambda>a. zeros15[0 := conv_uintptr (a ! 0), 1 := conv_uintptr (a ! 2),
             2 := conv_uintptr (a ! 3), 3 := conv_uintptr (a ! 4), 4 := conv_uintptr (a ! 5),
             5 := conv_uintptr (a ! 6), 6 := conv_uintptr (a ! 7), 7 := conv_uintptr (a ! 8),
             8 := conv_uintptr (a ! 9), 9 := conv_uintptr (a ! 10), 10 := conv_uintptr (a ! 11)]),
         impl_floats = (\<lambda>a. zeros8[0 := ucast (Float32bits (a ! 1))]), impl_keep = []\<rparr>
     else
        \<lparr>impl_params = [PWord, PF32, PWord, PWord, PWord, PWord, PWord, PWord, PWord, PWord, PWord,
            PWord], impl_result = False,
         impl_ints = (\<lambda>a. zeros15[0 := conv_uintptr (a ! 0), 1 := conv_uintptr (a ! 2),
             2 := conv_uintptr (a ! 3), 3 := conv_uintptr (a ! 4), 4 := conv_uintptr (a ! 5),
             5 := conv_uintptr (a ! 6), 6 := conv_uintptr (a ! 7), 7 := conv_uintptr (a ! 8),
             8 := conv_uintptr (a ! 9), 9 := conv_uintptr (a ! 10), 10 := conv_uintptr (a ! 11)]),
         impl_floats = (\<lambda>a. zeros8[0 := ucast (Float32bits (a ! 1))]), impl_keep = []\<rparr>)"

definition interleaved_12_2 :: "bool \<Rightarrow> fast_impl" where [interleaved_wrappers]:
  "interleaved_12_2 hasReturn =
    (if hasReturn then
        \<lparr>impl_params = [PWord, PWord, PF32, PWord, PWord, PWord, PWord, PWord, PWord, PWord, PWord,
            PWord], impl_result = True,
         impl_ints = (\<lambda>a. zeros15[0 := conv_uintptr (a ! 0), 1 := conv_uintptr (a ! 1),
             2 := conv_uintptr (a ! 3), 3 := conv_uintptr (a ! 4), 4 := conv_uintptr (a ! 5),
             5 := conv_uintptr (a ! 6), 6 := conv_uintptr (a ! 7), 7 := conv_uintptr (a ! 8),
             8 := conv_uintptr (a ! 9), 9 := conv_uintptr (a ! 10), 10 := conv_uintptr (a ! 11)]),
         impl_floats = (\<lambda>a. zeros8[0 := ucast (Float32bits (a ! 2))]), impl_keep = []\<rparr>
     else
        \<lparr>impl_params = [PWord, PWord, PF32, PWord, PWord, PWord, PWord, PWord, PWord, PWord, PWord,
            PWord], impl_result = False,
         impl_ints = (\<lambda>a. zeros15[0 := conv_uintptr (a ! 0), 1 := conv_uintptr (a ! 1),
             2 := conv_uintptr (a ! 3), 3 := conv_uintptr (a ! 4), 4 := conv_uintptr (a ! 5),
             5 := conv_uintptr (a ! 6), 6 := conv_uintptr (a ! 7), 7 := conv_uintptr (a ! 8),
             8 := conv_uintptr (a ! 9), 9 := conv_uintptr (a ! 10), 10 := conv_uintptr (a ! 11)]),
         impl_floats = (\<lambda>a. zeros8[0 := ucast (Float32bits (a ! 2))]), impl_keep = []\<rparr>)"

definition interleaved_12_3 :: "bool \<Rightarrow> fast_impl" where [interleaved_wrappers]:
  "interleaved_12_3 hasReturn =
    (if hasReturn then
        \<lparr>impl_params = [PWord, PWord, PWord, PF32, PWord, PWord, PWord, PWord, PWord, PWord, PWord,
            PWord], impl_result = True,
         impl_ints = (\<lambda>a. zeros15[0 := conv_uintptr (a ! 0), 1 := conv_uintptr (a ! 1),
             2 := conv_uintptr (a ! 2), 3 := conv_uintptr (a ! 4), 4 := conv_uintptr (a ! 5),
             5 := conv_uintptr (a ! 6), 6 := conv_uintptr (a ! 7), 7 := conv_uintptr (a ! 8),
             8 := conv_uintptr (a ! 9), 9 := conv_uintptr (a ! 10), 10 := conv_uintptr (a ! 11)]),
         impl_floats = (\<lambda>a. zeros8[0 := ucast (Float32bits (a ! 3))]), impl_keep = []\<rparr>
     else
        \<lparr>impl_params = [PWord, PWord, PWord, PF32, PWord, PWord, PWord, PWord, PWord, PWord, PWord,
            PWord], impl_result = False,
         impl_ints = (\<lambda>a. zeros15[0 := conv_uintptr (a ! 0), 1 := conv_uintptr (a ! 1),
             2 := conv_uintptr (a ! 2), 3 := conv_uintptr (a ! 4), 4 := conv_uintptr (a ! 5),
             5 := conv_uintptr (a ! 6), 6 := conv_uintptr (a ! 7), 7 := conv_uintptr (a ! 8),
             8 := conv_uintptr (a ! 9), 9 := conv_uintptr (a ! 10), 10 := conv_uintptr (a ! 11)]),
         impl_floats = (\<lambda>a. zeros8[0 := ucast (Float32bits (a ! 3))]), impl_keep = []\<rparr>)"

definition interleaved_12_4 :: "bool \<Rightarrow> fast_impl" where [interleaved_wrappers]:
  "interleaved_12_4 hasReturn =
    (if hasReturn then
        \<lparr>impl_params = [PWord, PWord, PWord, PWord, PF32, PWord, PWord, PWord, PWord, PWord, PWord,
            PWord], impl_result = True,
         impl_ints = (\<lambda>a. zeros15[0 := conv_uintptr (a ! 0), 1 := conv_uintptr (a ! 1),
             2 := conv_uintptr (a ! 2), 3 := conv_uintptr (a ! 3), 4 := conv_uintptr (a ! 5),
             5 := conv_uintptr (a ! 6), 6 := conv_uintptr (a ! 7), 7 := conv_uintptr (a ! 8),
             8 := conv_uintptr (a ! 9), 9 := conv_uintptr (a ! 10), 10 := conv_uintptr (a ! 11)]),
         impl_floats = (\<lambda>a. zeros8[0 := ucast (Float32bits (a ! 4))]), impl_keep = []\<rparr>
     else
        \<lparr>impl_params = [PWord, PWord, PWord, PWord, PF32, PWord, PWord, PWord, PWord, PWord, PWord,
            PWord], impl_result = False,
         impl_ints = (\<lambda>a. zeros15[0 := conv_uintptr (a ! 0), 1 := conv_uintptr (a ! 1),
             2 := conv_uintptr (a ! 2), 3 := conv_uintptr (a ! 3), 4 := conv_uintptr (a ! 5),
             5 := conv_uintptr (a ! 6), 6 := conv_uintptr (a ! 7), 7 := conv_uintptr (a ! 8),
             8 := conv_uintptr (a ! 9), 9 := conv_uintptr (a ! 10), 10 := conv_uintptr (a ! 11)]),
         impl_floats = (\<lambda>a. zeros8[0 := ucast (Float32bits (a ! 4))]), impl_keep = []\<rparr>)"

definition interleaved_12_5 :: "bool \<Rightarrow> fast_impl" where [interleaved_wrappers]:
  "interleaved_12_5 hasReturn =
    (if hasReturn then
        \<lparr>impl_params = [PWord, PWord, PWord, PWord, PWord, PF32, PWord, PWord, PWord, PWord, PWord,
            PWord], impl_result = True,
         impl_ints = (\<lambda>a. zeros15[0 := conv_uintptr (a ! 0), 1 := conv_uintptr (a ! 1),
             2 := conv_uintptr (a ! 2), 3 := conv_uintptr (a ! 3), 4 := conv_uintptr (a ! 4),
             5 := conv_uintptr (a ! 6), 6 := conv_uintptr (a ! 7), 7 := conv_uintptr (a ! 8),
             8 := conv_uintptr (a ! 9), 9 := conv_uintptr (a ! 10), 10 := conv_uintptr (a ! 11)]),
         impl_floats = (\<lambda>a. zeros8[0 := ucast (Float32bits (a ! 5))]), impl_keep = []\<rparr>
     else
        \<lparr>impl_params = [PWord, PWord, PWord, PWord, PWord, PF32, PWord, PWord, PWord, PWord, PWord,
            PWord], impl_result = False,
         impl_ints = (\<lambda>a. zeros15[0 := conv_uintptr (a ! 0), 1 := conv_uintptr (a ! 1),
             2 := conv_uintptr (a ! 2), 3 := conv_uintptr (a ! 3), 4 := conv_uintptr (a ! 4),
             5 := conv_uintptr (a ! 6), 6 := conv_uintptr (a ! 7), 7 := conv_uintptr (a ! 8),
             8 := conv_uintptr (a ! 9), 9 := conv_uintptr (a ! 10), 10 := conv_uintptr (a ! 11)]),
         impl_floats = (\<lambda>a. zeros8[0 := ucast (Float32bits (a ! 5))]), impl_keep = []\<rparr>)"

definition interleaved_12_6 :: "bool \<Rightarrow> fast_impl" where [interleaved_wrappers]:
  "interleaved_12_6 hasReturn =
    (if hasReturn then
        \<lparr>impl_params = [PWord, PWord, PWord, PWord, PWord, PWord, PF32, PWord, PWord, PWord, PWord,
            PWord], impl_result = True,
         impl_ints = (\<lambda>a. zeros15[0 := conv_uintptr (a ! 0), 1 := conv_uintptr (a ! 1),
             2 := conv_uintptr (a ! 2), 3 := conv_uintptr (a ! 3), 4 := conv_uintptr (a ! 4),
             5 := conv_uintptr (a ! 5), 6 := conv_uintptr (a ! 7), 7 := conv_uintptr (a ! 8),
             8 := conv_uintptr (a ! 9), 9 := conv_uintptr (a ! 10), 10 := conv_uintptr (a ! 11)]),
         impl_floats = (\<lambda>a. zeros8[0 := ucast (Float32bits (a ! 6))]), impl_keep = []\<rparr>
     else
        \<lparr>impl_params = [PWord, PWord, PWord, PWord, PWord, PWord, PF32, PWord, PWord, PWord, PWord,
            PWord], impl_result = False,
         impl_ints = (\<lambda>a. zeros15[0 := conv_uintptr (a ! 0), 1 := conv_uintptr (a ! 1),
             2 := conv_uintptr (a ! 2), 3 := conv_uintptr (a ! 3), 4 := conv_uintptr (a ! 4),
             5 := conv_uintptr (a ! 5), 6 := conv_uintptr (a ! 7), 7 := conv_uintptr (a ! 8),
             8 := conv_uintptr (a ! 9), 9 := conv_uintptr (a ! 10), 10 := conv_uintptr (a ! 11)]),
         impl_floats = (\<lambda>a. zeros8[0 := ucast (Float32bits (a ! 6))]), impl_keep = []\<rparr>)"

definition interleaved_12_7 :: "bool \<Rightarrow> fast_impl" where [interleaved_wrappers]:
  "interleaved_12_7 hasReturn =
    (if hasReturn then
        \<lparr>impl_params = [PWord, PWord, PWord, PWord, PWord, PWord, PWord, PF32, PWord, PWord, PWord,
            PWord], impl_result = True,
         impl_ints = (\<lambda>a. zeros15[0 := conv_uintptr (a ! 0), 1 := conv_uintptr (a ! 1),
             2 := conv_uintptr (a ! 2), 3 := conv_uintptr (a ! 3), 4 := conv_uintptr (a ! 4),
             5 := conv_uintptr (a ! 5), 6 := conv_uintptr (a ! 6), 7 := conv_uintptr (a ! 8),
             8 := conv_uintptr (a ! 9), 9 := conv_uintptr (a ! 10), 10 := conv_uintptr (a ! 11)]),
         impl_floats = (\<lambda>a. zeros8[0 := ucast (Float32bits (a ! 7))]), impl_keep = []\<rparr>
     else
        \<lparr>impl_params = [PWord, PWord, PWord, PWord, PWord, PWord, PWord, PF32, PWord, PWord, PWord,
            PWord], impl_result = False,
         impl_ints = (\<lambda>a. zeros15[0 := conv_uintptr (a ! 0), 1 := conv_uintptr (a ! 1),
             2 := conv_uintptr (a ! 2), 3 := conv_uintptr (a ! 3), 4 := conv_uintptr (a ! 4),
             5 := conv_uintptr (a ! 5), 6 := conv_uintptr (a ! 6), 7 := conv_uintptr (a ! 8),
             8 := conv_uintptr (a ! 9), 9 := conv_uintptr (a ! 10), 10 := conv_uintptr (a ! 11)]),
         impl_floats = (\<lambda>a. zeros8[0 := ucast (Float32bits (a ! 7))]), impl_keep = []\<rparr>)"

definition interleaved_12_8 :: "bool \<Rightarrow> fast_impl" where [interleaved_wrappers]:
  "interleaved_12_8 hasReturn =
    (if hasReturn then
        \<lparr>impl_params = [PWord, PWord, PWord, PWord, PWord, PWord, PWord, PWord, PF32, PWord, PWord,
            PWord], impl_result = True,
         impl_ints = (\<lambda>a. zeros15[0 := conv_uintptr (a ! 0), 1 := conv_uintptr (a ! 1),
             2 := conv_uintptr (a ! 2), 3 := conv_uintptr (a ! 3), 4 := conv_uintptr (a ! 4),
             5 := conv_uintptr (a ! 5), 6 := conv_uintptr (a ! 6), 7 := conv_uintptr (a ! 7),
             8 := conv_uintptr (a ! 9), 9 := conv_uintptr (a ! 10), 10 := conv_uintptr (a ! 11)]),
         impl_floats = (\<lambda>a. zeros8[0 := ucast (Float32bits (a ! 8))]), impl_keep = []\<rparr>
     else
        \<lparr>impl_params = [PWord, PWord, PWord, PWord, PWord, PWord, PWord, PWord, PF32, PWord, PWord,
            PWord], impl_result = False,
         impl_ints = (\<lambda>a. zeros15[0 := conv_uintptr (a ! 0), 1 := conv_uintptr (a ! 1),
             2 := conv_uintptr (a ! 2), 3 := conv_uintptr (a ! 3), 4 := conv_uintptr (a ! 4),
             5 := conv_uintptr (a ! 5), 6 := conv_uintptr (a ! 6), 7 := conv_uintptr (a ! 7),
             8 := conv_uintptr (a ! 9), 9 := conv_uintptr (a ! 10), 10 := conv_uintptr (a ! 11)]),
         impl_floats = (\<lambda>a. zeros8[0 := ucast (Float32bits (a ! 8))]), impl_keep = []\<rparr>)"

definition interleaved_12_9 :: "bool \<Rightarrow> fast_impl" where [interleaved_wrappers]:
  "interleaved_12_9 hasReturn =
    (if hasReturn then
        \<lparr>impl_params = [PWord, PWord, PWord, PWord, PWord, PWord, PWord, PWord, PWord, PF32, PWord,
            PWord], impl_result = True,
         impl_ints = (\<lambda>a. zeros15[0 := conv_uintptr (a ! 0), 1 := conv_uintptr (a ! 1),
             2 := conv_uintptr (a ! 2), 3 := conv_uintptr (a ! 3), 4 := conv_uintptr (a ! 4),
             5 := conv_uintptr (a ! 5), 6 := conv_uintptr (a ! 6), 7 := conv_uintptr (a ! 7),
             8 := conv_uintptr (a ! 8), 9 := conv_uintptr (a ! 10), 10 := conv_uintptr (a ! 11)]),
         impl_floats = (\<lambda>a. zeros8[0 := ucast (Float32bits (a ! 9))]), impl_keep = []\<rparr>
     else
        \<lparr>impl_params = [PWord, PWord, PWord, PWord, PWord, PWord, PWord, PWord, PWord, PF32, PWord,
            PWord], impl_result = False,
         impl_ints = (\<lambda>a. zeros15[0 := conv_uintptr (a ! 0), 1 := conv_uintptr (a ! 1),
             2 := conv_uintptr (a ! 2), 3 := conv_uintptr (a ! 3), 4 := conv_uintptr (a ! 4),
             5 := conv_uintptr (a ! 5), 6 := conv_uintptr (a ! 6), 7 := conv_uintptr (a ! 7),
             8 := conv_uintptr (a ! 8), 9 := conv_uintptr (a ! 10), 10 := conv_uintptr (a ! 11)]),
         impl_floats = (\<lambda>a. zeros8[0 := ucast (Float32bits (a ! 9))]), impl_keep = []\<rparr>)"

definition interleaved_12_10 :: "bool \<Rightarrow> fast_impl" where [interleaved_wrappers]:
  "interleaved_12_10 hasReturn =
    (if hasReturn then
        \<lparr>impl_params = [PWord, PWord, PWord, PWord, PWord, PWord, PWord, PWord, PWord, PWord, PF32,
            PWord], impl_result = True,
         impl_ints = (\<lambda>a. zeros15[0 := conv_uintptr (a ! 0), 1 := conv_uintptr (a ! 1),
             2 := conv_uintptr (a ! 2), 3 := conv_uintptr (a ! 3), 4 := conv_uintptr (a ! 4),
             5 := conv_uintptr (a ! 5), 6 := conv_uintptr (a ! 6), 7 := conv_uintptr (a ! 7),
             8 := conv_uintptr (a ! 8), 9 := conv_uintptr (a ! 9), 10 := conv_uintptr (a ! 11)]),
         impl_floats = (\<lambda>a. zeros8[0 := ucast (Float32bits (a ! 10))]), impl_keep = []\<rparr>
     else
        \<lparr>impl_params = [PWord, PWord, PWord, PWord, PWord, PWord, PWord, PWord, PWord, PWord, PF32,
            PWord], impl_result = False,
         impl_ints = (\<lambda>a. zeros15[0 := conv_uintptr (a ! 0), 1 := conv_uintptr (a ! 1),
             2 := conv_uintptr (a ! 2), 3 := conv_uintptr (a ! 3), 4 := conv_uintptr (a ! 4),
             5 := conv_uintptr (a ! 5), 6 := conv_uintptr (a ! 6), 7 := conv_uintptr (a ! 7),
             8 := conv_uintptr (a ! 8), 9 := conv_uintptr (a ! 9), 10 := conv_uintptr (a ! 11)]),
         impl_floats = (\<lambda>a. zeros8[0 := ucast (Float32bits (a ! 10))]), impl_keep = []\<rparr>)"

definition interleaved_12 :: "nat \<Rightarrow> bool \<Rightarrow> fast_impl option" where
  "interleaved_12 floatPos hasReturn =
    (if floatPos = 0 then Some (interleaved_12_0 hasReturn)
     else if floatPos = 1 then Some (interleaved_12_1 hasReturn)
     else if floatPos = 2 then Some (interleaved_12_2 hasReturn)
     else if floatPos = 3 then Some (interleaved_12_3 hasReturn)
     else if floatPos = 4 then Some (interleaved_12_4 hasReturn)
     else if floatPos = 5 then Some (interleaved_12_5 hasReturn)
     else if floatPos = 6 then Some (interleaved_12_6 hasReturn)
     else if floatPos = 7 then Some (interleaved_12_7 hasReturn)
     else if floatPos = 8 then Some (interleaved_12_8 hasReturn)
     else if floatPos = 9 then Some (interleaved_12_9 hasReturn)
     else if floatPos = 10 then Some (interleaved_12_10 hasReturn)
     else None)"

definition interleaved_13_0 :: "bool \<Rightarrow> fast_impl" where [interleaved_wrappers]:
  "interleaved_13_0 hasReturn =
    (if hasReturn then
        \<lparr>impl_params = [PF32, PWord, PWord, PWord, PWord, PWord, PWord, PWord, PWord, PWord, PWord,
            PWord, PWord], impl_result = True,
         impl_ints = (\<lambda>a. zeros15[0 := conv_uintptr (a ! 1), 1 := conv_uintptr (a ! 2),
             2 := conv_uintptr (a ! 3), 3 := conv_uintptr (a ! 4), 4 := conv_uintptr (a ! 5),
             5 := conv_uintptr (a ! 6), 6 := conv_uintptr (a ! 7), 7 := conv_uintptr (a ! 8),
             8 := conv_uintptr (a ! 9), 9 := conv_uintptr (a ! 10), 10 := conv_uintptr (a ! 11),
             11 := conv_uintptr (a ! 12)]),
         impl_floats = (\<lambda>a. zeros8[0 := ucast (Float32bits (a ! 0))]), impl_keep = []\<rparr>
     else
        \<lparr>impl_params = [PF32, PWord, PWord, PWord, PWord, PWord, PWord, PWord, PWord, PWord, PWord,
            PWord, PWord], impl_result = False,
         impl_ints = (\<lambda>a. zeros15[0 := conv_uintptr (a ! 1), 1 := conv_uintptr (a ! 2),
             2 := conv_uintptr (a ! 3), 3 := conv_uintptr (a ! 4), 4 := conv_uintptr (a ! 5),
             5 := conv_uintptr (a ! 6), 6 := conv_uintptr (a ! 7), 7 := conv_uintptr (a ! 8),
             8 := conv_uintptr (a ! 9), 9 := conv_uintptr (a ! 10), 10 := conv_uintptr (a ! 11),
             11 := conv_uintptr (a ! 12)]),
         impl_floats = (\<lambda>a. zeros8[0 := ucast (Float32bits (a ! 0))]), impl_keep = []\<rparr>)"

definition interleaved_13_1 :: "bool \<Rightarrow> fast_impl" where [interleaved_wrappers]:
  "interleaved_13_1 hasReturn =
    (if hasReturn then
        \<lparr>impl_params = [PWord, PF32, PWord, PWord, PWord, PWord, PWord, PWord, PWord, PWord, PWord,
            PWord, PWord], impl_result = True,
         impl_ints = (\<lambda>a. zeros15[0 := conv_uintptr (a ! 0), 1 := conv_uintptr (a ! 2),
             2 := conv_uintptr (a ! 3), 3 := conv_uintptr (a ! 4), 4 := conv_uintptr (a ! 5),
             5 := conv_uintptr (a ! 6), 6 := conv_uintptr (a ! 7), 7 := conv_uintptr (a ! 8),
             8 := conv_uintptr (a ! 9), 9 := conv_uintptr (a ! 10), 10 := conv_uintptr (a ! 11),
             11 := conv_uintptr (a ! 12)]),
         impl_floats = (\<lambda>a. zeros8[0 := ucast (Float32bits (a ! 1))]), impl_keep = []\<rparr>
     else
        \<lparr>impl_params = [PWord, PF32, PWord, PWord, PWord, PWord, PWord, PWord, PWord, PWord, PWord,
            PWord, PWord], impl_result = False,
         impl_ints = (\<lambda>a. zeros15[0 := conv_uintptr (a ! 0), 1 := conv_uintptr (a ! 2),
             2 := conv_uintptr (a ! 3), 3 := conv_uintptr (a ! 4), 4 := conv_uintptr (a ! 5),
             5 := conv_uintptr (a ! 6), 6 := conv_uintptr (a ! 7), 7 := conv_uintptr (a ! 8),
             8 := conv_uintptr (a ! 9), 9 := conv_uintptr (a ! 10), 10 := conv_uintptr (a ! 11),
             11 := conv_uintptr (a ! 12)]),
         impl_floats = (\<lambda>a. zeros8[0 := ucast (Float32bits (a ! 1))]), impl_keep = []\<rparr>)"

definition interleaved_13_2 :: "bool \<Rightarrow> fast_impl" where [interleaved_wrappers]:
  "interleaved_13_2 hasReturn =
    (if hasReturn then
        \<lparr>impl_params = [PWord, PWord, PF32, PWord, PWord, PWord, PWord, PWord, PWord, PWord, PWord,
            PWord, PWord], impl_result = True,
         impl_ints = (\<lambda>a. zeros15[0 := conv_uintptr (a ! 0), 1 := conv_uintptr (a ! 1),
             2 := conv_uintptr (a ! 3), 3 := conv_uintptr (a ! 4), 4 := conv_uintptr (a ! 5),
             5 := conv_uintptr (a ! 6), 6 := conv_uintptr (a ! 7), 7 := conv_uintptr (a ! 8),
             8 := conv_uintptr (a ! 9), 9 := conv_uintptr (a ! 10), 10 := conv_uintptr (a ! 11),
             11 := conv_uintptr (a ! 12)]),
         impl_floats = (\<lambda>a. zeros8[0 := ucast (Float32bits (a ! 2))]), impl_keep = []\<rparr>
     else
        \<lparr>impl_params = [PWord, PWord, PF32, PWord, PWord, PWord, PWord, PWord, PWord, PWord, PWord,
            PWord, PWord], impl_result = False,
         impl_ints = (\<lambda>a. zeros15[0 := conv_uintptr (a ! 0), 1 := conv_uintptr (a ! 1),
             2 := conv_uintptr (a ! 3), 3 := conv_uintptr (a ! 4), 4 := conv_uintptr (a ! 5),
             5 := conv_uintptr (a ! 6), 6 := conv_uintptr (a ! 7), 7 := conv_uintptr (a ! 8),
             8 := conv_uintptr (a ! 9), 9 := conv_uintptr (a ! 10), 10 := conv_uintptr (a ! 11),
             11 := conv_uintptr (a ! 12)]),
         impl_floats = (\<lambda>a. zeros8[0 := ucast (Float32bits (a ! 2))]), impl_keep = []\<rparr>)"

definition interleaved_13_3 :: "bool \<Rightarrow> fast_impl" where [interleaved_wrappers]:
  "interleaved_13_3 hasReturn =
    (if hasReturn then
        \<lparr>impl_params = [PWord, PWord, PWord, PF32, PWord, PWord, PWord, PWord, PWord, PWord, PWord,
            PWord, PWord], impl_result = True,
         impl_ints = (\<lambda>a. zeros15[0 := conv_uintptr (a ! 0), 1 := conv_uintptr (a ! 1),
             2 := conv_uintptr (a ! 2), 3 := conv_uintptr (a ! 4), 4 := conv_uintptr (a ! 5),
             5 := conv_uintptr (a ! 6), 6 := conv_uintptr (a ! 7), 7 := conv_uintptr (a ! 8),
             8 := conv_uintptr (a ! 9), 9 := conv_uintptr (a ! 10), 10 := conv_uintptr (a ! 11),
             11 := conv_uintptr (a ! 12)]),
         impl_floats = (\<lambda>a. zeros8[0 := ucast (Float32bits (a ! 3))]), impl_keep = []\<rparr>
     else
        \<lparr>impl_params = [PWord, PWord, PWord, PF32, PWord, PWord, PWord, PWord, PWord, PWord, PWord,
            PWord, PWord], impl_result = False,
         impl_ints = (\<lambda>a. zeros15[0 := conv_uintptr (a ! 0), 1 := conv_uintptr (a ! 1),
             2 := conv_uintptr (a ! 2), 3 := conv_uintptr (a ! 4), 4 := conv_uintptr (a ! 5),
             5 := conv_uintptr (a ! 6), 6 := conv_uintptr (a ! 7), 7 := conv_uintptr (a ! 8),
             8 := conv_uintptr (a ! 9), 9 := conv_uintptr (a ! 10), 10 := conv_uintptr (a ! 11),
             11 := conv_uintptr (a ! 12)]),
         impl_floats = (\<lambda>a. zeros8[0 := ucast (Float32bits (a ! 3))]), impl_keep = []\<rparr>)"

definition interleaved_13_4 :: "bool \<Rightarrow> fast_impl" where [interleaved_wrappers]:
  "interleaved_13_4 hasReturn =
    (if hasReturn then
        \<lparr>impl_params = [PWord, PWord, PWord, PWord, PF32, PWord, PWord, PWord, PWord, PWord, PWord,
            PWord, PWord], impl_result = True,
         impl_ints = (\<lambda>a. zeros15[0 := conv_uintptr (a ! 0), 1 := conv_uintptr (a ! 1),
             2 := conv_uintptr (a ! 2), 3 := conv_uintptr (a ! 3), 4 := conv_uintptr (a ! 5),
             5 := conv_uintptr (a ! 6), 6 := conv_uintptr (a ! 7), 7 := conv_uintptr (a ! 8),
             8 := conv_uintptr (a ! 9), 9 := conv_uintptr (a ! 10), 10 := conv_uintptr (a ! 11),
             11 := conv_uintptr (a ! 12)]),
         impl_floats = (\<lambda>a. zeros8[0 := ucast (Float32bits (a ! 4))]), impl_keep = []\<rparr>
     else
        \<lparr>impl_params = [PWord, PWord, PWord, PWord, PF32, PWord, PWord, PWord, PWord, PWord, PWord,
            PWord, PWord], impl_result = False,
         impl_ints = (\<lambda>a. zeros15[0 := conv_uintptr (a ! 0), 1 := conv_uintptr (a ! 1),
             2 := conv_uintptr (a ! 2), 3 := conv_uintptr (a ! 3), 4 := conv_uintptr (a ! 5),
             5 := conv_uintptr (a ! 6), 6 := conv_uintptr (a ! 7), 7 := conv_uintptr (a ! 8),
             8 := conv_uintptr (a ! 9), 9 := conv_uintptr (a ! 10), 10 := conv_uintptr (a ! 11),
             11 := conv_uintptr (a ! 12)]),
         impl_floats = (\<lambda>a. zeros8[0 := ucast (Float32bits (a ! 4))]), impl_keep = []\<rparr>)"

definition interleaved_13_5 :: "bool \<Rightarrow> fast_impl" where [interleaved_wrappers]:
  "interleaved_13_5 hasReturn =
    (if hasReturn then
        \<lparr>impl_params = [PWord, PWord, PWord, PWord, PWord, PF32, PWord, PWord, PWord, PWord, PWord,
            PWord, PWord], impl_result = True,
         impl_ints = (\<lambda>a. zeros15[0 := conv_uintptr (a ! 0), 1 := conv_uintptr (a ! 1),
             2 := conv_uintptr (a ! 2), 3 := conv_uintptr (a ! 3), 4 := conv_uintptr (a ! 4),
             5 := conv_uintptr (a ! 6), 6 := conv_uintptr (a ! 7), 7 := conv_uintptr (a ! 8),
             8 := conv_uintptr (a ! 9), 9 := conv_uintptr (a ! 10), 10 := conv_uintptr (a ! 11),
             11 := conv_uintptr (a ! 12)]),
         impl_floats = (\<lambda>a. zeros8[0 := ucast (Float32bits (a ! 5))]), impl_keep = []\<rparr>
     else
        \<lparr>impl_params = [PWord, PWord, PWord, PWord, PWord, PF32, PWord, PWord, PWord, PWord, PWord,
            PWord, PWord], impl_result = False,
         impl_ints = (\<lambda>a. zeros15[0 := conv_uintptr (a ! 0), 1 := conv_uintptr (a ! 1),
             2 := conv_uintptr (a ! 2), 3 := conv_uintptr (a ! 3), 4 := conv_uintptr (a ! 4),
             5 := conv_uintptr (a ! 6), 6 := conv_uintptr (a ! 7), 7 := conv_uintptr (a ! 8),
             8 := conv_uintptr (a ! 9), 9 := conv_uintptr (a ! 10), 10 := conv_uintptr (a ! 11),
             11 := conv_uintptr (a ! 12)]),
         impl_floats = (\<lambda>a. zeros8[0 := ucast (Float32bits (a ! 5))]), impl_keep = []\<rparr>)"

definition interleaved_13_6 :: "bool \<Rightarrow> fast_impl" where [interleaved_wrappers]:
  "interleaved_13_6 hasReturn =
    (if hasReturn then
        \<lparr>impl_params = [PWord, PWord, PWord, PWord, PWord, PWord, PF32, PWord, PWord, PWord, PWord,
            PWord, PWord], impl_result = True,
         impl_ints = (\<lambda>a. zeros15[0 := conv_uintptr (a ! 0), 1 := conv_uintptr (a ! 1),
             2 := conv_uintptr (a ! 2), 3 := conv_uintptr (a ! 3), 4 := conv_uintptr (a ! 4),
             5 := conv_uintptr (a ! 5), 6 := conv_uintptr (a ! 7), 7 := conv_uintptr (a ! 8),
             8 := conv_uintptr (a ! 9), 9 := conv_uintptr (a ! 10), 10 := conv_uintptr (a ! 11),
             11 := conv_uintptr (a ! 12)]),
         impl_floats = (\<lambda>a. zeros8[0 := ucast (Float32bits (a ! 6))]), impl_keep = []\<rparr>
     else
        \<lparr>impl_params = [PWord, PWord, PWord, PWord, PWord, PWord, PF32, PWord, PWord, PWord, PWord,
            PWord, PWord], impl_result = False,
         impl_ints = (\<lambda>a. zeros15[0 := conv_uintptr (a ! 0), 1 := conv_uintptr (a ! 1),
             2 := conv_uintptr (a ! 2), 3 := conv_uintptr (a ! 3), 4 := conv_uintptr (a ! 4),
             5 := conv_uintptr (a ! 5), 6 := conv_uintptr (a ! 7), 7 := conv_uintptr (a ! 8),
             8 := conv_uintptr (a ! 9), 9 := conv_uintptr (a ! 10), 10 := conv_uintptr (a ! 11),
             11 := conv_uintptr (a ! 12)]),
         impl_floats = (\<lambda>a. zeros8[0 := ucast (Float32bits (a ! 6))]), impl_keep = []\<rparr>)"

definition interleaved_13_7 :: "bool \<Rightarrow> fast_impl" where [interleaved_wrappers]:
  "interleaved_13_7 hasReturn =
    (if hasReturn then
        \<lparr>impl_params = [PWord, PWord, PWord, PWord, PWord, PWord, PWord, PF32, PWord, PWord, PWord,
            PWord, PWord], impl_result = True,
         impl_ints = (\<lambda>a. zeros15[0 := conv_uintptr (a ! 0), 1 := conv_uintptr (a ! 1),
             2 := conv_uintptr (a ! 2), 3 := conv_uintptr (a ! 3), 4 := conv_uintptr (a ! 4),
             5 := conv_uintptr (a ! 5), 6 := conv_uintptr (a ! 6), 7 := conv_uintptr (a ! 8),
             8 := conv_uintptr (a ! 9), 9 := conv_uintptr (a ! 10), 10 := conv_uintptr (a ! 11),
             11 := conv_uintptr (a ! 12)]),
         impl_floats = (\<lambda>a. zeros8[0 := ucast (Float32bits (a ! 7))]), impl_keep = []\<rparr>
     else
        \<lparr>impl_params = [PWord, PWord, PWord, PWord, PWord, PWord, PWord, PF32, PWord, PWord, PWord,
            PWord, PWord], impl_result = False,
         impl_ints = (\<lambda>a. zeros15[0 := conv_uintptr (a ! 0), 1 := conv_uintptr (a ! 1),
             2 := conv_uintptr (a ! 2), 3 := conv_uintptr (a ! 3), 4 := conv_uintptr (a ! 4),
             5 := conv_uintptr (a ! 5), 6 := conv_uintptr (a ! 6), 7 := conv_uintptr (a ! 8),
             8 := conv_uintptr (a ! 9), 9 := conv_uintptr (a ! 10), 10 := conv_uintptr (a ! 11),
             11 := conv_uintptr (a ! 12)]),
         impl_floats = (\<lambda>a. zeros8[0 := ucast (Float32bits (a ! 7))]), impl_keep = []\<rparr>)"

definition interleaved_13_8 :: "bool \<Rightarrow> fast_impl" where [interleaved_wrappers]:
  "interleaved_13_8 hasReturn =
    (if hasReturn then
        \<lparr>impl_params = [PWord, PWord, PWord, PWord, PWord, PWord, PWord, PWord, PF32, PWord, PWord,
            PWord, PWord], impl_result = True,
         impl_ints = (\<lambda>a. zeros15[0 := conv_uintptr (a ! 0), 1 := conv_uintptr (a ! 1),
             2 := conv_uintptr (a ! 2), 3 := conv_uintptr (a ! 3), 4 := conv_uintptr (a ! 4),
             5 := conv_uintptr (a ! 5), 6 := conv_uintptr (a ! 6), 7 := conv_uintptr (a ! 7),
             8 := conv_uintptr (a ! 9), 9 := conv_uintptr (a ! 10), 10 := conv_uintptr (a ! 11),
             11 := conv_uintptr (a ! 12)]),
         impl_floats = (\<lambda>a. zeros8[0 := ucast (Float32bits (a ! 8))]), impl_keep = []\<rparr>
     else
        \<lparr>impl_params = [PWord, PWord, PWord, PWord, PWord, PWord, PWord, PWord, PF32, PWord, PWord,
            PWord, PWord], impl_result = False,
         impl_ints = (\<lambda>a. zeros15[0 := conv_uintptr (a ! 0), 1 := conv_uintptr (a ! 1),
             2 := conv_uintptr (a ! 2), 3 := conv_uintptr (a ! 3), 4 := conv_uintptr (a ! 4),
             5 := conv_uintptr (a ! 5), 6 := conv_uintptr (a ! 6), 7 := conv_uintptr (a ! 7),
             8 := conv_uintptr (a ! 9), 9 := conv_uintptr (a ! 10), 10 := conv_uintptr (a ! 11),
             11 := conv_uintptr (a ! 12)]),
         impl_floats = (\<lambda>a. zeros8[0 := ucast (Float32bits (a ! 8))]), impl_keep = []\<rparr>)"

definition interleaved_13_9 :: "bool \<Rightarrow> fast_impl" where [interleaved_wrappers]:
  "interleaved_13_9 hasReturn =
    (if hasReturn then
        \<lparr>impl_params = [PWord, PWord, PWord, PWord, PWord, PWord, PWord, PWord, PWord, PF32, PWord,
            PWord, PWord], impl_result = True,
         impl_ints = (\<lambda>a. zeros15[0 := conv_uintptr (a ! 0), 1 := conv_uintptr (a ! 1),
             2 := conv_uintptr (a ! 2), 3 := conv_uintptr (a ! 3), 4 := conv_uintptr (a ! 4),
             5 := conv_uintptr (a ! 5), 6 := conv_uintptr (a ! 6), 7 := conv_uintptr (a ! 7),
             8 := conv_uintptr (a ! 8), 9 := conv_uintptr (a ! 10), 10 := conv_uintptr (a ! 11),
             11 := conv_uintptr (a ! 12)]),
         impl_floats = (\<lambda>a. zeros8[0 := ucast (Float32bits (a ! 9))]), impl_keep = []\<rparr>
     else
        \<lparr>impl_params = [PWord, PWord, PWord, PWord, PWord, PWord, PWord, PWord, PWord, PF32, PWord,
            PWord, PWord], impl_result = False,
         impl_ints = (\<lambda>a. zeros15[0 := conv_uintptr (a ! 0), 1 := conv_uintptr (a ! 1),
             2 := conv_uintptr (a ! 2), 3 := conv_uintptr (a ! 3), 4 := conv_uintptr (a ! 4),
             5 := conv_uintptr (a ! 5), 6 := conv_uintptr (a ! 6), 7 := conv_uintptr (a ! 7),
             8 := conv_uintptr (a ! 8), 9 := conv_uintptr (a ! 10), 10 := conv_uintptr (a ! 11),
             11 := conv_uintptr (a ! 12)]),
         impl_floats = (\<lambda>a. zeros8[0 := ucast (Float32bits (a ! 9))]), impl_keep = []\<rparr>)"

definition interleaved_13_10 :: "bool \<Rightarrow> fast_impl" where [interleaved_wrappers]:
  "interleaved_13_10 hasReturn =
    (if hasReturn then
        \<lparr>impl_params = [PWord, PWord, PWord, PWord, PWord, PWord, PWord, PWord, PWord, PWord, PF32,
            PWord, PWord], impl_result = True,
         impl_ints = (\<lambda>a. zeros15[0 := conv_uintptr (a ! 0), 1 := conv_uintptr (a ! 1),
             2 := conv_uintptr (a ! 2), 3 := conv_uintptr (a ! 3), 4 := conv_uintptr (a ! 4),
             5 := conv_uintptr (a ! 5), 6 := conv_uintptr (a ! 6), 7 := conv_uintptr (a ! 7),
             8 := conv_uintptr (a ! 8), 9 := conv_uintptr (a ! 9), 10 := conv_uintptr (a ! 11),
             11 := conv_uintptr (a ! 12)]),
         impl_floats = (\<lambda>a. zeros8[0 := ucast (Float32bits (a ! 10))]), impl_keep = []\<rparr>
     else
        \<lparr>impl_params = [PWord, PWord, PWord, PWord, PWord, PWord, PWord, PWord, PWord, PWord, PF32,
            PWord, PWord], impl_result = False,
         impl_ints = (\<lambda>a. zeros15[0 := conv_uintptr (a ! 0), 1 := conv_uintptr (a ! 1),
             2 := conv_uintptr (a ! 2), 3 := conv_uintptr (a ! 3), 4 := conv_uintptr (a ! 4),
             5 := conv_uintptr (a ! 5), 6 := conv_uintptr (a ! 6), 7 := conv_uintptr (a ! 7),
             8 := conv_uintptr (a ! 8), 9 := conv_uintptr (a ! 9), 10 := conv_uintptr (a ! 11),
             11 := conv_uintptr (a ! 12)]),
         impl_floats = (\<lambda>a. zeros8[0 := ucast (Float32bits (a ! 10))]), impl_keep = []\<rparr>)"

definition interleaved_13_11 :: "bool \<Rightarrow> fast_impl" where [interleaved_wrappers]:
  "interleaved_13_11 hasReturn =
    (if hasReturn then
        \<lparr>impl_params = [PWord, PWord, PWord, PWord, PWord, PWord, PWord, PWord, PWord, PWord, PWord,
            PF32, PWord], impl_result = True,
         impl_ints = (\<lambda>a. zeros15[0 := conv_uintptr (a ! 0), 1 := conv_uintptr (a ! 1),
             2 := conv_uintptr (a ! 2), 3 := conv_uintptr (a ! 3), 4 := conv_uintptr (a ! 4),
             5 := conv_uintptr (a ! 5), 6 := conv_uintptr (a ! 6), 7 := conv_uintptr (a ! 7),
             8 := conv_uintptr (a ! 8), 9 := conv_uintptr (a ! 9), 10 := conv_uintptr (a ! 10),
             11 := conv_uintptr (a ! 12)]),
         impl_floats = (\<lambda>a. zeros8[0 := ucast (Float32bits (a ! 11))]), impl_keep = []\<rparr>
     else
        \<lparr>impl_params = [PWord, PWord, PWord, PWord, PWord, PWord, PWord, PWord, PWord, PWord, PWord,
            PF32, PWord], impl_result = False,
         impl_ints = (\<lambda>a. zeros15[0 := conv_uintptr (a ! 0), 1 := conv_uintptr (a ! 1),
             2 := conv_uintptr (a ! 2), 3 := conv_uintptr (a ! 3), 4 := conv_uintptr (a ! 4),
             5 := conv_uintptr (a ! 5), 6 := conv_uintptr (a ! 6), 7 := conv_uintptr (a ! 7),
             8 := conv_uintptr (a ! 8), 9 := conv_uintptr (a ! 9), 10 := conv_uintptr (a ! 10),
             11 := conv_uintptr (a ! 12)]),
         impl_floats = (\<lambda>a. zeros8[0 := ucast (Float32bits (a ! 11))]), impl_keep = []\<rparr>)"

definition interleaved_13 :: "nat \<Rightarrow> bool \<Rightarrow> fast_impl option" where
  "interleaved_13 floatPos hasReturn =
    (if floatPos = 0 then Some (interleaved_13_0 hasReturn)
     else if floatPos = 1 then Some (interleaved_13_1 hasReturn)
     else if floatPos = 2 then Some (interleaved_13_2 hasReturn)
     else if floatPos = 3 then Some (interleaved_13_3 hasReturn)
     else if floatPos = 4 then Some (interleaved_13_4 hasReturn)
     else if floatPos = 5 then Some (interleaved_13_5 hasReturn)
     else if floatPos = 6 then Some (interleaved_13_6 hasReturn)
     else if floatPos = 7 then Some (interleaved_13_7 hasReturn)
     else if floatPos = 8 then Some (interleaved_13_8 hasReturn)
     else if floatPos = 9 then Some (interleaved_13_9 hasReturn)
     else if floatPos = 10 then Some (interleaved_13_10 hasReturn)
     else if floatPos = 11 then Some (interleaved_13_11 hasReturn)
     else None)"

definition interleaved_14_0 :: "bool \<Rightarrow> fast_impl" where [interleaved_wrappers]:
  "interleaved_14_0 hasReturn =
    (if hasReturn then
        \<lparr>impl_params = [PF32, PWord, PWord, PWord, PWord, PWord, PWord, PWord, PWord, PWord, PWord,
            PWord, PWord, PWord], impl_result = True,
         impl_ints = (\<lambda>a. zeros15[0 := conv_uintptr (a ! 1), 1 := conv_uintptr (a ! 2),
             2 := conv_uintptr (a ! 3), 3 := conv_uintptr (a ! 4), 4 := conv_uintptr (a ! 5),
             5 := conv_uintptr (a ! 6), 6 := conv_uintptr (a ! 7), 7 := conv_uintptr (a ! 8),
             8 := conv_uintptr (a ! 9), 9 := conv_uintptr (a ! 10), 10 := conv_uintptr (a ! 11),
             11 := conv_uintptr (a ! 12), 12 := conv_uintptr (a ! 13)]),
         impl_floats = (\<lambda>a. zeros8[0 := ucast (Float32bits (a ! 0))]), impl_keep = []\<rparr>
     else
        \<lparr>impl_params = [PF32, PWord, PWord, PWord, PWord, PWord, PWord, PWord, PWord, PWord, PWord,
            PWord, PWord, PWord], impl_result = False,
         impl_ints = (\<lambda>a. zeros15[0 := conv_uintptr (a ! 1), 1 := conv_uintptr (a ! 2),
             2 := conv_uintptr (a ! 3), 3 := conv_uintptr (a ! 4), 4 := conv_uintptr (a ! 5),
             5 := conv_uintptr (a ! 6), 6 := conv_uintptr (a ! 7), 7 := conv_uintptr (a ! 8),
             8 := conv_uintptr (a ! 9), 9 := conv_uintptr (a ! 10), 10 := conv_uintptr (a ! 11),
             11 := conv_uintptr (a ! 12), 12 := conv_uintptr (a ! 13)]),
         impl_floats = (\<lambda>a. zeros8[0 := ucast (Float32bits (a ! 0))]), impl_keep = []\<rparr>)"

definition interleaved_14_1 :: "bool \<Rightarrow> fast_impl" where [interleaved_wrappers]:
  "interleaved_14_1 hasReturn =
    (if hasReturn then
        \<lparr>impl_params = [PWord, PF32, PWord, PWord, PWord, PWord, PWord, PWord, PWord, PWord, PWord,
            PWord, PWord, PWord], impl_result = True,
         impl_ints = (\<lambda>a. zeros15[0 := conv_uintptr (a ! 0), 1 := conv_uintptr (a ! 2),
             2 := conv_uintptr (a ! 3), 3 := conv_uintptr (a ! 4), 4 := conv_uintptr (a ! 5),
             5 := conv_uintptr (a ! 6), 6 := conv_uintptr (a ! 7), 7 := conv_uintptr (a ! 8),
             8 := conv_uintptr (a ! 9), 9 := conv_uintptr (a ! 10), 10 := conv_uintptr (a ! 11),
             11 := conv_uintptr (a ! 12), 12 := conv_uintptr (a ! 13)]),
         impl_floats = (\<lambda>a. zeros8[0 := ucast (Float32bits (a ! 1))]), impl_keep = []\<rparr>
     else
        \<lparr>impl_params = [PWord, PF32, PWord, PWord, PWord, PWord, PWord, PWord, PWord, PWord, PWord,
            PWord, PWord, PWord], impl_result = False,
         impl_ints = (\<lambda>a. zeros15[0 := conv_uintptr (a ! 0), 1 := conv_uintptr (a ! 2),
             2 := conv_uintptr (a ! 3), 3 := conv_uintptr (a ! 4), 4 := conv_uintptr (a ! 5),
             5 := conv_uintptr (a ! 6), 6 := conv_uintptr (a ! 7), 7 := conv_uintptr (a ! 8),
             8 := conv_uintptr (a ! 9), 9 := conv_uintptr (a ! 10), 10 := conv_uintptr (a ! 11),
             11 := conv_uintptr (a ! 12), 12 := conv_uintptr (a ! 13)]),
         impl_floats = (\<lambda>a. zeros8[0 := ucast (Float32bits (a ! 1))]), impl_keep = []\<rparr>)"

definition interleaved_14_2 :: "bool \<Rightarrow> fast_impl" where [interleaved_wrappers]:
  "interleaved_14_2 hasReturn =
    (if hasReturn then
        \<lparr>impl_params = [PWord, PWord, PF32, PWord, PWord, PWord, PWord, PWord, PWord, PWord, PWord,
            PWord, PWord, PWord], impl_result = True,
         impl_ints = (\<lambda>a. zeros15[0 := conv_uintptr (a ! 0), 1 := conv_uintptr (a ! 1),
             2 := conv_uintptr (a ! 3), 3 := conv_uintptr (a ! 4), 4 := conv_uintptr (a ! 5),
             5 := conv_uintptr (a ! 6), 6 := conv_uintptr (a ! 7), 7 := conv_uintptr (a ! 8),
             8 := conv_uintptr (a ! 9), 9 := conv_uintptr (a ! 10), 10 := conv_uintptr (a ! 11),
             11 := conv_uintptr (a ! 12), 12 := conv_uintptr (a ! 13)]),
         impl_floats = (\<lambda>a. zeros8[0 := ucast (Float32bits (a ! 2))]), impl_keep = []\<rparr>
     else
        \<lparr>impl_params = [PWord, PWord, PF32, PWord, PWord, PWord, PWord, PWord, PWord, PWord, PWord,
            PWord, PWord, PWord], impl_result = False,
         impl_ints = (\<lambda>a. zeros15[0 := conv_uintptr (a ! 0), 1 := conv_uintptr (a ! 1),
             2 := conv_uintptr (a ! 3), 3 := conv_uintptr (a ! 4), 4 := conv_uintptr (a ! 5),
             5 := conv_uintptr (a ! 6), 6 := conv_uintptr (a ! 7), 7 := conv_uintptr (a ! 8),
             8 := conv_uintptr (a ! 9), 9 := conv_uintptr (a ! 10), 10 := conv_uintptr (a ! 11),
             11 := conv_uintptr (a ! 12), 12 := conv_uintptr (a ! 13)]),
         impl_floats = (\<lambda>a. zeros8[0 := ucast (Float32bits (a ! 2))]), impl_keep = []\<rparr>)"

definition interleaved_14_3 :: "bool \<Rightarrow> fast_impl" where [interleaved_wrappers]:
  "interleaved_14_3 hasReturn =
    (if hasReturn then
        \<lparr>impl_params = [PWord, PWord, PWord, PF32, PWord, PWord, PWord, PWord, PWord, PWord, PWord,
            PWord, PWord, PWord], impl_result = True,
         impl_ints = (\<lambda>a. zeros15[0 := conv_uintptr (a ! 0), 1 := conv_uintptr (a ! 1),
             2 := conv_uintptr (a ! 2), 3 := conv_uintptr (a ! 4), 4 := conv_uintptr (a ! 5),
             5 := conv_uintptr (a ! 6), 6 := conv_uintptr (a ! 7), 7 := conv_uintptr (a ! 8),
             8 := conv_uintptr (a ! 9), 9 := conv_uintptr (a ! 10), 10 := conv_uintptr (a ! 11),
             11 := conv_uintptr (a ! 12), 12 := conv_uintptr (a ! 13)]),
         impl_floats = (\<lambda>a. zeros8[0 := ucast (Float32bits (a ! 3))]), impl_keep = []\<rparr>
     else
        \<lparr>impl_params = [PWord, PWord, PWord, PF32, PWord, PWord, PWord, PWord, PWord, PWord, PWord,
            PWord, PWord, PWord], impl_result = False,
         impl_ints = (\<lambda>a. zeros15[0 := conv_uintptr (a ! 0), 1 := conv_uintptr (a ! 1),
             2 := conv_uintptr (a ! 2), 3 := conv_uintptr (a ! 4), 4 := conv_uintptr (a ! 5),
             5 := conv_uintptr (a ! 6), 6 := conv_uintptr (a ! 7), 7 := conv_uintptr (a ! 8),
             8 := conv_uintptr (a ! 9), 9 := conv_uintptr (a ! 10), 10 := conv_uintptr (a ! 11),
             11 := conv_uintptr (a ! 12), 12 := conv_uintptr (a ! 13)]),
         impl_floats = (\<lambda>a. zeros8[0 := ucast (Float32bits (a ! 3))]), impl_keep = []\<rparr>)"

definition interleaved_14_4 :: "bool \<Rightarrow> fast_impl" where [interleaved_wrappers]:
  "interleaved_14_4 hasReturn =
    (if hasReturn then
        \<lparr>impl_params = [PWord, PWord, PWord, PWord, PF32, PWord, PWord, PWord, PWord, PWord, PWord,
            PWord, PWord, PWord], impl_result = True,
         impl_ints = (\<lambda>a. zeros15[0 := conv_uintptr (a ! 0), 1 := conv_uintptr (a ! 1),
             2 := conv_uintptr (a ! 2), 3 := conv_uintptr (a ! 3), 4 := conv_uintptr (a ! 5),
             5 := conv_uintptr (a ! 6), 6 := conv_uintptr (a ! 7), 7 := conv_uintptr (a ! 8),
             8 := conv_uintptr (a ! 9), 9 := conv_uintptr (a ! 10), 10 := conv_uintptr (a ! 11),
             11 := conv_uintptr (a ! 12), 12 := conv_uintptr (a ! 13)]),
         impl_floats = (\<lambda>a. zeros8[0 := ucast (Float32bits (a ! 4))]), impl_keep = []\<rparr>
     else
        \<lparr>impl_params = [PWord, PWord, PWord, PWord, PF32, PWord, PWord, PWord, PWord, PWord, PWord,
            PWord, PWord, PWord], impl_result = False,
         impl_ints = (\<lambda>a. zeros15[0 := conv_uintptr (a ! 0), 1 := conv_uintptr (a ! 1),
             2 := conv_uintptr (a ! 2), 3 := conv_uintptr (a ! 3), 4 := conv_uintptr (a ! 5),
             5 := conv_uintptr (a ! 6), 6 := conv_uintptr (a ! 7), 7 := conv_uintptr (a ! 8),
             8 := conv_uintptr (a ! 9), 9 := conv_uintptr (a ! 10), 10 := conv_uintptr (a ! 11),
             11 := conv_uintptr (a ! 12), 12 := conv_uintptr (a ! 13)]),
         impl_floats = (\<lambda>a. zeros8[0 := ucast (Float32bits (a ! 4))]), impl_keep = []\<rparr>)"

definition interleaved_14_5 :: "bool \<Rightarrow> fast_impl" where [interleaved_wrappers]:
  "interleaved_14_5 hasReturn =
    (if hasReturn then
        \<lparr>impl_params = [PWord, PWord, PWord, PWord, PWord, PF32, PWord, PWord, PWord, PWord, PWord,
            PWord, PWord, PWord], impl_result = True,
         impl_ints = (\<lambda>a. zeros15[0 := conv_uintptr (a ! 0), 1 := conv_uintptr (a ! 1),
             2 := conv_uintptr (a ! 2), 3 := conv_uintptr (a ! 3), 4 := conv_uintptr (a ! 4),
             5 := conv_uintptr (a ! 6), 6 := conv_uintptr (a ! 7), 7 := conv_uintptr (a ! 8),
             8 := conv_uintptr (a ! 9), 9 := conv_uintptr (a ! 10), 10 := conv_uintptr (a ! 11),
             11 := conv_uintptr (a ! 12), 12 := conv_uintptr (a ! 13)]),
         impl_floats = (\<lambda>a. zeros8[0 := ucast (Float32bits (a ! 5))]), impl_keep = []\<rparr>
     else
        \<lparr>impl_params = [PWord, PWord, PWord, PWord, PWord, PF32, PWord, PWord, PWord, PWord, PWord,
            PWord, PWord, PWord], impl_result = False,
         impl_ints = (\<lambda>a. zeros15[0 := conv_uintptr (a ! 0), 1 := conv_uintptr (a ! 1),
             2 := conv_uintptr (a ! 2), 3 := conv_uintptr (a ! 3), 4 := conv_uintptr (a ! 4),
             5 := conv_uintptr (a ! 6), 6 := conv_uintptr (a ! 7), 7 := conv_uintptr (a ! 8),
             8 := conv_uintptr (a ! 9), 9 := conv_uintptr (a ! 10), 10 := conv_uintptr (a ! 11),
             11 := conv_uintptr (a ! 12), 12 := conv_uintptr (a ! 13)]),
         impl_floats = (\<lambda>a. zeros8[0 := ucast (Float32bits (a ! 5))]), impl_keep = []\<rparr>)"

definition interleaved_14_6 :: "bool \<Rightarrow> fast_impl" where [interleaved_wrappers]:
  "interleaved_14_6 hasReturn =
    (if hasReturn then
        \<lparr>impl_params = [PWord, PWord, PWord, PWord, PWord, PWord, PF32, PWord, PWord, PWord, PWord,
            PWord, PWord, PWord], impl_result = True,
         impl_ints = (\<lambda>a. zeros15[0 := conv_uintptr (a ! 0), 1 := conv_uintptr (a ! 1),
             2 := conv_uintptr (a ! 2), 3 := conv_uintptr (a ! 3), 4 := conv_uintptr (a ! 4),
             5 := conv_uintptr (a ! 5), 6 := conv_uintptr (a ! 7), 7 := conv_uintptr (a ! 8),
             8 := conv_uintptr (a ! 9), 9 := conv_uintptr (a ! 10), 10 := conv_uintptr (a ! 11),
             11 := conv_uintptr (a ! 12), 12 := conv_uintptr (a ! 13)]),
         impl_floats = (\<lambda>a. zeros8[0 := ucast (Float32bits (a ! 6))]), impl_keep = []\<rparr>
     else
        \<lparr>impl_params = [PWord, PWord, PWord, PWord, PWord, PWord, PF32, PWord, PWord, PWord, PWord,
            PWord, PWord, PWord], impl_result = False,
         impl_ints = (\<lambda>a. zeros15[0 := conv_uintptr (a ! 0), 1 := conv_uintptr (a ! 1),
             2 := conv_uintptr (a ! 2), 3 := conv_uintptr (a ! 3), 4 := conv_uintptr (a ! 4),
             5 := conv_uintptr (a ! 5), 6 := conv_uintptr (a ! 7), 7 := conv_uintptr (a ! 8),
             8 := conv_uintptr (a ! 9), 9 := conv_uintptr (a ! 10), 10 := conv_uintptr (a ! 11),
             11 := conv_uintptr (a ! 12), 12 := conv_uintptr (a ! 13)]),
         impl_floats = (\<lambda>a. zeros8[0 := ucast (Float32bits (a ! 6))]), impl_keep = []\<rparr>)"

definition interleaved_14_7 :: "bool \<Rightarrow> fast_impl" where [interleaved_wrappers]:
  "interleaved_14_7 hasReturn =
    (if hasReturn then
        \<lparr>impl_params = [PWord, PWord, PWord, PWord, PWord, PWord, PWord, PF32, PWord, PWord, PWord,
            PWord, PWord, PWord], impl_result = True,
         impl_ints = (\<lambda>a. zeros15[0 := conv_uintptr (a ! 0), 1 := conv_uintptr (a ! 1),
             2 := conv_uintptr (a ! 2), 3 := conv_uintptr (a ! 3), 4 := conv_uintptr (a ! 4),
             5 := conv_uintptr (a ! 5), 6 := conv_uintptr (a ! 6), 7 := conv_uintptr (a ! 8),
             8 := conv_uintptr (a ! 9), 9 := conv_uintptr (a ! 10), 10 := conv_uintptr (a ! 11),
             11 := conv_uintptr (a ! 12), 12 := conv_uintptr (a ! 13)]),
         impl_floats = (\<lambda>a. zeros8[0 := ucast (Float32bits (a ! 7))]), impl_keep = []\<rparr>
     else
        \<lparr>impl_params = [PWord, PWord, PWord, PWord, PWord, PWord, PWord, PF32, PWord, PWord, PWord,
            PWord, PWord, PWord], impl_result = False,
         impl_ints = (\<lambda>a. zeros15[0 := conv_uintptr (a ! 0), 1 := conv_uintptr (a ! 1),
             2 := conv_uintptr (a ! 2), 3 := conv_uintptr (a ! 3), 4 := conv_uintptr (a ! 4),
             5 := conv_uintptr (a ! 5), 6 := conv_uintptr (a ! 6), 7 := conv_uintptr (a ! 8),
             8 := conv_uintptr (a ! 9), 9 := conv_uintptr (a ! 10), 10 := conv_uintptr (a ! 11),
             11 := conv_uintptr (a ! 12), 12 := conv_uintptr (a ! 13)]),
         impl_floats = (\<lambda>a. zeros8[0 := ucast (Float32bits (a ! 7))]), impl_keep = []\<rparr>)"

definition interleaved_14_8 :: "bool \<Rightarrow> fast_impl" where [interleaved_wrappers]:
  "interleaved_14_8 hasReturn =
    (if hasReturn then
        \<lparr>impl_params = [PWord, PWord, PWord, PWord, PWord, PWord, PWord, PWord, PF32, PWord, PWord,
            PWord, PWord, PWord], impl_result = True,
         impl_ints = (\<lambda>a. zeros15[0 := conv_uintptr (a ! 0), 1 := conv_uintptr (a ! 1),
             2 := conv_uintptr (a ! 2), 3 := conv_uintptr (a ! 3), 4 := conv_uintptr (a ! 4),
             5 := conv_uintptr (a ! 5), 6 := conv_uintptr (a ! 6), 7 := conv_uintptr (a ! 7),
             8 := conv_uintptr (a ! 9), 9 := conv_uintptr (a ! 10), 10 := conv_uintptr (a ! 11),
             11 := conv_uintptr (a ! 12), 12 := conv_uintptr (a ! 13)]),
         impl_floats = (\<lambda>a. zeros8[0 := ucast (Float32bits (a ! 8))]), impl_keep = []\<rparr>
     else
        \<lparr>impl_params = [PWord, PWord, PWord, PWord, PWord, PWord, PWord, PWord, PF32, PWord, PWord,
            PWord, PWord, PWord], impl_result = False,
         impl_ints = (\<lambda>a. zeros15[0 := conv_uintptr (a ! 0), 1 := conv_uintptr (a ! 1),
             2 := conv_uintptr (a ! 2), 3 := conv_uintptr (a ! 3), 4 := conv_uintptr (a ! 4),
             5 := conv_uintptr (a ! 5), 6 := conv_uintptr (a ! 6), 7 := conv_uintptr (a ! 7),
             8 := conv_uintptr (a ! 9), 9 := conv_uintptr (a ! 10), 10 := conv_uintptr (a ! 11),
             11 := conv_uintptr (a ! 12), 12 := conv_uintptr (a ! 13)]),
         impl_floats = (\<lambda>a. zeros8[0 := ucast (Float32bits (a ! 8))]), impl_keep = []\<rparr>)"

definition interleaved_14_9 :: "bool \<Rightarrow> fast_impl" where [interleaved_wrappers]:
  "interleaved_14_9 hasReturn =
    (if hasReturn then
        \<lparr>impl_params = [PWord, PWord, PWord, PWord, PWord, PWord, PWord, PWord, PWord, PF32, PWord,
            PWord, PWord, PWord], impl_result = True,
         impl_ints = (\<lambda>a. zeros15[0 := conv_uintptr (a ! 0), 1 := conv_uintptr (a ! 1),
             2 := conv_uintptr (a ! 2), 3 := conv_uintptr (a ! 3), 4 := conv_uintptr (a ! 4),
             5 := conv_uintptr (a ! 5), 6 := conv_uintptr (a ! 6), 7 := conv_uintptr (a ! 7),
             8 := conv_uintptr (a ! 8), 9 := conv_uintptr (a ! 10), 10 := conv_uintptr (a ! 11),
             11 := conv_uintptr (a ! 12), 12 := conv_uintptr (a ! 13)]),
         impl_floats = (\<lambda>a. zeros8[0 := ucast (Float32bits (a ! 9))]), impl_keep = []\<rparr>
     else
        \<lparr>impl_params = [PWord, PWord, PWord, PWord, PWord, PWord, PWord, PWord, PWord, PF32, PWord,
            PWord, PWord, PWord], impl_result = False,
         impl_ints = (\<lambda>a. zeros15[0 := conv_uintptr (a ! 0), 1 := conv_uintptr (a ! 1),
             2 := conv_uintptr (a ! 2), 3 := conv_uintptr (a ! 3), 4 := conv_uintptr (a ! 4),
             5 := conv_uintptr (a ! 5), 6 := conv_uintptr (a ! 6), 7 := conv_uintptr (a ! 7),
             8 := conv_uintptr (a ! 8), 9 := conv_uintptr (a ! 10), 10 := conv_uintptr (a ! 11),
             11 := conv_uintptr (a ! 12), 12 := conv_uintptr (a ! 13)]),
         impl_floats = (\<lambda>a. zeros8[0 := ucast (Float32bits (a ! 9))]), impl_keep = []\<rparr>)"

definition interleaved_14_10 :: "bool \<Rightarrow> fast_impl" where [interleaved_wrappers]:
  "interleaved_14_10 hasReturn =
    (if hasReturn then
        \<lparr>impl_params = [PWord, PWord, PWord, PWord, PWord, PWord, PWord, PWord, PWord, PWord, PF32,
            PWord, PWord, PWord], impl_result = True,
         impl_ints = (\<lambda>a. zeros15[0 := conv_uintptr (a ! 0), 1 := conv_uintptr (a ! 1),
             2 := conv_uintptr (a ! 2), 3 := conv_uintptr (a ! 3), 4 := conv_uintptr (a ! 4),
             5 := conv_uintptr (a ! 5), 6 := conv_uintptr (a ! 6), 7 := conv_uintptr (a ! 7),
             8 := conv_uintptr (a ! 8), 9 := conv_uintptr (a ! 9), 10 := conv_uintptr (a ! 11),
             11 := conv_uintptr (a ! 12), 12 := conv_uintptr (a ! 13)]),
         impl_floats = (\<lambda>a. zeros8[0 := ucast (Float32bits (a ! 10))]), impl_keep = []\<rparr>
     else
        \<lparr>impl_params = [PWord, PWord, PWord, PWord, PWord, PWord, PWord, PWord, PWord, PWord, PF32,
            PWord, PWord, PWord], impl_result = False,
         impl_ints = (\<lambda>a. zeros15[0 := conv_uintptr (a ! 0), 1 := conv_uintptr (a ! 1),
             2 := conv_uintptr (a ! 2), 3 := conv_uintptr (a ! 3), 4 := conv_uintptr (a ! 4),
             5 := conv_uintptr (a ! 5), 6 := conv_uintptr (a ! 6), 7 := conv_uintptr (a ! 7),
             8 := conv_uintptr (a ! 8), 9 := conv_uintptr (a ! 9), 10 := conv_uintptr (a ! 11),
             11 := conv_uintptr (a ! 12), 12 := conv_uintptr (a ! 13)]),
         impl_floats = (\<lambda>a. zeros8[0 := ucast (Float32bits (a ! 10))]), impl_keep = []\<rparr>)"

definition interleaved_14_11 :: "bool \<Rightarrow> fast_impl" where [interleaved_wrappers]:
  "interleaved_14_11 hasReturn =
    (if hasReturn then
        \<lparr>impl_params = [PWord, PWord, PWord, PWord, PWord, PWord, PWord, PWord, PWord, PWord, PWord,
            PF32, PWord, PWord], impl_result = True,
         impl_ints = (\<lambda>a. zeros15[0 := conv_uintptr (a ! 0), 1 := conv_uintptr (a ! 1),
             2 := conv_uintptr (a ! 2), 3 := conv_uintptr (a ! 3), 4 := conv_uintptr (a ! 4),
             5 := conv_uintptr (a ! 5), 6 := conv_uintptr (a ! 6), 7 := conv_uintptr (a ! 7),
             8 := conv_uintptr (a ! 8), 9 := conv_uintptr (a ! 9), 10 := conv_uintptr (a ! 10),
             11 := conv_uintptr (a ! 12), 12 := conv_uintptr (a ! 13)]),
         impl_floats = (\<lambda>a. zeros8[0 := ucast (Float32bits (a ! 11))]), impl_keep = []\<rparr>
     else
        \<lparr>impl_params = [PWord, PWord, PWord, PWord, PWord, PWord, PWord, PWord, PWord, PWord, PWord,
            PF32, PWord, PWord], impl_result = False,
         impl_ints = (\<lambda>a. zeros15[0 := conv_uintptr (a ! 0), 1 := conv_uintptr (a ! 1),
             2 := conv_uintptr (a ! 2), 3 := conv_uintptr (a ! 3), 4 := conv_uintptr (a ! 4),
             5 := conv_uintptr (a ! 5), 6 := conv_uintptr (a ! 6), 7 := conv_uintptr (a ! 7),
             8 := conv_uintptr (a ! 8), 9 := conv_uintptr (a ! 9), 10 := conv_uintptr (a ! 10),
             11 := conv_uintptr (a ! 12), 12 := conv_uintptr (a ! 13)]),
         impl_floats = (\<lambda>a. zeros8[0 := ucast (Float32bits (a ! 11))]), impl_keep = []\<rparr>)"

definition interleaved_14_12 :: "bool \<Rightarrow> fast_impl" where [interleaved_wrappers]:
  "interleaved_14_12 hasReturn =
    (if hasReturn then
        \<lparr>impl_params = [PWord, PWord, PWord, PWord, PWord, PWord, PWord, PWord, PWord, PWord, PWord,
            PWord, PF32, PWord], impl_result = True,
         impl_ints = (\<lambda>a. zeros15[0 := conv_uintptr (a ! 0), 1 := conv_uintptr (a ! 1),
             2 := conv_uintptr (a ! 2), 3 := conv_uintptr (a ! 3), 4 := conv_uintptr (a ! 4),
             5 := conv_uintptr (a ! 5), 6 := conv_uintptr (a ! 6), 7 := conv_uintptr (a ! 7),
             8 := conv_uintptr (a ! 8), 9 := conv_uintptr (a ! 9), 10 := conv_uintptr (a ! 10),
             11 := conv_uintptr (a ! 11), 12 := conv_uintptr (a ! 13)]),
         impl_floats = (\<lambda>a. zeros8[0 := ucast (Float32bits (a ! 12))]), impl_keep = []\<rparr>
     else
        \<lparr>impl_params = [PWord, PWord, PWord, PWord, PWord, PWord, PWord, PWord, PWord, PWord, PWord,
            PWord, PF32, PWord], impl_result = False,
         impl_ints = (\<lambda>a. zeros15[0 := conv_uintptr (a ! 0), 1 := conv_uintptr (a ! 1),
             2 := conv_uintptr (a ! 2), 3 := conv_uintptr (a ! 3), 4 := conv_uintptr (a ! 4),
             5 := conv_uintptr (a ! 5), 6 := conv_uintptr (a ! 6), 7 := conv_uintptr (a ! 7),
             8 := conv_uintptr (a ! 8), 9 := conv_uintptr (a ! 9), 10 := conv_uintptr (a ! 10),
             11 := conv_uintptr (a ! 11), 12 := conv_uintptr (a ! 13)]),
         impl_floats = (\<lambda>a. zeros8[0 := ucast (Float32bits (a ! 12))]), impl_keep = []\<rparr>)"

definition interleaved_14 :: "nat \<Rightarrow> bool \<Rightarrow> fast_impl option" where
  "interleaved_14 floatPos hasReturn =
    (if floatPos = 0 then Some (interleaved_14_0 hasReturn)
     else if floatPos = 1 then Some (interleaved_14_1 hasReturn)
     else if floatPos = 2 then Some (interleaved_14_2 hasReturn)
     else if floatPos = 3 then Some (interleaved_14_3 hasReturn)
     else if floatPos = 4 then Some (interleaved_14_4 hasReturn)
     else if floatPos = 5 then Some (interleaved_14_5 hasReturn)
     else if floatPos = 6 then Some (interleaved_14_6 hasReturn)
     else if floatPos = 7 then Some (interleaved_14_7 hasReturn)
     else if floatPos = 8 then Some (interleaved_14_8 hasReturn)
     else if floatPos = 9 then Some (interleaved_14_9 hasReturn)
     else if floatPos = 10 then Some (interleaved_14_10 hasReturn)
     else if floatPos = 11 then Some (interleaved_14_11 hasReturn)
     else if floatPos = 12 then Some (interleaved_14_12 hasReturn)
     else None)"

definition interleaved_15_0 :: "bool \<Rightarrow> fast_impl" where [interleaved_wrappers]:
  "interleaved_15_0 hasReturn =
    (if hasReturn then
        \<lparr>impl_params = [PF32, PWord, PWord, PWord, PWord, PWord, PWord, PWord, PWord, PWord, PWord,
            PWord, PWord, PWord, PWord], impl_result = True,
         impl_ints = (\<lambda>a. zeros15[0 := conv_uintptr (a ! 1), 1 := conv_uintptr (a ! 2),
             2 := conv_uintptr (a ! 3), 3 := conv_uintptr (a ! 4), 4 := conv_uintptr (a ! 5),
             5 := conv_uintptr (a ! 6), 6 := conv_uintptr (a ! 7), 7 := conv_uintptr (a ! 8),
             8 := conv_uintptr (a ! 9), 9 := conv_uintptr (a ! 10), 10 := conv_uintptr (a ! 11),
             11 := conv_uintptr (a ! 12), 12 := conv_uintptr (a ! 13), 13 := conv_uintptr (a ! 14)]),
         impl_floats = (\<lambda>a. zeros8[0 := ucast (Float32bits (a ! 0))]), impl_keep = []\<rparr>
     else
        \<lparr>impl_params = [PF32, PWord, PWord, PWord, PWord, PWord, PWord, PWord, PWord, PWord, PWord,
            PWord, PWord, PWord, PWord], impl_result = False,
         impl_ints = (\<lambda>a. zeros15[0 := conv_uintptr (a ! 1), 1 := conv_uintptr (a ! 2),
             2 := conv_uintptr (a ! 3), 3 := conv_uintptr (a ! 4), 4 := conv_uintptr (a ! 5),
             5 := conv_uintptr (a ! 6), 6 := conv_uintptr (a ! 7), 7 := conv_uintptr (a ! 8),
             8 := conv_uintptr (a ! 9), 9 := conv_uintptr (a ! 10), 10 := conv_uintptr (a ! 11),
             11 := conv_uintptr (a ! 12), 12 := conv_uintptr (a ! 13), 13 := conv_uintptr (a ! 14)]),
         impl_floats = (\<lambda>a. zeros8[0 := ucast (Float32bits (a ! 0))]), impl_keep = []\<rparr>)"

definition interleaved_15_1 :: "bool \<Rightarrow> fast_impl" where [interleaved_wrappers]:
  "interleaved_15_1 hasReturn =
    (if hasReturn then
        \<lparr>impl_params = [PWord, PF32, PWord, PWord, PWord, PWord, PWord, PWord, PWord, PWord, PWord,
            PWord, PWord, PWord, PWord], impl_result = True,
         impl_ints = (\<lambda>a. zeros15[0 := conv_uintptr (a ! 0), 1 := conv_uintptr (a ! 2),
             2 := conv_uintptr (a ! 3), 3 := conv_uintptr (a ! 4), 4 := conv_uintptr (a ! 5),
             5 := conv_uintptr (a ! 6), 6 := conv_uintptr (a ! 7), 7 := conv_uintptr (a ! 8),
             8 := conv_uintptr (a ! 9), 9 := conv_uintptr (a ! 10), 10 := conv_uintptr (a ! 11),
             11 := conv_uintptr (a ! 12), 12 := conv_uintptr (a ! 13), 13 := conv_uintptr (a ! 14)]),
         impl_floats = (\<lambda>a. zeros8[0 := ucast (Float32bits (a ! 1))]), impl_keep = []\<rparr>
     else
        \<lparr>impl_params = [PWord, PF32, PWord, PWord, PWord, PWord, PWord, PWord, PWord, PWord, PWord,
            PWord, PWord, PWord, PWord], impl_result = False,
         impl_ints = (\<lambda>a. zeros15[0 := conv_uintptr (a ! 0), 1 := conv_uintptr (a ! 2),
             2 := conv_uintptr (a ! 3), 3 := conv_uintptr (a ! 4), 4 := conv_uintptr (a ! 5),
             5 := conv_uintptr (a ! 6), 6 := conv_uintptr (a ! 7), 7 := conv_uintptr (a ! 8),
             8 := conv_uintptr (a ! 9), 9 := conv_uintptr (a ! 10), 10 := conv_uintptr (a ! 11),
             11 := conv_uintptr (a ! 12), 12 := conv_uintptr (a ! 13), 13 := conv_uintptr (a ! 14)]),
         impl_floats = (\<lambda>a. zeros8[0 := ucast (Float32bits (a ! 1))]), impl_keep = []\<rparr>)"

definition interleaved_15_2 :: "bool \<Rightarrow> fast_impl" where [interleaved_wrappers]:
  "interleaved_15_2 hasReturn =
    (if hasReturn then
        \<lparr>impl_params = [PWord, PWord, PF32, PWord, PWord, PWord, PWord, PWord, PWord, PWord, PWord,
            PWord, PWord, PWord, PWord], impl_result = True,
         impl_ints = (\<lambda>a. zeros15[0 := conv_uintptr (a ! 0), 1 := conv_uintptr (a ! 1),
             2 := conv_uintptr (a ! 3), 3 := conv_uintptr (a ! 4), 4 := conv_uintptr (a ! 5),
             5 := conv_uintptr (a ! 6), 6 := conv_uintptr (a ! 7), 7 := conv_uintptr (a ! 8),
             8 := conv_uintptr (a ! 9), 9 := conv_uintptr (a ! 10), 10 := conv_uintptr (a ! 11),
             11 := conv_uintptr (a ! 12), 12 := conv_uintptr (a ! 13), 13 := conv_uintptr (a ! 14)]),
         impl_floats = (\<lambda>a. zeros8[0 := ucast (Float32bits (a ! 2))]), impl_keep = []\<rparr>
     else
        \<lparr>impl_params = [PWord, PWord, PF32, PWord, PWord, PWord, PWord, PWord, PWord, PWord, PWord,
            PWord, PWord, PWord, PWord], impl_result = False,
         impl_ints = (\<lambda>a. zeros15[0 := conv_uintptr (a ! 0), 1 := conv_uintptr (a ! 1),
             2 := conv_uintptr (a ! 3), 3 := conv_uintptr (a ! 4), 4 := conv_uintptr (a ! 5),
             5 := conv_uintptr (a ! 6), 6 := conv_uintptr (a ! 7), 7 := conv_uintptr (a ! 8),
             8 := conv_uintptr (a ! 9), 9 := conv_uintptr (a ! 10), 10 := conv_uintptr (a ! 11),
             11 := conv_uintptr (a ! 12), 12 := conv_uintptr (a ! 13), 13 := conv_uintptr (a ! 14)]),
         impl_floats = (\<lambda>a. zeros8[0 := ucast (Float32bits (a ! 2))]), impl_keep = []\<rparr>)"

definition interleaved_15_3 :: "bool \<Rightarrow> fast_impl" where [interleaved_wrappers]:
  "interleaved_15_3 hasReturn =
    (if hasReturn then
        \<lparr>impl_params = [PWord, PWord, PWord, PF32, PWord, PWord, PWord, PWord, PWord, PWord, PWord,
            PWord, PWord, PWord, PWord], impl_result = True,
         impl_ints = (\<lambda>a. zeros15[0 := conv_uintptr (a ! 0), 1 := conv_uintptr (a ! 1),
             2 := conv_uintptr (a ! 2), 3 := conv_uintptr (a ! 4), 4 := conv_uintptr (a ! 5),
             5 := conv_uintptr (a ! 6), 6 := conv_uintptr (a ! 7), 7 := conv_uintptr (a ! 8),
             8 := conv_uintptr (a ! 9), 9 := conv_uintptr (a ! 10), 10 := conv_uintptr (a ! 11),
             11 := conv_uintptr (a ! 12), 12 := conv_uintptr (a ! 13), 13 := conv_uintptr (a ! 14)]),
         impl_floats = (\<lambda>a. zeros8[0 := ucast (Float32bits (a ! 3))]), impl_keep = []\<rparr>
     else
        \<lparr>impl_params = [PWord, PWord, PWord, PF32, PWord, PWord, PWord, PWord, PWord, PWord, PWord,
            PWord, PWord, PWord, PWord], impl_result = False,
         impl_ints = (\<lambda>a. zeros15[0 := conv_uintptr (a ! 0), 1 := conv_uintptr (a ! 1),
             2 := conv_uintptr (a ! 2), 3 := conv_uintptr (a ! 4), 4 := conv_uintptr (a ! 5),
             5 := conv_uintptr (a ! 6), 6 := conv_uintptr (a ! 7), 7 := conv_uintptr (a ! 8),
             8 := conv_uintptr (a ! 9), 9 := conv_uintptr (a ! 10), 10 := conv_uintptr (a ! 11),
             11 := conv_uintptr (a ! 12), 12 := conv_uintptr (a ! 13), 13 := conv_uintptr (a ! 14)]),
         impl_floats = (\<lambda>a. zeros8[0 := ucast (Float32bits (a ! 3))]), impl_keep = []\<rparr>)"

definition interleaved_15_4 :: "bool \<Rightarrow> fast_impl" where [interleaved_wrappers]:
  "interleaved_15_4 hasReturn =
    (if hasReturn then
        \<lparr>impl_params = [PWord, PWord, PWord, PWord, PF32, PWord, PWord, PWord, PWord, PWord, PWord,
            PWord, PWord, PWord, PWord], impl_result = True,
         impl_ints = (\<lambda>a. zeros15[0 := conv_uintptr (a ! 0), 1 := conv_uintptr (a ! 1),
             2 := conv_uintptr (a ! 2), 3 := conv_uintptr (a ! 3), 4 := conv_uintptr (a ! 5),
             5 := conv_uintptr (a ! 6), 6 := conv_uintptr (a ! 7), 7 := conv_uintptr (a ! 8),
             8 := conv_uintptr (a ! 9), 9 := conv_uintptr (a ! 10), 10 := conv_uintptr (a ! 11),
             11 := conv_uintptr (a ! 12), 12 := conv_uintptr (a ! 13), 13 := conv_uintptr (a ! 14)]),
         impl_floats = (\<lambda>a. zeros8[0 := ucast (Float32bits (a ! 4))]), impl_keep = []\<rparr>
     else
        \<lparr>impl_params = [PWord, PWord, PWord, PWord, PF32, PWord, PWord, PWord, PWord, PWord, PWord,
            PWord, PWord, PWord, PWord], impl_result = False,
         impl_ints = (\<lambda>a. zeros15[0 := conv_uintptr (a ! 0), 1 := conv_uintptr (a ! 1),
             2 := conv_uintptr (a ! 2), 3 := conv_uintptr (a ! 3), 4 := conv_uintptr (a ! 5),
             5 := conv_uintptr (a ! 6), 6 := conv_uintptr (a ! 7), 7 := conv_uintptr (a ! 8),
             8 := conv_uintptr (a ! 9), 9 := conv_uintptr (a ! 10), 10 := conv_uintptr (a ! 11),
             11 := conv_uintptr (a ! 12), 12 := conv_uintptr (a ! 13), 13 := conv_uintptr (a ! 14)]),
         impl_floats = (\<lambda>a. zeros8[0 := ucast (Float32bits (a ! 4))]), impl_keep = []\<rparr>)"

definition interleaved_15_5 :: "bool \<Rightarrow> fast_impl" where [interleaved_wrappers]:
  "interleaved_15_5 hasReturn =
    (if hasReturn then
        \<lparr>impl_params = [PWord, PWord, PWord, PWord, PWord, PF32, PWord, PWord, PWord, PWord, PWord,
            PWord, PWord, PWord, PWord], impl_result = True,
         impl_ints = (\<lambda>a. zeros15[0 := conv_uintptr (a ! 0), 1 := conv_uintptr (a ! 1),
             2 := conv_uintptr (a ! 2), 3 := conv_uintptr (a ! 3), 4 := conv_uintptr (a ! 4),
             5 := conv_uintptr (a ! 6), 6 := conv_uintptr (a ! 7), 7 := conv_uintptr (a ! 8),
             8 := conv_uintptr (a ! 9), 9 := conv_uintptr (a ! 10), 10 := conv_uintptr (a ! 11),
             11 := conv_uintptr (a ! 12), 12 := conv_uintptr (a ! 13), 13 := conv_uintptr (a ! 14)]),
         impl_floats = (\<lambda>a. zeros8[0 := ucast (Float32bits (a ! 5))]), impl_keep = []\<rparr>
     else
        \<lparr>impl_params = [PWord, PWord, PWord, PWord, PWord, PF32, PWord, PWord, PWord, PWord, PWord,
            PWord, PWord, PWord, PWord], impl_result = False,
         impl_ints = (\<lambda>a. zeros15[0 := conv_uintptr (a ! 0), 1 := conv_uintptr (a ! 1),
             2 := conv_uintptr (a ! 2), 3 := conv_uintptr (a ! 3), 4 := conv_uintptr (a ! 4),
             5 := conv_uintptr (a ! 6), 6 := conv_uintptr (a ! 7), 7 := conv_uintptr (a ! 8),
             8 := conv_uintptr (a ! 9), 9 := conv_uintptr (a ! 10), 10 := conv_uintptr (a ! 11),
             11 := conv_uintptr (a ! 12), 12 := conv_uintptr (a ! 13), 13 := conv_uintptr (a ! 14)]),
         impl_floats = (\<lambda>a. zeros8[0 := ucast (Float32bits (a ! 5))]), impl_keep = []\<rparr>)"

definition interleaved_15_6 :: "bool \<Rightarrow> fast_impl" where [interleaved_wrappers]:
  "interleaved_15_6 hasReturn =
    (if hasReturn then
        \<lparr>impl_params = [PWord, PWord, PWord, PWord, PWord, PWord, PF32, PWord, PWord, PWord, PWord,
            PWord, PWord, PWord, PWord], impl_result = True,
         impl_ints = (\<lambda>a. zeros15[0 := conv_uintptr (a ! 0), 1 := conv_uintptr (a ! 1),
             2 := conv_uintptr (a ! 2), 3 := conv_uintptr (a ! 3), 4 := conv_uintptr (a ! 4),
             5 := conv_uintptr (a ! 5), 6 := conv_uintptr (a ! 7), 7 := conv_uintptr (a ! 8),
             8 := conv_uintptr (a ! 9), 9 := conv_uintptr (a ! 10), 10 := conv_uintptr (a ! 11),
             11 := conv_uintptr (a ! 12), 12 := conv_uintptr (a ! 13), 13 := conv_uintptr (a ! 14)]),
         impl_floats = (\<lambda>a. zeros8[0 := ucast (Float32bits (a ! 6))]), impl_keep = []\<rparr>
     else
        \<lparr>impl_params = [PWord, PWord, PWord, PWord, PWord, PWord, PF32, PWord, PWord, PWord, PWord,
            PWord, PWord, PWord, PWord], impl_result = False,
         impl_ints = (\<lambda>a. zeros15[0 := conv_uintptr (a ! 0), 1 := conv_uintptr (a ! 1),
             2 := conv_uintptr (a ! 2), 3 := conv_uintptr (a ! 3), 4 := conv_uintptr (a ! 4),
             5 := conv_uintptr (a ! 5), 6 := conv_uintptr (a ! 7), 7 := conv_uintptr (a ! 8),
             8 := conv_uintptr (a ! 9), 9 := conv_uintptr (a ! 10), 10 := conv_uintptr (a ! 11),
             11 := conv_uintptr (a ! 12), 12 := conv_uintptr (a ! 13), 13 := conv_uintptr (a ! 14)]),
         impl_floats = (\<lambda>a. zeros8[0 := ucast (Float32bits (a ! 6))]), impl_keep = []\<rparr>)"

definition interleaved_15_7 :: "bool \<Rightarrow> fast_impl" where [interleaved_wrappers]:
  "interleaved_15_7 hasReturn =
    (if hasReturn then
        \<lparr>impl_params = [PWord, PWord, PWord, PWord, PWord, PWord, PWord, PF32, PWord, PWord, PWord,
            PWord, PWord, PWord, PWord], impl_result = True,
         impl_ints = (\<lambda>a. zeros15[0 := conv_uintptr (a ! 0), 1 := conv_uintptr (a ! 1),
             2 := conv_uintptr (a ! 2), 3 := conv_uintptr (a ! 3), 4 := conv_uintptr (a ! 4),
             5 := conv_uintptr (a ! 5), 6 := conv_uintptr (a ! 6), 7 := conv_uintptr (a ! 8),
             8 := conv_uintptr (a ! 9), 9 := conv_uintptr (a ! 10), 10 := conv_uintptr (a ! 11),
             11 := conv_uintptr (a ! 12), 12 := conv_uintptr (a ! 13), 13 := conv_uintptr (a ! 14)]),
         impl_floats = (\<lambda>a. zeros8[0 := ucast (Float32bits (a ! 7))]), impl_keep = []\<rparr>
     else
        \<lparr>impl_params = [PWord, PWord, PWord, PWord, PWord, PWord, PWord, PF32, PWord, PWord, PWord,
            PWord, PWord, PWord, PWord], impl_result = False,
         impl_ints = (\<lambda>a. zeros15[0 := conv_uintptr (a ! 0), 1 := conv_uintptr (a ! 1),
             2 := conv_uintptr (a ! 2), 3 := conv_uintptr (a ! 3), 4 := conv_uintptr (a ! 4),
             5 := conv_uintptr (a ! 5), 6 := conv_uintptr (a ! 6), 7 := conv_uintptr (a ! 8),
             8 := conv_uintptr (a ! 9), 9 := conv_uintptr (a ! 10), 10 := conv_uintptr (a ! 11),
             11 := conv_uintptr (a ! 12), 12 := conv_uintptr (a ! 13), 13 := conv_uintptr (a ! 14)]),
         impl_floats = (\<lambda>a. zeros8[0 := ucast (Float32bits (a ! 7))]), impl_keep = []\<rparr>)"

definition interleaved_15_8 :: "bool \<Rightarrow> fast_impl" where [interleaved_wrappers]:
  "interleaved_15_8 hasReturn =
    (if hasReturn then
        \<lparr>impl_params = [PWord, PWord, PWord, PWord, PWord, PWord, PWord, PWord, PF32, PWord, PWord,
            PWord, PWord, PWord, PWord], impl_result = True,
         impl_ints = (\<lambda>a. zeros15[0 := conv_uintptr (a ! 0), 1 := conv_uintptr (a ! 1),
             2 := conv_uintptr (a ! 2), 3 := conv_uintptr (a ! 3), 4 := conv_uintptr (a ! 4),
             5 := conv_uintptr (a ! 5), 6 := conv_uintptr (a ! 6), 7 := conv_uintptr (a ! 7),
             8 := conv_uintptr (a ! 9), 9 := conv_uintptr (a ! 10), 10 := conv_uintptr (a ! 11),
             11 := conv_uintptr (a ! 12), 12 := conv_uintptr (a ! 13), 13 := conv_uintptr (a ! 14)]),
         impl_floats = (\<lambda>a. zeros8[0 := ucast (Float32bits (a ! 8))]), impl_keep = []\<rparr>
     else
        \<lparr>impl_params = [PWord, PWord, PWord, PWord, PWord, PWord, PWord, PWord, PF32, PWord, PWord,
            PWord, PWord, PWord, PWord], impl_result = False,
         impl_ints = (\<lambda>a. zeros15[0 := conv_uintptr (a ! 0), 1 := conv_uintptr (a ! 1),
             2 := conv_uintptr (a ! 2), 3 := conv_uintptr (a ! 3), 4 := conv_uintptr (a ! 4),
             5 := conv_uintptr (a ! 5), 6 := conv_uintptr (a ! 6), 7 := conv_uintptr (a ! 7),
             8 := conv_uintptr (a ! 9), 9 := conv_uintptr (a ! 10), 10 := conv_uintptr (a ! 11),
             11 := conv_uintptr (a ! 12), 12 := conv_uintptr (a ! 13), 13 := conv_uintptr (a ! 14)]),
         impl_floats = (\<lambda>a. zeros8[0 := ucast (Float32bits (a ! 8))]), impl_keep = []\<rparr>)"

definition interleaved_15_9 :: "bool \<Rightarrow> fast_impl" where [interleaved_wrappers]:
  "interleaved_15_9 hasReturn =
    (if hasReturn then
        \<lparr>impl_params = [PWord, PWord, PWord, PWord, PWord, PWord, PWord, PWord, PWord, PF32, PWord,
            PWord, PWord, PWord, PWord], impl_result = True,
         impl_ints = (\<lambda>a. zeros15[0 := conv_uintptr (a ! 0), 1 := conv_uintptr (a ! 1),
             2 := conv_uintptr (a ! 2), 3 := conv_uintptr (a ! 3), 4 := conv_uintptr (a ! 4),
             5 := conv_uintptr (a ! 5), 6 := conv_uintptr (a ! 6), 7 := conv_uintptr (a ! 7),
             8 := conv_uintptr (a ! 8), 9 := conv_uintptr (a ! 10), 10 := conv_uintptr (a ! 11),
             11 := conv_uintptr (a ! 12), 12 := conv_uintptr (a ! 13), 13 := conv_uintptr (a ! 14)]),
         impl_floats = (\<lambda>a. zeros8[0 := ucast (Float32bits (a ! 9))]), impl_keep = []\<rparr>
     else
        \<lparr>impl_params = [PWord, PWord, PWord, PWord, PWord, PWord, PWord, PWord, PWord, PF32, PWord,
            PWord, PWord, PWord, PWord], impl_result = False,
         impl_ints = (\<lambda>a. zeros15[0 := conv_uintptr (a ! 0), 1 := conv_uintptr (a ! 1),
             2 := conv_uintptr (a ! 2), 3 := conv_uintptr (a ! 3), 4 := conv_uintptr (a ! 4),
             5 := conv_uintptr (a ! 5), 6 := conv_uintptr (a ! 6), 7 := conv_uintptr (a ! 7),
             8 := conv_uintptr (a ! 8), 9 := conv_uintptr (a ! 10), 10 := conv_uintptr (a ! 11),
             11 := conv_uintptr (a ! 12), 12 := conv_uintptr (a ! 13), 13 := conv_uintptr (a ! 14)]),
         impl_floats = (\<lambda>a. zeros8[0 := ucast (Float32bits (a ! 9))]), impl_keep = []\<rparr>)"

definition interleaved_15_10 :: "bool \<Rightarrow> fast_impl" where [interleaved_wrappers]:
  "interleaved_15_10 hasReturn =
    (if hasReturn then
        \<lparr>impl_params = [PWord, PWord, PWord, PWord, PWord, PWord, PWord, PWord, PWord, PWord, PF32,
            PWord, PWord, PWord, PWord], impl_result = True,
         impl_ints = (\<lambda>a. zeros15[0 := conv_uintptr (a ! 0), 1 := conv_uintptr (a ! 1),
             2 := conv_uintptr (a ! 2), 3 := conv_uintptr (a ! 3), 4 := conv_uintptr (a ! 4),
             5 := conv_uintptr (a ! 5), 6 := conv_uintptr (a ! 6), 7 := conv_uintptr (a ! 7),
             8 := conv_uintptr (a ! 8), 9 := conv_uintptr (a ! 9), 10 := conv_uintptr (a ! 11),
             11 := conv_uintptr (a ! 12), 12 := conv_uintptr (a ! 13), 13 := conv_uintptr (a ! 14)]),
         impl_floats = (\<lambda>a. zeros8[0 := ucast (Float32bits (a ! 10))]), impl_keep = []\<rparr>
     else
        \<lparr>impl_params = [PWord, PWord, PWord, PWord, PWord, PWord, PWord, PWord, PWord, PWord, PF32,
            PWord, PWord, PWord, PWord], impl_result = False,
         impl_ints = (\<lambda>a. zeros15[0 := conv_uintptr (a ! 0), 1 := conv_uintptr (a ! 1),
             2 := conv_uintptr (a ! 2), 3 := conv_uintptr (a ! 3), 4 := conv_uintptr (a ! 4),
             5 := conv_uintptr (a ! 5), 6 := conv_uintptr (a ! 6), 7 := conv_uintptr (a ! 7),
             8 := conv_uintptr (a ! 8), 9 := conv_uintptr (a ! 9), 10 := conv_uintptr (a ! 11),
             11 := conv_uintptr (a ! 12), 12 := conv_uintptr (a ! 13), 13 := conv_uintptr (a ! 14)]),
         impl_floats = (\<lambda>a. zeros8[0 := ucast (Float32bits (a ! 10))]), impl_keep = []\<rparr>)"

definition interleaved_15_11 :: "bool \<Rightarrow> fast_impl" where [interleaved_wrappers]:
  "interleaved_15_11 hasReturn =
    (if hasReturn then
        \<lparr>impl_params = [PWord, PWord, PWord, PWord, PWord, PWord, PWord, PWord, PWord, PWord, PWord,
            PF32, PWord, PWord, PWord], impl_result = True,
         impl_ints = (\<lambda>a. zeros15[0 := conv_uintptr (a ! 0), 1 := conv_uintptr (a ! 1),
             2 := conv_uintptr (a ! 2), 3 := conv_uintptr (a ! 3), 4 := conv_uintptr (a ! 4),
             5 := conv_uintptr (a ! 5), 6 := conv_uintptr (a ! 6), 7 := conv_uintptr (a ! 7),
             8 := conv_uintptr (a ! 8), 9 := conv_uintptr (a ! 9), 10 := conv_uintptr (a ! 10),
             11 := conv_uintptr (a ! 12), 12 := conv_uintptr (a ! 13), 13 := conv_uintptr (a ! 14)]),
         impl_floats = (\<lambda>a. zeros8[0 := ucast (Float32bits (a ! 11))]), impl_keep = []\<rparr>
     else
        \<lparr>impl_params = [PWord, PWord, PWord, PWord, PWord, PWord, PWord, PWord, PWord, PWord, PWord,
            PF32, PWord, PWord, PWord], impl_result = False,
         impl_ints = (\<lambda>a. zeros15[0 := conv_uintptr (a ! 0), 1 := conv_uintptr (a ! 1),
             2 := conv_uintptr (a ! 2), 3 := conv_uintptr (a ! 3), 4 := conv_uintptr (a ! 4),
             5 := conv_uintptr (a ! 5), 6 := conv_uintptr (a ! 6), 7 := conv_uintptr (a ! 7),
             8 := conv_uintptr (a ! 8), 9 := conv_uintptr (a ! 9), 10 := conv_uintptr (a ! 10),
             11 := conv_uintptr (a ! 12), 12 := conv_uintptr (a ! 13), 13 := conv_uintptr (a ! 14)]),
         impl_floats = (\<lambda>a. zeros8[0 := ucast (Float32bits (a ! 11))]), impl_keep = []\<rparr>)"

definition interleaved_15_12 :: "bool \<Rightarrow> fast_impl" where [interleaved_wrappers]:
  "interleaved_15_12 hasReturn =
    (if hasReturn then
        \<lparr>impl_params = [PWord, PWord, PWord, PWord, PWord, PWord, PWord, PWord, PWord, PWord, PWord,
            PWord, PF32, PWord, PWord], impl_result = True,
         impl_ints = (\<lambda>a. zeros15[0 := conv_uintptr (a ! 0), 1 := conv_uintptr (a ! 1),
             2 := conv_uintptr (a ! 2), 3 := conv_uintptr (a ! 3), 4 := conv_uintptr (a ! 4),
             5 := conv_uintptr (a ! 5), 6 := conv_uintptr (a ! 6), 7 := conv_uintptr (a ! 7),
             8 := conv_uintptr (a ! 8), 9 := conv_uintptr (a ! 9), 10 := conv_uintptr (a ! 10),
             11 := conv_uintptr (a ! 11), 12 := conv_uintptr (a ! 13), 13 := conv_uintptr (a ! 14)]),
         impl_floats = (\<lambda>a. zeros8[0 := ucast (Float32bits (a ! 12))]), impl_keep = []\<rparr>
     else
        \<lparr>impl_params = [PWord, PWord, PWord, PWord, PWord, PWord, PWord, PWord, PWord, PWord, PWord,
            PWord, PF32, PWord, PWord], impl_result = False,
         impl_ints = (\<lambda>a. zeros15[0 := conv_uintptr (a ! 0), 1 := conv_uintptr (a ! 1),
             2 := conv_uintptr (a ! 2), 3 := conv_uintptr (a ! 3), 4 := conv_uintptr (a ! 4),
             5 := conv_uintptr (a ! 5), 6 := conv_uintptr (a ! 6), 7 := conv_uintptr (a ! 7),
             8 := conv_uintptr (a ! 8), 9 := conv_uintptr (a ! 9), 10 := conv_uintptr (a ! 10),
             11 := conv_uintptr (a ! 11), 12 := conv_uintptr (a ! 13), 13 := conv_uintptr (a ! 14)]),
         impl_floats = (\<lambda>a. zeros8[0 := ucast (Float32bits (a ! 12))]), impl_keep = []\<rparr>)"

definition interleaved_15_13 :: "bool \<Rightarrow> fast_impl" where [interleaved_wrappers]:
  "interleaved_15_13 hasReturn =
    (if hasReturn then
        \<lparr>impl_params = [PWord, PWord, PWord, PWord, PWord, PWord, PWord, PWord, PWord, PWord, PWord,
            PWord, PWord, PF32, PWord], impl_result = True,
         impl_ints = (\<lambda>a. zeros15[0 := conv_uintptr (a ! 0), 1 := conv_uintptr (a ! 1),
             2 := conv_uintptr (a ! 2), 3 := conv_uintptr (a ! 3), 4 := conv_uintptr (a ! 4),
             5 := conv_uintptr (a ! 5), 6 := conv_uintptr (a ! 6), 7 := conv_uintptr (a ! 7),
             8 := conv_uintptr (a ! 8), 9 := conv_uintptr (a ! 9), 10 := conv_uintptr (a ! 10),
             11 := conv_uintptr (a ! 11), 12 := conv_uintptr (a ! 12), 13 := conv_uintptr (a ! 14)]),
         impl_floats = (\<lambda>a. zeros8[0 := ucast (Float32bits (a ! 13))]), impl_keep = []\<rparr>
     else
        \<lparr>impl_params = [PWord, PWord, PWord, PWord, PWord, PWord, PWord, PWord, PWord, PWord, PWord,
            PWord, PWord, PF32, PWord], impl_result = False,
         impl_ints = (\<lambda>a. zeros15[0 := conv_uintptr (a ! 0), 1 := conv_uintptr (a ! 1),
             2 := conv_uintptr (a ! 2), 3 := conv_uintptr (a ! 3), 4 := conv_uintptr (a ! 4),
             5 := conv_uintptr (a ! 5), 6 := conv_uintptr (a ! 6), 7 := conv_uintptr (a ! 7),
             8 := conv_uintptr (a ! 8), 9 := conv_uintptr (a ! 9), 10 := conv_uintptr (a ! 10),
             11 := conv_uintptr (a ! 11), 12 := conv_uintptr (a ! 12), 13 := conv_uintptr (a ! 14)]),
         impl_floats = (\<lambda>a. zeros8[0 := ucast (Float32bits (a ! 13))]), impl_keep = []\<rparr>)"

definition interleaved_15 :: "nat \<Rightarrow> bool \<Rightarrow> fast_impl option" where
  "interleaved_15 floatPos hasReturn =
    (if floatPos = 0 then Some (interleaved_15_0 hasReturn)
     else if floatPos = 1 then Some (interleaved_15_1 hasReturn)
     else if floatPos = 2 then Some (interleaved_15_2 hasReturn)
     else if floatPos = 3 then Some (interleaved_15_3 hasReturn)
     else if floatPos = 4 then Some (interleaved_15_4 hasReturn)
     else if floatPos = 5 then Some (interleaved_15_5 hasReturn)
     else if floatPos = 6 then Some (interleaved_15_6 hasReturn)
     else if floatPos = 7 then Some (interleaved_15_7 hasReturn)
     else if floatPos = 8 then Some (interleaved_15_8 hasReturn)
     else if floatPos = 9 then Some (interleaved_15_9 hasReturn)
     else if floatPos = 10 then Some (interleaved_15_10 hasReturn)
     else if floatPos = 11 then Some (interleaved_15_11 hasReturn)
     else if floatPos = 12 then Some (interleaved_15_12 hasReturn)
     else if floatPos = 13 then Some (interleaved_15_13 hasReturn)
     else None)"

definition registerFastFuncInterleavedFloat32x1 :: "nat \<Rightarrow> nat \<Rightarrow> bool \<Rightarrow> fast_impl option" where
  "registerFastFuncInterleavedFloat32x1 totalArgs floatPos hasReturn =
    (if totalArgs = 2 then interleaved_2 floatPos hasReturn
     else if totalArgs = 3 then interleaved_3 floatPos hasReturn
     else if totalArgs = 4 then interleaved_4 floatPos hasReturn
     else if totalArgs = 5 then interleaved_5 floatPos hasReturn
     else if totalArgs = 6 then interleaved_6 floatPos hasReturn
     else if totalArgs = 7 then interleaved_7 floatPos hasReturn
     else if totalArgs = 8 then interleaved_8 floatPos hasReturn
     else if totalArgs = 9 then interleaved_9 floatPos hasReturn
     else if totalArgs = 10 then interleaved_10 floatPos hasReturn
     else if totalArgs = 11 then interleaved_11 floatPos hasReturn
     else if totalArgs = 12 then interleaved_12 floatPos hasReturn
     else if totalArgs = 13 then interleaved_13 floatPos hasReturn
     else if totalArgs = 14 then interleaved_14 floatPos hasReturn
     else if totalArgs = 15 then interleaved_15 floatPos hasReturn
     else None)"

section \<open>Each table is the one the generator specifies\<close>

definition emitInterleavedTable :: "nat \<Rightarrow> nat \<Rightarrow> bool \<Rightarrow> fast_impl option" where
  "emitInterleavedTable totalArgs floatPos ret =
     (if 2 \<le> totalArgs \<and> totalArgs \<le> 15 \<and> floatPos \<le> totalArgs - 2
      then Some (emitInterleaved totalArgs floatPos ret) else None)"

named_theorems interleaved_eqs "each generated table is the generator's table"

lemma pos_eqI:
  assumes "list_all (\<lambda>p. f p = g p) ps" and "[0..<n] = ps" and "n \<le> (p :: nat) \<Longrightarrow> f p = g p"
  shows "f p = g p"
  using assms by (cases "p < n") (auto simp: list_all_iff)

lemma interleaved_wrapper_eqs:
  "interleaved_2_0 r = emitInterleaved 2 0 r"
  "interleaved_3_0 r = emitInterleaved 3 0 r"
  "interleaved_3_1 r = emitInterleaved 3 1 r"
  "interleaved_4_0 r = emitInterleaved 4 0 r"
  "interleaved_4_1 r = emitInterleaved 4 1 r"
  "interleaved_4_2 r = emitInterleaved 4 2 r"
  "interleaved_5_0 r = emitInterleaved 5 0 r"
  "interleaved_5_1 r = emitInterleaved 5 1 r"
  "interleaved_5_2 r = emitInterleaved 5 2 r"
  "interleaved_5_3 r = emitInterleaved 5 3 r"
  "interleaved_6_0 r = emitInterleaved 6 0 r"
  "interleaved_6_1 r = emitInterleaved 6 1 r"
  "interleaved_6_2 r = emitInterleaved 6 2 r"
  "interleaved_6_3 r = emitInterleaved 6 3 r"
  "interleaved_6_4 r = emitInterleaved 6 4 r"
  "interleaved_7_0 r = emitInterleaved 7 0 r"
  "interleaved_7_1 r = emitInterleaved 7 1 r"
  "interleaved_7_2 r = emitInterleaved 7 2 r"
  "interleaved_7_3 r = emitInterleaved 7 3 r"
  "interleaved_7_4 r = emitInterleaved 7 4 r"
  "interleaved_7_5 r = emitInterleaved 7 5 r"
  "interleaved_8_0 r = emitInterleaved 8 0 r"
  "interleaved_8_1 r = emitInterleaved 8 1 r"
  "interleaved_8_2 r = emitInterleaved 8 2 r"
  "interleaved_8_3 r = emitInterleaved 8 3 r"
  "interleaved_8_4 r = emitInterleaved 8 4 r"
  "interleaved_8_5 r = emitInterleaved 8 5 r"
  "interleaved_8_6 r = emitInterleaved 8 6 r"
  "interleaved_9_0 r = emitInterleaved 9 0 r"
  "interleaved_9_1 r = emitInterleaved 9 1 r"
  "interleaved_9_2 r = emitInterleaved 9 2 r"
  "interleaved_9_3 r = emitInterleaved 9 3 r"
  "interleaved_9_4 r = emitInterleaved 9 4 r"
  "interleaved_9_5 r = emitInterleaved 9 5 r"
  "interleaved_9_6 r = emitInterleaved 9 6 r"
  "interleaved_9_7 r = emitInterleaved 9 7 r"
  "interleaved_10_0 r = emitInterleaved 10 0 r"
  "interleaved_10_1 r = emitInterleaved 10 1 r"
  "interleaved_10_2 r = emitInterleaved 10 2 r"
  "interleaved_10_3 r = emitInterleaved 10 3 r"
  "interleaved_10_4 r = emitInterleaved 10 4 r"
  "interleaved_10_5 r = emitInterleaved 10 5 r"
  "interleaved_10_6 r = emitInterleaved 10 6 r"
  "interleaved_10_7 r = emitInterleaved 10 7 r"
  "interleaved_10_8 r = emitInterleaved 10 8 r"
  "interleaved_11_0 r = emitInterleaved 11 0 r"
  "interleaved_11_1 r = emitInterleaved 11 1 r"
  "interleaved_11_2 r = emitInterleaved 11 2 r"
  "interleaved_11_3 r = emitInterleaved 11 3 r"
  "interleaved_11_4 r = emitInterleaved 11 4 r"
  "interleaved_11_5 r = emitInterleaved 11 5 r"
  "interleaved_11_6 r = emitInterleaved 11 6 r"
  "interleaved_11_7 r = emitInterleaved 11 7 r"
  "interleaved_11_8 r = emitInterleaved 11 8 r"
  "interleaved_11_9 r = emitInterleaved 11 9 r"
  "interleaved_12_0 r = emitInterleaved 12 0 r"
  "interleaved_12_1 r = emitInterleaved 12 1 r"
  "interleaved_12_2 r = emitInterleaved 12 2 r"
  "interleaved_12_3 r = emitInterleaved 12 3 r"
  "interleaved_12_4 r = emitInterleaved 12 4 r"
  "interleaved_12_5 r = emitInterleaved 12 5 r"
  "interleaved_12_6 r = emitInterleaved 12 6 r"
  "interleaved_12_7 r = emitInterleaved 12 7 r"
  "interleaved_12_8 r = emitInterleaved 12 8 r"
  "interleaved_12_9 r = emitInterleaved 12 9 r"
  "interleaved_12_10 r = emitInterleaved 12 10 r"
  "interleaved_13_0 r = emitInterleaved 13 0 r"
  "interleaved_13_1 r = emitInterleaved 13 1 r"
  "interleaved_13_2 r = emitInterleaved 13 2 r"
  "interleaved_13_3 r = emitInterleaved 13 3 r"
  "interleaved_13_4 r = emitInterleaved 13 4 r"
  "interleaved_13_5 r = emitInterleaved 13 5 r"
  "interleaved_13_6 r = emitInterleaved 13 6 r"
  "interleaved_13_7 r = emitInterleaved 13 7 r"
  "interleaved_13_8 r = emitInterleaved 13 8 r"
  "interleaved_13_9 r = emitInterleaved 13 9 r"
  "interleaved_13_10 r = emitInterleaved 13 10 r"
  "interleaved_13_11 r = emitInterleaved 13 11 r"
  "interleaved_14_0 r = emitInterleaved 14 0 r"
  "interleaved_14_1 r = emitInterleaved 14 1 r"
  "interleaved_14_2 r = emitInterleaved 14 2 r"
  "interleaved_14_3 r = emitInterleaved 14 3 r"
  "interleaved_14_4 r = emitInterleaved 14 4 r"
  "interleaved_14_5 r = emitInterleaved 14 5 r"
  "interleaved_14_6 r = emitInterleaved 14 6 r"
  "interleaved_14_7 r = emitInterleaved 14 7 r"
  "interleaved_14_8 r = emitInterleaved 14 8 r"
  "interleaved_14_9 r = emitInterleaved 14 9 r"
  "interleaved_14_10 r = emitInterleaved 14 10 r"
  "interleaved_14_11 r = emitInterleaved 14 11 r"
  "interleaved_14_12 r = emitInterleaved 14 12 r"
  "interleaved_15_0 r = emitInterleaved 15 0 r"
  "interleaved_15_1 r = emitInterleaved 15 1 r"
  "interleaved_15_2 r = emitInterleaved 15 2 r"
  "interleaved_15_3 r = emitInterleaved 15 3 r"
  "interleaved_15_4 r = emitInterleaved 15 4 r"
  "interleaved_15_5 r = emitInterleaved 15 5 r"
  "interleaved_15_6 r = emitInterleaved 15 6 r"
  "interleaved_15_7 r = emitInterleaved 15 7 r"
  "interleaved_15_8 r = emitInterleaved 15 8 r"
  "interleaved_15_9 r = emitInterleaved 15 9 r"
  "interleaved_15_10 r = emitInterleaved 15 10 r"
  "interleaved_15_11 r = emitInterleaved 15 11 r"
  "interleaved_15_12 r = emitInterleaved 15 12 r"
  "interleaved_15_13 r = emitInterleaved 15 13 r"
  by (simp_all add: interleaved_wrappers emitInterleaved_def eval_nat_numeral)

lemma interleaved_2_eq [interleaved_eqs]: "interleaved_2 p r = emitInterleavedTable 2 p r"
  by (rule pos_eqI [where n = 1, OF _ refl])
    (simp add: interleaved_2_def emitInterleavedTable_def interleaved_wrapper_eqs upt_rec; simp add: eval_nat_numeral)+

lemma interleaved_3_eq [interleaved_eqs]: "interleaved_3 p r = emitInterleavedTable 3 p r"
  by (rule pos_eqI [where n = 2, OF _ refl])
    (simp add: interleaved_3_def emitInterleavedTable_def interleaved_wrapper_eqs upt_rec; simp add: eval_nat_numeral)+

lemma interleaved_4_eq [interleaved_eqs]: "interleaved_4 p r = emitInterleavedTable 4 p r"
  by (rule pos_eqI [where n = 3, OF _ refl])
    (simp add: interleaved_4_def emitInterleavedTable_def interleaved_wrapper_eqs upt_rec; simp add: eval_nat_numeral)+

lemma interleaved_5_eq [interleaved_eqs]: "interleaved_5 p r = emitInterleavedTable 5 p r"
  by (rule pos_eqI [where n = 4, OF _ refl])
    (simp add: interleaved_5_def emitInterleavedTable_def interleaved_wrapper_eqs upt_rec; simp add: eval_nat_numeral)+

lemma interleaved_6_eq [interleaved_eqs]: "interleaved_6 p r = emitInterleavedTable 6 p r"
  by (rule pos_eqI [where n = 5, OF _ refl])
    (simp add: interleaved_6_def emitInterleavedTable_def interleaved_wrapper_eqs upt_rec; simp add: eval_nat_numeral)+

lemma interleaved_7_eq [interleaved_eqs]: "interleaved_7 p r = emitInterleavedTable 7 p r"
  by (rule pos_eqI [where n = 6, OF _ refl])
    (simp add: interleaved_7_def emitInterleavedTable_def interleaved_wrapper_eqs upt_rec; simp add: eval_nat_numeral)+

lemma interleaved_8_eq [interleaved_eqs]: "interleaved_8 p r = emitInterleavedTable 8 p r"
  by (rule pos_eqI [where n = 7, OF _ refl])
    (simp add: interleaved_8_def emitInterleavedTable_def interleaved_wrapper_eqs upt_rec; simp add: eval_nat_numeral)+

lemma interleaved_9_eq [interleaved_eqs]: "interleaved_9 p r = emitInterleavedTable 9 p r"
  by (rule pos_eqI [where n = 8, OF _ refl])
    (simp add: interleaved_9_def emitInterleavedTable_def interleaved_wrapper_eqs upt_rec; simp add: eval_nat_numeral)+

lemma interleaved_10_eq [interleaved_eqs]: "interleaved_10 p r = emitInterleavedTable 10 p r"
  by (rule pos_eqI [where n = 9, OF _ refl])
    (simp add: interleaved_10_def emitInterleavedTable_def interleaved_wrapper_eqs upt_rec; simp add: eval_nat_numeral)+

lemma interleaved_11_eq [interleaved_eqs]: "interleaved_11 p r = emitInterleavedTable 11 p r"
  by (rule pos_eqI [where n = 10, OF _ refl])
    (simp add: interleaved_11_def emitInterleavedTable_def interleaved_wrapper_eqs upt_rec; simp add: eval_nat_numeral)+

lemma interleaved_12_eq [interleaved_eqs]: "interleaved_12 p r = emitInterleavedTable 12 p r"
  by (rule pos_eqI [where n = 11, OF _ refl])
    (simp add: interleaved_12_def emitInterleavedTable_def interleaved_wrapper_eqs upt_rec; simp add: eval_nat_numeral)+

lemma interleaved_13_eq [interleaved_eqs]: "interleaved_13 p r = emitInterleavedTable 13 p r"
  by (rule pos_eqI [where n = 12, OF _ refl])
    (simp add: interleaved_13_def emitInterleavedTable_def interleaved_wrapper_eqs upt_rec; simp add: eval_nat_numeral)+

lemma interleaved_14_eq [interleaved_eqs]: "interleaved_14 p r = emitInterleavedTable 14 p r"
  by (rule pos_eqI [where n = 13, OF _ refl])
    (simp add: interleaved_14_def emitInterleavedTable_def interleaved_wrapper_eqs upt_rec; simp add: eval_nat_numeral)+

lemma interleaved_15_eq [interleaved_eqs]: "interleaved_15 p r = emitInterleavedTable 15 p r"
  by (rule pos_eqI [where n = 14, OF _ refl])
    (simp add: interleaved_15_def emitInterleavedTable_def interleaved_wrapper_eqs upt_rec; simp add: eval_nat_numeral)+

lemma registerInterleaved_eq:
  "registerFastFuncInterleavedFloat32x1 totalArgs floatPos hasReturn =
     emitInterleavedTable totalArgs floatPos hasReturn"
proof (rule count_eqI [of "\<lambda>n. registerFastFuncInterleavedFloat32x1 n floatPos hasReturn"])
  have "[0..<16] = [0, 1, 2, 3, 4, 5, 6, 7, 8, 9, 10, 11, 12, 13, 14, 15::nat]"
    by code_simp
  then show "list_all (\<lambda>n. registerFastFuncInterleavedFloat32x1 n floatPos hasReturn =
      emitInterleavedTable n floatPos hasReturn) [0..<16]"
    by (simp add: registerFastFuncInterleavedFloat32x1_def interleaved_eqs)
      (simp add: emitInterleavedTable_def)
qed (simp add: registerFastFuncInterleavedFloat32x1_def emitInterleavedTable_def)

text \<open>
  Property C10. The generated tables for one \<open>float32\<close> between integers cover every count from 2 to 15
  and every position but the last, each with the wrapper that numbers the integers around the float.
\<close>

theorem registerInterleaved_generated:
  "registerFastFuncInterleavedFloat32x1 totalArgs floatPos hasReturn =
     emitInterleavedTable totalArgs floatPos hasReturn"
  by (rule registerInterleaved_eq)

end
