(* ===== verification/FastPath.thy ===== *)
theory FastPath
  imports FastInterleaved
begin

text \<open>
  \<open>tryRegisterFastPath\<close> of \<^verbatim>\<open>zz_fast_func.go\<close> (and its stub on the other targets): the decision
  whether a function signature gets a generated wrapper, and which. The properties say that the
  wrapper fits the declared signature slot for slot, that native code receives the declared
  arguments in the declared order, and exactly which signatures qualify.
\<close>

section \<open>The decision\<close>

definition word_kinds :: "kind list" where
  "word_kinds = [KUintptr, KUint, KUint64, KInt, KInt64, KPointer, KUnsafePointer]"

definition float_kinds :: "kind list" where
  "float_kinds = [KFloat32, KFloat64]"

definition fast_result_kinds :: "kind list" where
  "fast_result_kinds = [KUintptr, KUint, KUint8, KUint16, KUint32, KUint64,
     KInt, KInt8, KInt16, KInt32, KInt64, KBool, KPointer, KUnsafePointer]"

definition is_ptr_kind :: "kind \<Rightarrow> bool" where
  "is_ptr_kind k \<longleftrightarrow> k = KPointer \<or> k = KUnsafePointer"

text \<open>The variables of the loop over the parameters.\<close>

record scan =
  numFloats :: nat
  numInts :: nat
  scan_ptrMask :: u32
  trailingFloats :: bool
  seenFloat :: bool
  scan_floatPos :: int

definition scan0 :: scan where
  "scan0 = \<lparr>numFloats = 0, numInts = 0, scan_ptrMask = 0, trailingFloats = True, seenFloat = False,
     scan_floatPos = -1\<rparr>"

definition scan_param :: "nat \<Rightarrow> kind \<Rightarrow> scan \<Rightarrow> scan option" where
  "scan_param i k s =
     (if k \<in> set word_kinds then
        Some (let s = (if seenFloat s then s\<lparr>trailingFloats := False\<rparr> else s);
                  s = (if is_ptr_kind k then s\<lparr>scan_ptrMask := or (scan_ptrMask s) (push_bit (numInts s) 1)\<rparr> else s)
              in s\<lparr>numInts := numInts s + 1\<rparr>)
      else if k \<in> set float_kinds then
        Some (let s = (if \<not> seenFloat s then s\<lparr>scan_floatPos := int i\<rparr> else s)
              in s\<lparr>seenFloat := True, numFloats := numFloats s + 1\<rparr>)
      else None)"

fun scan_params :: "nat \<Rightarrow> kind list \<Rightarrow> scan \<Rightarrow> scan option" where
  "scan_params i [] s = Some s"
| "scan_params i (k # ks) s =
     (case scan_param i k s of None \<Rightarrow> None | Some s' \<Rightarrow> scan_params (i + 1) ks s')"

text \<open>
  The result is the new value of the function variable, if one was installed, and the boolean the
  function returns.
\<close>

definition tryRegisterFastPath :: "goos \<Rightarrow> goarch \<Rightarrow> go_type \<Rightarrow> fast_impl option \<times> bool" where
  "tryRegisterFastPath os arch ty =
    (if \<not> ((arch = AMD64 \<or> arch = ARM64) \<and> os \<noteq> Windows) then (None, False)
     else if 15 < NumIn ty then (None, False)
     else case scan_params 0 (map Kind (func_ins ty)) scan0 of None \<Rightarrow> (None, False) | Some s \<Rightarrow>
       if 8 < numFloats s \<or> 15 < numInts s then (None, False)
       else let hasReturn = 0 < NumOut ty in
       if hasReturn \<and> Kind (func_outs ty ! 0) \<notin> set fast_result_kinds then (None, False)
       else if numFloats s = 0 then
         (let r = registerFastFunc (numInts s) (scan_ptrMask s) 0 hasReturn in (r, r \<noteq> None))
       else if numFloats s = 1 \<and> trailingFloats s \<and> Kind (func_ins ty ! numInts s) = KFloat32 then
         (let r = registerFastFunc (numInts s) (scan_ptrMask s) 32 hasReturn in (r, r \<noteq> None))
       else if numFloats s = 1 \<and> trailingFloats s \<and> Kind (func_ins ty ! numInts s) = KFloat64 then
         (let r = registerFastFunc (numInts s) (scan_ptrMask s) 64 hasReturn in (r, r \<noteq> None))
       else if numFloats s = 1 \<and> \<not> trailingFloats s \<and> scan_ptrMask s = 0 \<and>
           Kind (func_ins ty ! nat (scan_floatPos s)) = KFloat32 then
         (registerFastFuncInterleavedFloat32x1 (NumIn ty) (nat (scan_floatPos s)) hasReturn, True)
       else (None, False))"

text \<open>The stub compiled on every other target (\<^verbatim>\<open>zz_fast_func_fallback.go\<close>).\<close>

definition tryRegisterFastPath_fallback :: "go_type \<Rightarrow> fast_impl option \<times> bool" where
  "tryRegisterFastPath_fallback ty = (None, False)"


section \<open>What the loop over the parameters computes\<close>

definition is_word_kind :: "kind \<Rightarrow> bool" where
  "is_word_kind k \<longleftrightarrow> k \<in> set word_kinds"

definition is_float_kind :: "kind \<Rightarrow> bool" where
  "is_float_kind k \<longleftrightarrow> k \<in> set float_kinds"

lemma float_not_word: "is_float_kind k \<Longrightarrow> \<not> is_word_kind k"
  by (auto simp: is_float_kind_def is_word_kind_def float_kinds_def word_kinds_def)

lemma ptr_is_word: "is_ptr_kind k \<Longrightarrow> is_word_kind k"
  by (auto simp: is_ptr_kind_def is_word_kind_def word_kinds_def)

text \<open>
  The loop invariant: the counts, the mask, the position of the first float and whether an integer
  followed a float, in terms of the kinds seen so far.
\<close>

definition scan_inv :: "kind list \<Rightarrow> scan \<Rightarrow> bool" where
  "scan_inv ks s \<longleftrightarrow>
     (\<forall>k\<in>set ks. is_word_kind k \<or> is_float_kind k) \<and>
     numInts s = length (filter is_word_kind ks) \<and>
     numFloats s = length (filter is_float_kind ks) \<and>
     (\<forall>j. bit (scan_ptrMask s) j \<longleftrightarrow> j < numInts s \<and> is_ptr_kind (filter is_word_kind ks ! j)) \<and>
     (seenFloat s \<longleftrightarrow> filter is_float_kind ks \<noteq> []) \<and>
     (seenFloat s \<longrightarrow> scan_floatPos s = int (length (takeWhile is_word_kind ks))) \<and>
     (trailingFloats s \<longleftrightarrow> filter is_word_kind (dropWhile is_word_kind ks) = [])"

lemma scan_inv0: "scan_inv [] scan0"
  by (simp add: scan_inv_def scan0_def)

lemma all_words_iff: "(\<forall>k\<in>set ks. is_word_kind k \<or> is_float_kind k) \<Longrightarrow>
    filter is_float_kind ks = [] \<longleftrightarrow> (\<forall>k\<in>set ks. is_word_kind k)"
  by (auto simp: filter_empty_conv dest: float_not_word)

lemma filter_dropWhile_snoc:
  "\<not> P k \<Longrightarrow> filter P (dropWhile P (ks @ [k])) = filter P (dropWhile P ks)"
  by (induction ks) auto

lemma scan_param_word_mask:
  assumes "\<forall>j. bit pm j \<longleftrightarrow> j < n \<and> is_ptr_kind (ws ! j)" "length ws = n" "n < 32"
  shows "bit (if is_ptr_kind k then or pm (push_bit n 1) else pm :: u32) j \<longleftrightarrow>
     j < Suc n \<and> is_ptr_kind ((ws @ [k]) ! j)"
proof -
  have "bit (push_bit n (1 :: u32)) j \<longleftrightarrow> j = n"
    using assms(3) by (auto simp: bit_simps)
  then have step: "bit (if is_ptr_kind k then or pm (push_bit n 1) else pm) j \<longleftrightarrow>
      bit pm j \<or> is_ptr_kind k \<and> j = n"
    by (simp add: bit_or_iff)
  show ?thesis
    unfolding step assms(1) [rule_format] using assms(2) by (cases "j = n") (auto simp: nth_append)
qed

lemma scan_param_inv:
  assumes inv: "scan_inv ks s" and st: "scan_param (length ks) k s = Some s'" and len: "length ks < 32"
  shows "scan_inv (ks @ [k]) s'"
proof (cases "is_word_kind k")
  case True
  have n: "numInts s < 32"
    using inv len le_less_trans [OF length_filter_le] by (simp add: scan_inv_def)
  have nf: "\<not> is_float_kind k"
    using True float_not_word by blast
  have s': "numInts s' = Suc (numInts s)" "numFloats s' = numFloats s" "seenFloat s' = seenFloat s"
    "scan_floatPos s' = scan_floatPos s"
    "trailingFloats s' = (trailingFloats s \<and> \<not> seenFloat s)"
    "scan_ptrMask s' = (if is_ptr_kind k then or (scan_ptrMask s) (push_bit (numInts s) 1) else scan_ptrMask s)"
    using st True by (auto simp: scan_param_def is_word_kind_def Let_def split: if_splits)
  have words: "seenFloat s \<longleftrightarrow> \<not> (\<forall>k\<in>set ks. is_word_kind k)"
    using inv all_words_iff [of ks] by (auto simp: scan_inv_def)
  have m: "bit (scan_ptrMask s') j \<longleftrightarrow>
      j < Suc (numInts s) \<and> is_ptr_kind ((filter is_word_kind ks @ [k]) ! j)" for j
    unfolding s'(6) by (rule scan_param_word_mask) (use inv n in \<open>simp_all add: scan_inv_def\<close>)
  show ?thesis
  proof (cases "seenFloat s")
    case seen: True
    then have "filter is_word_kind (dropWhile is_word_kind (ks @ [k])) \<noteq> []"
      using words True by (simp add: dropWhile_append)
    moreover have "takeWhile is_word_kind (ks @ [k]) = takeWhile is_word_kind ks"
      using words seen by (auto simp: takeWhile_append)
    ultimately show ?thesis
      using inv True nf m seen unfolding scan_inv_def s' by simp
  next
    case seen: False
    then have "\<forall>x\<in>set (ks @ [k]). is_word_kind x"
      using words True by simp
    then have "dropWhile is_word_kind (ks @ [k]) = []" "dropWhile is_word_kind ks = []"
      by (simp_all only: dropWhile_eq_Nil_conv) simp_all
    then have "filter is_word_kind (dropWhile is_word_kind (ks @ [k])) = []"
      "filter is_word_kind (dropWhile is_word_kind ks) = []"
      by (simp_all only: filter.simps)
    then show ?thesis
      using inv True nf words m seen unfolding scan_inv_def s' by simp
  qed
next
  case False
  then have fl: "is_float_kind k"
    using st by (auto simp: scan_param_def is_word_kind_def is_float_kind_def split: if_splits)
  have s': "numInts s' = numInts s" "numFloats s' = Suc (numFloats s)" "seenFloat s' = True"
    "scan_floatPos s' = (if seenFloat s then scan_floatPos s else int (length ks))"
    "trailingFloats s' = trailingFloats s" "scan_ptrMask s' = scan_ptrMask s"
    using st False fl
    by (auto simp: scan_param_def is_word_kind_def is_float_kind_def Let_def split: if_splits)
  have words: "seenFloat s \<longleftrightarrow> \<not> (\<forall>k\<in>set ks. is_word_kind k)"
    using inv all_words_iff [of ks] by (auto simp: scan_inv_def)
  have "filter is_word_kind (dropWhile is_word_kind (ks @ [k])) = filter is_word_kind (dropWhile is_word_kind ks)"
    using False by (rule filter_dropWhile_snoc)
  moreover have "length (takeWhile is_word_kind (ks @ [k])) =
      (if seenFloat s then length (takeWhile is_word_kind ks) else length ks)"
    using words False by (simp add: takeWhile_append)
  ultimately show ?thesis
    using inv False fl unfolding scan_inv_def s' by simp
qed

lemma scan_params_inv:
  "scan_inv pre s \<Longrightarrow> scan_params (length pre) ks s = Some s' \<Longrightarrow> length pre + length ks \<le> 32 \<Longrightarrow>
     scan_inv (pre @ ks) s'"
proof (induction ks arbitrary: pre s)
  case (Cons k ks)
  then obtain s1 where s1: "scan_param (length pre) k s = Some s1"
    and rest: "scan_params (Suc (length pre)) ks s1 = Some s'"
    by (auto split: option.splits)
  have "scan_inv (pre @ [k]) s1"
    using scan_param_inv [OF Cons.prems(1) s1] Cons.prems(3) by simp
  then show ?case
    using Cons.IH [of "pre @ [k]" s1] rest Cons.prems(3) by simp
qed simp

lemma scan_param_total: "is_word_kind k \<or> is_float_kind k \<longleftrightarrow> (\<exists>s'. scan_param i k s = Some s')"
  by (auto simp: scan_param_def is_word_kind_def is_float_kind_def)

lemma scan_params_total:
  "(\<forall>k\<in>set ks. is_word_kind k \<or> is_float_kind k) \<longleftrightarrow> (\<exists>s'. scan_params i ks s = Some s')"
proof (induction ks arbitrary: i s)
  case (Cons k ks)
  show ?case
  proof (cases "scan_param i k s")
    case None
    then show ?thesis
      using scan_param_total [of k i s] by simp
  next
    case (Some s1)
    then show ?thesis
      using scan_param_total [of k i s] Cons.IH [of "i + 1" s1] by simp
  qed
qed simp

section \<open>Wrappers that fit a signature\<close>

text \<open>The parameter type a wrapper needs for a declared parameter of a given kind.\<close>

fun kind_slot :: "kind \<Rightarrow> fparam" where
  "kind_slot KFloat32 = PF32"
| "kind_slot KFloat64 = PF64"
| "kind_slot KPointer = PPtr"
| "kind_slot KUnsafePointer = PPtr"
| "kind_slot _ = PWord"

definition is_int_val :: "fval \<Rightarrow> bool" where
  "is_int_val v \<longleftrightarrow> fval_param v = PWord \<or> fval_param v = PPtr"

definition pad :: "nat \<Rightarrow> uintptr list \<Rightarrow> uintptr list" where
  "pad n ws = ws @ replicate (n - length ws) 0"

text \<open>
  \<open>fits ks r w\<close>: the wrapper has exactly the parameter types of a signature with parameter kinds
  \<open>ks\<close>, returns a word iff the signature has a result, keeps every pointer parameter alive over the
  call, and puts the integer arguments and the float arguments, each in order, into its two arrays.
\<close>

definition fits :: "kind list \<Rightarrow> bool \<Rightarrow> fast_impl \<Rightarrow> bool" where
  "fits ks r w \<longleftrightarrow>
     impl_params w = map kind_slot ks \<and> impl_result w = r \<and>
     (\<forall>i<length ks. is_ptr_kind (ks ! i) \<longrightarrow> i \<in> set (impl_keep w)) \<and>
     (\<forall>args. map fval_param args = map kind_slot ks \<longrightarrow>
        impl_ints w args = pad 15 (map conv_uintptr (filter is_int_val args)) \<and>
        impl_floats w args = pad 8 (map conv_uintptr (filter (\<lambda>v. \<not> is_int_val v) args)))"

lemma word_slot: "is_word_kind k \<Longrightarrow> kind_slot k = PWord \<or> kind_slot k = PPtr"
  by (auto simp: is_word_kind_def word_kinds_def)

lemma word_slot_eq: "is_word_kind k \<Longrightarrow> kind_slot k = (if is_ptr_kind k then PPtr else PWord)"
  by (auto simp: is_word_kind_def word_kinds_def is_ptr_kind_def)

lemma word_args:
  assumes "map fval_param args = map kind_slot ks" "\<forall>k\<in>set ks. is_word_kind k"
  shows "filter is_int_val args = args" "filter (\<lambda>v. \<not> is_int_val v) args = []"
proof -
  have "is_int_val v" if "v \<in> set args" for v
  proof -
    have "fval_param v \<in> set (map kind_slot ks)"
      using that assms(1) by (metis image_eqI list.set_map)
    then obtain k where "k \<in> set ks" "fval_param v = kind_slot k"
      by auto
    then show ?thesis
      using assms(2) word_slot [of k] by (auto simp: is_int_val_def)
  qed
  then show "filter is_int_val args = args" "filter (\<lambda>v. \<not> is_int_val v) args = []"
    by (simp_all add: filter_empty_conv)
qed

lemma float_arg:
  assumes "fval_param v = kind_slot k" "is_float_kind k"
  shows "\<not> is_int_val v"
    "k = KFloat32 \<Longrightarrow> ucast (Float32bits v) = conv_uintptr v"
    "k = KFloat64 \<Longrightarrow> Float64bits v = conv_uintptr v"
  using assms by (cases v; auto simp: is_int_val_def is_float_kind_def float_kinds_def)+

lemma ints_array:
  assumes "n \<le> 15" "n \<le> length a"
  shows "foldl (\<lambda>ints i. ints[i := conv_uintptr (a ! i)]) zeros15 [0..<n] =
     pad 15 (map conv_uintptr (take n a))"
proof -
  have "map (\<lambda>i. conv_uintptr (a ! i)) [0..<n] = map conv_uintptr (take n a)"
    using assms(2) by (simp flip: map_nth_upt)
  then show ?thesis
    using assms by (simp add: array_simps pad_def)
qed

lemma emitWrapper_fits_words:
  assumes "\<forall>k\<in>set ws. is_word_kind k" "length ws \<le> 15"
  shows "fits ws r (emitWrapper (map kind_slot ws) 0 r)"
proof -
  have "length args = length ws" if "map fval_param args = map kind_slot ws" for args
    using that by (metis length_map)
  then show ?thesis
    using assms word_args [OF _ assms(1)]
    by (simp add: fits_def emitWrapper_def ints_array pad_def [of 8])
qed

lemma emitWrapper_fits_float:
  assumes ws: "\<forall>k\<in>set ws. is_word_kind k" "length ws \<le> 15"
    and k: "k = KFloat32 \<and> bits = 32 \<or> k = KFloat64 \<and> bits = 64"
  shows "fits (ws @ [k]) r (emitWrapper (map kind_slot ws) bits r)"
proof -
  have fk: "is_float_kind k"
    using k by (auto simp: is_float_kind_def float_kinds_def)
  have args: "impl_ints (emitWrapper (map kind_slot ws) bits r) args =
        pad 15 (map conv_uintptr (filter is_int_val args)) \<and>
      impl_floats (emitWrapper (map kind_slot ws) bits r) args =
        pad 8 (map conv_uintptr (filter (\<lambda>v. \<not> is_int_val v) args))"
    if typed: "map fval_param args = map kind_slot (ws @ [k])" for args
  proof -
    obtain xs v where a: "args = xs @ [v]" "map fval_param xs = map kind_slot ws"
        "fval_param v = kind_slot k"
      using typed by (auto simp: map_eq_append_conv)
    then have len: "length xs = length ws"
      by (metis length_map)
    note fv = float_arg [OF a(3) fk]
    have "zeros8[0 := x] = pad 8 [x]" for x
      by (simp add: pad_def eval_nat_numeral)
    moreover have "impl_ints (emitWrapper (map kind_slot ws) bits r) args = pad 15 (map conv_uintptr xs)"
      using ws(2) len ints_array [of "length ws" args] by (simp add: emitWrapper_def a(1))
    ultimately show ?thesis
      using k word_args [OF a(2) ws(1)] fv len by (auto simp: a(1) emitWrapper_def nth_append)
  qed
  show ?thesis
    using k args by (auto simp: fits_def emitWrapper_def nth_append is_ptr_kind_def)
qed

lemma emitInterleaved_fits:
  assumes ws: "\<forall>k\<in>set (xs @ ys). is_word_kind k \<and> \<not> is_ptr_kind k" "length xs + length ys \<le> 14"
  shows "fits (xs @ KFloat32 # ys) r (emitInterleaved (length xs + Suc (length ys)) (length xs) r)"
    (is "fits ?ks r ?w")
proof -
  have params: "impl_params ?w = map kind_slot ?ks"
  proof (rule nth_equalityI)
    fix i assume "i < length (impl_params ?w)"
    then show "impl_params ?w ! i = map kind_slot ?ks ! i"
      using ws(1) word_slot_eq
      by (auto simp: emitInterleaved_def nth_append nth_Cons' simp del: upt_Suc)
  qed (simp add: emitInterleaved_def)
  have args: "impl_ints ?w args = pad 15 (map conv_uintptr (filter is_int_val args)) \<and>
      impl_floats ?w args = pad 8 (map conv_uintptr (filter (\<lambda>v. \<not> is_int_val v) args))"
    if typed: "map fval_param args = map kind_slot ?ks" for args
  proof -
    obtain as v bs where a: "args = as @ v # bs" "map fval_param as = map kind_slot xs"
        "fval_param v = kind_slot KFloat32" "map fval_param bs = map kind_slot ys"
      using typed by (auto simp: map_eq_append_conv map_eq_Cons_conv)
    then have len: "length as = length xs" "length bs = length ys"
      by (metis length_map)+
    note fv = float_arg [OF a(3), simplified is_float_kind_def float_kinds_def, simplified]
    have sel: "map (\<lambda>i. conv_uintptr (args ! (if i < length xs then i else Suc i))) [0..<length xs + length ys] =
        map conv_uintptr (as @ bs)"
      by (rule nth_equalityI) (auto simp: a(1) len nth_append Suc_diff_le)
    have wa: "filter is_int_val as = as" "filter (\<lambda>v. \<not> is_int_val v) as = []"
        "filter is_int_val bs = bs" "filter (\<lambda>v. \<not> is_int_val v) bs = []"
      using word_args [OF a(2)] word_args [OF a(4)] ws(1) by auto
    have "zeros8[0 := x] = pad 8 [x]" for x
      by (simp add: pad_def eval_nat_numeral)
    moreover have "impl_ints ?w args = map conv_uintptr (as @ bs) @ drop (length xs + length ys) zeros15"
      using ws(2) sel by (simp add: emitInterleaved_def array_simps)
    ultimately show ?thesis
      using ws(2) fv wa by (simp add: a(1) emitInterleaved_def pad_def len nth_append)
  qed
  show ?thesis
    using params args ws(1) unfolding fits_def
    by (auto simp: emitInterleaved_def nth_append nth_Cons' is_ptr_kind_def split: if_splits)
qed

section \<open>Which signatures get a wrapper\<close>

definition fast_platform :: "goos \<Rightarrow> goarch \<Rightarrow> bool" where
  "fast_platform os arch \<longleftrightarrow> (arch = AMD64 \<or> arch = ARM64) \<and> os \<noteq> Windows"

text \<open>
  The rule in closed form: at most 15 parameters, all of them pointer-sized integers, pointers or
  floats; pointers only among at most six integers; at most one float, last in the list, or
  anywhere if it is a \<open>float32\<close> and no parameter is a pointer.
\<close>

definition fast_params :: "kind list \<Rightarrow> bool" where
  "fast_params ks \<longleftrightarrow>
     length ks \<le> 15 \<and> (\<forall>k\<in>set ks. is_word_kind k \<or> is_float_kind k) \<and>
     (let words = filter is_word_kind ks; pointers = filter is_ptr_kind ks;
          masked = (pointers = [] \<or> length words \<le> maxPointerMaskArgs)
      in case filter is_float_kind ks of
           [] \<Rightarrow> masked
         | [f] \<Rightarrow> if is_float_kind (last ks) then masked else f = KFloat32 \<and> pointers = []
         | _ \<Rightarrow> False)"

definition fast_result :: "go_type list \<Rightarrow> bool" where
  "fast_result outs \<longleftrightarrow> outs = [] \<or> Kind (outs ! 0) \<in> set fast_result_kinds"

lemma one_float_split:
  assumes "\<forall>k\<in>set ks. is_word_kind k \<or> is_float_kind k" "filter is_float_kind ks = [f]"
  obtains ys where "ks = takeWhile is_word_kind ks @ f # ys" "\<forall>k\<in>set ys. is_word_kind k"
    "filter is_word_kind (dropWhile is_word_kind ks) = ys"
proof -
  have "\<exists>ys. dropWhile is_word_kind ks = f # ys \<and> (\<forall>k\<in>set ys. is_word_kind k)"
    using assms
  proof (induction ks)
    case (Cons k ks)
    then show ?case
      by (cases "is_word_kind k") (auto simp: filter_empty_conv dest: float_not_word split: if_splits)
  qed simp
  then obtain ys where ys: "dropWhile is_word_kind ks = f # ys" "\<forall>k\<in>set ys. is_word_kind k"
    by blast
  moreover have "\<not> is_word_kind f"
    using hd_dropWhile [of is_word_kind ks] ys by auto
  ultimately show thesis
    using that [of ys] takeWhile_dropWhile_id [of is_word_kind ks] by (auto simp: filter_id_conv)
qed

lemma mask_below:
  assumes "\<forall>j. bit (pm :: u32) j \<longrightarrow> j < n"
  shows "unat pm < 2 ^ n"
proof -
  have "take_bit n pm = pm"
    by (rule bit_word_eqI) (use assms in \<open>auto simp: bit_simps\<close>)
  then have "unat pm = take_bit n (unat pm)"
    by (metis unsigned_take_bit_eq)
  then show ?thesis
    by (metis take_bit_nat_less_exp)
qed

lemma dispatch_of_scan:
  assumes ws: "\<forall>k\<in>set ws. is_word_kind k" and bits: "bits \<in> {0, 32, 64}"
    and len: "length ws \<le> (if bits = 0 then 15 else 14)"
    and pm: "\<forall>j. bit pm j \<longleftrightarrow> j < length ws \<and> is_ptr_kind (ws ! j)"
  shows "emitDispatch (length ws) pm bits r =
     (if filter is_ptr_kind ws = [] \<or> length ws \<le> maxPointerMaskArgs
      then Some (emitWrapper (map kind_slot ws) bits r) else None)"
proof -
  have "mask_params (length ws) pm = map kind_slot ws"
    using ws word_slot_eq pm by (intro nth_equalityI) (auto simp: mask_params_def)
  moreover have "unat pm < 2 ^ length ws"
    by (rule mask_below) (simp add: pm)
  moreover have "unat pm < 1 \<longleftrightarrow> filter is_ptr_kind ws = []"
  proof -
    have "unat pm < 1 \<longleftrightarrow> pm = 0"
      by (simp add: unat_eq_zero)
    also have "\<dots> \<longleftrightarrow> (\<forall>j. \<not> bit pm j)"
      by (auto intro: bit_word_eqI)
    also have "\<dots> \<longleftrightarrow> filter is_ptr_kind ws = []"
      by (auto simp: pm filter_empty_conv all_set_conv_all_nth)
    finally show ?thesis .
  qed
  ultimately show ?thesis
    using bits len by (auto simp: emitDispatch_def)
qed

text \<open>Every outcome of the decision, by the shape of the parameter list.\<close>

lemma try_outcome:
  assumes "fast_platform os arch" "fast_result (func_outs ty)"
    and "ks = map Kind (func_ins ty)" "r = (0 < NumOut ty)"
  shows "if fast_params ks
     then \<exists>w. tryRegisterFastPath os arch ty = (Some w, True) \<and> fits ks r w
     else tryRegisterFastPath os arch ty = (None, False)"
proof (cases "15 < length ks")
  case True
  then show ?thesis
    using assms by (auto simp: tryRegisterFastPath_def fast_params_def NumIn_def)
next
  case len: False
  show ?thesis
  proof (cases "scan_params 0 ks scan0")
    case None
    then have "\<not> fast_params ks"
      using scan_params_total [of ks 0 scan0] by (auto simp: fast_params_def)
    then show ?thesis
      using None assms by (auto simp: tryRegisterFastPath_def)
  next
    case (Some s)
    have inv: "scan_inv ks s"
      using scan_params_inv [OF scan_inv0, of ks s] Some len by simp
    then have kinds: "\<forall>k\<in>set ks. is_word_kind k \<or> is_float_kind k"
      by (simp add: scan_inv_def)
    have ints: "numInts s \<le> 15"
      using inv len order_trans [OF length_filter_le, of ks 15 is_word_kind]
      by (simp add: scan_inv_def)
    have pre: "(arch = AMD64 \<or> arch = ARM64) \<and> os \<noteq> Windows" "NumIn ty = length ks"
      "\<not> (0 < NumOut ty \<and> Kind (func_outs ty ! 0) \<notin> set fast_result_kinds)"
      using assms by (auto simp: fast_platform_def NumIn_def NumOut_def fast_result_def)
    note tr = tryRegisterFastPath_def pre len Some assms(3) [symmetric] assms(4) [symmetric] Let_def
      ints registerFastFunc_eq registerInterleaved_eq
    consider (none) "filter is_float_kind ks = []"
      | (one) f where "filter is_float_kind ks = [f]"
      | (more) f g fs where "filter is_float_kind ks = f # g # fs"
      by (metis neq_Nil_conv)
    then show ?thesis
    proof cases
      case none
      then have ws: "\<forall>k\<in>set ks. is_word_kind k" "filter is_word_kind ks = ks"
        using kinds all_words_iff [OF kinds] by (auto simp: filter_id_conv)
      then have s: "numFloats s = 0" "numInts s = length ks"
        "\<forall>j. bit (scan_ptrMask s) j \<longleftrightarrow> j < length ks \<and> is_ptr_kind (ks ! j)"
        using inv none by (simp_all add: scan_inv_def)
      have d: "emitDispatch (length ks) (scan_ptrMask s) 0 r =
          (if filter is_ptr_kind ks = [] \<or> length ks \<le> maxPointerMaskArgs
           then Some (emitWrapper (map kind_slot ks) 0 r) else None)"
        by (rule dispatch_of_scan [OF ws(1)]) (use s(3) len in auto)
      have "fast_params ks \<longleftrightarrow> filter is_ptr_kind ks = [] \<or> length ks \<le> maxPointerMaskArgs"
        using len kinds none ws(2) by (simp add: fast_params_def Let_def)
      moreover have "fits ks r (emitWrapper (map kind_slot ks) 0 r)"
        using emitWrapper_fits_words [OF ws(1)] len by simp
      ultimately show ?thesis
        using tr s(1,2) d by auto
    next
      case (one f)
      then obtain ys where ys: "ks = takeWhile is_word_kind ks @ f # ys"
          "\<forall>k\<in>set ys. is_word_kind k" "filter is_word_kind (dropWhile is_word_kind ks) = ys"
        using one_float_split [OF kinds] by blast
      define ws where "ws = takeWhile is_word_kind ks"
      have "f \<in> set (filter is_float_kind ks)"
        by (simp add: one)
      then have ff: "is_float_kind f" "f = KFloat32 \<or> f = KFloat64"
        by (auto simp: is_float_kind_def float_kinds_def)
      have ws: "\<forall>k\<in>set ws. is_word_kind k"
        by (auto simp: ws_def dest: set_takeWhileD)
      have ks: "ks = ws @ f # ys"
        using ys(1) by (simp add: ws_def)
      have nf: "\<not> is_word_kind f" "\<not> is_ptr_kind f"
        using ff(1) float_not_word ptr_is_word by blast+
      have words: "filter is_word_kind ks = ws @ ys"
        using ws ys(2) nf(1) by (simp add: ks filter_id_conv)
      have s: "numFloats s = 1" "numInts s = length ws + length ys"
        "\<forall>j. bit (scan_ptrMask s) j \<longleftrightarrow> j < length (ws @ ys) \<and> is_ptr_kind ((ws @ ys) ! j)"
        "trailingFloats s \<longleftrightarrow> ys = []" "nat (scan_floatPos s) = length ws"
        using inv one words ys(3) by (auto simp: scan_inv_def ws_def)
      have at: "Kind (func_ins ty ! length ws) = f"
      proof -
        have "length (func_ins ty) = length ks"
          using assms(3) by simp
        then have "length ws < length (func_ins ty)"
          by (simp add: ks)
        then have "Kind (func_ins ty ! length ws) = ks ! length ws"
          using assms(3) by simp
        then show ?thesis
          by (simp add: ks)
      qed
      show ?thesis
      proof (cases "ys = []")
        case True
        have d: "emitDispatch (length ws) (scan_ptrMask s) bits r =
            (if filter is_ptr_kind ws = [] \<or> length ws \<le> maxPointerMaskArgs
             then Some (emitWrapper (map kind_slot ws) bits r) else None)" if "bits \<in> {32, 64}" for bits
          by (rule dispatch_of_scan [OF ws]) (use s(3) len ks that True in auto)
        have "fast_params ks \<longleftrightarrow> filter is_ptr_kind ws = [] \<or> length ws \<le> maxPointerMaskArgs"
          using len kinds one words True nf ff(1) by (simp add: fast_params_def Let_def ks)
        moreover have "fits ks r (emitWrapper (map kind_slot ws) (if f = KFloat32 then 32 else 64) r)"
          using emitWrapper_fits_float [OF ws, of f "if f = KFloat32 then 32 else 64"] ff(2) len ks True
          by auto
        ultimately show ?thesis
          using tr s at d True ff(2) by auto
      next
        case False
        have last: "\<not> is_float_kind (last ks)"
        proof -
          have "is_word_kind (last ys)"
            using ys(2) False last_in_set by blast
          then show ?thesis
            using False float_not_word by (auto simp: ks)
        qed
        have "scan_ptrMask s = 0 \<longleftrightarrow> filter is_ptr_kind ks = []"
        proof -
          have "scan_ptrMask s = 0 \<longleftrightarrow> (\<forall>j. \<not> bit (scan_ptrMask s) j)"
            by (auto intro: bit_word_eqI)
          also have "\<dots> \<longleftrightarrow> filter is_ptr_kind (ws @ ys) = []"
            unfolding s(3) [rule_format] filter_empty_conv all_set_conv_all_nth by blast
          finally show ?thesis
            using nf(2) by (simp add: ks)
        qed
        moreover have "fast_params ks \<longleftrightarrow> f = KFloat32 \<and> filter is_ptr_kind ks = []"
          using len kinds one last by (simp add: fast_params_def Let_def)
        moreover have "fits ks r (emitInterleaved (length ks) (length ws) r)"
          if "f = KFloat32" "filter is_ptr_kind ks = []"
          using emitInterleaved_fits [of ws ys r] that ws ys(2) len nf(2)
          by (auto simp: ks filter_empty_conv split: if_splits)
        moreover have "emitInterleavedTable (length ks) (length ws) r =
            Some (emitInterleaved (length ks) (length ws) r)"
          using len False by (cases ys) (auto simp: emitInterleavedTable_def ks)
        ultimately show ?thesis
          using tr s at False by auto
      qed
    next
      case (more f g fs)
      then have "1 < numFloats s"
        using inv by (simp add: scan_inv_def)
      moreover have "\<not> fast_params ks"
        using more by (simp add: fast_params_def Let_def)
      ultimately show ?thesis
        using tr by auto
    qed
  qed
qed


text \<open>On every other platform, or with another result, the answer is no.\<close>

lemma try_refuses:
  assumes "\<not> (fast_platform os arch \<and> fast_result (func_outs ty))"
  shows "tryRegisterFastPath os arch ty = (None, False)"
proof (cases "fast_platform os arch")
  case False
  then show ?thesis
    by (simp add: tryRegisterFastPath_def fast_platform_def)
next
  case True
  then have "0 < NumOut ty" "Kind (func_outs ty ! 0) \<notin> set fast_result_kinds"
    using assms by (auto simp: fast_result_def NumOut_def)
  then show ?thesis
    by (auto simp: tryRegisterFastPath_def Let_def split: option.split)
qed

section \<open>Properties\<close>

text \<open>The exact condition, which the properties below and the registration in \<open>RegisterFn\<close> share.\<close>

lemma try_exact:
  "snd (tryRegisterFastPath os arch ty) =
     (fast_platform os arch \<and> fast_result (func_outs ty) \<and> fast_params (map Kind (func_ins ty))) \<and>
   (fst (tryRegisterFastPath os arch ty) \<noteq> None) = snd (tryRegisterFastPath os arch ty)"
proof (cases "fast_platform os arch \<and> fast_result (func_outs ty)")
  case True
  then show ?thesis
    using try_outcome [of os arch ty "map Kind (func_ins ty)" "0 < NumOut ty"]
    by (auto split: if_splits)
next
  case False
  then show ?thesis
    using try_refuses [OF False] by auto
qed

lemma try_fits:
  assumes "tryRegisterFastPath os arch ty = (Some w, True)"
  shows "fits (map Kind (func_ins ty)) (0 < NumOut ty) w"
proof -
  have "fast_platform os arch \<and> fast_result (func_outs ty)"
    using assms try_refuses [of os arch ty] by (cases "fast_platform os arch \<and> fast_result (func_outs ty)") auto
  then show ?thesis
    using assms try_outcome [of os arch ty "map Kind (func_ins ty)" "0 < NumOut ty"]
    by (auto split: if_splits)
qed

fun slot_size :: "fparam \<Rightarrow> nat" where
  "slot_size PF32 = 4"
| "slot_size _ = 8"

lemma prim_slot_size:
  "is_word_kind (prim_kind p) \<or> is_float_kind (prim_kind p) \<Longrightarrow> prim_size p = slot_size (kind_slot (prim_kind p))"
  by (cases p) (auto simp: is_word_kind_def word_kinds_def is_float_kind_def float_kinds_def)

lemma Size_slot:
  "is_word_kind (Kind t) \<or> is_float_kind (Kind t) \<Longrightarrow> Size t = slot_size (kind_slot (Kind t))"
  by (induction t) (auto simp: prim_slot_size is_word_kind_def word_kinds_def is_float_kind_def float_kinds_def)

definition sample_signature :: go_type where
  "sample_signature = TFunc [TPointer (TPrim PUint8), TPrim PInt, TPrim PFloat64] [TPrim PInt32] False"

lemma sample_signature_fast:
  "tryRegisterFastPath Linux AMD64 sample_signature = (Some (emitWrapper [PPtr, PWord] 64 True), True)"
  by (simp add: tryRegisterFastPath_def sample_signature_def NumIn_def NumOut_def scan_param_def
      scan0_def word_kinds_def float_kinds_def is_ptr_kind_def fast_result_kinds_def Let_def
      registerFastFunc_eq emitDispatch_def maxPointerMaskArgs_def mask_params_def upt_evals)

section \<open>Properties\<close>

text \<open>
  Property C8. A function variable is bound to a fast wrapper exactly when the target is amd64 or
  arm64 and not Windows, the result (if any) is an integer, boolean or pointer, and the parameters
  satisfy the rule \<open>fast_params\<close>; the variable is written exactly when the function reports success.
\<close>

theorem tryRegisterFastPath_exact:
  "snd (tryRegisterFastPath os arch ty) =
     (fast_platform os arch \<and> fast_result (func_outs ty) \<and> fast_params (map Kind (func_ins ty))) \<and>
   (fst (tryRegisterFastPath os arch ty) \<noteq> None) = snd (tryRegisterFastPath os arch ty)"
  by (rule try_exact)

text \<open>
  Property C7. The wrapper installed under a declared function type has the same argument layout:
  the same number of parameters, a float of the declared width where the type has a float, an
  \<open>unsafe.Pointer\<close> exactly where it has a pointer, a pointer-sized word elsewhere, and every declared
  parameter takes as many bytes as its slot. It returns a word exactly when the type has a result,
  and it keeps every pointer argument alive until the native call has returned.
\<close>

theorem fast_wrapper_layout:
  assumes "tryRegisterFastPath os arch ty = (Some w, True)"
  shows "impl_params w = map (kind_slot \<circ> Kind) (func_ins ty) \<and>
    map Size (func_ins ty) = map slot_size (impl_params w) \<and>
    impl_result w = (0 < NumOut ty) \<and>
    {i. i < NumIn ty \<and> is_ptr_kind (Kind (func_ins ty ! i))} \<subseteq> set (impl_keep w)"
proof -
  have "fast_params (map Kind (func_ins ty))"
    using try_exact [of os arch ty] assms by auto
  then have "\<forall>t\<in>set (func_ins ty). is_word_kind (Kind t) \<or> is_float_kind (Kind t)"
    by (simp add: fast_params_def)
  then have "map Size (func_ins ty) = map (slot_size \<circ> kind_slot \<circ> Kind) (func_ins ty)"
    using Size_slot by auto
  then show ?thesis
    using try_fits [OF assms] by (auto simp: fits_def NumIn_def)
qed

theorem fast_wrapper_layout_witness:
  "\<exists>w. tryRegisterFastPath Linux AMD64 sample_signature = (Some w, True) \<and>
     impl_params w = [PPtr, PWord, PF64]"
  using fast_wrapper_layout [OF sample_signature_fast] sample_signature_fast
  by (auto simp: sample_signature_def)

end
