(* ===== verification/FastArgs.thy ===== *)
theory FastArgs
  imports FastPath
begin

text \<open>
  What native code sees when a fast wrapper is called: the pointers \<open>fastCallIF\<close> hands to the engine
  lead to the declared arguments, in the declared order, each with the bytes of its declared size,
  and the call cannot panic before the engine is entered.
\<close>

section \<open>The pointers\<close>

abbreviation is_float_desc :: "ffi_type \<Rightarrow> bool" where
  "is_float_desc t \<equiv> t = FloatTypeDescriptor \<or> t = DoubleTypeDescriptor"

abbreviation count_by :: "('a \<Rightarrow> bool) \<Rightarrow> 'a list \<Rightarrow> nat" where
  "count_by P xs \<equiv> length (filter P xs)"

definition slot_offset :: "ffi_type list \<Rightarrow> nat \<Rightarrow> nat" where
  "slot_offset ts k =
     (if is_float_desc (ts ! k) then 120 + 8 * count_by is_float_desc (take k ts)
      else 8 * count_by (\<lambda>t. \<not> is_float_desc t) (take k ts))"

lemma fast_args_pointers:
  assumes "a + length ts \<le> 23" "i + count_by (\<lambda>t. \<not> is_float_desc t) ts \<le> 15"
    "f + count_by is_float_desc ts \<le> 8"
  shows "\<exists>ps. fast_args ctx ts a i f = Inr ps \<and> length ps = length ts \<and>
     (\<forall>k<length ts. ps ! k = ctx + of_nat (slot_offset ts k +
        (if is_float_desc (ts ! k) then 8 * f else 8 * i)))"
  using assms
proof (induction ts arbitrary: a i f)
  case (Cons t ts)
  show ?case
  proof (cases "is_float_desc t")
    case True
    then obtain ps where ps: "fast_args ctx ts (Suc a) i (Suc f) = Inr ps" "length ps = length ts"
      "\<forall>k<length ts. ps ! k = ctx + of_nat (slot_offset ts k +
        (if is_float_desc (ts ! k) then 8 * Suc f else 8 * i))"
      using Cons.IH [of "Suc a" i "Suc f"] Cons.prems by auto
    have "fast_args ctx (t # ts) a i f = Inr ((ctx + of_nat (120 + 8 * f)) # ps)"
      using True ps Cons.prems by simp
    moreover have "((ctx + of_nat (120 + 8 * f)) # ps) ! k = ctx + of_nat (slot_offset (t # ts) k +
        (if is_float_desc ((t # ts) ! k) then 8 * f else 8 * i))" if "k < Suc (length ts)" for k
      using that True ps(3) by (cases k) (auto simp: slot_offset_def algebra_simps)
    ultimately show ?thesis
      using ps(2) by auto
  next
    case False
    then obtain ps where ps: "fast_args ctx ts (Suc a) (Suc i) f = Inr ps" "length ps = length ts"
      "\<forall>k<length ts. ps ! k = ctx + of_nat (slot_offset ts k +
        (if is_float_desc (ts ! k) then 8 * f else 8 * Suc i))"
      using Cons.IH [of "Suc a" "Suc i" f] Cons.prems by auto
    have "fast_args ctx (t # ts) a i f = Inr ((ctx + of_nat (8 * i)) # ps)"
      using False ps Cons.prems by simp
    moreover have "((ctx + of_nat (8 * i)) # ps) ! k = ctx + of_nat (slot_offset (t # ts) k +
        (if is_float_desc ((t # ts) ! k) then 8 * f else 8 * i))" if "k < Suc (length ts)" for k
      using that False ps(3) by (cases k) (auto simp: slot_offset_def algebra_simps)
    ultimately show ?thesis
      using ps(2) by auto
  qed
qed simp

section \<open>The arrays in memory\<close>

lemma length_words_bytes [simp]: "length (words_bytes ws) = 8 * length ws"
  by (induction ws) (auto simp: words_bytes_def)

lemma words_bytes_slot:
  "j < length ws \<Longrightarrow> take 8 (drop (8 * j) (words_bytes ws)) = le_bytes 8 (ws ! j)"
proof (induction ws arbitrary: j)
  case (Cons w ws)
  have step: "words_bytes (w # ws) = le_bytes 8 w @ words_bytes ws"
    by (simp add: words_bytes_def)
  show ?case
  proof (cases j)
    case 0
    then show ?thesis
      by (simp add: step)
  next
    case (Suc i)
    then show ?thesis
      using Cons by (simp add: step)
  qed
qed simp

lemma load_words_slot:
  assumes "load m a (8 * length ws) = Inr (words_bytes ws)" "j < length ws" "n \<le> 8"
  shows "load m (a + of_nat (8 * j)) n = Inr (le_bytes n (ws ! j))"
proof -
  have "8 * j + 8 \<le> 8 * length ws"
    using assms(2) by simp
  then have "load m (a + of_nat (8 * j)) 8 = Inr (le_bytes 8 (ws ! j))"
    using load_slice [of m a "words_bytes ws" "8 * j" 8] assms(1,2) by (simp add: words_bytes_slot)
  from load_prefix [OF this assms(3)] show ?thesis
    using assms(3) by (simp add: take_le_bytes)
qed

lemma filter_nth_count:
  "k < length xs \<Longrightarrow> P (xs ! k) \<Longrightarrow> filter P xs ! count_by P (take k xs) = xs ! k \<and>
     count_by P (take k xs) < count_by P xs"
proof (induction xs arbitrary: k)
  case (Cons x xs)
  then show ?case by (cases k) auto
qed simp

lemma pad_nth: "j < length ws \<Longrightarrow> pad n ws ! j = ws ! j"
  by (simp add: pad_def nth_append)

lemma length_pad: "length ws \<le> n \<Longrightarrow> length (pad n ws) = n"
  by (simp add: pad_def)

section \<open>One call\<close>

text \<open>
  The memory in which the engine is entered: the two arrays hold the words, the result is zeroed,
  and nothing outside the context was written.
\<close>

definition call_memory :: "uintptr \<Rightarrow> uintptr list \<Rightarrow> uintptr list \<Rightarrow> 'w mem \<Rightarrow> 'w mem \<Rightarrow> bool" where
  "call_memory ctx ints floats m m4 \<longleftrightarrow>
     load m4 ctx 120 = Inr (words_bytes ints) \<and>
     load m4 (ctx + 120) 64 = Inr (words_bytes floats) \<and>
     load m4 (ctx + 368) 8 = Inr (le_bytes 8 0) \<and>
     mbrk m4 = mbrk m \<and> world m4 = world m \<and>
     (\<forall>x. (\<forall>i<fast_ctx_size. x \<noteq> ctx + of_nat i) \<longrightarrow> mbytes m4 x = mbytes m x)"

lemma store_outside:
  assumes "store m (ctx + of_nat p) bs = Inr m'" "p + length bs \<le> n" "\<forall>i<n. x \<noteq> ctx + of_nat i"
  shows "mbytes m' x = mbytes m x"
proof (rule store_bytes_other [OF assms(1)], intro allI impI)
  fix i assume "i < length bs"
  then have "p + i < n"
    using assms(2) by simp
  then show "x \<noteq> ctx + of_nat p + of_nat i"
    using assms(3) by (simp add: add.assoc flip: of_nat_add)
qed

lemma fill_context:
  assumes map: "mapped m ctx fast_ctx_size" and len: "length ints = 15" "length floats = 8"
  shows "\<exists>m2 m3 m4. store m ctx (words_bytes ints) = Inr m2 \<and>
     store m2 (ctx + 120) (words_bytes floats) = Inr m3 \<and>
     store m3 (ctx + 368) (le_bytes 8 0) = Inr m4 \<and> call_memory ctx ints floats m m4"
proof -
  have part: "mapped m (ctx + of_nat k) n" if "k + n \<le> 376" for k n
    using mapped_part [OF map [unfolded fast_ctx_size_def]] that .
  obtain m2 where m2: "store m ctx (words_bytes ints) = Inr m2"
    using store_mapped [of m ctx "words_bytes ints"] part [of 0 120] len by auto
  obtain m3 where m3: "store m2 (ctx + 120) (words_bytes floats) = Inr m3"
    using store_mapped [of m2 "ctx + 120" "words_bytes floats"] part [of 120 64] len
    by (auto simp: mapped_store [OF m2])
  obtain m4 where m4: "store m3 (ctx + 368) (le_bytes 8 0) = Inr m4"
    using store_mapped [of m3 "ctx + 368" "le_bytes 8 0"] part [of 368 8]
    by (auto simp: mapped_store [OF m2] mapped_store [OF m3])
  have ints: "load m4 ctx 120 = Inr (words_bytes ints)"
    using store_load [OF m2] len store_disjoint [of m2 ctx 120 "words_bytes floats" m3 0 120]
      store_disjoint [of m3 ctx 368 "le_bytes 8 0" m4 0 120] m3 m4
    by simp
  have floats: "load m4 (ctx + 120) 64 = Inr (words_bytes floats)"
    using store_load [OF m3] len store_disjoint [of m3 ctx 368 "le_bytes 8 0" m4 120 64] m4
    by simp
  have ret: "load m4 (ctx + 368) 8 = Inr (le_bytes 8 0)"
    using store_load [OF m4] by simp
  have "mbytes m4 x = mbytes m x" if "\<forall>i<fast_ctx_size. x \<noteq> ctx + of_nat i" for x
  proof -
    have out: "\<forall>i<376. x \<noteq> ctx + of_nat i"
      using that by (simp add: fast_ctx_size_def)
    show ?thesis
      using store_outside [of m ctx 0 "words_bytes ints" m2 376 x]
        store_outside [of m2 ctx 120 "words_bytes floats" m3 376 x]
        store_outside [of m3 ctx 368 "le_bytes 8 0" m4 376 x] m2 m3 m4 len out
      by simp
  qed
  then have "call_memory ctx ints floats m m4"
    using ints floats ret store_frame [OF m2] store_frame [OF m3] store_frame [OF m4]
    by (simp add: call_memory_def)
  then show ?thesis
    using m2 m3 m4 by blast
qed

section \<open>Descriptors and values agree\<close>

lemma count_by_map:
  assumes "map P xs = map Q ys"
  shows "count_by P (take k xs) = count_by Q (take k ys)"
proof -
  have gen: "count_by R (take k zs) = length (filter id (take k (map R zs)))" for R :: "'c \<Rightarrow> bool" and zs
    by (simp add: take_map filter_map comp_def id_def)
  have gen': "count_by R (take k zs) = length (filter id (take k (map R zs)))" for R :: "'d \<Rightarrow> bool" and zs
    by (simp add: take_map filter_map comp_def id_def)
  show ?thesis
    using gen [of P xs] gen' [of Q ys] assms by simp
qed

lemma slot_kind_descriptor:
  assumes "is_word_kind (Kind t) \<or> is_float_kind (Kind t)"
  shows "goArgTypeToFfiType t = scalar_descriptor (Kind t)"
proof -
  have "goTypeToFfiType t = scalar_descriptor (Kind t)"
    using assms
    by (induction t) (auto simp: is_word_kind_def word_kinds_def is_float_kind_def float_kinds_def)
  moreover have "Kind t \<noteq> KArray"
    using assms by (auto simp: is_word_kind_def word_kinds_def is_float_kind_def float_kinds_def)
  ultimately show ?thesis
    by (simp add: goArgTypeToFfiType_def)
qed

lemma slot_descriptor:
  assumes "is_word_kind k \<or> is_float_kind k" "scalar_descriptor k = Inr d" "fval_param v = kind_slot k"
  shows "is_float_desc d \<longleftrightarrow> \<not> is_int_val v" "c_size d \<le> 8"
proof -
  have "k \<in> set word_kinds \<union> set float_kinds"
    using assms(1) by (auto simp: is_word_kind_def is_float_kind_def)
  then consider "d = UInt64TypeDescriptor \<or> d = SInt64TypeDescriptor \<or> d = PointerTypeDescriptor"
      "fval_param v = PWord \<or> fval_param v = PPtr"
    | "is_float_desc d" "fval_param v = PF32 \<or> fval_param v = PF64"
    using assms(2,3) by (auto simp: word_kinds_def float_kinds_def)
  then show "is_float_desc d \<longleftrightarrow> \<not> is_int_val v" "c_size d \<le> 8"
    by (cases; auto simp: is_int_val_def)+
qed

lemma fast_params_one_float: "fast_params ks \<Longrightarrow> count_by is_float_kind ks \<le> 1"
  by (auto simp: fast_params_def Let_def split: list.splits)

text \<open>The word a context holds for argument \<open>k\<close>, at the slot of that argument.\<close>

lemma slot_word:
  assumes mem: "call_memory ctx (pad 15 (map conv_uintptr (filter is_int_val args)))
        (pad 8 (map conv_uintptr (filter (\<lambda>v. \<not> is_int_val v) args))) m m4"
    and classes: "map is_float_desc ts = map (\<lambda>v. \<not> is_int_val v) args"
    and lens: "count_by is_int_val args \<le> 15" "count_by (\<lambda>v. \<not> is_int_val v) args \<le> 8"
    and k: "k < length args" "n \<le> 8"
  shows "load m4 (ctx + of_nat (slot_offset ts k)) n = Inr (le_bytes n (conv_uintptr (args ! k)))"
proof -
  have len: "length ts = length args"
    using classes by (metis length_map)
  have cl: "is_float_desc (ts ! k) \<longleftrightarrow> \<not> is_int_val (args ! k)"
    using arg_cong [OF classes, of "\<lambda>l. l ! k"] k(1) len by simp
  have classes': "map (\<lambda>t. \<not> is_float_desc t) ts = map is_int_val args"
    using arg_cong [OF classes, of "map Not"] by (simp add: comp_def)
  show ?thesis
  proof (cases "is_int_val (args ! k)")
    case True
    let ?ws = "map conv_uintptr (filter is_int_val args)"
    let ?j = "count_by is_int_val (take k args)"
    have j: "?j < count_by is_int_val args" "filter is_int_val args ! ?j = args ! k"
      using filter_nth_count [of k args is_int_val] k(1) True by auto
    have "load m4 ctx (8 * length (pad 15 ?ws)) = Inr (words_bytes (pad 15 ?ws))"
      using mem lens(1) by (simp add: call_memory_def length_pad)
    from load_words_slot [OF this _ k(2), of ?j]
    have "load m4 (ctx + of_nat (8 * ?j)) n = Inr (le_bytes n (conv_uintptr (args ! k)))"
      using j lens(1) by (simp add: length_pad pad_nth)
    then show ?thesis
      using True cl count_by_map [OF classes'] by (simp add: slot_offset_def)
  next
    case False
    let ?ws = "map conv_uintptr (filter (\<lambda>v. \<not> is_int_val v) args)"
    let ?j = "count_by (\<lambda>v. \<not> is_int_val v) (take k args)"
    have j: "?j < count_by (\<lambda>v. \<not> is_int_val v) args" "filter (\<lambda>v. \<not> is_int_val v) args ! ?j = args ! k"
      using filter_nth_count [of k args "\<lambda>v. \<not> is_int_val v"] k(1) False by auto
    have "load m4 (ctx + 120) (8 * length (pad 8 ?ws)) = Inr (words_bytes (pad 8 ?ws))"
      using mem lens(2) by (simp add: call_memory_def length_pad)
    from load_words_slot [OF this _ k(2), of ?j]
    have "load m4 (ctx + 120 + of_nat (8 * ?j)) n = Inr (le_bytes n (conv_uintptr (args ! k)))"
      using j lens(2) by (simp add: length_pad pad_nth)
    then show ?thesis
      using False cl count_by_map [OF classes] by (simp add: slot_offset_def add.assoc)
  qed
qed

lemma wrapper_arguments:
  assumes w: "tryRegisterFastPath os arch ty = (Some w, True)"
    and types: "map_res goArgTypeToFfiType (func_ins ty) = Inr ts"
    and args: "map fval_param args = impl_params w"
  shows "length ts = length args" "map is_float_desc ts = map (\<lambda>v. \<not> is_int_val v) args"
    "\<forall>k<length args. c_size (ts ! k) \<le> 8" "length args \<le> 15"
    "count_by (\<lambda>v. \<not> is_int_val v) args \<le> 8"
proof -
  let ?ks = "map Kind (func_ins ty)"
  have fp: "fast_params ?ks"
    using try_exact [of os arch ty] w by simp
  then have kinds: "\<forall>t\<in>set (func_ins ty). is_word_kind (Kind t) \<or> is_float_kind (Kind t)"
    and n: "length (func_ins ty) \<le> 15"
    by (auto simp: fast_params_def)
  have ps: "map fval_param args = map kind_slot ?ks"
    using args try_fits [OF w] by (simp add: fits_def)
  then have len: "length args = length (func_ins ty)"
    by (metis length_map)
  have tl: "list_all2 (\<lambda>t d. goArgTypeToFfiType t = Inr d) (func_ins ty) ts"
    using types by (simp add: map_res_Inr_iff)
  then show lts: "length ts = length args"
    using len by (simp add: list_all2_lengthD)
  have slot: "(is_float_desc (ts ! k) \<longleftrightarrow> \<not> is_int_val (args ! k)) \<and> c_size (ts ! k) \<le> 8"
    if k: "k < length args" for k
  proof -
    have sd: "is_word_kind (Kind (func_ins ty ! k)) \<or> is_float_kind (Kind (func_ins ty ! k))"
      using kinds k len by simp
    moreover have "scalar_descriptor (Kind (func_ins ty ! k)) = Inr (ts ! k)"
      using list_all2_nthD [OF tl, of k] slot_kind_descriptor [OF sd] k len by simp
    moreover have "fval_param (args ! k) = kind_slot (Kind (func_ins ty ! k))"
      using arg_cong [OF ps, of "\<lambda>xs. xs ! k"] k len by simp
    ultimately show ?thesis
      using slot_descriptor by blast
  qed
  then show "map is_float_desc ts = map (\<lambda>v. \<not> is_int_val v) args"
    using lts by (intro nth_equalityI) auto
  show "\<forall>k<length args. c_size (ts ! k) \<le> 8" "length args \<le> 15"
    using slot len n by auto
  have "map (\<lambda>v. \<not> is_int_val v) args = map is_float_kind ?ks"
  proof (rule nth_equalityI)
    fix k assume "k < length (map (\<lambda>v. \<not> is_int_val v) args)"
    then have k: "k < length args" by simp
    then have "is_word_kind (?ks ! k) \<or> is_float_kind (?ks ! k)"
      using kinds len by simp
    moreover have "fval_param (args ! k) = kind_slot (?ks ! k)"
      using arg_cong [OF ps, of "\<lambda>xs. xs ! k"] k len by simp
    ultimately show "map (\<lambda>v. \<not> is_int_val v) args ! k = map is_float_kind ?ks ! k"
      using k len float_arg(1) [of "args ! k" "?ks ! k"] word_slot [of "?ks ! k"] float_not_word
      by (auto simp: is_int_val_def)
  qed (simp add: len)
  from count_by_map [OF this, of "length args"]
  have "count_by (\<lambda>v. \<not> is_int_val v) args = count_by is_float_kind ?ks"
    by (simp add: len)
  also have "\<dots> \<le> 1"
    using fp by (rule fast_params_one_float)
  finally show "count_by (\<lambda>v. \<not> is_int_val v) args \<le> 8"
    by simp
qed

section \<open>The call of a wrapper\<close>

text \<open>Enough contexts or heap for one more call.\<close>

definition can_call :: "uintptr list \<Rightarrow> 'w mem \<Rightarrow> bool" where
  "can_call pool m \<longleftrightarrow> pool_ok fast_ctx_size m (map id pool) \<and> (pool \<noteq> [] \<or> mbrk m + fast_ctx_size < heap_limit)"

lemma call_memory_result: "call_memory ctx ints floats m m4 \<Longrightarrow> load_word m4 (ctx + 368) = Inr 0"
  by (simp add: call_memory_def load_word_def)

text \<open>The call up to the point where the engine takes over, for any arrays of the right length.\<close>

lemma fastCallIF_enters:
  assumes can: "can_call pool m" and len: "length ints = 15" "length floats = 8"
    and ts: "ArgTypes cif = ts" "length ts \<le> 23" "count_by (\<lambda>t. \<not> is_float_desc t) ts \<le> 15"
      "count_by is_float_desc ts \<le> 8"
  shows "\<exists>ctx rest m1 m4 ptrs. fast_pool_get pool m = Inr (ctx, rest, m1) \<and>
     call_memory ctx ints floats m1 m4 \<and> length ptrs = length ts \<and>
     (\<forall>k<length ts. ptrs ! k = ctx + of_nat (slot_offset ts k)) \<and>
     fastCallIF E cif cfn ints floats pool m =
       (case CallFunction E cif cfn (ctx + 368) ptrs m4 of (_, _, m5) \<Rightarrow>
          bind_res (load_word m5 (ctx + 368)) (\<lambda>ret. Inr (ret, ctx # rest, m5)))"
proof -
  obtain ctx rest m1 where get: "fast_pool_get pool m = Inr (ctx, rest, m1)"
    using fast_pool.get_total [of pool m] can by (auto simp: can_call_def)
  have "mapped m1 ctx fast_ctx_size"
    using fast_pool.get_mapped [OF _ get] can unfolding can_call_def by simp
  from fill_context [OF this len] obtain m2 m3 m4
    where st: "store m1 ctx (words_bytes ints) = Inr m2"
      "store m2 (ctx + 120) (words_bytes floats) = Inr m3"
      "store m3 (ctx + 368) (le_bytes 8 0) = Inr m4"
      and mem: "call_memory ctx ints floats m1 m4"
    by auto
  obtain ptrs where ptrs: "fast_args ctx ts 0 0 0 = Inr ptrs" "length ptrs = length ts"
    "\<forall>k<length ts. ptrs ! k = ctx + of_nat (slot_offset ts k)"
    using fast_args_pointers [of 0 ts 0 0 ctx] ts by auto
  have "fastCallIF E cif cfn ints floats pool m =
       (case CallFunction E cif cfn (ctx + 368) ptrs m4 of (_, _, m5) \<Rightarrow>
          bind_res (load_word m5 (ctx + 368)) (\<lambda>ret. Inr (ret, ctx # rest, m5)))"
    by (simp add: fastCallIF_def get st ts ptrs)
  with get mem ptrs(2,3) show ?thesis
    by (intro exI conjI)
qed

lemma fast_call_core:
  assumes "tryRegisterFastPath os arch ty = (Some w, True)"
    and "map_res goArgTypeToFfiType (func_ins ty) = Inr ts" and "ArgTypes cif = ts"
    and "map fval_param args = impl_params w" and "can_call pool m"
  shows "\<exists>ctx rest m1 m4 ptrs. fast_pool_get pool m = Inr (ctx, rest, m1) \<and>
     length ptrs = length args \<and>
     (\<forall>k<length args. load m4 (ptrs ! k) (c_size (ts ! k)) =
        Inr (le_bytes (c_size (ts ! k)) (conv_uintptr (args ! k)))) \<and>
     load_word m4 (ctx + 368) = Inr 0 \<and>
     (\<forall>x. (\<forall>i<fast_ctx_size. x \<noteq> ctx + of_nat i) \<longrightarrow> mbytes m4 x = mbytes m1 x) \<and>
     run_impl E cif cfn w args pool m =
       (case CallFunction E cif cfn (ctx + 368) ptrs m4 of (_, _, m5) \<Rightarrow>
          bind_res (load_word m5 (ctx + 368)) (\<lambda>r.
            Inr (if 0 < NumOut ty then Some r else None, ctx # rest, m5)))"
proof -
  note wa = wrapper_arguments [OF assms(1,2,4)]
  have fit: "impl_ints w args = pad 15 (map conv_uintptr (filter is_int_val args))"
    "impl_floats w args = pad 8 (map conv_uintptr (filter (\<lambda>v. \<not> is_int_val v) args))"
    "impl_result w = (0 < NumOut ty)"
    using try_fits [OF assms(1)] assms(4) by (auto simp: fits_def)
  have ints: "count_by is_int_val args \<le> 15"
    using wa(4) length_filter_le [of is_int_val args] by linarith
  have "count_by is_float_desc ts = count_by (\<lambda>v. \<not> is_int_val v) args"
    using count_by_map [OF wa(2), of "length ts"] wa(1) by simp
  moreover have "count_by (\<lambda>t. \<not> is_float_desc t) ts \<le> 15" "length ts \<le> 23"
    using wa(1,4) length_filter_le [of "\<lambda>t. \<not> is_float_desc t" ts] by linarith+
  ultimately obtain ctx rest m1 m4 ptrs where call: "fast_pool_get pool m = Inr (ctx, rest, m1)"
    "call_memory ctx (impl_ints w args) (impl_floats w args) m1 m4" "length ptrs = length ts"
    "\<forall>k<length ts. ptrs ! k = ctx + of_nat (slot_offset ts k)"
    "fastCallIF E cif cfn (impl_ints w args) (impl_floats w args) pool m =
       (case CallFunction E cif cfn (ctx + 368) ptrs m4 of (_, _, m5) \<Rightarrow>
          bind_res (load_word m5 (ctx + 368)) (\<lambda>ret. Inr (ret, ctx # rest, m5)))"
    using fastCallIF_enters [OF assms(5) _ _ assms(3), of "impl_ints w args" "impl_floats w args" E cfn]
      wa(5) ints by (auto simp: fit length_pad)
  have "load m4 (ptrs ! k) (c_size (ts ! k)) = Inr (le_bytes (c_size (ts ! k)) (conv_uintptr (args ! k)))"
    if "k < length args" for k
    using slot_word [OF call(2) [unfolded fit] wa(2) ints wa(5) that, of "c_size (ts ! k)"] wa(1,3) call(4) that
    by simp
  moreover have "run_impl E cif cfn w args pool m =
       (case CallFunction E cif cfn (ctx + 368) ptrs m4 of (_, _, m5) \<Rightarrow>
          bind_res (load_word m5 (ctx + 368)) (\<lambda>r.
            Inr (if 0 < NumOut ty then Some r else None, ctx # rest, m5)))"
    by (simp add: run_impl_def call(5) fit(3) bind_res_assoc split: prod.split)
  ultimately show ?thesis
    using call(1-3) wa(1) call_memory_result [OF call(2)] by (auto simp: call_memory_def)
qed

section \<open>Properties\<close>

text \<open>
  Property C1. Calling a variable bound by \<open>tryRegisterFastPath\<close> enters the native function exactly
  once and never panics before that. At that point every argument pointer leads to the bytes of the
  declared argument at that position, as many as its descriptor has; the result word is zeroed; and
  Go memory outside the call context is as it was. The Go result is the word the native call leaves
  there, and the context is back in the pool.
\<close>

theorem fast_call_delivers:
  assumes "tryRegisterFastPath os arch ty = (Some w, True)"
    and "map_res goArgTypeToFfiType (func_ins ty) = Inr ts" and "ArgTypes cif = ts"
    and "map fval_param args = impl_params w" and "can_call pool m"
  shows "\<exists>ctx rest m1 m4 ptrs. fast_pool_get pool m = Inr (ctx, rest, m1) \<and>
     length ptrs = length args \<and>
     (\<forall>k<length args. load m4 (ptrs ! k) (c_size (ts ! k)) =
        Inr (le_bytes (c_size (ts ! k)) (conv_uintptr (args ! k)))) \<and>
     load_word m4 (ctx + 368) = Inr 0 \<and>
     (\<forall>x. (\<forall>i<fast_ctx_size. x \<noteq> ctx + of_nat i) \<longrightarrow> mbytes m4 x = mbytes m1 x) \<and>
     run_impl E cif cfn w args pool m =
       (case CallFunction E cif cfn (ctx + 368) ptrs m4 of (_, _, m5) \<Rightarrow>
          bind_res (load_word m5 (ctx + 368)) (\<lambda>r.
            Inr (if 0 < NumOut ty then Some r else None, ctx # rest, m5)))"
  by (rule fast_call_core [OF assms])

definition empty_mem :: "unit mem" where
  "empty_mem = \<lparr>mbytes = (\<lambda>_. None), mbrk = 4096, world = ()\<rparr>"

lemma can_call_empty: "can_call [] empty_mem"
  by (simp add: can_call_def pool_ok_Nil empty_mem_def fast_ctx_size_def heap_limit_def)

definition sample_cif :: call_interface where
  "sample_cif = zero_cif\<lparr>ArgTypes := [PointerTypeDescriptor, SInt64TypeDescriptor, DoubleTypeDescriptor]\<rparr>"

theorem fast_call_delivers_witness:
  "\<exists>ctx rest m1 m4 ptrs. fast_pool_get [] empty_mem = Inr (ctx, rest, m1) \<and> length ptrs = 3 \<and>
     load m4 (ptrs ! 2) 8 = Inr (le_bytes 8 4614253070214989087) \<and>
     run_impl idle_engine sample_cif 64 (emitWrapper [PPtr, PWord] 64 True)
         [FPtr 8192, FWord 7, FF64 4614253070214989087] [] empty_mem =
       (case CallFunction idle_engine sample_cif 64 (ctx + 368) ptrs m4 of (_, _, m5) \<Rightarrow>
          bind_res (load_word m5 (ctx + 368)) (\<lambda>r. Inr (Some r, ctx # rest, m5)))"
proof -
  let ?ts = "[PointerTypeDescriptor, SInt64TypeDescriptor, DoubleTypeDescriptor]"
  have ts: "map_res goArgTypeToFfiType (func_ins sample_signature) = Inr ?ts"
    by (simp add: sample_signature_def goArgTypeToFfiType_def)
  have cif: "ArgTypes sample_cif = ?ts"
    by (simp add: sample_cif_def)
  have args: "map fval_param [FPtr 8192, FWord 7, FF64 4614253070214989087] = impl_params (emitWrapper [PPtr, PWord] 64 True)"
    by (simp add: emitWrapper_def)
  have out: "0 < NumOut sample_signature"
    by (simp add: sample_signature_def NumOut_def)
  let ?args = "[FPtr 8192, FWord 7, FF64 4614253070214989087]"
  obtain ctx rest m1 m4 ptrs where *: "fast_pool_get [] empty_mem = Inr (ctx, rest, m1)"
    "length ptrs = length ?args"
    "\<forall>k<length ?args. load m4 (ptrs ! k) (c_size (?ts ! k)) =
        Inr (le_bytes (c_size (?ts ! k)) (conv_uintptr (?args ! k)))"
    "run_impl idle_engine sample_cif 64 (emitWrapper [PPtr, PWord] 64 True) ?args [] empty_mem =
       (case CallFunction idle_engine sample_cif 64 (ctx + 368) ptrs m4 of (_, _, m5) \<Rightarrow>
          bind_res (load_word m5 (ctx + 368)) (\<lambda>r.
            Inr (if 0 < NumOut sample_signature then Some r else None, ctx # rest, m5)))"
    using fast_call_delivers [OF sample_signature_fast ts cif args can_call_empty, of idle_engine 64]
    by (elim exE conjE) (rule that)
  have at2: "2 < length ?args" "?ts ! 2 = DoubleTypeDescriptor" "?args ! 2 = FF64 4614253070214989087"
    by simp_all
  have "load m4 (ptrs ! 2) 8 = Inr (le_bytes 8 4614253070214989087)"
    using *(3) [rule_format, OF at2(1)] by (simp only: at2 c_size.simps conv_uintptr.simps)
  moreover have "length ptrs = 3"
    using *(2) by simp
  ultimately show ?thesis
    using *(1) *(4) [unfolded if_P [OF out]] by (intro exI conjI)
qed

end
