(* ===== verification/CStrings.thy ===== *)
theory CStrings
  imports GoMemory "HOL-Library.Sublist"
begin

text \<open>
  Strings that cross the language boundary: the three readers of NUL-terminated memory
  (\<open>cStringToGoString\<close> of \<^verbatim>\<open>purego.go\<close>, \<open>GoString\<close> of \<^verbatim>\<open>cstring.go\<close> and of \<^verbatim>\<open>internal/strings\<close>) and
  the writer of \<^verbatim>\<open>internal/strings\<close>. A reader scans memory it does not own: it may meet unmapped
  memory, and it may never return, which is the value \<open>None\<close> here.
\<close>

declare load.simps(2) [simp del]

section \<open>The scan\<close>

text \<open>Text of a Go program as the bytes it has at run time.\<close>

definition bytes_of :: "string \<Rightarrow> byte list" where
  "bytes_of s = map of_char s"

partial_function (option) c_scan :: "'w mem \<Rightarrow> uintptr \<Rightarrow> nat \<Rightarrow> nat res option" where
  "c_scan m ptr len =
     (case load_byte m (ptr + of_nat len) of
        Inl e \<Rightarrow> Some (Inl e)
      | Inr b \<Rightarrow> if b = 0 then Some (Inr len) else c_scan m ptr (len + 1))"

definition cStringToGoString :: "'w mem \<Rightarrow> uintptr \<Rightarrow> byte list res option" where
  "cStringToGoString m addr =
     (if addr = 0 then Some (Inr [])
      else case c_scan m addr 0 of
             None \<Rightarrow> None | Some r \<Rightarrow> Some (bind_res r (\<lambda>len. load m addr len)))"

definition GoString :: "'w mem \<Rightarrow> uintptr \<Rightarrow> byte list res option" where
  "GoString m c =
     (if c = 0 then Some (Inr [])
      else case c_scan m c 0 of
             None \<Rightarrow> None | Some r \<Rightarrow> Some (bind_res r (\<lambda>len. load m c len)))"

definition strings_GoString :: "'w mem \<Rightarrow> uintptr \<Rightarrow> byte list res option" where
  "strings_GoString m c =
     (let ptr = c in
      if ptr = 0 then Some (Inr [])
      else case c_scan m ptr 0 of
             None \<Rightarrow> None | Some r \<Rightarrow> Some (bind_res r (\<lambda>len. load m ptr len)))"

text \<open>A reader as a step of a function that may fail in other ways too.\<close>

definition returning :: "'a res option \<Rightarrow> 'a res" where
  "returning r = (case r of None \<Rightarrow> Inl Diverges | Some x \<Rightarrow> x)"

section \<open>What the scan finds\<close>

definition c_string :: "'w mem \<Rightarrow> uintptr \<Rightarrow> byte list \<Rightarrow> bool" where
  "c_string m p bs \<longleftrightarrow> load m p (length bs + 1) = Inr (bs @ [0]) \<and> 0 \<notin> set bs"

lemma c_string_bytes:
  "c_string m p bs \<longleftrightarrow>
     (\<forall>i<length bs. mbytes m (p + of_nat i) = Some (bs ! i) \<and> bs ! i \<noteq> 0) \<and>
     mbytes m (p + of_nat (length bs)) = Some 0"
proof -
  have "(0 \<notin> set bs) = (\<forall>i<length bs. bs ! i \<noteq> 0)"
    by (metis in_set_conv_nth)
  moreover have "(\<forall>i<length bs + 1. P i) \<longleftrightarrow> (\<forall>i<length bs. P i) \<and> P (length bs)" for P
    using less_Suc_eq by auto
  ultimately show ?thesis
    unfolding c_string_def load_Inr_iff by (auto simp: nth_append)
qed

text \<open>The scan from \<open>len\<close> on, when the next \<open>k\<close> bytes are present and not NUL.\<close>

lemma c_scan_skip:
  assumes "\<forall>i<k. \<exists>b. mbytes m (p + of_nat (len + i)) = Some b \<and> b \<noteq> 0"
  shows "c_scan m p len = c_scan m p (len + k)"
  using assms
proof (induction k arbitrary: len)
  case (Suc k)
  obtain b where "mbytes m (p + of_nat len) = Some b" "b \<noteq> 0"
    using Suc.prems [rule_format, of 0] by auto
  then have "c_scan m p len = c_scan m p (Suc len)"
    by (subst c_scan.simps) (simp add: load_byte_def)
  also have "\<dots> = c_scan m p (Suc len + k)"
    by (rule Suc.IH) (use Suc.prems in \<open>metis Suc_mono add_Suc add_Suc_right\<close>)
  finally show ?case
    by simp
qed simp

lemma c_scan_stop: "mbytes m (p + of_nat len) = Some 0 \<Longrightarrow> c_scan m p len = Some (Inr len)"
  by (subst c_scan.simps) (simp add: load_byte_def)

lemma c_scan_fault:
  "mbytes m (p + of_nat len) = None \<Longrightarrow> c_scan m p len = Some (Inl (Segv (p + of_nat len)))"
  by (subst c_scan.simps) (simp add: load_byte_def)

text \<open>Whatever the scan returns, it has passed only present bytes that are not NUL.\<close>

lemma c_scan_result:
  assumes "c_scan m p len = Some r"
  shows "\<exists>k. (\<forall>i<k. \<exists>b. mbytes m (p + of_nat (len + i)) = Some b \<and> b \<noteq> 0) \<and>
       (mbytes m (p + of_nat (len + k)) = Some 0 \<and> r = Inr (len + k) \<or>
        mbytes m (p + of_nat (len + k)) = None \<and> r = Inl (Segv (p + of_nat (len + k))))"
  using assms
proof (induct rule: c_scan.raw_induct [rotated 1, consumes 1])
  case (1 f m p len r)
  show ?case
  proof (cases "mbytes m (p + of_nat len)")
    case None
    then show ?thesis
      using 1(2) by (intro exI [of _ 0]) (auto simp: load_byte_def)
  next
    case (Some b)
    show ?thesis
    proof (cases "b = 0")
      case True
      then show ?thesis
        using 1(2) Some by (intro exI [of _ 0]) (auto simp: load_byte_def)
    next
      case False
      then have "f m p (Suc len) = Some r"
        using 1(2) Some by (simp add: load_byte_def)
      from 1(1) [OF this] obtain k
        where k: "\<forall>i<k. \<exists>b. mbytes m (p + of_nat (Suc len + i)) = Some b \<and> b \<noteq> 0"
          "mbytes m (p + of_nat (Suc len + k)) = Some 0 \<and> r = Inr (Suc len + k) \<or>
           mbytes m (p + of_nat (Suc len + k)) = None \<and> r = Inl (Segv (p + of_nat (Suc len + k)))"
        by auto
      have "\<exists>b. mbytes m (p + of_nat (len + i)) = Some b \<and> b \<noteq> 0" if "i < Suc k" for i
        using that k(1) Some False by (cases i) auto
      then show ?thesis
        using k(2) by (intro exI [of _ "Suc k"]) auto
    qed
  qed
qed

lemma c_scan_Inr:
  "c_scan m p 0 = Some (Inr n) \<longleftrightarrow>
     (\<forall>i<n. \<exists>b. mbytes m (p + of_nat i) = Some b \<and> b \<noteq> 0) \<and> mbytes m (p + of_nat n) = Some 0"
proof
  assume "c_scan m p 0 = Some (Inr n)"
  from c_scan_result [OF this] show "(\<forall>i<n. \<exists>b. mbytes m (p + of_nat i) = Some b \<and> b \<noteq> 0) \<and>
      mbytes m (p + of_nat n) = Some 0"
    by auto
next
  assume "(\<forall>i<n. \<exists>b. mbytes m (p + of_nat i) = Some b \<and> b \<noteq> 0) \<and> mbytes m (p + of_nat n) = Some 0"
  then show "c_scan m p 0 = Some (Inr n)"
    using c_scan_skip [of n m p 0] c_scan_stop [of m p n] by simp
qed

text \<open>
  The scan fails to return only when no byte of the whole address space is NUL or unmapped.
\<close>

lemma c_scan_returns:
  assumes "mbytes m a = None \<or> mbytes m a = Some 0"
  shows "\<exists>r. c_scan m p 0 = Some r"
proof -
  let ?stop = "\<lambda>i. mbytes m (p + of_nat i) = None \<or> mbytes m (p + of_nat i) = Some 0"
  define n where "n = (LEAST i. ?stop i)"
  have "?stop (unat (a - p))"
    using assms by simp
  then have stop: "?stop n" and skip: "\<forall>i<n. \<not> ?stop i"
    using LeastI [of ?stop] not_less_Least [of _ ?stop] unfolding n_def by blast+
  have "\<forall>i<n. \<exists>b. mbytes m (p + of_nat (0 + i)) = Some b \<and> b \<noteq> 0"
    using skip by fastforce
  from c_scan_skip [OF this] have "c_scan m p 0 = c_scan m p n"
    by simp
  then show ?thesis
    using stop c_scan_stop [of m p n] c_scan_fault [of m p n] by auto
qed

lemma c_scan_diverges:
  assumes "\<forall>a. mbytes m a \<noteq> None \<and> mbytes m a \<noteq> Some 0"
  shows "c_scan m p 0 = None"
  using c_scan_result [of m p 0] assms by (cases "c_scan m p 0") auto

section \<open>The interface of a reader\<close>

text \<open>
  What the callers of the three readers rely on: null is the empty string, anything else is read up
  to its first NUL, and nothing but such a string is ever returned.
\<close>

locale c_string_reader =
  fixes read :: "'w mem \<Rightarrow> uintptr \<Rightarrow> byte list res option"
  assumes read_null: "read m 0 = Some (Inr [])"
    and read_c_string: "p \<noteq> 0 \<Longrightarrow> c_string m p bs \<Longrightarrow> read m p = Some (Inr bs)"
    and read_only_c_string: "p \<noteq> 0 \<Longrightarrow> read m p = Some (Inr bs) \<Longrightarrow> c_string m p bs"
begin

lemma read_iff: "read m p = Some (Inr bs) \<longleftrightarrow> (if p = 0 then bs = [] else c_string m p bs)"
  using read_null read_c_string [of p m bs] read_only_c_string [of p m bs] by auto

lemma read_no_nul: "read m p = Some (Inr bs) \<Longrightarrow> 0 \<notin> set bs"
  by (auto simp: read_iff c_string_def split: if_splits)

text \<open>A buffer that ends in NUL is read up to the first NUL in it.\<close>

lemma read_buffer:
  assumes "p \<noteq> 0" "load m p (length s + 1) = Inr (s @ [0])"
  shows "read m p = Some (Inr (takeWhile (\<lambda>b. b \<noteq> 0) s))"
proof (rule read_c_string [OF assms(1)])
  let ?t = "takeWhile (\<lambda>b. b \<noteq> 0) s"
  have nz: "0 \<notin> set ?t"
    using set_takeWhileD by fastforce
  have len: "length ?t \<le> length s"
    by (rule length_takeWhile_le)
  have "take (length ?t + 1) (s @ [0]) = ?t @ [0]"
  proof (cases "length ?t = length s")
    case True
    then have eq: "?t = s"
      using takeWhile_eq_take [of "\<lambda>b. b \<noteq> 0" s] by simp
    show ?thesis
      unfolding eq by simp
  next
    case False
    then have lt: "length ?t < length s"
      using len by simp
    have "take (length ?t + 1) s = ?t @ [s ! length ?t]"
      using lt by (simp add: take_Suc_conv_app_nth flip: takeWhile_eq_take)
    moreover have "s ! length ?t = 0"
      using nth_length_takeWhile [OF lt] by simp
    ultimately show ?thesis
      using lt by simp
  qed
  then show "c_string m p ?t"
    using load_prefix [OF assms(2), of "length ?t + 1"] len nz by (simp add: c_string_def)
qed

text \<open>What was read stays readable while memory only grows.\<close>

lemma read_stable:
  assumes "read m p = Some (Inr bs)" "mem_ext m m'" "settled m p (length bs + 1)"
  shows "read m' p = Some (Inr bs)"
  using assms(1) load_mem_ext [OF assms(2,3), of "bs @ [0]"]
  unfolding read_iff c_string_def by (simp split: if_splits)

end

lemma scan_reader:
  assumes "p \<noteq> 0"
  shows "(case c_scan m p 0 of None \<Rightarrow> None | Some r \<Rightarrow> Some (bind_res r (\<lambda>len. load m p len))) = Some (Inr bs) \<longleftrightarrow>
     c_string m p bs"
proof -
  have "c_string m p bs \<longleftrightarrow> c_scan m p 0 = Some (Inr (length bs)) \<and> load m p (length bs) = Inr bs"
    by (auto simp: c_scan_Inr c_string_bytes load_Inr_iff)
  then show ?thesis
    by (auto simp: res_simps dest: load_length split: option.splits)
qed

interpretation native_reader: c_string_reader cStringToGoString
  by standard (simp_all add: cStringToGoString_def scan_reader)

interpretation public_reader: c_string_reader GoString
  by standard (simp_all add: GoString_def scan_reader)

interpretation internal_reader: c_string_reader strings_GoString
  by standard (simp_all add: strings_GoString_def scan_reader)

section \<open>The writer of the internal package\<close>

definition hasSuffix :: "byte list \<Rightarrow> byte list \<Rightarrow> bool" where
  "hasSuffix s sfx \<longleftrightarrow> length sfx \<le> length s \<and> drop (length s - length sfx) s = sfx"

lemma hasSuffix_suffix: "hasSuffix s sfx \<longleftrightarrow> suffix sfx s"
proof
  assume "hasSuffix s sfx"
  then show "suffix sfx s"
    unfolding hasSuffix_def by (metis suffix_drop)
next
  assume "suffix sfx s"
  then show "hasSuffix s sfx"
    by (auto simp: hasSuffix_def suffix_def)
qed

text \<open>
  A Go string is the address and the bytes of its data. The result points at the data itself when
  it already ends in NUL, and at a fresh copy with a NUL otherwise.
\<close>

definition strings_CString :: "uintptr \<Rightarrow> byte list \<Rightarrow> 'w mem \<Rightarrow> (uintptr \<times> 'w mem) res" where
  "strings_CString data name m =
     (if hasSuffix name [0] then Inr (data, m)
      else gnew (name @ drop (length name) (replicate (length name + 1) 0)) m)"

text \<open>A Go string value: its data pointer is not null and memory holds its bytes there.\<close>

definition go_string :: "'w mem \<Rightarrow> uintptr \<Rightarrow> byte list \<Rightarrow> bool" where
  "go_string m data bs \<longleftrightarrow> bs = [] \<or> data \<noteq> 0 \<and> load m data (length bs) = Inr bs"

lemma fresh_not_null: "gnew bs m = Inr (a, m') \<Longrightarrow> 0 < mbrk m \<Longrightarrow> a \<noteq> 0"
  by (auto simp: gnew_def word_of_nat_eq_0_iff heap_limit_def dest!: dvd_imp_le split: if_splits)

lemma takeWhile_snoc_nul: "takeWhile (\<lambda>b. b \<noteq> 0) (s @ [0 :: byte]) = takeWhile (\<lambda>b. b \<noteq> 0) s"
  by (induction s) auto

text \<open>
  A NUL-terminated buffer in memory, from a Go string: either its own data or a fresh copy. Both
  \<open>strings.CString\<close> and the string case of \<open>packArg\<close> make one.
\<close>

lemma terminated_own:
  assumes "hasSuffix s [0]" "go_string m data s"
  shows "data \<noteq> 0" "load m data (length (butlast s) + 1) = Inr (butlast s @ [0])"
    "takeWhile (\<lambda>b. b \<noteq> 0) (butlast s) = takeWhile (\<lambda>b. b \<noteq> 0) s"
proof -
  obtain t where s: "s = t @ [0]"
    using assms(1) by (auto simp: hasSuffix_suffix suffix_def)
  show "data \<noteq> 0" "load m data (length (butlast s) + 1) = Inr (butlast s @ [0])"
    using assms(2) by (simp_all add: go_string_def s)
  show "takeWhile (\<lambda>b. b \<noteq> 0) (butlast s) = takeWhile (\<lambda>b. b \<noteq> 0) s"
    by (simp only: s butlast_snoc takeWhile_snoc_nul)
qed

lemma terminated_copy:
  assumes "gnew (s @ [0]) m = Inr (p, m')" "0 < mbrk m"
  shows "p \<noteq> 0" "load m' p (length s + 1) = Inr (s @ [0])"
  using fresh_not_null [OF assms] gnew_spec(2) [OF assms(1)] by simp_all

section \<open>Properties\<close>

text \<open>
  Property C18. Each of the three readers returns a string exactly when the pointer is null (the
  empty string) or memory holds that string followed by its first NUL; they agree everywhere, also
  in what they do on unmapped memory.
\<close>

theorem readers_exact:
  "(cStringToGoString m p = Some (Inr bs)) = (if p = 0 then bs = [] else c_string m p bs) \<and>
   GoString m p = cStringToGoString m p \<and> strings_GoString m p = cStringToGoString m p"
  by (simp add: native_reader.read_iff) (simp add: cStringToGoString_def GoString_def strings_GoString_def)

text \<open>
  Property C19. A reader returns, with a string or with a fault, unless the pointer is not null and no
  address of the whole address space is unmapped or holds NUL. A fault is a fault at the first
  unmapped address, reached before any NUL.
\<close>

theorem readers_return:
  "(cStringToGoString m p = None) = (p \<noteq> 0 \<and> (\<forall>a. mbytes m a \<noteq> None \<and> mbytes m a \<noteq> Some 0)) \<and>
   (cStringToGoString m p = Some (Inl e)) = (p \<noteq> 0 \<and> (\<exists>k. e = Segv (p + of_nat k) \<and>
      mbytes m (p + of_nat k) = None \<and>
      (\<forall>i<k. mbytes m (p + of_nat i) \<noteq> None \<and> mbytes m (p + of_nat i) \<noteq> Some 0)))"
proof (intro conjI)
  show "(cStringToGoString m p = None) = (p \<noteq> 0 \<and> (\<forall>a. mbytes m a \<noteq> None \<and> mbytes m a \<noteq> Some 0))"
  proof (cases "\<exists>a. mbytes m a = None \<or> mbytes m a = Some 0")
    case True
    then obtain r where "c_scan m p 0 = Some r"
      using c_scan_returns by blast
    then show ?thesis
      using True by (auto simp: cStringToGoString_def)
  next
    case False
    then have "c_scan m p 0 = None"
      by (intro c_scan_diverges) auto
    then show ?thesis
      using False by (auto simp: cStringToGoString_def)
  qed
next
  have "c_scan m p 0 = Some (Inl e) \<longleftrightarrow> (\<exists>k. e = Segv (p + of_nat k) \<and> mbytes m (p + of_nat k) = None \<and>
      (\<forall>i<k. mbytes m (p + of_nat i) \<noteq> None \<and> mbytes m (p + of_nat i) \<noteq> Some 0))"
  proof
    assume "c_scan m p 0 = Some (Inl e)"
    from c_scan_result [OF this] show "\<exists>k. e = Segv (p + of_nat k) \<and> mbytes m (p + of_nat k) = None \<and>
      (\<forall>i<k. mbytes m (p + of_nat i) \<noteq> None \<and> mbytes m (p + of_nat i) \<noteq> Some 0)"
      by fastforce
  next
    assume "\<exists>k. e = Segv (p + of_nat k) \<and> mbytes m (p + of_nat k) = None \<and>
      (\<forall>i<k. mbytes m (p + of_nat i) \<noteq> None \<and> mbytes m (p + of_nat i) \<noteq> Some 0)"
    then obtain k where k: "e = Segv (p + of_nat k)" "mbytes m (p + of_nat k) = None"
      "\<forall>i<k. mbytes m (p + of_nat i) \<noteq> None \<and> mbytes m (p + of_nat i) \<noteq> Some 0"
      by auto
    then show "c_scan m p 0 = Some (Inl e)"
      using c_scan_skip [of k m p 0] c_scan_fault [of m p k] by auto
  qed
  moreover have "(case c_scan m p 0 of None \<Rightarrow> None | Some r \<Rightarrow> Some (bind_res r (\<lambda>len. load m p len))) = Some (Inl e) \<longleftrightarrow>
      c_scan m p 0 = Some (Inl e)"
  proof -
    have "load m p n \<noteq> Inl e" if "c_scan m p 0 = Some (Inr n)" for n
    proof -
      have "load m p n = Inr (map (\<lambda>i. the (mbytes m (p + of_nat i))) [0..<n])"
        using that by (auto simp: c_scan_Inr load_Inr_iff)
      then show ?thesis
        by simp
    qed
    then show ?thesis
      by (auto simp: res_simps split: option.splits)
  qed
  ultimately show "(cStringToGoString m p = Some (Inl e)) = (p \<noteq> 0 \<and> (\<exists>k. e = Segv (p + of_nat k) \<and>
      mbytes m (p + of_nat k) = None \<and>
      (\<forall>i<k. mbytes m (p + of_nat i) \<noteq> None \<and> mbytes m (p + of_nat i) \<noteq> Some 0)))"
    by (simp add: cStringToGoString_def)
qed

text \<open>A memory with one byte mapped, no NUL in it.\<close>

definition text_mem :: "unit mem" where
  "text_mem = \<lparr>mbytes = (\<lambda>a. if a = 100 then Some 65 else None), mbrk = 4096, world = ()\<rparr>"

theorem readers_return_witness:
  "cStringToGoString text_mem 100 = Some (Inl (Segv 101)) \<and>
   cStringToGoString text_mem 100 \<noteq> None"
proof -
  have "\<exists>k. Segv (101 :: uintptr) = Segv (100 + of_nat k) \<and> mbytes text_mem (100 + of_nat k) = None \<and>
      (\<forall>i<k. mbytes text_mem (100 + of_nat i) \<noteq> None \<and> mbytes text_mem (100 + of_nat i) \<noteq> Some 0)"
    by (intro exI [of _ 1]) (simp add: text_mem_def)
  then show ?thesis
    using readers_return [of text_mem 100 "Segv 101"] by simp
qed

text \<open>
  Property C20. A Go string that the internal package turns into a C string reads back as that string
  up to its first NUL, so unchanged if it has none, whether the data is shared or copied.
\<close>

theorem strings_round_trip:
  assumes "go_string m data name" "0 < mbrk m" "strings_CString data name m = Inr (p, m')"
  shows "strings_GoString m' p = Some (Inr (takeWhile (\<lambda>b. b \<noteq> 0) name))"
proof (cases "hasSuffix name [0]")
  case True
  then have "p = data" "m' = m"
    using assms(3) by (simp_all add: strings_CString_def)
  then show ?thesis
    using internal_reader.read_buffer [OF terminated_own(1,2) [OF True assms(1)]] terminated_own(3) [OF True assms(1)]
    by simp
next
  case False
  then have "gnew (name @ [0]) m = Inr (p, m')"
    using assms(3) by (simp add: strings_CString_def flip: replicate_Suc) simp
  from internal_reader.read_buffer [OF terminated_copy [OF this assms(2)]] show ?thesis .
qed

theorem strings_round_trip_witness:
  "\<exists>p m'. strings_CString 100 [65] text_mem = Inr (p, m') \<and> strings_GoString m' p = Some (Inr [65])"
proof -
  have "go_string text_mem 100 [65]"
    by (simp add: go_string_def text_mem_def load_Inr_iff)
  moreover obtain p m' where "strings_CString 100 [65] text_mem = Inr (p, m')"
    by (simp add: strings_CString_def hasSuffix_def gnew_def text_mem_def heap_limit_def)
  ultimately show ?thesis
    using strings_round_trip [of text_mem 100 "[65]" p m'] by (simp add: text_mem_def)
qed

end
