(* ===== verification/GoState.thy ===== *)
theory GoState
  imports Goffi GoPool CStrings
begin

text \<open>
  The state that the library's functions share: the process memory, the pools of call contexts, the
  lazily resolved C functions behind \<open>sync.Once\<close>, and how often the goroutine is locked to its
  thread. The steps below are the ones every component uses on it.
\<close>

section \<open>The state\<close>

text \<open>
  A C function that is looked up at its first use, with its call interface: \<open>dladdr\<close>, the errno
  location and \<open>malloc\<close>.
\<close>

record lazy_fn =
  lf_done :: bool
  lf_fn :: uintptr
  lf_cif :: call_interface

definition unresolved :: lazy_fn where
  "unresolved = \<lparr>lf_done = False, lf_fn = 0, lf_cif = zero_cif\<rparr>"

text \<open>
  What \<open>keepAlive\<close> holds of one argument: a reference to a block of memory, or a copy of a value.
\<close>

datatype kept = KeptBlock uintptr | KeptCopy

text \<open>
  A \<open>slowCallContext\<close>: its address, under which its memory is (\<open>keepAlive\<close> at offset 0, \<open>ffiArgs\<close> at
  512, \<open>retBuf\<close> at 768), and the contents of its two arrays of Go pointers.
\<close>

record slow_ctx =
  sc_addr :: uintptr
  keepAlive :: "kept option list"
  ffiArgs :: "uintptr option list"

text \<open>
  A \<open>syscallContext\<close>: its address, under which its memory is (\<open>args\<close> at offset 0, \<open>ffiArgs\<close> at 256,
  \<open>result\<close> at 512), and the pointers in \<open>ffiArgs\<close>.
\<close>

record syscall_ctx =
  sx_addr :: uintptr
  sx_ffiArgs :: "uintptr list"

text \<open>
  The state of \<open>SyscallN\<close>: the prepared interfaces with their errors for 0 to 32 arguments, once they
  are initialised.
\<close>

record syscall_cifs =
  sy_done :: bool
  syscallCIFs :: "call_interface list"
  syscallCIFErrors :: "string option list"

record 'w gstate =
  gmem :: "'w mem"
  fastCallPool :: "uintptr list"
  slowCallPool :: "slow_ctx list"
  syscallPool :: "syscall_ctx list"
  dladdr_lazy :: lazy_fn
  errno_lazy :: lazy_fn
  malloc_lazy :: lazy_fn
  syscall_lazy :: syscall_cifs
  lockDepth :: nat

text \<open>The target a program is built for.\<close>

record target =
  GOOS :: goos
  GOARCH :: goarch

section \<open>Steps on memory\<close>

definition on_mem :: "('w mem \<Rightarrow> ('a \<times> 'w mem) res) \<Rightarrow> ('w gstate, 'a) prog" where
  "on_mem f = lift_st (\<lambda>s. bind_res (f (gmem s)) (\<lambda>(x, m). Inr (x, s\<lparr>gmem := m\<rparr>)))"

definition new_st :: "byte list \<Rightarrow> ('w gstate, uintptr) prog" where
  "new_st bs = on_mem (gnew bs)"

definition load_st :: "uintptr \<Rightarrow> nat \<Rightarrow> ('w gstate, byte list) prog" where
  "load_st a n = on_mem (\<lambda>m. bind_res (load m a n) (\<lambda>bs. Inr (bs, m)))"

definition load_word_st :: "uintptr \<Rightarrow> ('w gstate, uintptr) prog" where
  "load_word_st a = on_mem (\<lambda>m. bind_res (load_word m a) (\<lambda>w. Inr (w, m)))"

definition store_st :: "uintptr \<Rightarrow> byte list \<Rightarrow> ('w gstate, unit) prog" where
  "store_st a bs = on_mem (\<lambda>m. bind_res (store m a bs) (\<lambda>m'. Inr ((), m')))"

definition read_st :: "('w mem \<Rightarrow> uintptr \<Rightarrow> byte list res option) \<Rightarrow> uintptr \<Rightarrow> ('w gstate, byte list) prog" where
  "read_st read a = on_mem (\<lambda>m. bind_res (returning (read m a)) (\<lambda>bs. Inr (bs, m)))"

text \<open>One native call. The engine's error is a value here; what a caller does with it differs.\<close>

definition call_st ::
  "'w goffi \<Rightarrow> call_interface \<Rightarrow> uintptr \<Rightarrow> uintptr \<Rightarrow> uintptr list \<Rightarrow> ('w gstate, uintptr \<times> string option) prog" where
  "call_st E cif fn rv args =
     on_mem (\<lambda>m. case CallFunction E cif fn rv args m of (errno, err, m') \<Rightarrow> Inr ((errno, err), m'))"

definition get_st :: "('s, 's) prog" where
  "get_st = (\<lambda>s. (Inr s, s))"

definition modify_st :: "('s \<Rightarrow> 's) \<Rightarrow> ('s, unit) prog" where
  "modify_st f = (\<lambda>s. (Inr (), f s))"

lemma run_get_st [simp, st_simps]: "get_st s = (Inr s, s)"
  by (simp add: get_st_def)

lemma run_modify_st [simp, st_simps]: "modify_st f s = (Inr (), f s)"
  by (simp add: modify_st_def)

lemma on_mem_Inr: "f (gmem s) = Inr (x, m) \<Longrightarrow> on_mem f s = (Inr x, s\<lparr>gmem := m\<rparr>)"
  by (simp add: on_mem_def lift_st_def)

lemma on_mem_Inl: "f (gmem s) = Inl e \<Longrightarrow> on_mem f s = (Inl e, s)"
  by (simp add: on_mem_def lift_st_def)

lemma on_mem_eq_Inr [st_simps]:
  "on_mem f s = (Inr x, s') \<longleftrightarrow> (\<exists>m. f (gmem s) = Inr (x, m) \<and> s' = s\<lparr>gmem := m\<rparr>)"
  by (auto simp: on_mem_def st_simps res_simps)

lemma new_st_eq_Inr [st_simps]:
  "new_st bs s = (Inr a, s') \<longleftrightarrow> (\<exists>m. gnew bs (gmem s) = Inr (a, m) \<and> s' = s\<lparr>gmem := m\<rparr>)"
  by (simp add: new_st_def on_mem_eq_Inr)

lemma load_st_eq_Inr [st_simps]: "load_st a n s = (Inr bs, s') \<longleftrightarrow> load (gmem s) a n = Inr bs \<and> s' = s"
  by (auto simp: load_st_def on_mem_eq_Inr res_simps)

lemma load_word_st_eq_Inr [st_simps]:
  "load_word_st a s = (Inr w, s') \<longleftrightarrow> load_word (gmem s) a = Inr w \<and> s' = s"
  by (auto simp: load_word_st_def on_mem_eq_Inr res_simps)

lemma store_st_eq_Inr [st_simps]:
  "store_st a bs s = (Inr u, s') \<longleftrightarrow> (\<exists>m. store (gmem s) a bs = Inr m \<and> s' = s\<lparr>gmem := m\<rparr>)"
  by (auto simp: store_st_def on_mem_eq_Inr res_simps)

lemma read_st_eq_Inr [st_simps]:
  "read_st rd a s = (Inr bs, s') \<longleftrightarrow> rd (gmem s) a = Some (Inr bs) \<and> s' = s"
  by (auto simp: read_st_def on_mem_eq_Inr res_simps returning_def split: option.splits)

lemma call_st_run:
  "call_st E cif fn rv args s =
     (case CallFunction E cif fn rv args (gmem s) of (errno, err, m') \<Rightarrow> (Inr (errno, err), s\<lparr>gmem := m'\<rparr>))"
  by (simp add: call_st_def on_mem_def lift_st_def split: prod.split)

text \<open>Reading leaves the state as it is, whether it succeeds or faults.\<close>

lemma load_st_run: "load_st a n s = (load (gmem s) a n, s)"
  by (cases "load (gmem s) a n") (simp_all add: load_st_def on_mem_def lift_st_def)

lemma load_word_st_run: "load_word_st a s = (load_word (gmem s) a, s)"
  by (cases "load_word (gmem s) a") (simp_all add: load_word_st_def on_mem_def lift_st_def)

lemma read_st_run: "read_st rd a s = (returning (rd (gmem s) a), s)"
  by (cases "returning (rd (gmem s) a)") (simp_all add: read_st_def on_mem_def lift_st_def)

lemma keeps_reading [keeps_intros]: "keeps I (load_st a n)" "keeps I (load_word_st a)" "keeps I (read_st rd a)"
  by (simp_all add: keeps_def load_st_run load_word_st_run read_st_run)

section \<open>State that one package adds\<close>

text \<open>
  A package with variables of its own works on a pair: the shared state and its variables.
\<close>

definition on_g :: "('w gstate, 'a) prog \<Rightarrow> ('w gstate \<times> 'l, 'a) prog" where
  "on_g p = (\<lambda>(s, l). case p s of (r, s') \<Rightarrow> (r, (s', l)))"

definition on_l :: "('l \<Rightarrow> 'l) \<Rightarrow> ('w gstate \<times> 'l, unit) prog" where
  "on_l f = (\<lambda>(s, l). (Inr (), (s, f l)))"

definition get_l :: "('w gstate \<times> 'l, 'l) prog" where
  "get_l = (\<lambda>(s, l). (Inr l, (s, l)))"

lemma on_g_Inr [st_simps]: "on_g p (s, l) = (Inr x, (s', l')) \<longleftrightarrow> p s = (Inr x, s') \<and> l' = l"
  by (auto simp: on_g_def split: prod.splits)

lemma on_l_run [simp, st_simps]: "on_l f (s, l) = (Inr (), (s, f l))"
  by (simp add: on_l_def)

lemma get_l_run [simp, st_simps]: "get_l (s, l) = (Inr l, (s, l))"
  by (simp add: get_l_def)

section \<open>What the steps leave alone\<close>

text \<open>Steps on memory change nothing else, whether they return or panic.\<close>

definition only_mem :: "('w gstate, 'a) prog \<Rightarrow> bool" where
  "only_mem p \<longleftrightarrow> (\<forall>s. \<exists>m. snd (p s) = s\<lparr>gmem := m\<rparr>)"

lemma only_mem_on_mem: "only_mem (on_mem f)"
  unfolding only_mem_def
proof
  fix s
  show "\<exists>m. snd (on_mem f s) = s\<lparr>gmem := m\<rparr>"
  proof (cases "f (gmem s)")
    case (Inl e)
    then show ?thesis
      by (simp add: on_mem_Inl) (metis gstate.surjective gstate.update_convs(1))
  next
    case (Inr r)
    then show ?thesis
      by (cases r) (auto simp: on_mem_Inr)
  qed
qed

lemma keeps_on_mem: "(\<And>s m. I s \<Longrightarrow> I (s\<lparr>gmem := m\<rparr>)) \<Longrightarrow> keeps I (on_mem f)"
  using only_mem_on_mem [of f] by (auto simp: keeps_def only_mem_def) metis

lemma keeps_mem_steps:
  assumes "\<And>s m. I s \<Longrightarrow> I (s\<lparr>gmem := m\<rparr>)"
  shows "keeps I (new_st bs)" "keeps I (load_st a n)" "keeps I (load_word_st a)"
    "keeps I (store_st a bs)" "keeps I (read_st rd a)" "keeps I (call_st E cif fn rv args)"
  by (simp_all add: new_st_def load_st_def load_word_st_def store_st_def read_st_def call_st_def
      keeps_on_mem assms)

lemma keeps_get [keeps_intros]: "keeps I get_st"
  by (simp add: keeps_def)

section \<open>Initialising once\<close>

text \<open>
  \<open>sync.Once\<close>: the first call runs the initialiser, every later one does nothing. The contract that
  the users of the lazily resolved functions rely on:
\<close>

locale once_cell =
  fixes ensure :: "'s \<Rightarrow> 's" and finished :: "'s \<Rightarrow> bool"
  assumes ensure_finishes: "finished (ensure s)"
    and ensure_again: "finished s \<Longrightarrow> ensure s = s"
begin

lemma ensure_idem: "ensure (ensure s) = ensure s"
  by (rule ensure_again) (rule ensure_finishes)

lemma ensure_many: "(ensure ^^ Suc n) s = ensure s"
  by (induction n) (simp_all add: ensure_idem)

text \<open>Steps that do not touch the cell do not make it run again.\<close>

lemma ensure_after: "(\<And>s. finished s \<Longrightarrow> finished (f s)) \<Longrightarrow> ensure (f (ensure s)) = f (ensure s)"
  by (simp add: ensure_again ensure_finishes)

end

definition once_lazy ::
  "('w gstate \<Rightarrow> lazy_fn) \<Rightarrow> ((lazy_fn \<Rightarrow> lazy_fn) \<Rightarrow> 'w gstate \<Rightarrow> 'w gstate) \<Rightarrow>
     ('w gstate \<Rightarrow> 'w gstate) \<Rightarrow> 'w gstate \<Rightarrow> 'w gstate" where
  "once_lazy get update init s =
     (if lf_done (get s) then s else update (\<lambda>l. l\<lparr>lf_done := True\<rparr>) (init s))"

end
