(* ===== verification/Symbols.thy ===== *)
theory Symbols
  imports GoState
begin

text \<open>
  Looking up native code (\<open>Dlsym\<close>, \<open>Dlclose\<close> and the simple \<open>Dlopen\<close> of \<^verbatim>\<open>dlfcn_*.go\<close>, one per
  target, and the stubs of \<^verbatim>\<open>stub_arm.go\<close>), and the C functions the library itself looks up once:
  the errno location (\<^verbatim>\<open>syscall_unix.go\<close>), \<open>dladdr\<close> (\<^verbatim>\<open>sym_unix.go\<close>) and \<open>malloc\<close> (\<^verbatim>\<open>cstring.go\<close>).
  \<open>Dlopen\<close> on Linux goes through \<open>RegisterFunc\<close> and is in the theory \<open>Loader\<close>.
\<close>

section \<open>Errors and constants\<close>

text \<open>
  An error of the loader: a \<open>Dlerror\<close> with its message, an error of the engine passed on as it is, or
  one of the \<open>errors.New\<close> texts of the stubs.
\<close>

datatype dl_error = Dlerror string | EngineError string | StubError string

fun Error :: "dl_error \<Rightarrow> string" where
  "Error (Dlerror s) = s"
| "Error (EngineError s) = s"
| "Error (StubError s) = s"

text \<open>The file of the package that provides the loader functions, by its build constraint.\<close>

datatype dl_file = DlfcnDarwin | DlfcnLinux | DlfcnBSD | DlfcnWindows | StubArm

definition dl_file_of :: "target \<Rightarrow> dl_file" where
  "dl_file_of T =
     (if GOARCH T = ARM then StubArm
      else if GOOS T \<in> {Darwin, IOS} then DlfcnDarwin
      else if GOOS T \<in> {Linux, Android} then DlfcnLinux
      else if GOOS T = Windows then DlfcnWindows
      else DlfcnBSD)"

record rtld_consts =
  RTLD_DEFAULT :: uintptr
  RTLD_LAZY :: nat
  RTLD_NOW :: nat
  RTLD_LOCAL :: nat
  RTLD_GLOBAL :: nat

definition rtld_darwin :: rtld_consts where [simp]:
  "rtld_darwin = \<lparr>RTLD_DEFAULT = not 0 - 1, RTLD_LAZY = 1, RTLD_NOW = 2, RTLD_LOCAL = 4, RTLD_GLOBAL = 8\<rparr>"

definition rtld_linux :: rtld_consts where [simp]:
  "rtld_linux = \<lparr>RTLD_DEFAULT = 0, RTLD_LAZY = 1, RTLD_NOW = 2, RTLD_LOCAL = 0, RTLD_GLOBAL = 256\<rparr>"

definition rtld_bsd :: rtld_consts where [simp]:
  "rtld_bsd = \<lparr>RTLD_DEFAULT = not 0 - 1, RTLD_LAZY = 1, RTLD_NOW = 2, RTLD_LOCAL = 0, RTLD_GLOBAL = 256\<rparr>"

definition rtld_windows :: rtld_consts where [simp]:
  "rtld_windows = \<lparr>RTLD_DEFAULT = 0, RTLD_LAZY = 1, RTLD_NOW = 2, RTLD_LOCAL = 4, RTLD_GLOBAL = 8\<rparr>"

definition rtld_arm :: rtld_consts where [simp]:
  "rtld_arm = \<lparr>RTLD_DEFAULT = not 0 - 1, RTLD_LAZY = 1, RTLD_NOW = 2, RTLD_LOCAL = 0, RTLD_GLOBAL = 256\<rparr>"

fun rtld :: "dl_file \<Rightarrow> rtld_consts" where
  "rtld DlfcnDarwin = rtld_darwin"
| "rtld DlfcnLinux = rtld_linux"
| "rtld DlfcnBSD = rtld_bsd"
| "rtld DlfcnWindows = rtld_windows"
| "rtld StubArm = rtld_arm"

section \<open>The loader functions\<close>

definition Dlsym_unix :: "'w goffi \<Rightarrow> uintptr \<Rightarrow> string \<Rightarrow> 'w mem \<Rightarrow> dl_error + uintptr" where
  "Dlsym_unix E handle name m =
     (case GetSymbol E handle name m of Inl err \<Rightarrow> Inl (Dlerror err) | Inr ptr \<Rightarrow> Inr ptr)"

definition Dlsym_windows :: "'w goffi \<Rightarrow> uintptr \<Rightarrow> string \<Rightarrow> 'w mem \<Rightarrow> dl_error + uintptr" where
  "Dlsym_windows E handle name m =
     (case GetSymbol E handle name m of Inl err \<Rightarrow> Inl (EngineError err) | Inr ptr \<Rightarrow> Inr ptr)"

definition Dlsym_arm :: "uintptr \<Rightarrow> string \<Rightarrow> dl_error + uintptr" where
  "Dlsym_arm handle name = Inl (StubError ''purego: Dlsym not supported on arm'')"

definition Dlsym :: "target \<Rightarrow> 'w goffi \<Rightarrow> uintptr \<Rightarrow> string \<Rightarrow> 'w mem \<Rightarrow> dl_error + uintptr" where
  "Dlsym T E handle name m =
     (case dl_file_of T of
        DlfcnWindows \<Rightarrow> Dlsym_windows E handle name m
      | StubArm \<Rightarrow> Dlsym_arm handle name
      | _ \<Rightarrow> Dlsym_unix E handle name m)"

definition Dlclose_unix :: "'w goffi \<Rightarrow> uintptr \<Rightarrow> 'w mem \<Rightarrow> dl_error option \<times> 'w mem" where
  "Dlclose_unix E handle m =
     (case FreeLibrary E handle m of (Some err, m') \<Rightarrow> (Some (Dlerror err), m') | (None, m') \<Rightarrow> (None, m'))"

definition Dlclose_windows :: "'w goffi \<Rightarrow> uintptr \<Rightarrow> 'w mem \<Rightarrow> dl_error option \<times> 'w mem" where
  "Dlclose_windows E handle m =
     (case FreeLibrary E handle m of (err, m') \<Rightarrow> (map_option EngineError err, m'))"

definition Dlclose_arm :: "uintptr \<Rightarrow> dl_error option" where
  "Dlclose_arm handle = Some (StubError ''purego: Dlclose not supported on arm'')"

definition Dlclose :: "target \<Rightarrow> 'w goffi \<Rightarrow> uintptr \<Rightarrow> 'w mem \<Rightarrow> dl_error option \<times> 'w mem" where
  "Dlclose T E handle m =
     (case dl_file_of T of
        DlfcnWindows \<Rightarrow> Dlclose_windows E handle m
      | StubArm \<Rightarrow> (Dlclose_arm handle, m)
      | _ \<Rightarrow> Dlclose_unix E handle m)"

text \<open>\<open>Dlopen\<close> on macOS and the BSDs, on Windows, and on arm. The mode is ignored there.\<close>

definition Dlopen_engine :: "'w goffi \<Rightarrow> string \<Rightarrow> nat \<Rightarrow> 'w mem \<Rightarrow> (dl_error + uintptr) \<times> 'w mem" where
  "Dlopen_engine E path mode m =
     (case LoadLibrary E path m of (Inl err, m') \<Rightarrow> (Inl (Dlerror err), m') | (Inr ptr, m') \<Rightarrow> (Inr ptr, m'))"

definition Dlopen_windows :: "'w goffi \<Rightarrow> string \<Rightarrow> nat \<Rightarrow> 'w mem \<Rightarrow> (dl_error + uintptr) \<times> 'w mem" where
  "Dlopen_windows E path mode m =
     (case LoadLibrary E path m of (Inl err, m') \<Rightarrow> (Inl (EngineError err), m') | (Inr ptr, m') \<Rightarrow> (Inr ptr, m'))"

definition Dlopen_arm :: "string \<Rightarrow> nat \<Rightarrow> dl_error + uintptr" where
  "Dlopen_arm path mode = Inl (StubError ''purego: Dlopen not supported on arm'')"

section \<open>The errno location\<close>

text \<open>
  The handle the library itself uses for ``any loaded library''. Three functions of the package
  choose it by these tests, and not by the constant \<open>RTLD_DEFAULT\<close> of the target.
\<close>

definition rtldDefault :: "goos \<Rightarrow> uintptr" where
  "rtldDefault os = (if os = Darwin \<or> os = FreeBSD \<or> os = NetBSD then not 0 - 1 else 0)"

definition initErrno :: "target \<Rightarrow> 'w goffi \<Rightarrow> 'w gstate \<Rightarrow> 'w gstate" where
  "initErrno T E s =
     (let h = rtldDefault (GOOS T);
          found = (case Dlsym T E h ''__errno_location'' (gmem s) of
                     Inr found_addr \<Rightarrow> Inr found_addr | Inl _ \<Rightarrow> Dlsym T E h ''__error'' (gmem s))
      in case found of
           Inr found_addr \<Rightarrow>
             if found_addr \<noteq> 0
             then s\<lparr>errno_lazy := (errno_lazy s)\<lparr>lf_fn := found_addr,
                      lf_cif := snd (PrepareCallInterface E DefaultCall PointerTypeDescriptor [])\<rparr>\<rparr>
             else s
         | Inl _ \<Rightarrow> s)"

definition errnoOnce :: "target \<Rightarrow> 'w goffi \<Rightarrow> 'w gstate \<Rightarrow> 'w gstate" where
  "errnoOnce T E = once_lazy errno_lazy errno_lazy_update (initErrno T E)"

definition getErrnoPtr :: "target \<Rightarrow> 'w goffi \<Rightarrow> ('w gstate, uintptr) prog" where
  "getErrnoPtr T E =
     bind_st (modify_st (errnoOnce T E)) (\<lambda>_. bind_st get_st (\<lambda>s.
       if lf_fn (errno_lazy s) = 0 then pure_st 0
       else bind_st (new_st (le_bytes 8 0)) (\<lambda>ptr.
            bind_st (call_st E (lf_cif (errno_lazy s)) (lf_fn (errno_lazy s)) ptr []) (\<lambda>_.
              load_word_st ptr))))"

text \<open>
  \<open>clrAndGetErrno\<close> returns the pointer; the closure it also returns is \<open>getErr\<close> at that pointer.
  \<open>syscall.Errno\<close> is an unsigned word, so the conversion from \<open>int32\<close> extends the sign.
\<close>

definition clrAndGetErrno :: "target \<Rightarrow> 'w goffi \<Rightarrow> ('w gstate, uintptr) prog" where
  "clrAndGetErrno T E =
     bind_st (getErrnoPtr T E) (\<lambda>ptr.
       if ptr \<noteq> 0 then bind_st (store_st ptr (le_bytes 4 0)) (\<lambda>_. pure_st ptr) else pure_st ptr)"

definition getErr :: "uintptr \<Rightarrow> ('w gstate, uintptr option) prog" where
  "getErr ptr =
     (if ptr \<noteq> 0 then bind_st (load_st ptr 4) (\<lambda>bs.
        let errno = (ucast (of_le bs) :: u32)
        in pure_st (if errno \<noteq> 0 then Some (scast errno) else None))
      else pure_st None)"

text \<open>
  On Windows the error is the thread's last error: the returned pointer is 0, and the closure asks
  \<open>GetLastError\<close> instead. The two functions below are what a caller gets on its target.
\<close>

definition clrAndGetErrno_windows :: "'w goffi \<Rightarrow> ('w gstate, uintptr) prog" where
  "clrAndGetErrno_windows E = bind_st (on_mem (\<lambda>m. Inr ((), SetLastError E 0 m))) (\<lambda>_. pure_st 0)"

definition getErr_windows :: "'w goffi \<Rightarrow> ('w gstate, uintptr option) prog" where
  "getErr_windows E = bind_st (on_mem (\<lambda>m. Inr (GetLastError E m, m))) (\<lambda>errno.
     pure_st (if errno \<noteq> 0 then Some errno else None))"

definition clear_error :: "target \<Rightarrow> 'w goffi \<Rightarrow> ('w gstate, uintptr) prog" where
  "clear_error T E = (if GOOS T = Windows then clrAndGetErrno_windows E else clrAndGetErrno T E)"

definition call_error :: "target \<Rightarrow> 'w goffi \<Rightarrow> uintptr \<Rightarrow> ('w gstate, uintptr option) prog" where
  "call_error T E errPtr = (if GOOS T = Windows then getErr_windows E else getErr errPtr)"

section \<open>Symbol names\<close>

definition initDladdr :: "target \<Rightarrow> 'w goffi \<Rightarrow> 'w gstate \<Rightarrow> 'w gstate" where
  "initDladdr T E s =
     (case Dlsym T E (rtldDefault (GOOS T)) ''dladdr'' (gmem s) of
        Inr found_addr \<Rightarrow>
          if found_addr \<noteq> 0
          then s\<lparr>dladdr_lazy := (dladdr_lazy s)\<lparr>lf_fn := found_addr,
                   lf_cif := snd (PrepareCallInterface E DefaultCall SInt32TypeDescriptor
                     [PointerTypeDescriptor, PointerTypeDescriptor])\<rparr>\<rparr>
          else s
      | Inl _ \<Rightarrow> s)"

definition dladdrOnce :: "target \<Rightarrow> 'w goffi \<Rightarrow> 'w gstate \<Rightarrow> 'w gstate" where
  "dladdrOnce T E = once_lazy dladdr_lazy dladdr_lazy_update (initDladdr T E)"

text \<open>
  \<open>dl_info\<close> is four words; the symbol name is the third. The arguments are the addresses of the
  variables that hold the looked-up address and the pointer to \<open>info\<close>.
\<close>

definition getSymbolName :: "target \<Rightarrow> 'w goffi \<Rightarrow> uintptr \<Rightarrow> ('w gstate, byte list) prog" where
  "getSymbolName T E addr =
     bind_st (modify_st (dladdrOnce T E)) (\<lambda>_. bind_st get_st (\<lambda>s.
       if lf_fn (dladdr_lazy s) = 0 then pure_st []
       else bind_st (new_st (replicate 32 0)) (\<lambda>info.
            bind_st (new_st (le_bytes 4 0)) (\<lambda>res.
            bind_st (new_st (le_bytes 8 info)) (\<lambda>infoPtr.
            bind_st (new_st (le_bytes 8 addr)) (\<lambda>addrVar.
            bind_st (call_st E (lf_cif (dladdr_lazy s)) (lf_fn (dladdr_lazy s)) res [addrVar, infoPtr]) (\<lambda>_.
            bind_st (load_st res 4) (\<lambda>r.
            bind_st (load_word_st (info + 16)) (\<lambda>sname.
              if of_le r \<noteq> 0 \<and> sname \<noteq> 0 then read_st cStringToGoString sname else pure_st [])))))))))"

definition getSymbolName_windows :: "uintptr \<Rightarrow> byte list" where
  "getSymbolName_windows addr = []"

section \<open>C strings on the C heap\<close>

text \<open>
  \<open>initMalloc\<close>: on Windows the C runtime library is opened first, elsewhere any loaded library will do.
\<close>

definition malloc_handle :: "target \<Rightarrow> 'w goffi \<Rightarrow> 'w mem \<Rightarrow> uintptr option \<times> 'w mem" where
  "malloc_handle T E m =
     (if GOOS T = Windows then
        (case Dlopen_windows E ''msvcrt.dll'' 0 m of
           (Inr h, m1) \<Rightarrow> (if h = 0 then None else Some h, m1)
         | (Inl _, m1) \<Rightarrow>
             (case Dlopen_windows E ''ucrtbase.dll'' 0 m1 of
                (Inr h, m2) \<Rightarrow> (if h = 0 then None else Some h, m2)
              | (Inl _, m2) \<Rightarrow> (None, m2)))
      else (Some (rtldDefault (GOOS T)), m))"

definition initMalloc :: "target \<Rightarrow> 'w goffi \<Rightarrow> 'w gstate \<Rightarrow> 'w gstate" where
  "initMalloc T E s =
     (case malloc_handle T E (gmem s) of
        (None, m) \<Rightarrow> s\<lparr>gmem := m\<rparr>
      | (Some handle, m) \<Rightarrow>
          (case Dlsym T E handle ''malloc'' m of
             Inr found_addr \<Rightarrow>
               if found_addr \<noteq> 0
               then s\<lparr>gmem := m, malloc_lazy := (malloc_lazy s)\<lparr>lf_fn := found_addr,
                        lf_cif := snd (PrepareCallInterface E DefaultCall PointerTypeDescriptor
                          [PointerTypeDescriptor])\<rparr>\<rparr>
               else s\<lparr>gmem := m\<rparr>
           | Inl _ \<Rightarrow> s\<lparr>gmem := m\<rparr>))"

definition mallocOnce :: "target \<Rightarrow> 'w goffi \<Rightarrow> 'w gstate \<Rightarrow> 'w gstate" where
  "mallocOnce T E = once_lazy malloc_lazy malloc_lazy_update (initMalloc T E)"

text \<open>The stores are the copy of the string into the allocated block, and the NUL behind it.\<close>

definition CString :: "target \<Rightarrow> 'w goffi \<Rightarrow> byte list \<Rightarrow> ('w gstate, uintptr) prog" where
  "CString T E str =
     bind_st (modify_st (mallocOnce T E)) (\<lambda>_. bind_st get_st (\<lambda>s.
       if lf_fn (malloc_lazy s) = 0 then panic_st (PanicMsg ''purego: malloc not found'')
       else bind_st (new_st (le_bytes 8 (of_nat (length str + 1)))) (\<lambda>sz.
            bind_st (new_st (le_bytes 8 0)) (\<lambda>ptrVar.
            bind_st (call_st E (lf_cif (malloc_lazy s)) (lf_fn (malloc_lazy s)) ptrVar [sz]) (\<lambda>(_, err).
              case err of Some e \<Rightarrow> panic_st (PanicErr e) | None \<Rightarrow>
            bind_st (load_word_st ptrVar) (\<lambda>ptr.
              if ptr = 0 then panic_st (PanicMsg ''purego: malloc failed'')
              else bind_st (store_st ptr str) (\<lambda>_.
                   bind_st (store_st (ptr + of_nat (length str)) [0]) (\<lambda>_. pure_st ptr))))))))"


section \<open>Each lookup happens once\<close>

lemma once_lazy_cell:
  assumes "\<And>s f. get (update f s) = f (get s)"
  shows "once_cell (once_lazy get update init) (\<lambda>s. lf_done (get s))"
  by unfold_locales (auto simp: once_lazy_def assms)

interpretation errno_once: once_cell "errnoOnce T E" "\<lambda>s. lf_done (errno_lazy s)"
  unfolding errnoOnce_def by (rule once_lazy_cell) simp

interpretation dladdr_once: once_cell "dladdrOnce T E" "\<lambda>s. lf_done (dladdr_lazy s)"
  unfolding dladdrOnce_def by (rule once_lazy_cell) simp

interpretation malloc_once: once_cell "mallocOnce T E" "\<lambda>s. lf_done (malloc_lazy s)"
  unfolding mallocOnce_def by (rule once_lazy_cell) simp

section \<open>Properties\<close>

text \<open>
  The handle with which the library looks up its own C functions is the \<open>RTLD_DEFAULT\<close> it
  exports for the target, except on iOS, OpenBSD, DragonFly, Solaris and illumos, where it is 0 and
  the exported constant is -2.
\<close>

lemma rtld_default_agreement:
  assumes "GOARCH T \<noteq> ARM" "GOOS T \<noteq> Windows"
  shows "(rtldDefault (GOOS T) = RTLD_DEFAULT (rtld (dl_file_of T))) =
    (GOOS T \<notin> {IOS, OpenBSD, DragonFly, Solaris, Illumos})"
  using assms by (cases "GOOS T") (simp_all add: rtldDefault_def dl_file_of_def)

lemma rtld_default_agreement_witness:
  "rtldDefault OpenBSD \<noteq> RTLD_DEFAULT (rtld (dl_file_of \<lparr>GOOS = OpenBSD, GOARCH = AMD64\<rparr>))"
  using rtld_default_agreement [of "\<lparr>GOOS = OpenBSD, GOARCH = AMD64\<rparr>"] by simp

lemma getErr_zero: "getErr 0 s = (Inr None, s)"
  by (simp add: getErr_def)

lemma getErr_value:
  assumes "ptr \<noteq> 0" "load (gmem s) ptr 4 = Inr (le_bytes 4 v)"
  shows "getErr ptr s = (Inr (if (ucast v :: u32) = 0 then None else Some (scast (ucast v :: u32))), s)"
proof -
  have "load_st ptr 4 s = (Inr (le_bytes 4 v), s)"
    using assms(2) by (simp add: load_st_eq_Inr)
  moreover have "(ucast (of_le (le_bytes 4 v)) :: u32) = ucast v"
    by (rule bit_word_eqI) (simp add: of_le_le_bytes bit_simps)
  ultimately show ?thesis
    using assms(1) by (simp add: getErr_def bind_st_Inr Let_def)
qed

text \<open>
  Property C22. \<open>clrAndGetErrno\<close> separates old errors from new ones: read right after it, errno gives no
  error, whatever it was before; when a call then stores a value there, that value is the error,
  sign-extended, unless it is 0. Without an errno location no error is ever reported.
\<close>

theorem errno_protocol:
  assumes "clrAndGetErrno T E s = (Inr ptr, s1)"
  shows "getErr ptr s1 = (Inr None, s1) \<and>
    (ptr \<noteq> 0 \<longrightarrow> store (gmem s1) ptr (le_bytes 4 v) = Inr m \<longrightarrow>
       fst (getErr ptr (s1\<lparr>gmem := m\<rparr>)) =
         Inr (if (ucast v :: u32) = 0 then None else Some (scast (ucast v :: u32)))) \<and>
    (ptr = 0 \<longrightarrow> getErr ptr (s1\<lparr>gmem := m\<rparr>) = (Inr None, s1\<lparr>gmem := m\<rparr>))"
proof (cases "ptr = 0")
  case True
  then show ?thesis
    by (simp add: getErr_zero)
next
  case False
  then obtain s0 m1 where st: "store (gmem s0) ptr (le_bytes 4 0) = Inr m1" and s1: "s1 = s0\<lparr>gmem := m1\<rparr>"
    using assms by (auto simp: clrAndGetErrno_def st_simps split: if_splits)
  have "load (gmem s1) ptr 4 = Inr (le_bytes 4 0)"
    using store_load [OF st] by (simp add: s1)
  then have "getErr ptr s1 = (Inr None, s1)"
    using getErr_value [OF False, of s1 0] by simp
  moreover have "fst (getErr ptr (s1\<lparr>gmem := m\<rparr>)) =
      Inr (if (ucast v :: u32) = 0 then None else Some (scast (ucast v :: u32)))"
    if "store (gmem s1) ptr (le_bytes 4 v) = Inr m"
    using getErr_value [OF False, of "s1\<lparr>gmem := m\<rparr>" v] store_load [OF that] by simp
  ultimately show ?thesis
    using False by blast
qed

text \<open>An engine whose C library finds nothing: the errno pointer is null.\<close>

definition start_state :: "'w mem \<Rightarrow> 'w gstate" where
  "start_state m = \<lparr>gmem = m, fastCallPool = [], slowCallPool = [], syscallPool = [],
     dladdr_lazy = unresolved, errno_lazy = unresolved, malloc_lazy = unresolved,
     syscall_lazy = \<lparr>sy_done = False, syscallCIFs = [], syscallCIFErrors = []\<rparr>, lockDepth = 0\<rparr>"

section \<open>Allocating C strings\<close>

lemma of_nat_add_load:
  assumes "load m p (length xs) = Inr xs" "load m (p + of_nat (length xs)) 1 = Inr [y]"
  shows "load m p (length xs + 1) = Inr (xs @ [y])"
  using assms load_append [of m p xs "[y]"] by simp

text \<open>
  Property C21. What \<open>CString\<close> returns is not null and reads back, with \<open>GoString\<close>, as the Go string up
  to its first NUL; the block holds exactly the string and a NUL behind it.
\<close>

theorem CString_round_trip:
  assumes "CString T E str s = (Inr p, s')" "length str < 2 ^ 62"
  shows "p \<noteq> 0 \<and> load (gmem s') p (length str + 1) = Inr (str @ [0]) \<and>
    GoString (gmem s') p = Some (Inr (takeWhile (\<lambda>b. b \<noteq> 0) str))"
proof -
  obtain m1 m2 where p: "p \<noteq> 0" and st: "store m1 p str = Inr m2"
    "store m2 (p + of_nat (length str)) [0] = Inr (gmem s')"
    using assms(1)
    by (auto simp: CString_def st_simps load_byte_def bind_res_def split: if_splits option.splits sum.splits)
  have "load (gmem s') p (length str) = Inr str"
    using store_load [OF st(1)] assms(2) store_disjoint [OF st(2), of 0 "length str"] by simp
  moreover have "load (gmem s') (p + of_nat (length str)) 1 = Inr [0]"
    using store_load [OF st(2)] by simp
  ultimately have "load (gmem s') p (length str + 1) = Inr (str @ [0])"
    by (rule of_nat_add_load)
  then show ?thesis
    using p public_reader.read_buffer [OF p] by simp
qed

text \<open>A C library with a \<open>malloc\<close> that hands out the block at address 200.\<close>

definition malloc_engine :: "'w goffi" where
  "malloc_engine = idle_engine\<lparr>GetSymbol := (\<lambda>h n m. Inr 64),
     CallFunction := (\<lambda>cif fn rv args m.
       case store m rv (le_bytes 8 200) of Inr m' \<Rightarrow> (0, None, m') | Inl _ \<Rightarrow> (1, None, m))\<rparr>"

definition c_heap_mem :: "unit mem" where
  "c_heap_mem = \<lparr>mbytes = (\<lambda>a. if a = 200 \<or> a = 201 then Some 7 else None), mbrk = 4096, world = ()\<rparr>"

lemma CString_runs:
  "\<exists>s'. CString \<lparr>GOOS = Linux, GOARCH = AMD64\<rparr> malloc_engine [65] (start_state c_heap_mem) = (Inr 200, s')"
proof -
  let ?T = "\<lparr>GOOS = Linux, GOARCH = AMD64\<rparr>"
  let ?s = "mallocOnce ?T malloc_engine (start_state c_heap_mem)"
  have s: "gmem ?s = c_heap_mem" "lf_fn (malloc_lazy ?s) = 64"
    by (simp_all add: mallocOnce_def once_lazy_def initMalloc_def malloc_handle_def Dlsym_def Dlsym_unix_def
        dl_file_of_def malloc_engine_def start_state_def unresolved_def)
  obtain sz m1 where m1: "gnew (le_bytes 8 (of_nat (length [65 :: byte] + 1))) c_heap_mem = Inr (sz, m1)"
    by (simp add: gnew_def c_heap_mem_def heap_limit_def)
  have brk: "mbrk m1 = 4104"
    using gnew_block(2) [OF m1] by (simp add: c_heap_mem_def)
  obtain pv m2 where m2: "gnew (le_bytes 8 0) m1 = Inr (pv, m2)"
    by (simp add: gnew_def brk heap_limit_def)
  have "mem_ext c_heap_mem m2"
    using gnew_spec(1) [OF m1] gnew_spec(1) [OF m2] by (rule mem_ext_trans)
  then have b2: "mbytes m2 200 = Some 7" "mbytes m2 201 = Some 7"
    by (simp_all add: mem_ext_def c_heap_mem_def)
  have "mapped m2 pv 8"
    using gnew_block(4) [OF m2] by simp
  then obtain m3 where m3: "store m2 pv (le_bytes 8 200) = Inr m3"
    using store_mapped [of m2 pv "le_bytes 8 200"] by auto
  have call: "CallFunction malloc_engine (lf_cif (malloc_lazy ?s)) 64 pv [sz] m2 = (0, None, m3)"
    by (simp add: malloc_engine_def m3)
  have p: "load_word m3 pv = Inr 200"
    using store_load [OF m3] by (simp add: load_word_def)
  have "mbytes m3 200 \<noteq> None" "mbytes m3 201 \<noteq> None"
    using store_frame [OF m3] b2 by auto
  then obtain m4 m5 where st: "store m3 200 [65] = Inr m4" "store m4 201 [0] = Inr m5"
    by (auto simp: load_byte_def)
  show ?thesis
    by (simp add: CString_def bind_st_def s new_st_def on_mem_def lift_st_def m1 m2 call_st_run call p
        load_word_st_def store_st_def st m1 [simplified] del: store.simps)
qed

text \<open>The same engine as a C library whose errno location is 200; the error there is first 7, then 2.\<close>

definition errno_mem :: "unit mem" where
  "errno_mem = \<lparr>mbytes = (\<lambda>a. if a \<in> {200, 201, 202, 203} then Some 7 else None), mbrk = 4096, world = ()\<rparr>"

lemma errno_location:
  "\<exists>s1 m2. clrAndGetErrno \<lparr>GOOS = Linux, GOARCH = AMD64\<rparr> malloc_engine (start_state errno_mem) = (Inr 200, s1) \<and>
     store (gmem s1) 200 (le_bytes 4 2) = Inr m2"
proof -
  let ?T = "\<lparr>GOOS = Linux, GOARCH = AMD64\<rparr>"
  let ?s = "errnoOnce ?T malloc_engine (start_state errno_mem)"
  have s: "gmem ?s = errno_mem" "lf_fn (errno_lazy ?s) = 64"
    by (simp_all add: errnoOnce_def once_lazy_def initErrno_def Dlsym_def Dlsym_unix_def Let_def
        dl_file_of_def malloc_engine_def start_state_def unresolved_def)
  obtain pv m1 where m1: "gnew (le_bytes 8 0) errno_mem = Inr (pv, m1)"
    by (simp add: gnew_def errno_mem_def heap_limit_def)
  have b1: "mbytes m1 a \<noteq> None" if "a \<in> {200, 201, 202, 203}" for a
  proof -
    have "unat a < mbrk errno_mem"
      using that by (auto simp: errno_mem_def)
    then have "mbytes m1 a = mbytes errno_mem a"
      using gnew_spec(1) [OF m1] by (simp add: mem_ext_def)
    then show ?thesis
      using that by (simp add: errno_mem_def)
  qed
  have "mapped m1 pv 8"
    using gnew_block(4) [OF m1] by simp
  then obtain m2 where m2: "store m1 pv (le_bytes 8 200) = Inr m2"
    using store_mapped [of m1 pv "le_bytes 8 200"] by auto
  have call: "CallFunction malloc_engine (lf_cif (errno_lazy ?s)) 64 pv [] m1 = (0, None, m2)"
    by (simp add: malloc_engine_def m2)
  have p: "load_word m2 pv = Inr 200"
    using store_load [OF m2] by (simp add: load_word_def)
  have at: "(200 + of_nat i :: uintptr) \<in> {200, 201, 202, 203}" if "i < 4" for i :: nat
    using that by (auto simp: less_Suc_eq numeral_eq_Suc)
  have "\<forall>i<length (le_bytes 4 0). mbytes m2 (200 + of_nat i) \<noteq> None"
    using store_frame [OF m2] b1 at by auto
  then obtain m3 where m3: "store m2 200 (le_bytes 4 0) = Inr m3"
    using store_total by blast
  have "\<forall>i<length (le_bytes 4 2). mbytes m3 (200 + of_nat i) \<noteq> None"
    using store_frame [OF m3] store_frame [OF m2] b1 at by auto
  then obtain m4 where "store m3 200 (le_bytes 4 2) = Inr m4"
    using store_total by blast
  moreover have "clrAndGetErrno ?T malloc_engine (start_state errno_mem) = (Inr 200, ?s\<lparr>gmem := m3\<rparr>)"
    by (simp add: clrAndGetErrno_def getErrnoPtr_def bind_st_def s new_st_def on_mem_def lift_st_def m1 [simplified] call_st_run call p
        load_word_st_def store_st_def m3 [simplified] del: store.simps)
  ultimately show ?thesis
    by auto
qed

theorem errno_protocol_witness:
  "\<exists>s1 m2. clrAndGetErrno \<lparr>GOOS = Linux, GOARCH = AMD64\<rparr> malloc_engine (start_state errno_mem) = (Inr 200, s1) \<and>
     getErr 200 s1 = (Inr None, s1) \<and> store (gmem s1) 200 (le_bytes 4 2) = Inr m2 \<and>
     fst (getErr 200 (s1\<lparr>gmem := m2\<rparr>)) = Inr (Some 2)"
proof -
  obtain s1 m2 where run: "clrAndGetErrno \<lparr>GOOS = Linux, GOARCH = AMD64\<rparr> malloc_engine (start_state errno_mem) = (Inr 200, s1)"
    and st: "store (gmem s1) 200 (le_bytes 4 2) = Inr m2"
    using errno_location by blast
  from errno_protocol [OF run, of 2 m2] st show ?thesis
    using run by auto
qed

theorem CString_round_trip_witness:
  "\<exists>s'. CString \<lparr>GOOS = Linux, GOARCH = AMD64\<rparr> malloc_engine [65] (start_state c_heap_mem) = (Inr 200, s') \<and>
     GoString (gmem s') 200 = Some (Inr [65])"
proof -
  obtain s' where "CString \<lparr>GOOS = Linux, GOARCH = AMD64\<rparr> malloc_engine [65] (start_state c_heap_mem) = (Inr 200, s')"
    using CString_runs by blast
  then show ?thesis
    using CString_round_trip [of "\<lparr>GOOS = Linux, GOARCH = AMD64\<rparr>" malloc_engine "[65]" "start_state c_heap_mem" 200 s']
    by simp
qed

end
