(* ===== verification/Syscalls.thy ===== *)
theory Syscalls
  imports Symbols FastArgs
begin

text \<open>
  \<open>SyscallN\<close> (\<^verbatim>\<open>syscall_unix.go\<close>, \<^verbatim>\<open>syscall_windows.go\<close>): the call interfaces prepared once for 0 to 32
  word arguments, the pool of contexts whose argument pointers are linked to their own argument
  slots, the call, and when errno is reported.
\<close>

section \<open>The prepared interfaces\<close>

definition syscall_result_type :: ffi_type where
  "syscall_result_type = StructDescriptor 16 8 [UInt64TypeDescriptor, UInt64TypeDescriptor]"

definition initSyscallCIFs :: "'w goffi \<Rightarrow> 'w gstate \<Rightarrow> 'w gstate" where
  "initSyscallCIFs E s =
     (let prepared = map (\<lambda>i. PrepareCallInterface E DefaultCall syscall_result_type
            (replicate i PointerTypeDescriptor)) [0..<33]
      in s\<lparr>syscall_lazy := (syscall_lazy s)\<lparr>syscallCIFs := map snd prepared,
             syscallCIFErrors := map fst prepared\<rparr>\<rparr>)"

definition syscallOnce :: "'w goffi \<Rightarrow> 'w gstate \<Rightarrow> 'w gstate" where
  "syscallOnce E s =
     (if sy_done (syscall_lazy s) then s
      else syscall_lazy_update (\<lambda>l. l\<lparr>sy_done := True\<rparr>) (initSyscallCIFs E s))"

interpretation syscall_once: once_cell "syscallOnce E" "\<lambda>s. sy_done (syscall_lazy s)"
  by unfold_locales (simp_all add: syscallOnce_def)

text \<open>Once prepared, the tables hold one interface per number of arguments.\<close>

definition syscall_tables :: "'w goffi \<Rightarrow> 'w gstate \<Rightarrow> bool" where
  "syscall_tables E s \<longleftrightarrow> (sy_done (syscall_lazy s) \<longrightarrow>
     (\<forall>n\<le>32. (syscallCIFErrors (syscall_lazy s) ! n, syscallCIFs (syscall_lazy s) ! n) =
        PrepareCallInterface E DefaultCall syscall_result_type (replicate n PointerTypeDescriptor)))"

lemma tables_after_once:
  assumes "syscall_tables E s" "n \<le> 32"
  shows "(syscallCIFErrors (syscall_lazy (syscallOnce E s)) ! n, syscallCIFs (syscall_lazy (syscallOnce E s)) ! n) =
    PrepareCallInterface E DefaultCall syscall_result_type (replicate n PointerTypeDescriptor)"
proof (cases "sy_done (syscall_lazy s)")
  case True
  then show ?thesis
    using assms by (simp add: syscall_tables_def syscallOnce_def)
next
  case False
  have "n < length [0..<33]" "[0..<33] ! n = n"
    using assms(2) by simp_all
  then show ?thesis
    using False by (simp add: syscallOnce_def initSyscallCIFs_def Let_def del: upt_Suc)
qed

section \<open>The pool\<close>

definition syscall_ctx_size :: nat where
  "syscall_ctx_size = 528"

text \<open>\<open>New\<close> links every pointer of a context to the argument slot with its index.\<close>

definition new_syscall_ctx :: "'w mem \<Rightarrow> (syscall_ctx \<times> 'w mem) res" where
  "new_syscall_ctx m =
     bind_res (gnew (replicate syscall_ctx_size 0) m) (\<lambda>(a, m').
       Inr (\<lparr>sx_addr = a, sx_ffiArgs = foldl (\<lambda>ps i. ps[i := a + of_nat (8 * i)]) (replicate 32 0) [0..<32]\<rparr>, m'))"

definition syscall_pool_get :: "syscall_ctx list \<Rightarrow> 'w mem \<Rightarrow> (syscall_ctx \<times> syscall_ctx list \<times> 'w mem) res" where
  "syscall_pool_get = pool_get new_syscall_ctx"

definition linked :: "syscall_ctx \<Rightarrow> bool" where
  "linked c \<longleftrightarrow> sx_ffiArgs c = map (\<lambda>i. sx_addr c + of_nat (8 * i)) [0..<32]"

lemma syscall_news: "news syscall_ctx_size sx_addr new_syscall_ctx"
  unfolding news_def
proof (intro conjI allI impI)
  fix m :: "'a mem"
  assume "mbrk m + syscall_ctx_size < heap_limit"
  then show "\<exists>ctx m'. new_syscall_ctx m = Inr (ctx, m')"
    by (simp add: new_syscall_ctx_def gnew_def)
next
  fix m m' :: "'a mem" and ctx
  assume "new_syscall_ctx m = Inr (ctx, m')"
  then have g: "gnew (replicate syscall_ctx_size 0) m = Inr (sx_addr ctx, m')"
    by (auto simp: new_syscall_ctx_def res_simps)
  have "0 < syscall_ctx_size"
    by (simp add: syscall_ctx_size_def)
  then show "mem_ext m m'" "unat (sx_addr ctx) = mbrk m" "mbrk m' = mbrk m + syscall_ctx_size"
    "mbrk m' \<le> heap_limit" "mapped m' (sx_addr ctx) syscall_ctx_size"
    using gnew_block [OF g] gnew_spec(1) [OF g] by simp_all
qed

interpretation syscall_pool: context_pool syscall_pool_get sx_addr syscall_ctx_size
  unfolding syscall_pool_get_def
  by standard (rule pool_get_total [OF syscall_news], assumption, rule pool_get_ok [OF syscall_news])

lemma linked_new: "new_syscall_ctx m = Inr (c, m') \<Longrightarrow> linked c"
proof -
  assume "new_syscall_ctx m = Inr (c, m')"
  then obtain a where "c = \<lparr>sx_addr = a, sx_ffiArgs = foldl (\<lambda>ps i. ps[i := a + of_nat (8 * i)]) (replicate 32 0) [0..<32]\<rparr>"
    by (auto simp: new_syscall_ctx_def res_simps)
  then show ?thesis
    using foldl_list_update_upt [of 32 "replicate 32 (0 :: uintptr)" "\<lambda>i. a + of_nat (8 * i)"]
    by (simp add: linked_def del: upt_Suc)
qed

lemma linked_get:
  "syscall_pool_get pool m = Inr (c, rest, m') \<Longrightarrow> \<forall>c\<in>set pool. linked c \<Longrightarrow> linked c \<and> (\<forall>c\<in>set rest. linked c)"
  by (auto simp: syscall_pool_get_def pool_get_def res_simps linked_new split: list.splits)

section \<open>The call\<close>

definition take_syscall_ctx :: "('w gstate, syscall_ctx) prog" where
  "take_syscall_ctx = lift_st (\<lambda>s.
     bind_res (syscall_pool_get (syscallPool s) (gmem s)) (\<lambda>(ctx, rest, m).
       Inr (ctx, s\<lparr>gmem := m, syscallPool := rest\<rparr>)))"

text \<open>The part with the context; \<open>errno\<close> is reported when the low half of the first result is -1.\<close>

definition syscall_run ::
  "'w goffi \<Rightarrow> call_interface \<Rightarrow> uintptr \<Rightarrow> uintptr list \<Rightarrow> ('w gstate, uintptr \<times> uintptr \<times> uintptr) prog" where
  "syscall_run E cif fn args =
     bind_st take_syscall_ctx (\<lambda>ctx.
     bind_st (store_st (sx_addr ctx) (words_bytes args)) (\<lambda>_.
     bind_st (store_st (sx_addr ctx + 512) (replicate 16 0)) (\<lambda>_.
     bind_st (call_st E cif fn (sx_addr ctx + 512) (take (length args) (sx_ffiArgs ctx))) (\<lambda>(callErrno, _).
     bind_st (load_word_st (sx_addr ctx + 512)) (\<lambda>r1.
     bind_st (load_word_st (sx_addr ctx + 520)) (\<lambda>r2.
     bind_st (modify_st (\<lambda>s. s\<lparr>syscallPool := ctx # syscallPool s\<rparr>)) (\<lambda>_.
       pure_st (r1, r2, if (ucast r1 :: u32) = -1 then callErrno else 0))))))))"

definition SyscallN ::
  "target \<Rightarrow> 'w goffi \<Rightarrow> uintptr \<Rightarrow> uintptr list \<Rightarrow> ('w gstate, uintptr \<times> uintptr \<times> uintptr) prog" where
  "SyscallN T E fn args =
     (if fn = 0 then panic_st (PanicMsg ''purego: fn is nil'')
      else bind_st (modify_st (errnoOnce T E)) (\<lambda>_.
        bind_st (modify_st (syscallOnce E)) (\<lambda>_.
          let nArgs = length args in
          if 32 < nArgs then panic_st (PanicMsg ''purego: too many arguments to SyscallN'')
          else bind_st get_st (\<lambda>s.
            case syscallCIFErrors (syscall_lazy s) ! nArgs of
              Some err \<Rightarrow> panic_st (PanicMsg (''purego: failed to prepare SyscallN call interface for '' @
                decimal nArgs @ '' arguments: '' @ err))
            | None \<Rightarrow> syscall_run E (syscallCIFs (syscall_lazy s) ! nArgs) fn args))))"

text \<open>On Windows the package \<open>syscall\<close> does it all.\<close>

definition SyscallN_windows ::
  "'w goffi \<Rightarrow> uintptr \<Rightarrow> uintptr list \<Rightarrow> ('w gstate, uintptr \<times> uintptr \<times> uintptr) prog" where
  "SyscallN_windows E fn args = on_mem (\<lambda>m. Inr (syscall_SyscallN E fn args m))"

section \<open>What a call finds and leaves\<close>

definition syscall_pool_ok :: "'w gstate \<Rightarrow> bool" where
  "syscall_pool_ok s \<longleftrightarrow> pool_ok syscall_ctx_size (gmem s) (map sx_addr (syscallPool s)) \<and>
     (\<forall>c\<in>set (syscallPool s). linked c)"

definition syscall_room :: "'w gstate \<Rightarrow> bool" where
  "syscall_room s \<longleftrightarrow> syscallPool s \<noteq> [] \<or> mbrk (gmem s) + syscall_ctx_size < heap_limit"

text \<open>The memory in which the engine is entered, for the context at \<open>a\<close>.\<close>

definition syscall_memory :: "uintptr \<Rightarrow> uintptr list \<Rightarrow> 'w mem \<Rightarrow> 'w mem \<Rightarrow> bool" where
  "syscall_memory a args m m' \<longleftrightarrow>
     load m' a (8 * length args) = Inr (words_bytes args) \<and> load m' (a + 512) 16 = Inr (replicate 16 0) \<and>
     mbrk m' = mbrk m \<and> world m' = world m \<and> (\<forall>x. mbytes m' x = None \<longleftrightarrow> mbytes m x = None) \<and>
     (\<forall>x. (\<forall>i < syscall_ctx_size. x \<noteq> a + of_nat i) \<longrightarrow> mbytes m' x = mbytes m x)"

lemma fill_syscall_context:
  assumes map: "mapped m a syscall_ctx_size" and n: "length args \<le> 32"
  shows "\<exists>m2 m3. store m a (words_bytes args) = Inr m2 \<and> store m2 (a + 512) (replicate 16 0) = Inr m3 \<and>
    syscall_memory a args m m3"
proof -
  have part: "mapped m (a + of_nat k) j" if "k + j \<le> 528" for k j
    using mapped_part [OF map [unfolded syscall_ctx_size_def]] that .
  obtain m2 where m2: "store m a (words_bytes args) = Inr m2"
    using store_mapped [of m a "words_bytes args"] part [of 0 "8 * length args"] n by auto
  obtain m3 where m3: "store m2 (a + 512) (replicate 16 0) = Inr m3"
    using store_mapped [of m2 "a + 512" "replicate 16 0"] part [of 512 16]
    by (auto simp: mapped_store [OF m2])
  have "load m3 a (8 * length args) = Inr (words_bytes args)"
    using store_load [OF m2] n store_disjoint [of m2 a 512 "replicate 16 0" m3 0 "8 * length args"] m3 by simp
  moreover have "load m3 (a + 512) 16 = Inr (replicate 16 0)"
    using store_load [OF m3] by simp
  moreover have "mbytes m3 x = mbytes m x" if "\<forall>i < syscall_ctx_size. x \<noteq> a + of_nat i" for x
  proof -
    have out: "\<forall>i<528. x \<noteq> a + of_nat i"
      using that by (simp add: syscall_ctx_size_def)
    show ?thesis
      using store_outside [of m a 0 "words_bytes args" m2 528 x]
        store_outside [of m2 a 512 "replicate 16 0" m3 528 x] m2 m3 n out by simp
  qed
  ultimately have "syscall_memory a args m m3"
    using store_frame [OF m2] store_frame [OF m3] by (simp add: syscall_memory_def)
  then show ?thesis
    using m2 m3 by blast
qed

lemma take_syscall_ctx_run:
  "syscall_pool_get (syscallPool s) (gmem s) = Inr (ctx, rest, m) \<Longrightarrow>
     take_syscall_ctx s = (Inr ctx, s\<lparr>gmem := m, syscallPool := rest\<rparr>)"
  by (simp add: take_syscall_ctx_def lift_st_def)

text \<open>The call up to the engine, and what is made of its result.\<close>

definition syscall_result :: "uintptr \<Rightarrow> syscall_ctx \<Rightarrow> ('w gstate, uintptr \<times> uintptr \<times> uintptr) prog" where
  "syscall_result callErrno ctx =
     bind_st (load_word_st (sx_addr ctx + 512)) (\<lambda>r1.
     bind_st (load_word_st (sx_addr ctx + 520)) (\<lambda>r2.
     bind_st (modify_st (\<lambda>s. s\<lparr>syscallPool := ctx # syscallPool s\<rparr>)) (\<lambda>_.
       pure_st (r1, r2, if (ucast r1 :: u32) = -1 then callErrno else 0))))"

lemma syscall_run_enters:
  assumes ok: "syscall_pool_ok s" and room: "syscall_room s" and n: "length args \<le> 32"
  shows "\<exists>ctx rest m1 m4. syscall_pool_get (syscallPool s) (gmem s) = Inr (ctx, rest, m1) \<and>
     mem_ext (gmem s) m1 \<and> syscall_memory (sx_addr ctx) args m1 m4 \<and> linked ctx \<and>
     syscall_run E cif fn args s =
       (case CallFunction E cif fn (sx_addr ctx + 512)
               (map (\<lambda>i. sx_addr ctx + of_nat (8 * i)) [0..<length args]) m4 of
          (callErrno, _, m5) \<Rightarrow> syscall_result callErrno ctx (s\<lparr>gmem := m5, syscallPool := rest\<rparr>))"
proof -
  have pool: "pool_ok syscall_ctx_size (gmem s) (map sx_addr ([] @ syscallPool s))" "\<forall>c\<in>set (syscallPool s). linked c"
    using ok by (simp_all add: syscall_pool_ok_def)
  obtain ctx rest m1 where get: "syscall_pool_get (syscallPool s) (gmem s) = Inr (ctx, rest, m1)"
    using syscall_pool.get_total [of "syscallPool s" "gmem s"] room by (auto simp: syscall_room_def)
  have lk: "linked ctx"
    using linked_get [OF get pool(2)] by blast
  have "mapped m1 (sx_addr ctx) syscall_ctx_size"
    using syscall_pool.get_mapped [OF _ get] pool(1) by simp
  then obtain m2 m3 where st: "store m1 (sx_addr ctx) (words_bytes args) = Inr m2"
      "store m2 (sx_addr ctx + 512) (replicate 16 0) = Inr m3" and mem: "syscall_memory (sx_addr ctx) args m1 m3"
    using fill_syscall_context [OF _ n] by blast
  have ptrs: "take (length args) (sx_ffiArgs ctx) = map (\<lambda>i. sx_addr ctx + of_nat (8 * i)) [0..<length args]"
    using lk n by (simp add: linked_def take_map del: upt_Suc)
  have swap: "s\<lparr>syscallPool := rest, gmem := m\<rparr> = s\<lparr>gmem := m, syscallPool := rest\<rparr>" for m
    by simp
  have "syscall_run E cif fn args s =
       (case CallFunction E cif fn (sx_addr ctx + 512)
               (map (\<lambda>i. sx_addr ctx + of_nat (8 * i)) [0..<length args]) m3 of
          (callErrno, _, m5) \<Rightarrow> syscall_result callErrno ctx (s\<lparr>gmem := m5, syscallPool := rest\<rparr>))"
    unfolding syscall_run_def swap [symmetric] bind_st_Inr [of take_syscall_ctx, OF take_syscall_ctx_run [OF get]]
    by (simp add: bind_st_def store_st_def on_mem_def lift_st_def st call_st_run ptrs syscall_result_def
        split: prod.split del: store.simps)
  then show ?thesis
    using get mem lk syscall_pool.get_ok [OF pool(1) get] by blast
qed

lemma syscall_result_runs:
  assumes "mapped (gmem s1) (sx_addr ctx) syscall_ctx_size"
  shows "\<exists>r1 r2. load_word (gmem s1) (sx_addr ctx + 512) = Inr r1 \<and> load_word (gmem s1) (sx_addr ctx + 520) = Inr r2 \<and>
    syscall_result callErrno ctx s1 =
      (Inr (r1, r2, if (ucast r1 :: u32) = -1 then callErrno else 0), s1\<lparr>syscallPool := ctx # syscallPool s1\<rparr>)"
proof -
  have part: "mapped (gmem s1) (sx_addr ctx + of_nat k) j" if "k + j \<le> 528" for k j
    using mapped_part [OF assms [unfolded syscall_ctx_size_def]] that .
  obtain b1 b2 where "load (gmem s1) (sx_addr ctx + 512) 8 = Inr b1" "load (gmem s1) (sx_addr ctx + 520) 8 = Inr b2"
    using load_mapped [of "gmem s1" "sx_addr ctx + 512" 8] load_mapped [of "gmem s1" "sx_addr ctx + 520" 8]
      part [of 512 8] part [of 520 8] by auto
  then have w: "load_word (gmem s1) (sx_addr ctx + 512) = Inr (of_le b1)" "load_word (gmem s1) (sx_addr ctx + 520) = Inr (of_le b2)"
    by (simp_all add: load_word_def)
  then have "load_word_st (sx_addr ctx + 512) s1 = (Inr (of_le b1), s1)" "load_word_st (sx_addr ctx + 520) s1 = (Inr (of_le b2), s1)"
    by (simp_all add: load_word_st_eq_Inr)
  then show ?thesis
    using w by (simp add: syscall_result_def bind_st_def)
qed

text \<open>Each argument pointer leads to its argument.\<close>

lemma syscall_pointer:
  assumes "syscall_memory a args m m'" "i < length args"
  shows "load_word m' (a + of_nat (8 * i)) = Inr (args ! i)"
proof -
  have "load m' (a + of_nat (8 * i)) 8 = Inr (le_bytes 8 (args ! i))"
    using load_words_slot [of m' a args i 8] assms by (simp add: syscall_memory_def)
  then show ?thesis
    by (simp add: load_word_def of_le_le_bytes_8)
qed

lemma errnoOnce_only: "\<exists>l. errnoOnce T E s = s\<lparr>errno_lazy := l\<rparr>"
  by (cases s) (simp add: errnoOnce_def once_lazy_def initErrno_def Let_def split: sum.split)

lemma syscallOnce_only: "\<exists>l. syscallOnce E s = s\<lparr>syscall_lazy := l\<rparr>"
  by (cases s) (simp add: syscallOnce_def initSyscallCIFs_def Let_def)

lemma once_states:
  "gmem (syscallOnce E (errnoOnce T E s)) = gmem s" "syscallPool (syscallOnce E (errnoOnce T E s)) = syscallPool s"
  "lockDepth (syscallOnce E (errnoOnce T E s)) = lockDepth s"
  using errnoOnce_only [of T E s] syscallOnce_only [of E "errnoOnce T E s"] by auto

lemma tables_errnoOnce: "syscall_tables E (errnoOnce T E s) = syscall_tables E s"
  using errnoOnce_only [of T E s] by (auto simp: syscall_tables_def)

lemma tables_prepared:
  assumes "syscall_tables E s"
  shows "syscall_tables E ((syscallOnce E (errnoOnce T E s))\<lparr>gmem := m, syscallPool := p\<rparr>)"
proof -
  have "syscall_tables E (errnoOnce T E s)"
    using assms by (simp add: tables_errnoOnce)
  from tables_after_once [OF this] show ?thesis
    unfolding syscall_tables_def by simp
qed

lemma SyscallN_reaches:
  assumes "fn \<noteq> 0" "length args \<le> 32" "syscall_tables E s"
    "PrepareCallInterface E DefaultCall syscall_result_type (replicate (length args) PointerTypeDescriptor) = (None, cif)"
  shows "SyscallN T E fn args s = syscall_run E cif fn args (syscallOnce E (errnoOnce T E s))"
  using tables_after_once [of E "errnoOnce T E s" "length args"] assms
  by (simp add: SyscallN_def tables_errnoOnce bind_st_def Let_def)

text \<open>A whole call, from the state of the pool to the results.\<close>

lemma SyscallN_run:
  assumes fn: "fn \<noteq> 0" and n: "length args \<le> 32" and tb: "syscall_tables E s"
    and prep: "PrepareCallInterface E DefaultCall syscall_result_type (replicate (length args) PointerTypeDescriptor) = (None, cif)"
    and ok: "syscall_pool_ok s" and room: "syscall_room s" and kh: "keeps_heap E"
  shows "\<exists>ctx rest m1 m4 callErrno err m5 r1 r2 s'.
    syscall_pool_get (syscallPool s) (gmem s) = Inr (ctx, rest, m1) \<and> syscall_memory (sx_addr ctx) args m1 m4 \<and>
    CallFunction E cif fn (sx_addr ctx + 512) (map (\<lambda>i. sx_addr ctx + of_nat (8 * i)) [0..<length args]) m4 =
      (callErrno, err, m5) \<and>
    load_word m5 (sx_addr ctx + 512) = Inr r1 \<and> load_word m5 (sx_addr ctx + 520) = Inr r2 \<and>
    SyscallN T E fn args s = (Inr (r1, r2, if (ucast r1 :: u32) = -1 then callErrno else 0), s') \<and>
    s' = (syscallOnce E (errnoOnce T E s))\<lparr>gmem := m5, syscallPool := ctx # rest\<rparr> \<and> syscall_pool_ok s'"
proof -
  let ?s = "syscallOnce E (errnoOnce T E s)"
  have pool: "syscall_pool_ok ?s" "syscall_room ?s"
    using ok room by (simp_all add: syscall_pool_ok_def syscall_room_def once_states)
  obtain ctx rest m1 m4 where get: "syscall_pool_get (syscallPool s) (gmem s) = Inr (ctx, rest, m1)"
    and mem: "syscall_memory (sx_addr ctx) args m1 m4"
    and run: "syscall_run E cif fn args ?s =
       (case CallFunction E cif fn (sx_addr ctx + 512) (map (\<lambda>i. sx_addr ctx + of_nat (8 * i)) [0..<length args]) m4 of
          (callErrno, _, m5) \<Rightarrow> syscall_result callErrno ctx (?s\<lparr>gmem := m5, syscallPool := rest\<rparr>))"
    using syscall_run_enters [OF pool n, of E cif fn] unfolding once_states by blast
  obtain callErrno err m5 where call: "CallFunction E cif fn (sx_addr ctx + 512)
      (map (\<lambda>i. sx_addr ctx + of_nat (8 * i)) [0..<length args]) m4 = (callErrno, err, m5)"
    by (cases "CallFunction E cif fn (sx_addr ctx + 512) (map (\<lambda>i. sx_addr ctx + of_nat (8 * i)) [0..<length args]) m4")
  have pm: "pool_ok syscall_ctx_size (gmem s) (map sx_addr (syscallPool s))" "\<forall>c\<in>set (syscallPool s). linked c"
    using ok by (simp_all add: syscall_pool_ok_def)
  have m4: "mbrk m4 = mbrk m1" "\<forall>x. mbytes m4 x = None \<longleftrightarrow> mbytes m1 x = None"
    using mem by (simp_all add: syscall_memory_def)
  have "grows m1 m4"
    using m4 by (simp add: grows_def)
  then have m5: "grows m1 m5"
    using keeps_heap_call [OF kh call] by (rule grows_trans)
  have ok5: "pool_ok syscall_ctx_size m5 (map sx_addr (ctx # rest))"
    by (rule syscall_pool.put_ok [OF pm(1) get m5])
  then have map5: "mapped (gmem (?s\<lparr>gmem := m5, syscallPool := rest\<rparr>)) (sx_addr ctx) syscall_ctx_size"
    by (simp add: pool_ok_def)
  have ok': "syscall_pool_ok (?s\<lparr>gmem := m5, syscallPool := ctx # rest\<rparr>)"
    using ok5 linked_get [OF get pm(2)] by (simp add: syscall_pool_ok_def)
  from syscall_result_runs [OF map5, of callErrno] obtain r1 r2 where
    r: "load_word m5 (sx_addr ctx + 512) = Inr r1" "load_word m5 (sx_addr ctx + 520) = Inr r2"
    "syscall_result callErrno ctx (?s\<lparr>gmem := m5, syscallPool := rest\<rparr>) =
      (Inr (r1, r2, if (ucast r1 :: u32) = -1 then callErrno else 0), ?s\<lparr>gmem := m5, syscallPool := ctx # rest\<rparr>)"
    by auto
  have "SyscallN T E fn args s =
      (Inr (r1, r2, if (ucast r1 :: u32) = -1 then callErrno else 0), ?s\<lparr>gmem := m5, syscallPool := ctx # rest\<rparr>)"
    unfolding SyscallN_reaches [OF fn n tb prep] run call by (simp add: r(3))
  then show ?thesis
    using get mem call r(1,2) ok' by blast
qed

section \<open>Properties\<close>

text \<open>
  Property C23. A call of \<open>SyscallN\<close> with at most 32 arguments enters the function once, through the
  interface prepared for exactly that many words and a result of two words; pointer \<open>i\<close> leads to
  argument \<open>i\<close>, and the result is zeroed. It returns the two words that the call leaves, and the errno
  the engine captured if and only if the low 32 bits of the first are all ones.
\<close>

theorem SyscallN_delivers:
  assumes "fn \<noteq> 0" "length args \<le> 32" "syscall_tables E s"
    "PrepareCallInterface E DefaultCall syscall_result_type (replicate (length args) PointerTypeDescriptor) = (None, cif)"
    "syscall_pool_ok s" "syscall_room s" "keeps_heap E"
  shows "\<exists>result ptrs m4 callErrno err m5 r1 r2 s'.
    (\<forall>i<length args. load_word m4 (ptrs ! i) = Inr (args ! i)) \<and> length ptrs = length args \<and>
    load m4 result 16 = Inr (replicate 16 0) \<and>
    CallFunction E cif fn result ptrs m4 = (callErrno, err, m5) \<and>
    load_word m5 result = Inr r1 \<and> load_word m5 (result + 8) = Inr r2 \<and> gmem s' = m5 \<and>
    SyscallN T E fn args s = (Inr (r1, r2, if (ucast r1 :: u32) = -1 then callErrno else 0), s')"
proof -
  obtain ctx rest m1 m4 callErrno err m5 r1 r2 s' where mem: "syscall_memory (sx_addr ctx) args m1 m4"
    and run: "CallFunction E cif fn (sx_addr ctx + 512) (map (\<lambda>i. sx_addr ctx + of_nat (8 * i)) [0..<length args]) m4 =
      (callErrno, err, m5)"
    "load_word m5 (sx_addr ctx + 512) = Inr r1" "load_word m5 (sx_addr ctx + 520) = Inr r2"
    "SyscallN T E fn args s = (Inr (r1, r2, if (ucast r1 :: u32) = -1 then callErrno else 0), s')"
    and s': "s' = (syscallOnce E (errnoOnce T E s))\<lparr>gmem := m5, syscallPool := ctx # rest\<rparr>"
    using SyscallN_run [OF assms, of T] by (elim exE conjE)
  have mem': "gmem s' = m5"
    by (simp add: s')
  let ?ptrs = "map (\<lambda>i. sx_addr ctx + of_nat (8 * i)) [0..<length args]"
  have "\<forall>i<length args. load_word m4 (?ptrs ! i) = Inr (args ! i)"
    using syscall_pointer [OF mem] by simp
  moreover have "load m4 (sx_addr ctx + 512) 16 = Inr (replicate 16 0)"
    using mem by (simp add: syscall_memory_def)
  moreover have "load_word m5 (sx_addr ctx + 512 + 8) = Inr r2"
    using run(3) by (simp add: add.assoc)
  ultimately show ?thesis
    using run mem'
    by (intro exI [of _ "sx_addr ctx + 512"] exI [of _ ?ptrs] exI [of _ m4] exI [of _ callErrno] exI [of _ err]
        exI [of _ m5] exI [of _ r1] exI [of _ r2] exI [of _ s'] conjI) simp_all
qed

lemma start_syscall_ok:
  assumes "mbrk m + syscall_ctx_size < heap_limit"
  shows "syscall_pool_ok (start_state m)" "syscall_room (start_state m)" "syscall_tables E (start_state m)"
  using assms by (simp_all add: syscall_pool_ok_def pool_ok_Nil start_state_def syscall_room_def syscall_tables_def)

theorem SyscallN_delivers_witness:
  "\<exists>r1 r2 s'. SyscallN \<lparr>GOOS = Linux, GOARCH = AMD64\<rparr> idle_engine 64 [7, 8] (start_state text_mem) = (Inr (r1, r2, 0), s')"
proof -
  have "mbrk text_mem + syscall_ctx_size < heap_limit"
    by (simp add: text_mem_def syscall_ctx_size_def heap_limit_def)
  note ok = start_syscall_ok [OF this]
  have prep: "PrepareCallInterface (idle_engine :: unit goffi) DefaultCall syscall_result_type
      (replicate (length [7, 8 :: uintptr]) PointerTypeDescriptor) =
      (None, \<lparr>cif_convention = DefaultCall, cif_ret = syscall_result_type,
        ArgTypes = [PointerTypeDescriptor, PointerTypeDescriptor], cif_fixed = None\<rparr>)"
    by (simp add: idle_engine_def)
  have "callErrno = 0" if "CallFunction (idle_engine :: unit goffi) cif fn rv ptrs m = (callErrno, err, m5)"
    for cif fn rv ptrs m callErrno err m5
    using that by (simp add: idle_engine_def)
  moreover have "(64 :: uintptr) \<noteq> 0" "length [7, 8 :: uintptr] \<le> 32"
    by simp_all
  ultimately show ?thesis
    using SyscallN_delivers [OF _ _ ok(3) prep ok(1,2) keeps_heap_idle, of 64 "\<lparr>GOOS = Linux, GOARCH = AMD64\<rparr>"] by fastforce
qed

text \<open>The reason for which a call of \<open>SyscallN\<close> is refused, in the order of the tests.\<close>

definition syscall_rejection :: "'w goffi \<Rightarrow> uintptr \<Rightarrow> uintptr list \<Rightarrow> string option" where
  "syscall_rejection E fn args =
     (if fn = 0 then Some ''purego: fn is nil''
      else if 32 < length args then Some ''purego: too many arguments to SyscallN''
      else map_option (\<lambda>err. ''purego: failed to prepare SyscallN call interface for '' @ decimal (length args) @
             '' arguments: '' @ err)
           (fst (PrepareCallInterface E DefaultCall syscall_result_type (replicate (length args) PointerTypeDescriptor))))"

text \<open>
  Property C24. \<open>SyscallN\<close> panics for a null function, for more than 32 arguments, and when the engine could
  not prepare the interface for their number, with the message for the first of these that applies;
  native code is not entered then, and neither memory nor the pool nor the lock has changed. It panics for no other
  reason while the heap has room for a context.
\<close>

theorem SyscallN_rejects:
  assumes "syscall_tables E s"
  shows "(\<forall>msg. syscall_rejection E fn args = Some msg \<longrightarrow>
      (\<exists>s'. SyscallN T E fn args s = (Inl (PanicMsg msg), s') \<and>
         gmem s' = gmem s \<and> syscallPool s' = syscallPool s \<and> lockDepth s' = lockDepth s)) \<and>
    (syscall_rejection E fn args = None \<longrightarrow> syscall_pool_ok s \<longrightarrow> syscall_room s \<longrightarrow> keeps_heap E \<longrightarrow>
      (\<exists>r s'. SyscallN T E fn args s = (Inr r, s')))"
proof (cases "fn = 0 \<or> 32 < length args")
  case True
  then show ?thesis
    by (auto simp: syscall_rejection_def SyscallN_def bind_st_def Let_def once_states)
next
  case False
  obtain err cif where prep: "PrepareCallInterface E DefaultCall syscall_result_type
      (replicate (length args) PointerTypeDescriptor) = (err, cif)"
    by fastforce
  have tb: "syscallCIFErrors (syscall_lazy (syscallOnce E (errnoOnce T E s))) ! length args = err"
    using tables_after_once [of E "errnoOnce T E s" "length args"] assms False prep by (simp add: tables_errnoOnce)
  show ?thesis
  proof (cases err)
    case None
    have "\<exists>r s'. SyscallN T E fn args s = (Inr r, s')" if "syscall_pool_ok s" "syscall_room s" "keeps_heap E"
    proof -
      have "fn \<noteq> 0" "length args \<le> 32"
        using False by simp_all
      from SyscallN_run [OF this assms prep [unfolded None] that, of T] show ?thesis
        by blast
    qed
    then show ?thesis
      using False prep None by (simp add: syscall_rejection_def)
  next
    case (Some e)
    then show ?thesis
      using False prep tb by (simp add: syscall_rejection_def SyscallN_def bind_st_def Let_def once_states)
  qed
qed

text \<open>An engine that prepares no interface.\<close>

theorem SyscallN_rejects_witness:
  "\<exists>s'. SyscallN \<lparr>GOOS = Linux, GOARCH = AMD64\<rparr> (idle_engine\<lparr>PrepareCallInterface := \<lambda>c r ts. (Some ''unsupported'', zero_cif)\<rparr>)
     64 [7, 8] (start_state text_mem) =
     (Inl (PanicMsg ''purego: failed to prepare SyscallN call interface for 2 arguments: unsupported''), s') \<and> gmem s' = text_mem"
proof -
  let ?E = "idle_engine\<lparr>PrepareCallInterface := \<lambda>c r ts. (Some ''unsupported'', zero_cif)\<rparr> :: unit goffi"
  have "syscall_tables ?E (start_state text_mem)"
    by (simp add: syscall_tables_def start_state_def)
  moreover have "decimal (Suc (Suc 0)) = ''2''"
    by code_simp
  then have "syscall_rejection ?E 64 [7, 8] =
      Some ''purego: failed to prepare SyscallN call interface for 2 arguments: unsupported''"
    by (simp add: syscall_rejection_def)
  ultimately show ?thesis
    using SyscallN_rejects [of ?E "start_state text_mem" 64 "[7, 8]" "\<lparr>GOOS = Linux, GOARCH = AMD64\<rparr>"]
    by (auto simp: start_state_def)
qed

text \<open>
  Property C25. A call of \<open>SyscallN\<close> that returns leaves every pooled context linked to its own argument
  slots, mapped and apart from the others, and the interface tables as prepared. A pool that was not
  empty is the same as before: a call takes no memory of its own then. No call locks the thread.
\<close>

theorem SyscallN_keeps:
  assumes "syscall_tables E s" "syscall_pool_ok s" "syscall_room s" "keeps_heap E"
    "SyscallN T E fn args s = (Inr r, s')"
  shows "syscall_pool_ok s' \<and> syscall_tables E s' \<and> lockDepth s' = lockDepth s \<and>
    (syscallPool s \<noteq> [] \<longrightarrow> syscallPool s' = syscallPool s)"
proof -
  have fn: "fn \<noteq> 0" and n: "length args \<le> 32"
    using assms(5) by (auto simp: SyscallN_def bind_st_def Let_def split: if_splits)
  obtain perr cif where prep: "PrepareCallInterface E DefaultCall syscall_result_type
      (replicate (length args) PointerTypeDescriptor) = (perr, cif)"
    by fastforce
  have tb: "(syscallCIFErrors (syscall_lazy (syscallOnce E (errnoOnce T E s))) ! length args,
      syscallCIFs (syscall_lazy (syscallOnce E (errnoOnce T E s))) ! length args) = (perr, cif)"
    using tables_after_once [of E "errnoOnce T E s" "length args"] assms(1) n prep by (simp add: tables_errnoOnce)
  have "perr = None"
    using assms(5) fn n tb by (auto simp: SyscallN_def bind_st_def Let_def split: option.splits)
  then obtain ctx rest m1 m5 where get: "syscall_pool_get (syscallPool s) (gmem s) = Inr (ctx, rest, m1)"
    and s': "s' = (syscallOnce E (errnoOnce T E s))\<lparr>gmem := m5, syscallPool := ctx # rest\<rparr>" and ok: "syscall_pool_ok s'"
    using SyscallN_run [OF fn n assms(1) _ assms(2,3,4), of cif T] prep assms(5) by auto
  have "syscall_tables E s'"
    unfolding s' by (rule tables_prepared [OF assms(1)])
  moreover have "syscallPool s \<noteq> [] \<longrightarrow> syscallPool s' = syscallPool s"
    using get by (auto simp: s' syscall_pool_get_def pool_get_def split: list.splits)
  ultimately show ?thesis
    using ok by (simp add: s' once_states)
qed

theorem SyscallN_keeps_witness:
  "\<exists>r s'. SyscallN \<lparr>GOOS = Linux, GOARCH = AMD64\<rparr> idle_engine 64 [] (start_state text_mem) = (Inr r, s') \<and> syscall_pool_ok s'"
proof -
  have "mbrk text_mem + syscall_ctx_size < heap_limit"
    by (simp add: text_mem_def syscall_ctx_size_def heap_limit_def)
  note ok = start_syscall_ok [OF this]
  have prep: "PrepareCallInterface (idle_engine :: unit goffi) DefaultCall syscall_result_type
      (replicate (length ([] :: uintptr list)) PointerTypeDescriptor) =
      (None, \<lparr>cif_convention = DefaultCall, cif_ret = syscall_result_type, ArgTypes = [], cif_fixed = None\<rparr>)"
    by (simp add: idle_engine_def)
  have "(64 :: uintptr) \<noteq> 0" "length ([] :: uintptr list) \<le> 32"
    by simp_all
  then obtain r s' where "SyscallN \<lparr>GOOS = Linux, GOARCH = AMD64\<rparr> idle_engine 64 [] (start_state text_mem) = (Inr r, s')"
    using SyscallN_run [OF _ _ ok(3) prep ok(1,2) keeps_heap_idle, of 64 "\<lparr>GOOS = Linux, GOARCH = AMD64\<rparr>"] by blast
  then show ?thesis
    using SyscallN_keeps [OF ok(3,1,2) keeps_heap_idle] by blast
qed

end
