(* ===== verification/ArgPacking.thy ===== *)
theory ArgPacking
  imports Symbols
begin

text \<open>
  \<open>packArg\<close> of \<^verbatim>\<open>purego.go\<close>: how the reflect path turns one Go argument into a pointer that the engine
  reads the C argument from. The properties say what native code finds behind that pointer, for each
  kind, and that it is still there when later arguments have been packed.
\<close>

section \<open>Go values\<close>

text \<open>
  The value inside a \<open>reflect.Value\<close>: a string with the address of its data, a boolean, the bits of a
  number, a pointer (also of a slice's data), a function (a closure), or the bytes of an
  array or struct. \<open>GOther\<close> stands for the kinds the library rejects.
\<close>

datatype gval =
    GString uintptr "byte list"
  | GBool bool
  | GBits uintptr
  | GPtr uintptr
  | GFunc closure
  | GMem "byte list"
  | GOther

record rvalue =
  rv_type :: go_type
  rv_val :: gval
  rv_addr :: "uintptr option"

definition CanAddr :: "rvalue \<Rightarrow> bool" where
  "CanAddr v \<longleftrightarrow> rv_addr v \<noteq> None"

fun val_string :: "gval \<Rightarrow> uintptr \<times> byte list" where
  "val_string (GString d s) = (d, s)"
| "val_string _ = (0, [])"

fun val_bool :: "gval \<Rightarrow> bool" where
  "val_bool (GBool b) = b"
| "val_bool _ = False"

fun val_bits :: "gval \<Rightarrow> uintptr" where
  "val_bits (GBits w) = w"
| "val_bits _ = 0"

fun val_ptr :: "gval \<Rightarrow> uintptr" where
  "val_ptr (GPtr p) = p"
| "val_ptr _ = 0"

fun val_func :: "gval \<Rightarrow> closure" where
  "val_func (GFunc f) = f"
| "val_func _ = UserFn 0"

fun val_mem :: "gval \<Rightarrow> byte list" where
  "val_mem (GMem bs) = bs"
| "val_mem _ = []"

definition scalar_kinds :: "kind list" where
  "scalar_kinds = [KInt8, KUint8, KInt16, KUint16, KInt32, KUint32, KInt64, KUint64, KInt, KUint, KUintptr,
     KFloat32, KFloat64]"

definition pointer_kinds :: "kind list" where
  "pointer_kinds = [KPointer, KUnsafePointer, KSlice]"

section \<open>Packing\<close>

text \<open>The address of an array or struct: its own, or that of a fresh copy.\<close>

definition addressed :: "rvalue \<Rightarrow> ('w gstate, uintptr) prog" where
  "addressed v = (case rv_addr v of Some a \<Rightarrow> pure_st a | None \<Rightarrow> new_st (val_mem (rv_val v)))"

definition packArg :: "'w goffi \<Rightarrow> rvalue \<Rightarrow> ('w gstate, uintptr \<times> kept option) prog" where
  "packArg E v =
     (let k = Kind (rv_type v) in
      if k = KString then
        (let (d, s) = val_string (rv_val v) in
         if 0 < length s \<and> s ! (length s - 1) = 0 then
           bind_st (new_st (le_bytes 8 d)) (\<lambda>p. pure_st (p, Some (KeptBlock d)))
         else
           bind_st (new_st (s @ [0])) (\<lambda>b.
           bind_st (new_st (le_bytes 8 b)) (\<lambda>p. pure_st (p, Some (KeptBlock b)))))
      else if k = KBool then
        bind_st (new_st [if val_bool (rv_val v) then 1 else 0]) (\<lambda>p. pure_st (p, Some (KeptBlock p)))
      else if k \<in> set scalar_kinds then
        bind_st (new_st (le_bytes (Size (rv_type v)) (val_bits (rv_val v)))) (\<lambda>p.
          pure_st (p, Some (KeptBlock p)))
      else if k \<in> set pointer_kinds then
        bind_st (new_st (le_bytes 8 (val_ptr (rv_val v)))) (\<lambda>p.
          pure_st (p, Some (KeptBlock (val_ptr (rv_val v)))))
      else if k = KFunc then
        bind_st (on_mem (ffi_NewCallback E (rv_type v) (val_func (rv_val v)))) (\<lambda>addr.
        bind_st (new_st (le_bytes 8 addr)) (\<lambda>p. pure_st (p, Some (KeptBlock p))))
      else if k = KArray then
        bind_st (addressed v) (\<lambda>a.
        bind_st (new_st (le_bytes 8 a)) (\<lambda>p. pure_st (p, Some KeptCopy)))
      else if k = KStruct then
        bind_st (addressed v) (\<lambda>a. pure_st (a, Some KeptCopy))
      else panic_st (PanicMsg (''purego: unsupported kind '' @ kind_string k)))"

section \<open>What native code is to find\<close>

text \<open>
  A block of memory whose contents stay while the Go heap grows.
\<close>

definition holds :: "'w mem \<Rightarrow> uintptr \<Rightarrow> byte list \<Rightarrow> bool" where
  "holds m a bs \<longleftrightarrow> load m a (length bs) = Inr bs \<and> settled m a (length bs)"

lemma holds_mem_ext: "mem_ext m m' \<Longrightarrow> holds m a bs \<Longrightarrow> holds m' a bs"
  by (auto simp: holds_def load_mem_ext settled_mem_ext)

lemma gnew_holds: "gnew bs m = Inr (a, m') \<Longrightarrow> holds m' a bs"
  by (simp add: holds_def gnew_spec)

text \<open>
  \<open>passes m v p\<close>: the C argument at \<open>p\<close> is the one the Go value \<open>v\<close> stands for. A string is a pointer to
  its text up to the first NUL, terminated; an array is a pointer to its elements; a struct is its
  own bytes; a function is a pointer to some callback.
\<close>

definition passes :: "'w mem \<Rightarrow> rvalue \<Rightarrow> uintptr \<Rightarrow> bool" where
  "passes m v p \<longleftrightarrow>
     (let k = Kind (rv_type v); x = rv_val v in
      if k = KString then
        (\<exists>q. q \<noteq> 0 \<and> holds m p (le_bytes 8 q) \<and> holds m q (takeWhile (\<lambda>b. b \<noteq> 0) (snd (val_string x)) @ [0]))
      else if k = KBool then holds m p [if val_bool x then 1 else 0]
      else if k \<in> set scalar_kinds then holds m p (le_bytes (Size (rv_type v)) (val_bits x))
      else if k \<in> set pointer_kinds then holds m p (le_bytes 8 (val_ptr x))
      else if k = KArray then (\<exists>q. holds m p (le_bytes 8 q) \<and> holds m q (val_mem x))
      else if k = KStruct then holds m p (val_mem x)
      else \<exists>cb. holds m p (le_bytes 8 cb))"

lemma passes_mem_ext: "mem_ext m m' \<Longrightarrow> passes m v p \<Longrightarrow> passes m' v p"
  unfolding passes_def Let_def using holds_mem_ext [of m m'] by (auto split: if_splits)

text \<open>
  The Go values that can be there: strings have their data in memory, an addressable array or struct
  its bytes, and the bytes are as many as the type's size.
\<close>

definition value_ok :: "'w mem \<Rightarrow> rvalue \<Rightarrow> bool" where
  "value_ok m v \<longleftrightarrow>
     (Kind (rv_type v) = KString \<longrightarrow> (case val_string (rv_val v) of (d, s) \<Rightarrow> s = [] \<or> d \<noteq> 0 \<and> holds m d s)) \<and>
     (Kind (rv_type v) \<in> {KArray, KStruct} \<longrightarrow>
        length (val_mem (rv_val v)) = Size (rv_type v) \<and>
        (case rv_addr v of None \<Rightarrow> True | Some a \<Rightarrow> holds m a (val_mem (rv_val v))))"

lemma value_ok_mem_ext: "mem_ext m m' \<Longrightarrow> value_ok m v \<Longrightarrow> value_ok m' v"
  unfolding value_ok_def using holds_mem_ext [of m m']
  by (auto split: option.splits prod.splits)

text \<open>Creating a callback allocates, and disturbs nothing that is there.\<close>

definition callbacks_extend :: "'w goffi \<Rightarrow> bool" where
  "callbacks_extend E \<longleftrightarrow> (\<forall>t f m a m'. ffi_NewCallback E t f m = Inr (a, m') \<longrightarrow>
     mem_ext m m' \<and> grows m m')"

lemma callbacks_extend_idle [simp]: "callbacks_extend idle_engine"
  by (simp add: callbacks_extend_def idle_engine_def)

section \<open>Packing is correct\<close>

text \<open>Steps that only extend memory.\<close>

definition extends :: "'w gstate \<Rightarrow> 'w gstate \<Rightarrow> bool" where
  "extends s s' \<longleftrightarrow> mem_ext (gmem s) (gmem s') \<and> (\<exists>m. s' = s\<lparr>gmem := m\<rparr>)"

lemma extends_refl [simp]: "extends s s"
  by (auto simp: extends_def) (metis gstate.surjective gstate.update_convs(1))

lemma extends_trans: "extends s s' \<Longrightarrow> extends s' s'' \<Longrightarrow> extends s s''"
  by (auto simp: extends_def intro: mem_ext_trans)

lemma new_st_ok:
  assumes "new_st bs s = (Inr a, s')"
  shows "extends s s'" "holds (gmem s') a bs" "0 < mbrk (gmem s) \<Longrightarrow> a \<noteq> 0" "0 < mbrk (gmem s')"
  using assms gnew_spec [of bs "gmem s" a] gnew_holds [of bs "gmem s" a] fresh_not_null [of bs "gmem s" a]
  by (auto simp: new_st_eq_Inr extends_def)

lemma holds_prefix: "holds m a bs \<Longrightarrow> k \<le> length bs \<Longrightarrow> holds m a (take k bs)"
  using load_prefix [of m a "length bs" bs k] by (simp add: holds_def settled_def min_absorb2)

lemma terminated_prefix:
  "takeWhile (\<lambda>b. b \<noteq> 0) s @ [0] = take (length (takeWhile (\<lambda>b. b \<noteq> 0) s) + 1) (s @ [0 :: byte])"
proof (induction s)
  case (Cons b s)
  then show ?case by (cases "b = 0") auto
qed simp

lemma holds_terminated: "holds m q (s @ [0]) \<Longrightarrow> holds m q (takeWhile (\<lambda>b. b \<noteq> 0) s @ [0])"
  unfolding terminated_prefix [of s]
  by (rule holds_prefix) (simp_all add: length_takeWhile_le)

lemma addressed_ok:
  assumes "addressed v s = (Inr a, s')" "value_ok (gmem s) v" "Kind (rv_type v) \<in> {KArray, KStruct}"
  shows "extends s s'" "holds (gmem s') a (val_mem (rv_val v))"
  using assms new_st_ok [of "val_mem (rv_val v)" s a s']
  by (auto simp: addressed_def value_ok_def split: option.splits)

text \<open>The kinds of arguments, as the tests of \<open>packArg\<close> separate them.\<close>

lemma kind_tests:
  "k \<in> set scalar_kinds \<Longrightarrow> k \<noteq> KString \<and> k \<noteq> KBool \<and> k \<notin> set pointer_kinds \<and> k \<noteq> KFunc \<and> k \<noteq> KArray \<and> k \<noteq> KStruct"
  "k \<in> set pointer_kinds \<Longrightarrow> k \<noteq> KString \<and> k \<noteq> KBool \<and> k \<notin> set scalar_kinds \<and> k \<noteq> KFunc \<and> k \<noteq> KArray \<and> k \<noteq> KStruct"
  "KString \<notin> set scalar_kinds" "KString \<notin> set pointer_kinds" "KBool \<notin> set scalar_kinds" "KBool \<notin> set pointer_kinds"
  "KFunc \<notin> set scalar_kinds" "KFunc \<notin> set pointer_kinds" "KArray \<notin> set scalar_kinds" "KArray \<notin> set pointer_kinds"
  "KStruct \<notin> set scalar_kinds" "KStruct \<notin> set pointer_kinds"
  by (auto simp: scalar_kinds_def pointer_kinds_def)

lemma pack_string:
  assumes k: "Kind (rv_type v) = KString" and ok: "value_ok (gmem s) v" and brk: "0 < mbrk (gmem s)"
    and run: "packArg E v s = (Inr (p, kp), s')"
  shows "extends s s' \<and> passes (gmem s') v p \<and> kp \<noteq> None"
proof -
  obtain d str where ds: "val_string (rv_val v) = (d, str)"
    by (cases "val_string (rv_val v)")
  show ?thesis
  proof (cases "0 < length str \<and> str ! (length str - 1) = 0")
    case True
    then have n: "new_st (le_bytes 8 d) s = (Inr p, s')" and kp: "kp \<noteq> None"
      using run by (auto simp: packArg_def k ds st_simps)
    have str: "str = butlast str @ [0]"
      using True by (metis append_butlast_last_id last_conv_nth length_greater_0_conv)
    have d: "d \<noteq> 0" "holds (gmem s) d (butlast str @ [0])"
      using ok True str by (auto simp: value_ok_def k ds)
    have tw: "takeWhile (\<lambda>b. b \<noteq> 0) (butlast str) = takeWhile (\<lambda>b. b \<noteq> 0) str"
      by (subst (2) str) (rule takeWhile_snoc_nul [symmetric])
    have "holds (gmem s') d (takeWhile (\<lambda>b. b \<noteq> 0) str @ [0])"
      using holds_terminated [OF holds_mem_ext [OF _ d(2)], of "gmem s'"] new_st_ok(1) [OF n] tw
      by (simp add: extends_def)
    then show ?thesis
      using new_st_ok(1,2) [OF n] d(1) kp by (auto simp: passes_def k ds)
  next
    case False
    then obtain b s1 where n: "new_st (str @ [0]) s = (Inr b, s1)" "new_st (le_bytes 8 b) s1 = (Inr p, s')"
      and kp: "kp \<noteq> None"
      using run by (auto simp: packArg_def k ds st_simps)
    have "holds (gmem s') b (takeWhile (\<lambda>b. b \<noteq> 0) str @ [0])"
      using holds_terminated holds_mem_ext new_st_ok(2) [OF n(1)] new_st_ok(1) [OF n(2)]
      unfolding extends_def by blast
    then show ?thesis
      using new_st_ok(2) [OF n(2)] new_st_ok(3) [OF n(1) brk] extends_trans [OF new_st_ok(1) [OF n(1)] new_st_ok(1) [OF n(2)]] kp
      by (auto simp: passes_def k ds)
  qed
qed

lemma pack_func:
  assumes k: "Kind (rv_type v) = KFunc" and cb: "callbacks_extend E"
    and run: "packArg E v s = (Inr (p, kp), s')"
  shows "extends s s' \<and> passes (gmem s') v p \<and> kp \<noteq> None"
proof -
  obtain a m1 where f: "ffi_NewCallback E (rv_type v) (val_func (rv_val v)) (gmem s) = Inr (a, m1)"
    and n: "new_st (le_bytes 8 a) (s\<lparr>gmem := m1\<rparr>) = (Inr p, s')" and kp: "kp \<noteq> None"
    using run by (auto simp: packArg_def k kind_tests st_simps)
  have "extends s (s\<lparr>gmem := m1\<rparr>)"
    using f cb unfolding callbacks_extend_def extends_def by auto
  then show ?thesis
    using extends_trans [OF _ new_st_ok(1) [OF n]] new_st_ok(2) [OF n] kp by (auto simp: passes_def k kind_tests)
qed

lemma pack_aggregate:
  assumes k: "Kind (rv_type v) \<in> {KArray, KStruct}" and ok: "value_ok (gmem s) v"
    and run: "packArg E v s = (Inr (p, kp), s')"
  shows "extends s s' \<and> passes (gmem s') v p \<and> kp \<noteq> None"
proof (cases "Kind (rv_type v) = KStruct")
  case True
  then have "addressed v s = (Inr p, s')" "kp \<noteq> None"
    using run by (auto simp: packArg_def kind_tests st_simps)
  then show ?thesis
    using addressed_ok [OF _ ok k] True by (auto simp: passes_def kind_tests)
next
  case False
  then have k': "Kind (rv_type v) = KArray"
    using k by simp
  then obtain a s1 where a: "addressed v s = (Inr a, s1)" "new_st (le_bytes 8 a) s1 = (Inr p, s')" "kp \<noteq> None"
    using run by (auto simp: packArg_def kind_tests st_simps)
  have "holds (gmem s') a (val_mem (rv_val v))"
    using addressed_ok(2) [OF a(1) ok k] holds_mem_ext new_st_ok(1) [OF a(2)] unfolding extends_def by blast
  then show ?thesis
    using addressed_ok(1) [OF a(1) ok k] extends_trans [OF _ new_st_ok(1) [OF a(2)]] new_st_ok(2) [OF a(2)] a(3) k'
    by (auto simp: passes_def kind_tests)
qed

lemma pack_flat:
  assumes k: "Kind (rv_type v) = KBool \<or> Kind (rv_type v) \<in> set scalar_kinds \<or> Kind (rv_type v) \<in> set pointer_kinds"
    and run: "packArg E v s = (Inr (p, kp), s')"
  shows "extends s s' \<and> passes (gmem s') v p \<and> kp \<noteq> None"
proof -
  consider "Kind (rv_type v) = KBool" | "Kind (rv_type v) \<in> set scalar_kinds" | "Kind (rv_type v) \<in> set pointer_kinds"
    using k by blast
  then show ?thesis
  proof cases
    case 1
    then have "new_st [if val_bool (rv_val v) then 1 else 0] s = (Inr p, s')" "kp \<noteq> None"
      using run by (auto simp: packArg_def kind_tests st_simps)
    from new_st_ok(1,2) [OF this(1)] this(2) show ?thesis
      using 1 unfolding passes_def by (simp add: kind_tests)
  next
    case 2
    then have "new_st (le_bytes (Size (rv_type v)) (val_bits (rv_val v))) s = (Inr p, s')" "kp \<noteq> None"
      using run kind_tests(1) [OF 2] by (auto simp: packArg_def st_simps)
    from new_st_ok(1,2) [OF this(1)] this(2) show ?thesis
      using 2 kind_tests(1) [OF 2] unfolding passes_def by simp
  next
    case 3
    then have "new_st (le_bytes 8 (val_ptr (rv_val v))) s = (Inr p, s')" "kp \<noteq> None"
      using run kind_tests(2) [OF 3] by (auto simp: packArg_def st_simps)
    from new_st_ok(1,2) [OF this(1)] this(2) show ?thesis
      using 3 kind_tests(2) [OF 3] unfolding passes_def by simp
  qed
qed

definition packable :: "kind \<Rightarrow> bool" where
  "packable k \<longleftrightarrow> k \<in> {KString, KBool, KFunc, KArray, KStruct} \<union> set scalar_kinds \<union> set pointer_kinds"

lemma pack_unsupported:
  "\<not> packable (Kind (rv_type v)) \<Longrightarrow> packArg E v s = (Inl (unsupported_kind (Kind (rv_type v))), s)"
  by (simp add: packable_def packArg_def unsupported_kind_def)

text \<open>
  The argument \<open>packArg\<close> leaves for the engine, whatever the kind, and what it does to the state.
\<close>

lemma packArg_ok:
  assumes "callbacks_extend E" "value_ok (gmem s) v" "0 < mbrk (gmem s)" "packArg E v s = (Inr (p, k), s')"
  shows "extends s s' \<and> passes (gmem s') v p \<and> k \<noteq> None"
proof (cases "packable (Kind (rv_type v))")
  case True
  then consider "Kind (rv_type v) = KString" | "Kind (rv_type v) = KFunc" | "Kind (rv_type v) \<in> {KArray, KStruct}"
    | "Kind (rv_type v) = KBool \<or> Kind (rv_type v) \<in> set scalar_kinds \<or> Kind (rv_type v) \<in> set pointer_kinds"
    unfolding packable_def by blast
  then show ?thesis
    using pack_string pack_func pack_aggregate pack_flat assms by cases blast+
next
  case False
  then show ?thesis
    using pack_unsupported [OF False, of E s] assms(4) by simp
qed

text \<open>Packing succeeds while there is heap; \<open>pack_room\<close> bounds what it takes.\<close>

definition pack_room :: "rvalue \<Rightarrow> nat" where
  "pack_room v = length (snd (val_string (rv_val v))) + length (val_mem (rv_val v)) + Size (rv_type v) + 16"

lemma new_st_runs:
  "mbrk (gmem s) + length bs < heap_limit \<Longrightarrow>
     \<exists>a s'. new_st bs s = (Inr a, s') \<and> mbrk (gmem s') = mbrk (gmem s) + max 1 (length bs)"
  by (auto simp: new_st_def on_mem_def lift_st_def gnew_def)

lemma packArg_returns:
  assumes k: "packable (Kind (rv_type v))" "Kind (rv_type v) \<noteq> KFunc"
    and room: "mbrk (gmem s) + pack_room v < heap_limit"
  shows "\<exists>p kp s'. packArg E v s = (Inr (p, kp), s') \<and> mbrk (gmem s') \<le> mbrk (gmem s) + pack_room v"
proof -
  have one: "\<exists>p s'. new_st bs s = (Inr p, s') \<and> mbrk (gmem s') \<le> mbrk (gmem s) + pack_room v"
    if "length bs \<le> pack_room v" for bs
    using new_st_runs [of s bs] room that by (fastforce simp: pack_room_def)
  have two: "\<exists>a s1 p s'. new_st bs s = (Inr a, s1) \<and> new_st (le_bytes 8 a) s1 = (Inr p, s') \<and>
      mbrk (gmem s') \<le> mbrk (gmem s) + pack_room v" if bs: "length bs + 9 \<le> pack_room v" for bs
  proof -
    obtain a s1 where a: "new_st bs s = (Inr a, s1)" "mbrk (gmem s1) = mbrk (gmem s) + max 1 (length bs)"
      using new_st_runs [of s bs] room bs by fastforce
    moreover obtain p s' where "new_st (le_bytes 8 a) s1 = (Inr p, s')" "mbrk (gmem s') = mbrk (gmem s1) + 8"
      using new_st_runs [of s1 "le_bytes 8 a"] room bs a(2) by fastforce
    ultimately show ?thesis
      using bs by fastforce
  qed
  obtain d str where ds: "val_string (rv_val v) = (d, str)"
    by (cases "val_string (rv_val v)")
  consider "Kind (rv_type v) = KString" | "Kind (rv_type v) = KBool" | "Kind (rv_type v) \<in> set scalar_kinds"
    | "Kind (rv_type v) \<in> set pointer_kinds" | "Kind (rv_type v) = KArray" | "Kind (rv_type v) = KStruct"
    using k unfolding packable_def by blast
  then show ?thesis
  proof cases
    case 1
    show ?thesis
      using one [of "le_bytes 8 d"] two [of "str @ [0]"] 1
      by (auto simp: packArg_def ds bind_st_def pack_room_def)
  next
    case 2
    then show ?thesis
      using one [of "[1]"] one [of "[0]"] by (auto simp: packArg_def bind_st_def pack_room_def kind_tests)
  next
    case 3
    then show ?thesis
      using one [of "le_bytes (Size (rv_type v)) (val_bits (rv_val v))"] kind_tests(1) [OF 3]
      by (auto simp: packArg_def bind_st_def pack_room_def)
  next
    case 4
    then show ?thesis
      using one [of "le_bytes 8 (val_ptr (rv_val v))"] kind_tests(2) [OF 4]
      by (auto simp: packArg_def bind_st_def pack_room_def)
  next
    case 5
    then show ?thesis
      using two [of "val_mem (rv_val v)"] one [of "le_bytes 8 (the (rv_addr v))"]
      by (auto simp: packArg_def addressed_def bind_st_def pack_room_def kind_tests split: option.splits)
  next
    case 6
    then show ?thesis
      using one [of "val_mem (rv_val v)"]
      by (auto simp: packArg_def addressed_def bind_st_def pack_room_def kind_tests split: option.splits)
  qed
qed

text \<open>Packing allocates and creates callbacks, and does nothing else to the state.\<close>

lemma keeps_packArg:
  assumes "\<And>bs. keeps I (new_st bs)" "\<And>t f. keeps I (on_mem (ffi_NewCallback E t f))"
  shows "keeps I (packArg E v)"
  by (auto simp: packArg_def addressed_def Let_def split: prod.split option.split
      intro!: keeps_intros assms)

section \<open>Properties\<close>

text \<open>
  Property C15. When \<open>packArg\<close> returns a pointer, native code finds behind it the C form of the Go value
  (for a string, a pointer to its text up to the first NUL, always terminated); an object is kept
  alive for it; and all memory that was in use before is as it was, so that arguments packed earlier
  are still in place.
\<close>

theorem packArg_passes:
  assumes "callbacks_extend E" "value_ok (gmem s) v" "0 < mbrk (gmem s)" "packArg E v s = (Inr (p, k), s')"
  shows "passes (gmem s') v p \<and> k \<noteq> None \<and>
    (\<forall>w q. passes (gmem s) w q \<longrightarrow> passes (gmem s') w q) \<and> (\<exists>m. s' = s\<lparr>gmem := m\<rparr>)"
  using packArg_ok [OF assms] passes_mem_ext unfolding extends_def by blast

definition text_arg :: rvalue where
  "text_arg = \<lparr>rv_type = TPrim PString, rv_val = GString 100 [65], rv_addr = None\<rparr>"

lemma text_arg_ok: "value_ok text_mem text_arg"
  by (simp add: value_ok_def text_arg_def holds_def text_mem_def load_Inr_iff settled_def)

theorem packArg_passes_witness:
  "\<exists>p k s'. packArg idle_engine text_arg (start_state text_mem) = (Inr (p, k), s') \<and> passes (gmem s') text_arg p"
proof -
  have "mbrk text_mem = 4096" "packable (Kind (rv_type text_arg))" "Kind (rv_type text_arg) \<noteq> KFunc"
    "pack_room text_arg < 4096"
    by (simp_all add: text_mem_def text_arg_def packable_def pack_room_def)
  then obtain p k s' where run: "packArg idle_engine text_arg (start_state text_mem) = (Inr (p, k), s')"
    using packArg_returns [of text_arg "start_state text_mem" idle_engine]
    by (auto simp: start_state_def heap_limit_def)
  have "value_ok (gmem (start_state text_mem)) text_arg" "0 < mbrk (gmem (start_state text_mem))"
    by (simp_all add: start_state_def text_arg_ok) (simp add: text_mem_def)
  then show ?thesis
    using packArg_passes [OF callbacks_extend_idle _ _ run] run by blast
qed

text \<open>
  Property C16. While the heap has room for the copies, \<open>packArg\<close> of anything but a function rejects a
  value exactly when its kind is one it has no case for (complex numbers, channels, interfaces,
  maps), with the message that names the kind and without an effect; everything else, arrays of
  unsupported elements included, is packed.
\<close>

theorem packArg_rejects:
  assumes "mbrk (gmem s) + pack_room v < heap_limit" "Kind (rv_type v) \<noteq> KFunc"
  shows "if Kind (rv_type v) \<in> {KComplex64, KComplex128, KChan, KInterface, KMap}
    then packArg E v s = (Inl (PanicMsg (''purego: unsupported kind '' @ kind_string (Kind (rv_type v)))), s)
    else \<exists>p kept s'. packArg E v s = (Inr (p, kept), s') \<and> mbrk (gmem s') \<le> mbrk (gmem s) + pack_room v"
proof (cases "packable (Kind (rv_type v))")
  case True
  then show ?thesis
    using packArg_returns [OF True assms(2,1), of E]
    by (cases "Kind (rv_type v)") (simp_all add: packable_def scalar_kinds_def pointer_kinds_def)
next
  case False
  then show ?thesis
    using pack_unsupported [OF False, of E s]
    by (cases "Kind (rv_type v)") (simp_all add: packable_def scalar_kinds_def pointer_kinds_def unsupported_kind_def)
qed

theorem packArg_rejects_witness:
  "packArg idle_engine \<lparr>rv_type = TMap (TPrim PInt) (TPrim PInt), rv_val = GMem [], rv_addr = None\<rparr> (start_state text_mem) =
     (Inl (PanicMsg ''purego: unsupported kind map''), start_state text_mem)"
  using packArg_rejects [of "start_state text_mem"
      "\<lparr>rv_type = TMap (TPrim PInt) (TPrim PInt), rv_val = GMem [], rv_addr = None\<rparr>" idle_engine]
  by (simp add: start_state_def text_mem_def pack_room_def heap_limit_def)

end
