(* ===== verification/RegisterFn.thy ===== *)
theory RegisterFn
  imports ArgPacking FastArgs
begin

text \<open>
  \<open>RegisterFunc\<close>, \<open>RegisterLibFunc\<close> and \<open>NewCallback\<close> of \<^verbatim>\<open>purego.go\<close>: the checks and the
  classification at registration, the closure of the reflect path with its pooled context, its
  deferred clean-up and its results, and callbacks with a marker parameter.
\<close>

section \<open>Markers\<close>

definition purego_pkg :: string where
  "purego_pkg = ''github.com/ebitengine/purego''"

definition CDecl :: go_type where
  "CDecl = TNamed purego_pkg ''CDecl'' (TStruct [])"

definition Variadic :: go_type where
  "Variadic = TNamed purego_pkg ''Variadic'' (TStruct [])"

section \<open>Registration\<close>

text \<open>
  What the closure of the reflect path captures: every variable of \<open>RegisterFunc\<close> it reads.
\<close>

record slow_fn =
  sf_type :: go_type
  sf_cfn :: uintptr
  sf_convention :: convention
  sf_startIn :: nat
  sf_fixedIn :: nat
  sf_hasError :: bool
  sf_isGoVariadic :: bool
  sf_isCVariadic :: bool
  sf_fixedArgTypes :: "ffi_type list"
  sf_retType :: ffi_type
  sf_fixedCif :: call_interface

text \<open>What a function variable is set to.\<close>

datatype bound = FastBound fast_impl call_interface uintptr | SlowBound slow_fn

text \<open>The checks on the results; the value is \<open>hasError\<close>.\<close>

definition check_results :: "go_type \<Rightarrow> bool res" where
  "check_results ty =
     (let numOut = NumOut ty in
      if 2 < numOut then Inl (PanicMsg ''purego: function can only return up to two values'')
      else if numOut = 2 then
        (if func_outs ty ! 1 \<noteq> errorType then Inl (PanicMsg ''purego: second return value must be an error'')
         else Inr True)
      else if numOut = 1 then Inr (func_outs ty ! 0 = errorType)
      else Inr False)"

text \<open>The convention, \<open>isCVariadic\<close> and \<open>startIn\<close> that a marker in front sets.\<close>

definition marker_of :: "go_type \<Rightarrow> convention \<times> bool \<times> nat" where
  "marker_of ty =
     (if 0 < NumIn ty then
        (if func_ins ty ! 0 = CDecl then (UnixCallingConvention, False, 1)
         else if func_ins ty ! 0 = Variadic then (DefaultCall, True, 1)
         else (DefaultCall, False, 0))
      else (DefaultCall, False, 0))"

definition symbol_name :: "target \<Rightarrow> 'w goffi \<Rightarrow> uintptr \<Rightarrow> ('w gstate, byte list) prog" where
  "symbol_name T E addr =
     (if GOOS T = Windows then pure_st (getSymbolName_windows addr) else getSymbolName T E addr)"

definition has_prefix :: "byte list \<Rightarrow> byte list \<Rightarrow> bool" where
  "has_prefix s pre \<longleftrightarrow> take (length pre) s = pre"

definition variadic_heuristic :: "goos \<Rightarrow> byte list \<Rightarrow> bool" where
  "variadic_heuristic os symName =
     (if has_prefix symName (bytes_of ''objc_msgSend'') then False
      else if symName = [] \<and> os = Darwin then False
      else True)"

definition resolve_variadic :: "target \<Rightarrow> 'w goffi \<Rightarrow> bool \<Rightarrow> bool \<Rightarrow> uintptr \<Rightarrow> ('w gstate, bool) prog" where
  "resolve_variadic T E isGoVariadic isCVariadic cfn =
     (if isGoVariadic \<and> \<not> isCVariadic
      then bind_st (symbol_name T E cfn) (\<lambda>symName. pure_st (variadic_heuristic (GOOS T) symName))
      else pure_st isCVariadic)"

definition return_type :: "go_type \<Rightarrow> bool \<Rightarrow> ffi_type res" where
  "return_type ty hasError =
     (if NumOut ty = 2 then goTypeToFfiType (func_outs ty ! 0)
      else if NumOut ty = 1 \<and> \<not> hasError then goTypeToFfiType (func_outs ty ! 0)
      else Inr VoidTypeDescriptor)"

text \<open>Which of the two files with \<open>tryRegisterFastPath\<close> is built.\<close>

definition fast_build :: "target \<Rightarrow> bool" where
  "fast_build T \<longleftrightarrow> GOARCH T \<in> {AMD64, ARM64} \<and> GOOS T \<in> {Darwin, IOS, FreeBSD, Linux, Android, NetBSD}"

definition try_fast :: "target \<Rightarrow> go_type \<Rightarrow> fast_impl option \<times> bool" where
  "try_fast T ty =
     (if fast_build T then tryRegisterFastPath (GOOS T) (GOARCH T) ty else tryRegisterFastPath_fallback ty)"

definition lift_res :: "'a res \<Rightarrow> ('s, 'a) prog" where
  "lift_res r = (case r of Inl e \<Rightarrow> panic_st e | Inr x \<Rightarrow> pure_st x)"

lemma lift_res_eq_Inr [st_simps]: "lift_res r s = (Inr x, s') \<longleftrightarrow> r = Inr x \<and> s' = s"
  by (auto simp: lift_res_def split: sum.split)

text \<open>
  The last part of \<open>RegisterFunc\<close>: the call interface of a function without a variadic part, and the
  choice between the fast path and the reflect path.
\<close>

definition make_binding :: "target \<Rightarrow> 'w goffi \<Rightarrow> slow_fn \<Rightarrow> bound option res" where
  "make_binding T E sf =
     (if sf_isGoVariadic sf then Inr (Some (SlowBound sf))
      else case PrepareCallInterface E (sf_convention sf) (sf_retType sf) (sf_fixedArgTypes sf) of
        (Some err, _) \<Rightarrow> Inl (PanicErr err)
      | (None, cif) \<Rightarrow>
          if \<not> sf_hasError sf \<and> snd (try_fast T (sf_type sf))
          then Inr (map_option (\<lambda>w. FastBound w cif (sf_cfn sf)) (fst (try_fast T (sf_type sf))))
          else Inr (Some (SlowBound (sf\<lparr>sf_fixedCif := cif\<rparr>))))"

text \<open>
  \<open>RegisterFunc\<close> for a variable behind a pointer of type \<open>fptr\<close>. The value is what the variable is
  set to, \<open>None\<close> if it is left as it was.
\<close>

definition RegisterFunc :: "target \<Rightarrow> 'w goffi \<Rightarrow> go_type \<Rightarrow> uintptr \<Rightarrow> ('w gstate, bound option) prog" where
  "RegisterFunc T E fptr cfn =
     (if cfn = 0 then panic_st (PanicMsg ''purego: cfn is nil'')
      else case underlying fptr of
        TPointer ty \<Rightarrow>
          if Kind ty \<noteq> KFunc then panic_st (PanicMsg ''purego: fptr must be a function pointer'')
          else bind_st (lift_res (check_results ty)) (\<lambda>hasError.
            let (convention, marked, startIn) = marker_of ty;
                isGoVariadic = IsVariadic ty;
                fixedIn = (if isGoVariadic then NumIn ty - 1 else NumIn ty) in
            bind_st (resolve_variadic T E isGoVariadic marked cfn) (\<lambda>isCVariadic.
            bind_st (lift_res (map_res (\<lambda>i. goArgTypeToFfiType (func_ins ty ! i)) [startIn..<fixedIn])) (\<lambda>fixedArgTypes.
            bind_st (lift_res (return_type ty hasError)) (\<lambda>retType.
              lift_res (make_binding T E \<lparr>sf_type = ty, sf_cfn = cfn, sf_convention = convention,
                sf_startIn = startIn, sf_fixedIn = fixedIn, sf_hasError = hasError,
                sf_isGoVariadic = isGoVariadic, sf_isCVariadic = isCVariadic,
                sf_fixedArgTypes = fixedArgTypes, sf_retType = retType, sf_fixedCif = zero_cif\<rparr>)))))
      | _ \<Rightarrow> panic_st (PanicErr (''reflect: call of reflect.Value.Elem on '' @ kind_string (Kind fptr) @ '' Value'')))"

definition RegisterLibFunc ::
  "target \<Rightarrow> 'w goffi \<Rightarrow> go_type \<Rightarrow> uintptr \<Rightarrow> string \<Rightarrow> ('w gstate, bound option) prog" where
  "RegisterLibFunc T E fptr handle name =
     bind_st get_st (\<lambda>s. case Dlsym T E handle name (gmem s) of
        Inl err \<Rightarrow> panic_st (PanicErr (Error err))
      | Inr addr \<Rightarrow> RegisterFunc T E fptr addr)"

section \<open>The context of a call\<close>

text \<open>The pool of contexts, and the variables of one call that the deferred function reads.\<close>

definition slow_ctx_size :: nat where
  "slow_ctx_size = 800"

definition new_slow_ctx :: "'w mem \<Rightarrow> (slow_ctx \<times> 'w mem) res" where
  "new_slow_ctx m =
     bind_res (gnew (replicate slow_ctx_size 0) m) (\<lambda>(a, m').
       Inr (\<lparr>sc_addr = a, keepAlive = replicate 32 None, ffiArgs = replicate 32 None\<rparr>, m'))"

definition slow_pool_get :: "slow_ctx list \<Rightarrow> 'w mem \<Rightarrow> (slow_ctx \<times> slow_ctx list \<times> 'w mem) res" where
  "slow_pool_get = pool_get new_slow_ctx"

record frame =
  fr_ctx :: slow_ctx
  keepAliveCount :: nat
  ffiArgsCount :: nat

type_synonym ('w, 'a) call_prog = "('w gstate \<times> frame, 'a) prog"

definition outer :: "('w gstate, 'a) prog \<Rightarrow> ('w, 'a) call_prog" where
  "outer p = (\<lambda>(s, fr). case p s of (r, s') \<Rightarrow> (r, (s', fr)))"

definition on_frame :: "(frame \<Rightarrow> frame) \<Rightarrow> ('w, unit) call_prog" where
  "on_frame f = (\<lambda>(s, fr). (Inr (), (s, f fr)))"

definition get_frame :: "('w, frame) call_prog" where
  "get_frame = (\<lambda>(s, fr). (Inr fr, (s, fr)))"

definition put_ffi_arg :: "uintptr \<Rightarrow> frame \<Rightarrow> frame" where
  "put_ffi_arg ptr fr = fr\<lparr>fr_ctx := (fr_ctx fr)\<lparr>ffiArgs := (ffiArgs (fr_ctx fr))[ffiArgsCount fr := Some ptr]\<rparr>,
     ffiArgsCount := ffiArgsCount fr + 1\<rparr>"

definition put_kept :: "kept \<Rightarrow> frame \<Rightarrow> frame" where
  "put_kept k fr = fr\<lparr>fr_ctx := (fr_ctx fr)\<lparr>keepAlive := (keepAlive (fr_ctx fr))[keepAliveCount fr := Some k]\<rparr>,
     keepAliveCount := keepAliveCount fr + 1\<rparr>"

text \<open>Packing one argument into the context; the arrays have 32 entries.\<close>

definition push_arg :: "'w goffi \<Rightarrow> rvalue \<Rightarrow> ('w, unit) call_prog" where
  "push_arg E v =
     bind_st (outer (packArg E v)) (\<lambda>(ptr, kept).
     bind_st get_frame (\<lambda>fr.
       if 32 \<le> ffiArgsCount fr then panic_st (IndexOutOfRange (ffiArgsCount fr) 32)
       else bind_st (on_frame (put_ffi_arg ptr)) (\<lambda>_.
         case kept of
           None \<Rightarrow> pure_st ()
         | Some k \<Rightarrow>
             if 32 \<le> keepAliveCount fr then panic_st (IndexOutOfRange (keepAliveCount fr) 32)
             else on_frame (put_kept k))))"

fun for_st :: "('a \<Rightarrow> ('s, 'b) prog) \<Rightarrow> 'a list \<Rightarrow> ('s, 'b list) prog" where
  "for_st f [] = pure_st []"
| "for_st f (x # xs) = bind_st (f x) (\<lambda>y. bind_st (for_st f xs) (\<lambda>ys. pure_st (y # ys)))"

text \<open>
  One element of the variadic slice, its interface already opened: \<open>None\<close> is a nil interface, whose
  value has no type.
\<close>

definition push_variadic :: "'w goffi \<Rightarrow> rvalue option \<Rightarrow> ('w, ffi_type) call_prog" where
  "push_variadic E elem =
     (case elem of
        None \<Rightarrow> panic_st (PanicErr ''reflect: call of reflect.Value.Type on zero Value'')
      | Some v \<Rightarrow>
          bind_st (lift_res (goArgTypeToFfiType (rv_type v))) (\<lambda>t.
          bind_st (push_arg E v) (\<lambda>_. pure_st t)))"

section \<open>Results\<close>

text \<open>
  A Go result: a string, a boolean, the bytes of the result variable, a function variable, or an error
  (\<open>None\<close> is nil).
\<close>

datatype retval = RString "byte list" | RBool bool | RMem "byte list" | RFunc "bound option" | RError "uintptr option"

definition unpackRet :: "target \<Rightarrow> 'w goffi \<Rightarrow> go_type \<Rightarrow> uintptr \<Rightarrow> uintptr \<Rightarrow> ('w gstate, retval) prog" where
  "unpackRet T E t rvalue retVal =
     (let k = Kind t in
      if k = KString then
        bind_st (load_word_st rvalue) (\<lambda>addr.
          if addr = 0 then pure_st (RString [])
          else bind_st (read_st cStringToGoString addr) (\<lambda>s. pure_st (RString s)))
      else if k = KBool then
        bind_st (load_st rvalue 1) (\<lambda>b. pure_st (RBool (b ! 0 \<noteq> 0)))
      else if k \<in> set pointer_kinds then
        bind_st (load_word_st rvalue) (\<lambda>addr.
        bind_st (store_st retVal (le_bytes 8 addr)) (\<lambda>_.
        bind_st (load_st retVal (Size t)) (\<lambda>bs. pure_st (RMem bs))))
      else if k = KFunc then
        bind_st (load_word_st rvalue) (\<lambda>addr.
          if addr = 0 then pure_st (RFunc None)
          else bind_st (RegisterFunc T E (TPointer t) addr) (\<lambda>b. pure_st (RFunc b)))
      else bind_st (load_st retVal (Size t)) (\<lambda>bs. pure_st (RMem bs)))"

text \<open>
  The places of a result: \<open>rvalue\<close>, which the engine writes; the result variable; and the separate
  buffer of a struct.
\<close>

definition retBuf_kinds :: "kind list" where
  "retBuf_kinds = [KString, KBool, KPointer, KUnsafePointer, KFunc, KSlice]"

definition result_places :: "go_type \<Rightarrow> slow_ctx \<Rightarrow> ('w gstate, uintptr \<times> uintptr \<times> uintptr option) prog" where
  "result_places outType ctx =
     bind_st (new_st (replicate (Size outType) 0)) (\<lambda>retVal.
       if Kind outType \<in> set retBuf_kinds then pure_st (sc_addr ctx + 768, retVal, None)
       else if Kind outType = KStruct then
         bind_st (new_st (replicate (Size outType + 7) 0)) (\<lambda>buf. pure_st (buf, retVal, Some buf))
       else pure_st (retVal, retVal, None))"

section \<open>The closure of the reflect path\<close>

definition call_cif :: "'w goffi \<Rightarrow> slow_fn \<Rightarrow> ffi_type list \<Rightarrow> call_interface res" where
  "call_cif E sf actualArgTypes =
     (if sf_isGoVariadic sf then
        (case (if sf_isCVariadic sf
               then PrepareVariadicCallInterface E (sf_convention sf) (length (sf_fixedArgTypes sf)) (sf_retType sf) actualArgTypes
               else PrepareCallInterface E (sf_convention sf) (sf_retType sf) actualArgTypes) of
           (Some err, _) \<Rightarrow> Inl (PanicErr err)
         | (None, cif) \<Rightarrow> Inr cif)
      else Inr (sf_fixedCif sf))"

definition hasActualReturn :: "slow_fn \<Rightarrow> bool" where
  "hasActualReturn sf \<longleftrightarrow> NumOut (sf_type sf) = 2 \<or> NumOut (sf_type sf) = 1 \<and> \<not> sf_hasError sf"

definition pack_all ::
  "'w goffi \<Rightarrow> slow_fn \<Rightarrow> rvalue list \<Rightarrow> rvalue option list \<Rightarrow> ('w, ffi_type list) call_prog" where
  "pack_all E sf args varSlice =
     bind_st (for_st (\<lambda>i. push_arg E (args ! i)) [sf_startIn sf..<sf_fixedIn sf]) (\<lambda>_.
       if sf_isGoVariadic sf
       then bind_st (for_st (push_variadic E) varSlice) (\<lambda>ts. pure_st (sf_fixedArgTypes sf @ ts))
       else pure_st (sf_fixedArgTypes sf))"

text \<open>The pointers handed to the engine: the used part of the context's array.\<close>

definition used_args :: "frame \<Rightarrow> uintptr list" where
  "used_args fr = map (\<lambda>p. case p of Some a \<Rightarrow> a | None \<Rightarrow> 0) (take (ffiArgsCount fr) (ffiArgs (fr_ctx fr)))"

definition engine_call ::
  "'w goffi \<Rightarrow> call_interface \<Rightarrow> uintptr \<Rightarrow> uintptr \<Rightarrow> ('w, unit) call_prog" where
  "engine_call E cif cfn rvalue =
     bind_st get_frame (\<lambda>fr.
     bind_st (outer (call_st E cif cfn rvalue (used_args fr))) (\<lambda>(_, err).
       case err of Some e \<Rightarrow> panic_st (PanicErr e) | None \<Rightarrow> pure_st ()))"

definition copy_struct :: "go_type \<Rightarrow> uintptr \<Rightarrow> uintptr option \<Rightarrow> ('w gstate, unit) prog" where
  "copy_struct outType retVal buf =
     (case buf of
        None \<Rightarrow> pure_st ()
      | Some b \<Rightarrow> bind_st (load_st b (Size outType)) (\<lambda>bs. store_st retVal bs))"

definition error_result :: "target \<Rightarrow> 'w goffi \<Rightarrow> slow_fn \<Rightarrow> uintptr \<Rightarrow> ('w gstate, retval list) prog" where
  "error_result T E sf errPtr =
     (if sf_hasError sf then bind_st (call_error T E errPtr) (\<lambda>e. pure_st [RError e]) else pure_st [])"

text \<open>
  The body in three parts: everything before the native call, the call, and everything after it. A
  function without a result passes a null \<open>rvalue\<close>.
\<close>

definition slow_prepare ::
  "target \<Rightarrow> 'w goffi \<Rightarrow> slow_fn \<Rightarrow> rvalue list \<Rightarrow> rvalue option list \<Rightarrow>
     ('w, uintptr \<times> call_interface \<times> uintptr \<times> uintptr \<times> uintptr option) call_prog" where
  "slow_prepare T E sf args varSlice =
     bind_st (if sf_hasError sf then outer (clear_error T E) else pure_st 0) (\<lambda>errPtr.
     bind_st (pack_all E sf args varSlice) (\<lambda>actualArgTypes.
     bind_st (lift_res (call_cif E sf actualArgTypes)) (\<lambda>cif.
     bind_st get_frame (\<lambda>fr.
       if hasActualReturn sf
       then bind_st (outer (result_places (func_outs (sf_type sf) ! 0) (fr_ctx fr))) (\<lambda>places.
              pure_st (errPtr, cif, places))
       else pure_st (errPtr, cif, 0, 0, None)))))"

definition slow_finish ::
  "target \<Rightarrow> 'w goffi \<Rightarrow> slow_fn \<Rightarrow> uintptr \<Rightarrow> uintptr \<times> uintptr \<times> uintptr option \<Rightarrow> ('w gstate, retval list) prog" where
  "slow_finish T E sf errPtr places =
     (case places of (rvalue, retVal, buf) \<Rightarrow>
        if hasActualReturn sf then
          bind_st (copy_struct (func_outs (sf_type sf) ! 0) retVal buf) (\<lambda>_.
          bind_st (error_result T E sf errPtr) (\<lambda>errs.
          bind_st (unpackRet T E (func_outs (sf_type sf) ! 0) rvalue retVal) (\<lambda>r. pure_st (r # errs))))
        else error_result T E sf errPtr)"

definition slow_body ::
  "target \<Rightarrow> 'w goffi \<Rightarrow> slow_fn \<Rightarrow> rvalue list \<Rightarrow> rvalue option list \<Rightarrow> ('w, retval list) call_prog" where
  "slow_body T E sf args varSlice =
     bind_st (slow_prepare T E sf args varSlice) (\<lambda>(errPtr, cif, places).
     bind_st (engine_call E cif (sf_cfn sf) (fst places)) (\<lambda>_.
       outer (slow_finish T E sf errPtr places)))"

text \<open>
  The deferred functions: unlock the thread if it was locked, then clear the used part of
  \<open>keepAlive\<close> and put the context back. They run on every path, panics included.
\<close>

definition clear_kept :: "frame \<Rightarrow> slow_ctx" where
  "clear_kept fr = (fr_ctx fr)\<lparr>keepAlive :=
     foldl (\<lambda>ks i. ks[i := None]) (keepAlive (fr_ctx fr)) [0..<keepAliveCount fr]\<rparr>"

definition locked :: "bool \<Rightarrow> ('w, 'a) call_prog \<Rightarrow> ('w, 'a) call_prog" where
  "locked hasError p =
     (if hasError
      then (\<lambda>(s, fr). defer_st (\<lambda>(s, fr). (s\<lparr>lockDepth := lockDepth s - 1\<rparr>, fr)) p (s\<lparr>lockDepth := lockDepth s + 1\<rparr>, fr))
      else p)"

definition slow_call ::
  "target \<Rightarrow> 'w goffi \<Rightarrow> slow_fn \<Rightarrow> rvalue list \<Rightarrow> rvalue option list \<Rightarrow> ('w gstate, retval list) prog" where
  "slow_call T E sf args varSlice = (\<lambda>s.
     case slow_pool_get (slowCallPool s) (gmem s) of
       Inl e \<Rightarrow> (Inl e, s)
     | Inr (ctx, rest, m) \<Rightarrow>
         (case locked (sf_hasError sf) (slow_body T E sf args varSlice)
                 (s\<lparr>gmem := m, slowCallPool := rest\<rparr>, \<lparr>fr_ctx = ctx, keepAliveCount = 0, ffiArgsCount = 0\<rparr>) of
            (r, (s', fr)) \<Rightarrow> (r, s'\<lparr>slowCallPool := clear_kept fr # slowCallPool s'\<rparr>)))"

section \<open>Callbacks\<close>

definition is_marker :: "go_type \<Rightarrow> bool" where
  "is_marker t \<longleftrightarrow> t = CDecl \<or> t = Variadic"

definition NewCallback :: "'w goffi \<Rightarrow> go_type \<Rightarrow> closure \<Rightarrow> ('w gstate, uintptr) prog" where
  "NewCallback E ty fn =
     (if Kind ty \<noteq> KFunc then panic_st (PanicMsg ''purego: fn must be a function'')
      else let hasMarker = (0 < NumIn ty \<and> is_marker (func_ins ty ! 0)) in
        if \<not> hasMarker then on_mem (ffi_NewCallback E ty fn)
        else let newTy = TFunc (map (\<lambda>i. func_ins ty ! i) [1..<NumIn ty])
                    (map (\<lambda>i. func_outs ty ! i) [0..<NumOut ty]) (IsVariadic ty)
             in on_mem (ffi_NewCallback E newTy (MarkerWrapper ty fn)))"

text \<open>The arguments with which the wrapper calls the original function.\<close>

definition wrapper_args :: "go_type \<Rightarrow> rvalue list \<Rightarrow> rvalue list" where
  "wrapper_args marker args =
     (let realArgs = replicate (length args + 1) \<lparr>rv_type = marker, rv_val = GMem [], rv_addr = None\<rparr>
      in take 1 realArgs @ args)"

section \<open>The pool of contexts\<close>

lemma slow_news: "news slow_ctx_size sc_addr new_slow_ctx"
  unfolding news_def
proof (intro conjI allI impI)
  fix m :: "'a mem"
  assume "mbrk m + slow_ctx_size < heap_limit"
  then show "\<exists>ctx m'. new_slow_ctx m = Inr (ctx, m')"
    by (simp add: new_slow_ctx_def gnew_def)
next
  fix m m' :: "'a mem" and ctx
  assume "new_slow_ctx m = Inr (ctx, m')"
  then have g: "gnew (replicate slow_ctx_size 0) m = Inr (sc_addr ctx, m')"
    by (auto simp: new_slow_ctx_def res_simps)
  have "0 < slow_ctx_size"
    by (simp add: slow_ctx_size_def)
  then show "mem_ext m m'" "unat (sc_addr ctx) = mbrk m" "mbrk m' = mbrk m + slow_ctx_size"
    "mbrk m' \<le> heap_limit" "mapped m' (sc_addr ctx) slow_ctx_size"
    using gnew_block [OF g] gnew_spec(1) [OF g] by simp_all
qed

interpretation slow_pool: context_pool slow_pool_get sc_addr slow_ctx_size
  unfolding slow_pool_get_def
  by standard (rule pool_get_total [OF slow_news], assumption, rule pool_get_ok [OF slow_news])

text \<open>A context in the pool refers to no Go object through \<open>keepAlive\<close>.\<close>

definition ctx_clean :: "slow_ctx \<Rightarrow> bool" where
  "ctx_clean c \<longleftrightarrow> keepAlive c = replicate 32 None \<and> length (ffiArgs c) = 32"

text \<open>
  The invariant of a call in progress: the counts are within the arrays, the used pointers are set,
  and \<open>keepAlive\<close> is clear from its count on.
\<close>

definition frame_ok :: "frame \<Rightarrow> bool" where
  "frame_ok fr \<longleftrightarrow> length (keepAlive (fr_ctx fr)) = 32 \<and> length (ffiArgs (fr_ctx fr)) = 32 \<and>
     keepAliveCount fr \<le> 32 \<and> ffiArgsCount fr \<le> 32 \<and>
     (\<forall>i. keepAliveCount fr \<le> i \<and> i < 32 \<longrightarrow> keepAlive (fr_ctx fr) ! i = None)"

lemma frame_ok_start: "ctx_clean c \<Longrightarrow> frame_ok \<lparr>fr_ctx = c, keepAliveCount = 0, ffiArgsCount = 0\<rparr>"
  by (simp add: ctx_clean_def frame_ok_def)

lemma frame_ok_put_ffi_arg: "frame_ok fr \<Longrightarrow> ffiArgsCount fr < 32 \<Longrightarrow> frame_ok (put_ffi_arg p fr)"
  by (simp add: frame_ok_def put_ffi_arg_def)

lemma frame_ok_put_kept: "frame_ok fr \<Longrightarrow> keepAliveCount fr < 32 \<Longrightarrow> frame_ok (put_kept k fr)"
  by (auto simp: frame_ok_def put_kept_def)

lemma clear_kept_clean:
  assumes "frame_ok fr"
  shows "ctx_clean (clear_kept fr)"
proof -
  let ?ks = "keepAlive (fr_ctx fr)" and ?n = "keepAliveCount fr"
  have ok: "length ?ks = 32" "?n \<le> 32" "length (ffiArgs (fr_ctx fr)) = 32"
    "\<forall>i. ?n \<le> i \<and> i < 32 \<longrightarrow> ?ks ! i = None"
    using assms by (auto simp: frame_ok_def)
  have "foldl (\<lambda>ks i. ks[i := None]) ?ks [0..<?n] = map (\<lambda>_. None) [0..<?n] @ drop ?n ?ks"
    using ok by (simp add: array_simps)
  also have "\<dots> = replicate 32 None"
    by (rule nth_equalityI) (use ok in \<open>auto simp: nth_append\<close>)
  finally show ?thesis
    using ok by (simp add: ctx_clean_def clear_kept_def)
qed

section \<open>What every path of a call keeps\<close>

text \<open>
  A property of the shared state that the elementary effects keep (allocations, stores, native calls,
  new callbacks, the lazily found functions) is kept by registration and by every path of a call,
  panics included. What the users of this interface choose is the property.
\<close>

locale call_invariant =
  fixes I :: "'w gstate \<Rightarrow> bool" and E :: "'w goffi"
  assumes step_new: "keeps I (new_st bs)"
    and step_store: "keeps I (store_st a bs)"
    and step_call: "keeps I (call_st E cif fn rv args)"
    and step_callback: "keeps I (on_mem (ffi_NewCallback E t f))"
    and step_last_error: "keeps I (on_mem (\<lambda>m. Inr ((), SetLastError E e m)))"
    and step_errno: "I s \<Longrightarrow> I (errno_lazy_update g s)"
    and step_dladdr: "I s \<Longrightarrow> I (dladdr_lazy_update g s)"
begin

lemmas steps = keeps_intros step_new step_store step_call step_callback step_last_error

lemma keeps_modify: "(\<And>s. I s \<Longrightarrow> I (f s)) \<Longrightarrow> keeps I (modify_st f)"
  by (simp add: keeps_def)

lemma keeps_errnoOnce: "keeps I (modify_st (errnoOnce T E))"
  by (rule keeps_modify)
    (simp add: errnoOnce_def once_lazy_def initErrno_def Let_def step_errno split: sum.split)

lemma keeps_dladdrOnce: "keeps I (modify_st (dladdrOnce T E))"
  by (rule keeps_modify)
    (simp add: dladdrOnce_def once_lazy_def initDladdr_def step_dladdr split: sum.split)

lemma keeps_clear_error: "keeps I (clear_error T E)"
  unfolding clear_error_def clrAndGetErrno_windows_def clrAndGetErrno_def getErrnoPtr_def
  by (auto intro!: steps keeps_errnoOnce)

lemma keeps_read_last_error: "keeps I (on_mem (\<lambda>m. Inr (GetLastError E m, m)))"
  by (simp add: keeps_def on_mem_def lift_st_def)

lemma keeps_call_error: "keeps I (call_error T E p)"
  unfolding call_error_def getErr_windows_def getErr_def Let_def
  by (auto intro!: steps keeps_read_last_error)

lemma keeps_symbol_name: "keeps I (symbol_name T E a)"
  unfolding symbol_name_def getSymbolName_def
  by (auto intro!: steps keeps_dladdrOnce)

lemma keeps_lift_res: "keeps J (lift_res r)"
  by (simp add: lift_res_def keeps_intros split: sum.split)

lemma keeps_RegisterFunc: "keeps I (RegisterFunc T E t a)"
  unfolding RegisterFunc_def resolve_variadic_def
  by (auto simp: Let_def split: go_type.split prod.split
      intro!: keeps_intros keeps_symbol_name keeps_lift_res)

lemma keeps_unpackRet: "keeps I (unpackRet T E t rv r)"
  unfolding unpackRet_def by (auto simp: Let_def intro!: steps keeps_RegisterFunc)

lemma keeps_slow_finish: "keeps I (slow_finish T E sf e p)"
  unfolding slow_finish_def copy_struct_def error_result_def
  by (auto split: prod.split option.split intro!: steps keeps_call_error keeps_unpackRet)

end

text \<open>The same with the variables of the call: the context stays the same, its arrays well-formed.\<close>

definition call_inv :: "('w gstate \<Rightarrow> bool) \<Rightarrow> uintptr \<Rightarrow> 'w gstate \<times> frame \<Rightarrow> bool" where
  "call_inv I c = (\<lambda>(s, fr). I s \<and> frame_ok fr \<and> sc_addr (fr_ctx fr) = c)"

lemma keeps_outer: "keeps I p \<Longrightarrow> keeps (call_inv I c) (outer p)"
  unfolding keeps_def call_inv_def outer_def by (auto split: prod.split)

lemma keeps_get_frame: "keeps I get_frame"
  by (auto simp: keeps_def get_frame_def)

lemma keeps_for_st: "(\<And>x. keeps I (f x)) \<Longrightarrow> keeps I (for_st f xs)"
  by (induction xs) (simp_all add: keeps_intros)

lemma push_arg_run:
  "push_arg E v (s, fr) =
     (case packArg E v s of
        (Inl e, s') \<Rightarrow> (Inl e, (s', fr))
      | (Inr (ptr, kept), s') \<Rightarrow>
          if 32 \<le> ffiArgsCount fr then (Inl (IndexOutOfRange (ffiArgsCount fr) 32), (s', fr))
          else case kept of
            None \<Rightarrow> (Inr (), (s', put_ffi_arg ptr fr))
          | Some k \<Rightarrow>
              if 32 \<le> keepAliveCount fr
              then (Inl (IndexOutOfRange (keepAliveCount fr) 32), (s', put_ffi_arg ptr fr))
              else (Inr (), (s', put_kept k (put_ffi_arg ptr fr))))"
  by (auto simp: push_arg_def bind_st_def outer_def get_frame_def on_frame_def split: prod.split sum.split option.split)

lemma sc_addr_put [simp]: "sc_addr (fr_ctx (put_ffi_arg p fr)) = sc_addr (fr_ctx fr)"
  "sc_addr (fr_ctx (put_kept k fr)) = sc_addr (fr_ctx fr)"
  by (simp_all add: put_ffi_arg_def put_kept_def)

lemma keeps_push_arg:
  assumes "keeps I (packArg E v)"
  shows "keeps (call_inv I c) (push_arg E v)"
  unfolding keeps_def
proof (intro allI impI)
  fix x :: "'a gstate \<times> frame" assume inv: "call_inv I c x"
  obtain s fr where x: "x = (s, fr)" by (cases x)
  obtain r s' where p: "packArg E v s = (r, s')" by (cases "packArg E v s")
  have "I s'" "frame_ok fr" "sc_addr (fr_ctx fr) = c"
    using keeps_run [OF assms, of s] inv p by (simp_all add: x call_inv_def)
  moreover from this have "frame_ok (put_ffi_arg q fr)" if "ffiArgsCount fr < 32" for q
    using frame_ok_put_ffi_arg that by blast
  moreover from this have "frame_ok (put_kept k (put_ffi_arg q fr))"
    if "ffiArgsCount fr < 32" "keepAliveCount fr < 32" for q k
    using frame_ok_put_kept [of "put_ffi_arg q fr" k] that by (simp add: put_ffi_arg_def)
  ultimately show "call_inv I c (snd (push_arg E v x))"
    by (auto simp: x push_arg_run p call_inv_def split: prod.split sum.split option.split)
qed

context call_invariant
begin

lemma keeps_prepare: "keeps (call_inv I c) (slow_prepare T E sf args vs)"
  unfolding slow_prepare_def pack_all_def push_variadic_def result_places_def
  by (auto intro!: keeps_intros keeps_outer keeps_get_frame keeps_for_st keeps_push_arg keeps_packArg
      keeps_lift_res step_new step_callback keeps_clear_error split: option.split)

lemma keeps_body: "keeps (call_inv I c) (slow_body T E sf args vs)"
  unfolding slow_body_def engine_call_def
  by (auto intro!: keeps_intros keeps_outer keeps_get_frame keeps_prepare keeps_slow_finish step_call
      split: prod.split option.split)

lemma body_inv:
  assumes "slow_body T E sf args vs (s, fr) = (r, (s', fr'))" "I s" "frame_ok fr"
  shows "I s' \<and> frame_ok fr' \<and> sc_addr (fr_ctx fr') = sc_addr (fr_ctx fr)"
  using keeps_run [OF keeps_body [of "sc_addr (fr_ctx fr)"], of "(s, fr)" T sf args vs] assms
  by (simp add: call_inv_def)

end

text \<open>
  Properties of the state that do not speak of memory or of the lazily found functions are such
  invariants for every engine: which contexts are pooled, and how often the thread is locked.
\<close>

definition robust :: "('w gstate \<Rightarrow> bool) \<Rightarrow> bool" where
  "robust I \<longleftrightarrow> (\<forall>s f. I s \<longrightarrow> I (gmem_update f s)) \<and> (\<forall>s f. I s \<longrightarrow> I (errno_lazy_update f s)) \<and>
     (\<forall>s f. I s \<longrightarrow> I (dladdr_lazy_update f s))"

lemma robust_invariant:
  assumes "robust I"
  shows "call_invariant I E"
proof
  have mem: "I s \<Longrightarrow> I (s\<lparr>gmem := m\<rparr>)" for s m
    using assms by (simp add: robust_def)
  show "keeps I (new_st bs)" "keeps I (store_st a bs)" "keeps I (call_st E cif fn rv args)" for bs a cif fn rv args
    using keeps_mem_steps [of I] mem by blast+
  show "keeps I (on_mem (ffi_NewCallback E t f))" "keeps I (on_mem (\<lambda>m. Inr ((), SetLastError E e m)))" for t f e
    using keeps_on_mem [of I] mem by blast+
qed (use assms in \<open>simp_all add: robust_def\<close>)

interpretation bookkeeping: call_invariant "\<lambda>s. slowCallPool s = pool \<and> lockDepth s = depth" E
  by (rule robust_invariant) (simp add: robust_def)

text \<open>
  Memory stays mapped and the heap in its region, if the engine respects that.
\<close>

definition mapped_since :: "'w goffi \<Rightarrow> 'w mem \<Rightarrow> 'w gstate \<Rightarrow> bool" where
  "mapped_since E m s \<longleftrightarrow> (keeps_heap E \<and> callbacks_extend E \<longrightarrow> grows m (gmem s))"

lemma keeps_mapped_since:
  assumes "\<And>m x m'. keeps_heap E \<Longrightarrow> callbacks_extend E \<Longrightarrow> f m = Inr (x, m') \<Longrightarrow> grows m m'"
  shows "keeps (mapped_since E m0) (on_mem f)"
  unfolding keeps_def
proof (intro allI impI)
  fix s assume s: "mapped_since E m0 s"
  show "mapped_since E m0 (snd (on_mem f s))"
  proof (cases "f (gmem s)")
    case (Inl e)
    then show ?thesis
      using s by (simp add: on_mem_Inl)
  next
    case (Inr r)
    then show ?thesis
      using s assms [of "gmem s" "fst r" "snd r"] grows_trans
      by (cases r) (auto simp: on_mem_Inr mapped_since_def)
  qed
qed

interpretation mapping: call_invariant "mapped_since E m" E
proof
  show "keeps (mapped_since E m) (new_st bs)" for bs
    unfolding new_st_def by (rule keeps_mapped_since) (rule grows_gnew)
  show "keeps (mapped_since E m) (store_st a bs)" for a bs
    unfolding store_st_def by (rule keeps_mapped_since) (auto simp: res_simps intro: grows_store)
  show "keeps (mapped_since E m) (call_st E cif fn rv args)" for cif fn rv args
    unfolding call_st_def by (rule keeps_mapped_since) (auto split: prod.splits intro: keeps_heap_call)
  show "keeps (mapped_since E m) (on_mem (ffi_NewCallback E t f))" for t f
    by (rule keeps_mapped_since) (auto simp: callbacks_extend_def)
  show "keeps (mapped_since E m) (on_mem (\<lambda>m. Inr ((), SetLastError E e m)))" for e
    by (rule keeps_mapped_since) (auto simp: keeps_heap_def)
qed (simp_all add: mapped_since_def)

text \<open>The body of a call with its deferred unlocking.\<close>

lemma locked_body_inv:
  assumes run: "locked b (slow_body T E sf args vs) (s, fr) = (r, (s', fr'))" and ok: "frame_ok fr"
  shows "frame_ok fr' \<and> slowCallPool s' = slowCallPool s \<and> lockDepth s' = lockDepth s \<and>
    sc_addr (fr_ctx fr') = sc_addr (fr_ctx fr) \<and>
    (keeps_heap E \<longrightarrow> callbacks_extend E \<longrightarrow> grows (gmem s) (gmem s'))"
proof (cases b)
  case True
  then obtain s1 where b: "slow_body T E sf args vs (s\<lparr>lockDepth := lockDepth s + 1\<rparr>, fr) = (r, (s1, fr'))"
    and s': "s' = s1\<lparr>lockDepth := lockDepth s1 - 1\<rparr>"
    using run by (auto simp: locked_def defer_st_def split: prod.splits)
  from bookkeeping.body_inv [OF b, of "slowCallPool s" "lockDepth s + 1"] mapping.body_inv [OF b, of "gmem s"] ok
  show ?thesis
    by (simp add: s' mapped_since_def)
next
  case False
  then have b: "slow_body T E sf args vs (s, fr) = (r, (s', fr'))"
    using run by (simp add: locked_def)
  from bookkeeping.body_inv [OF b, of "slowCallPool s" "lockDepth s"] mapping.body_inv [OF b, of "gmem s"] ok
  show ?thesis
    by (simp add: mapped_since_def)
qed

definition slow_pool_clean :: "'w gstate \<Rightarrow> bool" where
  "slow_pool_clean s \<longleftrightarrow> (\<forall>c\<in>set (slowCallPool s). ctx_clean c)"

lemma slow_pool_get_clean:
  assumes "slow_pool_get pool m = Inr (ctx, rest, m')" "\<forall>c\<in>set pool. ctx_clean c"
  shows "ctx_clean ctx" "\<forall>c\<in>set rest. ctx_clean c"
  using assms by (auto simp: slow_pool_get_def pool_get_def new_slow_ctx_def res_simps ctx_clean_def
      split: list.splits)

lemma slow_call_keeps:
  assumes "slow_pool_clean s" "slow_call T E sf args vs s = (r, s')"
  shows "slow_pool_clean s' \<and> lockDepth s' = lockDepth s \<and>
    (slowCallPool s \<noteq> [] \<longrightarrow> length (slowCallPool s') = length (slowCallPool s))"
proof (cases "slow_pool_get (slowCallPool s) (gmem s)")
  case (Inl e)
  then show ?thesis
    using assms by (simp add: slow_call_def)
next
  case (Inr g)
  obtain ctx rest m where g: "slow_pool_get (slowCallPool s) (gmem s) = Inr (ctx, rest, m)"
    using Inr by (cases g) auto
  let ?s = "s\<lparr>gmem := m, slowCallPool := rest\<rparr>"
  obtain s1 fr where body: "locked (sf_hasError sf) (slow_body T E sf args vs)
      (?s, \<lparr>fr_ctx = ctx, keepAliveCount = 0, ffiArgsCount = 0\<rparr>) = (r, (s1, fr))"
    and s': "s' = s1\<lparr>slowCallPool := clear_kept fr # slowCallPool s1\<rparr>"
    using assms(2) by (auto simp: slow_call_def g split: prod.splits)
  have clean: "ctx_clean ctx" "\<forall>c\<in>set rest. ctx_clean c"
    using slow_pool_get_clean [OF g] assms(1) by (auto simp: slow_pool_clean_def)
  have inv: "frame_ok fr" "slowCallPool s1 = rest" "lockDepth s1 = lockDepth s"
    using locked_body_inv [OF body frame_ok_start [OF clean(1)]] by auto
  moreover have "slowCallPool s \<noteq> [] \<longrightarrow> Suc (length rest) = length (slowCallPool s)"
    using g by (auto simp: slow_pool_get_def pool_get_def split: list.splits)
  ultimately show ?thesis
    using clean clear_kept_clean by (auto simp: s' slow_pool_clean_def)
qed

text \<open>
  The pool in memory: every context clean, mapped and apart from the others. A call whose engine
  unmaps nothing keeps that, whether it returns or panics.
\<close>

definition slow_pool_ok :: "'w gstate \<Rightarrow> bool" where
  "slow_pool_ok s \<longleftrightarrow> slow_pool_clean s \<and> pool_ok slow_ctx_size (gmem s) (map sc_addr (slowCallPool s)) \<and> 0 < mbrk (gmem s)"

lemma slow_call_pool_ok:
  assumes ok: "slow_pool_ok s" and E: "keeps_heap E" "callbacks_extend E"
    and run: "slow_call T E sf args vs s = (r, s')"
  shows "slow_pool_ok s' \<and> grows (gmem s) (gmem s')"
proof (cases "slow_pool_get (slowCallPool s) (gmem s)")
  case (Inl e)
  then show ?thesis
    using ok run by (simp add: slow_call_def)
next
  case (Inr g)
  obtain ctx rest m where g: "slow_pool_get (slowCallPool s) (gmem s) = Inr (ctx, rest, m)"
    using Inr by (cases g) auto
  let ?s = "s\<lparr>gmem := m, slowCallPool := rest\<rparr>" and ?fr = "\<lparr>fr_ctx = ctx, keepAliveCount = 0, ffiArgsCount = 0\<rparr>"
  obtain s1 fr where body: "locked (sf_hasError sf) (slow_body T E sf args vs) (?s, ?fr) = (r, (s1, fr))"
    and s': "s' = s1\<lparr>slowCallPool := clear_kept fr # slowCallPool s1\<rparr>"
    using run by (auto simp: slow_call_def g split: prod.splits)
  have pool: "slow_pool_clean s" "pool_ok slow_ctx_size (gmem s) (map sc_addr (slowCallPool s))" "0 < mbrk (gmem s)"
    using ok by (simp_all add: slow_pool_ok_def)
  have clean: "ctx_clean ctx"
    using slow_pool_get_clean(1) [OF g] pool(1) by (simp add: slow_pool_clean_def)
  note inv = locked_body_inv [OF body frame_ok_start [OF clean]]
  have "grows m (gmem s1)"
    using inv E by simp
  moreover have "pool_ok slow_ctx_size m (map sc_addr (ctx # rest))"
    using slow_pool.get_ok [of "gmem s" "[]", OF _ g] pool(2) by simp
  ultimately have after: "pool_ok slow_ctx_size (gmem s1) (map sc_addr (ctx # rest))"
    by (rule pool_ok_grows [rotated])
  have "grows (gmem s) m"
  proof (cases "slowCallPool s")
    case Nil
    then obtain c where "gnew (replicate slow_ctx_size 0) (gmem s) = Inr (c, m)"
      using g by (auto simp: slow_pool_get_def pool_get_def new_slow_ctx_def res_simps)
    then show ?thesis
      by (rule grows_gnew)
  next
    case (Cons c cs)
    then show ?thesis
      using g by (simp add: slow_pool_get_def pool_get_def)
  qed
  then have grows: "grows (gmem s) (gmem s1)"
    using \<open>grows m (gmem s1)\<close> by (rule grows_trans)
  then have "0 < mbrk (gmem s1)"
    using pool(3) by (simp add: grows_def)
  moreover have "sc_addr (clear_kept fr) = sc_addr ctx" "slowCallPool s1 = rest"
    using inv by (simp_all add: clear_kept_def)
  ultimately show ?thesis
    using slow_call_keeps [OF pool(1) run] after grows by (simp add: slow_pool_ok_def s')
qed

section \<open>Properties\<close>

text \<open>
  Property C3. However a call through the reflect path ends, with a result or with a panic at any
  point, the goroutine is locked to its thread as often as before, the context is back in the pool,
  and every entry of \<open>keepAlive\<close> of a context in the pool is nil (the entries of \<open>ffiArgs\<close> are not cleared). If the engine unmaps nothing, the pooled
  contexts are still mapped and apart from each other, so that calls may nest or run side by side.
\<close>

theorem slow_call_restores:
  assumes "slow_pool_clean s" "slow_call T E sf args vs s = (r, s')"
  shows "slow_pool_clean s' \<and> lockDepth s' = lockDepth s \<and>
    (slowCallPool s \<noteq> [] \<longrightarrow> length (slowCallPool s') = length (slowCallPool s)) \<and>
    (slow_pool_ok s \<longrightarrow> keeps_heap E \<longrightarrow> callbacks_extend E \<longrightarrow>
       pool_ok slow_ctx_size (gmem s') (map sc_addr (slowCallPool s')))"
  using slow_call_keeps [OF assms] slow_call_pool_ok [OF _ _ _ assms(2)] by (auto simp: slow_pool_ok_def)

definition puts_fn :: slow_fn where
  "puts_fn = \<lparr>sf_type = TFunc [TPrim PString] [TPrim PInt32] False, sf_cfn = 64, sf_convention = DefaultCall,
     sf_startIn = 0, sf_fixedIn = 1, sf_hasError = False, sf_isGoVariadic = False, sf_isCVariadic = False,
     sf_fixedArgTypes = [PointerTypeDescriptor], sf_retType = SInt32TypeDescriptor,
     sf_fixedCif = zero_cif\<lparr>ArgTypes := [PointerTypeDescriptor], cif_ret := SInt32TypeDescriptor\<rparr>\<rparr>"

lemma start_state_clean: "slow_pool_clean (start_state m)"
  by (simp add: slow_pool_clean_def start_state_def)

theorem slow_call_restores_witness:
  "\<exists>r s'. slow_call \<lparr>GOOS = Linux, GOARCH = AMD64\<rparr> idle_engine puts_fn [text_arg] [] (start_state text_mem) = (r, s') \<and>
     slow_pool_clean s' \<and> lockDepth s' = 0"
proof -
  obtain r s' where run: "slow_call \<lparr>GOOS = Linux, GOARCH = AMD64\<rparr> idle_engine puts_fn [text_arg] []
      (start_state text_mem) = (r, s')"
    by fastforce
  with slow_call_restores [OF start_state_clean run] show ?thesis
    by (auto simp: start_state_def)
qed

end
