(* ===== verification/SlowPath.thy ===== *)
theory SlowPath
  imports RegisterFn
begin

text \<open>
  What the reflect path of \<open>RegisterFunc\<close> passes to native code and makes of its result: the
  arguments at the moment of the call, the interface they are described by, and the conversion of
  the returned value.
\<close>

section \<open>Arguments in place\<close>

text \<open>
  \<open>delivered s fr vs\<close>: the context of the call has one pointer per packed value, and native code
  finds the C form of each value behind its pointer.
\<close>

definition delivered :: "'w gstate \<Rightarrow> frame \<Rightarrow> rvalue list \<Rightarrow> bool" where
  "delivered s fr vs \<longleftrightarrow> frame_ok fr \<and> ffiArgsCount fr = length vs \<and> keepAliveCount fr = length vs \<and>
     list_all2 (passes (gmem s)) vs (used_args fr)"

lemma delivered_start:
  "ctx_clean c \<Longrightarrow> delivered s \<lparr>fr_ctx = c, keepAliveCount = 0, ffiArgsCount = 0\<rparr> []"
  using frame_ok_start [of c] by (simp add: delivered_def used_args_def)

lemma used_args_put:
  assumes "frame_ok fr" "ffiArgsCount fr < 32"
  shows "used_args (put_kept k (put_ffi_arg p fr)) = used_args fr @ [p]"
proof -
  have len: "length (ffiArgs (fr_ctx fr)) = 32"
    using assms(1) by (simp add: frame_ok_def)
  have "take (Suc (ffiArgsCount fr)) ((ffiArgs (fr_ctx fr))[ffiArgsCount fr := Some p]) =
      take (ffiArgsCount fr) (ffiArgs (fr_ctx fr)) @ [Some p]"
    using len assms(2) by (simp add: take_Suc_conv_app_nth)
  then show ?thesis
    by (simp add: used_args_def put_kept_def put_ffi_arg_def)
qed

lemma push_arg_delivered:
  assumes cb: "callbacks_extend E" and ok: "value_ok (gmem s) v" "0 < mbrk (gmem s)"
    and del: "delivered s fr vs" and run: "push_arg E v (s, fr) = (Inr u, (s', fr'))"
  shows "delivered s' fr' (vs @ [v]) \<and> extends s s'"
proof -
  have "packArg E v s = (fst (packArg E v s), snd (packArg E v s))"
    by simp
  then obtain p k where pk: "packArg E v s = (Inr (p, k), s')" and n: "ffiArgsCount fr < 32"
    using run by (auto simp: push_arg_run split: prod.splits sum.splits if_splits option.splits)
  from packArg_ok [OF cb ok pk] obtain kp where ex: "extends s s'" and ps: "passes (gmem s') v p" and k: "k = Some kp"
    by auto
  have fr': "fr' = put_kept kp (put_ffi_arg p fr)"
    using run n by (simp add: push_arg_run pk k split: if_splits)
  have fok: "frame_ok fr" and cnt: "ffiArgsCount fr = length vs" "keepAliveCount fr = length vs"
    and prev: "list_all2 (passes (gmem s)) vs (used_args fr)"
    using del by (auto simp: delivered_def)
  have "frame_ok fr'"
    using frame_ok_put_kept [OF frame_ok_put_ffi_arg [OF fok n], of p kp] n cnt
    by (simp add: fr' put_ffi_arg_def)
  moreover have "list_all2 (passes (gmem s')) vs (used_args fr)"
    using prev by (rule list_all2_mono) (use ex passes_mem_ext in \<open>auto simp: extends_def\<close>)
  then have "list_all2 (passes (gmem s')) (vs @ [v]) (used_args fr')"
    unfolding fr' used_args_put [OF fok n] by (rule list_all2_appendI) (simp add: ps)
  ultimately show ?thesis
    using ex cnt by (simp add: delivered_def fr' put_kept_def put_ffi_arg_def)
qed

lemma extends_brk: "extends s s' \<Longrightarrow> 0 < mbrk (gmem s) \<Longrightarrow> 0 < mbrk (gmem s')"
  by (auto simp: extends_def mem_ext_def)

lemma extends_value_ok: "extends s s' \<Longrightarrow> value_ok (gmem s) v \<Longrightarrow> value_ok (gmem s') v"
  by (auto simp: extends_def intro: value_ok_mem_ext)

text \<open>Loops of packing steps, for the fixed arguments and for the variadic ones.\<close>

lemma for_st_delivered:
  assumes step: "\<And>x s fr vs r s' fr'. x \<in> set xs \<Longrightarrow> value_ok (gmem s) (val x) \<Longrightarrow> 0 < mbrk (gmem s) \<Longrightarrow>
      delivered s fr vs \<Longrightarrow> f x (s, fr) = (Inr r, (s', fr')) \<Longrightarrow> delivered s' fr' (vs @ [val x]) \<and> extends s s' \<and> R x r"
    and "\<forall>x\<in>set xs. value_ok (gmem s) (val x)" "0 < mbrk (gmem s)" "delivered s fr vs"
      "for_st f xs (s, fr) = (Inr rs, (s', fr'))"
  shows "delivered s' fr' (vs @ map val xs) \<and> extends s s' \<and> list_all2 R xs rs"
  using assms
proof (induction xs arbitrary: s fr vs rs)
  case Nil
  then show ?case by simp
next
  case (Cons x xs)
  obtain r s1 fr1 rs' where r: "f x (s, fr) = (Inr r, (s1, fr1))"
    and rs': "for_st f xs (s1, fr1) = (Inr rs', (s', fr'))" and rs: "rs = r # rs'"
    using Cons.prems(5) by (auto simp: st_simps)
  have 1: "delivered s1 fr1 (vs @ [val x]) \<and> extends s s1 \<and> R x r"
    using Cons.prems(1) [OF _ _ Cons.prems(3,4) r] Cons.prems(2) by simp
  have ok: "\<forall>x\<in>set xs. value_ok (gmem s1) (val x)" "0 < mbrk (gmem s1)" "delivered s1 fr1 (vs @ [val x])"
    using Cons.prems(2,3) 1 extends_value_ok [of s s1] extends_brk [of s s1] by auto
  have "delivered s' fr' ((vs @ [val x]) @ map val xs) \<and> extends s1 s' \<and> list_all2 R xs rs'"
    by (rule Cons.IH [OF _ ok rs']) (rule Cons.prems(1), simp_all)
  then show ?case
    using 1 extends_trans [of s s1 s'] by (auto simp: rs)
qed

section \<open>What a call passes\<close>

text \<open>The arguments in C order: the fixed ones after the marker, then the variadic ones.\<close>

definition passed_args :: "slow_fn \<Rightarrow> rvalue list \<Rightarrow> rvalue option list \<Rightarrow> rvalue list" where
  "passed_args sf args varSlice =
     map (\<lambda>i. args ! i) [sf_startIn sf..<sf_fixedIn sf] @
     (if sf_isGoVariadic sf then map the varSlice else [])"

lemma pack_all_delivered:
  assumes cb: "callbacks_extend E" and ok: "\<forall>v\<in>set (passed_args sf args vars). value_ok (gmem s) v"
    and brk: "0 < mbrk (gmem s)" and del: "delivered s fr []"
    and run: "pack_all E sf args vars (s, fr) = (Inr ts, (s', fr'))"
  shows "delivered s' fr' (passed_args sf args vars) \<and> extends s s' \<and>
    (\<exists>us. ts = sf_fixedArgTypes sf @ us \<and>
       (if sf_isGoVariadic sf
        then list_all2 (\<lambda>e t. \<exists>v. e = Some v \<and> goArgTypeToFfiType (rv_type v) = Inr t) vars us else us = []))"
proof -
  let ?fixed = "[sf_startIn sf..<sf_fixedIn sf]"
  obtain us s1 fr1 where fx: "for_st (\<lambda>i. push_arg E (args ! i)) ?fixed (s, fr) = (Inr us, (s1, fr1))"
    and rest: "(if sf_isGoVariadic sf
       then bind_st (for_st (push_variadic E) vars) (\<lambda>ts. pure_st (sf_fixedArgTypes sf @ ts))
       else pure_st (sf_fixedArgTypes sf)) (s1, fr1) = (Inr ts, (s', fr'))"
    using run by (auto simp: pack_all_def st_simps)
  have 1: "delivered s1 fr1 (map (\<lambda>i. args ! i) ?fixed) \<and> extends s s1"
    using for_st_delivered [where val = "\<lambda>i. args ! i" and R = "\<lambda>_ _. True", OF _ _ brk del fx]
      push_arg_delivered [OF cb] ok by (auto simp: passed_args_def)
  show ?thesis
  proof (cases "sf_isGoVariadic sf")
    case False
    then show ?thesis
      using 1 rest by (auto simp: passed_args_def)
  next
    case True
    then obtain ws where ws: "for_st (push_variadic E) vars (s1, fr1) = (Inr ws, (s', fr'))"
      and ts: "ts = sf_fixedArgTypes sf @ ws"
      using rest by (auto simp: st_simps)
    have "delivered s' fr' (map (\<lambda>i. args ! i) ?fixed @ map the vars) \<and> extends s1 s' \<and>
        list_all2 (\<lambda>e t. \<exists>v. e = Some v \<and> goArgTypeToFfiType (rv_type v) = Inr t) vars ws"
    proof (rule for_st_delivered [OF _ _ _ _ ws])
      fix x s fr vs r s' fr'
      assume *: "value_ok (gmem s) (the x)" "0 < mbrk (gmem s)" "delivered s fr vs"
        "push_variadic E x (s, fr) = (Inr r, (s', fr'))"
      then obtain v where x: "x = Some v" and t: "goArgTypeToFfiType (rv_type v) = Inr r"
        and push: "push_arg E v (s, fr) = (Inr (), (s', fr'))"
        by (auto simp: push_variadic_def lift_res_def st_simps split: option.splits sum.splits)
      show "delivered s' fr' (vs @ [the x]) \<and> extends s s' \<and>
          (\<exists>v. x = Some v \<and> goArgTypeToFfiType (rv_type v) = Inr r)"
        using push_arg_delivered [OF cb _ *(2,3) push] * x t by auto
    next
      show "\<forall>x\<in>set vars. value_ok (gmem s1) (the x)"
        using ok True 1 extends_value_ok [of s s1] by (auto simp: passed_args_def)
    qed (use 1 brk extends_brk [of s s1] in auto)
    then show ?thesis
      using 1 True ts extends_trans [of s s1 s'] by (auto simp: passed_args_def)
  qed
qed

section \<open>What registration records\<close>

lemma make_binding_slow:
  "make_binding T E sf0 = Inr (Some (SlowBound sf)) \<Longrightarrow>
     sf0 = sf\<lparr>sf_fixedCif := sf_fixedCif sf0\<rparr> \<and> (\<not> sf_isGoVariadic sf \<longrightarrow>
       PrepareCallInterface E (sf_convention sf) (sf_retType sf) (sf_fixedArgTypes sf) = (None, sf_fixedCif sf))"
  by (auto simp: make_binding_def split: if_splits prod.splits option.splits)

lemma RegisterFunc_slow:
  assumes "RegisterFunc T E (TPointer ty) cfn s = (Inr (Some (SlowBound sf)), s')"
  shows "sf_type sf = ty" "sf_cfn sf = cfn"
    "map_res (\<lambda>i. goArgTypeToFfiType (func_ins ty ! i)) [sf_startIn sf..<sf_fixedIn sf] = Inr (sf_fixedArgTypes sf)"
    "sf_isGoVariadic sf = IsVariadic ty"
    "\<not> sf_isGoVariadic sf \<Longrightarrow>
       PrepareCallInterface E (sf_convention sf) (sf_retType sf) (sf_fixedArgTypes sf) = (None, sf_fixedCif sf)"
proof -
  obtain conv marked start where mk: "marker_of ty = (conv, marked, start)"
    by (cases "marker_of ty") auto
  obtain hasError isC fixed ret where
    fixed: "map_res (\<lambda>i. goArgTypeToFfiType (func_ins ty ! i))
       [start..<if IsVariadic ty then NumIn ty - 1 else NumIn ty] = Inr fixed"
    and b: "make_binding T E \<lparr>sf_type = ty, sf_cfn = cfn, sf_convention = conv, sf_startIn = start,
       sf_fixedIn = (if IsVariadic ty then NumIn ty - 1 else NumIn ty), sf_hasError = hasError,
       sf_isGoVariadic = IsVariadic ty, sf_isCVariadic = isC, sf_fixedArgTypes = fixed, sf_retType = ret,
       sf_fixedCif = zero_cif\<rparr> = Inr (Some (SlowBound sf))"
    using assms unfolding RegisterFunc_def by (auto simp: mk Let_def st_simps split: if_splits)
  from make_binding_slow [OF b] fixed
  show "sf_type sf = ty" "sf_cfn sf = cfn"
    "map_res (\<lambda>i. goArgTypeToFfiType (func_ins ty ! i)) [sf_startIn sf..<sf_fixedIn sf] = Inr (sf_fixedArgTypes sf)"
    "sf_isGoVariadic sf = IsVariadic ty"
    "\<not> sf_isGoVariadic sf \<Longrightarrow>
       PrepareCallInterface E (sf_convention sf) (sf_retType sf) (sf_fixedArgTypes sf) = (None, sf_fixedCif sf)"
    by (cases sf; simp)+
qed

lemma fixed_descriptors:
  assumes "map_res (\<lambda>i. goArgTypeToFfiType (ins ! i)) is = Inr ts" "\<forall>i\<in>set is. rv_type (args ! i) = ins ! i"
  shows "map Inr ts = map (goArgTypeToFfiType \<circ> rv_type) (map ((!) args) is)"
proof -
  have "list_all2 (\<lambda>i t. goArgTypeToFfiType (ins ! i) = Inr t) is ts"
    using assms(1) by (simp add: map_res_Inr_iff)
  then show ?thesis
    using assms(2) by (induction rule: list_all2_induct) auto
qed

lemma variadic_descriptors:
  "list_all2 (\<lambda>e t. \<exists>v. e = Some v \<and> goArgTypeToFfiType (rv_type v) = Inr t) vars us \<Longrightarrow>
     map Inr us = map (goArgTypeToFfiType \<circ> rv_type) (map the vars)"
  by (induction rule: list_all2_induct) auto

lemma result_places_extends:
  assumes "result_places outType c s = (Inr places, s')"
  shows "extends s s'"
proof -
  obtain a s1 where a: "new_st (replicate (Size outType) 0) s = (Inr a, s1)"
    and rest: "(if Kind outType \<in> set retBuf_kinds then pure_st (sc_addr c + 768, a, None)
       else if Kind outType = KStruct then
         bind_st (new_st (replicate (Size outType + 7) 0)) (\<lambda>buf. pure_st (buf, a, Some buf))
       else pure_st (a, a, None)) s1 = (Inr places, s')"
    using assms unfolding result_places_def bind_st_eq_Inr by blast
  have "extends s1 s'"
    using rest new_st_ok(1) [of "replicate (Size outType + 7) 0" s1]
    by (auto simp: bind_st_eq_Inr split: if_splits)
  then show ?thesis
    using extends_trans [OF new_st_ok(1) [OF a]] by blast
qed

lemma call_cif_types:
  assumes "call_cif E sf ts = Inr cif" "records_types E" "\<not> sf_isGoVariadic sf \<Longrightarrow>
       PrepareCallInterface E (sf_convention sf) (sf_retType sf) (sf_fixedArgTypes sf) = (None, sf_fixedCif sf)"
    "\<not> sf_isGoVariadic sf \<Longrightarrow> ts = sf_fixedArgTypes sf"
  shows "ArgTypes cif = ts \<and> cif_ret cif = sf_retType sf"
  using assms unfolding call_cif_def records_types_def
  by (auto split: if_splits prod.splits option.splits)

lemma outer_Inr: "outer p (s, fr) = (Inr x, (s', fr')) \<longleftrightarrow> p s = (Inr x, s') \<and> fr' = fr"
  by (auto simp: outer_def split: prod.splits)

lemma get_frame_Inr: "get_frame (s, fr) = (Inr x, (s', fr')) \<longleftrightarrow> x = fr \<and> s' = s \<and> fr' = fr"
  by (auto simp: get_frame_def)

lemma slow_prepare_delivered:
  assumes cb: "callbacks_extend E"
    and errno: "(if sf_hasError sf then clear_error T E s else (Inr 0, s)) = (Inr errPtr, sE)"
    and ok: "\<forall>v\<in>set (passed_args sf args vars). value_ok (gmem sE) v" "0 < mbrk (gmem sE)"
    and c: "ctx_clean c"
    and run: "slow_prepare T E sf args vars (s, \<lparr>fr_ctx = c, keepAliveCount = 0, ffiArgsCount = 0\<rparr>) =
       (Inr (ep, cif, places), (s1, fr))"
  shows "ep = errPtr \<and> delivered s1 fr (passed_args sf args vars) \<and> extends sE s1 \<and>
    (\<exists>us. call_cif E sf (sf_fixedArgTypes sf @ us) = Inr cif \<and>
       (if sf_isGoVariadic sf
        then list_all2 (\<lambda>e t. \<exists>v. e = Some v \<and> goArgTypeToFfiType (rv_type v) = Inr t) vars us else us = []))"
proof -
  let ?fr = "\<lparr>fr_ctx = c, keepAliveCount = 0, ffiArgsCount = 0\<rparr>"
  have first: "(if sf_hasError sf then outer (clear_error T E) else pure_st 0) (s, ?fr) = (Inr errPtr, (sE, ?fr))"
    using errno by (auto simp: outer_def split: if_splits)
  obtain ts s2 fr2 where pk: "pack_all E sf args vars (sE, ?fr) = (Inr ts, (s2, fr2))"
    and cif: "call_cif E sf ts = Inr cif" and ep: "ep = errPtr" and fr: "fr = fr2"
    and places: "s1 = s2 \<or> result_places (func_outs (sf_type sf) ! 0) (fr_ctx fr2) s2 = (Inr places, s1)"
    using run unfolding slow_prepare_def
      bind_st_Inr [of "if sf_hasError sf then outer (clear_error T E) else pure_st 0", OF first]
    by (auto simp: st_simps outer_Inr get_frame_Inr split: if_splits)
  note pa = pack_all_delivered [OF cb ok delivered_start [OF c] pk]
  have ex: "extends s2 s1"
    using places result_places_extends extends_refl by blast
  then have step: "passes (gmem s2) v p \<Longrightarrow> passes (gmem s1) v p" for v p
    using passes_mem_ext [of "gmem s2" "gmem s1"] by (auto simp: extends_def)
  have "delivered s1 fr (passed_args sf args vars)"
    using pa list_all2_mono [OF _ step] by (auto simp: delivered_def fr)
  then show ?thesis
    using pa ex cif ep extends_trans [of sE s2 s1] by auto
qed

lemma engine_call_run:
  "bind_st (engine_call E cif cfn rv) (\<lambda>_. g) (s, fr) =
     (case CallFunction E cif cfn rv (used_args fr) (gmem s) of
        (_, Some e, m) \<Rightarrow> (Inl (PanicErr e), (s\<lparr>gmem := m\<rparr>, fr))
      | (_, None, m) \<Rightarrow> g (s\<lparr>gmem := m\<rparr>, fr))"
  by (auto simp: engine_call_def bind_st_def get_frame_def outer_def call_st_run split: prod.split option.split)

section \<open>The native call is reached\<close>

lemma push_arg_returns:
  assumes del: "delivered s fr vs" "length vs < 32" and v: "packable (Kind (rv_type v))" "Kind (rv_type v) \<noteq> KFunc"
    and room: "mbrk (gmem s) + pack_room v < heap_limit"
    and ok: "callbacks_extend E" "value_ok (gmem s) v" "0 < mbrk (gmem s)"
  shows "\<exists>s' fr'. push_arg E v (s, fr) = (Inr (), (s', fr')) \<and> mbrk (gmem s') \<le> mbrk (gmem s) + pack_room v"
proof -
  obtain p k s' where pk: "packArg E v s = (Inr (p, k), s')" "mbrk (gmem s') \<le> mbrk (gmem s) + pack_room v"
    using packArg_returns [OF v room] by blast
  moreover have "k \<noteq> None"
    using packArg_ok [OF ok pk(1)] by simp
  ultimately show ?thesis
    using del by (auto simp: push_arg_run delivered_def)
qed

lemma for_st_push_returns:
  assumes "delivered s fr vs" "length vs + length is \<le> 32"
    "\<forall>i\<in>set is. packable (Kind (rv_type (arg i))) \<and> Kind (rv_type (arg i)) \<noteq> KFunc \<and> value_ok (gmem s) (arg i)"
    "mbrk (gmem s) + (\<Sum>i\<leftarrow>is. pack_room (arg i)) < heap_limit" "callbacks_extend E" "0 < mbrk (gmem s)"
  shows "\<exists>us s' fr'. for_st (\<lambda>i. push_arg E (arg i)) is (s, fr) = (Inr us, (s', fr')) \<and>
     mbrk (gmem s') \<le> mbrk (gmem s) + (\<Sum>i\<leftarrow>is. pack_room (arg i))"
  using assms
proof (induction "is" arbitrary: s fr vs)
  case (Cons i js)
  obtain s1 fr1 where r: "push_arg E (arg i) (s, fr) = (Inr (), (s1, fr1))"
    and b: "mbrk (gmem s1) \<le> mbrk (gmem s) + pack_room (arg i)"
    using push_arg_returns [OF Cons.prems(1), of "arg i" E] Cons.prems by auto
  have 1: "delivered s1 fr1 (vs @ [arg i])" "extends s s1"
    using push_arg_delivered [OF Cons.prems(5) _ Cons.prems(6,1) r] Cons.prems(3) by auto
  obtain us s' fr' where "for_st (\<lambda>i. push_arg E (arg i)) js (s1, fr1) = (Inr us, (s', fr'))"
    "mbrk (gmem s') \<le> mbrk (gmem s1) + (\<Sum>i\<leftarrow>js. pack_room (arg i))"
    using Cons.IH [OF 1(1)] Cons.prems(2-6) b extends_value_ok [OF 1(2)] extends_brk [OF 1(2)] by auto
  then show ?case
    using b by (auto simp: r bind_st_def)
qed simp

lemma result_places_returns:
  assumes "mbrk (gmem s) + 2 * Size t + 9 < heap_limit"
  shows "\<exists>places s'. result_places t c s = (Inr places, s')"
proof -
  obtain a s1 where a: "new_st (replicate (Size t) 0) s = (Inr a, s1)" "mbrk (gmem s1) = mbrk (gmem s) + max 1 (Size t)"
    using new_st_runs [of s "replicate (Size t) 0"] assms by auto
  moreover obtain b s2 where "new_st (replicate (Size t + 7) 0) s1 = (Inr b, s2)"
    using new_st_runs [of s1 "replicate (Size t + 7) 0"] a(2) assms by (auto simp: max_def split: if_splits)
  ultimately show ?thesis
    by (auto simp: result_places_def bind_st_def)
qed

text \<open>Heap for the copies of all arguments and for the result.\<close>

definition call_room :: "slow_fn \<Rightarrow> rvalue list \<Rightarrow> nat" where
  "call_room sf args = (\<Sum>i\<leftarrow>[sf_startIn sf..<sf_fixedIn sf]. pack_room (args ! i)) +
     2 * Size (func_outs (sf_type sf) ! 0) + 9"

lemma slow_prepare_returns:
  assumes sf: "\<not> sf_hasError sf" "\<not> sf_isGoVariadic sf" "sf_fixedIn sf - sf_startIn sf \<le> 32"
    and args: "\<forall>i\<in>{sf_startIn sf..<sf_fixedIn sf}. packable (Kind (rv_type (args ! i))) \<and>
       Kind (rv_type (args ! i)) \<noteq> KFunc \<and> value_ok (gmem s) (args ! i)"
    and room: "mbrk (gmem s) + call_room sf args < heap_limit" "0 < mbrk (gmem s)"
    and E: "callbacks_extend E" and c: "ctx_clean c"
  shows "\<exists>places s1 fr. slow_prepare T E sf args vars (s, \<lparr>fr_ctx = c, keepAliveCount = 0, ffiArgsCount = 0\<rparr>) =
     (Inr (0, sf_fixedCif sf, places), (s1, fr))"
proof -
  let ?is = "[sf_startIn sf..<sf_fixedIn sf]" and ?fr = "\<lparr>fr_ctx = c, keepAliveCount = 0, ffiArgsCount = 0\<rparr>"
  obtain us s1 fr1 where fx: "for_st (\<lambda>i. push_arg E (args ! i)) ?is (s, ?fr) = (Inr us, (s1, fr1))"
    and b: "mbrk (gmem s1) \<le> mbrk (gmem s) + (\<Sum>i\<leftarrow>?is. pack_room (args ! i))"
    using for_st_push_returns [OF delivered_start [OF c], of ?is "\<lambda>i. args ! i" s E] sf args room E
    by (auto simp: call_room_def)
  obtain places s2 where pl: "result_places (func_outs (sf_type sf) ! 0) (fr_ctx fr1) s1 = (Inr places, s2)"
    using result_places_returns [of s1] b room(1) by (fastforce simp: call_room_def)
  show ?thesis
    using sf by (cases places) (auto simp: slow_prepare_def pack_all_def bind_st_def fx call_cif_def lift_res_def get_frame_def
        outer_def pl)
qed

section \<open>Properties\<close>

text \<open>
  Property C2. When the closure of the reflect path reaches the native call, the engine gets one
  pointer per C argument, at most 32, behind which native code finds the C form of the Go argument
  at that position, the fixed ones first and the variadic ones after them; the marker is not passed;
  the interface it is called with was prepared for the descriptors of exactly these arguments and for
  the declared result. An engine error becomes a panic, and otherwise the results are made from the
  memory the call leaves.
\<close>

theorem slow_call_delivers:
  assumes "RegisterFunc T E (TPointer ty) cfn s0 = (Inr (Some (SlowBound sf)), s0')"
    and "callbacks_extend E" and "records_types E"
    and "\<forall>i < sf_fixedIn sf. rv_type (args ! i) = func_ins ty ! i"
    and "(if sf_hasError sf then clear_error T E s else (Inr 0, s)) = (Inr errPtr, sE)"
    and "\<forall>v\<in>set (passed_args sf args vars). value_ok (gmem sE) v" and "0 < mbrk (gmem sE)"
    and "ctx_clean c"
    and "slow_prepare T E sf args vars (s, \<lparr>fr_ctx = c, keepAliveCount = 0, ffiArgsCount = 0\<rparr>) =
       (Inr (ep, cif, places), (s1, fr))"
  shows "list_all2 (passes (gmem s1)) (passed_args sf args vars) (used_args fr) \<and>
    length (used_args fr) \<le> 32 \<and>
    map Inr (ArgTypes cif) = map (goArgTypeToFfiType \<circ> rv_type) (passed_args sf args vars) \<and>
    cif_ret cif = sf_retType sf \<and> mem_ext (gmem sE) (gmem s1) \<and>
    slow_body T E sf args vars (s, \<lparr>fr_ctx = c, keepAliveCount = 0, ffiArgsCount = 0\<rparr>) =
      (case CallFunction E cif cfn (fst places) (used_args fr) (gmem s1) of
         (_, Some e, m) \<Rightarrow> (Inl (PanicErr e), (s1\<lparr>gmem := m\<rparr>, fr))
       | (_, None, m) \<Rightarrow> outer (slow_finish T E sf errPtr places) (s1\<lparr>gmem := m\<rparr>, fr))"
proof -
  note reg = RegisterFunc_slow [OF assms(1)]
  have prep: "ep = errPtr" "delivered s1 fr (passed_args sf args vars)" "extends sE s1"
    using slow_prepare_delivered [OF assms(2,5-9)] by auto
  obtain us where us: "call_cif E sf (sf_fixedArgTypes sf @ us) = Inr cif"
    "if sf_isGoVariadic sf
     then list_all2 (\<lambda>e t. \<exists>v. e = Some v \<and> goArgTypeToFfiType (rv_type v) = Inr t) vars us else us = []"
    using slow_prepare_delivered [OF assms(2,5-9)] by auto
  have types: "ArgTypes cif = sf_fixedArgTypes sf @ us" "cif_ret cif = sf_retType sf"
    using call_cif_types [OF us(1) assms(3)] reg(5) us(2) by auto
  have "map Inr (sf_fixedArgTypes sf) =
      map (goArgTypeToFfiType \<circ> rv_type) (map ((!) args) [sf_startIn sf..<sf_fixedIn sf])"
    by (rule fixed_descriptors [OF reg(3)]) (use assms(4) in auto)
  moreover have "map Inr us = map (goArgTypeToFfiType \<circ> rv_type) (if sf_isGoVariadic sf then map the vars else [])"
    using us(2) variadic_descriptors by (auto split: if_splits)
  ultimately have descs: "map Inr (ArgTypes cif) = map (goArgTypeToFfiType \<circ> rv_type) (passed_args sf args vars)"
    by (simp add: types passed_args_def)
  have "length (used_args fr) \<le> 32"
    using prep(2) by (auto simp: delivered_def frame_ok_def dest: list_all2_lengthD)
  moreover have "slow_body T E sf args vars (s, \<lparr>fr_ctx = c, keepAliveCount = 0, ffiArgsCount = 0\<rparr>) =
      (case CallFunction E cif cfn (fst places) (used_args fr) (gmem s1) of
         (_, Some e, m) \<Rightarrow> (Inl (PanicErr e), (s1\<lparr>gmem := m\<rparr>, fr))
       | (_, None, m) \<Rightarrow> outer (slow_finish T E sf errPtr places) (s1\<lparr>gmem := m\<rparr>, fr))"
    by (simp add: slow_body_def bind_st_Inr [of "slow_prepare T E sf args vars", OF assms(9)] engine_call_run reg(2) prep(1))
  ultimately show ?thesis
    using prep(2,3) types(2) descs by (auto simp: delivered_def extends_def)
qed

definition puts_type :: go_type where
  "puts_type = TFunc [TPrim PString] [TPrim PInt32] False"

abbreviation linux_amd64 :: target where
  "linux_amd64 \<equiv> \<lparr>GOOS = Linux, GOARCH = AMD64\<rparr>"

lemma puts_registers:
  "RegisterFunc linux_amd64 idle_engine (TPointer puts_type) 64 s = (Inr (Some (SlowBound puts_fn)), s)"
  by (simp add: RegisterFunc_def puts_type_def check_results_def NumOut_def NumIn_def marker_of_def CDecl_def
      Variadic_def resolve_variadic_def goArgTypeToFfiType_def return_type_def lift_res_def bind_st_def
      errorType_def make_binding_def idle_engine_def try_fast_def fast_build_def tryRegisterFastPath_def
      scan_param_def word_kinds_def float_kinds_def puts_fn_def zero_cif_def)

definition sample_ctx :: slow_ctx where
  "sample_ctx = \<lparr>sc_addr = 2048, keepAlive = replicate 32 None, ffiArgs = replicate 32 None\<rparr>"

lemma sample_ctx_clean: "ctx_clean sample_ctx"
  by (simp add: ctx_clean_def sample_ctx_def)

lemma puts_prepares:
  "\<exists>places s1 fr. slow_prepare linux_amd64 idle_engine puts_fn [text_arg] []
      (start_state text_mem, \<lparr>fr_ctx = sample_ctx, keepAliveCount = 0, ffiArgsCount = 0\<rparr>) =
     (Inr (0, sf_fixedCif puts_fn, places), (s1, fr))"
proof (rule slow_prepare_returns)
  show "\<forall>i\<in>{sf_startIn puts_fn..<sf_fixedIn puts_fn}. packable (Kind (rv_type ([text_arg] ! i))) \<and>
      Kind (rv_type ([text_arg] ! i)) \<noteq> KFunc \<and> value_ok (gmem (start_state text_mem)) ([text_arg] ! i)"
    using text_arg_ok by (auto simp: puts_fn_def start_state_def text_arg_def packable_def)
  show "mbrk (gmem (start_state text_mem)) + call_room puts_fn [text_arg] < heap_limit"
    by (simp add: start_state_def call_room_def puts_fn_def pack_room_def text_arg_def heap_limit_def text_mem_def)
qed (simp_all add: puts_fn_def start_state_def sample_ctx_clean text_mem_def)

theorem slow_call_delivers_witness:
  "\<exists>cif places s1 fr p. slow_prepare linux_amd64 idle_engine puts_fn [text_arg] []
      (start_state text_mem, \<lparr>fr_ctx = sample_ctx, keepAliveCount = 0, ffiArgsCount = 0\<rparr>) =
     (Inr (0, cif, places), (s1, fr)) \<and> used_args fr = [p] \<and> passes (gmem s1) text_arg p"
proof -
  obtain places s1 fr where run: "slow_prepare linux_amd64 idle_engine puts_fn [text_arg] []
      (start_state text_mem, \<lparr>fr_ctx = sample_ctx, keepAliveCount = 0, ffiArgsCount = 0\<rparr>) =
     (Inr (0, sf_fixedCif puts_fn, places), (s1, fr))"
    using puts_prepares by blast
  have args: "passed_args puts_fn [text_arg] [] = [text_arg]"
    by (simp add: passed_args_def puts_fn_def)
  have "list_all2 (passes (gmem s1)) (passed_args puts_fn [text_arg] []) (used_args fr)"
    using slow_call_delivers [OF puts_registers callbacks_extend_idle records_types_idle _ _ _ _ sample_ctx_clean run]
      text_arg_ok unfolding args
    by (simp add: start_state_def text_mem_def puts_fn_def puts_type_def text_arg_def)
  then obtain p where "used_args fr = [p]" "passes (gmem s1) text_arg p"
    by (auto simp: args list_all2_Cons1)
  then show ?thesis
    using run by blast
qed

text \<open>
  Property C6. A call of a function of fixed arity reaches native code, without a panic before, when it
  has at most 32 C arguments of supported kinds and the heap has room for their copies.
\<close>

theorem slow_call_enters:
  assumes "\<not> sf_hasError sf" and "\<not> sf_isGoVariadic sf" and "sf_fixedIn sf - sf_startIn sf \<le> 32"
    and "\<forall>i\<in>{sf_startIn sf..<sf_fixedIn sf}. packable (Kind (rv_type (args ! i))) \<and>
       Kind (rv_type (args ! i)) \<noteq> KFunc \<and> value_ok (gmem s) (args ! i)"
    and "mbrk (gmem s) + call_room sf args < heap_limit" and "0 < mbrk (gmem s)"
    and "callbacks_extend E" and "ctx_clean c"
  shows "\<exists>places s1 fr. slow_body T E sf args vars (s, \<lparr>fr_ctx = c, keepAliveCount = 0, ffiArgsCount = 0\<rparr>) =
      (case CallFunction E (sf_fixedCif sf) (sf_cfn sf) (fst places) (used_args fr) (gmem s1) of
         (_, Some e, m) \<Rightarrow> (Inl (PanicErr e), (s1\<lparr>gmem := m\<rparr>, fr))
       | (_, None, m) \<Rightarrow> outer (slow_finish T E sf 0 places) (s1\<lparr>gmem := m\<rparr>, fr)) \<and>
     list_all2 (passes (gmem s1)) (passed_args sf args vars) (used_args fr)"
proof -
  obtain places s1 fr where run: "slow_prepare T E sf args vars
      (s, \<lparr>fr_ctx = c, keepAliveCount = 0, ffiArgsCount = 0\<rparr>) = (Inr (0, sf_fixedCif sf, places), (s1, fr))"
    using slow_prepare_returns [OF assms] by blast
  have "delivered s1 fr (passed_args sf args vars)"
    using slow_prepare_delivered [OF assms(7) _ _ _ assms(8) run] assms(1,2,4,6)
    by (auto simp: passed_args_def)
  then have "list_all2 (passes (gmem s1)) (passed_args sf args vars) (used_args fr)"
    by (simp add: delivered_def)
  moreover have "slow_body T E sf args vars (s, \<lparr>fr_ctx = c, keepAliveCount = 0, ffiArgsCount = 0\<rparr>) =
      (case CallFunction E (sf_fixedCif sf) (sf_cfn sf) (fst places) (used_args fr) (gmem s1) of
         (_, Some e, m) \<Rightarrow> (Inl (PanicErr e), (s1\<lparr>gmem := m\<rparr>, fr))
       | (_, None, m) \<Rightarrow> outer (slow_finish T E sf 0 places) (s1\<lparr>gmem := m\<rparr>, fr))"
    by (simp add: slow_body_def bind_st_Inr [of "slow_prepare T E sf args vars", OF run] engine_call_run)
  ultimately show ?thesis
    by blast
qed

theorem slow_call_enters_witness:
  "\<exists>places s1 fr. slow_body linux_amd64 idle_engine puts_fn [text_arg] []
      (start_state text_mem, \<lparr>fr_ctx = sample_ctx, keepAliveCount = 0, ffiArgsCount = 0\<rparr>) =
     outer (slow_finish linux_amd64 idle_engine puts_fn 0 places) (s1, fr)"
proof -
  have "\<forall>i\<in>{sf_startIn puts_fn..<sf_fixedIn puts_fn}. packable (Kind (rv_type ([text_arg] ! i))) \<and>
      Kind (rv_type ([text_arg] ! i)) \<noteq> KFunc \<and> value_ok (gmem (start_state text_mem)) ([text_arg] ! i)"
    using text_arg_ok by (auto simp: puts_fn_def start_state_def text_arg_def packable_def)
  moreover have "mbrk (gmem (start_state text_mem)) + call_room puts_fn [text_arg] < heap_limit"
    by (simp add: start_state_def call_room_def puts_fn_def pack_room_def text_arg_def heap_limit_def text_mem_def)
  moreover have "\<not> sf_hasError puts_fn" "\<not> sf_isGoVariadic puts_fn" "sf_fixedIn puts_fn - sf_startIn puts_fn \<le> 32"
    "0 < mbrk (gmem (start_state text_mem))"
    by (simp_all add: puts_fn_def start_state_def text_mem_def)
  ultimately obtain places s1 fr where "slow_body linux_amd64 idle_engine puts_fn [text_arg] []
      (start_state text_mem, \<lparr>fr_ctx = sample_ctx, keepAliveCount = 0, ffiArgsCount = 0\<rparr>) =
      (case CallFunction idle_engine (sf_fixedCif puts_fn) (sf_cfn puts_fn) (fst places) (used_args fr) (gmem s1) of
         (_, Some e, m) \<Rightarrow> (Inl (PanicErr e), (s1\<lparr>gmem := m\<rparr>, fr))
       | (_, None, m) \<Rightarrow> outer (slow_finish linux_amd64 idle_engine puts_fn 0 places) (s1\<lparr>gmem := m\<rparr>, fr))"
    using slow_call_enters [of puts_fn "[text_arg]" "start_state text_mem" idle_engine sample_ctx linux_amd64 "[]"]
      sample_ctx_clean callbacks_extend_idle by blast
  moreover have "CallFunction idle_engine cif fn rv ptrs m = (0, None, m)" for cif fn rv ptrs and m :: "unit mem"
    by (simp add: idle_engine_def)
  ultimately have "slow_body linux_amd64 idle_engine puts_fn [text_arg] []
      (start_state text_mem, \<lparr>fr_ctx = sample_ctx, keepAliveCount = 0, ffiArgsCount = 0\<rparr>) =
      outer (slow_finish linux_amd64 idle_engine puts_fn 0 places) (s1, fr)"
    by simp
  then show ?thesis
    by blast
qed

end
