(* ===== verification/Registration.thy ===== *)
theory Registration
  imports SlowPath
begin

text \<open>
  What \<open>RegisterFunc\<close> decides: which signatures it rejects and how, which it binds to a generated
  wrapper, and how a variadic function is called.
\<close>

section \<open>Rejected signatures\<close>

text \<open>The kind for which a parameter type is rejected: an array is passed by pointer, whatever is in it.\<close>

definition arg_unsupported :: "go_type \<Rightarrow> kind option" where
  "arg_unsupported t = (if Kind t = KArray then None else first_unsupported t)"

lemma goArgTypeToFfiType_cases:
  "case arg_unsupported t of
     None \<Rightarrow> \<exists>d. goArgTypeToFfiType t = Inr d
   | Some k \<Rightarrow> goArgTypeToFfiType t = Inl (unsupported_kind k)"
  using goTypeToFfiType_cases(1) [of t] by (auto simp: arg_unsupported_def goArgTypeToFfiType_def split: option.splits)

fun first_arg_unsupported :: "go_type list \<Rightarrow> kind option" where
  "first_arg_unsupported [] = None"
| "first_arg_unsupported (t # ts) =
     (case arg_unsupported t of Some k \<Rightarrow> Some k | None \<Rightarrow> first_arg_unsupported ts)"

lemma map_res_arg_types:
  "case first_arg_unsupported (map f is) of
     None \<Rightarrow> \<exists>ds. map_res (\<lambda>i. goArgTypeToFfiType (f i)) is = Inr ds
   | Some k \<Rightarrow> map_res (\<lambda>i. goArgTypeToFfiType (f i)) is = Inl (unsupported_kind k)"
proof (induction "is")
  case (Cons i js)
  then show ?case
    using goArgTypeToFfiType_cases [of "f i"]
    by (cases "arg_unsupported (f i)"; cases "first_arg_unsupported (map f js)") auto
qed simp

definition c_params :: "go_type \<Rightarrow> go_type list" where
  "c_params ty = map (\<lambda>i. func_ins ty ! i) [snd (snd (marker_of ty))..<NumIn ty]"

definition returns_error :: "go_type \<Rightarrow> bool" where
  "returns_error ty \<longleftrightarrow> NumOut ty = 2 \<or> NumOut ty = 1 \<and> func_outs ty ! 0 = errorType"

definition c_result_unsupported :: "go_type \<Rightarrow> kind option" where
  "c_result_unsupported ty =
     (if NumOut ty = 2 \<or> NumOut ty = 1 \<and> func_outs ty ! 0 \<noteq> errorType
      then first_unsupported (func_outs ty ! 0) else None)"

text \<open>The reason for which a function type is rejected, in the order of the tests.\<close>

definition rejection :: "go_type \<Rightarrow> panic option" where
  "rejection ty =
     (if Kind ty \<noteq> KFunc then Some (PanicMsg ''purego: fptr must be a function pointer'')
      else if 2 < NumOut ty then Some (PanicMsg ''purego: function can only return up to two values'')
      else if NumOut ty = 2 \<and> func_outs ty ! 1 \<noteq> errorType
        then Some (PanicMsg ''purego: second return value must be an error'')
      else case first_arg_unsupported (c_params ty) of
        Some k \<Rightarrow> Some (unsupported_kind k)
      | None \<Rightarrow> map_option unsupported_kind (c_result_unsupported ty))"

lemma check_results_cases:
  "check_results ty =
     (if 2 < NumOut ty then Inl (PanicMsg ''purego: function can only return up to two values'')
      else if NumOut ty = 2 \<and> func_outs ty ! 1 \<noteq> errorType
        then Inl (PanicMsg ''purego: second return value must be an error'')
      else Inr (returns_error ty))"
  by (auto simp: check_results_def returns_error_def Let_def)

lemma return_type_cases:
  assumes "\<not> 2 < NumOut ty"
  shows "case c_result_unsupported ty of
     None \<Rightarrow> \<exists>d. return_type ty (returns_error ty) = Inr d
   | Some k \<Rightarrow> return_type ty (returns_error ty) = Inl (unsupported_kind k)"
  using goTypeToFfiType_cases(1) [of "func_outs ty ! 0"] assms
  by (auto simp: c_result_unsupported_def return_type_def returns_error_def split: option.splits)

text \<open>What is prepared for an accepted function of fixed arity.\<close>

definition fixed_sf :: "go_type \<Rightarrow> uintptr \<Rightarrow> ffi_type list \<Rightarrow> ffi_type \<Rightarrow> slow_fn" where
  "fixed_sf ty cfn ts r = \<lparr>sf_type = ty, sf_cfn = cfn, sf_convention = fst (marker_of ty),
     sf_startIn = snd (snd (marker_of ty)), sf_fixedIn = NumIn ty, sf_hasError = returns_error ty,
     sf_isGoVariadic = False, sf_isCVariadic = fst (snd (marker_of ty)), sf_fixedArgTypes = ts,
     sf_retType = r, sf_fixedCif = zero_cif\<rparr>"

lemma RegisterFunc_fixed:
  assumes "\<not> IsVariadic ty" "cfn \<noteq> 0"
  shows "case rejection ty of
     Some e \<Rightarrow> RegisterFunc T E (TPointer ty) cfn s = (Inl e, s)
   | None \<Rightarrow> \<exists>ts r. map_res goArgTypeToFfiType (c_params ty) = Inr ts \<and>
       return_type ty (returns_error ty) = Inr r \<and>
       RegisterFunc T E (TPointer ty) cfn s = lift_res (make_binding T E (fixed_sf ty cfn ts r)) s"
proof -
  obtain conv marked start where mk: "marker_of ty = (conv, marked, start)"
    by (cases "marker_of ty") auto
  have params: "map_res (\<lambda>i. goArgTypeToFfiType (func_ins ty ! i)) [start..<NumIn ty] =
      map_res goArgTypeToFfiType (c_params ty)"
  proof -
    have "map_res (\<lambda>i. f (g i)) is = map_res f (map g is)" for f g and "is" :: "nat list"
      by (induction "is") auto
    then show ?thesis
      by (simp add: c_params_def mk)
  qed
  show ?thesis
    using assms map_res_arg_types [of "\<lambda>i. func_ins ty ! i" "[start..<NumIn ty]"] return_type_cases [of ty]
    by (auto simp: RegisterFunc_def rejection_def mk check_results_cases lift_res_def bind_st_def Let_def
        resolve_variadic_def params c_params_def fixed_sf_def split: option.splits)
qed

text \<open>A function that fits a wrapper has no marker.\<close>

lemma fast_params_no_struct: "fast_params (map Kind ts) \<Longrightarrow> t \<in> set ts \<Longrightarrow> Kind t \<noteq> KStruct"
  by (auto simp: fast_params_def is_word_kind_def word_kinds_def is_float_kind_def float_kinds_def)

lemma fast_unmarked:
  assumes "fast_params (map Kind (func_ins ty))"
  shows "marker_of ty = (DefaultCall, False, 0)"
proof -
  have "CDecl \<notin> set (func_ins ty)" "Variadic \<notin> set (func_ins ty)"
    using fast_params_no_struct [OF assms, of CDecl] fast_params_no_struct [OF assms, of Variadic]
    by (auto simp: CDecl_def Variadic_def)
  then show ?thesis
    by (auto simp: marker_of_def NumIn_def nth_mem) (metis length_greater_0_conv nth_mem)+
qed

section \<open>Properties of registration\<close>

text \<open>
  Property C12. A function of fixed arity is rejected exactly when \<open>rejection\<close> gives a reason: not a
  function, too many results, a second result that is not an error, then the first parameter and
  then the result whose type has no descriptor; with that message and without an effect. An accepted
  function fails only if the engine cannot prepare its interface.
\<close>

theorem RegisterFunc_rejects:
  assumes "\<not> IsVariadic ty" and "cfn \<noteq> 0"
  shows "(\<forall>e. rejection ty = Some e \<longrightarrow> RegisterFunc T E (TPointer ty) cfn s = (Inl e, s)) \<and>
    (rejection ty = None \<longrightarrow>
       (\<exists>b. RegisterFunc T E (TPointer ty) cfn s = (Inr b, s) \<and> b \<noteq> None) \<or>
       (\<exists>err. RegisterFunc T E (TPointer ty) cfn s = (Inl (PanicErr err), s)))"
proof (cases "rejection ty")
  case None
  then obtain ts r where run: "RegisterFunc T E (TPointer ty) cfn s = lift_res (make_binding T E (fixed_sf ty cfn ts r)) s"
    using RegisterFunc_fixed [OF assms, of T E s] by auto
  have "(\<exists>b. make_binding T E sf = Inr (Some b)) \<or> (\<exists>err. make_binding T E sf = Inl (PanicErr err))" for sf
    using try_exact [of "GOOS T" "GOARCH T" "sf_type sf"]
    by (auto simp: make_binding_def try_fast_def tryRegisterFastPath_fallback_def split: prod.split option.split if_splits)
  from this [of "fixed_sf ty cfn ts r"] show ?thesis
    using None by (auto simp: run lift_res_def)
next
  case (Some e)
  then show ?thesis
    using RegisterFunc_fixed [OF assms, of T E s] by simp
qed

theorem RegisterFunc_rejects_witness:
  "RegisterFunc linux_amd64 idle_engine (TPointer (TFunc [TPrim PInt, TMap (TPrim PInt) (TPrim PInt)] [] False)) 64
     (start_state text_mem) = (Inl (PanicMsg ''purego: unsupported kind map''), start_state text_mem)"
proof -
  let ?ty = "TFunc [TPrim PInt, TMap (TPrim PInt) (TPrim PInt)] [] False"
  have "rejection ?ty = Some (PanicMsg ''purego: unsupported kind map'')"
    by (simp add: rejection_def NumOut_def NumIn_def c_params_def marker_of_def CDecl_def Variadic_def
        arg_unsupported_def unsupported_kind_def upt_rec)
  then show ?thesis
    using RegisterFunc_rejects [of ?ty 64 linux_amd64 idle_engine "start_state text_mem"] by simp
qed

text \<open>
  Property C13. A function of fixed arity that registration accepts is bound to a generated wrapper
  exactly when the build has them (amd64 or arm64 on macOS, iOS, FreeBSD, Linux, Android or NetBSD),
  it does not return an error, and its result and all its parameters fit; the wrapper fits the
  declared types. Otherwise, and so with every marker, it is bound to the reflect path, whose closure
  captures the declared type, the C parameters after the marker and the convention the marker sets.
  Either path calls with the interface the engine prepared for the descriptors of the C parameters
  and of the result. Registration itself changes no state.
\<close>

theorem RegisterFunc_fast_exact:
  assumes "\<not> IsVariadic ty" and "RegisterFunc T E (TPointer ty) cfn s = (Inr b, s')"
  shows "s' = s \<and> (\<exists>ts r cif. map_res goArgTypeToFfiType (c_params ty) = Inr ts \<and>
    return_type ty (returns_error ty) = Inr r \<and> PrepareCallInterface E (fst (marker_of ty)) r ts = (None, cif) \<and>
    (if fast_build T \<and> \<not> returns_error ty \<and> fast_result (func_outs ty) \<and> fast_params (map Kind (func_ins ty))
     then marker_of ty = (DefaultCall, False, 0) \<and> c_params ty = func_ins ty \<and>
       (\<exists>w. b = Some (FastBound w cif cfn) \<and> fits (map Kind (func_ins ty)) (0 < NumOut ty) w)
     else b = Some (SlowBound \<lparr>sf_type = ty, sf_cfn = cfn, sf_convention = fst (marker_of ty),
       sf_startIn = snd (snd (marker_of ty)), sf_fixedIn = NumIn ty, sf_hasError = returns_error ty,
       sf_isGoVariadic = False, sf_isCVariadic = fst (snd (marker_of ty)), sf_fixedArgTypes = ts,
       sf_retType = r, sf_fixedCif = cif\<rparr>)))"
proof -
  have cfn: "cfn \<noteq> 0"
    using assms(2) by (auto simp: RegisterFunc_def)
  obtain ts r where types: "map_res goArgTypeToFfiType (c_params ty) = Inr ts" "return_type ty (returns_error ty) = Inr r"
    and run: "RegisterFunc T E (TPointer ty) cfn s = lift_res (make_binding T E (fixed_sf ty cfn ts r)) s"
    using RegisterFunc_fixed [OF assms(1) cfn, of T E s] assms(2) by (auto split: option.splits)
  have b: "make_binding T E (fixed_sf ty cfn ts r) = Inr b"
    using assms(2) unfolding run lift_res_eq_Inr by blast
  have fp: "fast_platform (GOOS T) (GOARCH T)" if "fast_build T"
    using that by (auto simp: fast_build_def fast_platform_def)
  have unmarked: "marker_of ty = (DefaultCall, False, 0)" if "fast_params (map Kind (func_ins ty))"
    using that by (rule fast_unmarked)
  have iff: "snd (try_fast T ty) \<longleftrightarrow> fast_build T \<and> fast_result (func_outs ty) \<and> fast_params (map Kind (func_ins ty))"
    using try_exact [of "GOOS T" "GOARCH T" ty] fp by (auto simp: try_fast_def tryRegisterFastPath_fallback_def)
  have all: "c_params ty = func_ins ty" if "fast_params (map Kind (func_ins ty))"
    using unmarked [OF that] by (simp add: c_params_def NumIn_def map_nth)
  obtain err cif where prep: "PrepareCallInterface E (fst (marker_of ty)) r ts = (err, cif)"
    by fastforce
  have err: "err = None"
    using b prep by (cases err) (simp_all add: make_binding_def fixed_sf_def)
  have state: "s' = s"
    using assms(2) unfolding run lift_res_eq_Inr by blast
  show ?thesis
  proof (cases "\<not> returns_error ty \<and> snd (try_fast T ty)")
    case True
    then obtain w where w: "try_fast T ty = (Some w, True)"
      using try_exact [of "GOOS T" "GOARCH T" ty]
      by (cases "try_fast T ty") (auto simp: try_fast_def tryRegisterFastPath_fallback_def split: if_splits)
    then have "tryRegisterFastPath (GOOS T) (GOARCH T) ty = (Some w, True)"
      by (auto simp: try_fast_def tryRegisterFastPath_fallback_def split: if_splits)
    note fits = try_fits [OF this]
    have "b = Some (FastBound w cif cfn)"
      using b prep err True w by (simp add: make_binding_def fixed_sf_def)
    moreover have "fast_params (map Kind (func_ins ty))"
      using True iff by blast
    ultimately show ?thesis
      using True iff fits types prep err state unmarked all by auto
  next
    case False
    then have "b = Some (SlowBound ((fixed_sf ty cfn ts r)\<lparr>sf_fixedCif := cif\<rparr>))"
      using b prep err by (auto simp: make_binding_def fixed_sf_def)
    then show ?thesis
      using False iff types prep err state by (auto simp: fixed_sf_def)
  qed
qed

lemma sample_registers:
  "RegisterFunc linux_amd64 idle_engine (TPointer sample_signature) 64 s =
     (Inr (Some (FastBound (emitWrapper [PPtr, PWord] 64 True)
        (snd (PrepareCallInterface (idle_engine :: 'w goffi) DefaultCall SInt32TypeDescriptor
          [PointerTypeDescriptor, SInt64TypeDescriptor, DoubleTypeDescriptor])) 64)), s :: 'w gstate)"
proof -
  have "try_fast linux_amd64 sample_signature = (Some (emitWrapper [PPtr, PWord] 64 True), True)"
    by (simp add: try_fast_def fast_build_def sample_signature_fast)
  moreover have mb: "make_binding linux_amd64 (idle_engine :: 'w goffi) sf =
      Inr (Some (FastBound (emitWrapper [PPtr, PWord] 64 True)
        (snd (PrepareCallInterface idle_engine (sf_convention sf) (sf_retType sf) (sf_fixedArgTypes sf))) (sf_cfn sf)))"
    if "try_fast linux_amd64 (sf_type sf) = (Some (emitWrapper [PPtr, PWord] 64 True), True)"
      "\<not> sf_hasError sf" "\<not> sf_isGoVariadic sf" for sf
    using that by (simp add: make_binding_def idle_engine_def)
  moreover have sel: "Kind sample_signature = KFunc" "IsVariadic sample_signature = False"
    "marker_of sample_signature = (DefaultCall, False, 0)" "check_results sample_signature = Inr False"
    "return_type sample_signature False = Inr SInt32TypeDescriptor"
    by (simp_all add: sample_signature_def marker_of_def CDecl_def Variadic_def check_results_def NumOut_def
        errorType_def return_type_def)
  moreover have "[0..<NumIn sample_signature] = [0, 1, 2]"
    by (simp add: sample_signature_def NumIn_def upt_rec)
  then have "map_res (\<lambda>i. goArgTypeToFfiType (func_ins sample_signature ! i)) [0..<NumIn sample_signature] =
      Inr [PointerTypeDescriptor, SInt64TypeDescriptor, DoubleTypeDescriptor]"
    by (simp add: sample_signature_def goArgTypeToFfiType_def)
  ultimately show ?thesis
    by (simp add: RegisterFunc_def resolve_variadic_def lift_res_def bind_st_def) (subst mb, simp_all)
qed

abbreviation text_signature :: go_type where
  "text_signature \<equiv> TFunc [CDecl, TPrim PString] [TPrim PInt32] False"

lemma text_registers:
  "\<exists>b. RegisterFunc linux_amd64 (idle_engine :: 'w goffi) (TPointer text_signature) 64 s = (Inr b, s)"
proof -
  have kind: "\<not> IsVariadic text_signature" "(64 :: uintptr) \<noteq> 0"
    by simp_all
  have "rejection text_signature = None"
    by (simp add: rejection_def NumOut_def NumIn_def c_params_def marker_of_def CDecl_def Variadic_def
        arg_unsupported_def c_result_unsupported_def upt_rec)
  then obtain ts r where run: "RegisterFunc linux_amd64 (idle_engine :: 'w goffi) (TPointer text_signature) 64 s =
      lift_res (make_binding linux_amd64 (idle_engine :: 'w goffi) (fixed_sf text_signature 64 ts r)) s"
    using RegisterFunc_fixed [OF kind, of linux_amd64 "idle_engine :: 'w goffi" s] by (simp only: option.case) blast
  have "\<exists>b. make_binding linux_amd64 (idle_engine :: 'w goffi) (fixed_sf text_signature 64 ts r) = Inr b"
    by (simp add: make_binding_def fixed_sf_def idle_engine_def)
  then show ?thesis
    by (auto simp: run lift_res_def)
qed

text \<open>A function that gets a wrapper, and one with a marker that does not.\<close>

theorem RegisterFunc_fast_exact_witness:
  "(\<exists>w cif. RegisterFunc linux_amd64 idle_engine (TPointer sample_signature) 64 (start_state text_mem) =
       (Inr (Some (FastBound w cif 64)), start_state text_mem) \<and> fits [KPointer, KInt, KFloat64] True w) \<and>
   (\<exists>sf. RegisterFunc linux_amd64 idle_engine (TPointer text_signature) 64 (start_state text_mem) =
       (Inr (Some (SlowBound sf)), start_state text_mem) \<and>
     sf_convention sf = UnixCallingConvention \<and> sf_startIn sf = 1 \<and> sf_fixedIn sf = 2 \<and>
     sf_fixedArgTypes sf = [PointerTypeDescriptor])"
proof -
  have ty: "\<not> IsVariadic sample_signature" "0 < NumOut sample_signature" "fast_params [KPointer, KInt, KFloat64]"
    "map Kind (func_ins sample_signature) = [KPointer, KInt, KFloat64]"
    by (simp_all add: sample_signature_def NumOut_def fast_params_def is_word_kind_def is_float_kind_def word_kinds_def
        float_kinds_def is_ptr_kind_def maxPointerMaskArgs_def)
  have fast: "\<exists>w cif. RegisterFunc linux_amd64 idle_engine (TPointer sample_signature) 64 (start_state text_mem) =
       (Inr (Some (FastBound w cif 64)), start_state text_mem) \<and> fits [KPointer, KInt, KFloat64] True w"
    using RegisterFunc_fast_exact [OF ty(1) sample_registers [of "start_state text_mem"]] sample_registers [of "start_state text_mem"]
      ty(2-4) by (auto split: if_splits)
  obtain b where b: "RegisterFunc linux_amd64 idle_engine (TPointer text_signature) 64 (start_state text_mem) =
      (Inr b, start_state text_mem)"
    using text_registers by blast
  have sig: "\<not> IsVariadic text_signature" "\<not> fast_params (map Kind (func_ins text_signature))"
    "marker_of text_signature = (UnixCallingConvention, False, 1)" "NumIn text_signature = 2"
    "map_res goArgTypeToFfiType (c_params text_signature) = Inr [PointerTypeDescriptor]"
    by (simp_all add: fast_params_def is_word_kind_def is_float_kind_def word_kinds_def float_kinds_def marker_of_def
        CDecl_def c_params_def NumIn_def goArgTypeToFfiType_def upt_rec)
  have nofast: "\<not> (fast_build linux_amd64 \<and> \<not> returns_error text_signature \<and> fast_result (func_outs text_signature) \<and>
      fast_params (map Kind (func_ins text_signature)))"
    using sig(2) by simp
  obtain r cif where "b = Some (SlowBound \<lparr>sf_type = text_signature, sf_cfn = 64, sf_convention = UnixCallingConvention,
      sf_startIn = 1, sf_fixedIn = 2, sf_hasError = returns_error text_signature, sf_isGoVariadic = False,
      sf_isCVariadic = False, sf_fixedArgTypes = [PointerTypeDescriptor], sf_retType = r, sf_fixedCif = cif\<rparr>)"
    using RegisterFunc_fast_exact [OF sig(1) b] unfolding sig(3-5) fst_conv snd_conv sum.inject if_not_P [OF nofast] by blast
  then have slow: "\<exists>sf. RegisterFunc linux_amd64 idle_engine (TPointer text_signature) 64 (start_state text_mem) =
       (Inr (Some (SlowBound sf)), start_state text_mem) \<and>
     sf_convention sf = UnixCallingConvention \<and> sf_startIn sf = 1 \<and> sf_fixedIn sf = 2 \<and>
     sf_fixedArgTypes sf = [PointerTypeDescriptor]"
    using b by simp
  show ?thesis
    by (rule conjI [OF fast slow])
qed

section \<open>Variadic functions\<close>

abbreviation idle :: "unit goffi" where
  "idle \<equiv> idle_engine"

text \<open>The interface of a variadic function, for the property below and for message sends.\<close>

lemma variadic_call:
  assumes "IsVariadic ty" and "RegisterFunc T E (TPointer ty) cfn s = (Inr b, s')"
  shows "\<exists>sf. b = Some (SlowBound sf) \<and>
    (if 0 < NumIn ty \<and> func_ins ty ! 0 = Variadic then sf_isCVariadic sf
     else \<exists>name s1. symbol_name T E cfn s = (Inr name, s1) \<and>
       sf_isCVariadic sf = (\<not> has_prefix name (bytes_of ''objc_msgSend'') \<and> \<not> (name = [] \<and> GOOS T = Darwin))) \<and>
    call_cif E sf (sf_fixedArgTypes sf @ us) =
      (case (if sf_isCVariadic sf
             then PrepareVariadicCallInterface E (fst (marker_of ty)) (length (sf_fixedArgTypes sf)) (sf_retType sf)
               (sf_fixedArgTypes sf @ us)
             else PrepareCallInterface E (fst (marker_of ty)) (sf_retType sf) (sf_fixedArgTypes sf @ us)) of
         (Some err, _) \<Rightarrow> Inl (PanicErr err) | (None, cif) \<Rightarrow> Inr cif)"
proof -
  obtain conv marked start where mk: "marker_of ty = (conv, marked, start)"
    by (cases "marker_of ty") auto
  have marked: "marked \<longleftrightarrow> 0 < NumIn ty \<and> func_ins ty ! 0 = Variadic"
    using mk by (auto simp: marker_of_def CDecl_def Variadic_def split: if_splits)
  obtain hasError isC s1 fixed ret where
    c: "resolve_variadic T E True marked cfn s = (Inr isC, s1)"
    and b: "make_binding T E \<lparr>sf_type = ty, sf_cfn = cfn, sf_convention = conv, sf_startIn = start,
       sf_fixedIn = NumIn ty - 1, sf_hasError = hasError,
       sf_isGoVariadic = True, sf_isCVariadic = isC, sf_fixedArgTypes = fixed, sf_retType = ret,
       sf_fixedCif = zero_cif\<rparr> = Inr b"
    using assms unfolding RegisterFunc_def by (auto simp: mk Let_def st_simps split: if_splits)
  define sf where "sf = \<lparr>sf_type = ty, sf_cfn = cfn, sf_convention = conv, sf_startIn = start,
       sf_fixedIn = NumIn ty - 1, sf_hasError = hasError,
       sf_isGoVariadic = True, sf_isCVariadic = isC, sf_fixedArgTypes = fixed, sf_retType = ret,
       sf_fixedCif = zero_cif\<rparr>"
  have "b = Some (SlowBound sf)"
    using b by (simp add: make_binding_def sf_def)
  moreover have "if marked then isC else \<exists>name s1. symbol_name T E cfn s = (Inr name, s1) \<and>
      isC = (\<not> has_prefix name (bytes_of ''objc_msgSend'') \<and> \<not> (name = [] \<and> GOOS T = Darwin))"
    using c by (auto simp: resolve_variadic_def variadic_heuristic_def st_simps split: if_splits)
  ultimately show ?thesis
    unfolding marked [symmetric] by (intro exI [of _ sf] conjI) (auto simp: sf_def mk call_cif_def split: if_splits)
qed

text \<open>
  Property C14. A function with a final \<open>...\<close> parameter is called as a C variadic function, with the
  fixed parameters counted, if it has the marker \<open>Variadic\<close>, and otherwise if the name of its symbol
  does not start with \<open>objc_msgSend\<close> and, on macOS, is known; else its arguments are passed as if they
  were all declared. The descriptors of the call are those of the fixed parameters and then those of
  the values in the slice.
\<close>

theorem variadic_interface:
  assumes "IsVariadic ty" and "RegisterFunc T E (TPointer ty) cfn s = (Inr b, s')"
  shows "\<exists>sf. b = Some (SlowBound sf) \<and>
    (if 0 < NumIn ty \<and> func_ins ty ! 0 = Variadic then sf_isCVariadic sf
     else \<exists>name s1. symbol_name T E cfn s = (Inr name, s1) \<and>
       sf_isCVariadic sf = (\<not> has_prefix name (bytes_of ''objc_msgSend'') \<and> \<not> (name = [] \<and> GOOS T = Darwin))) \<and>
    call_cif E sf (sf_fixedArgTypes sf @ us) =
      (case (if sf_isCVariadic sf
             then PrepareVariadicCallInterface E (fst (marker_of ty)) (length (sf_fixedArgTypes sf)) (sf_retType sf)
               (sf_fixedArgTypes sf @ us)
             else PrepareCallInterface E (fst (marker_of ty)) (sf_retType sf) (sf_fixedArgTypes sf @ us)) of
         (Some err, _) \<Rightarrow> Inl (PanicErr err) | (None, cif) \<Rightarrow> Inr cif)"
  using assms by (rule variadic_call)

definition printf_type :: go_type where
  "printf_type = TFunc [TPointer (TPrim PUint8), TSlice TInterface] [TPrim PInt32] True"

lemma printf_registers:
  "\<exists>b s'. RegisterFunc linux_amd64 idle (TPointer printf_type) 64 (start_state text_mem) = (Inr b, s')"
  by (simp add: RegisterFunc_def printf_type_def check_results_def NumOut_def NumIn_def marker_of_def CDecl_def
      Variadic_def resolve_variadic_def goArgTypeToFfiType_def return_type_def lift_res_def bind_st_def
      errorType_def make_binding_def symbol_name_def getSymbolName_def dladdrOnce_def once_lazy_def
      initDladdr_def Dlsym_def Dlsym_unix_def dl_file_of_def idle_engine_def start_state_def unresolved_def)

theorem variadic_interface_witness:
  "\<exists>sf s'. RegisterFunc linux_amd64 idle (TPointer printf_type) 64 (start_state text_mem) =
     (Inr (Some (SlowBound sf)), s') \<and>
   call_cif idle sf (sf_fixedArgTypes sf @ [SInt32TypeDescriptor]) =
     Inr (snd (if sf_isCVariadic sf
       then PrepareVariadicCallInterface idle DefaultCall (length (sf_fixedArgTypes sf)) (sf_retType sf)
         (sf_fixedArgTypes sf @ [SInt32TypeDescriptor])
       else PrepareCallInterface idle DefaultCall (sf_retType sf) (sf_fixedArgTypes sf @ [SInt32TypeDescriptor])))"
proof -
  obtain b s' where run: "RegisterFunc linux_amd64 idle (TPointer printf_type) 64 (start_state text_mem) = (Inr b, s')"
    using printf_registers by blast
  have v: "IsVariadic printf_type" "fst (marker_of printf_type) = DefaultCall"
    by (simp_all add: printf_type_def marker_of_def CDecl_def Variadic_def)
  obtain sf where b: "b = Some (SlowBound sf)"
    and c: "call_cif idle sf (sf_fixedArgTypes sf @ [SInt32TypeDescriptor]) =
      (case (if sf_isCVariadic sf
             then PrepareVariadicCallInterface idle (fst (marker_of printf_type)) (length (sf_fixedArgTypes sf))
               (sf_retType sf) (sf_fixedArgTypes sf @ [SInt32TypeDescriptor])
             else PrepareCallInterface idle (fst (marker_of printf_type)) (sf_retType sf)
               (sf_fixedArgTypes sf @ [SInt32TypeDescriptor])) of
         (Some err, _) \<Rightarrow> Inl (PanicErr err) | (None, cif) \<Rightarrow> Inr cif)"
    by (rule exE [OF variadic_interface [OF v(1) run, of "[SInt32TypeDescriptor]"]]) (elim conjE, rule that)
  have prep: "fst (PrepareVariadicCallInterface idle cv n r ts) = None" "fst (PrepareCallInterface idle cv r ts) = None"
    for cv n r ts
    by (simp_all add: idle_engine_def)
  have ok: "(case x of (Some err, _) \<Rightarrow> Inl (PanicErr err) | (None, cif) \<Rightarrow> Inr cif) = Inr (snd x)"
    if "fst x = None" for x :: "string option \<times> call_interface"
    using that by (cases x) simp
  from c have "call_cif idle sf (sf_fixedArgTypes sf @ [SInt32TypeDescriptor]) =
     Inr (snd (if sf_isCVariadic sf
       then PrepareVariadicCallInterface idle DefaultCall (length (sf_fixedArgTypes sf)) (sf_retType sf)
         (sf_fixedArgTypes sf @ [SInt32TypeDescriptor])
       else PrepareCallInterface idle DefaultCall (sf_retType sf) (sf_fixedArgTypes sf @ [SInt32TypeDescriptor])))"
    unfolding v(2) by (subst (asm) ok) (simp_all add: prep del: split_paired_All split_paired_Ex)
  then show ?thesis
    using run b by blast
qed

text \<open>
  The marker \<open>Variadic\<close> in front of a function without a final \<open>...\<close> parameter is only
  skipped: the function is accepted, never takes the fast path, and is called through an interface
  that was prepared as for an ordinary function.
\<close>

lemma variadic_marker_ignored:
  assumes "\<not> IsVariadic ty" and "0 < NumIn ty" and "func_ins ty ! 0 = Variadic"
    and "RegisterFunc T E (TPointer ty) cfn s = (Inr b, s')"
  shows "\<exists>sf r ts. b = Some (SlowBound sf) \<and> sf_isCVariadic sf \<and> sf_startIn sf = 1 \<and>
    PrepareCallInterface E DefaultCall r ts = (None, sf_fixedCif sf) \<and> call_cif E sf us = Inr (sf_fixedCif sf)"
proof -
  have mk: "marker_of ty = (DefaultCall, True, 1)"
    using assms(2,3) by (simp add: marker_of_def CDecl_def Variadic_def)
  have "\<not> fast_params (map Kind (func_ins ty))"
  proof
    assume "fast_params (map Kind (func_ins ty))"
    then have "Kind t \<noteq> KStruct" if "t \<in> set (func_ins ty)" for t
      using fast_params_no_struct that by blast
    moreover have "Variadic \<in> set (func_ins ty)"
      using assms(2,3) by (metis NumIn_def nth_mem)
    ultimately have "Kind Variadic \<noteq> KStruct"
      by blast
    then show False
      by (simp add: Variadic_def)
  qed
  then have slow: "\<not> snd (try_fast T ty)"
    using try_exact [of "GOOS T" "GOARCH T" ty] by (auto simp: try_fast_def tryRegisterFastPath_fallback_def)
  have cfn: "cfn \<noteq> 0"
    using assms(4) by (auto simp: RegisterFunc_def)
  obtain ts r where run: "RegisterFunc T E (TPointer ty) cfn s = lift_res (make_binding T E (fixed_sf ty cfn ts r)) s"
    using RegisterFunc_fixed [OF assms(1) cfn, of T E s] assms(4) by (auto split: option.splits)
  have b: "make_binding T E (fixed_sf ty cfn ts r) = Inr b"
    using assms(4) unfolding run lift_res_eq_Inr by blast
  then obtain cif where "PrepareCallInterface E DefaultCall r ts = (None, cif)"
    "b = Some (SlowBound ((fixed_sf ty cfn ts r)\<lparr>sf_fixedCif := cif\<rparr>))"
    using slow by (auto simp: make_binding_def fixed_sf_def mk split: prod.splits option.splits)
  then show ?thesis
    by (auto simp: fixed_sf_def mk call_cif_def)
qed

definition marked_type :: go_type where
  "marked_type = TFunc [Variadic, TPrim PInt32] [] False"

lemma variadic_marker_ignored_witness:
  "\<exists>sf s'. RegisterFunc linux_amd64 idle (TPointer marked_type) 64 (start_state text_mem) =
     (Inr (Some (SlowBound sf)), s') \<and> call_cif idle sf [] = Inr (sf_fixedCif sf)"
proof -
  have "try_fast linux_amd64 marked_type = (None, False)"
    by (simp add: try_fast_def fast_build_def tryRegisterFastPath_def marked_type_def NumIn_def Variadic_def
        scan_param_def word_kinds_def float_kinds_def)
  then obtain b s' where run: "RegisterFunc linux_amd64 idle (TPointer marked_type) 64 (start_state text_mem) = (Inr b, s')"
    by (simp add: RegisterFunc_def marked_type_def check_results_def NumOut_def NumIn_def marker_of_def CDecl_def
      Variadic_def resolve_variadic_def goArgTypeToFfiType_def return_type_def lift_res_def bind_st_def
      make_binding_def idle_engine_def upt_rec)
  moreover have "\<not> IsVariadic marked_type" "0 < NumIn marked_type" "func_ins marked_type ! 0 = Variadic"
    by (simp_all add: marked_type_def NumIn_def)
  ultimately have "\<exists>sf r ts. b = Some (SlowBound sf) \<and> sf_isCVariadic sf \<and> sf_startIn sf = 1 \<and>
      PrepareCallInterface idle DefaultCall r ts = (None, sf_fixedCif sf) \<and>
      call_cif idle sf [] = Inr (sf_fixedCif sf)"
    by (intro variadic_marker_ignored)
  then show ?thesis
    using run by blast
qed

end
