(* ===== verification/Results.thy ===== *)
theory Results
  imports SlowPath
begin

text \<open>
  What the reflect path makes of a native result: the Go value is the one that stands for the bytes
  the call left at the result's place, whatever separate buffers the implementation uses for it.
\<close>

section \<open>The Go value of a C result\<close>

text \<open>
  The abstract conversion: a C string becomes its bytes, a null one the empty string; a boolean is
  any nonzero byte; everything else is its bytes. \<open>go_result\<close> adds the two types without a C form of
  their own: a slice whose only word set is the pointer, and a Go function bound to the pointer.
\<close>

definition result_value :: "go_type \<Rightarrow> 'w mem \<Rightarrow> uintptr \<Rightarrow> retval res" where
  "result_value t m rv =
     (if Kind t = KString then
        bind_res (load_word m rv) (\<lambda>w.
          if w = 0 then Inr (RString []) else bind_res (returning (cStringToGoString m w)) (\<lambda>s. Inr (RString s)))
      else if Kind t = KBool then bind_res (load m rv 1) (\<lambda>b. Inr (RBool (b ! 0 \<noteq> 0)))
      else bind_res (load m rv (Size t)) (\<lambda>bs. Inr (RMem bs)))"

definition go_result :: "target \<Rightarrow> 'w goffi \<Rightarrow> go_type \<Rightarrow> 'w gstate \<Rightarrow> uintptr \<Rightarrow> retval res" where
  "go_result T E t s rv =
     (if Kind t = KSlice then bind_res (load_word (gmem s) rv) (\<lambda>w. Inr (RMem (le_bytes 8 w @ replicate 16 0)))
      else if Kind t = KFunc then
        bind_res (load_word (gmem s) rv) (\<lambda>w.
          if w = 0 then Inr (RFunc None) else bind_res (fst (RegisterFunc T E (TPointer t) w s)) (\<lambda>b. Inr (RFunc b)))
      else result_value t (gmem s) rv)"

definition error_values :: "target \<Rightarrow> 'w goffi \<Rightarrow> slow_fn \<Rightarrow> uintptr \<Rightarrow> 'w gstate \<Rightarrow> retval list res" where
  "error_values T E sf errPtr s =
     (if sf_hasError sf then bind_res (fst (call_error T E errPtr s)) (\<lambda>e. Inr [RError e]) else Inr [])"

section \<open>Steps that only read\<close>

lemma bind_load_st: "bind_st (load_st a n) f s = (case load (gmem s) a n of Inl e \<Rightarrow> (Inl e, s) | Inr bs \<Rightarrow> f bs s)"
  by (cases "load (gmem s) a n") (simp_all add: bind_st_def load_st_run)

lemma bind_load_word_st:
  "bind_st (load_word_st a) f s = (case load_word (gmem s) a of Inl e \<Rightarrow> (Inl e, s) | Inr w \<Rightarrow> f w s)"
  by (cases "load_word (gmem s) a") (simp_all add: bind_st_def load_word_st_run)

lemma bind_read_st:
  "bind_st (read_st rd a) f s = (case returning (rd (gmem s) a) of Inl e \<Rightarrow> (Inl e, s) | Inr bs \<Rightarrow> f bs s)"
  by (cases "returning (rd (gmem s) a)") (simp_all add: bind_st_def read_st_run)

lemma call_error_same: "\<exists>r. call_error T E p s = (r, s)"
proof (cases "GOOS T = Windows")
  case True
  then show ?thesis
    by (simp add: call_error_def getErr_windows_def bind_st_def on_mem_def lift_st_def)
next
  case False
  then show ?thesis
    by (cases "load (gmem s) p 4") (simp_all add: call_error_def getErr_def bind_load_st Let_def)
qed

lemma error_result_run: "error_result T E sf p s =
    (case error_values T E sf p s of Inl e \<Rightarrow> (Inl e, s) | Inr es \<Rightarrow> (Inr es, s))"
proof -
  obtain r where r: "call_error T E p s = (r, s)"
    using call_error_same by blast
  then show ?thesis
    by (cases r) (simp_all add: error_result_def error_values_def bind_st_def)
qed

lemma store_st_run: "store (gmem s) a bs = Inr m \<Longrightarrow> store_st a bs s = (Inr (), s\<lparr>gmem := m\<rparr>)"
  by (simp add: store_st_def on_mem_def lift_st_def)

section \<open>The conversion\<close>

lemma pointer_result_size: "Kind t = KPointer \<or> Kind t = KUnsafePointer \<Longrightarrow> Size t = 8"
  using Size_slot [of t] by (auto simp: is_word_kind_def word_kinds_def)

text \<open>
  \<open>unpackRet\<close> for the kinds whose result is in the result variable itself, and for those that go
  through the buffer of the context.
\<close>

lemma unpackRet_value:
  assumes k: "Kind t \<notin> {KSlice, KFunc}" and ret: "mapped (gmem s) retVal (Size t)"
    and place: "Kind t \<notin> set retBuf_kinds \<Longrightarrow> load (gmem s) retVal (Size t) = load (gmem s) rv (Size t)"
  shows "fst (unpackRet T E t rv retVal s) = result_value t (gmem s) rv"
proof -
  consider "Kind t = KString" | "Kind t = KBool" | "Kind t = KPointer \<or> Kind t = KUnsafePointer"
    | "Kind t \<notin> {KString, KBool, KPointer, KUnsafePointer, KSlice, KFunc}"
    using k by blast
  then show ?thesis
  proof cases
    case 1
    then show ?thesis
      by (simp add: unpackRet_def result_value_def bind_load_word_st bind_read_st bind_res_def
          split: sum.split)
  next
    case 2
    then show ?thesis
      by (simp add: unpackRet_def result_value_def bind_load_st bind_res_def split: sum.split)
  next
    case 3
    have size: "Size t = 8"
      using 3 by (rule pointer_result_size)
    have kinds: "Kind t \<noteq> KString" "Kind t \<noteq> KBool" "Kind t \<in> set pointer_kinds"
      using 3 by (auto simp: pointer_kinds_def)
    show ?thesis
    proof (cases "load (gmem s) rv 8")
      case (Inl e)
      then show ?thesis
        using kinds by (simp add: unpackRet_def result_value_def bind_load_word_st load_word_def size)
    next
      case (Inr bs)
      then have len: "length bs = 8"
        by (rule load_length)
      then have word: "le_bytes 8 (of_le bs) = bs"
        using le_bytes_of_le [of bs] by simp
      obtain m where m: "store (gmem s) retVal bs = Inr m"
        using store_mapped [of "gmem s" retVal bs] ret len size by auto
      have reads: "load m retVal 8 = Inr bs"
        using store_load [OF m] len by simp
      have "load_word_st rv s = (Inr (of_le bs), s)"
        using Inr by (simp add: load_word_st_run load_word_def)
      then show ?thesis
        using kinds Inr store_st_run [OF m] reads
        by (simp add: unpackRet_def result_value_def size word bind_st_def load_st_run)
    qed
  next
    case 4
    then have "Kind t \<notin> set retBuf_kinds" "Kind t \<notin> set pointer_kinds"
      by (auto simp: retBuf_kinds_def pointer_kinds_def)
    then show ?thesis
      using 4 place by (simp add: unpackRet_def result_value_def bind_load_st bind_res_def split: sum.split)
  qed
qed

text \<open>A slice is read back from the result variable, where the native call has left the length and the capacity zero.\<close>

lemma slice_size: "Kind t = KSlice \<Longrightarrow> Size t = 24"
proof (induction t)
  case (TPrim p)
  then show ?case
    by (cases p) simp_all
qed simp_all

lemma store_slice_word:
  assumes "load m a 24 = Inr (replicate 24 0)" "store m a (le_bytes 8 w) = Inr m'"
  shows "load m' a 24 = Inr (le_bytes 8 w @ replicate 16 0)"
proof -
  have "load m' a 8 = Inr (le_bytes 8 w)"
    using store_load [OF assms(2)] by simp
  moreover have "load m' (a + of_nat 8) 16 = load m (a + of_nat 8) 16"
    using store_disjoint [of m a 0 "le_bytes 8 w" m' 8 16] assms(2) by simp
  moreover have "load m (a + of_nat 8) 16 = Inr (replicate 16 0)"
    using load_slice [of m a "replicate 24 0" 8 16] assms(1) by simp
  ultimately show ?thesis
    using load_append [of m' a "le_bytes 8 w" "replicate 16 0"] by simp
qed

lemma unpackRet_result:
  assumes ret: "mapped (gmem s) retVal (Size t)"
    and place: "Kind t \<notin> set retBuf_kinds \<Longrightarrow> load (gmem s) retVal (Size t) = load (gmem s) rv (Size t)"
    and slice: "Kind t = KSlice \<Longrightarrow> load (gmem s) retVal 24 = Inr (replicate 24 0)"
  shows "fst (unpackRet T E t rv retVal s) = go_result T E t s rv"
proof -
  consider (plain) "Kind t \<notin> {KSlice, KFunc}" | (slice) "Kind t = KSlice" | (func) "Kind t = KFunc"
    by blast
  then show ?thesis
  proof cases
    case plain
    then show ?thesis
      using unpackRet_value [OF plain ret place] by (simp add: go_result_def)
  next
    case slice
    show ?thesis
    proof (cases "load_word (gmem s) rv")
      case (Inl e)
      then show ?thesis
        by (simp add: unpackRet_def go_result_def slice pointer_kinds_def bind_load_word_st)
    next
      case (Inr w)
      obtain m where m: "store (gmem s) retVal (le_bytes 8 w) = Inr m"
        using store_mapped [of "gmem s" retVal "le_bytes 8 w"] mapped_part [OF ret, of 0 8] slice_size [OF slice] by auto
      show ?thesis
        using store_slice_word [OF assms(3) [OF slice] m] store_st_run [OF m] slice_size [OF slice]
        by (simp add: unpackRet_def go_result_def slice pointer_kinds_def bind_load_word_st Inr bind_st_def load_st_run load_word_st_run)
    qed
  next
    case func
    then have run: "unpackRet T E t rv retVal s = (case load_word (gmem s) rv of Inl e \<Rightarrow> (Inl e, s)
        | Inr w \<Rightarrow> if w = 0 then (Inr (RFunc None), s)
            else bind_st (RegisterFunc T E (TPointer t) w) (\<lambda>b. pure_st (RFunc b)) s)"
      by (simp add: unpackRet_def pointer_kinds_def bind_load_word_st split: sum.split)
    have reg: "fst (bind_st p (\<lambda>b. pure_st (RFunc b)) s) = bind_res (fst (p s)) (\<lambda>b. Inr (RFunc b))"
      for p :: "('a gstate, bound option) prog"
      by (simp add: bind_st_def bind_res_def split: prod.split sum.split)
    show ?thesis
      unfolding run using func by (simp add: go_result_def reg split: sum.split)
  qed
qed

text \<open>
  Filling the result variable of a struct does not change what the caller then reads as the error; so
  it is where the thread's errno has no byte in common with the variable.
\<close>

definition errno_apart :: "target \<Rightarrow> 'w goffi \<Rightarrow> uintptr \<Rightarrow> uintptr \<Rightarrow> nat \<Rightarrow> 'w gstate \<Rightarrow> bool" where
  "errno_apart T E errPtr retVal n s \<longleftrightarrow> (\<forall>bs m. length bs = n \<longrightarrow> store (gmem s) retVal bs = Inr m \<longrightarrow>
     fst (call_error T E errPtr (s\<lparr>gmem := m\<rparr>)) = fst (call_error T E errPtr s))"

lemma errno_apart_unix:
  assumes "GOOS T \<noteq> Windows" "\<forall>i<4. \<forall>j<n. errPtr + of_nat i \<noteq> retVal + of_nat j"
  shows "errno_apart T E errPtr retVal n s"
  unfolding errno_apart_def
proof (intro allI impI)
  fix bs m assume "length bs = n" "store (gmem s) retVal bs = Inr m"
  then have "load m errPtr 4 = load (gmem s) errPtr 4"
    using assms(2) by (intro load_cong_bytes allI impI store_bytes_other) auto
  then show "fst (call_error T E errPtr (s\<lparr>gmem := m\<rparr>)) = fst (call_error T E errPtr s)"
    using assms(1) by (simp add: call_error_def getErr_def bind_load_st Let_def split: sum.split)
qed

text \<open>The places of a result: what they are, and that native code does not unmap them.\<close>

lemma result_places_spec:
  assumes "result_places t c s = (Inr (rv, retVal, buf), s')"
  shows "mapped (gmem s') retVal (Size t) \<and> Size t < heap_limit \<and>
    (buf = None \<and> (Kind t \<in> set retBuf_kinds \<and> rv = sc_addr c + 768 \<or>
        Kind t \<notin> set retBuf_kinds \<and> Kind t \<noteq> KStruct \<and> rv = retVal) \<or>
     buf = Some rv \<and> Kind t = KStruct)"
proof -
  have kinds: "KStruct \<notin> set retBuf_kinds"
    by (simp add: retBuf_kinds_def)
  obtain a m1 where a: "gnew (replicate (Size t) 0) (gmem s) = Inr (a, m1)"
    and rest: "(if Kind t \<in> set retBuf_kinds then pure_st (sc_addr c + 768, a, None)
       else if Kind t = KStruct then
         bind_st (new_st (replicate (Size t + 7) 0)) (\<lambda>buf. pure_st (buf, a, Some buf))
       else pure_st (a, a, None)) (s\<lparr>gmem := m1\<rparr>) = (Inr (rv, retVal, buf), s')"
    using assms unfolding result_places_def bind_st_eq_Inr new_st_eq_Inr by blast
  have lim: "Size t < heap_limit"
    using a by (auto simp: gnew_def split: if_splits)
  have block: "load m1 a (Size t) = Inr (replicate (Size t) 0)" "settled m1 a (Size t)"
    using gnew_spec(2,3) [OF a] by simp_all
  have "mem_ext m1 (gmem s')" "retVal = a"
    using rest gnew_spec(1) by (auto simp: st_simps split: if_splits)
  then have "mapped (gmem s') retVal (Size t)"
    using block load_mem_ext [of m1 "gmem s'" a "Size t"] mapped_load by blast
  then show ?thesis
    using rest lim kinds by (auto simp: st_simps split: if_splits)
qed

lemma result_places_struct:
  assumes "result_places t c s = (Inr (rv, retVal, buf), s')" "Kind t \<notin> set retBuf_kinds"
  shows "mapped (gmem s') rv (Size t)"
proof (cases "Kind t = KStruct")
  case True
  then obtain s1 where "new_st (replicate (Size t + 7) 0) s1 = (Inr rv, s')"
    using assms by (auto simp: result_places_def bind_st_eq_Inr split: if_splits)
  then have "holds (gmem s') rv (replicate (Size t + 7) 0)"
    by (rule new_st_ok(2))
  then have "mapped (gmem s') rv (Size t + 7)"
    using mapped_load [of "gmem s'" rv "Size t + 7"] by (simp add: holds_def)
  then show ?thesis
    using mapped_part [of "gmem s'" rv "Size t + 7" 0 "Size t"] by simp
next
  case False
  then show ?thesis
    using result_places_spec [OF assms(1)] assms(2) by auto
qed

lemma slow_finish_result:
  assumes ret: "hasActualReturn sf" and t: "t = func_outs (sf_type sf) ! 0"
    and places: "result_places t c s0 = (Inr (rv, retVal, buf), s1)"
    and after: "\<forall>a. mbytes (gmem s1) a \<noteq> None \<longrightarrow> mbytes (gmem s) a \<noteq> None"
    and slice: "Kind t = KSlice \<Longrightarrow> load (gmem s) retVal 24 = Inr (replicate 24 0)"
    and apart: "Kind t = KStruct \<Longrightarrow> sf_hasError sf \<Longrightarrow> errno_apart T E errPtr retVal (Size t) s"
  shows "fst (slow_finish T E sf errPtr (rv, retVal, buf) s) =
    bind_res (error_values T E sf errPtr s) (\<lambda>es. bind_res (go_result T E t s rv) (\<lambda>v. Inr (v # es)))"
proof -
  note sp = result_places_spec [OF places]
  have ret5: "mapped (gmem s) retVal (Size t)"
    using sp after by (auto simp: mapped_def)
  show ?thesis
  proof (cases "Kind t = KStruct")
    case False
    then have buf: "buf = None" and place: "Kind t \<notin> set retBuf_kinds \<Longrightarrow> rv = retVal"
      using sp by auto
    have val: "fst (unpackRet T E t rv retVal s) = go_result T E t s rv"
      using unpackRet_result [OF ret5 _ slice] place by blast
    show ?thesis
      using ret val False by (auto simp: slow_finish_def buf copy_struct_def error_result_run bind_st_def bind_res_def
          t [symmetric] split: sum.splits prod.splits)
  next
    case True
    then have buf: "buf = Some rv" and kinds: "Kind t \<notin> set retBuf_kinds"
      using sp by (auto simp: retBuf_kinds_def)
    have "mapped (gmem s) rv (Size t)"
      using result_places_struct [OF places kinds] after by (auto simp: mapped_def)
    then obtain bs where Inr: "load (gmem s) rv (Size t) = Inr bs"
      using load_mapped by blast
    then have result: "go_result T E t s rv = Inr (RMem bs)"
      using True by (simp add: go_result_def result_value_def)
    have len: "length bs = Size t"
      using Inr by (rule load_length)
    obtain m where m: "store (gmem s) retVal bs = Inr m"
      using store_mapped [of "gmem s" retVal bs] ret5 len by auto
    have reads: "load m retVal (Size t) = Inr bs"
      using store_load [OF m] len sp by (simp add: heap_limit_def)
    have errs: "error_values T E sf errPtr (s\<lparr>gmem := m\<rparr>) = error_values T E sf errPtr s"
      using apart [OF True] len m by (auto simp: error_values_def errno_apart_def)
    have "fst (unpackRet T E t rv retVal (s\<lparr>gmem := m\<rparr>)) = Inr (RMem bs)"
      using True reads by (simp add: unpackRet_def bind_load_st pointer_kinds_def)
    then have val: "fst (bind_st (unpackRet T E t rv retVal) (\<lambda>r. pure_st (r # es)) (s\<lparr>gmem := m\<rparr>)) = Inr (RMem bs # es)" for es
      by (cases "unpackRet T E t rv retVal (s\<lparr>gmem := m\<rparr>)") (simp add: bind_st_def)
    have copy: "copy_struct t retVal buf s = (Inr (), s\<lparr>gmem := m\<rparr>)"
      using Inr store_st_run [OF m] by (simp add: buf copy_struct_def bind_st_def load_st_run)
    have "slow_finish T E sf errPtr (rv, retVal, buf) s =
        bind_st (error_result T E sf errPtr) (\<lambda>errs. bind_st (unpackRet T E t rv retVal) (\<lambda>r. pure_st (r # errs))) (s\<lparr>gmem := m\<rparr>)"
      using ret by (simp add: slow_finish_def t [symmetric] bind_st_def [of "copy_struct t retVal buf"] copy)
    then show ?thesis
      using val result by (simp add: bind_st_def [of "error_result T E sf errPtr"] error_result_run errs bind_res_def
          split: sum.split)
  qed
qed

section \<open>The call as a whole\<close>

text \<open>The state in which the body starts: the context taken out, the thread locked for an errno function.\<close>

definition call_start :: "slow_fn \<Rightarrow> slow_ctx \<Rightarrow> slow_ctx list \<Rightarrow> 'w mem \<Rightarrow> 'w gstate \<Rightarrow> 'w gstate" where
  "call_start sf ctx rest m s = s\<lparr>gmem := m, slowCallPool := rest,
     lockDepth := (if sf_hasError sf then lockDepth s + 1 else lockDepth s)\<rparr>"

definition first_frame :: "slow_ctx \<Rightarrow> frame" where
  "first_frame ctx = \<lparr>fr_ctx = ctx, keepAliveCount = 0, ffiArgsCount = 0\<rparr>"

lemma slow_call_body:
  assumes "slow_pool_get (slowCallPool s) (gmem s) = Inr (ctx, rest, m)"
  shows "fst (slow_call T E sf args vars s) = fst (slow_body T E sf args vars (call_start sf ctx rest m s, first_frame ctx))"
    "gmem (snd (slow_call T E sf args vars s)) =
      gmem (fst (snd (slow_body T E sf args vars (call_start sf ctx rest m s, first_frame ctx))))"
proof -
  have start: "call_start sf ctx rest m s = (if sf_hasError sf
      then s\<lparr>gmem := m, slowCallPool := rest\<rparr>\<lparr>lockDepth := lockDepth (s\<lparr>gmem := m, slowCallPool := rest\<rparr>) + 1\<rparr>
      else s\<lparr>gmem := m, slowCallPool := rest\<rparr>)"
    by (cases s) (simp add: call_start_def)
  show "fst (slow_call T E sf args vars s) = fst (slow_body T E sf args vars (call_start sf ctx rest m s, first_frame ctx))"
    "gmem (snd (slow_call T E sf args vars s)) =
      gmem (fst (snd (slow_body T E sf args vars (call_start sf ctx rest m s, first_frame ctx))))"
    by (auto simp: slow_call_def assms locked_def defer_st_def start first_frame_def split: prod.split)
qed

lemma slow_prepare_places:
  assumes "slow_prepare T E sf args vars (s, fr0) = (Inr (ep, cif, places), (s1, fr))" "hasActualReturn sf"
  shows "\<exists>s0. result_places (func_outs (sf_type sf) ! 0) (fr_ctx fr) s0 = (Inr places, s1)"
  using assms by (fastforce simp: slow_prepare_def st_simps outer_Inr get_frame_Inr split: prod.splits)

text \<open>The context of a call stays the one taken from the pool.\<close>

lemma slow_prepare_ctx:
  assumes "slow_prepare T E sf args vars (s, fr0) = (Inr x, (s1, fr))" "frame_ok fr0"
  shows "sc_addr (fr_ctx fr) = sc_addr (fr_ctx fr0)"
  using keeps_run [OF bookkeeping.keeps_prepare [of "slowCallPool s" "lockDepth s" "sc_addr (fr_ctx fr0)"],
      of "(s, fr0)" T E sf args vars] assms
  by (simp add: call_inv_def)

lemma slow_body_result:
  assumes prep: "slow_prepare T E sf args vars (s, fr0) = (Inr (errPtr, cif, (rv, retVal, buf)), (s1, fr))"
    and ret: "hasActualReturn sf" and t: "t = func_outs (sf_type sf) ! 0" and kh: "keeps_heap E"
    and call: "CallFunction E cif (sf_cfn sf) rv (used_args fr) (gmem s1) = (callErrno, err, m)"
    and slice: "Kind t = KSlice \<Longrightarrow> load m retVal 24 = Inr (replicate 24 0)"
    and apart: "Kind t = KStruct \<Longrightarrow> sf_hasError sf \<Longrightarrow> errno_apart T E errPtr retVal (Size t) (s1\<lparr>gmem := m\<rparr>)"
  shows "fst (slow_body T E sf args vars (s, fr0)) =
    (case err of
       Some e \<Rightarrow> Inl (PanicErr e)
     | None \<Rightarrow> bind_res (error_values T E sf errPtr (s1\<lparr>gmem := m\<rparr>)) (\<lambda>es.
         bind_res (go_result T E t (s1\<lparr>gmem := m\<rparr>) rv) (\<lambda>v. Inr (v # es))))"
proof -
  obtain s0 where places: "result_places t (fr_ctx fr) s0 = (Inr (rv, retVal, buf), s1)"
    using slow_prepare_places [OF prep ret] t by blast
  have "\<forall>a. mbytes (gmem s1) a \<noteq> None \<longrightarrow> mbytes (gmem (s1\<lparr>gmem := m\<rparr>)) a \<noteq> None"
    using keeps_heap_call [OF kh call] by (simp add: grows_def)
  note fin = slow_finish_result [OF ret t places this, of T E errPtr]
  have run: "slow_body T E sf args vars (s, fr0) =
      (case err of Some e \<Rightarrow> (Inl (PanicErr e), (s1\<lparr>gmem := m\<rparr>, fr))
       | None \<Rightarrow> outer (slow_finish T E sf errPtr (rv, retVal, buf)) (s1\<lparr>gmem := m\<rparr>, fr))"
    by (simp add: slow_body_def bind_st_Inr [of "slow_prepare T E sf args vars", OF prep] engine_call_run call)
  have out: "fst (outer p (st, fr)) = fst (p st)" for p :: "('a gstate, retval list) prog" and st
    by (simp add: outer_def split: prod.split)
  show ?thesis
    unfolding run using fin slice apart by (simp add: out split: option.split)
qed

text \<open>The same for a function without a C result.\<close>

lemma slow_body_void:
  assumes prep: "slow_prepare T E sf args vars (s, fr0) = (Inr (errPtr, cif, places), (s1, fr))"
    and ret: "\<not> hasActualReturn sf"
    and call: "CallFunction E cif (sf_cfn sf) (fst places) (used_args fr) (gmem s1) = (callErrno, err, m)"
  shows "fst (slow_body T E sf args vars (s, fr0)) =
    (case err of Some e \<Rightarrow> Inl (PanicErr e) | None \<Rightarrow> error_values T E sf errPtr (s1\<lparr>gmem := m\<rparr>))"
proof -
  have run: "slow_body T E sf args vars (s, fr0) =
      (case err of Some e \<Rightarrow> (Inl (PanicErr e), (s1\<lparr>gmem := m\<rparr>, fr))
       | None \<Rightarrow> outer (slow_finish T E sf errPtr places) (s1\<lparr>gmem := m\<rparr>, fr))"
    by (simp add: slow_body_def bind_st_Inr [of "slow_prepare T E sf args vars", OF prep] engine_call_run call)
  have out: "fst (outer p (st, fr)) = fst (p st)" for p :: "('a gstate, retval list) prog" and st
    by (simp add: outer_def split: prod.split)
  have "slow_finish T E sf errPtr places = error_result T E sf errPtr"
    using ret by (cases places) (simp add: slow_finish_def)
  then show ?thesis
    unfolding run by (auto simp: out error_result_run split: option.split sum.split)
qed

section \<open>A call that runs\<close>

text \<open>
  A call of a function of fixed arity without an errno result, from any state whose pool satisfies its
  invariants: the native call happens in memory that only grew, and the returned value stands for
  what it left.
\<close>

definition plain_call :: "'w gstate \<Rightarrow> slow_fn \<Rightarrow> rvalue list \<Rightarrow> bool" where
  "plain_call s sf args \<longleftrightarrow> \<not> sf_hasError sf \<and> \<not> sf_isGoVariadic sf \<and> sf_fixedIn sf - sf_startIn sf \<le> 32 \<and>
     (\<forall>i\<in>{sf_startIn sf..<sf_fixedIn sf}. packable (Kind (rv_type (args ! i))) \<and>
        Kind (rv_type (args ! i)) \<noteq> KFunc \<and> value_ok (gmem s) (args ! i)) \<and>
     mbrk (gmem s) + slow_ctx_size + call_room sf args < heap_limit"

lemma retBuf_mapped:
  assumes ok: "pool_ok slow_ctx_size m0 (map sc_addr (ctx # rest))" and ext: "mem_ext m0 m1"
  shows "mapped m1 (sc_addr ctx + 768) 32"
proof -
  have c: "mapped m0 (sc_addr ctx) slow_ctx_size" "unat (sc_addr ctx) + slow_ctx_size \<le> mbrk m0" "mbrk m0 \<le> heap_limit"
    using ok by (auto simp: pool_ok_def)
  have "mapped m1 (sc_addr ctx) slow_ctx_size"
    by (rule mapped_mem_ext [OF ext settled_block [OF c(2,3)] c(1)])
  then show ?thesis
    using mapped_part [of m1 "sc_addr ctx" slow_ctx_size 768 32] by (simp add: slow_ctx_size_def)
qed

lemma slow_call_runs:
  assumes pool: "slow_pool_ok s" and plain: "plain_call s sf args" and E: "callbacks_extend E" "keeps_heap E"
    and t: "t = func_outs (sf_type sf) ! 0" "hasActualReturn sf \<Longrightarrow> Kind t \<notin> {KSlice, KFunc}"
  shows "\<exists>rv ptrs m1 callErrno err m. mem_ext (gmem s) m1 \<and>
    (hasActualReturn sf \<longrightarrow> mapped m1 rv (if Kind t \<in> set retBuf_kinds then 8 else Size t)) \<and>
    list_all2 (passes m1) (passed_args sf args vars) ptrs \<and>
    CallFunction E (sf_fixedCif sf) (sf_cfn sf) rv ptrs m1 = (callErrno, err, m) \<and>
    fst (slow_call T E sf args vars s) =
      (case err of
         Some e \<Rightarrow> Inl (PanicErr e)
       | None \<Rightarrow> if hasActualReturn sf then bind_res (result_value t m rv) (\<lambda>v. Inr [v]) else Inr [])"
proof -
  have pl: "\<not> sf_hasError sf" "\<not> sf_isGoVariadic sf" "sf_fixedIn sf - sf_startIn sf \<le> 32"
    "mbrk (gmem s) + slow_ctx_size + call_room sf args < heap_limit"
    and args: "\<forall>i\<in>{sf_startIn sf..<sf_fixedIn sf}. packable (Kind (rv_type (args ! i))) \<and>
        Kind (rv_type (args ! i)) \<noteq> KFunc \<and> value_ok (gmem s) (args ! i)"
    using plain by (simp_all add: plain_call_def)
  have pk: "slow_pool_clean s" "pool_ok slow_ctx_size (gmem s) (map sc_addr (slowCallPool s))" "0 < mbrk (gmem s)"
    using pool by (simp_all add: slow_pool_ok_def)
  obtain ctx rest m0 where get: "slow_pool_get (slowCallPool s) (gmem s) = Inr (ctx, rest, m0)"
    using slow_pool.get_total [of "slowCallPool s" "gmem s"] pl(4) by (auto simp: add.commute)
  have c: "ctx_clean ctx"
    using slow_pool_get_clean(1) [OF get] pk(1) by (simp add: slow_pool_clean_def)
  have g: "mem_ext (gmem s) m0" "pool_ok slow_ctx_size m0 (map sc_addr (ctx # rest))"
    using slow_pool.get_ok [of "gmem s" "[]", OF _ get] pk(2) by simp_all
  have brk0: "mbrk m0 \<le> mbrk (gmem s) + slow_ctx_size"
    using get slow_news unfolding news_def slow_pool_get_def pool_get_def
    by (fastforce simp: res_simps split: list.splits)
  let ?start = "call_start sf ctx rest m0 s"
  have args0: "\<forall>i\<in>{sf_startIn sf..<sf_fixedIn sf}. packable (Kind (rv_type (args ! i))) \<and>
      Kind (rv_type (args ! i)) \<noteq> KFunc \<and> value_ok (gmem ?start) (args ! i)"
    using args value_ok_mem_ext [OF g(1)] by (simp add: call_start_def)
  have room: "mbrk (gmem ?start) + call_room sf args < heap_limit" "0 < mbrk (gmem ?start)"
    using brk0 pl(4) pk(3) g(1) by (auto simp: call_start_def mem_ext_def)
  obtain rv retVal buf s1 fr where prep: "slow_prepare T E sf args vars (?start, first_frame ctx) =
      (Inr (0, sf_fixedCif sf, (rv, retVal, buf)), (s1, fr))"
    using slow_prepare_returns [OF pl(1-3) args0 room E(1) c] unfolding first_frame_def by fastforce
  have del: "delivered s1 fr (passed_args sf args vars)" "extends ?start s1"
    using slow_prepare_delivered [OF E(1) _ _ room(2) c prep [unfolded first_frame_def]] pl(1,2) args0
    by (auto simp: passed_args_def)
  have ext: "mem_ext m0 (gmem s1)"
    using del(2) by (simp add: extends_def call_start_def)
  have fctx: "sc_addr (fr_ctx fr) = sc_addr ctx"
    using slow_prepare_ctx [OF prep] frame_ok_start [OF c] by (simp add: first_frame_def)
  have rv: "mapped (gmem s1) rv (if Kind t \<in> set retBuf_kinds then 8 else Size t)" if ret: "hasActualReturn sf"
  proof -
    obtain sp where places: "result_places t (fr_ctx fr) sp = (Inr (rv, retVal, buf), s1)"
      using slow_prepare_places [OF prep ret] t(1) by blast
    show ?thesis
    proof (cases "Kind t \<in> set retBuf_kinds")
      case True
      then have "rv = sc_addr ctx + 768"
        using result_places_spec [OF places] fctx by (auto simp: retBuf_kinds_def)
      then show ?thesis
        using True mapped_part [OF retBuf_mapped [OF g(2) ext], of 0 8] by simp
    next
      case False
      then show ?thesis
        using result_places_spec [OF places] result_places_struct [OF places] by auto
    qed
  qed
  obtain callErrno err m where call: "CallFunction E (sf_fixedCif sf) (sf_cfn sf) rv (used_args fr) (gmem s1) = (callErrno, err, m)"
    by (cases "CallFunction E (sf_fixedCif sf) (sf_cfn sf) rv (used_args fr) (gmem s1)")
  have "fst (slow_call T E sf args vars s) =
      (case err of
         Some e \<Rightarrow> Inl (PanicErr e)
       | None \<Rightarrow> if hasActualReturn sf then bind_res (result_value t m rv) (\<lambda>v. Inr [v]) else Inr [])"
  proof (cases "hasActualReturn sf")
    case True
    then show ?thesis
      unfolding slow_call_body(1) [OF get]
      using slow_body_result [OF prep True t(1) E(2) call] pl(1) t(2)
      by (cases err) (simp_all add: error_values_def go_result_def)
  next
    case False
    then show ?thesis
      unfolding slow_call_body(1) [OF get]
      using slow_body_void [OF prep False, of callErrno err m] call pl(1)
      by (cases err) (simp_all add: error_values_def)
  qed
  moreover have "mem_ext (gmem s) (gmem s1)"
    using g(1) ext by (rule mem_ext_trans)
  ultimately show ?thesis
    using rv del(1) call unfolding delivered_def by blast
qed

section \<open>Properties\<close>

lemma slow_call_outcome:
  assumes E: "callbacks_extend E" "keeps_heap E" and clean: "slow_pool_clean s"
    and get: "slow_pool_get (slowCallPool s) (gmem s) = Inr (ctx, rest, m0)" and sT: "sT = call_start sf ctx rest m0 s"
    and errno: "(if sf_hasError sf then clear_error T E sT else (Inr 0, sT)) = (Inr errPtr, sE)"
    and args: "\<forall>v\<in>set (passed_args sf args vars). value_ok (gmem sE) v" "0 < mbrk (gmem sE)"
    and prep: "slow_prepare T E sf args vars (sT, first_frame ctx) = (Inr (ep, cif, (rv, retVal, buf)), (s1, fr))"
    and call: "CallFunction E cif (sf_cfn sf) rv (used_args fr) (gmem s1) = (callErrno, err, m)"
    and t: "t = func_outs (sf_type sf) ! 0"
    and slice: "hasActualReturn sf \<Longrightarrow> Kind t = KSlice \<Longrightarrow> load m retVal 24 = Inr (replicate 24 0)"
    and apart: "hasActualReturn sf \<Longrightarrow> Kind t = KStruct \<Longrightarrow> sf_hasError sf \<Longrightarrow>
      errno_apart T E errPtr retVal (Size t) (s1\<lparr>gmem := m\<rparr>)"
  shows "list_all2 (passes (gmem s1)) (passed_args sf args vars) (used_args fr) \<and>
    fst (slow_call T E sf args vars s) =
      (case err of
         Some e \<Rightarrow> Inl (PanicErr e)
       | None \<Rightarrow> bind_res (error_values T E sf errPtr (s1\<lparr>gmem := m\<rparr>)) (\<lambda>es.
           if hasActualReturn sf then bind_res (go_result T E t (s1\<lparr>gmem := m\<rparr>) rv) (\<lambda>v. Inr (v # es)) else Inr es))"
proof -
  have c: "ctx_clean ctx"
    using slow_pool_get_clean(1) [OF get] clean by (simp add: slow_pool_clean_def)
  have del: "ep = errPtr" "list_all2 (passes (gmem s1)) (passed_args sf args vars) (used_args fr)"
    using slow_prepare_delivered [OF E(1) errno args c prep [unfolded first_frame_def]] by (auto simp: delivered_def)
  have body: "fst (slow_call T E sf args vars s) = fst (slow_body T E sf args vars (sT, first_frame ctx))"
    unfolding sT by (rule slow_call_body(1) [OF get])
  show ?thesis
  proof (cases "hasActualReturn sf")
    case True
    have "fst (slow_body T E sf args vars (sT, first_frame ctx)) =
        (case err of
           Some e \<Rightarrow> Inl (PanicErr e)
         | None \<Rightarrow> bind_res (error_values T E sf errPtr (s1\<lparr>gmem := m\<rparr>)) (\<lambda>es.
             bind_res (go_result T E t (s1\<lparr>gmem := m\<rparr>) rv) (\<lambda>v. Inr (v # es))))"
      by (rule slow_body_result [OF prep [unfolded del(1)] True t E(2) call]) (use slice apart True in auto)
    then show ?thesis
      using del(2) True by (simp add: body split: option.split)
  next
    case False
    then show ?thesis
      using slow_body_void [OF prep False, of callErrno err m] call del
      by (cases "error_values T E sf errPtr (s1\<lparr>gmem := m\<rparr>)") (auto simp: body split: option.split)
  qed
qed

text \<open>
  Property C4. A call through the reflect path whose arguments can be packed enters the engine with each
  argument's C form behind its pointer, and returns the Go value that stands for what native code
  left at the result's place: a copied C string, a normalised boolean, a slice of no elements at the
  pointer, a function registered at the pointer (null gives nil), the bytes of anything else, nothing for a function
  without a result; for an errno function the error read right after the call follows. An error of
  the engine, and a fault or a panic of the conversion, is a panic. The buffers in between (the context's, a
  struct's own with room for a whole word, the result variable) do not show. Native code is to leave alone
  the result variable of a slice, which it is not given, and the errno location is not in the result variable of a struct.
\<close>

theorem slow_call_result:
  assumes "callbacks_extend E" and "keeps_heap E" and "slow_pool_clean s"
    and "slow_pool_get (slowCallPool s) (gmem s) = Inr (ctx, rest, m0)" and "sT = call_start sf ctx rest m0 s"
    and "(if sf_hasError sf then clear_error T E sT else (Inr 0, sT)) = (Inr errPtr, sE)"
    and "\<forall>v\<in>set (passed_args sf args vars). value_ok (gmem sE) v" and "0 < mbrk (gmem sE)"
    and "slow_prepare T E sf args vars (sT, first_frame ctx) = (Inr (ep, cif, (rv, retVal, buf)), (s1, fr))"
    and "CallFunction E cif (sf_cfn sf) rv (used_args fr) (gmem s1) = (callErrno, err, m)"
    and "t = func_outs (sf_type sf) ! 0"
    and "hasActualReturn sf \<Longrightarrow> Kind t = KSlice \<Longrightarrow> load m retVal 24 = Inr (replicate 24 0)"
    and "hasActualReturn sf \<Longrightarrow> Kind t = KStruct \<Longrightarrow> sf_hasError sf \<Longrightarrow>
      errno_apart T E errPtr retVal (Size t) (s1\<lparr>gmem := m\<rparr>)"
  shows "list_all2 (passes (gmem s1)) (passed_args sf args vars) (used_args fr) \<and>
    fst (slow_call T E sf args vars s) =
      (case err of
         Some e \<Rightarrow> Inl (PanicErr e)
       | None \<Rightarrow> bind_res (error_values T E sf errPtr (s1\<lparr>gmem := m\<rparr>)) (\<lambda>es.
           if hasActualReturn sf then bind_res (go_result T E t (s1\<lparr>gmem := m\<rparr>) rv) (\<lambda>v. Inr (v # es)) else Inr es))"
  using assms by (rule slow_call_outcome)

text \<open>A native function that returns 42.\<close>

definition answer :: "byte list" where
  "answer = [42, 0, 0, 0]"

lemma length_answer [simp]: "length answer = 4"
  by (simp add: answer_def)

definition answer_engine :: "unit goffi" where
  "answer_engine = idle_engine\<lparr>CallFunction := \<lambda>cif fn rv args m.
     (0, None, case store m rv answer of Inl _ \<Rightarrow> m | Inr m' \<Rightarrow> m')\<rparr>"

lemma answer_engine_ok: "callbacks_extend answer_engine" "keeps_heap answer_engine"
  by (auto simp: callbacks_extend_def keeps_heap_def grows_def answer_engine_def idle_engine_def
      dest!: store_frame split: sum.split) (metis not_None_eq)

theorem slow_call_result_witness:
  "\<exists>p (m :: unit mem). passes m text_arg p \<and>
     fst (slow_call linux_amd64 answer_engine puts_fn [text_arg] [] (start_state text_mem)) = Inr [RMem answer]"
proof -
  let ?s = "start_state text_mem"
  obtain c m0 where get: "slow_pool_get (slowCallPool ?s) (gmem ?s) = Inr (c, [], m0)"
    and m0: "new_slow_ctx text_mem = Inr (c, m0)"
  proof -
    have "\<exists>c m'. new_slow_ctx text_mem = Inr (c, m')"
      by (simp add: new_slow_ctx_def gnew_def text_mem_def slow_ctx_size_def heap_limit_def)
    then show ?thesis
      using that by (auto simp: slow_pool_get_def pool_get_def start_state_def)
  qed
  have c: "ctx_clean c"
    using slow_pool_get_clean(1) [OF get] by (simp add: start_state_def)
  have ext: "mem_ext text_mem m0" "mbrk m0 = mbrk text_mem + slow_ctx_size"
    using slow_news [unfolded news_def] m0 by blast+
  let ?start = "call_start puts_fn c [] m0 ?s"
  have ok: "value_ok (gmem ?start) text_arg"
    using value_ok_mem_ext [OF ext(1) text_arg_ok] by (simp add: call_start_def)
  then have args: "\<forall>i\<in>{sf_startIn puts_fn..<sf_fixedIn puts_fn}. packable (Kind (rv_type ([text_arg] ! i))) \<and>
      Kind (rv_type ([text_arg] ! i)) \<noteq> KFunc \<and> value_ok (gmem ?start) ([text_arg] ! i)"
    by (auto simp: puts_fn_def text_arg_def packable_def)
  have room: "mbrk (gmem ?start) + call_room puts_fn [text_arg] < heap_limit" "0 < mbrk (gmem ?start)"
    by (simp_all add: call_start_def ext(2) call_room_def puts_fn_def pack_room_def text_arg_def heap_limit_def
        slow_ctx_size_def text_mem_def)
  have sf: "\<not> sf_hasError puts_fn" "\<not> sf_isGoVariadic puts_fn" "sf_fixedIn puts_fn - sf_startIn puts_fn \<le> 32"
    "hasActualReturn puts_fn" "func_outs (sf_type puts_fn) ! 0 = TPrim PInt32" "passed_args puts_fn [text_arg] [] = [text_arg]"
    by (simp_all add: puts_fn_def hasActualReturn_def NumOut_def passed_args_def)
  obtain rv retVal buf s1 fr where prep: "slow_prepare linux_amd64 answer_engine puts_fn [text_arg] [] (?start, first_frame c) =
      (Inr (0, sf_fixedCif puts_fn, (rv, retVal, buf)), (s1, fr))"
    using slow_prepare_returns [OF sf(1-3) args room answer_engine_ok(1) c] unfolding first_frame_def by fastforce
  obtain sp where "result_places (TPrim PInt32) (fr_ctx fr) sp = (Inr (rv, retVal, buf), s1)"
    using slow_prepare_places [OF prep sf(4)] sf(5) by auto
  then have "mapped (gmem s1) rv 4"
    using result_places_struct by (fastforce simp: retBuf_kinds_def)
  then obtain m where m: "store (gmem s1) rv answer = Inr m"
    using store_mapped [of "gmem s1" rv answer] by auto
  have call: "CallFunction answer_engine cif fn rv ps (gmem s1) = (0, None, m)" for cif fn ps
    by (simp add: answer_engine_def m)
  have "load m rv 4 = Inr answer"
    using store_load [OF m] by simp
  then have result: "go_result linux_amd64 answer_engine (TPrim PInt32) (s1\<lparr>gmem := m\<rparr>) rv = Inr (RMem answer)"
    by (simp add: go_result_def result_value_def)
  have "list_all2 (passes (gmem s1)) [text_arg] (used_args fr) \<and>
      fst (slow_call linux_amd64 answer_engine puts_fn [text_arg] [] ?s) = Inr [RMem answer]"
    using slow_call_result [OF answer_engine_ok start_state_clean get refl _ _ _ prep call sf(5) [symmetric]] sf ok room(2) result
    by (simp add: error_values_def)
  then show ?thesis
    by (auto simp: list_all2_Cons1)
qed

end
