(* ===== verification/Invoke.thy ===== *)
theory Invoke
  imports Registration Results
begin

text \<open>
  Calling what \<open>RegisterFunc\<close> has put into a function variable, through either path, and the
  agreement of the two paths on what native code gets and on what the caller gets back.
\<close>

section \<open>The argument of a wrapper\<close>

text \<open>
  A wrapper is called under the declared type of the variable: it finds the declared value in the
  register class and width of its own parameter.
\<close>

definition fast_arg :: "kind \<Rightarrow> gval \<Rightarrow> fval" where
  "fast_arg k v =
     (case kind_slot k of
        PPtr \<Rightarrow> FPtr (val_ptr v)
      | PWord \<Rightarrow> FWord (val_bits v)
      | PF32 \<Rightarrow> FF32 (ucast (val_bits v))
      | PF64 \<Rightarrow> FF64 (val_bits v))"

lemma fval_param_fast_arg [simp]: "fval_param (fast_arg k v) = kind_slot k"
  by (simp add: fast_arg_def split: fparam.split)

lemma le_bytes_4_ucast: "le_bytes 4 (ucast (ucast w :: u32)) = le_bytes 4 w"
proof -
  have "(ucast (ucast w :: u32) :: uintptr) = take_bit 32 w"
    by (rule bit_word_eqI) (auto simp: bit_simps)
  moreover have "le_bytes n (take_bit (8 * n) w) = le_bytes n w" for n and w :: uintptr
  proof (induction n arbitrary: w)
    case (Suc n)
    have "(ucast (take_bit (8 * Suc n) w) :: byte) = ucast w"
      by (rule bit_word_eqI) (auto simp: bit_simps)
    moreover have "drop_bit 8 (take_bit (8 * Suc n) w) = take_bit (8 * n) (drop_bit 8 w)"
      by (rule bit_word_eqI) (auto simp: bit_simps)
    ultimately show ?case
      using Suc [of "drop_bit 8 w"] by simp
  qed simp
  from this [of 4 w] show ?thesis
    using calculation by simp
qed

lemma passes_fast_slot:
  assumes kind: "is_word_kind (Kind t) \<or> is_float_kind (Kind t)" and t: "rv_type v = t"
    and d: "goArgTypeToFfiType t = Inr d" and p: "passes m v p"
  shows "load m p (c_size d) = Inr (le_bytes (c_size d) (conv_uintptr (fast_arg (Kind t) (rv_val v))))"
proof -
  have sd: "scalar_descriptor (Kind t) = Inr d"
    using slot_kind_descriptor [OF kind] d by simp
  have "c_size d = slot_size (kind_slot (Kind t))"
    using sd kind by (cases "Kind t") (auto simp: is_word_kind_def word_kinds_def is_float_kind_def float_kinds_def)
  also have "\<dots> = Size t"
    using Size_slot [OF kind] by simp
  finally have size: "c_size d = Size t" .
  show ?thesis
  proof (cases "Kind t \<in> set pointer_kinds")
    case True
    then have "Kind t \<in> {KPointer, KUnsafePointer}"
      using kind by (auto simp: pointer_kinds_def is_word_kind_def word_kinds_def is_float_kind_def float_kinds_def)
    then have "kind_slot (Kind t) = PPtr" "c_size d = 8"
      using sd by auto
    moreover have "holds m p (le_bytes 8 (val_ptr (rv_val v)))"
      using p True kind_tests(2) [OF True] by (simp add: passes_def t)
    ultimately show ?thesis
      by (simp add: holds_def fast_arg_def)
  next
    case False
    then have sc: "Kind t \<in> set scalar_kinds" and nptr: "kind_slot (Kind t) \<noteq> PPtr"
      using kind by (auto simp: pointer_kinds_def scalar_kinds_def is_word_kind_def word_kinds_def
          is_float_kind_def float_kinds_def)
    have h: "holds m p (le_bytes (Size t) (val_bits (rv_val v)))"
      using p sc kind_tests(1) [OF sc] by (simp add: passes_def t)
    have "le_bytes (Size t) (conv_uintptr (fast_arg (Kind t) (rv_val v))) = le_bytes (Size t) (val_bits (rv_val v))"
    proof (cases "kind_slot (Kind t)")
      case PF32
      then have "Size t = 4"
        using Size_slot [OF kind] by simp
      then show ?thesis
        using PF32 by (simp add: fast_arg_def le_bytes_4_ucast)
    qed (use nptr in \<open>simp_all add: fast_arg_def\<close>)
    then show ?thesis
      using h by (simp add: holds_def size)
  qed
qed

section \<open>Calling a function variable\<close>

text \<open>
  A wrapper that has been called: its result, if any, is the low part of the word it returns. A panic
  before the wrapper's return leaves the state as it was.
\<close>

definition fast_values :: "go_type \<Rightarrow> uintptr option \<Rightarrow> retval list" where
  "fast_values ty r = (case r of None \<Rightarrow> [] | Some w \<Rightarrow> [RMem (take (Size (func_outs ty ! 0)) (le_bytes 8 w))])"

definition fast_call ::
  "'w goffi \<Rightarrow> go_type \<Rightarrow> fast_impl \<Rightarrow> call_interface \<Rightarrow> uintptr \<Rightarrow> rvalue list \<Rightarrow> ('w gstate, retval list) prog" where
  "fast_call E ty w cif cfn args = lift_st (\<lambda>s.
     bind_res (run_impl E cif cfn w (map2 (\<lambda>t v. fast_arg (Kind t) (rv_val v)) (func_ins ty) args)
         (fastCallPool s) (gmem s)) (\<lambda>(r, pool, m).
       Inr (fast_values ty r, s\<lparr>gmem := m, fastCallPool := pool\<rparr>)))"

text \<open>Calling a nil function variable is a nil pointer dereference.\<close>

definition call_fn ::
  "target \<Rightarrow> 'w goffi \<Rightarrow> go_type \<Rightarrow> bound option \<Rightarrow> rvalue list \<Rightarrow> rvalue option list \<Rightarrow> ('w gstate, retval list) prog" where
  "call_fn T E ty f args vars =
     (case f of
        None \<Rightarrow> panic_st (Segv 0)
      | Some (FastBound w cif cfn) \<Rightarrow> fast_call E ty w cif cfn args
      | Some (SlowBound sf) \<Rightarrow> slow_call T E sf args vars)"

section \<open>The two paths agree\<close>

text \<open>What the reflect path would be for a function that has a wrapper.\<close>

definition slow_twin :: "go_type \<Rightarrow> uintptr \<Rightarrow> ffi_type list \<Rightarrow> ffi_type \<Rightarrow> call_interface \<Rightarrow> slow_fn" where
  "slow_twin ty cfn ts r cif = (fixed_sf ty cfn ts r)\<lparr>sf_fixedCif := cif\<rparr>"

lemma slow_twin_fields:
  assumes "fast_params (map Kind (func_ins ty))" "\<not> returns_error ty"
  shows "sf_startIn (slow_twin ty cfn ts r cif) = 0" "sf_fixedIn (slow_twin ty cfn ts r cif) = NumIn ty"
    "sf_fixedCif (slow_twin ty cfn ts r cif) = cif" "sf_cfn (slow_twin ty cfn ts r cif) = cfn"
    "\<not> sf_hasError (slow_twin ty cfn ts r cif)" "\<not> sf_isGoVariadic (slow_twin ty cfn ts r cif)"
    "sf_type (slow_twin ty cfn ts r cif) = ty"
  using fast_unmarked [OF assms(1)] assms(2) by (simp_all add: slow_twin_def fixed_sf_def)

text \<open>The low part of the result word is what the call left in the first bytes of the result.\<close>

lemma fast_result_size: "Kind t \<in> set fast_result_kinds \<Longrightarrow> Size t \<le> 8"
proof (induction t)
  case (TPrim p)
  then show ?case
    by (cases p) (simp_all add: fast_result_kinds_def)
qed (simp_all add: fast_result_kinds_def)

lemma bool_size: "Kind t = KBool \<Longrightarrow> Size t = 1"
proof (induction t)
  case (TPrim p)
  then show ?case
    by (cases p) simp_all
qed simp_all

lemma fast_result_bytes:
  assumes "Kind t \<in> set fast_result_kinds" "load_word m a = Inr w"
  shows "load m a (Size t) = Inr (take (Size t) (le_bytes 8 w))"
proof -
  obtain ws where ws: "load m a 8 = Inr ws" "w = of_le ws"
    using assms(2) by (auto simp: load_word_def res_simps)
  then have "le_bytes 8 w = ws"
    using le_bytes_of_le [of ws] load_length [OF ws(1)] by simp
  then show ?thesis
    using load_prefix [OF ws(1) fast_result_size [OF assms(1)]] by simp
qed

lemma slow_result_bytes:
  assumes "Kind t \<in> set fast_result_kinds" "load m a (Size t) = Inr bs"
  shows "result_value t m a = Inr (if Kind t = KBool then RBool (bs ! 0 \<noteq> 0) else RMem bs)"
  using assms by (auto simp: result_value_def bool_size fast_result_kinds_def)

text \<open>A wrapper's call as a whole.\<close>

lemma fast_call_runs:
  assumes "tryRegisterFastPath os arch ty = (Some w, True)"
    and "map_res goArgTypeToFfiType (func_ins ty) = Inr ts" and "ArgTypes cif = ts" and "length args = NumIn ty"
    and "can_call (fastCallPool s) (gmem s)" and "keeps_heap E"
  shows "\<exists>a ptrs m x err m' v. CallFunction E cif cfn a ptrs m = (x, err, m') \<and> length ptrs = length ts \<and>
    (\<forall>k<length ts. load m (ptrs ! k) (c_size (ts ! k)) =
       Inr (le_bytes (c_size (ts ! k)) (conv_uintptr (fast_arg (Kind (func_ins ty ! k)) (rv_val (args ! k)))))) \<and>
    mapped m a 8 \<and> load_word m' a = Inr v \<and>
    fst (fast_call E ty w cif cfn args s) = Inr (fast_values ty (if 0 < NumOut ty then Some v else None))"
proof -
  let ?fargs = "map2 (\<lambda>t v. fast_arg (Kind t) (rv_val v)) (func_ins ty) args"
  have fargs: "map fval_param ?fargs = impl_params w" "length ?fargs = NumIn ty"
    using try_fits [OF assms(1)] assms(4) by (auto simp: fits_def NumIn_def intro!: nth_equalityI)
  have n: "length ts = NumIn ty"
    using assms(2) by (auto simp: map_res_Inr_iff NumIn_def dest: list_all2_lengthD)
  obtain ctx rest m ptrs where len: "length ptrs = length ?fargs"
    and bytes: "\<forall>k<length ?fargs. load m (ptrs ! k) (c_size (ts ! k)) =
      Inr (le_bytes (c_size (ts ! k)) (conv_uintptr (?fargs ! k)))"
    and zero: "load_word m (ctx + 368) = Inr 0"
    and run: "run_impl E cif cfn w ?fargs (fastCallPool s) (gmem s) = (case CallFunction E cif cfn (ctx + 368) ptrs m of
      (_, _, m5) \<Rightarrow> bind_res (load_word m5 (ctx + 368)) (\<lambda>x. Inr (if 0 < NumOut ty then Some x else None, ctx # rest, m5)))"
    using fast_call_core [OF assms(1-3) fargs(1) assms(5), of E cfn] by blast
  obtain x err m' where call: "CallFunction E cif cfn (ctx + 368) ptrs m = (x, err, m')"
    by (cases "CallFunction E cif cfn (ctx + 368) ptrs m")
  have before: "mapped m (ctx + 368) 8"
    using zero by (auto simp: load_word_def res_simps intro: mapped_load)
  then have "mapped m' (ctx + 368) 8"
    using keeps_heap_call [OF assms(6) call] by (auto simp: grows_def mapped_def)
  then obtain v where v: "load_word m' (ctx + 368) = Inr v"
    using load_mapped by (force simp: load_word_def)
  have "fst (fast_call E ty w cif cfn args s) = Inr (fast_values ty (if 0 < NumOut ty then Some v else None))"
    by (simp add: fast_call_def run call v lift_st_def)
  moreover have "\<forall>k<length ts. load m (ptrs ! k) (c_size (ts ! k)) =
      Inr (le_bytes (c_size (ts ! k)) (conv_uintptr (fast_arg (Kind (func_ins ty ! k)) (rv_val (args ! k)))))"
    using bytes n assms(4) by (simp add: NumIn_def)
  moreover have "length ptrs = length ts"
    using len fargs(2) n by linarith
  ultimately show ?thesis
    using call before v by blast
qed

lemma paths_agree:
  assumes "try_fast T ty = (Some w, True)" and "\<not> returns_error ty" and "NumOut ty \<le> 1"
    and "map_res goArgTypeToFfiType (func_ins ty) = Inr ts" and "ArgTypes cif = ts"
    and "length args = NumIn ty" and "\<forall>i<NumIn ty. rv_type (args ! i) = func_ins ty ! i"
    and "can_call (fastCallPool s) (gmem s)" and "slow_pool_ok s"
    and "mbrk (gmem s) + slow_ctx_size + call_room (slow_twin ty cfn ts r cif) args < heap_limit"
    and "callbacks_extend E" and "keeps_heap E"
    and "fast = fst (call_fn T E ty (Some (FastBound w cif cfn)) args vars s)"
    and "slow = fst (call_fn T E ty (Some (SlowBound (slow_twin ty cfn ts r cif))) args vars s)" and "t = func_outs ty ! 0"
  shows "\<exists>resF ptrsF mF xF errF mF' resS ptrsS mS xS errS mS' v.
    CallFunction E cif cfn resF ptrsF mF = (xF, errF, mF') \<and> CallFunction E cif cfn resS ptrsS mS = (xS, errS, mS') \<and>
    length ptrsF = length ts \<and> length ptrsS = length ts \<and>
    (\<forall>k<length ts. \<exists>bs. load mF (ptrsF ! k) (c_size (ts ! k)) = Inr bs \<and> load mS (ptrsS ! k) (c_size (ts ! k)) = Inr bs) \<and>
    (0 < NumOut ty \<longrightarrow> mapped mF resF (Size t) \<and> mapped mS resS (Size t)) \<and>
    load_word mF' resF = Inr v \<and> fast = Inr (fast_values ty (if 0 < NumOut ty then Some v else None)) \<and>
    (case errS of
       Some e \<Rightarrow> slow = Inl (PanicErr e)
     | None \<Rightarrow>
         if NumOut ty = 0 then slow = fast
         else \<forall>bs. load mF' resF (Size t) = Inr bs \<and> load mS' resS (Size t) = Inr bs \<longrightarrow>
           fast = Inr [RMem bs] \<and> slow = Inr [if Kind t = KBool then RBool (bs ! 0 \<noteq> 0) else RMem bs])"
proof -
  let ?sf = "slow_twin ty cfn ts r cif"
  have fast: "tryRegisterFastPath (GOOS T) (GOARCH T) ty = (Some w, True)"
    using assms(1) by (auto simp: try_fast_def tryRegisterFastPath_fallback_def split: if_splits)
  have fp: "fast_params (map Kind (func_ins ty))" and fr: "fast_result (func_outs ty)"
    using try_exact [of "GOOS T" "GOARCH T" ty] fast by simp_all
  note sf = slow_twin_fields [OF fp assms(2), of cfn ts r cif]
  have n: "length ts = NumIn ty" "NumIn ty \<le> 15"
    using assms(4) fp by (auto simp: map_res_Inr_iff NumIn_def fast_params_def dest: list_all2_lengthD)
  have kinds: "is_word_kind (Kind t) \<or> is_float_kind (Kind t)" if "t \<in> set (func_ins ty)" for t
    using fp that by (auto simp: fast_params_def)
  have result: "Kind t \<in> set fast_result_kinds" if "0 < NumOut ty"
    using fr that assms(15) by (auto simp: fast_result_def NumOut_def)
  have ret: "hasActualReturn ?sf \<longleftrightarrow> 0 < NumOut ty"
    using assms(3) by (auto simp: hasActualReturn_def sf)
  obtain resF ptrsF mF xF errF mF' v where F: "CallFunction E cif cfn resF ptrsF mF = (xF, errF, mF')"
    "length ptrsF = length ts"
    "\<forall>k<length ts. load mF (ptrsF ! k) (c_size (ts ! k)) =
       Inr (le_bytes (c_size (ts ! k)) (conv_uintptr (fast_arg (Kind (func_ins ty ! k)) (rv_val (args ! k)))))"
    "mapped mF resF 8" "load_word mF' resF = Inr v"
    "fst (fast_call E ty w cif cfn args s) = Inr (fast_values ty (if 0 < NumOut ty then Some v else None))"
    using fast_call_runs [OF fast assms(4,5,6,8,12), of cfn] by blast
  have "\<forall>i\<in>{sf_startIn ?sf..<sf_fixedIn ?sf}. packable (Kind (rv_type (args ! i))) \<and>
      Kind (rv_type (args ! i)) \<noteq> KFunc \<and> value_ok (gmem s) (args ! i)"
  proof
    fix i assume "i \<in> {sf_startIn ?sf..<sf_fixedIn ?sf}"
    then show "packable (Kind (rv_type (args ! i))) \<and> Kind (rv_type (args ! i)) \<noteq> KFunc \<and> value_ok (gmem s) (args ! i)"
      using kinds [of "func_ins ty ! i"] assms(7)
      by (auto simp: sf NumIn_def packable_def value_ok_def is_word_kind_def word_kinds_def is_float_kind_def
          float_kinds_def scalar_kinds_def pointer_kinds_def)
  qed
  then have plain: "plain_call s ?sf args"
    using n(2) assms(10) by (simp add: plain_call_def sf)
  have "t = func_outs (sf_type ?sf) ! 0" "hasActualReturn ?sf \<Longrightarrow> Kind t \<notin> {KSlice, KFunc}"
    using assms(15) result by (auto simp: sf ret fast_result_kinds_def)
  then obtain resS ptrsS mS xS errS mS' where S: "hasActualReturn ?sf \<longrightarrow> mapped mS resS (if Kind t \<in> set retBuf_kinds then 8 else Size t)"
    "list_all2 (passes mS) (passed_args ?sf args vars) ptrsS"
    "CallFunction E cif cfn resS ptrsS mS = (xS, errS, mS')"
    "fst (slow_call T E ?sf args vars s) = (case errS of Some e \<Rightarrow> Inl (PanicErr e)
       | None \<Rightarrow> if hasActualReturn ?sf then bind_res (result_value t mS' resS) (\<lambda>v. Inr [v]) else Inr [])"
    using slow_call_runs [OF assms(9) plain assms(11,12), where T = T and vars = vars and t = t] unfolding sf(3,4) by blast
  have passed: "passed_args ?sf args vars = args"
    using assms(6) map_nth [of args] by (simp add: passed_args_def sf)
  have same: "\<exists>bs. load mF (ptrsF ! k) (c_size (ts ! k)) = Inr bs \<and> load mS (ptrsS ! k) (c_size (ts ! k)) = Inr bs"
    if k: "k < length ts" for k
  proof -
    have kn: "k < length (func_ins ty)"
      using k n by (simp add: NumIn_def)
    have "goArgTypeToFfiType (func_ins ty ! k) = Inr (ts ! k)"
      using assms(4) kn by (auto simp: map_res_Inr_iff dest: list_all2_nthD)
    moreover have "passes mS (args ! k) (ptrsS ! k)"
      using S(2) k n assms(6) by (simp add: list_all2_nthD passed)
    moreover have "rv_type (args ! k) = func_ins ty ! k"
      using assms(7) k n by simp
    ultimately show ?thesis
      using F(3) k passes_fast_slot [OF kinds] kn by (metis nth_mem)
  qed
  have len: "length ptrsS = length ts"
    using list_all2_lengthD [OF S(2)] assms(6) n(1) by (simp add: passed)
  have places: "mapped mF resF (Size t) \<and> mapped mS resS (Size t)" if "0 < NumOut ty"
    using that F(4) S(1) mapped_part [of mF resF 8 0 "Size t"] mapped_part [of mS resS 8 0 "Size t"]
      fast_result_size [OF result] by (auto simp: ret split: if_splits)
  have both: "fast = Inr [RMem bs] \<and> slow = Inr [if Kind t = KBool then RBool (bs ! 0 \<noteq> 0) else RMem bs]"
    if "errS = None" "NumOut ty \<noteq> 0" "load mF' resF (Size t) = Inr bs" "load mS' resS (Size t) = Inr bs" for bs
    using that F(5,6) S(4) result fast_result_bytes [of t mF' resF v] slow_result_bytes [of t mS' resS bs] assms(13-15)
    by (simp add: call_fn_def ret fast_values_def)
  have outcome: "case errS of
       Some e \<Rightarrow> slow = Inl (PanicErr e)
     | None \<Rightarrow>
         if NumOut ty = 0 then slow = fast
         else \<forall>bs. load mF' resF (Size t) = Inr bs \<and> load mS' resS (Size t) = Inr bs \<longrightarrow>
           fast = Inr [RMem bs] \<and> slow = Inr [if Kind t = KBool then RBool (bs ! 0 \<noteq> 0) else RMem bs]"
  proof (cases errS)
    case None
    then show ?thesis
      using both S(4) F(6) assms(13,14) by (simp add: call_fn_def ret fast_values_def)
  next
    case (Some e)
    then show ?thesis
      using S(4) assms(14) by (simp add: call_fn_def)
  qed
  have word: "fast = Inr (fast_values ty (if 0 < NumOut ty then Some v else None))"
    using F(6) assms(13) by (simp add: call_fn_def)
  show ?thesis
    by ((rule exI)+, intro conjI, rule F(1), rule S(3), rule F(2), rule len, use same in blast, use places in blast,
        rule F(5), rule word, rule outcome)
qed

text \<open>
  Property C5. The two paths are interchangeable: take a signature that has a wrapper and no errno result,
  called through its wrapper and through the reflect path in the same state. Both enter the same native function through the
  same interface, with equally many arguments of the same bytes each, at the width the interface describes,
  and with room for the result. If the engine reports no error to the reflect path and both calls leave the same bytes at their
  result, both return these bytes, but a boolean is normalised by the reflect path only; without
  a result both return nothing. They differ on an error of the engine, which makes the reflect path panic, while
  the wrapper returns the word at its result whatever the engine reports.
\<close>

theorem fast_slow_agree:
  assumes "try_fast T ty = (Some w, True)" and "\<not> returns_error ty" and "NumOut ty \<le> 1"
    and "map_res goArgTypeToFfiType (func_ins ty) = Inr ts" and "ArgTypes cif = ts"
    and "length args = NumIn ty" and "\<forall>i<NumIn ty. rv_type (args ! i) = func_ins ty ! i"
    and "can_call (fastCallPool s) (gmem s)" and "slow_pool_ok s"
    and "mbrk (gmem s) + slow_ctx_size + call_room (slow_twin ty cfn ts r cif) args < heap_limit"
    and "callbacks_extend E" and "keeps_heap E"
    and "fast = fst (call_fn T E ty (Some (FastBound w cif cfn)) args vars s)"
    and "slow = fst (call_fn T E ty (Some (SlowBound (slow_twin ty cfn ts r cif))) args vars s)" and "t = func_outs ty ! 0"
  shows "\<exists>resF ptrsF mF xF errF mF' resS ptrsS mS xS errS mS' v.
    CallFunction E cif cfn resF ptrsF mF = (xF, errF, mF') \<and> CallFunction E cif cfn resS ptrsS mS = (xS, errS, mS') \<and>
    length ptrsF = length ts \<and> length ptrsS = length ts \<and>
    (\<forall>k<length ts. \<exists>bs. load mF (ptrsF ! k) (c_size (ts ! k)) = Inr bs \<and> load mS (ptrsS ! k) (c_size (ts ! k)) = Inr bs) \<and>
    (0 < NumOut ty \<longrightarrow> mapped mF resF (Size t) \<and> mapped mS resS (Size t)) \<and>
    load_word mF' resF = Inr v \<and> fast = Inr (fast_values ty (if 0 < NumOut ty then Some v else None)) \<and>
    (case errS of
       Some e \<Rightarrow> slow = Inl (PanicErr e)
     | None \<Rightarrow>
         if NumOut ty = 0 then slow = fast
         else \<forall>bs. load mF' resF (Size t) = Inr bs \<and> load mS' resS (Size t) = Inr bs \<longrightarrow>
           fast = Inr [RMem bs] \<and> slow = Inr [if Kind t = KBool then RBool (bs ! 0 \<noteq> 0) else RMem bs])"
  using assms by (rule paths_agree)

definition sample_args :: "rvalue list" where
  "sample_args = [\<lparr>rv_type = TPointer (TPrim PUint8), rv_val = GPtr 8192, rv_addr = None\<rparr>,
     \<lparr>rv_type = TPrim PInt, rv_val = GBits 7, rv_addr = None\<rparr>,
     \<lparr>rv_type = TPrim PFloat64, rv_val = GBits 4614253070214989087, rv_addr = None\<rparr>]"

theorem fast_slow_agree_witness:
  "fst (call_fn linux_amd64 answer_engine sample_signature
      (Some (FastBound (emitWrapper [PPtr, PWord] 64 True) sample_cif 64)) sample_args [] (start_state text_mem)) = Inr [RMem answer] \<and>
   fst (call_fn linux_amd64 answer_engine sample_signature
      (Some (SlowBound (slow_twin sample_signature 64 [PointerTypeDescriptor, SInt64TypeDescriptor, DoubleTypeDescriptor]
        SInt32TypeDescriptor sample_cif))) sample_args [] (start_state text_mem)) = Inr [RMem answer]"
proof -
  let ?ts = "[PointerTypeDescriptor, SInt64TypeDescriptor, DoubleTypeDescriptor]" and ?s = "start_state text_mem :: unit gstate"
  have fast_try: "try_fast linux_amd64 sample_signature = (Some (emitWrapper [PPtr, PWord] 64 True), True)"
    by (simp add: try_fast_def fast_build_def sample_signature_fast)
  have ts: "map_res goArgTypeToFfiType (func_ins sample_signature) = Inr ?ts"
    by (simp add: sample_signature_def goArgTypeToFfiType_def)
  have cif: "ArgTypes sample_cif = ?ts"
    by (simp add: sample_cif_def)
  have noerr: "\<not> returns_error sample_signature" "NumOut sample_signature \<le> 1"
    by (simp_all add: sample_signature_def returns_error_def NumOut_def errorType_def)
  have len: "length sample_args = NumIn sample_signature"
    by (simp add: sample_args_def sample_signature_def NumIn_def)
  have types: "\<forall>i<NumIn sample_signature. rv_type (sample_args ! i) = func_ins sample_signature ! i"
    by (simp add: sample_args_def sample_signature_def NumIn_def nth_Cons' numeral_3_eq_3 All_less_Suc)
  have "fast_params (map Kind (func_ins sample_signature))"
    using try_exact [of Linux AMD64 sample_signature] sample_signature_fast by simp
  note sf = slow_twin_fields [OF this noerr(1)]
  have room: "mbrk (gmem ?s) + slow_ctx_size + call_room (slow_twin sample_signature 64 ?ts SInt32TypeDescriptor sample_cif)
      sample_args < heap_limit"
    unfolding call_room_def sf
    by (simp add: sample_signature_def NumIn_def upt_rec pack_room_def sample_args_def heap_limit_def start_state_def
        text_mem_def slow_ctx_size_def)
  have pools: "can_call (fastCallPool ?s) (gmem ?s)" "slow_pool_ok ?s"
    by (simp_all add: start_state_def slow_pool_ok_def slow_pool_clean_def can_call_def pool_ok_def text_mem_def heap_limit_def
        fast_ctx_size_def)
  define fast where "fast = fst (call_fn linux_amd64 answer_engine sample_signature
      (Some (FastBound (emitWrapper [PPtr, PWord] 64 True) sample_cif 64)) sample_args [] ?s)"
  define slow where "slow = fst (call_fn linux_amd64 answer_engine sample_signature
      (Some (SlowBound (slow_twin sample_signature 64 ?ts SInt32TypeDescriptor sample_cif))) sample_args [] ?s)"
  have out: "NumOut sample_signature = 1" "Size (func_outs sample_signature ! 0) = 4"
    "(Kind (func_outs sample_signature ! 0) = KBool) = False"
    by (simp_all add: sample_signature_def NumOut_def)
  note agree = fast_slow_agree [OF fast_try noerr ts cif len types pools room answer_engine_ok fast_def slow_def refl]
  obtain resF ptrsF resS ptrsS xF errF xS errS and mF mF' mS mS' :: "unit mem" where
    F: "CallFunction answer_engine sample_cif 64 resF ptrsF mF = (xF, errF, mF')" "mapped mF resF 4"
    and S: "CallFunction answer_engine sample_cif 64 resS ptrsS mS = (xS, errS, mS')" "mapped mS resS 4"
    and same: "case errS of Some e \<Rightarrow> slow = Inl (PanicErr e)
      | None \<Rightarrow> \<forall>bs. load mF' resF 4 = Inr bs \<and> load mS' resS 4 = Inr bs \<longrightarrow> fast = Inr [RMem bs] \<and> slow = Inr [RMem bs]"
    using agree unfolding out by (simp only: one_neq_zero zero_less_one if_False simp_thms) (elim exE conjE, rule that; assumption)
  have answers: "err = None \<and> load m' a 4 = Inr answer"
    if run: "CallFunction answer_engine sample_cif 64 a ptrs m = (x, err, m')" "mapped m a 4" for a ptrs x err m m'
  proof -
    obtain m2 where m2: "store m a answer = Inr m2"
      using store_mapped [of m a answer] run(2) by auto
    then show ?thesis
      using run(1) store_load [OF m2] by (auto simp: answer_engine_def)
  qed
  show ?thesis
    unfolding fast_def [symmetric] slow_def [symmetric] using answers [OF F] answers [OF S] same by simp
qed

end
