(* ===== verification/Loader.thy ===== *)
theory Loader
  imports Invoke
begin

text \<open>
  \<open>Dlopen\<close> on Linux (\<^verbatim>\<open>dlfcn_linux.go\<close>), which registers \<open>dlopen\<close> and \<open>dlerror\<close> of the C library
  once and calls them on a locked thread; \<open>Dlopen\<close> of every target; and the entry points of the arm
  build (\<^verbatim>\<open>stub_arm.go\<close>), which only panic.
\<close>

section \<open>State\<close>

record loader =
  ld_done :: bool
  dlopenFn :: "bound option"
  dlerrorFn :: "bound option"
  dlopenErr :: "dl_error option"

definition new_loader :: loader where
  "new_loader = \<lparr>ld_done = False, dlopenFn = None, dlerrorFn = None, dlopenErr = None\<rparr>"

type_synonym ('w, 'a) ld_prog = "('w gstate \<times> loader, 'a) prog"

section \<open>Initialisation\<close>

definition dlopen_type :: go_type where
  "dlopen_type = TFunc [TPrim PString, TPrim PInt32] [TPrim PUintptr] False"

definition dlerror_type :: go_type where
  "dlerror_type = TFunc [] [TPrim PString] False"

text \<open>Setting a variable to what \<open>RegisterFunc\<close> gives; \<open>None\<close> leaves it.\<close>

definition assign :: "bound option \<Rightarrow> bound option \<Rightarrow> bound option" where
  "assign b var = (case b of None \<Rightarrow> var | Some f \<Rightarrow> Some f)"

definition initDlopen :: "target \<Rightarrow> 'w goffi \<Rightarrow> ('w, unit) ld_prog" where
  "initDlopen T E =
     bind_st (on_g get_st) (\<lambda>s.
       case Dlsym T E (RTLD_DEFAULT (rtld DlfcnLinux)) ''dlopen'' (gmem s) of
         Inl err \<Rightarrow> on_l (dlopenErr_update (\<lambda>_. Some err))
       | Inr dlopenAddr \<Rightarrow>
           (case Dlsym T E (RTLD_DEFAULT (rtld DlfcnLinux)) ''dlerror'' (gmem s) of
              Inl err \<Rightarrow> on_l (dlopenErr_update (\<lambda>_. Some err))
            | Inr dlerrorAddr \<Rightarrow>
                bind_st (on_g (RegisterFunc T E (TPointer dlopen_type) dlopenAddr)) (\<lambda>f.
                bind_st (on_l (dlopenFn_update (assign f))) (\<lambda>_.
                bind_st (on_g (RegisterFunc T E (TPointer dlerror_type) dlerrorAddr)) (\<lambda>g.
                  on_l (dlerrorFn_update (assign g)))))))"

text \<open>\<open>sync.Once\<close> counts a run that panics as done.\<close>

definition dlopenOnce :: "target \<Rightarrow> 'w goffi \<Rightarrow> ('w, unit) ld_prog" where
  "dlopenOnce T E = (\<lambda>(s, l).
     if ld_done l then (Inr (), (s, l))
     else defer_st (\<lambda>(s, l). (s, l\<lparr>ld_done := True\<rparr>)) (initDlopen T E) (s, l))"

interpretation dlopen_once: once_cell "\<lambda>x. snd (dlopenOnce T E x)" "\<lambda>x. ld_done (snd x)"
  by unfold_locales (auto simp: dlopenOnce_def defer_st_def split: prod.split)

section \<open>Opening a library\<close>

definition locked_thread :: "('w gstate, 'a) prog \<Rightarrow> ('w gstate, 'a) prog" where
  "locked_thread p = (\<lambda>s. defer_st (\<lambda>s. s\<lparr>lockDepth := lockDepth s - 1\<rparr>) p (s\<lparr>lockDepth := lockDepth s + 1\<rparr>))"

fun ret_string :: "retval \<Rightarrow> byte list" where
  "ret_string (RString s) = s"
| "ret_string _ = []"

fun ret_bytes :: "retval \<Rightarrow> byte list" where
  "ret_bytes (RMem bs) = bs"
| "ret_bytes _ = []"

definition of_bytes :: "byte list \<Rightarrow> string" where
  "of_bytes = map (\<lambda>b. char_of (unat b))"

text \<open>The path is a Go string (its data and its bytes); the mode is truncated to \<open>int32\<close>.\<close>

definition path_arg :: "uintptr \<times> byte list \<Rightarrow> rvalue" where
  "path_arg path = \<lparr>rv_type = TPrim PString, rv_val = GString (fst path) (snd path), rv_addr = None\<rparr>"

definition mode_arg :: "uintptr \<Rightarrow> rvalue" where
  "mode_arg mode = \<lparr>rv_type = TPrim PInt32, rv_val = GBits (ucast (ucast mode :: u32)), rv_addr = None\<rparr>"

definition dlopen_calls ::
  "target \<Rightarrow> 'w goffi \<Rightarrow> loader \<Rightarrow> uintptr \<times> byte list \<Rightarrow> uintptr \<Rightarrow> ('w gstate, dl_error + uintptr) prog" where
  "dlopen_calls T E l path mode =
     bind_st (call_fn T E dlerror_type (dlerrorFn l) [] []) (\<lambda>_.
     bind_st (call_fn T E dlopen_type (dlopenFn l) [path_arg path, mode_arg mode] []) (\<lambda>rs.
       let handle = of_le (ret_bytes (hd rs)) in
       if handle = 0 then
         bind_st (call_fn T E dlerror_type (dlerrorFn l) [] []) (\<lambda>rs.
           let message = ret_string (hd rs) in
           if message \<noteq> [] then pure_st (Inl (Dlerror (of_bytes message)))
           else pure_st (Inl (Dlerror (''dlopen failed: '' @ of_bytes (snd path)))))
       else pure_st (Inr handle)))"

definition Dlopen_linux ::
  "target \<Rightarrow> 'w goffi \<Rightarrow> uintptr \<times> byte list \<Rightarrow> uintptr \<Rightarrow> ('w, dl_error + uintptr) ld_prog" where
  "Dlopen_linux T E path mode =
     bind_st (dlopenOnce T E) (\<lambda>_.
     bind_st get_l (\<lambda>l.
       case dlopenErr l of
         Some err \<Rightarrow> pure_st (Inl err)
       | None \<Rightarrow> on_g (locked_thread (dlopen_calls T E l path mode))))"

text \<open>\<open>Dlopen\<close> of the target; only the one of Linux keeps state.\<close>

definition Dlopen ::
  "target \<Rightarrow> 'w goffi \<Rightarrow> uintptr \<times> byte list \<Rightarrow> uintptr \<Rightarrow> ('w, dl_error + uintptr) ld_prog" where
  "Dlopen T E path mode =
     (case dl_file_of T of
        DlfcnLinux \<Rightarrow> Dlopen_linux T E path mode
      | DlfcnWindows \<Rightarrow> on_g (on_mem (\<lambda>m. Inr (Dlopen_windows E (of_bytes (snd path)) (unat mode) m)))
      | StubArm \<Rightarrow> pure_st (Dlopen_arm (of_bytes (snd path)) (unat mode))
      | _ \<Rightarrow> on_g (on_mem (\<lambda>m. Inr (Dlopen_engine E (of_bytes (snd path)) (unat mode) m))))"

section \<open>The arm build\<close>

definition RegisterLibFunc_arm :: "go_type \<Rightarrow> uintptr \<Rightarrow> string \<Rightarrow> ('s, unit) prog" where
  "RegisterLibFunc_arm fptr handle name = panic_st (PanicMsg ''purego: RegisterLibFunc not supported on arm'')"

definition RegisterFunc_arm :: "go_type \<Rightarrow> uintptr \<Rightarrow> ('s, unit) prog" where
  "RegisterFunc_arm fptr cfn = panic_st (PanicMsg ''purego: RegisterFunc not supported on arm'')"

definition NewCallback_arm :: "closure \<Rightarrow> ('s, uintptr) prog" where
  "NewCallback_arm fn = panic_st (PanicMsg ''purego: NewCallback not supported on arm'')"

definition SyscallN_arm :: "uintptr \<Rightarrow> uintptr list \<Rightarrow> ('s, uintptr \<times> uintptr \<times> uintptr) prog" where
  "SyscallN_arm fn args = panic_st (PanicMsg ''purego: SyscallN not supported on arm'')"

definition CString_arm :: "byte list \<Rightarrow> ('s, uintptr) prog" where
  "CString_arm s = panic_st (PanicMsg ''purego: CString not supported on arm'')"

definition GoString_arm :: "uintptr \<Rightarrow> ('s, byte list) prog" where
  "GoString_arm c = panic_st (PanicMsg ''purego: GoString not supported on arm'')"

section \<open>What every path keeps\<close>

lemma call_fn_keeps:
  assumes "slow_pool_clean s" "call_fn T E ty f args vars s = (r, s')"
  shows "slow_pool_clean s' \<and> lockDepth s' = lockDepth s"
proof -
  consider "f = None" | w cif cfn where "f = Some (FastBound w cif cfn)" | sf where "f = Some (SlowBound sf)"
    by (metis bound.exhaust option.exhaust)
  then show ?thesis
  proof cases
    case 1
    then show ?thesis
      using assms by (simp add: call_fn_def)
  next
    case 2
    then show ?thesis
      using assms by (auto simp: call_fn_def fast_call_def lift_st_def slow_pool_clean_def res_simps
          split: sum.splits prod.splits)
  next
    case 3
    then show ?thesis
      using assms slow_call_keeps [OF assms(1)] by (auto simp: call_fn_def)
  qed
qed

text \<open>The invariant between the calls, at a given lock depth.\<close>

definition call_ok :: "nat \<Rightarrow> 'w gstate \<Rightarrow> bool" where
  "call_ok d s \<longleftrightarrow> slow_pool_clean s \<and> lockDepth s = d"

lemma keeps_call_fn [keeps_intros]: "keeps (call_ok d) (call_fn T E ty f args vars)"
  unfolding keeps_def call_ok_def using call_fn_keeps by (metis prod.collapse)

lemma keeps_dlopen_calls: "keeps (call_ok d) (dlopen_calls T E l path mode)"
  unfolding dlopen_calls_def Let_def by (auto intro!: keeps_intros)

lemma locked_thread_keeps:
  fixes p :: "('w gstate, 'a) prog"
  assumes "\<And>d. keeps (call_ok d) p"
  shows "keeps (call_ok d) (locked_thread p)"
  unfolding keeps_def
proof (intro allI impI)
  fix s :: "'w gstate"
  assume s: "call_ok d s"
  then have "call_ok (Suc d) (s\<lparr>lockDepth := lockDepth s + 1\<rparr>)"
    by (simp add: call_ok_def slow_pool_clean_def)
  from keeps_run [OF assms this] show "call_ok d (snd (locked_thread p s))"
    by (cases "p (s\<lparr>lockDepth := lockDepth s + 1\<rparr>)")
      (auto simp: locked_thread_def defer_st_def call_ok_def slow_pool_clean_def)
qed

lemma robust_call_ok: "robust (call_ok d)"
  by (simp add: robust_def call_ok_def slow_pool_clean_def)

lemma keeps_on_g: "keeps I p \<Longrightarrow> keeps (\<lambda>(s, l). I s) (on_g p)"
  unfolding keeps_def on_g_def by (auto split: prod.split)

lemma keeps_on_l: "keeps (\<lambda>(s, l). I s) (on_l f)" "keeps (\<lambda>(s, l). I s) get_l"
  by (auto simp: keeps_def on_l_def get_l_def)

lemma keeps_dlopenOnce: "keeps (\<lambda>(s, l). call_ok d s) (dlopenOnce T E)"
proof -
  have "keeps (\<lambda>(s, l). call_ok d s) (initDlopen T E)"
    unfolding initDlopen_def
    by (auto intro!: keeps_intros keeps_on_g keeps_on_l
        call_invariant.keeps_RegisterFunc [OF robust_invariant [OF robust_call_ok]] split: sum.split)
  then have init: "call_ok d (fst (snd (initDlopen T E (s, l))))" if "call_ok d s" for s l
    using keeps_run [of _ "initDlopen T E" "(s, l)"] that by (fastforce split: prod.splits)
  have "call_ok d (fst (snd (dlopenOnce T E (s, l))))" if "call_ok d s" for s l
    using init [OF that, of l] that
    by (cases "initDlopen T E (s, l)") (auto simp: dlopenOnce_def defer_st_def split: prod.split)
  then show ?thesis
    by (auto simp: keeps_def split: prod.splits) (metis fst_conv snd_conv)
qed

lemma keeps_Dlopen: "keeps (\<lambda>(s, l). call_ok d s) (Dlopen T E path mode)"
  unfolding Dlopen_def Dlopen_linux_def
  by (auto intro!: keeps_intros keeps_on_g keeps_on_l keeps_dlopenOnce locked_thread_keeps keeps_dlopen_calls
      keeps_on_mem split: dl_file.split option.split) (auto simp: call_ok_def slow_pool_clean_def)

section \<open>Properties\<close>

text \<open>
  If the C library has no \<open>dlopen\<close> or no \<open>dlerror\<close>, the first \<open>Dlopen\<close> on Linux returns
  that error and calls nothing; every later one, for whatever path, returns the same error at once
  and leaves everything as it is.
\<close>

theorem Dlopen_lookup_fails:
  assumes "dl_file_of T = DlfcnLinux" and "\<not> ld_done l"
    and "Dlsym T E 0 ''dlopen'' (gmem s) = Inl err \<or>
      (\<exists>a. Dlsym T E 0 ''dlopen'' (gmem s) = Inr a) \<and> Dlsym T E 0 ''dlerror'' (gmem s) = Inl err"
  shows "\<exists>l'. Dlopen T E path mode (s, l) = (Inr (Inl err), (s, l')) \<and>
    (\<forall>E' path' mode' s'. Dlopen T E' path' mode' (s', l') = (Inr (Inl err), (s', l')))"
proof -
  let ?l = "l\<lparr>dlopenErr := Some err, ld_done := True\<rparr>"
  have "initDlopen T E (s, l) = (Inr (), (s, l\<lparr>dlopenErr := Some err\<rparr>))"
    using assms(3) by (auto simp: initDlopen_def bind_st_def on_g_def)
  then have "dlopenOnce T E (s, l) = (Inr (), (s, ?l))"
    using assms(2) by (simp add: dlopenOnce_def defer_st_def)
  then have "Dlopen T E path mode (s, l) = (Inr (Inl err), (s, ?l))"
    by (simp add: Dlopen_def assms(1) Dlopen_linux_def bind_st_def)
  moreover have "Dlopen T E' path' mode' (s', ?l) = (Inr (Inl err), (s', ?l))" for E' path' mode' s'
    by (simp add: Dlopen_def assms(1) Dlopen_linux_def bind_st_def dlopenOnce_def)
  ultimately show ?thesis
    by blast
qed

theorem Dlopen_lookup_fails_witness:
  "\<exists>l'. Dlopen linux_amd64 idle (100, [65]) 2 (start_state text_mem, new_loader) =
     (Inr (Inl (Dlerror ''undefined symbol'')), (start_state text_mem, l'))"
proof -
  have "dl_file_of linux_amd64 = DlfcnLinux" "\<not> ld_done new_loader"
    "Dlsym linux_amd64 idle 0 ''dlopen'' (gmem (start_state text_mem)) = Inl (Dlerror ''undefined symbol'')"
    by (simp_all add: dl_file_of_def new_loader_def Dlsym_def Dlsym_unix_def idle_engine_def)
  from Dlopen_lookup_fails [OF this(1,2) disjI1 [OF this(3)], of "(100, [65])" 2] show ?thesis
    by blast
qed

text \<open>
  A C library with both functions: after the initialisation both variables are closures of the
  reflect path for the addresses found.
\<close>

definition bound_slow :: "go_type \<Rightarrow> uintptr \<Rightarrow> slow_fn \<Rightarrow> bool" where
  "bound_slow ty a sf \<longleftrightarrow> (\<exists>ts r cif. sf = (fixed_sf ty a ts r)\<lparr>sf_fixedCif := cif\<rparr>)"

lemma bound_slow_fields: "bound_slow ty a sf \<Longrightarrow> sf_cfn sf = a \<and> sf_type sf = ty"
  by (auto simp: bound_slow_def fixed_sf_def)

lemma dlopen_binding:
  assumes "dlopenAddr \<noteq> 0" "\<And>c r ts. fst (PrepareCallInterface E c r ts) = None"
  shows "\<exists>sf. RegisterFunc T E (TPointer dlopen_type) dlopenAddr s = (Inr (Some (SlowBound sf)), s) \<and> bound_slow dlopen_type dlopenAddr sf"
    "\<exists>sf. RegisterFunc T E (TPointer dlerror_type) dlopenAddr s = (Inr (Some (SlowBound sf)), s) \<and> bound_slow dlerror_type dlopenAddr sf"
proof -
  have "\<not> fast_params [KString, KInt32]" "\<not> fast_result [TPrim PString]"
    by (simp_all add: fast_params_def is_word_kind_def word_kinds_def is_float_kind_def float_kinds_def fast_result_def
        fast_result_kinds_def)
  then have slow: "\<not> snd (try_fast T dlopen_type)" "\<not> snd (try_fast T dlerror_type)"
    using try_exact [of "GOOS T" "GOARCH T" dlopen_type] try_exact [of "GOOS T" "GOARCH T" dlerror_type]
    by (auto simp: try_fast_def tryRegisterFastPath_fallback_def dlopen_type_def dlerror_type_def)
  have prep: "\<exists>cif. PrepareCallInterface E c r ts = (None, cif)" for c r ts
    using assms(2) [of c r ts] by (cases "PrepareCallInterface E c r ts") auto
  have bind: "\<exists>cif. make_binding T E sf = Inr (Some (SlowBound (sf\<lparr>sf_fixedCif := cif\<rparr>)))"
    if "\<not> snd (try_fast T (sf_type sf))" "\<not> sf_isGoVariadic sf" for sf
    using prep [of "sf_convention sf" "sf_retType sf" "sf_fixedArgTypes sf"] that by (auto simp: make_binding_def)
  have reg: "\<exists>sf. RegisterFunc T E (TPointer ty) dlopenAddr s = (Inr (Some (SlowBound sf)), s) \<and> bound_slow ty dlopenAddr sf"
    if ty: "rejection ty = None" "\<not> IsVariadic ty" "\<not> snd (try_fast T ty)" for ty
  proof -
    obtain ts r where run: "RegisterFunc T E (TPointer ty) dlopenAddr s = lift_res (make_binding T E (fixed_sf ty dlopenAddr ts r)) s"
      using RegisterFunc_fixed [OF ty(2) assms(1), of T E s] ty(1) by auto
    obtain cif where "make_binding T E (fixed_sf ty dlopenAddr ts r) =
        Inr (Some (SlowBound ((fixed_sf ty dlopenAddr ts r)\<lparr>sf_fixedCif := cif\<rparr>)))"
      using bind [of "fixed_sf ty dlopenAddr ts r"] ty(3) by (auto simp: fixed_sf_def)
    then show ?thesis
      by (auto simp: run lift_res_def bound_slow_def)
  qed
  have "rejection dlopen_type = None" "rejection dlerror_type = None"
    by (simp_all add: rejection_def dlopen_type_def dlerror_type_def NumOut_def NumIn_def c_params_def marker_of_def
        CDecl_def Variadic_def arg_unsupported_def c_result_unsupported_def errorType_def upt_rec)
  then show "\<exists>sf. RegisterFunc T E (TPointer dlopen_type) dlopenAddr s = (Inr (Some (SlowBound sf)), s) \<and> bound_slow dlopen_type dlopenAddr sf"
    "\<exists>sf. RegisterFunc T E (TPointer dlerror_type) dlopenAddr s = (Inr (Some (SlowBound sf)), s) \<and> bound_slow dlerror_type dlopenAddr sf"
    using reg slow by (simp_all add: dlopen_type_def dlerror_type_def)
qed

lemma dlopenOnce_ready:
  assumes "\<not> ld_done l" "Dlsym T E 0 ''dlopen'' (gmem s) = Inr a" "Dlsym T E 0 ''dlerror'' (gmem s) = Inr b"
    "a \<noteq> 0" "b \<noteq> 0" "\<And>c r ts. fst (PrepareCallInterface E c r ts) = None"
  shows "\<exists>so se. bound_slow dlopen_type a so \<and> bound_slow dlerror_type b se \<and>
    dlopenOnce T E (s, l) = (Inr (), (s, l\<lparr>dlopenFn := Some (SlowBound so), dlerrorFn := Some (SlowBound se), ld_done := True\<rparr>))"
proof -
  obtain so where so: "RegisterFunc T E (TPointer dlopen_type) a s = (Inr (Some (SlowBound so)), s)" "bound_slow dlopen_type a so"
    using dlopen_binding(1) [OF assms(4,6)] by blast
  obtain se where se: "RegisterFunc T E (TPointer dlerror_type) b s = (Inr (Some (SlowBound se)), s)" "bound_slow dlerror_type b se"
    using dlopen_binding(2) [OF assms(5,6)] by blast
  show ?thesis
    using assms(1-3) so se
    by (intro exI [of _ so] exI [of _ se])
      (simp add: dlopenOnce_def defer_st_def initDlopen_def bind_st_def on_g_def on_l_def assign_def)
qed

text \<open>
  Property C26. However \<open>Dlopen\<close> ends, with a handle, an error or a panic at any point, the goroutine is
  locked to its thread as often as before, and the contexts of the calls it made are back in their
  pool without references.
\<close>

theorem Dlopen_restores:
  assumes "slow_pool_clean s" and "Dlopen T E path mode (s, l) = (r, (s', l'))"
  shows "slow_pool_clean s' \<and> lockDepth s' = lockDepth s"
  using keeps_run [OF keeps_Dlopen, of "lockDepth s" "(s, l)" T E path mode] assms by (simp add: call_ok_def)

text \<open>A C library whose first call fails: the panic passes through \<open>Dlopen\<close>, which had locked the thread.\<close>

definition failing_engine :: "unit goffi" where
  "failing_engine = idle_engine\<lparr>GetSymbol := \<lambda>h n m. Inr 64, CallFunction := \<lambda>cif fn rv args m. (0, Some ''call failed'', m)\<rparr>"

theorem Dlopen_restores_witness:
  "\<exists>s' l'. Dlopen linux_amd64 failing_engine (100, [65]) 2 (start_state text_mem, new_loader) =
     (Inl (PanicErr ''call failed''), (s', l')) \<and> dlopenFn l' \<noteq> None \<and> slow_pool_clean s' \<and> lockDepth s' = 0"
proof -
  let ?s = "start_state text_mem" and ?E = failing_engine
  have E: "callbacks_extend ?E" "keeps_heap ?E"
    by (simp_all add: callbacks_extend_def keeps_heap_def grows_def failing_engine_def idle_engine_def)
  have found: "\<not> ld_done new_loader" "Dlsym linux_amd64 ?E 0 n (gmem ?s) = Inr 64" "fst (PrepareCallInterface ?E c r ts) = None"
    for n c r ts
    by (simp_all add: new_loader_def Dlsym_def dl_file_of_def Dlsym_unix_def failing_engine_def idle_engine_def)
  obtain so se where se: "bound_slow dlerror_type 64 se"
    and once: "dlopenOnce linux_amd64 ?E (?s, new_loader) =
      (Inr (), (?s, new_loader\<lparr>dlopenFn := Some (SlowBound so), dlerrorFn := Some (SlowBound se), ld_done := True\<rparr>))"
    using dlopenOnce_ready [OF found(1) found(2) found(2) _ _ found(3)] by auto
  let ?s1 = "?s\<lparr>lockDepth := lockDepth ?s + 1\<rparr>"
    and ?l = "new_loader\<lparr>dlopenFn := Some (SlowBound so), dlerrorFn := Some (SlowBound se), ld_done := True\<rparr>"
  have pool: "slow_pool_ok ?s1"
    by (simp add: slow_pool_ok_def slow_pool_clean_def pool_ok_def start_state_def text_mem_def heap_limit_def)
  obtain ts r cif where se': "se = (fixed_sf dlerror_type 64 ts r)\<lparr>sf_fixedCif := cif\<rparr>"
    using se by (auto simp: bound_slow_def)
  have fields: "sf_startIn se = 0" "sf_fixedIn se = 0" "\<not> sf_hasError se" "\<not> sf_isGoVariadic se" "sf_type se = dlerror_type"
    by (simp_all add: se' fixed_sf_def dlerror_type_def marker_of_def NumIn_def returns_error_def NumOut_def errorType_def)
  then have plain: "plain_call ?s1 se []"
    by (simp add: plain_call_def call_room_def dlerror_type_def start_state_def text_mem_def slow_ctx_size_def heap_limit_def)
  have out: "TPrim PString = func_outs (sf_type se) ! 0" "Kind (TPrim PString) \<notin> {KSlice, KFunc}"
    by (simp_all add: fields dlerror_type_def)
  have "fst (slow_call linux_amd64 ?E se [] [] ?s1) = Inl (PanicErr ''call failed'')"
    using slow_call_runs [OF pool plain E out, where T = linux_amd64 and vars = "[]"] by (auto simp: failing_engine_def)
  then obtain s2 where "slow_call linux_amd64 ?E se [] [] ?s1 = (Inl (PanicErr ''call failed''), s2)"
    by (metis prod.collapse)
  then have "dlopen_calls linux_amd64 ?E ?l (100, [65]) 2 ?s1 = (Inl (PanicErr ''call failed''), s2)"
    by (simp add: dlopen_calls_def call_fn_def bind_st_def)
  then have run: "Dlopen linux_amd64 ?E (100, [65]) 2 (?s, new_loader) =
      (Inl (PanicErr ''call failed''), (s2\<lparr>lockDepth := lockDepth s2 - 1\<rparr>, ?l))"
    by (simp add: Dlopen_def dl_file_of_def Dlopen_linux_def bind_st_Inr [of "dlopenOnce linux_amd64 ?E", OF once]
        bind_st_Inr [of get_l, OF get_l_run])
        (simp add: new_loader_def on_g_def locked_thread_def defer_st_def)
  then obtain s' where outcome: "Dlopen linux_amd64 ?E (100, [65]) 2 (?s, new_loader) = (Inl (PanicErr ''call failed''), (s', ?l))"
    by blast
  have "lockDepth ?s = 0"
    by (simp add: start_state_def)
  with Dlopen_restores [OF start_state_clean outcome] outcome show ?thesis
    by (intro exI [of _ s'] exI [of _ ?l]) simp
qed

text \<open>
  With both functions found, the first \<open>Dlopen\<close> on Linux (and by the same code every later
  one) makes its native calls in one order on a locked thread: \<open>dlerror\<close> to clear an old message,
  \<open>dlopen\<close>, and only if that gave no handle \<open>dlerror\<close> again, whose message is then the error; if it
  has none, the error names the path. A handle that is returned is never null.
\<close>

lemma Dlopen_protocol:
  assumes "dl_file_of T = DlfcnLinux" and "\<not> ld_done l" and "dlopenErr l = None"
    and "Dlsym T E 0 ''dlopen'' (gmem s) = Inr a" and "Dlsym T E 0 ''dlerror'' (gmem s) = Inr b"
    and "a \<noteq> 0" and "b \<noteq> 0" and "\<forall>c r ts. fst (PrepareCallInterface E c r ts) = None"
    and "Dlopen T E path mode (s, l) = (Inr r, (s', l'))"
  shows "\<exists>so se r1 s1 h s2. sf_cfn so = a \<and> sf_cfn se = b \<and> dlopenFn l' = Some (SlowBound so) \<and>
    dlerrorFn l' = Some (SlowBound se) \<and>
    slow_call T E se [] [] (s\<lparr>lockDepth := lockDepth s + 1\<rparr>) = (Inr r1, s1) \<and>
    slow_call T E so [path_arg path, mode_arg mode] [] s1 = (Inr h, s2) \<and>
    (case r of
       Inr handle \<Rightarrow> handle \<noteq> 0 \<and> handle = of_le (ret_bytes (hd h)) \<and> s' = s2\<lparr>lockDepth := lockDepth s2 - 1\<rparr>
     | Inl e \<Rightarrow> of_le (ret_bytes (hd h)) = 0 \<and>
         (\<exists>msg s3. slow_call T E se [] [] s2 = (Inr msg, s3) \<and> s' = s3\<lparr>lockDepth := lockDepth s3 - 1\<rparr> \<and>
            Error e = (if ret_string (hd msg) \<noteq> [] then of_bytes (ret_string (hd msg))
              else ''dlopen failed: '' @ of_bytes (snd path))))"
proof -
  obtain so se where fns: "sf_cfn so = a" "sf_cfn se = b"
    and once: "dlopenOnce T E (s, l) = (Inr (), (s, l\<lparr>dlopenFn := Some (SlowBound so), dlerrorFn := Some (SlowBound se), ld_done := True\<rparr>))"
    using dlopenOnce_ready [OF assms(2,4-7)] assms(8) bound_slow_fields by metis
  let ?l = "l\<lparr>dlopenFn := Some (SlowBound so), dlerrorFn := Some (SlowBound se), ld_done := True\<rparr>"
  have "Dlopen T E path mode (s, l) = on_g (locked_thread (dlopen_calls T E ?l path mode)) (s, ?l)"
    using assms(3) by (simp add: Dlopen_def assms(1) Dlopen_linux_def bind_st_Inr [of "dlopenOnce T E", OF once]
        bind_st_Inr [of get_l, OF get_l_run])
  then have "on_g (locked_thread (dlopen_calls T E ?l path mode)) (s, ?l) = (Inr r, (s', l'))"
    unfolding assms(9) by (rule sym)
  then have l': "l' = ?l" and run: "locked_thread (dlopen_calls T E ?l path mode) s = (Inr r, s')"
    unfolding on_g_Inr by simp_all
  obtain s4 where calls: "dlopen_calls T E ?l path mode (s\<lparr>lockDepth := lockDepth s + 1\<rparr>) = (Inr r, s4)"
    and s': "s' = s4\<lparr>lockDepth := lockDepth s4 - 1\<rparr>"
    using run by (auto simp: locked_thread_def defer_st_def split: prod.splits)
  define K where "K = (\<lambda>h. if of_le (ret_bytes (hd h)) = 0 then
         bind_st (slow_call T E se [] []) (\<lambda>rs.
           if ret_string (hd rs) \<noteq> [] then pure_st (Inl (Dlerror (of_bytes (ret_string (hd rs)))))
           else pure_st (Inl (Dlerror (''dlopen failed: '' @ of_bytes (snd path)))))
       else pure_st (Inr (of_le (ret_bytes (hd h)))))"
  have sel: "dlerrorFn ?l = Some (SlowBound se)" "dlopenFn ?l = Some (SlowBound so)"
    by simp_all
  have "dlopen_calls T E ?l path mode = bind_st (slow_call T E se [] []) (\<lambda>_.
      bind_st (slow_call T E so [path_arg path, mode_arg mode] []) K)"
    unfolding dlopen_calls_def K_def call_fn_def Let_def sel option.case bound.case ..
  then obtain r1 s1 h s2 where c: "slow_call T E se [] [] (s\<lparr>lockDepth := lockDepth s + 1\<rparr>) = (Inr r1, s1)"
    "slow_call T E so [path_arg path, mode_arg mode] [] s1 = (Inr h, s2)"
    and rest: "K h s2 = (Inr r, s4)"
    using calls by (auto simp: bind_st_eq_Inr)
  have "case r of
       Inr handle \<Rightarrow> handle \<noteq> 0 \<and> handle = of_le (ret_bytes (hd h)) \<and> s' = s2\<lparr>lockDepth := lockDepth s2 - 1\<rparr>
     | Inl e \<Rightarrow> of_le (ret_bytes (hd h)) = 0 \<and>
         (\<exists>msg s3. slow_call T E se [] [] s2 = (Inr msg, s3) \<and> s' = s3\<lparr>lockDepth := lockDepth s3 - 1\<rparr> \<and>
            Error e = (if ret_string (hd msg) \<noteq> [] then of_bytes (ret_string (hd msg))
              else ''dlopen failed: '' @ of_bytes (snd path)))"
    using rest by (auto simp: K_def s' st_simps split: if_splits)
  then show ?thesis
    using fns c l' by (intro exI conjI) auto
qed

end
