(* ===== verification/Callbacks.thy ===== *)
theory Callbacks
  imports RegisterFn
begin

text \<open>
  Calling Go functions through \<open>reflect.Value.Call\<close>, and what a callback made by \<open>NewCallback\<close>
  (\<^verbatim>\<open>purego.go\<close>) does when native code calls it.
\<close>

section \<open>\<open>reflect.Value.Call\<close>\<close>

fun named :: "go_type \<Rightarrow> bool" where
  "named (TPrim _) = True"
| "named (TNamed _ _ _) = True"
| "named _ = False"

text \<open>
  \<open>AssignableTo\<close>. Which types implement an interface is the program's matter, so it is a parameter.
\<close>

definition assignable :: "(go_type \<Rightarrow> go_type \<Rightarrow> bool) \<Rightarrow> go_type \<Rightarrow> go_type \<Rightarrow> bool" where
  "assignable implements v t \<longleftrightarrow>
     v = t \<or> (\<not> named v \<or> \<not> named t) \<and> underlying v = underlying t \<or>
     Kind t = KInterface \<and> implements v t"

lemma assignable_refl [simp]: "assignable implements t t"
  by (simp add: assignable_def)

definition slice_elem :: "go_type \<Rightarrow> go_type" where
  "slice_elem t = (case underlying t of TSlice e \<Rightarrow> e | _ \<Rightarrow> t)"

text \<open>
  A function value is its type and its closure; \<open>None\<close> is the zero \<open>reflect.Value\<close>, as a function or as
  an argument. \<open>run\<close> runs a closure on arguments that fit its type; the last ones of a variadic
  function are the elements of the slice it gets.
\<close>

type_synonym fn_value = "go_type \<times> closure"

definition reflect_Call ::
  "(go_type \<Rightarrow> go_type \<Rightarrow> bool) \<Rightarrow> (closure \<Rightarrow> rvalue list \<Rightarrow> ('s, rvalue list) prog) \<Rightarrow>
     fn_value option \<Rightarrow> rvalue option list \<Rightarrow> ('s, rvalue list) prog" where
  "reflect_Call implements run fn ins =
     (case fn of
        None \<Rightarrow> panic_st (PanicErr ''reflect: call of reflect.Value.Call on zero Value'')
      | Some (t, c) \<Rightarrow>
          let n = (if IsVariadic t then NumIn t - 1 else NumIn t); vs = map the ins in
          if length ins < n then panic_st (PanicMsg ''reflect: Call with too few input arguments'')
          else if \<not> IsVariadic t \<and> n < length ins
          then panic_st (PanicMsg ''reflect: Call with too many input arguments'')
          else if None \<in> set ins then panic_st (PanicMsg ''reflect: Call using zero Value argument'')
          else (case find (\<lambda>i. \<not> assignable implements (rv_type (vs ! i)) (func_ins t ! i)) [0..<n] of
             Some i \<Rightarrow> panic_st (PanicMsg (''reflect: Call using '' @ type_String (rv_type (vs ! i)) @
               '' as type '' @ type_String (func_ins t ! i)))
           | None \<Rightarrow>
               (case find (\<lambda>x. \<not> assignable implements (rv_type x) (slice_elem (func_ins t ! n))) (drop n vs) of
                  Some x \<Rightarrow> panic_st (PanicMsg (''reflect: cannot use '' @ type_String (rv_type x) @
                    '' as type '' @ type_String (slice_elem (func_ins t ! n)) @ '' in Call''))
                | None \<Rightarrow> run c vs)))"

lemma reflect_Call_cong [fundef_cong]:
  assumes "implements = implements'" "fn = fn'" "ins = ins'" "\<And>t c vs. fn' = Some (t, c) \<Longrightarrow> run c vs = run' c vs"
  shows "reflect_Call implements run fn ins = reflect_Call implements' run' fn' ins'"
  using assms by (auto simp: reflect_Call_def Let_def split: option.split)

text \<open>Arguments that fit: as many as parameters, each assignable to its parameter.\<close>

definition args_fit :: "(go_type \<Rightarrow> go_type \<Rightarrow> bool) \<Rightarrow> go_type \<Rightarrow> rvalue list \<Rightarrow> bool" where
  "args_fit implements t vs \<longleftrightarrow> length vs = NumIn t \<and>
     (\<forall>i<NumIn t. assignable implements (rv_type (vs ! i)) (func_ins t ! i))"

lemma reflect_Call_fit:
  assumes "args_fit implements t vs" "\<not> IsVariadic t"
  shows "reflect_Call implements run (Some (t, c)) (map Some vs) = run c vs"
  using assms by (auto simp: reflect_Call_def args_fit_def Let_def comp_def find_None_iff split: option.splits)
     (auto simp: find_Some_iff)

text \<open>
  Arguments of a variadic function besides: the ones after the fixed parameters are assignable to the
  elements of the last.
\<close>

definition call_fits :: "(go_type \<Rightarrow> go_type \<Rightarrow> bool) \<Rightarrow> go_type \<Rightarrow> rvalue list \<Rightarrow> bool" where
  "call_fits implements t vs \<longleftrightarrow>
     (let n = (if IsVariadic t then NumIn t - 1 else NumIn t) in
      n \<le> length vs \<and> (\<not> IsVariadic t \<longrightarrow> length vs = n) \<and>
      (\<forall>i<n. assignable implements (rv_type (vs ! i)) (func_ins t ! i)) \<and>
      (\<forall>v \<in> set (drop n vs). assignable implements (rv_type v) (slice_elem (func_ins t ! n))))"

lemma args_fit_call_fits: "args_fit implements t vs \<Longrightarrow> \<not> IsVariadic t \<Longrightarrow> call_fits implements t vs"
  by (simp add: args_fit_def call_fits_def)

lemma reflect_Call_outcome:
  assumes "length ins = NumIn t"
  shows "\<exists>msg. take 9 msg = ''reflect: '' \<and> reflect_Call implements run (Some (t, c)) ins =
    (if None \<in> set ins then panic_st (PanicMsg ''reflect: Call using zero Value argument'')
     else if \<not> call_fits implements t (map the ins) then panic_st (PanicMsg msg)
     else run c (map the ins))"
proof -
  let ?n = "if IsVariadic t then NumIn t - 1 else NumIn t" and ?vs = "map the ins"
  let ?fixed = "find (\<lambda>i. \<not> assignable implements (rv_type (?vs ! i)) (func_ins t ! i)) [0..<?n]"
    and ?more = "find (\<lambda>x. \<not> assignable implements (rv_type x) (slice_elem (func_ins t ! ?n))) (drop ?n ?vs)"
  have fits: "call_fits implements t ?vs \<longleftrightarrow> ?fixed = None \<and> ?more = None"
    using assms unfolding call_fits_def Let_def find_None_iff by (auto simp del: upt_Suc)
  have run: "reflect_Call implements run (Some (t, c)) ins =
      (if None \<in> set ins then panic_st (PanicMsg ''reflect: Call using zero Value argument'')
       else case ?fixed of
          Some i \<Rightarrow> panic_st (PanicMsg (''reflect: Call using '' @ type_String (rv_type (?vs ! i)) @
            '' as type '' @ type_String (func_ins t ! i)))
        | None \<Rightarrow> (case ?more of
            Some x \<Rightarrow> panic_st (PanicMsg (''reflect: cannot use '' @ type_String (rv_type x) @
              '' as type '' @ type_String (slice_elem (func_ins t ! ?n)) @ '' in Call''))
          | None \<Rightarrow> run c ?vs))"
    using assms unfolding reflect_Call_def Let_def by (auto simp del: upt_Suc type_String.simps)
  show ?thesis
  proof (cases ?fixed)
    case (Some i)
    then show ?thesis
      unfolding run fits by (intro exI [of _ "''reflect: Call using '' @ type_String (rv_type (?vs ! i)) @
            '' as type '' @ type_String (func_ins t ! i)"]) (simp del: type_String.simps upt_Suc)
  next
    case None
    show ?thesis
    proof (cases ?more)
      case (Some x)
      then show ?thesis
        using None unfolding run fits by (intro exI [of _ "''reflect: cannot use '' @ type_String (rv_type x) @
              '' as type '' @ type_String (slice_elem (func_ins t ! ?n)) @ '' in Call''"])
          (simp del: type_String.simps upt_Suc)
    next
      case 2: None
      then show ?thesis
        using None unfolding run fits by (intro exI [of _ "''reflect: ''"]) simp
    qed
  qed
qed

section \<open>Making a callback\<close>

text \<open>\<open>a\<close> is an address that the engine has given for a callback of type \<open>t\<close> that runs \<open>c\<close>.\<close>

definition callback_for :: "'w goffi \<Rightarrow> go_type \<Rightarrow> closure \<Rightarrow> uintptr \<Rightarrow> bool" where
  "callback_for E t c a \<longleftrightarrow> (\<exists>m m'. ffi_NewCallback E t c m = Inr (a, m'))"

lemma NewCallback_for:
  assumes "NewCallback E t c s = (Inr a, s')" "NumIn t = 0 \<or> \<not> is_marker (func_ins t ! 0)"
  shows "callback_for E t c a"
  using assms by (auto simp: NewCallback_def callback_for_def st_simps split: if_splits)

lemma no_markers [simp]: "\<not> is_marker (TNamed pkg n (TPrim p))"
  by (simp add: is_marker_def CDecl_def Variadic_def)

section \<open>Running a callback\<close>

text \<open>
  \<open>run_callback U\<close> runs the closures of this package, the program's functions by \<open>U\<close>.
\<close>

fun run_callback ::
  "(go_type \<Rightarrow> go_type \<Rightarrow> bool) \<Rightarrow> (closure \<Rightarrow> rvalue list \<Rightarrow> ('s, rvalue list) prog) \<Rightarrow>
     closure \<Rightarrow> rvalue list \<Rightarrow> ('s, rvalue list) prog" where
  "run_callback implements U (MarkerWrapper t c) args =
     reflect_Call implements (run_callback implements U) (Some (t, c)) (map Some (wrapper_args (func_ins t ! 0) args))"
| "run_callback implements U c args = U c args"

definition zero_marker :: "go_type \<Rightarrow> rvalue" where
  "zero_marker t = \<lparr>rv_type = t, rv_val = GMem [], rv_addr = None\<rparr>"

lemma wrapper_args: "wrapper_args marker args = zero_marker marker # args"
  by (simp add: wrapper_args_def zero_marker_def)

lemma NewCallback_marked:
  assumes "Kind t = KFunc" "func_ins t = marker # ins" "is_marker marker"
  shows "\<exists>t'. NewCallback E t fn = on_mem (ffi_NewCallback E t' (MarkerWrapper t fn)) \<and>
    func_ins t' = ins \<and> func_outs t' = func_outs t \<and> IsVariadic t' = IsVariadic t"
proof -
  let ?t = "TFunc (map (\<lambda>i. func_ins t ! i) [1..<NumIn t]) (map (\<lambda>i. func_outs t ! i) [0..<NumOut t]) (IsVariadic t)"
  have "[1..<NumIn t] = map Suc [0..<length ins]"
    by (simp add: NumIn_def assms(2) map_Suc_upt)
  then have "map (\<lambda>i. func_ins t ! i) [1..<NumIn t] = ins"
    by (simp add: assms(2) comp_def map_nth)
  moreover have "map (\<lambda>i. func_outs t ! i) [0..<NumOut t] = func_outs t"
    by (simp add: NumOut_def map_nth)
  ultimately show ?thesis
    using assms by (intro exI [of _ ?t]) (simp add: NewCallback_def NumIn_def)
qed

text \<open>A parameter that is a slice of the element type is never an element.\<close>

lemma slice_not_elem: "underlying e \<noteq> TSlice e"
proof
  have size: "size (underlying t) \<le> size t" for t
    by (induction t) auto
  assume "underlying e = TSlice e"
  then show False
    using size [of e] by simp
qed

lemma slice_not_assignable:
  assumes "Kind e \<noteq> KInterface"
  shows "\<not> assignable implements (TSlice e) e"
proof -
  have "TSlice e \<noteq> e"
    by (induction e) auto
  then show ?thesis
    using assms slice_not_elem [of e] by (auto simp: assignable_def)
qed

section \<open>Properties\<close>

text \<open>
  Property C27. A callback for a function with a leading marker is made from a function without it, of
  otherwise the same type: when native code calls it with arguments of the types it declares, the
  program's function runs on the zero marker followed by these arguments, in order, and its results
  are the callback's.
\<close>

theorem NewCallback_strips_marker:
  assumes "Kind t = KFunc" and "func_ins t = marker # ins" and "is_marker marker" and "\<not> IsVariadic t"
  shows "\<exists>t' c. NewCallback E t (UserFn n) = on_mem (ffi_NewCallback E t' c) \<and>
    func_ins t' = ins \<and> func_outs t' = func_outs t \<and> \<not> IsVariadic t' \<and>
    (\<forall>args. map rv_type args = ins \<longrightarrow>
       run_callback implements U c args = U (UserFn n) (zero_marker marker # args))"
proof -
  let ?c = "MarkerWrapper t (UserFn n)"
  obtain t' where "NewCallback E t (UserFn n) = on_mem (ffi_NewCallback E t' ?c)" "func_ins t' = ins"
    "func_outs t' = func_outs t" "IsVariadic t' = IsVariadic t"
    using NewCallback_marked [OF assms(1-3)] by blast
  moreover have "run_callback implements U ?c args = U (UserFn n) (zero_marker marker # args)"
    if "map rv_type args = ins" for args
  proof -
    have "rv_type ((zero_marker marker # args) ! i) = func_ins t ! i" if "i < NumIn t" for i
      using that \<open>map rv_type args = ins\<close> assms(2) by (cases i) (auto simp: zero_marker_def NumIn_def)
    then have "args_fit implements t (zero_marker marker # args)"
      using that assms(2) by (auto simp: args_fit_def NumIn_def)
    note call = reflect_Call_fit [OF this assms(4)]
    have "run_callback implements U ?c args = run_callback implements U (UserFn n) (zero_marker marker # args)"
      by (simp only: run_callback.simps(1) wrapper_args assms(2) nth_Cons_0 call)
    then show ?thesis
      by simp
  qed
  ultimately show ?thesis
    using assms(4) by (intro exI [of _ t'] exI [of _ ?c]) simp
qed

theorem NewCallback_strips_marker_witness:
  "\<exists>c. run_callback (\<lambda>_ _. False) (\<lambda>_ args s. (Inr args, s)) c [zero_marker (TPrim PInt32)] (0 :: nat) =
     (Inr [zero_marker CDecl, zero_marker (TPrim PInt32)], 0)"
proof -
  have "Kind (TFunc [CDecl, TPrim PInt32] [] False) = KFunc" "is_marker CDecl"
    by (simp_all add: is_marker_def)
  from NewCallback_strips_marker [OF this(1) _ this(2), of "[TPrim PInt32]" idle_engine 0 "\<lambda>_ _. False"
      "\<lambda>_ args s. (Inr args, s :: nat)"]
  obtain c where "\<forall>args. map rv_type args = [TPrim PInt32] \<longrightarrow>
      run_callback (\<lambda>_ _. False) (\<lambda>_ args s. (Inr args, s :: nat)) c args = (\<lambda>s. (Inr (zero_marker CDecl # args), s))"
    by auto
  from this [THEN spec, of "[zero_marker (TPrim PInt32)]"] show ?thesis
    by (intro exI [of _ c]) (simp add: zero_marker_def)
qed

text \<open>
  If the function is variadic besides, the callback panics on arguments of the types it
  declares: the slice of the variadic parameter is passed on as if it were one element of it, unless
  the elements are interfaces.
\<close>

lemma NewCallback_variadic_panics:
  assumes "Kind t = KFunc" and "func_ins t = marker # ins @ [TSlice e]" and "is_marker marker"
    and "IsVariadic t" and "Kind e \<noteq> KInterface"
  shows "\<exists>t' c. NewCallback E t (UserFn n) = on_mem (ffi_NewCallback E t' c) \<and>
    func_ins t' = ins @ [TSlice e] \<and> IsVariadic t' \<and>
    (\<forall>args s. map rv_type args = ins @ [TSlice e] \<longrightarrow>
       run_callback implements U c args s = (Inl (PanicMsg (''reflect: cannot use '' @ type_String (TSlice e) @
         '' as type '' @ type_String e @ '' in Call'')), s))"
proof -
  have "run_callback implements U (MarkerWrapper t (UserFn n)) args s = (Inl (PanicMsg (''reflect: cannot use '' @
      type_String (TSlice e) @ '' as type '' @ type_String e @ '' in Call'')), s)"
    if types: "map rv_type args = ins @ [TSlice e]" for args s
  proof -
    let ?vs = "zero_marker marker # args" and ?n = "length ins + 1"
    have len: "length args = length ins + 1"
      using types by (metis length_append_singleton length_map Suc_eq_plus1)
    have "map rv_type ?vs = func_ins t"
      by (simp add: assms(2) types zero_marker_def)
    then have type: "rv_type (?vs ! i) = func_ins t ! i" if "i < ?n + 1" for i
      using that len nth_map [of i ?vs rv_type] by simp
    have "find (\<lambda>i. \<not> assignable implements (rv_type (?vs ! i)) (func_ins t ! i)) [0..<?n] = None"
      using type by (auto simp: find_None_iff)
    moreover have "drop ?n ?vs = [?vs ! ?n]"
      using len by (simp add: Cons_nth_drop_Suc [symmetric])
    moreover have "rv_type (?vs ! ?n) = TSlice e" "slice_elem (func_ins t ! ?n) = e"
      using type [of ?n] by (simp_all add: assms(2) slice_elem_def nth_append)
    ultimately show ?thesis
      using slice_not_assignable [OF assms(5), of implements] len assms(4)
      by (simp add: wrapper_args reflect_Call_def assms(2) NumIn_def Let_def comp_def del: upt_Suc type_String.simps)
  qed
  moreover obtain t' where "NewCallback E t (UserFn n) = on_mem (ffi_NewCallback E t' (MarkerWrapper t (UserFn n)))"
    "func_ins t' = ins @ [TSlice e]" "IsVariadic t'"
    using NewCallback_marked [OF assms(1-3)] assms(4) by blast
  ultimately show ?thesis
    by blast
qed

lemma NewCallback_variadic_panics_witness:
  "\<exists>c. run_callback (\<lambda>_ _. False) (\<lambda>_ args s. (Inr args, s)) c [zero_marker (TSlice (TPrim PInt32))] (0 :: nat) =
    (Inl (PanicMsg ''reflect: cannot use []int32 as type int32 in Call''), 0)"
proof -
  let ?t = "TFunc [Variadic, TSlice (TPrim PInt32)] [] True"
  have "Kind ?t = KFunc" "func_ins ?t = Variadic # [] @ [TSlice (TPrim PInt32)]" "is_marker Variadic"
    "IsVariadic ?t" "Kind (TPrim PInt32) \<noteq> KInterface"
    by (simp_all add: is_marker_def)
  from NewCallback_variadic_panics [OF this, of idle_engine 0 "\<lambda>_ _. False" "\<lambda>_ args s. (Inr args, s :: nat)"]
  obtain c where "\<forall>args s. map rv_type args = [TSlice (TPrim PInt32)] \<longrightarrow>
      run_callback (\<lambda>_ _. False) (\<lambda>_ args s. (Inr args, s)) c args s =
        (Inl (PanicMsg ''reflect: cannot use []int32 as type int32 in Call''), s :: nat)"
    by auto
  from this [THEN spec, of "[zero_marker (TSlice (TPrim PInt32))]"] show ?thesis
    by (intro exI [of _ c]) (simp add: zero_marker_def)
qed

end
