(* ===== verification/ObjcEncoding.thy ===== *)
theory ObjcEncoding
  imports GoReflect
begin

text \<open>
  Type encodings of package \<open>objc\<close> (\<^verbatim>\<open>objc_runtime_darwin.go\<close>): \<open>encodeType\<close> and \<open>encodeFunc\<close>, the
  strings with which Go types and functions are described to the Objective-C runtime. Against them
  stand two specifications: what \<open>@encode\<close> gives for the C type of the same size and signedness, and
  how the runtime takes an encoding apart into one encoding per result and parameter.
\<close>

section \<open>The types of the package\<close>

definition objc_pkg :: string where
  "objc_pkg = ''github.com/ebitengine/purego/objc''"

definition Class_type :: go_type where
  "Class_type = TNamed objc_pkg ''Class'' (TPrim PUintptr)"

definition ID_type :: go_type where
  "ID_type = TNamed objc_pkg ''ID'' (TPrim PUintptr)"

definition SEL_type :: go_type where
  "SEL_type = TNamed objc_pkg ''SEL'' (TPrim PUintptr)"

definition Block_type :: go_type where
  "Block_type = TNamed objc_pkg ''Block'' (TPrim PUintptr)"

lemmas objc_types = Class_type_def ID_type_def SEL_type_def Block_type_def objc_pkg_def

section \<open>Errors of package \<open>errors\<close> and \<open>fmt\<close>\<close>

text \<open>A result or an error, of which only the text is read.\<close>

type_synonym 'a or_error = "string + 'a"

definition bind_err :: "'a or_error \<Rightarrow> ('a \<Rightarrow> 'b or_error) \<Rightarrow> 'b or_error" where
  "bind_err r f = (case r of Inl e \<Rightarrow> Inl e | Inr x \<Rightarrow> f x)"

named_theorems err_simps "evaluation and inversion of computations that return an error"

lemma bind_err_Inl [simp]: "bind_err (Inl e) f = Inl e"
  by (simp add: bind_err_def)

lemma bind_err_Inr [simp]: "bind_err (Inr x) f = f x"
  by (simp add: bind_err_def)

lemma bind_err_eq_Inr [err_simps]: "bind_err r f = Inr y \<longleftrightarrow> (\<exists>x. r = Inr x \<and> f x = Inr y)"
  by (cases r) auto

lemma bind_err_eq_Inl [err_simps]:
  "bind_err r f = Inl e \<longleftrightarrow> r = Inl e \<or> (\<exists>x. r = Inr x \<and> f x = Inl e)"
  by (cases r) auto

lemma bind_err_cong [fundef_cong]:
  "r = r' \<Longrightarrow> (\<And>x. r' = Inr x \<Longrightarrow> f x = g x) \<Longrightarrow> bind_err r f = bind_err r' g"
  by (cases r') auto

section \<open>Encoding a type\<close>

text \<open>The switch over the kind, as far as it does not look into the type.\<close>

fun scalar_encoding :: "prim \<Rightarrow> string option" where
  "scalar_encoding PBool = Some ''B''"
| "scalar_encoding PInt = Some ''l''"
| "scalar_encoding PInt8 = Some ''c''"
| "scalar_encoding PInt16 = Some ''s''"
| "scalar_encoding PInt32 = Some ''i''"
| "scalar_encoding PInt64 = Some ''L''"
| "scalar_encoding PUint = Some ''L''"
| "scalar_encoding PUint8 = Some ''C''"
| "scalar_encoding PUint16 = Some ''S''"
| "scalar_encoding PUint32 = Some ''I''"
| "scalar_encoding PUint64 = Some ''L''"
| "scalar_encoding PUintptr = Some ''^''"
| "scalar_encoding PFloat32 = Some ''f''"
| "scalar_encoding PFloat64 = Some ''d''"
| "scalar_encoding PComplex64 = None"
| "scalar_encoding PComplex128 = None"
| "scalar_encoding PUnsafePointer = Some ''^v''"
| "scalar_encoding PString = Some ''*''"

definition unhandled :: "go_type \<Rightarrow> string" where
  "unhandled typ = ''unhandled/invalid kind '' @ kind_string (Kind typ) @ '' typed '' @ type_String typ"

text \<open>
  \<open>encode_kind typ u\<close> is the switch for the type \<open>typ\<close> once the defined types in front of its
  underlying type are passed.
\<close>

function encodeType :: "go_type \<Rightarrow> bool \<Rightarrow> string or_error"
and encode_kind :: "go_type \<Rightarrow> go_type \<Rightarrow> bool \<Rightarrow> string or_error"
and encode_fields :: "(string \<times> go_type) list \<Rightarrow> string or_error" where
  "encodeType typ insidePtr =
     (if typ = Class_type then Inr ''#''
      else if typ = ID_type \<or> typ = Block_type then Inr ''@''
      else if typ = SEL_type then Inr '':''
      else encode_kind typ typ insidePtr)"
| "encode_kind typ (TNamed _ _ u) insidePtr = encode_kind typ u insidePtr"
| "encode_kind typ (TPrim p) insidePtr =
     (case scalar_encoding p of Some enc \<Rightarrow> Inr enc | None \<Rightarrow> Inl (unhandled typ))"
| "encode_kind typ (TPointer t) insidePtr = bind_err (encodeType t True) (\<lambda>enc. Inr (''^'' @ enc))"
| "encode_kind typ (TStruct fs) insidePtr =
     (if insidePtr then Inr (''{'' @ type_Name typ @ ''}'')
      else bind_err (encode_fields fs) (\<lambda>encs. Inr (''{'' @ type_Name typ @ ''='' @ encs @ ''}'')))"
| "encode_kind typ (TSlice _) insidePtr = Inl (unhandled typ)"
| "encode_kind typ (TArray _ _) insidePtr = Inl (unhandled typ)"
| "encode_kind typ (TFunc _ _ _) insidePtr = Inl (unhandled typ)"
| "encode_kind typ TInterface insidePtr = Inl (unhandled typ)"
| "encode_kind typ (TMap _ _) insidePtr = Inl (unhandled typ)"
| "encode_kind typ (TChan _) insidePtr = Inl (unhandled typ)"
| "encode_fields [] = Inr []"
| "encode_fields ((_, t) # fs) =
     bind_err (encodeType t False) (\<lambda>tmp. bind_err (encode_fields fs) (\<lambda>encs. Inr (tmp @ encs)))"
  by pat_completeness auto
termination
  by (relation "measure (case_sum (\<lambda>(t, _). 2 * size t + 1)
        (case_sum (\<lambda>(_, u, _). 2 * size u) (\<lambda>fs. 2 * size_list (size_prod (\<lambda>_. 0) size) fs)))") auto

declare encodeType.simps [simp del]

section \<open>Encoding a function\<close>

definition encode_params :: "go_type list \<Rightarrow> string or_error" where
  "encode_params ts = encode_fields (map (\<lambda>t. ([], t)) ts)"

definition encodeFunc :: "go_type \<Rightarrow> string or_error" where
  "encodeFunc typ =
     (if Kind typ \<noteq> KFunc then Inl ''not a func''
      else bind_err
        (if NumOut typ = 0 then Inr ''v''
         else if NumOut typ = 1 then encodeType (func_outs typ ! 0) False
         else Inl ''too many output parameters'') (\<lambda>result.
        if NumIn typ < 2 then Inl ''func doesn't take ID and SEL as its first two parameters''
        else bind_err (encode_params (drop 1 (func_ins typ))) (\<lambda>args. Inr (result @ ''@'' @ args))))"

section \<open>The encodings of C types\<close>

text \<open>
  \<open>at_encode\<close> is what \<open>@encode\<close> gives on a 64-bit target for the C type with the size and signedness
  of the Go type: \<open>q\<close> and \<open>Q\<close> for 64-bit integers (\<open>l\<close> and \<open>L\<close> stand for 32-bit ones there), and a
  struct with its members, except behind a pointer that is itself pointed to or is a member.
\<close>

datatype encode_context = Outermost | Expanded | Abbreviated

fun at_scalar :: "prim \<Rightarrow> string" where
  "at_scalar PBool = ''B''"
| "at_scalar PInt = ''q''"
| "at_scalar PInt8 = ''c''"
| "at_scalar PInt16 = ''s''"
| "at_scalar PInt32 = ''i''"
| "at_scalar PInt64 = ''q''"
| "at_scalar PUint = ''Q''"
| "at_scalar PUint8 = ''C''"
| "at_scalar PUint16 = ''S''"
| "at_scalar PUint32 = ''I''"
| "at_scalar PUint64 = ''Q''"
| "at_scalar PUintptr = ''Q''"
| "at_scalar PFloat32 = ''f''"
| "at_scalar PFloat64 = ''d''"
| "at_scalar PString = ''*''"
| "at_scalar PUnsafePointer = ''^v''"
| "at_scalar _ = ''?''"

text \<open>\<open>Some\<close> code for the types that stand for Objective-C objects, classes and selectors.\<close>

definition object_code :: "go_type \<Rightarrow> string option" where
  "object_code t =
     (if t = Class_type then Some ''#''
      else if t = ID_type \<or> t = Block_type then Some ''@''
      else if t = SEL_type then Some '':''
      else None)"

function at_encode :: "go_type \<Rightarrow> encode_context \<Rightarrow> string"
and at_kind :: "string \<Rightarrow> go_type \<Rightarrow> encode_context \<Rightarrow> string"
and at_fields :: "(string \<times> go_type) list \<Rightarrow> string" where
  "at_encode t ctx = (case object_code t of Some c \<Rightarrow> c | None \<Rightarrow> at_kind (type_Name t) t ctx)"
| "at_kind name (TNamed _ _ u) ctx = at_kind name u ctx"
| "at_kind name (TPrim p) ctx = at_scalar p"
| "at_kind name (TPointer t) ctx = ''^'' @ at_encode t (if ctx = Outermost then Expanded else Abbreviated)"
| "at_kind name (TStruct fs) ctx =
     (if ctx = Abbreviated then ''{'' @ name @ ''}'' else ''{'' @ name @ ''='' @ at_fields fs @ ''}'')"
| "at_kind name (TArray n t) ctx = ''['' @ decimal n @ at_encode t Expanded @ '']''"
| "at_kind name (TSlice _) ctx = ''?''"
| "at_kind name (TFunc _ _ _) ctx = ''?''"
| "at_kind name TInterface ctx = ''?''"
| "at_kind name (TMap _ _) ctx = ''?''"
| "at_kind name (TChan _) ctx = ''?''"
| "at_fields [] = []"
| "at_fields ((_, t) # fs) = at_encode t Expanded @ at_fields fs"
  by pat_completeness auto
termination
  by (relation "measure (case_sum (\<lambda>(t, _). 2 * size t + 1)
        (case_sum (\<lambda>(_, u, _). 2 * size u) (\<lambda>fs. 2 * size_list (size_prod (\<lambda>_. 0) size) fs)))") auto

declare at_encode.simps [simp del]

text \<open>
  The types for which both give the same: no 64-bit integer other than the object types, and no
  pointer to a struct outermost.
\<close>

function conforms :: "go_type \<Rightarrow> bool \<Rightarrow> encode_context \<Rightarrow> bool"
and conforms_kind :: "go_type \<Rightarrow> bool \<Rightarrow> encode_context \<Rightarrow> bool"
and conforms_fields :: "(string \<times> go_type) list \<Rightarrow> bool" where
  "conforms t insidePtr ctx = (object_code t \<noteq> None \<or> conforms_kind t insidePtr ctx)"
| "conforms_kind (TNamed _ _ u) insidePtr ctx = conforms_kind u insidePtr ctx"
| "conforms_kind (TPrim p) insidePtr ctx = (p \<notin> {PInt, PInt64, PUint, PUint64, PUintptr})"
| "conforms_kind (TPointer t) insidePtr ctx = conforms t True (if ctx = Outermost then Expanded else Abbreviated)"
| "conforms_kind (TStruct fs) insidePtr ctx =
     (if insidePtr then ctx = Abbreviated else conforms_fields fs)"
| "conforms_kind (TArray n t) insidePtr ctx = False"
| "conforms_kind (TSlice _) insidePtr ctx = False"
| "conforms_kind (TFunc _ _ _) insidePtr ctx = False"
| "conforms_kind TInterface insidePtr ctx = False"
| "conforms_kind (TMap _ _) insidePtr ctx = False"
| "conforms_kind (TChan _) insidePtr ctx = False"
| "conforms_fields [] = True"
| "conforms_fields ((_, t) # fs) = (conforms t False Expanded \<and> conforms_fields fs)"
  by pat_completeness auto
termination
  by (relation "measure (case_sum (\<lambda>(t, _). 2 * size t + 1)
        (case_sum (\<lambda>(u, _). 2 * size u) (\<lambda>fs. 2 * size_list (size_prod (\<lambda>_. 0) size) fs)))") auto

declare conforms.simps [simp del]

text \<open>What stands behind a pointer in the code is never outermost, and what does not is never abbreviated.\<close>

definition contexts_match :: "bool \<Rightarrow> encode_context \<Rightarrow> bool" where
  "contexts_match insidePtr ctx \<longleftrightarrow> (if insidePtr then ctx \<noteq> Outermost else ctx \<noteq> Abbreviated)"

lemma encodeType_object:
  "encodeType t p = (case object_code t of Some c \<Rightarrow> Inr c | None \<Rightarrow> encode_kind t t p)"
  by (simp add: encodeType.simps object_code_def)

lemma scalar_conforms:
  "scalar_encoding p = Some enc \<Longrightarrow>
     length enc \<le> length (at_scalar p) \<and> (enc = at_scalar p \<longleftrightarrow> p \<notin> {PInt, PInt64, PUint, PUint64, PUintptr})"
  by (cases p) auto

lemma append_le_eq:
  "length a \<le> length a' \<Longrightarrow> length b \<le> length b' \<Longrightarrow> a @ b = a' @ b' \<longleftrightarrow> a = a' \<and> b = b'"
  by (metis add_mono append_eq_append_conv le_antisym length_append nat_add_left_cancel_le add_le_cancel_right le_neq_implies_less nat_less_le)

lemma encode_conforms:
  "encodeType t p = Inr enc \<Longrightarrow> contexts_match p ctx \<Longrightarrow>
     length enc \<le> length (at_encode t ctx) \<and> (enc = at_encode t ctx \<longleftrightarrow> conforms t p ctx)"
  and  "encode_kind w u p = Inr enc \<Longrightarrow> contexts_match p ctx \<Longrightarrow>
     length enc \<le> length (at_kind (type_Name w) u ctx) \<and>
     (enc = at_kind (type_Name w) u ctx \<longleftrightarrow> conforms_kind u p ctx)"
  and  "encode_fields fs = Inr enc \<Longrightarrow>
     length enc \<le> length (at_fields fs) \<and> (enc = at_fields fs \<longleftrightarrow> conforms_fields fs)"
proof (induction t p and w u p and fs arbitrary: enc ctx and enc ctx and enc
    rule: encodeType_encode_kind_encode_fields.induct)
  case (1 w p)
  show ?case
  proof (cases "object_code w")
    case None
    then have "w \<noteq> Class_type" "\<not> (w = ID_type \<or> w = Block_type)" "w \<noteq> SEL_type"
      by (auto simp: object_code_def split: if_splits)
    with 1 None show ?thesis
      by (simp add: encodeType_object at_encode.simps conforms.simps)
  next
    case (Some c)
    with 1 show ?thesis
      by (simp add: encodeType_object at_encode.simps conforms.simps)
  qed
next
  case (3 w q p)
  then show ?case
    using scalar_conforms [of q enc] by (auto split: option.splits)
next
  case (4 w t p)
  from 4(2) obtain e where e: "encodeType t True = Inr e" "enc = ''^'' @ e"
    by (auto simp: err_simps)
  have "contexts_match True (if ctx = Outermost then Expanded else Abbreviated)"
    by (simp add: contexts_match_def)
  from 4(1) [OF e(1) this] show ?case
    by (simp add: e(2))
next
  case (5 w fs p)
  show ?case
  proof (cases p)
    case True
    then show ?thesis
      using 5(2,3) by (auto simp: contexts_match_def)
  next
    case False
    then obtain es where es: "encode_fields fs = Inr es" "enc = ''{'' @ type_Name w @ ''='' @ es @ ''}''"
      using 5(2) by (auto simp: err_simps)
    from 5(1) [OF False es(1)] False show ?thesis
      using 5(3) by (auto simp: es(2) contexts_match_def)
  qed
next
  case (13 n t fs)
  from 13(3) obtain a b where ab: "encodeType t False = Inr a" "encode_fields fs = Inr b" "enc = a @ b"
    by (auto simp: err_simps)
  have "contexts_match False Expanded"
    by (simp add: contexts_match_def)
  from 13(1) [OF ab(1) this] 13(2) [OF ab(1,2)] show ?case
    by (simp add: ab(3) append_le_eq add_mono)
qed (auto simp: err_simps)

section \<open>Taking an encoding apart\<close>

text \<open>
  How the runtime walks over the encoding of a method: \<open>take_type d mode s\<close> takes one type off the
  front of \<open>s\<close>, inside \<open>d\<close> open structs. After \<open>^\<close> a type must follow; the name of a struct ends at
  \<open>=\<close> or at its closing brace.
\<close>

datatype scan_mode = AtType | AfterPointer | InName

definition scalar_codes :: "char list" where
  "scalar_codes = ''@#:cCsSiIlLqQfdBv*?''"

fun take_type :: "nat \<Rightarrow> scan_mode \<Rightarrow> string \<Rightarrow> (string \<times> string) option" where
  "take_type d mode [] = None"
| "take_type d mode (c # cs) = map_option (apfst ((#) c))
     (if mode = InName then
        if c = CHR ''}'' then (if d \<le> 1 then Some ([], cs) else take_type (d - 1) AtType cs)
        else if c = CHR ''='' then take_type d AtType cs
        else take_type d InName cs
      else if c = CHR ''^'' then take_type d AfterPointer cs
      else if c = CHR ''{'' then take_type (d + 1) InName cs
      else if c = CHR ''}'' then
        if mode = AfterPointer \<or> d = 0 then None
        else if d = 1 then Some ([], cs)
        else take_type (d - 1) AtType cs
      else if c \<in> set scalar_codes then
        if d = 0 then Some ([], cs) else take_type d AtType cs
      else None)"

lemma take_type_splits: "take_type d mode s = Some (t, r) \<Longrightarrow> s = t @ r \<and> t \<noteq> []"
proof (induction d mode s arbitrary: t r rule: take_type.induct)
  case (2 d mode c cs)
  then show ?case
    by (auto split: if_splits)
qed simp

function parse_types :: "string \<Rightarrow> string list option" where
  "parse_types s =
     (if s = [] then Some []
      else case take_type 0 AtType s of
             None \<Rightarrow> None
           | Some (t, r) \<Rightarrow> map_option ((#) t) (parse_types r))"
  by pat_completeness auto
termination
  by (relation "measure length") (auto dest!: take_type_splits)

declare parse_types.simps [simp del]

text \<open>
  Types whose encoding can be taken apart: no bare \<open>uintptr\<close>, and no \<open>=\<close> or brace in the name of a
  struct.
\<close>

definition name_ok :: "string \<Rightarrow> bool" where
  "name_ok n \<longleftrightarrow> CHR ''='' \<notin> set n \<and> CHR ''}'' \<notin> set n"

function readable :: "go_type \<Rightarrow> bool \<Rightarrow> bool"
and readable_kind :: "go_type \<Rightarrow> go_type \<Rightarrow> bool \<Rightarrow> bool"
and readable_fields :: "(string \<times> go_type) list \<Rightarrow> bool" where
  "readable t insidePtr = (object_code t \<noteq> None \<or> readable_kind t t insidePtr)"
| "readable_kind w (TNamed _ _ u) insidePtr = readable_kind w u insidePtr"
| "readable_kind w (TPrim p) insidePtr = (p \<noteq> PUintptr)"
| "readable_kind w (TPointer t) insidePtr = readable t True"
| "readable_kind w (TStruct fs) insidePtr = (name_ok (type_Name w) \<and> (insidePtr \<or> readable_fields fs))"
| "readable_kind w (TArray n t) insidePtr = True"
| "readable_kind w (TSlice _) insidePtr = True"
| "readable_kind w (TFunc _ _ _) insidePtr = True"
| "readable_kind w TInterface insidePtr = True"
| "readable_kind w (TMap _ _) insidePtr = True"
| "readable_kind w (TChan _) insidePtr = True"
| "readable_fields [] = True"
| "readable_fields ((_, t) # fs) = (readable t False \<and> readable_fields fs)"
  by pat_completeness auto
termination
  by (relation "measure (case_sum (\<lambda>(t, _). 2 * size t + 1)
        (case_sum (\<lambda>(_, u, _). 2 * size u) (\<lambda>fs. 2 * size_list (size_prod (\<lambda>_. 0) size) fs)))") auto

declare readable.simps [simp del]

text \<open>What follows an encoding inside \<open>d\<close> structs, once the encoding is passed.\<close>

definition passed :: "nat \<Rightarrow> string \<Rightarrow> string \<Rightarrow> (string \<times> string) option" where
  "passed d enc r = (if d = 0 then Some (enc, r) else map_option (apfst ((@) enc)) (take_type d AtType r))"

lemma passed_Cons: "map_option (apfst ((#) c)) (passed d enc r) = passed d (c # enc) r"
  by (cases "take_type d AtType r") (auto simp: passed_def)

lemma take_code:
  assumes "c \<in> set scalar_codes" "mode \<noteq> InName"
  shows "take_type d mode (c # r) = passed d [c] r"
proof -
  have "c \<noteq> CHR ''^''" "c \<noteq> CHR ''{''" "c \<noteq> CHR ''}''"
    using assms(1) unfolding scalar_codes_def by fastforce+
  moreover have "(@) [c] = (#) c"
    by (rule ext) simp
  ultimately show ?thesis
    using assms by (simp add: passed_def)
qed

lemma take_name:
  assumes "name_ok n"
  shows "take_type (Suc d) InName (n @ CHR ''='' # r) =
      map_option (apfst ((@) (n @ ''=''))) (take_type (Suc d) AtType r)"
    "take_type (Suc d) InName (n @ CHR ''}'' # r) = passed d (n @ ''}'') r"
proof -
  have "take_type (Suc d) InName (n @ s) = map_option (apfst ((@) n)) (take_type (Suc d) InName s)" for s
    using assms
  proof (induction n)
    case Nil
    then show ?case by (cases "take_type (Suc d) InName s") auto
  next
    case (Cons c n)
    then show ?case
      by (cases "take_type (Suc d) InName s") (auto simp: name_ok_def)
  qed
  note skip = this
  show "take_type (Suc d) InName (n @ CHR ''='' # r) =
      map_option (apfst ((@) (n @ ''=''))) (take_type (Suc d) AtType r)"
    by (cases "take_type (Suc d) AtType r") (auto simp: skip)
  show "take_type (Suc d) InName (n @ CHR ''}'' # r) = passed d (n @ ''}'') r"
    by (cases "take_type d AtType r") (auto simp: skip passed_def)
qed

lemma take_scalar:
  assumes "scalar_encoding p = Some enc" "p \<noteq> PUintptr" "mode \<noteq> InName"
  shows "take_type d mode (enc @ r) = passed d enc r"
proof (cases "p = PUnsafePointer")
  case True
  then have "enc = ''^v''"
    using assms(1) by simp
  then show ?thesis
    using assms(3) take_code [of "CHR ''v''" AfterPointer d r] passed_Cons [of "CHR ''^''" d "''v''" r]
    by (simp add: scalar_codes_def)
next
  case False
  then have "length enc = 1 \<and> hd enc \<in> set scalar_codes"
    using assms(1,2) by (cases p) (auto simp: scalar_codes_def)
  then obtain c where "enc = [c]" "c \<in> set scalar_codes"
    by (cases enc) auto
  then show ?thesis
    using take_code [OF _ assms(3)] by simp
qed

lemma object_code_scalar: "object_code t = Some c \<Longrightarrow> \<exists>x. c = [x] \<and> x \<in> set scalar_codes"
  by (auto simp: object_code_def scalar_codes_def split: if_splits)


lemma take_encoding:
  "encodeType t p = Inr enc \<Longrightarrow> readable t p \<Longrightarrow> mode \<noteq> InName \<Longrightarrow>
     take_type d mode (enc @ r) = passed d enc r"
  and "encode_kind w u p = Inr enc \<Longrightarrow> readable_kind w u p \<Longrightarrow> mode \<noteq> InName \<Longrightarrow>
     take_type d mode (enc @ r) = passed d enc r"
  and "encode_fields fs = Inr enc \<Longrightarrow> readable_fields fs \<Longrightarrow>
     take_type (Suc d) AtType (enc @ r) = map_option (apfst ((@) enc)) (take_type (Suc d) AtType r)"
proof (induction t p and w u p and fs arbitrary: enc d mode r and enc d mode r and enc d r
    rule: encodeType_encode_kind_encode_fields.induct)
  case (1 w p)
  show ?case
  proof (cases "object_code w")
    case None
    then have "w \<noteq> Class_type" "\<not> (w = ID_type \<or> w = Block_type)" "w \<noteq> SEL_type"
      by (auto simp: object_code_def split: if_splits)
    with 1 None show ?thesis
      by (simp add: encodeType_object readable.simps)
  next
    case (Some c)
    from object_code_scalar [OF Some] obtain x where "c = [x]" "x \<in> set scalar_codes"
      by blast
    moreover from this have "enc = [x]"
      using 1(2) Some by (simp add: encodeType_object)
    ultimately show ?thesis
      using 1(4) take_code [of x mode d r] by simp
  qed
next
  case (3 w q p)
  then show ?case
    by (simp add: take_scalar split: option.splits)
next
  case (4 w t p)
  from 4(2) obtain e where e: "encodeType t True = Inr e" "enc = ''^'' @ e"
    by (auto simp: err_simps)
  show ?case
    using 4(1) [OF e(1), of AfterPointer d r] 4(3,4) by (simp add: e(2) passed_Cons)
next
  case (5 w fs p)
  have name: "name_ok (type_Name w)"
    using 5(3) by simp
  show ?case
  proof (cases p)
    case True
    then have "enc = ''{'' @ type_Name w @ ''}''"
      using 5(2) by simp
    then show ?thesis
      using take_name(2) [OF name, of d r] 5(4) by (simp add: passed_Cons)
  next
    case False
    then obtain es where es: "encode_fields fs = Inr es" "enc = ''{'' @ type_Name w @ ''='' @ es @ ''}''"
      using 5(2) by (auto simp: err_simps)
    have "take_type (Suc d) AtType (es @ CHR ''}'' # r) = passed d (es @ ''}'') r"
      using 5(1) [OF False es(1), of d "CHR ''}'' # r"] 5(3) False
      by (cases "take_type d AtType r") (auto simp: passed_def)
    then show ?thesis
      using take_name(1) [OF name, of d "es @ CHR ''}'' # r"] 5(4)
      by (cases "take_type d AtType r") (auto simp: es(2) passed_def)
  qed
next
  case 12
  then show ?case
    by (cases "take_type (Suc d) AtType r") auto
next
  case (13 n t fs)
  from 13(3) obtain a b where ab: "encodeType t False = Inr a" "encode_fields fs = Inr b" "enc = a @ b"
    by (auto simp: err_simps)
  then show ?case
    using 13(1) [OF ab(1), of AtType "Suc d" "b @ r"] 13(2) [OF ab(1,2), of d r] 13(4)
    by (cases "take_type (Suc d) AtType r") (auto simp: passed_def)
qed (auto simp: err_simps)

lemma parse_encodings:
  assumes "encode_fields fs = Inr enc" "readable_fields fs"
  shows "\<exists>encs. parse_types enc = Some encs \<and> list_all2 (\<lambda>(_, t) e. encodeType t False = Inr e) fs encs"
  using assms
proof (induction fs arbitrary: enc)
  case (Cons f fs)
  obtain n t where f: "f = (n, t)"
    by (cases f)
  from Cons.prems obtain a b where ab: "encodeType t False = Inr a" "encode_fields fs = Inr b" "enc = a @ b"
    by (auto simp: f err_simps)
  have "take_type 0 AtType (a @ b) = Some (a, b)"
    using take_encoding(1) [OF ab(1), of AtType 0 b] Cons.prems(2) by (simp add: f passed_def)
  moreover from take_type_splits [OF this] have "a \<noteq> []"
    by simp
  moreover obtain encs where "parse_types b = Some encs" "list_all2 (\<lambda>(_, t) e. encodeType t False = Inr e) fs encs"
    using Cons.IH [OF ab(2)] Cons.prems(2) by (auto simp: f)
  ultimately show ?case
    by (auto simp: f ab parse_types.simps [of "a @ b"])
qed (simp add: parse_types.simps)

lemma readable_params: "readable_fields (map (\<lambda>t. ([], t)) ts) \<longleftrightarrow> (\<forall>t\<in>set ts. readable t False)"
  by (induction ts) auto

lemma parse_params:
  assumes "encode_params ts = Inr enc" "\<forall>t\<in>set ts. readable t False"
  shows "\<exists>encs. parse_types enc = Some encs \<and> list_all2 (\<lambda>u e. encodeType u False = Inr e) ts encs"
  using parse_encodings [OF assms(1) [unfolded encode_params_def]] assms(2)
  by (auto simp: readable_params list_all2_map1)

section \<open>Properties\<close>

text \<open>
  Property C28. The encoding of a type is the one \<open>@encode\<close> gives for the C type exactly if the type has
  no 64-bit integer among its scalars, apart from the object types, and is not a pointer to a struct
  outermost: \<open>int\<close>, \<open>int64\<close>, \<open>uint\<close>, \<open>uint64\<close> and \<open>uintptr\<close> get a code of another type.
\<close>

theorem encodeType_conforms:
  assumes "encodeType t False = Inr enc"
  shows "enc = at_encode t Outermost \<longleftrightarrow> conforms t False Outermost"
  using encode_conforms(1) [OF assms] by (simp add: contexts_match_def)

theorem encodeType_conforms_witness:
  "at_encode (TNamed ''m'' ''P'' (TStruct [(''X'', TPrim PFloat64), (''O'', ID_type)])) Outermost = ''{P=d@}'' \<and>
   at_encode (TPrim PInt64) Outermost \<noteq> ''L''"
proof -
  let ?t = "TNamed ''m'' ''P'' (TStruct [(''X'', TPrim PFloat64), (''O'', ID_type)])"
  have "encodeType ?t False = Inr ''{P=d@}''" "encodeType (TPrim PInt64) False = Inr ''L''"
    by (simp_all add: encodeType.simps objc_types)
  moreover have "conforms ?t False Outermost" "\<not> conforms (TPrim PInt64) False Outermost"
    by (simp_all add: conforms.simps object_code_def objc_types)
  ultimately show ?thesis
    using encodeType_conforms by metis
qed

text \<open>
  Property C29. If no type of a function has a bare \<open>uintptr\<close> in it, and the names of its struct types have
  neither \<^verbatim>\<open>=\<close> nor \<^verbatim>\<open>}\<close> (\<open>name_ok\<close>), the runtime reads its encoding as
  one encoding for the result, \<open>@\<close> for the receiver and one for each further parameter, in order and
  without a rest.
\<close>

theorem encodeFunc_parses:
  assumes "encodeFunc t = Inr enc"
    and "\<forall>u\<in>set (func_outs t) \<union> set (drop 1 (func_ins t)). readable u False"
  shows "\<exists>r encs. parse_types enc = Some (r # ''@'' # encs) \<and>
    (if NumOut t = 0 then r = ''v'' else encodeType (func_outs t ! 0) False = Inr r) \<and>
    list_all2 (\<lambda>u e. encodeType u False = Inr e) (drop 1 (func_ins t)) encs"
proof -
  obtain r args where r: "if NumOut t = 0 then r = ''v'' else encodeType (func_outs t ! 0) False = Inr r"
    and args: "encode_params (drop 1 (func_ins t)) = Inr args" and enc: "enc = r @ CHR ''@'' # args"
    using assms(1) by (auto simp: encodeFunc_def err_simps split: if_splits)
  have params: "\<forall>u\<in>set (drop 1 (func_ins t)). readable u False"
    using assms(2) by blast
  obtain encs where encs: "parse_types args = Some encs"
    "list_all2 (\<lambda>u e. encodeType u False = Inr e) (drop 1 (func_ins t)) encs"
    using parse_params [OF args params] by blast
  have "take_type 0 AtType (r @ s) = Some (r, s)" for s
  proof (cases "NumOut t = 0")
    case True
    then show ?thesis
      using r by (simp add: scalar_codes_def)
  next
    case False
    then have "func_outs t ! 0 \<in> set (func_outs t)"
      by (simp add: NumOut_def)
    then show ?thesis
      using r False assms(2) take_encoding(1) [of "func_outs t ! 0" False r AtType 0 s] by (simp add: passed_def)
  qed
  note first = this
  moreover from take_type_splits [OF first [of "[]"]] have "r \<noteq> []"
    by simp
  moreover have "take_type 0 AtType (CHR ''@'' # args) = Some (''@'', args)"
    by (simp add: scalar_codes_def)
  ultimately have "parse_types enc = Some (r # ''@'' # encs)"
    by (simp add: enc parse_types.simps [of "r @ _"] parse_types.simps [of "CHR ''@'' # _"] encs(1))
  then show ?thesis
    using r encs(2) by blast
qed

theorem encodeFunc_parses_witness:
  "\<exists>r encs. parse_types ''v@:i^{P}'' = Some (r # ''@'' # encs) \<and> length encs = 3"
proof -
  let ?p = "TPointer (TNamed ''m'' ''P'' (TStruct [(''X'', TPrim PFloat64)]))"
  let ?t = "TFunc [ID_type, SEL_type, TPrim PInt32, ?p] [] False"
  have "encodeFunc ?t = Inr ''v@:i^{P}''"
    by (simp add: encodeFunc_def encode_params_def NumOut_def NumIn_def encodeType.simps objc_types)
  moreover have "\<forall>u\<in>set (func_outs ?t) \<union> set (drop 1 (func_ins ?t)). readable u False"
    by (simp add: readable.simps object_code_def objc_types name_ok_def)
  ultimately show ?thesis
    using encodeFunc_parses [of ?t] by (fastforce dest: list_all2_lengthD)
qed

text \<open>
  With a bare \<open>uintptr\<close> the encoding is ambiguous: a method that takes a \<open>uintptr\<close> and an
  \<open>int32\<close> has the same encoding as one that takes a pointer to an \<open>int32\<close>, and the runtime reads both
  as the latter.
\<close>

lemma encodeFunc_collides:
  "encodeFunc (TFunc [ID_type, SEL_type, TPrim PUintptr, TPrim PInt32] [] False) = Inr ''v@:^i'' \<and>
   encodeFunc (TFunc [ID_type, SEL_type, TPointer (TPrim PInt32)] [] False) = Inr ''v@:^i'' \<and>
   parse_types ''v@:^i'' = Some [''v'', ''@'', '':'', ''^i'']"
  by (simp add: encodeFunc_def encode_params_def NumOut_def NumIn_def encodeType.simps objc_types
      parse_types.simps scalar_codes_def)

end
