(* ===== verification/ObjcBlocks.thy ===== *)
theory ObjcBlocks
  imports Callbacks ObjcEncoding
begin

text \<open>
  Objective-C blocks (\<^verbatim>\<open>objc_block_darwin.go\<close>): the cache of block layouts, one per function type, the
  map from live blocks to the Go functions they run, the making of a block, and what native code
  and Go code run when they invoke one.
\<close>

section \<open>Constants and data\<close>

definition blockBaseClass :: string where
  "blockBaseClass = ''__NSMallocBlock__''"

definition blockHasCopyDispose :: u32 where
  "blockHasCopyDispose = push_bit 25 1"

definition blockHasSignature :: u32 where
  "blockHasSignature = push_bit 30 1"

definition blockFlags :: u32 where
  "blockFlags = or blockHasCopyDispose blockHasSignature"

record block_descriptor =
  bd_size :: uintptr
  bd_dispose :: uintptr
  bd_signature :: uintptr

record block_layout =
  bl_isa :: uintptr
  bl_flags :: u32
  bl_invoke :: uintptr
  bl_descriptor :: uintptr

text \<open>The two structs in memory; the unnamed fields are zero.\<close>

definition descriptor_bytes :: "block_descriptor \<Rightarrow> byte list" where
  "descriptor_bytes d = le_bytes 8 0 @ le_bytes 8 (bd_size d) @ le_bytes 8 0 @ le_bytes 8 (bd_dispose d) @
     le_bytes 8 (bd_signature d)"

definition layout_bytes :: "block_layout \<Rightarrow> byte list" where
  "layout_bytes l = le_bytes 8 (bl_isa l) @ le_bytes 4 (ucast (bl_flags l)) @ le_bytes 4 0 @
     le_bytes 8 (bl_invoke l) @ le_bytes 8 (bl_descriptor l)"

section \<open>The function cache\<close>

text \<open>\<open>map[Block]reflect.Value\<close>; a missing key reads as the zero \<open>reflect.Value\<close>.\<close>

type_synonym function_cache = "uintptr \<Rightarrow> fn_value option"

definition cache_Load :: "function_cache \<Rightarrow> uintptr \<Rightarrow> fn_value option" where
  "cache_Load functions key = functions key"

definition cache_Store :: "uintptr \<Rightarrow> fn_value \<Rightarrow> function_cache \<Rightarrow> uintptr \<times> function_cache" where
  "cache_Store key v functions = (key, functions(key \<mapsto> v))"

definition cache_Delete :: "uintptr \<Rightarrow> function_cache \<Rightarrow> function_cache" where
  "cache_Delete key functions = functions(key := None)"

definition newBlockFunctionCache :: function_cache where
  "newBlockFunctionCache = Map.empty"

lemmas cache_defs = cache_Load_def cache_Store_def cache_Delete_def newBlockFunctionCache_def

section \<open>The layout cache\<close>

text \<open>
  \<open>blockCache\<close>: its mutex, the templates, the layouts by function type (\<open>None\<close> is the nil
  \<open>reflect.Type\<close>) and the functions.
\<close>

record block_cache =
  bc_locked :: bool
  descriptorTemplate :: block_descriptor
  layoutTemplate :: block_layout
  layouts :: "go_type option \<Rightarrow> block_layout option"
  Functions :: function_cache

type_synonym ('w, 'a) bl_prog = "('w gstate \<times> block_cache, 'a) prog"

definition objc_panic :: "'a or_error \<Rightarrow> 'a res" where
  "objc_panic r = (case r of Inl err \<Rightarrow> Inl (PanicMsg (''objc: '' @ err)) | Inr x \<Rightarrow> Inr x)"

definition block_encoding :: "go_type option \<Rightarrow> string res" where
  "block_encoding typ =
     (case typ of
        None \<Rightarrow> Inl (PanicMsg ''objc: not a function'')
      | Some t \<Rightarrow>
          if Kind t \<noteq> KFunc then Inl (PanicMsg ''objc: not a function'')
          else bind_res (if NumOut t = 0 then Inr ''v'' else objc_panic (encodeType (func_outs t ! 0) False)) (\<lambda>encoding.
            if NumIn t = 0 \<or> func_ins t ! 0 \<noteq> Block_type
            then Inl (PanicMsg (''objc: A Block implementation must take a Block as its first argument; got '' @ type_String t))
            else bind_res (objc_panic (encode_params (drop 1 (func_ins t)))) (\<lambda>args. Inr (encoding @ ''@'' @ args))))"

text \<open>\<open>encode\<close> returns a pointer to the encoding and a NUL.\<close>

definition block_encode :: "go_type option \<Rightarrow> ('w gstate, uintptr) prog" where
  "block_encode typ = bind_st (lift_res (block_encoding typ)) (\<lambda>encoding. new_st (bytes_of encoding @ [0]))"

text \<open>The mutex, held until the deferred unlock, on every path.\<close>

definition with_lock :: "('w, 'a) bl_prog \<Rightarrow> ('w, 'a) bl_prog" where
  "with_lock p = (\<lambda>(s, c).
     if bc_locked c then (Inl Diverges, (s, c))
     else defer_st (\<lambda>(s, c). (s, c\<lparr>bc_locked := False\<rparr>)) p (s, c\<lparr>bc_locked := True\<rparr>))"

definition new_layout :: "'w goffi \<Rightarrow> go_type option \<Rightarrow> block_cache \<Rightarrow> ('w gstate, block_layout) prog" where
  "new_layout E typ c =
     bind_st (new_st (descriptor_bytes (descriptorTemplate c))) (\<lambda>descriptor.
     bind_st (block_encode typ) (\<lambda>signature.
     bind_st (store_st (descriptor + 32) (le_bytes 8 signature)) (\<lambda>_.
     bind_st (NewCallback E (the typ) BlockDispatcher) (\<lambda>invoke.
       pure_st ((layoutTemplate c)\<lparr>bl_descriptor := descriptor, bl_invoke := invoke\<rparr>)))))"

definition getLayout :: "'w goffi \<Rightarrow> go_type option \<Rightarrow> ('w, block_layout) bl_prog" where
  "getLayout E typ = with_lock
     (bind_st get_l (\<lambda>c. case layouts c typ of
        Some layout \<Rightarrow> pure_st layout
      | None \<Rightarrow>
          bind_st (on_g (new_layout E typ c)) (\<lambda>layout.
          bind_st (on_l (layouts_update (\<lambda>m. m(typ \<mapsto> layout)))) (\<lambda>_.
            pure_st layout))))"

text \<open>\<open>GetClass\<close> is the function of the package, which calls what \<open>init\<close> has bound.\<close>

definition newBlockCache ::
  "'w goffi \<Rightarrow> (string \<Rightarrow> ('w gstate, uintptr) prog) \<Rightarrow> ('w gstate, block_cache) prog" where
  "newBlockCache E GetClass =
     bind_st (GetClass blockBaseClass) (\<lambda>isa.
     bind_st (NewCallback E (TFunc [Block_type] [] False) BlockDisposer) (\<lambda>dispose.
       pure_st \<lparr>bc_locked = False,
         descriptorTemplate = \<lparr>bd_size = 32, bd_dispose = dispose, bd_signature = 0\<rparr>,
         layoutTemplate = \<lparr>bl_isa = isa, bl_flags = blockFlags, bl_invoke = 0, bl_descriptor = 0\<rparr>,
         layouts = Map.empty,
         Functions = newBlockFunctionCache\<rparr>))"

section \<open>Blocks\<close>

text \<open>
  The two functions of the blocks runtime, as the Go variables that hold them: a release may call back
  into Go, so they work on the whole state.
\<close>

record 'w blocks_runtime =
  Block_copy :: "uintptr \<Rightarrow> ('w, uintptr) bl_prog"
  Block_release :: "uintptr \<Rightarrow> ('w, unit) bl_prog"

definition Block_Copy :: "'w blocks_runtime \<Rightarrow> uintptr \<Rightarrow> ('w, uintptr) bl_prog" where
  "Block_Copy B b = Block_copy B b"

definition Block_Release :: "'w blocks_runtime \<Rightarrow> uintptr \<Rightarrow> ('w, unit) bl_prog" where
  "Block_Release B b = Block_release B b"

text \<open>\<open>NewBlock\<close> in parts: the literal, its copy, then the entry of the function under the copy.\<close>

definition NewBlock_value :: "'w goffi \<Rightarrow> fn_value option \<Rightarrow> ('w, uintptr) bl_prog" where
  "NewBlock_value E fn =
     bind_st (getLayout E (map_option fst fn)) (\<lambda>layout. on_g (new_st (layout_bytes layout)))"

definition NewBlock_copy :: "'w goffi \<Rightarrow> 'w blocks_runtime \<Rightarrow> fn_value option \<Rightarrow> ('w, uintptr) bl_prog" where
  "NewBlock_copy E B fn = bind_st (NewBlock_value E fn) (Block_Copy B)"

definition NewBlock_store :: "uintptr \<Rightarrow> fn_value option \<Rightarrow> ('w, uintptr) bl_prog" where
  "NewBlock_store block fn =
     bind_st (on_l (Functions_update (\<lambda>m. snd (cache_Store block (the fn) m)))) (\<lambda>_. pure_st block)"

definition NewBlock :: "'w goffi \<Rightarrow> 'w blocks_runtime \<Rightarrow> fn_value option \<Rightarrow> ('w, uintptr) bl_prog" where
  "NewBlock E B fn = bind_st (NewBlock_copy E B fn) (\<lambda>block. NewBlock_store block fn)"

text \<open>A Go function of the program, run on arguments that fit.\<close>

type_synonym 'w block_user = "closure \<Rightarrow> rvalue list \<Rightarrow> ('w, rvalue list) bl_prog"

definition block_value :: "uintptr \<Rightarrow> rvalue" where
  "block_value b = \<lparr>rv_type = Block_type, rv_val = GBits b, rv_addr = None\<rparr>"

definition Block_Invoke ::
  "(go_type \<Rightarrow> go_type \<Rightarrow> bool) \<Rightarrow> 'w block_user \<Rightarrow> uintptr \<Rightarrow> rvalue option list \<Rightarrow> ('w, unit) bl_prog" where
  "Block_Invoke implements U b args =
     bind_st get_l (\<lambda>c.
     bind_st (reflect_Call implements U (cache_Load (Functions c) b) (Some (block_value b) # args)) (\<lambda>_.
       pure_st ()))"

text \<open>What native code runs through the \<open>invoke\<close> pointer of a block, and through \<open>dispose\<close>.\<close>

definition dispatch_block ::
  "(go_type \<Rightarrow> go_type \<Rightarrow> bool) \<Rightarrow> 'w block_user \<Rightarrow> rvalue list \<Rightarrow> ('w, rvalue list) bl_prog" where
  "dispatch_block implements U args =
     (case args of
        [] \<Rightarrow> panic_st (IndexOutOfRange 0 0)
      | b # _ \<Rightarrow>
          if rv_type b \<noteq> Block_type
          then panic_st (PanicMsg (''objc: block argument is not a block but '' @ type_String (rv_type b)))
          else bind_st get_l (\<lambda>c.
            reflect_Call implements U (cache_Load (Functions c) (val_bits (rv_val b))) (map Some args)))"

definition dispose_block :: "uintptr \<Rightarrow> ('w, unit) bl_prog" where
  "dispose_block b = on_l (Functions_update (cache_Delete b))"

text \<open>The functions that the package makes callbacks of; the others are the program's.\<close>

fun block_closure :: "(go_type \<Rightarrow> go_type \<Rightarrow> bool) \<Rightarrow> 'w block_user \<Rightarrow> 'w block_user" where
  "block_closure implements U BlockDispatcher args = dispatch_block implements U args"
| "block_closure implements U BlockDisposer args =
     (case args of
        [] \<Rightarrow> panic_st (IndexOutOfRange 0 0)
      | b # _ \<Rightarrow> bind_st (dispose_block (val_bits (rv_val b))) (\<lambda>_. pure_st []))"
| "block_closure implements U c args = U c args"

text \<open>A deferred call that may itself panic.\<close>

definition deferred :: "('s, unit) prog \<Rightarrow> ('s, 'a) prog \<Rightarrow> ('s, 'a) prog" where
  "deferred d p = (\<lambda>s. case p s of (r, s') \<Rightarrow>
     (case d s' of (Inl e, s'') \<Rightarrow> (Inl e, s'') | (Inr _, s'') \<Rightarrow> (r, s'')))"

text \<open>
  \<open>InvokeBlock[T]\<close>; the zero value that goes with an error is left out. A result whose type is an
  interface keeps that type here.
\<close>

definition type_asserts :: "(go_type \<Rightarrow> go_type \<Rightarrow> bool) \<Rightarrow> go_type \<Rightarrow> go_type \<Rightarrow> bool" where
  "type_asserts implements v t \<longleftrightarrow> v = t \<or> Kind t = KInterface \<and> implements v t"

definition zero_type_verb :: "go_type \<Rightarrow> string" where
  "zero_type_verb t = (if Kind t = KInterface then ''<nil>'' else type_String t)"

definition invoke_result ::
  "(go_type \<Rightarrow> go_type \<Rightarrow> bool) \<Rightarrow> go_type \<Rightarrow> rvalue list \<Rightarrow> ('w, rvalue or_error) bl_prog" where
  "invoke_result implements T callResult =
     (case callResult of
        [] \<Rightarrow> panic_st (IndexOutOfRange 0 0)
      | r # _ \<Rightarrow>
          if type_asserts implements (rv_type r) T then pure_st (Inr r)
          else pure_st (Inl (''objc: the returned value type '' @ type_String (rv_type r) @
            '' was not '' @ zero_type_verb T)))"

definition InvokeBlock ::
  "(go_type \<Rightarrow> go_type \<Rightarrow> bool) \<Rightarrow> 'w block_user \<Rightarrow> 'w blocks_runtime \<Rightarrow> go_type \<Rightarrow> uintptr \<Rightarrow>
     rvalue option list \<Rightarrow> ('w, rvalue or_error) bl_prog" where
  "InvokeBlock implements U B T b args =
     bind_st (Block_Copy B b) (\<lambda>block. deferred (Block_Release B block)
       (bind_st get_l (\<lambda>c. case cache_Load (Functions c) block of
          None \<Rightarrow> panic_st (PanicErr ''reflect: call of reflect.Value.Type on zero Value'')
        | Some (t, f) \<Rightarrow>
            if NumIn t \<noteq> length args + 1
            then pure_st (Inl (''objc: block callback expects '' @ decimal (NumIn t - 1) @
              '' arguments, got '' @ decimal (length args)))
            else bind_st (reflect_Call implements U (Some (t, f)) (Some (block_value block) # args))
              (invoke_result implements T))))"

section \<open>A layout in memory\<close>

lemma length_descriptor_bytes [simp]: "length (descriptor_bytes d) = 40"
  by (simp add: descriptor_bytes_def)

lemma length_layout_bytes [simp]: "length (layout_bytes l) = 32"
  by (simp add: layout_bytes_def)

lemma take_descriptor_bytes:
  "take 32 (descriptor_bytes d) @ le_bytes 8 sig = descriptor_bytes (d\<lparr>bd_signature := sig\<rparr>)"
  by (simp add: descriptor_bytes_def)

text \<open>Filling in a part of a fresh block leaves all older memory and all later blocks as they are.\<close>

lemma set_signature:
  assumes d: "gnew bs m = Inr (d, m1)" "length bs = 40"
    and sig: "gnew sb m1 = Inr (sig, m2)"
    and st: "store m2 (d + 32) w = Inr m3" "length w = 8"
  shows "mem_ext m m3" "holds m3 d (take 32 bs @ w)" "holds m3 sig sb"
proof -
  have lim: "mbrk m + 40 < heap_limit" and d_eq: "d = of_nat (mbrk m)" and brk1: "mbrk m1 = mbrk m + 40"
    using d by (auto simp: gnew_def split: if_splits)
  have at: "unat (d + of_nat j) = mbrk m + j" if "j < 40" for j
    using unat_heap_offset [OF lim that] by (simp add: d_eq)
  have ext12: "mem_ext m1 m2" and ext01: "mem_ext m m1"
    using gnew_spec(1) [OF sig] gnew_spec(1) [OF d(1)] by auto
  have other: "mbytes m3 x = mbytes m2 x" if "unat x < mbrk m + 32 \<or> mbrk m + 40 \<le> unat x" for x
  proof (rule store_bytes_other [OF st(1)], intro allI impI)
    fix i assume "i < length w"
    then have "unat (d + of_nat (32 + i)) = mbrk m + (32 + i)"
      using st(2) by (intro at) simp
    then show "x \<noteq> d + 32 + of_nat i"
      using that \<open>i < length w\<close> st(2) by (auto simp: add.assoc)
  qed
  have brk3: "mbrk m3 = mbrk m2"
    using store_frame [OF st(1)] by simp
  have "unat x < mbrk m \<or> heap_limit \<le> unat x \<Longrightarrow> mbytes m3 x = mbytes m2 x" for x
    using other [of x] lim by linarith
  then have "mem_ext m m3"
    using mem_ext_trans [OF ext01 ext12] by (simp add: mem_ext_def brk3)
  have "holds m2 d bs"
    using gnew_holds [OF d(1)] holds_mem_ext [OF ext12] by blast
  then have "load m2 d 32 = Inr (take 32 bs)"
    using load_prefix [of m2 d "length bs" bs 32] d(2) by (simp add: holds_def)
  moreover have "load m3 d 32 = load m2 d 32"
    by (rule load_cong_bytes) (use at other in auto)
  moreover have "load m3 (d + 32) 8 = Inr w"
    using store_load [OF st(1)] st(2) by simp
  ultimately have "load m3 d 40 = Inr (take 32 bs @ w)"
    using load_append [of m3 d "take 32 bs" w] d(2) st(2) by simp
  moreover have "settled m3 d 40"
    using at gnew_spec(6) [OF sig] brk1 by (simp add: settled_def brk3)
  ultimately show "holds m3 d (take 32 bs @ w)"
    using d(2) st(2) by (simp add: holds_def)
  have sig_at: "unat (sig + of_nat i) = mbrk m + 40 + i" if "i < length sb" for i
    using sig that unat_heap_offset [of "mbrk m1" "length sb" i] by (auto simp: gnew_def brk1 split: if_splits)
  have "load m3 sig (length sb) = load m2 sig (length sb)"
    by (rule load_cong_bytes) (use sig_at other in auto)
  then show "holds m3 sig sb"
    using gnew_holds [OF sig] by (simp add: holds_def settled_def brk3)
  show "mem_ext m m3" by fact
qed

text \<open>
  \<open>layout_ok\<close>: a layout describes blocks of its function type. Its descriptor is the template with
  a signature pointer, behind which the encoding of the type is terminated by NUL; its invoke pointer is
  a callback of the type that runs the dispatcher.
\<close>

definition layout_ok :: "'w goffi \<Rightarrow> 'w mem \<Rightarrow> block_cache \<Rightarrow> go_type option \<Rightarrow> block_layout \<Rightarrow> bool" where
  "layout_ok E m c typ l \<longleftrightarrow> bl_isa l = bl_isa (layoutTemplate c) \<and> bl_flags l = bl_flags (layoutTemplate c) \<and>
     (\<exists>t. typ = Some t \<and> callback_for E t BlockDispatcher (bl_invoke l)) \<and>
     (\<exists>enc sig. block_encoding typ = Inr enc \<and>
        holds m (bl_descriptor l) (descriptor_bytes ((descriptorTemplate c)\<lparr>bd_signature := sig\<rparr>)) \<and>
        holds m sig (bytes_of enc @ [0]))"

lemma layout_ok_ext: "mem_ext m m' \<Longrightarrow> layout_ok E m c typ l \<Longrightarrow> layout_ok E m' c typ l"
  unfolding layout_ok_def using holds_mem_ext [of m m'] by blast

lemma on_mem_fails: "on_mem f s = (Inl e, s') \<Longrightarrow> s' = s"
  by (auto simp: on_mem_def lift_st_def split: sum.splits)

lemma NewCallback_extends:
  assumes "callbacks_extend E" "NewCallback E t fn s = (r, s')"
  shows "extends s s'"
proof (cases "snd (NewCallback E t fn s) = s")
  case True
  then show ?thesis
    using assms(2) by simp
next
  case False
  then obtain t' c where "on_mem (ffi_NewCallback E t' c) s = (r, s')"
    using assms(2) by (auto simp: NewCallback_def Let_def split: if_splits)
  with False show ?thesis
    using assms by (cases r) (auto simp: st_simps extends_def callbacks_extend_def dest: on_mem_fails)
qed

lemma block_encode_fails: "block_encode typ s = (Inl e, s') \<Longrightarrow> s' = s"
  unfolding block_encode_def new_st_def
  by (auto simp: bind_st_def lift_res_def split: sum.splits prod.splits dest: on_mem_fails)

lemma block_encoding_function:
  assumes "block_encoding typ = Inr enc"
  shows "\<exists>t. typ = Some t \<and> Kind t = KFunc \<and> NumIn t \<noteq> 0 \<and> func_ins t ! 0 = Block_type"
  using assms by (cases "typ") (auto simp: block_encoding_def res_simps split: if_splits)

lemma new_layout_ok:
  assumes cb: "callbacks_extend E" and run: "new_layout E typ c s = (r, s')"
  shows "extends s s' \<and> (\<forall>l. r = Inr l \<longrightarrow> layout_ok E (gmem s') c typ l)"
proof -
  let ?D = "descriptor_bytes (descriptorTemplate c)"
  from run consider (desc) e where "new_st ?D s = (Inl e, s')" "r = Inl e"
    | (enc) d s1 e where "new_st ?D s = (Inr d, s1)" "block_encode typ s1 = (Inl e, s')" "r = Inl e"
    | (sig) d s1 sig s2 e where "new_st ?D s = (Inr d, s1)" "block_encode typ s1 = (Inr sig, s2)"
        "store_st (d + 32) (le_bytes 8 sig) s2 = (Inl e, s')" "r = Inl e"
    | (callback) d s1 sig s2 s3 r3 where "new_st ?D s = (Inr d, s1)" "block_encode typ s1 = (Inr sig, s2)"
        "store_st (d + 32) (le_bytes 8 sig) s2 = (Inr (), s3)" "NewCallback E (the typ) BlockDispatcher s3 = (r3, s')"
        "r = (case r3 of Inl e \<Rightarrow> Inl e
          | Inr invoke \<Rightarrow> Inr ((layoutTemplate c)\<lparr>bl_descriptor := d, bl_invoke := invoke\<rparr>))"
    unfolding new_layout_def bind_st_def by (auto simp: pure_st_def split: prod.splits sum.splits)
  then show ?thesis
  proof cases
    case desc
    then show ?thesis
      by (auto simp: new_st_def dest: on_mem_fails)
  next
    case enc
    then show ?thesis
      using new_st_ok(1) [OF enc(1)] block_encode_fails by auto
  next
    case sig
    have "extends s1 s2"
      using sig(2) new_st_ok(1) by (auto simp: block_encode_def lift_res_def st_simps split: sum.splits) blast
    moreover have "s' = s2"
      using on_mem_fails sig(3) by (auto simp: store_st_def)
    ultimately show ?thesis
      using extends_trans [OF new_st_ok(1) [OF sig(1)]] sig(4) by auto
  next
    case callback
    from callback(2) obtain enc where enc: "block_encoding typ = Inr enc" "new_st (bytes_of enc @ [0]) s1 = (Inr sig, s2)"
      by (auto simp: block_encode_def lift_res_def st_simps split: sum.splits)
    obtain m1 m2 m3 where m: "gnew ?D (gmem s) = Inr (d, m1)" "gnew (bytes_of enc @ [0]) m1 = Inr (sig, m2)"
      "store m2 (d + 32) (le_bytes 8 sig) = Inr m3" and s3: "s3 = s\<lparr>gmem := m3\<rparr>"
      using callback(1,3) enc(2) by (auto simp: new_st_eq_Inr store_st_eq_Inr)
    note mem = set_signature [OF m(1) length_descriptor_bytes m(2,3) length_le_bytes, unfolded take_descriptor_bytes]
    have ext: "extends s3 s'"
      by (rule NewCallback_extends [OF cb callback(4)])
    obtain t where t: "typ = Some t" "NumIn t \<noteq> 0" "func_ins t ! 0 = Block_type"
      using block_encoding_function [OF enc(1)] by blast
    have dispatcher: "\<exists>t. typ = Some t \<and> callback_for E t BlockDispatcher invoke" if "r3 = Inr invoke" for invoke
      using NewCallback_for [OF callback(4) [unfolded that]] t by (simp add: Block_type_def)
    have "extends s s3"
      using mem(1) by (auto simp: extends_def s3)
    moreover have "layout_ok E (gmem s') c typ l" if "r = Inr l" for l
    proof (rule layout_ok_ext)
      show "mem_ext (gmem s3) (gmem s')"
        using ext by (simp add: extends_def)
      show "layout_ok E (gmem s3) c typ l"
        using that callback(5) mem(2,3) enc(1) dispatcher by (auto simp: layout_ok_def s3 split: sum.splits)
    qed
    ultimately show ?thesis
      using ext extends_trans by blast
  qed
qed

section \<open>The cache of layouts\<close>

definition blocks_ok :: "'w goffi \<Rightarrow> 'w gstate \<times> block_cache \<Rightarrow> bool" where
  "blocks_ok E = (\<lambda>(s, c). \<not> bc_locked c \<and> (\<forall>typ l. layouts c typ = Some l \<longrightarrow> layout_ok E (gmem s) c typ l))"

lemma getLayout_run:
  assumes cb: "callbacks_extend E" and ok: "blocks_ok E (s, c)" and run: "getLayout E typ (s, c) = (r, (s', c'))"
  shows "extends s s' \<and> blocks_ok E (s', c') \<and>
    (case r of Inr l \<Rightarrow> layouts c' typ = Some l \<and> c' = c\<lparr>layouts := (layouts c)(typ \<mapsto> l)\<rparr>
     | Inl e \<Rightarrow> layouts c typ = None \<and> c' = c)"
proof (cases "layouts c typ")
  case (Some l)
  then have "r = Inr l" "s' = s" "c' = c"
    using run ok by (auto simp: getLayout_def with_lock_def defer_st_def bind_st_def get_l_def blocks_ok_def)
  then show ?thesis
    using ok Some by (auto simp: fun_upd_idem)
next
  case None
  let ?c = "c\<lparr>bc_locked := True\<rparr>"
  obtain r1 s1 where new: "new_layout E typ ?c s = (r1, s1)"
    by (cases "new_layout E typ ?c s")
  have unlocked: "\<not> bc_locked c" "?c\<lparr>bc_locked := False\<rparr> = c"
    using ok by (auto simp: blocks_ok_def)
  note n = new_layout_ok [OF cb new]
  have old: "layout_ok E (gmem s1) c t l" if "layouts c t = Some l" for t l
    using that ok n layout_ok_ext [of "gmem s" "gmem s1"] by (auto simp: blocks_ok_def extends_def)
  show ?thesis
  proof (cases r1)
    case (Inl e)
    then have "r = Inl e" "s' = s1" "c' = c"
      using run None new unlocked
      by (auto simp: getLayout_def with_lock_def defer_st_def bind_st_def get_l_def on_g_def)
    then show ?thesis
      using n old None unlocked(1) by (auto simp: blocks_ok_def)
  next
    case (Inr l)
    have "(?c\<lparr>layouts := (layouts c)(typ \<mapsto> l)\<rparr>)\<lparr>bc_locked := False\<rparr> = c\<lparr>layouts := (layouts c)(typ \<mapsto> l)\<rparr>"
      using unlocked(1) by simp
    then have "r = Inr l" "s' = s1" "c' = c\<lparr>layouts := (layouts c)(typ \<mapsto> l)\<rparr>"
      using run None new unlocked(1) Inr
      by (auto simp: getLayout_def with_lock_def defer_st_def bind_st_def get_l_def on_g_def on_l_def)
    moreover have "layout_ok E (gmem s1) c typ l"
      using n Inr by (simp add: layout_ok_def)
    moreover have "layout_ok E m (c\<lparr>layouts := ls\<rparr>) t l = layout_ok E m c t l" for m :: "'a mem" and ls t l
      by (simp add: layout_ok_def)
    ultimately show ?thesis
      using n old unlocked(1) by (auto simp: blocks_ok_def)
  qed
qed

lemma getLayout_again:
  "\<not> bc_locked c \<Longrightarrow> layouts c typ = Some l \<Longrightarrow> getLayout E typ (s, c) = (Inr l, (s, c))"
  by (simp add: getLayout_def with_lock_def defer_st_def bind_st_def get_l_def)

text \<open>With an engine that makes every callback and enough heap, a new block is made.\<close>

lemma new_layout_returns:
  assumes cb: "\<And>m. ffi_NewCallback E t BlockDispatcher m = Inr (a, m)"
    and enc: "block_encoding (Some t) = Inr enc" and room: "mbrk (gmem s) + length enc + 41 < heap_limit"
  shows "\<exists>l s'. new_layout E (Some t) c s = (Inr l, s') \<and> mbrk (gmem s') = mbrk (gmem s) + length enc + 41"
proof -
  obtain d s1 where d: "new_st (descriptor_bytes (descriptorTemplate c)) s = (Inr d, s1)" "mbrk (gmem s1) = mbrk (gmem s) + 40"
    using new_st_runs [of s "descriptor_bytes (descriptorTemplate c)"] room by auto
  obtain sig s2 where sig: "new_st (bytes_of enc @ [0]) s1 = (Inr sig, s2)" "mbrk (gmem s2) = mbrk (gmem s1) + length enc + 1"
    using new_st_runs [of s1 "bytes_of enc @ [0]"] room d(2) by (auto simp: bytes_of_def)
  have encode: "block_encode (Some t) s1 = (Inr sig, s2)"
    by (simp add: block_encode_def enc lift_res_def bind_st_def sig)
  have "extends s1 s2" "holds (gmem s1) d (descriptor_bytes (descriptorTemplate c))"
    using new_st_ok(1) [OF sig(1)] new_st_ok(2) [OF d(1)] by auto
  then have "holds (gmem s2) d (descriptor_bytes (descriptorTemplate c))"
    by (intro holds_mem_ext [of "gmem s1" "gmem s2"]) (simp_all add: extends_def)
  then have "load (gmem s2) d 40 = Inr (descriptor_bytes (descriptorTemplate c))"
    by (simp add: holds_def)
  then have "\<forall>j<40. mbytes (gmem s2) (d + of_nat j) \<noteq> None"
    by (simp add: load_Inr_iff)
  then have "mbytes (gmem s2) (d + of_nat (32 + i)) \<noteq> None" if "i < 8" for i
    using that by (elim allE [of _ "32 + i"]) simp
  then obtain m where "store (gmem s2) (d + 32) (le_bytes 8 sig) = Inr m"
    using store_total [of "le_bytes 8 sig" "gmem s2" "d + 32"] by (auto simp: add.assoc)
  then have store: "store_st (d + 32) (le_bytes 8 sig) s2 = (Inr (), s2\<lparr>gmem := m\<rparr>)" "mbrk m = mbrk (gmem s2)"
    using store_frame by (auto simp: store_st_eq_Inr)
  have "Kind t = KFunc" "NumIn t \<noteq> 0" "func_ins t ! 0 = Block_type"
    using block_encoding_function [OF enc] by auto
  then have "NewCallback E t BlockDispatcher s3 = (Inr a, s3)" for s3
    by (auto simp: NewCallback_def is_marker_def CDecl_def Variadic_def objc_types cb on_mem_def lift_st_def Let_def)
  then show ?thesis
    using d sig store by (simp add: new_layout_def bind_st_def encode)
qed

lemma NewBlock_copy_returns:
  assumes cb: "\<And>m. ffi_NewCallback E t BlockDispatcher m = Inr (a, m)"
    and "block_encoding (Some t) = Inr enc" "mbrk (gmem s) + length enc + 73 < heap_limit"
    and "layouts c (Some t) = None" "\<not> bc_locked c" "\<And>p st. Block_copy B p st = (Inr b, st)"
  shows "\<exists>st'. NewBlock_copy E B (Some (t, f)) (s, c) = (Inr b, st')"
proof -
  obtain l s1 where l: "new_layout E (Some t) (c\<lparr>bc_locked := True\<rparr>) s = (Inr l, s1)"
    "mbrk (gmem s1) = mbrk (gmem s) + length enc + 41"
    using new_layout_returns [OF cb assms(2), of s "c\<lparr>bc_locked := True\<rparr>"] assms(3) by auto
  obtain p s2 where "new_st (layout_bytes l) s1 = (Inr p, s2)"
    using new_st_runs [of s1 "layout_bytes l"] l(2) assms(3) by auto
  moreover obtain c1 where "getLayout E (Some t) (s, c) = (Inr l, (s1, c1))"
    using l(1) assms(4,5) by (simp add: getLayout_def with_lock_def defer_st_def bind_st_def get_l_def on_g_def on_l_def)
  ultimately show ?thesis
    by (simp add: NewBlock_copy_def NewBlock_value_def Block_Copy_def bind_st_def on_g_def assms(6))
qed

lemma NewBlock_store_run:
  "NewBlock_store b (Some f) (s, c) = (Inr b, (s, c\<lparr>Functions := (Functions c)(b \<mapsto> f)\<rparr>))"
  by (simp add: NewBlock_store_def bind_st_def on_l_def cache_defs)

lemma NewBlock_returns:
  assumes cb: "\<And>m. ffi_NewCallback E t BlockDispatcher m = Inr (a, m)"
    and "block_encoding (Some t) = Inr enc" "mbrk (gmem s) + length enc + 73 < heap_limit"
    and "layouts c (Some t) = None" "\<not> bc_locked c" "\<And>p st. Block_copy B p st = (Inr b, st)"
  shows "\<exists>s' c'. NewBlock E B (Some (t, f)) (s, c) = (Inr b, (s', c'))"
proof -
  obtain st' where "NewBlock_copy E B (Some (t, f)) (s, c) = (Inr b, st')"
    using NewBlock_copy_returns [OF assms(1-5), of B b f] assms(6) by blast
  then show ?thesis
    by (cases st') (simp add: NewBlock_def bind_st_def NewBlock_store_run)
qed

section \<open>What the blocks runtime reads\<close>

text \<open>
  \<open>block_abi\<close>: at \<open>p\<close> is a block literal of the blocks ABI with the flags for a dispose helper and a
  signature, whose descriptor gives the size of the literal, no copy helper, the dispose helper and
  the terminated signature.
\<close>

definition block_abi :: "'w mem \<Rightarrow> uintptr \<Rightarrow> uintptr \<Rightarrow> uintptr \<Rightarrow> uintptr \<Rightarrow> string \<Rightarrow> bool" where
  "block_abi m p isa invoke dispose enc \<longleftrightarrow>
     (\<exists>d sig. load_word m p = Inr isa \<and> load m (p + 8) 4 = Inr (le_bytes 4 0x42000000) \<and>
        load_word m (p + 16) = Inr invoke \<and> load_word m (p + 24) = Inr d \<and>
        load_word m (d + 8) = Inr 32 \<and> load_word m (d + 16) = Inr 0 \<and>
        load_word m (d + 24) = Inr dispose \<and> load_word m (d + 32) = Inr sig \<and>
        load m sig (length enc + 1) = Inr (bytes_of enc @ [0]))"

lemma holds_word:
  assumes "holds m a bs" "k + 8 \<le> length bs"
  shows "load_word m (a + of_nat k) = Inr (of_le (take 8 (drop k bs)))"
  using load_slice [of m a bs k 8] assms by (simp add: holds_def load_word_def)

lemma layout_abi:
  assumes "holds m p (layout_bytes l)" "layout_ok E m c (Some t) l" "block_encoding (Some t) = Inr enc"
    and "bl_flags (layoutTemplate c) = blockFlags" "bd_size (descriptorTemplate c) = 32"
  shows "block_abi m p (bl_isa (layoutTemplate c)) (bl_invoke l) (bd_dispose (descriptorTemplate c)) enc"
proof -
  obtain sig where l: "bl_isa l = bl_isa (layoutTemplate c)" "bl_flags l = blockFlags"
    and d: "holds m (bl_descriptor l) (descriptor_bytes ((descriptorTemplate c)\<lparr>bd_signature := sig\<rparr>))"
    and sig: "holds m sig (bytes_of enc @ [0])"
    using assms(2-4) by (auto simp: layout_ok_def)
  have flags: "ucast blockFlags = (0x42000000 :: uintptr)"
    by (simp add: blockFlags_def blockHasCopyDispose_def blockHasSignature_def push_bit_eq_mult)
  have "load m (p + of_nat 8) 4 = Inr (take 4 (drop 8 (layout_bytes l)))"
    using assms(1) by (intro load_slice) (simp_all add: holds_def)
  then have "load m (p + 8) 4 = Inr (le_bytes 4 0x42000000)"
    by (simp add: layout_bytes_def l(2) flags)
  moreover have "load_word m p = Inr (bl_isa (layoutTemplate c))" "load_word m (p + 16) = Inr (bl_invoke l)"
    "load_word m (p + 24) = Inr (bl_descriptor l)"
    using holds_word [OF assms(1), of 0] holds_word [OF assms(1), of 16] holds_word [OF assms(1), of 24]
    by (simp_all add: layout_bytes_def l(1))
  moreover have "load_word m (bl_descriptor l + 8) = Inr 32" "load_word m (bl_descriptor l + 16) = Inr 0"
    "load_word m (bl_descriptor l + 24) = Inr (bd_dispose (descriptorTemplate c))" "load_word m (bl_descriptor l + 32) = Inr sig"
    using holds_word [OF d, of 8] holds_word [OF d, of 16] holds_word [OF d, of 24] holds_word [OF d, of 32]
    by (simp_all add: descriptor_bytes_def assms(5))
  moreover have "load m sig (length enc + 1) = Inr (bytes_of enc @ [0])"
    using sig by (simp add: holds_def bytes_of_def)
  ultimately show ?thesis
    unfolding block_abi_def by blast
qed

section \<open>Invoking a block from Go\<close>

text \<open>What happens when the deferred release runs after an outcome.\<close>

definition release_after ::
  "'w blocks_runtime \<Rightarrow> uintptr \<Rightarrow> 'a res \<times> ('w gstate \<times> block_cache) \<Rightarrow> 'a res \<times> ('w gstate \<times> block_cache)" where
  "release_after B block = (\<lambda>(r, st). case Block_release B block st of
     (Inl e, st') \<Rightarrow> (Inl e, st') | (Inr _, st') \<Rightarrow> (r, st'))"

lemma deferred_release: "deferred (Block_Release B block) p st = release_after B block (p st)"
  by (simp add: deferred_def release_after_def Block_Release_def split: prod.split)

lemma InvokeBlock_cases:
  "\<exists>msg. take 9 msg = ''reflect: '' \<and>
    InvokeBlock implements U B T b args st =
      (case Block_copy B b st of
         (Inl e, st') \<Rightarrow> (Inl e, st')
       | (Inr block, (s, c)) \<Rightarrow>
           release_after B block
             (case Functions c block of
                None \<Rightarrow> (Inl (PanicErr ''reflect: call of reflect.Value.Type on zero Value''), (s, c))
              | Some (t, f) \<Rightarrow>
                  if NumIn t \<noteq> length args + 1
                  then (Inr (Inl (''objc: block callback expects '' @ decimal (NumIn t - 1) @ '' arguments, got '' @
                    decimal (length args))), (s, c))
                  else if None \<in> set args then (Inl (PanicMsg ''reflect: Call using zero Value argument''), (s, c))
                  else if \<not> call_fits implements t (block_value block # map the args) then (Inl (PanicMsg msg), (s, c))
                  else case U f (block_value block # map the args) (s, c) of (r, st') \<Rightarrow>
                    (case r of
                       Inl e \<Rightarrow> Inl e
                     | Inr [] \<Rightarrow> Inl (IndexOutOfRange 0 0)
                     | Inr (v # _) \<Rightarrow>
                         Inr (if type_asserts implements (rv_type v) T then Inr v
                              else Inl (''objc: the returned value type '' @ type_String (rv_type v) @ '' was not '' @
                                zero_type_verb T)),
                     st')))"
proof -
  obtain copied s c where copy: "Block_copy B b st = (copied, (s, c))"
    by (metis prod.exhaust)
  show ?thesis
  proof (cases copied)
    case (Inl e)
    then show ?thesis
      using copy by (intro exI [of _ "''reflect: ''"]) (simp add: InvokeBlock_def Block_Copy_def bind_st_def)
  next
    case (Inr block)
    have run: "InvokeBlock implements U B T b args st = release_after B block
        (case Functions c block of
           None \<Rightarrow> (Inl (PanicErr ''reflect: call of reflect.Value.Type on zero Value''), (s, c))
         | Some (t, f) \<Rightarrow>
             if NumIn t \<noteq> length args + 1
             then (Inr (Inl (''objc: block callback expects '' @ decimal (NumIn t - 1) @ '' arguments, got '' @
               decimal (length args))), (s, c))
             else bind_st (reflect_Call implements U (Some (t, f)) (Some (block_value block) # args)) (invoke_result implements T) (s, c))"
      using copy Inr by (auto simp: InvokeBlock_def Block_Copy_def bind_st_def [of "Block_copy B b"] deferred_release
          bind_st_Inr [of get_l, OF get_l_run] cache_Load_def simp del: decimal.simps split: option.split)
    show ?thesis
    proof (cases "\<exists>t f. Functions c block = Some (t, f) \<and> NumIn t = length args + 1")
      case False
      then show ?thesis
        unfolding run copy Inr
        by (intro exI [of _ "''reflect: ''"]) (auto simp del: decimal.simps split: option.split)
    next
      case True
      then obtain t f where t: "Functions c block = Some (t, f)" "NumIn t = length args + 1"
        by blast
      have len: "length (Some (block_value block) # args) = NumIn t"
        by (simp add: t(2))
      from reflect_Call_outcome [OF len, of implements U f] obtain msg where msg: "take 9 msg = ''reflect: ''"
        and call: "reflect_Call implements U (Some (t, f)) (Some (block_value block) # args) =
          (if None \<in> set args then panic_st (PanicMsg ''reflect: Call using zero Value argument'')
           else if \<not> call_fits implements t (block_value block # map the args) then panic_st (PanicMsg msg)
           else U f (block_value block # map the args))"
        by auto
      show ?thesis
      proof (intro exI conjI)
        show "take 9 msg = ''reflect: ''" by (rule msg)
      qed (simp add: run copy Inr t call bind_st_def panic_st_def invoke_result_def del: decimal.simps split: prod.split sum.split list.split)
    qed
  qed
qed

section \<open>Properties\<close>

text \<open>
  Property C30. \<open>getLayout\<close> keeps the cache of layouts right, whether it returns or panics: the mutex
  is free again, each layout describes its function type in memory and enters a callback of that type
  that runs the dispatcher, and memory that was in use is as it was. A layout is made once: when it was returned, every later call for the type returns the same
  one and changes nothing; when it was not, the cache is as before.
\<close>

theorem getLayout_keeps:
  assumes "callbacks_extend E" and "blocks_ok E (s, c)" and "getLayout E typ (s, c) = (r, (s', c'))"
  shows "blocks_ok E (s', c') \<and> mem_ext (gmem s) (gmem s') \<and> Functions c' = Functions c \<and>
    (case r of
       Inr layout \<Rightarrow> layout_ok E (gmem s') c' typ layout \<and>
         (\<forall>E' s''. getLayout E' typ (s'', c') = (Inr layout, (s'', c')))
     | Inl e \<Rightarrow> c' = c)"
proof -
  note run = getLayout_run [OF assms]
  show ?thesis
  proof (cases r)
    case (Inl e)
    then show ?thesis
      using run by (auto simp: extends_def)
  next
    case (Inr l)
    then have l: "layouts c' typ = Some l" "\<not> bc_locked c'" "layout_ok E (gmem s') c' typ l"
      using run by (auto simp: blocks_ok_def)
    moreover have "getLayout E' typ (s'', c') = (Inr l, (s'', c'))" for E' s''
      using l by (intro getLayout_again)
    ultimately show ?thesis
      using run by (auto simp: extends_def Inr)
  qed
qed

abbreviation plain_cache :: block_cache where
  "plain_cache \<equiv> \<lparr>bc_locked = False,
     descriptorTemplate = \<lparr>bd_size = 32, bd_dispose = 4096, bd_signature = 0\<rparr>,
     layoutTemplate = \<lparr>bl_isa = 77, bl_flags = blockFlags, bl_invoke = 0, bl_descriptor = 0\<rparr>,
     layouts = Map.empty, Functions = Map.empty\<rparr>"

lemma plain_cache_ok: "blocks_ok E (s, plain_cache)"
  by (simp add: blocks_ok_def)

lemma idle_callback: "ffi_NewCallback idle_engine t c m = Inr (4096, m)"
  by (simp add: idle_engine_def)

lemma own_encoding: "block_encoding (Some (TFunc [Block_type] [] False)) = Inr ''v@''"
  by (simp add: block_encoding_def NumOut_def NumIn_def encode_params_def objc_panic_def)

theorem getLayout_keeps_witness:
  "\<exists>l s' c'. getLayout (idle_engine :: unit goffi) (Some (TFunc [Block_type] [] False)) (start_state text_mem, plain_cache) =
     (Inr l, (s', c')) \<and> layout_ok idle_engine (gmem s') c' (Some (TFunc [Block_type] [] False)) l"
proof -
  let ?t = "TFunc [Block_type] [] False" and ?s = "start_state text_mem :: unit gstate"
  have room: "mbrk (gmem ?s) + length ''v@'' + 41 < heap_limit"
    by (simp add: start_state_def text_mem_def heap_limit_def)
  obtain l s' where "new_layout idle_engine (Some ?t) (plain_cache\<lparr>bc_locked := True\<rparr>) ?s = (Inr l, s')"
    using new_layout_returns [OF idle_callback own_encoding room] by blast
  then obtain c' where run: "getLayout idle_engine (Some ?t) (?s, plain_cache) = (Inr l, (s', c'))"
    by (simp add: getLayout_def with_lock_def defer_st_def bind_st_def get_l_def on_g_def on_l_def)
  with getLayout_keeps [OF callbacks_extend_idle plain_cache_ok run] show ?thesis
    by auto
qed

text \<open>
  Property C31. \<open>NewBlock\<close> gives the blocks runtime a literal of the blocks ABI to copy, made from the
  templates of \<open>newBlockCache\<close>: the class that \<open>GetClass\<close> gave for \<open>__NSMallocBlock__\<close>, the flags, as invoke
  pointer a callback of the function's type that runs the dispatcher, and a descriptor with the size of the
  literal, no copy helper, as dispose helper a callback that runs the disposer, and the encoding of the
  function. The function is stored under the block the runtime returns, and nothing else is.
\<close>

theorem NewBlock_literal:
  assumes "callbacks_extend E" and "blocks_ok E (s, c)"
    and "newBlockCache E GC t0 = (Inr c0, t1)"
    and "layoutTemplate c = layoutTemplate c0" and "descriptorTemplate c = descriptorTemplate c0"
    and "NewBlock E B (Some (t, f)) (s, c) = (Inr b, (s', c'))"
  shows "\<exists>p s1 c1 c2 isa invoke dispose enc sa sb. Block_copy B p (s1, c1) = (Inr b, (s', c2)) \<and>
    GC blockBaseClass sa = (Inr isa, sb) \<and> block_encoding (Some t) = Inr enc \<and>
    callback_for E t BlockDispatcher invoke \<and> callback_for E (TFunc [Block_type] [] False) BlockDisposer dispose \<and>
    block_abi (gmem s1) p isa invoke dispose enc \<and>
    Functions c1 = Functions c \<and> c' = c2\<lparr>Functions := (Functions c2)(b \<mapsto> (t, f))\<rparr>"
proof -
  obtain isa sb dispose s2 where isa: "GC blockBaseClass t0 = (Inr isa, sb)"
    and dispose: "NewCallback E (TFunc [Block_type] [] False) BlockDisposer sb = (Inr dispose, s2)"
    and c0: "layoutTemplate c0 = \<lparr>bl_isa = isa, bl_flags = blockFlags, bl_invoke = 0, bl_descriptor = 0\<rparr>"
      "descriptorTemplate c0 = \<lparr>bd_size = 32, bd_dispose = dispose, bd_signature = 0\<rparr>"
    using assms(3) by (auto simp: newBlockCache_def st_simps)
  have disposer: "callback_for E (TFunc [Block_type] [] False) BlockDisposer dispose"
    by (rule NewCallback_for [OF dispose]) (simp add: Block_type_def)
  obtain layout s0 c1 p s1 c2 where lay: "getLayout E (Some t) (s, c) = (Inr layout, (s0, c1))"
    and p: "new_st (layout_bytes layout) s0 = (Inr p, s1)"
    and copy: "Block_copy B p (s1, c1) = (Inr b, (s', c2))"
    and c': "c' = c2\<lparr>Functions := (Functions c2)(b \<mapsto> (t, f))\<rparr>"
    using assms(6) by (auto simp: NewBlock_def NewBlock_copy_def NewBlock_value_def NewBlock_store_run Block_Copy_def st_simps on_g_Inr)
  note run = getLayout_run [OF assms(1,2) lay]
  have "layout_ok E (gmem s0) c1 (Some t) layout"
    using run by (auto simp: blocks_ok_def)
  then obtain enc where enc: "block_encoding (Some t) = Inr enc" and invoke: "callback_for E t BlockDispatcher (bl_invoke layout)"
    by (auto simp: layout_ok_def)
  have "mem_ext (gmem s0) (gmem s1)"
    using new_st_ok(1) [OF p] by (simp add: extends_def)
  then have ok: "layout_ok E (gmem s1) c1 (Some t) layout"
    using run by (auto simp: blocks_ok_def intro: layout_ok_ext)
  have "layoutTemplate c1 = layoutTemplate c" "descriptorTemplate c1 = descriptorTemplate c" "Functions c1 = Functions c"
    using run by simp_all
  moreover from this have "block_abi (gmem s1) p isa (bl_invoke layout) dispose enc"
    using layout_abi [OF new_st_ok(2) [OF p] ok enc] assms(4,5) c0 by simp
  ultimately show ?thesis
    using copy enc c' isa invoke disposer by blast
qed

theorem NewBlock_literal_witness:
  "\<exists>p s1. block_abi (gmem (s1 :: unit gstate)) p 77 4096 4096 ''v@''"
proof -
  let ?t = "TFunc [Block_type] [] False"
    and ?B = "\<lparr>Block_copy = \<lambda>p st. (Inr 64, st), Block_release = \<lambda>b st. (Inr (), st)\<rparr> :: unit blocks_runtime"
  have room: "mbrk (gmem (start_state text_mem)) + length ''v@'' + 73 < heap_limit"
    by (simp add: start_state_def text_mem_def heap_limit_def)
  obtain s' c' where new: "NewBlock idle_engine ?B (Some (?t, UserFn 0)) (start_state text_mem, plain_cache) = (Inr 64, (s', c'))"
    using NewBlock_returns [OF idle_callback own_encoding, where s = "start_state text_mem" and c = plain_cache and B = ?B and b = 64 and f = "UserFn 0"] room
    by auto
  have cache: "newBlockCache idle_engine (\<lambda>name s. (Inr 77, s)) (start_state text_mem :: unit gstate) = (Inr plain_cache, start_state text_mem)"
    by (simp add: newBlockCache_def NewCallback_def NumIn_def Block_type_def idle_engine_def on_mem_def lift_st_def bind_st_def
        newBlockFunctionCache_def)
  have addr: "callback_for (idle_engine :: unit goffi) t f a \<Longrightarrow> a = 4096" for t f a
    by (auto simp: callback_for_def idle_engine_def)
  show ?thesis
    using NewBlock_literal [OF callbacks_extend_idle plain_cache_ok cache refl refl new]
  proof (elim exE conjE)
    fix p isa invoke dispose enc and s1 sa sb :: "unit gstate"
    assume "(Inr 77, sa) = (Inr isa, sb)" "block_encoding (Some ?t) = Inr enc"
      and invoke: "callback_for (idle_engine :: unit goffi) ?t BlockDispatcher invoke"
      and dispose: "callback_for (idle_engine :: unit goffi) (TFunc [Block_type] [] False) BlockDisposer dispose"
      and abi: "block_abi (gmem s1) p isa invoke dispose enc"
    then have "isa = 77" "enc = ''v@''"
      by (simp_all add: own_encoding)
    with abi addr [OF invoke] addr [OF dispose] show ?thesis
      by blast
  qed
qed

text \<open>
  Property C34. Every outcome of \<open>InvokeBlock\<close>. A copy that panics ends it. Otherwise the copy is released
  last, on every path, and a panic of the release takes the place of the outcome, which is: a panic for a block without a
  function; an error for a wrong number of arguments; a panic, before the function runs, for an
  argument that is nil or is not assignable to its parameter (for a variadic function, to the elements of its last
  parameter); else the outcome of the function, called with the copy before the arguments: its panic, a
  panic if it has no result, its first result if that has the type asked for, and an error if not.
\<close>

theorem InvokeBlock_outcome:
  "\<exists>msg. take 9 msg = ''reflect: '' \<and>
    InvokeBlock implements U B T b args st =
      (case Block_copy B b st of
         (Inl e, st') \<Rightarrow> (Inl e, st')
       | (Inr block, (s, c)) \<Rightarrow>
           release_after B block
             (case Functions c block of
                None \<Rightarrow> (Inl (PanicErr ''reflect: call of reflect.Value.Type on zero Value''), (s, c))
              | Some (t, f) \<Rightarrow>
                  if NumIn t \<noteq> length args + 1
                  then (Inr (Inl (''objc: block callback expects '' @ decimal (NumIn t - 1) @ '' arguments, got '' @
                    decimal (length args))), (s, c))
                  else if None \<in> set args then (Inl (PanicMsg ''reflect: Call using zero Value argument''), (s, c))
                  else if \<not> call_fits implements t (block_value block # map the args) then (Inl (PanicMsg msg), (s, c))
                  else case U f (block_value block # map the args) (s, c) of (r, st') \<Rightarrow>
                    (case r of
                       Inl e \<Rightarrow> Inl e
                     | Inr [] \<Rightarrow> Inl (IndexOutOfRange 0 0)
                     | Inr (v # _) \<Rightarrow>
                         Inr (if type_asserts implements (rv_type v) T then Inr v
                              else Inl (''objc: the returned value type '' @ type_String (rv_type v) @ '' was not '' @
                                zero_type_verb T)),
                     st')))"
  by (rule InvokeBlock_cases)

abbreviation one_block_runtime :: "unit blocks_runtime" where
  "one_block_runtime \<equiv> \<lparr>Block_copy = \<lambda>b st. (Inr b, st),
     Block_release = \<lambda>b st. (Inr (), snd (dispose_block b st))\<rparr>"

theorem InvokeBlock_outcome_witness:
  "InvokeBlock (\<lambda>_ _. False) (\<lambda>_ _ st. (Inr [], st)) one_block_runtime (TPrim PInt32) 64 []
      (start_state text_mem, plain_cache\<lparr>Functions := [64 \<mapsto> (TFunc [Block_type] [] False, UserFn 0)]\<rparr>) =
    (Inl (IndexOutOfRange 0 0), (start_state text_mem, plain_cache\<lparr>Functions := Map.empty\<rparr>))"
proof -
  let ?c = "plain_cache\<lparr>Functions := [64 \<mapsto> (TFunc [Block_type] [] False, UserFn 0)]\<rparr>"
  show ?thesis
    using InvokeBlock_outcome [of "\<lambda>_ _. False" "\<lambda>_ _ st. (Inr [], st)" one_block_runtime "TPrim PInt32" 64 "[]"
      "(start_state text_mem, ?c)"]
    by (simp add: call_fits_def NumIn_def block_value_def release_after_def dispose_block_def cache_Delete_def on_l_def)
qed

end
