(* ===== verification/ObjcClass.thy ===== *)
theory ObjcClass
  imports Callbacks ObjcEncoding
begin

text \<open>
  Making an Objective-C class from Go (\<^verbatim>\<open>objc_runtime_darwin.go\<close>): \<open>NewIMP\<close>, \<open>RegisterClass\<close> with its
  protocols, methods and instance variables, and the accessors it makes for these. The functions of
  the Objective-C runtime are the fields of a record, as the Go variables that \<open>init\<close> binds.
\<close>

section \<open>Data\<close>

record method_def =
  Cmd :: uintptr
  Fn :: "fn_value option"

text \<open>\<open>IvarAttrib\<close> is an \<open>int\<close> of which two values are meant.\<close>

definition ReadOnly :: int where
  "ReadOnly = 1"

definition ReadWrite :: int where
  "ReadWrite = 2"

record field_def =
  fd_Name :: string
  fd_Type :: "go_type option"
  fd_Attribute :: int

text \<open>The functions of the runtime that \<open>RegisterClass\<close> calls.\<close>

record 'w class_runtime =
  objc_allocateClassPair :: "uintptr \<Rightarrow> string \<Rightarrow> uintptr \<Rightarrow> ('w gstate, uintptr) prog"
  objc_registerClassPair :: "uintptr \<Rightarrow> ('w gstate, unit) prog"
  sel_registerName :: "string \<Rightarrow> ('w gstate, uintptr) prog"
  class_addMethod :: "uintptr \<Rightarrow> uintptr \<Rightarrow> uintptr \<Rightarrow> string \<Rightarrow> ('w gstate, bool) prog"
  class_addIvar :: "uintptr \<Rightarrow> string \<Rightarrow> nat \<Rightarrow> byte \<Rightarrow> string \<Rightarrow> ('w gstate, bool) prog"
  class_addProtocol :: "uintptr \<Rightarrow> uintptr \<Rightarrow> ('w gstate, bool) prog"
  class_getInstanceVariable :: "uintptr \<Rightarrow> string \<Rightarrow> ('w gstate, uintptr) prog"
  ivar_getOffset :: "uintptr \<Rightarrow> ('w gstate, uintptr) prog"
  protocol_getName :: "uintptr \<Rightarrow> ('w gstate, string) prog"

section \<open>Recovering from a panic\<close>

text \<open>
  The text of a recovered panic value; an exhausted heap and a loop that never ends are not
  recovered.
\<close>

fun panic_text :: "panic \<Rightarrow> string option" where
  "panic_text (PanicMsg s) = Some s"
| "panic_text (PanicErr s) = Some s"
| "panic_text (Segv a) = Some ''runtime error: invalid memory address or nil pointer dereference''"
| "panic_text (IndexOutOfRange i n) =
     Some (''runtime error: index out of range ['' @ decimal i @ ''] with length '' @ decimal n)"
| "panic_text OutOfMemory = None"
| "panic_text Diverges = None"

definition quoted :: "string \<Rightarrow> string" where
  "quoted s = CHR 0x27 # s @ [CHR 0x27]"

text \<open>Steps that return an error stop the function, as its early returns do.\<close>

definition bind_or :: "('s, 'a or_error) prog \<Rightarrow> ('a \<Rightarrow> ('s, 'b or_error) prog) \<Rightarrow> ('s, 'b or_error) prog" where
  "bind_or p f = bind_st p (\<lambda>r. case r of Inl e \<Rightarrow> pure_st (Inl e) | Inr x \<Rightarrow> f x)"

definition fail_if :: "bool \<Rightarrow> string \<Rightarrow> ('s, unit or_error) prog" where
  "fail_if c e = pure_st (if c then Inl e else Inr ())"

fun for_or :: "('x \<Rightarrow> ('s, unit or_error) prog) \<Rightarrow> 'x list \<Rightarrow> ('s, unit or_error) prog" where
  "for_or f [] = pure_st (Inr ())"
| "for_or f (x # xs) = bind_or (f x) (\<lambda>_. for_or f xs)"

section \<open>Method implementations\<close>

definition NewIMP :: "'w goffi \<Rightarrow> fn_value option \<Rightarrow> ('w gstate, uintptr) prog" where
  "NewIMP E fn =
     (case fn of
        None \<Rightarrow> panic_st (Segv 0)
      | Some (ty, c) \<Rightarrow>
          if Kind ty \<noteq> KFunc then panic_st (PanicMsg ''objc: not a function'')
          else if NumIn ty < 2 \<or> func_ins ty ! 0 \<noteq> ID_type \<or> func_ins ty ! 1 \<noteq> SEL_type
          then panic_st (PanicMsg (''objc: NewIMP must take a (id, SEL) as its first two arguments; got '' @ type_String ty))
          else NewCallback E ty c)"

text \<open>The function literal around \<open>NewIMP\<close> in \<open>RegisterClass\<close>, which turns a panic into an error.\<close>

definition recovered_IMP :: "'w goffi \<Rightarrow> fn_value option \<Rightarrow> ('w gstate, uintptr or_error) prog" where
  "recovered_IMP E fn = (\<lambda>s. case NewIMP E fn s of
     (Inr imp, s') \<Rightarrow> (Inr (Inr imp), s')
   | (Inl p, s') \<Rightarrow> (case panic_text p of
        None \<Rightarrow> (Inl p, s')
      | Some r \<Rightarrow> (Inr (Inl (''objc: failed to create IMP: '' @ r)), s')))"

definition method_failed :: "nat \<Rightarrow> string" where
  "method_failed idx = ''objc: couldn't add Method at index '' @ decimal idx"

definition add_method :: "'w goffi \<Rightarrow> 'w class_runtime \<Rightarrow> uintptr \<Rightarrow> nat \<times> method_def \<Rightarrow> ('w gstate, unit or_error) prog" where
  "add_method E R c = (\<lambda>(idx, def).
     bind_st (recovered_IMP E (Fn def)) (\<lambda>r. case r of
       Inl err \<Rightarrow> pure_st (Inl (method_failed idx @ '': '' @ err))
     | Inr imp \<Rightarrow>
         (case encodeFunc (fst (the (Fn def))) of
            Inl err \<Rightarrow> pure_st (Inl (method_failed idx @ '': '' @ err))
          | Inr encoding \<Rightarrow> bind_st (class_addMethod R c (Cmd def) imp encoding) (\<lambda>ok. fail_if (\<not> ok) (method_failed idx)))))"

section \<open>Instance variables\<close>

text \<open>The expression \<open>[a-z_][a-zA-Z0-9_]*\<close> matches anywhere in the name.\<close>

definition ivar_start :: "char \<Rightarrow> bool" where
  "ivar_start c \<longleftrightarrow> (97 \<le> (of_char c :: nat) \<and> (of_char c :: nat) \<le> 122) \<or> c = CHR ''_''"

definition ivarRegex :: "string \<Rightarrow> bool" where
  "ivarRegex name \<longleftrightarrow> list_ex ivar_start name"

fun log2_nat :: "nat \<Rightarrow> nat" where
  "log2_nat n = (if n \<le> 1 then 0 else Suc (log2_nat (n div 2)))"

declare log2_nat.simps [simp del]

text \<open>\<open>unicode.ToUpper\<close> of a rune below 256, and the UTF-8 form of a rune below 2048.\<close>

definition upper_rune :: "nat \<Rightarrow> nat" where
  "upper_rune n =
     (if 97 \<le> n \<and> n \<le> 122 \<or> 224 \<le> n \<and> n \<le> 254 \<and> n \<noteq> 247 then n - 32
      else if n = 181 then 924 else if n = 255 then 376 else n)"

definition utf8 :: "nat \<Rightarrow> string" where
  "utf8 n = (if n < 128 then [char_of n] else [char_of (192 + n div 64), char_of (128 + n mod 64)])"

definition capitalized :: "string \<Rightarrow> string" where
  "capitalized name = utf8 (upper_rune (of_char (hd name))) @ tl name"

definition setter_selector :: "string \<Rightarrow> string" where
  "setter_selector name = ''set'' @ capitalized name @ '':'' @ [char_of (0 :: nat)]"

definition getter_selector :: "go_type \<Rightarrow> string \<Rightarrow> string" where
  "getter_selector t name = (if Kind t = KBool then ''is'' @ capitalized name else name)"

definition setter_type :: "go_type \<Rightarrow> go_type" where
  "setter_type t = TFunc [ID_type, SEL_type, t] [] False"

definition getter_type :: "go_type \<Rightarrow> go_type" where
  "getter_type t = TFunc [ID_type, SEL_type] [t] False"

text \<open>Both accessors are added the same way; what \<open>AddMethod\<close> returns is not looked at.\<close>

definition add_accessor ::
  "'w goffi \<Rightarrow> 'w class_runtime \<Rightarrow> uintptr \<Rightarrow> string \<Rightarrow> go_type \<Rightarrow> closure \<Rightarrow> string \<Rightarrow> ('w gstate, unit or_error) prog" where
  "add_accessor E R c ivar ty accessor selector =
     (case encodeFunc ty of
        Inl err \<Rightarrow> pure_st (Inl (''objc: failed to create read method for '' @ quoted ivar @ '': '' @ err))
      | Inr encoding \<Rightarrow>
          bind_st (sel_registerName R selector) (\<lambda>sel.
          bind_st (NewIMP E (Some (ty, accessor))) (\<lambda>imp.
          bind_st (class_addMethod R c sel imp encoding) (\<lambda>_. pure_st (Inr ())))))"

definition ivar_failed :: "string \<Rightarrow> string" where
  "ivar_failed name = ''objc: couldn't add Ivar '' @ name"

definition int_decimal :: "int \<Rightarrow> string" where
  "int_decimal i = (if i < 0 then ''-'' @ decimal (nat (- i)) else decimal (nat i))"

text \<open>
  One field. A nil type makes the call of its method \<open>Size\<close> panic. A field that is read and written
  gets the setter first and then, as the code falls through, the getter.
\<close>

definition add_field :: "'w goffi \<Rightarrow> 'w class_runtime \<Rightarrow> uintptr \<Rightarrow> field_def \<Rightarrow> ('w gstate, unit or_error) prog" where
  "add_field E R c ivar =
     bind_or (fail_if (\<not> ivarRegex (fd_Name ivar))
       (''objc: Ivar must start with a lowercase letter: '' @ quoted (fd_Name ivar))) (\<lambda>_.
     case fd_Type ivar of
       None \<Rightarrow> panic_st (Segv 0)
     | Some t \<Rightarrow>
         let size = Size t; alignment = of_nat (log2_nat (Align t)) :: byte in
         (case encodeType t False of
            Inl err \<Rightarrow> pure_st (Inl (ivar_failed (fd_Name ivar) @ '': '' @ err))
          | Inr enc \<Rightarrow>
              bind_st (class_addIvar R c (fd_Name ivar) size alignment enc) (\<lambda>ok.
              bind_or (fail_if (\<not> ok) (ivar_failed (fd_Name ivar))) (\<lambda>_.
              bind_st (class_getInstanceVariable R c (fd_Name ivar)) (\<lambda>iv.
              bind_st (ivar_getOffset R iv) (\<lambda>offset.
              let getter = add_accessor E R c (fd_Name ivar) (getter_type t) (IvarGetter t offset)
                    (getter_selector t (fd_Name ivar)) in
              if fd_Attribute ivar = ReadWrite then
                bind_or (add_accessor E R c (fd_Name ivar) (setter_type t) (IvarSetter t offset)
                  (setter_selector (fd_Name ivar))) (\<lambda>_. getter)
              else if fd_Attribute ivar = ReadOnly then getter
              else pure_st (Inl (''objc: unknown Ivar Attribute ('' @ int_decimal (fd_Attribute ivar) @ '')''))))))))"

section \<open>The class\<close>

definition add_protocol :: "'w class_runtime \<Rightarrow> uintptr \<Rightarrow> uintptr \<Rightarrow> ('w gstate, unit or_error) prog" where
  "add_protocol R c p =
     bind_st (class_addProtocol R c p) (\<lambda>ok.
       if ok then pure_st (Inr ())
       else bind_st (protocol_getName R p) (\<lambda>name. pure_st (Inl (''objc: couldn't add Protocol '' @ name))))"

definition RegisterClass ::
  "'w goffi \<Rightarrow> 'w class_runtime \<Rightarrow> string \<Rightarrow> uintptr \<Rightarrow> uintptr list \<Rightarrow> field_def list \<Rightarrow> method_def list \<Rightarrow>
     ('w gstate, uintptr or_error) prog" where
  "RegisterClass E R name superClass protocols ivars methods =
     bind_st (objc_allocateClassPair R superClass name 0) (\<lambda>c.
       if c = 0 then pure_st (Inl (''objc: failed to create class with name '' @ quoted name))
       else
         bind_or (for_or (add_protocol R c) protocols) (\<lambda>_.
         bind_or (for_or (add_method E R c) (enumerate 0 methods)) (\<lambda>_.
         bind_or (for_or (add_field E R c) ivars) (\<lambda>_.
         bind_st (objc_registerClassPair R c) (\<lambda>_. pure_st (Inr c))))))"

section \<open>The accessors\<close>

text \<open>A Go value of a type that an instance variable can have, as it is in memory, and back.\<close>

definition value_bytes :: "rvalue \<Rightarrow> byte list" where
  "value_bytes v =
     (let k = Kind (rv_type v); x = rv_val v in
      if k = KString then le_bytes 8 (fst (val_string x)) @ le_bytes 8 (of_nat (length (snd (val_string x))))
      else if k = KBool then [if val_bool x then 1 else 0]
      else if k \<in> set scalar_kinds then le_bytes (Size (rv_type v)) (val_bits x)
      else if k \<in> set pointer_kinds then le_bytes 8 (val_ptr x)
      else val_mem x)"

definition read_value :: "go_type \<Rightarrow> uintptr \<Rightarrow> ('w gstate, rvalue) prog" where
  "read_value t a =
     bind_st (load_st a (Size t)) (\<lambda>bs.
       let v = (\<lambda>x. \<lparr>rv_type = t, rv_val = x, rv_addr = Some a\<rparr>) in
       if Kind t = KString then
         bind_st (load_st (of_le (take 8 bs)) (unat (of_le (drop 8 bs)))) (\<lambda>s. pure_st (v (GString (of_le (take 8 bs)) s)))
       else if Kind t = KBool then pure_st (v (GBool (bs \<noteq> [0])))
       else if Kind t \<in> set scalar_kinds then pure_st (v (GBits (of_le bs)))
       else if Kind t \<in> set pointer_kinds then pure_st (v (GPtr (of_le bs)))
       else pure_st (v (GMem bs)))"

definition accessor_receiver :: "nat \<Rightarrow> rvalue list \<Rightarrow> uintptr res" where
  "accessor_receiver n args =
     (if length args \<noteq> n
      then Inl (PanicMsg (''objc: incorrect number of args. expected '' @ decimal n @ '' got '' @ decimal (length args)))
      else if rv_type (args ! 0) \<noteq> ID_type
      then Inl (PanicMsg (''objc: id argument is not a ID but '' @ type_String (rv_type (args ! 0))))
      else Inr (val_bits (rv_val (args ! 0))))"

definition run_setter :: "uintptr \<Rightarrow> rvalue list \<Rightarrow> ('w gstate, rvalue list) prog" where
  "run_setter offset args =
     bind_st (lift_res (accessor_receiver 3 args)) (\<lambda>ptr.
     bind_st (store_st (ptr + offset) (value_bytes (args ! 2))) (\<lambda>_. pure_st []))"

definition run_getter :: "go_type \<Rightarrow> uintptr \<Rightarrow> rvalue list \<Rightarrow> ('w gstate, rvalue list) prog" where
  "run_getter t offset args =
     bind_st (lift_res (accessor_receiver 2 args)) (\<lambda>ptr.
     bind_st (read_value t (ptr + offset)) (\<lambda>v. pure_st [v]))"

section \<open>What the steps leave alone\<close>

text \<open>
  \<open>runtime_keeps I E R\<close>: no function of the runtime except the registration of a class, and no new
  callback, ends the property \<open>I\<close> of the state.
\<close>

definition runtime_keeps :: "('w gstate \<Rightarrow> bool) \<Rightarrow> 'w goffi \<Rightarrow> 'w class_runtime \<Rightarrow> bool" where
  "runtime_keeps I E R \<longleftrightarrow>
     (\<forall>c n b. keeps I (objc_allocateClassPair R c n b)) \<and> (\<forall>n. keeps I (sel_registerName R n)) \<and>
     (\<forall>c sel imp t. keeps I (class_addMethod R c sel imp t)) \<and>
     (\<forall>c n sz al t. keeps I (class_addIvar R c n sz al t)) \<and> (\<forall>c p. keeps I (class_addProtocol R c p)) \<and>
     (\<forall>c n. keeps I (class_getInstanceVariable R c n)) \<and> (\<forall>iv. keeps I (ivar_getOffset R iv)) \<and>
     (\<forall>p. keeps I (protocol_getName R p)) \<and> (\<forall>t f. keeps I (on_mem (ffi_NewCallback E t f)))"

lemma keeps_bind_or [keeps_intros]: "keeps I p \<Longrightarrow> (\<And>x. keeps I (f x)) \<Longrightarrow> keeps I (bind_or p f)"
  unfolding bind_or_def by (auto intro!: keeps_intros split: sum.split)

lemma keeps_fail_if [keeps_intros]: "keeps I (fail_if c e)"
  by (simp add: fail_if_def keeps_pure)

lemma keeps_for_or [keeps_intros]: "(\<And>x. keeps I (f x)) \<Longrightarrow> keeps I (for_or f xs)"
  by (induction xs) (auto intro: keeps_intros)

lemma keeps_runtime:
  assumes "runtime_keeps I E R"
  shows "keeps I (objc_allocateClassPair R c n b)" "keeps I (sel_registerName R n)"
    "keeps I (class_addMethod R c sel imp t)" "keeps I (class_addIvar R c n sz al t)"
    "keeps I (class_addProtocol R c p)" "keeps I (class_getInstanceVariable R c n)"
    "keeps I (ivar_getOffset R iv)" "keeps I (protocol_getName R p)" "keeps I (on_mem (ffi_NewCallback E ty f))"
  using assms unfolding runtime_keeps_def by simp_all

lemma keeps_NewIMP: "runtime_keeps I E R \<Longrightarrow> keeps I (NewIMP E fn)"
  unfolding NewIMP_def NewCallback_def Let_def
  by (cases fn) (simp_all add: keeps_panic keeps_runtime(9) split: prod.split)

lemma keeps_recovered_IMP:
  assumes "runtime_keeps I E R"
  shows "keeps I (recovered_IMP E fn)"
  unfolding keeps_def
proof (intro allI impI)
  fix s assume "I s"
  then have "I (snd (NewIMP E fn s))"
    using keeps_NewIMP [OF assms] by (rule keeps_run [rotated])
  then show "I (snd (recovered_IMP E fn s))"
    by (cases "NewIMP E fn s") (auto simp: recovered_IMP_def split: sum.split option.split)
qed

lemma keeps_add_protocol:
  assumes "runtime_keeps I E R"
  shows "keeps I (add_protocol R c p)"
  unfolding add_protocol_def
  by (intro keeps_bind) (simp_all add: keeps_pure keeps_bind keeps_runtime [OF assms])

lemma keeps_add_method:
  assumes "runtime_keeps I E R"
  shows "keeps I (add_method E R c d)"
  unfolding add_method_def Let_def
  by (simp add: keeps_bind keeps_pure keeps_fail_if keeps_runtime [OF assms] keeps_recovered_IMP [OF assms]
      split: prod.split sum.split)

lemma keeps_add_accessor:
  assumes "runtime_keeps I E R"
  shows "keeps I (add_accessor E R c n ty f sel)"
  unfolding add_accessor_def
  by (simp add: keeps_bind keeps_pure keeps_runtime [OF assms] keeps_NewIMP [OF assms] split: sum.split)

lemma keeps_add_field:
  assumes "runtime_keeps I E R"
  shows "keeps I (add_field E R c iv)"
  unfolding add_field_def Let_def
  by (simp add: keeps_bind keeps_bind_or keeps_pure keeps_panic keeps_fail_if keeps_runtime [OF assms]
      keeps_add_accessor [OF assms] split: sum.split option.split)

lemma bind_or_cases:
  assumes "bind_or p f s = (r, s')"
  shows "(\<exists>e. r = Inl e \<and> p s = (Inl e, s')) \<or> (\<exists>e. r = Inr (Inl e) \<and> p s = (Inr (Inl e), s')) \<or>
    (\<exists>x s1. p s = (Inr (Inr x), s1) \<and> f x s1 = (r, s'))"
  using assms by (auto simp: bind_or_def bind_st_def pure_st_def split: prod.splits sum.splits)

lemma bind_or_Inr [st_simps]:
  "bind_or p f s = (Inr (Inr y), s') \<longleftrightarrow> (\<exists>x s1. p s = (Inr (Inr x), s1) \<and> f x s1 = (Inr (Inr y), s'))"
proof
  assume "bind_or p f s = (Inr (Inr y), s')"
  from bind_or_cases [OF this] show "\<exists>x s1. p s = (Inr (Inr x), s1) \<and> f x s1 = (Inr (Inr y), s')"
    by auto
next
  assume "\<exists>x s1. p s = (Inr (Inr x), s1) \<and> f x s1 = (Inr (Inr y), s')"
  then show "bind_or p f s = (Inr (Inr y), s')"
    by (auto simp: bind_or_def bind_st_def)
qed

lemma fail_if_Inr [st_simps]: "fail_if c e s = (Inr (Inr u), s') \<longleftrightarrow> \<not> c \<and> s' = s"
  by (auto simp: fail_if_def)

section \<open>A runtime that records what it is asked\<close>

text \<open>
  To state which calls are made, and in which order: a runtime whose state is the list of the calls
  made so far, and which answers each of them as it likes, by a function of that list.
\<close>

datatype class_event =
    EAllocate uintptr string uintptr
  | EProtocol uintptr uintptr
  | EProtocolName uintptr
  | EMethod uintptr uintptr uintptr string
  | EIvar uintptr string nat byte string
  | EIvarLookup uintptr string
  | EOffset uintptr
  | ESelector string
  | ERegister uintptr

definition log_of :: "class_event list gstate \<Rightarrow> class_event list" where
  "log_of s = world (gmem s)"

definition ask :: "(class_event list \<Rightarrow> uintptr) \<Rightarrow> class_event \<Rightarrow> (class_event list gstate, uintptr) prog" where
  "ask A e = (\<lambda>s. (Inr (A (log_of s @ [e])), s\<lparr>gmem := (gmem s)\<lparr>world := log_of s @ [e]\<rparr>\<rparr>))"

definition ask_bool :: "(class_event list \<Rightarrow> uintptr) \<Rightarrow> class_event \<Rightarrow> (class_event list gstate, bool) prog" where
  "ask_bool A e = bind_st (ask A e) (\<lambda>w. pure_st (w \<noteq> 0))"

definition log_runtime :: "(class_event list \<Rightarrow> uintptr) \<Rightarrow> (uintptr \<Rightarrow> string) \<Rightarrow> class_event list class_runtime" where
  "log_runtime A N = \<lparr>
     objc_allocateClassPair = (\<lambda>super name n. ask A (EAllocate super name n)),
     objc_registerClassPair = (\<lambda>c. bind_st (ask A (ERegister c)) (\<lambda>_. pure_st ())),
     sel_registerName = (\<lambda>name. ask A (ESelector name)),
     class_addMethod = (\<lambda>c sel imp types. ask_bool A (EMethod c sel imp types)),
     class_addIvar = (\<lambda>c name sz al types. ask_bool A (EIvar c name sz al types)),
     class_addProtocol = (\<lambda>c p. ask_bool A (EProtocol c p)),
     class_getInstanceVariable = (\<lambda>c name. ask A (EIvarLookup c name)),
     ivar_getOffset = (\<lambda>iv. ask A (EOffset iv)),
     protocol_getName = (\<lambda>p. bind_st (ask A (EProtocolName p)) (\<lambda>_. pure_st (N p)))\<rparr>"

lemma log_runtime_simps [simp]:
  "objc_allocateClassPair (log_runtime A N) super name n = ask A (EAllocate super name n)"
  "objc_registerClassPair (log_runtime A N) c = bind_st (ask A (ERegister c)) (\<lambda>_. pure_st ())"
  "sel_registerName (log_runtime A N) name = ask A (ESelector name)"
  "class_addMethod (log_runtime A N) c sel imp types = ask_bool A (EMethod c sel imp types)"
  "class_addIvar (log_runtime A N) c name sz al types = ask_bool A (EIvar c name sz al types)"
  "class_addProtocol (log_runtime A N) c p = ask_bool A (EProtocol c p)"
  "class_getInstanceVariable (log_runtime A N) c name = ask A (EIvarLookup c name)"
  "ivar_getOffset (log_runtime A N) iv = ask A (EOffset iv)"
  "protocol_getName (log_runtime A N) p = bind_st (ask A (EProtocolName p)) (\<lambda>_. pure_st (N p))"
  by (simp_all add: log_runtime_def)

definition callbacks_silent :: "'w goffi \<Rightarrow> bool" where
  "callbacks_silent E \<longleftrightarrow> (\<forall>t f m a m'. ffi_NewCallback E t f m = Inr (a, m') \<longrightarrow> world m' = world m)"

lemma ask_Inr: "ask A e s = (Inr x, s') \<Longrightarrow> log_of s' = log_of s @ [e]"
  by (auto simp: ask_def log_of_def)

lemma ask_bool_Inr: "ask_bool A e s = (Inr x, s') \<Longrightarrow> log_of s' = log_of s @ [e]"
  by (auto simp: ask_bool_def st_simps dest: ask_Inr)

lemma NewIMP_log:
  assumes "callbacks_silent E" "NewIMP E (Some (t, f)) s = (Inr imp, s')"
  shows "log_of s' = log_of s" "callback_for E t f imp"
proof -
  have new: "NewCallback E t f s = (Inr imp, s')" "2 \<le> NumIn t" "func_ins t ! 0 = ID_type"
    using assms(2) by (auto simp: NewIMP_def split: if_splits)
  then obtain t' f' where "on_mem (ffi_NewCallback E t' f') s = (Inr imp, s')"
    by (auto simp: NewCallback_def Let_def split: if_splits)
  then show "log_of s' = log_of s"
    using assms(1) by (auto simp: st_simps callbacks_silent_def log_of_def)
  show "callback_for E t f imp"
    using new by (intro NewCallback_for [OF new(1)]) (simp add: ID_type_def)
qed

text \<open>
  The calls for a method, and for a field with its accessors, after the calls \<open>log\<close>. The implementation
  is a callback of the method's function; an accessor is added under the selector that the runtime
  answered for its name, and its implementation is a callback of the setter or the getter for the
  type of the field and the offset that the runtime answered for the variable.
\<close>

type_synonym class_log = "class_event list"

definition method_calls :: "'w goffi \<Rightarrow> uintptr \<Rightarrow> class_log \<Rightarrow> method_def \<Rightarrow> class_log \<Rightarrow> bool" where
  "method_calls E c log d es \<longleftrightarrow>
     (\<exists>t f imp enc. Fn d = Some (t, f) \<and> callback_for E t f imp \<and> encodeFunc t = Inr enc \<and>
        es = [EMethod c (Cmd d) imp enc])"

definition accessor_calls ::
  "'w goffi \<Rightarrow> (class_log \<Rightarrow> uintptr) \<Rightarrow> uintptr \<Rightarrow> class_log \<Rightarrow> go_type \<Rightarrow> closure \<Rightarrow> string \<Rightarrow> string \<Rightarrow> class_log \<Rightarrow> bool" where
  "accessor_calls E A c log t f name enc es \<longleftrightarrow>
     (\<exists>imp. callback_for E t f imp \<and> es = [ESelector name, EMethod c (A (log @ [ESelector name])) imp enc])"

definition field_calls ::
  "'w goffi \<Rightarrow> (class_log \<Rightarrow> uintptr) \<Rightarrow> uintptr \<Rightarrow> class_log \<Rightarrow> field_def \<Rightarrow> class_log \<Rightarrow> bool" where
  "field_calls E A c log iv es \<longleftrightarrow>
     (\<exists>t enc log1 log2 log3 sets gets. fd_Type iv = Some t \<and> encodeType t False = Inr enc \<and>
        fd_Attribute iv \<in> {ReadOnly, ReadWrite} \<and>
        log1 = log @ [EIvar c (fd_Name iv) (Size t) (of_nat (log2_nat (Align t))) enc] \<and>
        log2 = log1 @ [EIvarLookup c (fd_Name iv)] \<and>
        log3 = log2 @ [EOffset (A log2)] \<and>
        (if fd_Attribute iv = ReadWrite
         then accessor_calls E A c log3 (setter_type t) (IvarSetter t (A log3)) (setter_selector (fd_Name iv)) (''v@:'' @ enc) sets
         else sets = []) \<and>
        accessor_calls E A c (log3 @ sets) (getter_type t) (IvarGetter t (A log3)) (getter_selector t (fd_Name iv))
          (enc @ ''@:'') gets \<and>
        log @ es = log3 @ sets @ gets)"

text \<open>The calls for each element of a list, one after the other.\<close>

fun calls_for :: "(class_log \<Rightarrow> 'x \<Rightarrow> class_log \<Rightarrow> bool) \<Rightarrow> class_log \<Rightarrow> 'x list \<Rightarrow> class_log list \<Rightarrow> bool" where
  "calls_for P log [] ess \<longleftrightarrow> ess = []"
| "calls_for P log (x # xs) ess \<longleftrightarrow>
     (\<exists>es rest. ess = es # rest \<and> P log x es \<and> calls_for P (log @ es) xs rest)"

lemma setter_encoding: "encodeType t False = Inr enc \<Longrightarrow> encodeFunc (setter_type t) = Inr (''v@:'' @ enc)"
  by (simp add: setter_type_def encodeFunc_def NumOut_def NumIn_def encode_params_def encodeType_object
      object_code_def objc_types split: option.splits)

lemma getter_encoding: "encodeType t False = Inr enc \<Longrightarrow> encodeFunc (getter_type t) = Inr (enc @ ''@:'')"
  by (simp add: getter_type_def encodeFunc_def NumOut_def NumIn_def encode_params_def encodeType_object
      object_code_def objc_types split: option.splits)

lemma add_protocol_log:
  assumes "add_protocol (log_runtime A N) c p s = (Inr (Inr u), s')"
  shows "log_of s' = log_of s @ [EProtocol c p]"
  using assms by (auto simp: add_protocol_def st_simps split: if_splits dest: ask_bool_Inr)

lemma add_method_log:
  assumes "callbacks_silent E" "add_method E (log_runtime A N) c (i, d) s = (Inr (Inr u), s')"
  shows "\<exists>es. log_of s' = log_of s @ es \<and> method_calls E c (log_of s) d es"
proof -
  obtain imp s1 enc ok s2 where imp: "recovered_IMP E (Fn d) s = (Inr (Inr imp), s1)"
    and enc: "encodeFunc (fst (the (Fn d))) = Inr enc"
    and add: "ask_bool A (EMethod c (Cmd d) imp enc) s1 = (Inr ok, s2)" "s' = s2"
  proof -
    obtain q s1 where q: "recovered_IMP E (Fn d) s = (q, s1)"
      by (cases "recovered_IMP E (Fn d) s")
    note run = assms(2) [unfolded add_method_def, simplified, unfolded bind_st_def [of "recovered_IMP E (Fn d)"]]
    show ?thesis
    proof (cases q)
      case (Inl e)
      with run q show ?thesis by simp
    next
      case (Inr r)
      show ?thesis
      proof (cases r)
        case (Inl e)
        with run q Inr show ?thesis by simp
      next
        case (Inr imp)
        with run q \<open>q = Inr r\<close> show ?thesis
          using that by (cases "encodeFunc (fst (the (Fn d)))") (auto simp: st_simps)
      qed
    qed
  qed
  have "NewIMP E (Fn d) s = (Inr imp, s1)"
    using imp by (auto simp: recovered_IMP_def split: prod.splits sum.splits option.splits)
  moreover from this obtain t f where f: "Fn d = Some (t, f)"
    by (auto simp: NewIMP_def split: option.splits)
  ultimately have "log_of s1 = log_of s" "callback_for E t f imp"
    using NewIMP_log [OF assms(1), of t f s imp s1] by simp_all
  then show ?thesis
    using ask_bool_Inr [OF add(1)] enc add(2) f by (auto simp: method_calls_def)
qed

lemma ask_answer: "ask A e s = (Inr x, s') \<Longrightarrow> x = A (log_of s @ [e])"
  by (simp add: ask_def)

lemma add_accessor_log:
  assumes "callbacks_silent E" "encodeFunc ty = Inr enc"
    and "add_accessor E (log_runtime A N) c n ty f selector s = (Inr (Inr u), s')"
  shows "\<exists>es. log_of s' = log_of s @ es \<and> accessor_calls E A c (log_of s) ty f selector enc es"
proof -
  obtain sel s1 imp s2 ok where sel: "ask A (ESelector selector) s = (Inr sel, s1)"
    and imp: "NewIMP E (Some (ty, f)) s1 = (Inr imp, s2)" and add: "ask_bool A (EMethod c sel imp enc) s2 = (Inr ok, s')"
    using assms(2,3) by (auto simp: add_accessor_def st_simps)
  show ?thesis
    using ask_Inr [OF sel] ask_answer [OF sel] NewIMP_log [OF assms(1) imp] ask_bool_Inr [OF add]
    by (simp add: accessor_calls_def)
qed

lemma for_or_log:
  assumes "\<And>x s s'. f x s = (Inr (Inr ()), s') \<Longrightarrow> \<exists>es. log_of s' = log_of s @ es \<and> P (log_of s) x es"
    and "for_or f xs s = (Inr (Inr ()), s')"
  shows "\<exists>ess. log_of s' = log_of s @ concat ess \<and> calls_for P (log_of s) xs ess"
  using assms(2)
proof (induction xs arbitrary: s)
  case (Cons x xs)
  then obtain s1 where x: "f x s = (Inr (Inr ()), s1)" and xs: "for_or f xs s1 = (Inr (Inr ()), s')"
    by (auto simp: st_simps)
  obtain es where es: "log_of s1 = log_of s @ es" "P (log_of s) x es"
    using assms(1) [OF x] by blast
  obtain ess where "log_of s' = log_of s1 @ concat ess" "calls_for P (log_of s1) xs ess"
    using Cons.IH [OF xs] by blast
  then show ?case
    using es by (intro exI [of _ "es # ess"]) simp
qed simp

lemma add_field_log:
  assumes silent: "callbacks_silent E" and run: "add_field E (log_runtime A N) c iv s = (Inr (Inr u), s')"
  shows "\<exists>es. log_of s' = log_of s @ es \<and> field_calls E A c (log_of s) iv es"
proof -
  obtain t where t: "fd_Type iv = Some t"
    using run by (cases "fd_Type iv") (auto simp: add_field_def st_simps)
  obtain enc where enc: "encodeType t False = Inr enc"
    using run by (cases "encodeType t False") (auto simp: add_field_def st_simps t)
  let ?get = "add_accessor E (log_runtime A N) c (fd_Name iv) (getter_type t)"
    and ?set = "add_accessor E (log_runtime A N) c (fd_Name iv) (setter_type t)"
  obtain ok s1 var s2 offset s3 where calls: "ask_bool A (EIvar c (fd_Name iv) (Size t) (of_nat (log2_nat (Align t))) enc) s = (Inr ok, s1)"
    "ask A (EIvarLookup c (fd_Name iv)) s1 = (Inr var, s2)" "ask A (EOffset var) s2 = (Inr offset, s3)"
    and rest: "(if fd_Attribute iv = ReadWrite then
         bind_or (?set (IvarSetter t offset) (setter_selector (fd_Name iv)))
           (\<lambda>_. ?get (IvarGetter t offset) (getter_selector t (fd_Name iv)))
       else if fd_Attribute iv = ReadOnly then ?get (IvarGetter t offset) (getter_selector t (fd_Name iv))
       else pure_st (Inl (''objc: unknown Ivar Attribute ('' @ int_decimal (fd_Attribute iv) @ '')''))) s3 = (Inr (Inr ()), s')"
    using run by (auto simp: add_field_def t enc Let_def bind_or_Inr bind_st_eq_Inr fail_if_Inr)
  let ?log1 = "log_of s @ [EIvar c (fd_Name iv) (Size t) (of_nat (log2_nat (Align t))) enc]"
  let ?log2 = "?log1 @ [EIvarLookup c (fd_Name iv)]"
  let ?log3 = "?log2 @ [EOffset (A ?log2)]"
  have logs: "log_of s1 = ?log1" "log_of s2 = ?log2" "var = A ?log2"
    using ask_bool_Inr [OF calls(1)] ask_Inr [OF calls(2)] ask_answer [OF calls(2)] by simp_all
  then have log3: "log_of s3 = ?log3" "offset = A ?log3"
    using ask_Inr [OF calls(3)] ask_answer [OF calls(3)] by simp_all
  have attr: "fd_Attribute iv \<in> {ReadOnly, ReadWrite}"
    using rest by (auto split: if_splits)
  obtain s4 where set: "if fd_Attribute iv = ReadWrite
      then ?set (IvarSetter t offset) (setter_selector (fd_Name iv)) s3 = (Inr (Inr ()), s4) else s4 = s3"
    and get: "?get (IvarGetter t offset) (getter_selector t (fd_Name iv)) s4 = (Inr (Inr ()), s')"
    using rest by (auto simp: bind_or_Inr split: if_splits)
  obtain gets where g: "log_of s' = log_of s4 @ gets"
    "accessor_calls E A c (log_of s4) (getter_type t) (IvarGetter t offset) (getter_selector t (fd_Name iv)) (enc @ ''@:'') gets"
    using add_accessor_log [OF silent getter_encoding [OF enc] get] by blast
  obtain sets where s: "log_of s4 = log_of s3 @ sets"
    "if fd_Attribute iv = ReadWrite
     then accessor_calls E A c (log_of s3) (setter_type t) (IvarSetter t offset) (setter_selector (fd_Name iv)) (''v@:'' @ enc) sets
     else sets = []"
  proof (cases "fd_Attribute iv = ReadWrite")
    case True
    then have "?set (IvarSetter t offset) (setter_selector (fd_Name iv)) s3 = (Inr (Inr ()), s4)"
      using set by simp
    from add_accessor_log [OF silent setter_encoding [OF enc] this] show ?thesis
      using that True by auto
  next
    case False
    then show ?thesis
      using set that [of "[]"] by simp
  qed
  let ?es = "[EIvar c (fd_Name iv) (Size t) (of_nat (log2_nat (Align t))) enc, EIvarLookup c (fd_Name iv),
      EOffset (A ?log2)] @ sets @ gets"
  have "field_calls E A c (log_of s) iv ?es"
    unfolding field_calls_def
    by (intro exI [of _ t] exI [of _ enc] exI [of _ ?log1] exI [of _ ?log2] exI [of _ ?log3] exI [of _ sets] exI [of _ gets]
        conjI t enc attr refl s(2) [unfolded log3] g(2) [unfolded s(1) log3]) simp
  moreover have "log_of s' = log_of s @ ?es"
    by (simp add: g(1) s(1) log3(1))
  ultimately show ?thesis
    by blast
qed

lemma calls_for_enumerate: "calls_for (\<lambda>log (i, x). P log x) log (enumerate n xs) ess \<longleftrightarrow> calls_for P log xs ess"
  by (induction xs arbitrary: n log ess) auto

lemma calls_for_protocols: "calls_for (\<lambda>log p es. es = [EProtocol c p]) log ps ess \<Longrightarrow> concat ess = map (EProtocol c) ps"
  by (induction ps arbitrary: log ess) auto

lemma RegisterClass_log:
  assumes silent: "callbacks_silent E"
    and run: "RegisterClass E (log_runtime A N) name super protocols ivars methods s = (Inr (Inr c), s')"
  shows "c = A (log_of s @ [EAllocate super name 0]) \<and> c \<noteq> 0 \<and> (\<exists>log1 log2 ms fs.
    log1 = log_of s @ [EAllocate super name 0] @ map (EProtocol c) protocols \<and>
    calls_for (method_calls E c) log1 methods ms \<and> log2 = log1 @ concat ms \<and>
    calls_for (field_calls E A c) log2 ivars fs \<and> log_of s' = log2 @ concat fs @ [ERegister c])"
proof -
  obtain s1 s2 s3 s4 x where alloc: "ask A (EAllocate super name 0) s = (Inr c, s1)" "c \<noteq> 0"
    and ps: "for_or (add_protocol (log_runtime A N) c) protocols s1 = (Inr (Inr ()), s2)"
    and ms: "for_or (add_method E (log_runtime A N) c) (enumerate 0 methods) s2 = (Inr (Inr ()), s3)"
    and fs: "for_or (add_field E (log_runtime A N) c) ivars s3 = (Inr (Inr ()), s4)"
    and reg: "ask A (ERegister c) s4 = (Inr x, s')"
    using run by (auto simp: RegisterClass_def bind_st_eq_Inr bind_or_Inr split: if_splits)
  obtain ess where p: "log_of s2 = log_of s1 @ concat ess" "calls_for (\<lambda>log p es. es = [EProtocol c p]) (log_of s1) protocols ess"
    using for_or_log [OF _ ps, of "\<lambda>log p es. es = [EProtocol c p]"] add_protocol_log by blast
  obtain mss where m: "log_of s3 = log_of s2 @ concat mss"
    "calls_for (\<lambda>log (i, d). method_calls E c log d) (log_of s2) (enumerate 0 methods) mss"
    using for_or_log [OF _ ms, of "\<lambda>log (i, d). method_calls E c log d"] add_method_log [OF silent] by fastforce
  obtain fss where f: "log_of s4 = log_of s3 @ concat fss" "calls_for (field_calls E A c) (log_of s3) ivars fss"
    using for_or_log [OF _ fs, of "field_calls E A c"] add_field_log [OF silent] by blast
  have log1: "log_of s2 = log_of s @ [EAllocate super name 0] @ map (EProtocol c) protocols"
    using ask_Inr [OF alloc(1)] p(1) calls_for_protocols [OF p(2)] by simp
  have methods: "calls_for (method_calls E c) (log_of s2) methods mss"
    using m(2) by (simp only: calls_for_enumerate)
  have "log_of s' = log_of s3 @ concat fss @ [ERegister c]"
    using ask_Inr [OF reg] f(1) by simp
  then show ?thesis
    using ask_answer [OF alloc(1)] alloc(2) log1 methods m(1) f(2) by blast
qed

lemma log_runtime_keeps:
  assumes "callbacks_silent E"
  shows "runtime_keeps (\<lambda>s. \<forall>c. ERegister c \<notin> set (log_of s)) E (log_runtime A N)"
proof -
  have ask: "keeps (\<lambda>s. \<forall>c. ERegister c \<notin> set (log_of s)) (ask A e)" if "\<And>c. e \<noteq> ERegister c" for e
    using that by (auto simp: keeps_def ask_def log_of_def)
  have callback: "keeps (\<lambda>s. \<forall>c. ERegister c \<notin> set (log_of s)) (on_mem (ffi_NewCallback E t f))" for t f
    unfolding on_mem_def using assms by (intro keeps_lift) (auto simp: res_simps callbacks_silent_def log_of_def)
  show ?thesis
    unfolding runtime_keeps_def log_runtime_simps ask_bool_def
    by (intro conjI allI ask callback keeps_bind keeps_pure) simp_all
qed

lemma silent_idle [simp]: "callbacks_silent idle_engine"
  by (simp add: callbacks_silent_def idle_engine_def)

text \<open>
  The values of the types an instance variable can have. The text of a string is in memory of its
  own: it must be there when the string is read.
\<close>

definition ivar_value :: "'w mem \<Rightarrow> go_type \<Rightarrow> rvalue \<Rightarrow> bool" where
  "ivar_value m t v \<longleftrightarrow> rv_type v = t \<and>
     (if Kind t = KString then \<exists>d s. rv_val v = GString d s \<and> length s < 2 ^ 63 \<and> load m d (length s) = Inr s
      else if Kind t = KBool then \<exists>b. rv_val v = GBool b
      else if Kind t \<in> set scalar_kinds then \<exists>w. rv_val v = GBits w \<and> take_bit (8 * Size t) w = w
      else if Kind t \<in> {KPointer, KUnsafePointer} then \<exists>p. rv_val v = GPtr p
      else Kind t = KStruct \<and> (\<exists>bs. rv_val v = GMem bs \<and> length bs = Size t \<and> Size t < 2 ^ 63))"

lemma kind_sizes:
  "Kind t = KString \<Longrightarrow> Size t = 16" "Kind t = KBool \<Longrightarrow> Size t = 1"
  "Kind t \<in> set scalar_kinds \<Longrightarrow> Size t \<le> 8" "Kind t \<in> {KPointer, KUnsafePointer} \<Longrightarrow> Size t = 8"
proof -
  have prim: "prim_kind p = KString \<Longrightarrow> prim_size p = 16" "prim_kind p = KBool \<Longrightarrow> prim_size p = 1"
    "prim_kind p \<in> set scalar_kinds \<Longrightarrow> prim_size p \<le> 8"
    "prim_kind p \<in> {KPointer, KUnsafePointer} \<Longrightarrow> prim_size p = 8" for p
    by (cases p; simp add: scalar_kinds_def)+
  show "Kind t = KString \<Longrightarrow> Size t = 16"
    by (induction t) (auto simp: prim)
  show "Kind t = KBool \<Longrightarrow> Size t = 1"
    by (induction t) (auto simp: prim)
  show "Kind t \<in> set scalar_kinds \<Longrightarrow> Size t \<le> 8"
    by (induction t) (auto simp: prim, auto simp: scalar_kinds_def)
  show "Kind t \<in> {KPointer, KUnsafePointer} \<Longrightarrow> Size t = 8"
    by (induction t) (auto simp: prim)
qed

lemma ivar_value_length: "ivar_value m t v \<Longrightarrow> length (value_bytes v) = Size t \<and> Size t \<le> 2 ^ 63"
  using kind_sizes [of t] by (auto simp: ivar_value_def value_bytes_def Let_def pointer_kinds_def split: if_splits)

lemma read_value_bytes:
  assumes "ivar_value (gmem s) t v" "load (gmem s) a (Size t) = Inr (value_bytes v)"
  shows "read_value t a s = (Inr \<lparr>rv_type = t, rv_val = rv_val v, rv_addr = Some a\<rparr>, s)"
proof -
  note load = bind_st_Inr [of "load_st a (Size t)", OF load_st_run [of a "Size t" s, unfolded assms(2)]]
  consider (str) d bs where "Kind t = KString" "rv_val v = GString d bs" "length bs < 2 ^ 63" "load (gmem s) d (length bs) = Inr bs"
    | (bool) b where "Kind t = KBool" "rv_val v = GBool b"
    | (bits) w where "Kind t \<in> set scalar_kinds" "rv_val v = GBits w" "take_bit (8 * Size t) w = w"
    | (ptr) p where "Kind t \<in> {KPointer, KUnsafePointer}" "rv_val v = GPtr p"
    | (mem) bs where "Kind t = KStruct" "rv_val v = GMem bs"
    using assms(1) by (auto simp: ivar_value_def split: if_splits)
  then show ?thesis
  proof cases
    case str
    have "unat (of_nat (length bs) :: uintptr) = length bs"
      using str(3) by (simp add: unat_of_nat)
    moreover have "value_bytes v = le_bytes 8 d @ le_bytes 8 (of_nat (length bs))"
      using str assms(1) by (simp add: value_bytes_def Let_def ivar_value_def)
    ultimately show ?thesis
      using str(1,2)
      by (simp add: read_value_def load Let_def bind_st_Inr [of "load_st d (length bs)", OF load_st_run [of d "length bs" s, unfolded str(4)]])
  next
    case bool
    then show ?thesis
      using assms(1) by (simp add: read_value_def load Let_def value_bytes_def ivar_value_def)
  next
    case bits
    then have "Kind t \<noteq> KString" "Kind t \<noteq> KBool"
      by (auto simp: scalar_kinds_def)
    then show ?thesis
      using bits assms(1) kind_sizes(3) [of t]
      by (simp add: read_value_def load Let_def value_bytes_def ivar_value_def of_le_le_bytes)
  next
    case ptr
    then have "Kind t \<noteq> KString" "Kind t \<noteq> KBool" "Kind t \<notin> set scalar_kinds" "Kind t \<in> set pointer_kinds"
      by (auto simp: scalar_kinds_def pointer_kinds_def)
    then show ?thesis
      using ptr assms(1) by (simp add: read_value_def load Let_def value_bytes_def ivar_value_def)
  next
    case mem
    then show ?thesis
      using assms(1) by (simp add: read_value_def load Let_def value_bytes_def ivar_value_def scalar_kinds_def pointer_kinds_def)
  qed
qed

section \<open>Properties\<close>

text \<open>The outcomes of \<open>RegisterClass\<close>, with what the state satisfies at each.\<close>

lemma RegisterClass_outcomes:
  assumes "runtime_keeps I E R" and "I s"
    and "RegisterClass E R name super protocols ivars methods s = (r, s')"
  shows "case r of
      Inr (Inr c) \<Rightarrow> c \<noteq> 0 \<and> (\<exists>s1. I s1 \<and> objc_registerClassPair R c s1 = (Inr (), s'))
    | Inr (Inl err) \<Rightarrow> I s'
    | Inl p \<Rightarrow> I s' \<or> (\<exists>c s1. I s1 \<and> objc_registerClassPair R c s1 = (Inl p, s'))"
proof -
  obtain q s1 where q: "objc_allocateClassPair R super name 0 s = (q, s1)"
    by (cases "objc_allocateClassPair R super name 0 s")
  have s1: "I s1"
    using keeps_run [OF keeps_runtime(1) [OF assms(1)] assms(2), of super name 0] q by simp
  show ?thesis
  proof (cases q)
    case (Inl e)
    then show ?thesis
      using assms(3) s1 by (auto simp: RegisterClass_def bind_st_Inl [of "objc_allocateClassPair R super name 0", OF q [unfolded Inl]])
  next
    case (Inr c)
    let ?parts = "bind_or (for_or (add_protocol R c) protocols) (\<lambda>_.
         bind_or (for_or (add_method E R c) (enumerate 0 methods)) (\<lambda>_. for_or (add_field E R c) ivars))"
    have assoc: "bind_or (bind_or p f) g = bind_or p (\<lambda>x. bind_or (f x) g)" for p :: "('a gstate, unit or_error) prog"
        and f :: "unit \<Rightarrow> ('a gstate, unit or_error) prog" and g :: "unit \<Rightarrow> ('a gstate, uintptr or_error) prog"
      by (rule ext) (simp add: bind_or_def bind_st_def split: prod.split sum.split)
    have parts: "keeps I ?parts"
      using assms(1)
      by (intro keeps_bind_or keeps_for_or keeps_add_protocol [of I E R] keeps_add_method [of I E R] keeps_add_field [of I E R])
    show ?thesis
    proof (cases "c = 0")
      case True
      then show ?thesis
        using assms(3) s1 by (auto simp: RegisterClass_def bind_st_Inr [of "objc_allocateClassPair R super name 0", OF q [unfolded Inr]])
    next
      case False
      then have run: "bind_or ?parts (\<lambda>_. bind_st (objc_registerClassPair R c) (\<lambda>_. pure_st (Inr c))) s1 = (r, s')"
        using assms(3) by (simp add: RegisterClass_def assoc bind_st_Inr [of "objc_allocateClassPair R super name 0", OF q [unfolded Inr]])
      from bind_or_cases [OF run] consider e where "r = Inl e" "?parts s1 = (Inl e, s')"
        | e where "r = Inr (Inl e)" "?parts s1 = (Inr (Inl e), s')"
        | s2 where "?parts s1 = (Inr (Inr ()), s2)" "bind_st (objc_registerClassPair R c) (\<lambda>_. pure_st (Inr c)) s2 = (r, s')"
        by auto
      then show ?thesis
      proof cases
        case 1
        then show ?thesis
          using keeps_run [OF parts s1] by simp
      next
        case 2
        then show ?thesis
          using keeps_run [OF parts s1] by simp
      next
        case 3
        then have "I s2"
          using keeps_run [OF parts s1] by simp
        then show ?thesis
          using 3(2) False by (cases "objc_registerClassPair R c s2") (auto simp: bind_st_def split: sum.splits)
      qed
    qed
  qed
qed

text \<open>
  Property C35. A class is registered by the last call of \<open>RegisterClass\<close>, and only if that succeeds:
  whatever holds as long as no class is registered (because no other function of the runtime ends
  it) still holds when \<open>RegisterClass\<close> returns an error or panics before that call.
\<close>

theorem RegisterClass_registers_last:
  assumes "runtime_keeps I E R" and "I s"
    and "RegisterClass E R name super protocols ivars methods s = (r, s')"
  shows "case r of
      Inr (Inr c) \<Rightarrow> c \<noteq> 0 \<and> (\<exists>s1. I s1 \<and> objc_registerClassPair R c s1 = (Inr (), s'))
    | Inr (Inl err) \<Rightarrow> I s'
    | Inl p \<Rightarrow> I s' \<or> (\<exists>c s1. I s1 \<and> objc_registerClassPair R c s1 = (Inl p, s'))"
  using assms by (rule RegisterClass_outcomes)

abbreviation empty_log :: "class_event list gstate" where
  "empty_log \<equiv> start_state \<lparr>mbytes = Map.empty, mbrk = 4096, world = []\<rparr>"

theorem RegisterClass_registers_last_witness:
  "\<exists>r s'. RegisterClass idle_engine (log_runtime (\<lambda>es. if length es = 1 then 7 else 0) (\<lambda>_. ''P'')) ''C'' 0 [9] [] [] empty_log =
      (Inr (Inl r), s') \<and> (\<forall>c. ERegister c \<notin> set (log_of s'))"
proof -
  let ?R = "log_runtime (\<lambda>es. if length es = 1 then 7 else 0) (\<lambda>_. ''P'')"
  obtain r s' where run: "RegisterClass idle_engine ?R ''C'' 0 [9] [] [] empty_log = (Inr (Inl r), s')"
    by (simp add: RegisterClass_def bind_st_def bind_or_def ask_def ask_bool_def log_of_def start_state_def add_protocol_def)
  have "\<forall>c. ERegister c \<notin> set (log_of empty_log)"
    by (simp add: log_of_def start_state_def)
  from RegisterClass_registers_last [OF log_runtime_keeps [OF silent_idle] this run] run show ?thesis
    by auto
qed

text \<open>
  Property C36. When \<open>RegisterClass\<close> succeeds it has asked the runtime for exactly these calls, in this
  order: the allocation of the class; one call per protocol; one per method, with a callback of its Go
  function and the encoding of that; for each field the variable with the size, alignment and encoding of
  its Go type, the lookup of the variable and the offset of what was found, the setter (if it is
  written) and the getter, each under the selector the runtime gave for its name and with a callback
  of the accessor for that type and that offset; and the registration. The class is the one the
  runtime allocated.
\<close>

theorem RegisterClass_calls:
  assumes "callbacks_silent E"
    and "RegisterClass E (log_runtime A N) name super protocols ivars methods s = (Inr (Inr c), s')"
  shows "c = A (log_of s @ [EAllocate super name 0]) \<and> c \<noteq> 0 \<and> (\<exists>log1 log2 ms fs.
    log1 = log_of s @ [EAllocate super name 0] @ map (EProtocol c) protocols \<and>
    calls_for (method_calls E c) log1 methods ms \<and> log2 = log1 @ concat ms \<and>
    calls_for (field_calls E A c) log2 ivars fs \<and> log_of s' = log2 @ concat fs @ [ERegister c])"
  using assms by (rule RegisterClass_log)

text \<open>A runtime that answers with 7 more than the number of calls so far.\<close>

theorem RegisterClass_calls_witness:
  "\<exists>s'. RegisterClass idle_engine (log_runtime (\<lambda>es. of_nat (length es + 6)) (\<lambda>_. [])) ''C'' 3 [9]
      [\<lparr>fd_Name = ''x'', fd_Type = Some (TPrim PInt32), fd_Attribute = ReadOnly\<rparr>]
      [\<lparr>Cmd = 5, Fn = Some (TFunc [ID_type, SEL_type] [] False, UserFn 0)\<rparr>] empty_log = (Inr (Inr 7), s') \<and>
    log_of s' = [EAllocate 3 ''C'' 0, EProtocol 7 9, EMethod 7 5 4096 ''v@:'', EIvar 7 ''x'' 4 2 ''i'', EIvarLookup 7 ''x'',
      EOffset 11, ESelector ''x'', EMethod 7 13 4096 ''i@:'', ERegister 7]"
proof -
  let ?iv = "\<lparr>fd_Name = ''x'', fd_Type = Some (TPrim PInt32), fd_Attribute = ReadOnly\<rparr>"
    and ?m = "\<lparr>Cmd = 5, Fn = Some (TFunc [ID_type, SEL_type] [] False, UserFn 0)\<rparr>"
  have imp: "NewIMP idle_engine (Some (t, f)) s = (Inr 4096, s)"
    if "Kind t = KFunc" "2 \<le> NumIn t" "func_ins t ! 0 = ID_type" "func_ins t ! Suc 0 = SEL_type" for t f and s :: "'a gstate"
    using that by (auto simp: NewIMP_def NewCallback_def is_marker_def CDecl_def Variadic_def objc_types idle_engine_def
        on_mem_def lift_st_def Let_def)
  have enc: "encodeType (TPrim PInt32) False = Inr ''i''"
    by (simp add: encodeType.simps objc_types)
  have menc: "encodeFunc (TFunc [ID_type, SEL_type] [] False) = Inr ''v@:''"
    by (simp add: encodeFunc_def encode_params_def NumOut_def NumIn_def encodeType.simps objc_types)
  obtain s' where run: "RegisterClass idle_engine (log_runtime (\<lambda>es. of_nat (length es + 6)) (\<lambda>_. [])) ''C'' 3 [9] [?iv] [?m] empty_log = (Inr (Inr 7), s')"
    by (simp add: RegisterClass_def bind_st_def bind_or_def ask_def ask_bool_def log_of_def start_state_def add_protocol_def
        add_method_def recovered_IMP_def imp NumIn_def menc fail_if_def add_field_def ivarRegex_def ivar_start_def enc Let_def
        ReadOnly_def ReadWrite_def add_accessor_def getter_encoding [OF enc])
      (simp add: imp getter_type_def NumIn_def)
  have log2: "log2_nat 4 = 2"
    by (simp add: log2_nat.simps)
  have callback: "callback_for (idle_engine :: class_event list goffi) t f imp \<longleftrightarrow> imp = 4096" for t f imp
    by (auto simp: callback_for_def idle_engine_def)
  from RegisterClass_calls [OF silent_idle run] run show ?thesis
    by (auto simp: method_calls_def field_calls_def accessor_calls_def callback menc enc log2 ReadOnly_def ReadWrite_def
        getter_selector_def log_of_def start_state_def)
qed

abbreviation sample_id :: rvalue where
  "sample_id \<equiv> \<lparr>rv_type = ID_type, rv_val = GBits 64, rv_addr = None\<rparr>"

text \<open>
  Property C37. What the setter of an instance variable stores, the getter reads back, for every type
  that can be encoded; the setter changes no byte outside the variable.
\<close>

theorem accessor_round_trip:
  assumes "run_setter offset [self, sel, v] s = (Inr rs, s')" and "rv_type self = ID_type"
    and "ivar_value (gmem s') t v"
  shows "run_getter t offset [self, sel] s' =
      (Inr [\<lparr>rv_type = t, rv_val = rv_val v, rv_addr = Some (val_bits (rv_val self) + offset)\<rparr>], s') \<and>
    (\<forall>x. (\<forall>i<Size t. x \<noteq> val_bits (rv_val self) + offset + of_nat i) \<longrightarrow> mbytes (gmem s') x = mbytes (gmem s) x)"
proof -
  let ?a = "val_bits (rv_val self) + offset"
  obtain m where st: "store (gmem s) ?a (value_bytes v) = Inr m" and s': "s' = s\<lparr>gmem := m\<rparr>"
    using assms(1,2) by (auto simp: run_setter_def accessor_receiver_def lift_res_def st_simps)
  note len = ivar_value_length [OF assms(3)]
  have "load m ?a (Size t) = Inr (value_bytes v)"
    using store_load [OF st] len by simp
  then have "read_value t ?a s' = (Inr \<lparr>rv_type = t, rv_val = rv_val v, rv_addr = Some ?a\<rparr>, s')"
    by (intro read_value_bytes assms(3)) (simp add: s')
  then have "run_getter t offset [self, sel] s' = (Inr [\<lparr>rv_type = t, rv_val = rv_val v, rv_addr = Some ?a\<rparr>], s')"
    using assms(2) by (simp add: run_getter_def accessor_receiver_def lift_res_def bind_st_def)
  moreover have "mbytes (gmem s') x = mbytes (gmem s) x" if "\<forall>i<Size t. x \<noteq> ?a + of_nat i" for x
    using store_bytes_other [OF st] that len by (simp add: s')
  ultimately show ?thesis
    by blast
qed

theorem accessor_round_trip_witness:
  "\<exists>s'. run_getter (TPrim PUint8) 36 [sample_id, sample_id] (s' :: unit gstate) =
     (Inr [\<lparr>rv_type = TPrim PUint8, rv_val = GBits 7, rv_addr = Some 100\<rparr>], s')"
proof -
  let ?v = "\<lparr>rv_type = TPrim PUint8, rv_val = GBits 7, rv_addr = None\<rparr>"
  have bytes: "value_bytes ?v = [7]"
    by (simp add: value_bytes_def Let_def scalar_kinds_def)
  obtain s' where set: "run_setter 36 [sample_id, sample_id, ?v] (start_state text_mem) = (Inr [], s')"
    by (simp add: run_setter_def accessor_receiver_def lift_res_def bind_st_def bytes store_st_def on_mem_def lift_st_def
        start_state_def text_mem_def load_byte_def)
  have "ivar_value (gmem s') (TPrim PUint8) ?v"
    by (simp add: ivar_value_def scalar_kinds_def take_bit_eq_mod)
  from accessor_round_trip [OF set _ this] show ?thesis
    by (intro exI [of _ s']) simp
qed

end
