(* ===== verification/ObjcRuntime.thy ===== *)
theory ObjcRuntime
  imports Loader ObjcBlocks ObjcClass
begin

text \<open>
  The Go side of the Objective-C runtime (\<^verbatim>\<open>objc_runtime_darwin.go\<close>): the variables that \<open>init\<close> binds
  to the functions of \<^verbatim>\<open>libobjc\<close>, message sends with their choice of entry point, the functions that
  call one runtime function each, the copying of lists the runtime returns; and \<open>NSStringToString\<close>
  (\<^verbatim>\<open>nsstrings_darwin.go\<close>).
\<close>

section \<open>Types\<close>

definition IMP_type :: go_type where
  "IMP_type = TNamed objc_pkg ''IMP'' (TPrim PUintptr)"

definition Ivar_type :: go_type where
  "Ivar_type = TNamed objc_pkg ''Ivar'' (TPrim PUintptr)"

definition Property_type :: go_type where
  "Property_type = TNamed objc_pkg ''Property'' (TPrim PUintptr)"

definition Protocol_ptr :: go_type where
  "Protocol_ptr = TPointer (TNamed objc_pkg ''Protocol'' (TArray 0 (TFunc [] [] False)))"

definition MethodDescription_type :: go_type where
  "MethodDescription_type = TNamed objc_pkg ''MethodDescription''
     (TStruct [(''name'', TPrim PUintptr), (''types'', TPrim PUintptr)])"

definition PropertyAttribute_type :: go_type where
  "PropertyAttribute_type = TNamed objc_pkg ''PropertyAttribute''
     (TStruct [(''Name'', TPointer (TPrim PUint8)), (''Value'', TPointer (TPrim PUint8))])"

definition HostLayout :: go_type where
  "HostLayout = TNamed ''structs'' ''HostLayout'' (TStruct [(''_'', TNamed ''structs'' ''hostLayout'' (TStruct []))])"

definition objc_super_type :: go_type where
  "objc_super_type = TNamed objc_pkg ''objc_super''
     (TStruct [(''_'', HostLayout), (''receiver'', ID_type), (''superClass'', Class_type)])"

abbreviation str :: go_type where "str \<equiv> TPrim PString"
abbreviation bool_t :: go_type where "bool_t \<equiv> TPrim PBool"
abbreviation uint32_ptr :: go_type where "uint32_ptr \<equiv> TPointer (TPrim PUint32)"

definition msgSend_type :: "go_type \<Rightarrow> go_type \<Rightarrow> go_type" where
  "msgSend_type receiver result = TFunc [receiver, SEL_type, TSlice TInterface] [result] True"

text \<open>The variables that \<open>init\<close> sets with \<open>RegisterLibFunc\<close>, in its order; each has the name of its symbol.\<close>

definition objc_functions :: "(string \<times> go_type) list" where
  "objc_functions =
     [(''object_getClass'', TFunc [ID_type] [Class_type] False),
      (''objc_getClass'', TFunc [str] [Class_type] False),
      (''objc_getProtocol'', TFunc [str] [Protocol_ptr] False),
      (''objc_allocateProtocol'', TFunc [str] [Protocol_ptr] False),
      (''objc_registerProtocol'', TFunc [Protocol_ptr] [] False),
      (''objc_allocateClassPair'', TFunc [Class_type, str, TPrim PUintptr] [Class_type] False),
      (''objc_registerClassPair'', TFunc [Class_type] [] False),
      (''sel_registerName'', TFunc [str] [SEL_type] False),
      (''class_getSuperclass'', TFunc [Class_type] [Class_type] False),
      (''class_getInstanceVariable'', TFunc [Class_type, str] [Ivar_type] False),
      (''class_addMethod'', TFunc [Class_type, SEL_type, IMP_type, str] [bool_t] False),
      (''class_addIvar'', TFunc [Class_type, str, TPrim PUintptr, TPrim PUint8, str] [bool_t] False),
      (''class_addProtocol'', TFunc [Class_type, Protocol_ptr] [bool_t] False),
      (''class_getInstanceSize'', TFunc [Class_type] [TPrim PUintptr] False),
      (''ivar_getOffset'', TFunc [Ivar_type] [TPrim PUintptr] False),
      (''ivar_getName'', TFunc [Ivar_type] [str] False),
      (''protocol_getName'', TFunc [Protocol_ptr] [str] False),
      (''protocol_isEqual'', TFunc [Protocol_ptr, Protocol_ptr] [bool_t] False),
      (''protocol_addMethodDescription'', TFunc [Protocol_ptr, SEL_type, str, bool_t, bool_t] [] False),
      (''protocol_copyMethodDescriptionList'',
         TFunc [Protocol_ptr, bool_t, bool_t, uint32_ptr] [TPointer MethodDescription_type] False),
      (''protocol_copyProtocolList'', TFunc [Protocol_ptr, uint32_ptr] [TPointer Protocol_ptr] False),
      (''protocol_addProtocol'', TFunc [Protocol_ptr, Protocol_ptr] [] False),
      (''protocol_addProperty'',
         TFunc [Protocol_ptr, str, TSlice PropertyAttribute_type, TPrim PUint32, bool_t, bool_t] [] False),
      (''protocol_copyPropertyList2'', TFunc [Protocol_ptr, uint32_ptr, bool_t, bool_t] [TPointer Property_type] False),
      (''property_getName'', TFunc [Property_type] [str] False),
      (''property_getAttributes'', TFunc [Property_type] [str] False),
      (''object_getIvar'', TFunc [ID_type, Ivar_type] [ID_type] False),
      (''object_setIvar'', TFunc [ID_type, Ivar_type, ID_type] [] False),
      (''free'', TFunc [TPrim PUnsafePointer] [] False),
      (''_Block_copy'', TFunc [Block_type] [Block_type] False),
      (''_Block_release'', TFunc [Block_type] [] False)]"

section \<open>The variables of the package\<close>

record objc_vars =
  msgSend_fn :: uintptr
  msgSend_stret_fn :: uintptr
  msgSendSuper2_fn :: uintptr
  msgSendSuper2_stret_fn :: uintptr
  objc_fns :: "string \<Rightarrow> bound option"
  theBlocksCache :: "block_cache option"

definition no_objc_vars :: objc_vars where
  "no_objc_vars = \<lparr>msgSend_fn = 0, msgSend_stret_fn = 0, msgSendSuper2_fn = 0, msgSendSuper2_stret_fn = 0,
     objc_fns = Map.empty, theBlocksCache = None\<rparr>"

type_synonym ('w, 'a) objc_prog = "('w gstate \<times> objc_vars, 'a) prog"

section \<open>Calls of the bound functions\<close>

text \<open>Go values as arguments, and the results back. A Go string is its data pointer and its bytes.\<close>

type_synonym go_text = "uintptr \<times> byte list"

definition word_arg :: "go_type \<Rightarrow> uintptr \<Rightarrow> rvalue" where
  "word_arg t w = \<lparr>rv_type = t, rv_val = GBits w, rv_addr = None\<rparr>"

definition ptr_arg :: "go_type \<Rightarrow> uintptr \<Rightarrow> rvalue" where
  "ptr_arg t p = \<lparr>rv_type = t, rv_val = GPtr p, rv_addr = None\<rparr>"

definition text_val :: "go_text \<Rightarrow> rvalue" where
  "text_val s = \<lparr>rv_type = str, rv_val = GString (fst s) (snd s), rv_addr = None\<rparr>"

definition bool_arg :: "bool \<Rightarrow> rvalue" where
  "bool_arg b = \<lparr>rv_type = bool_t, rv_val = GBool b, rv_addr = None\<rparr>"

definition word_result :: "retval list \<Rightarrow> uintptr" where
  "word_result rs = of_le (ret_bytes (hd rs))"

text \<open>The fast path returns the low byte of a \<open>bool\<close> result as it is, the reflect path a \<open>bool\<close>.\<close>

fun bool_result :: "retval list \<Rightarrow> bool" where
  "bool_result [RBool b] = b"
| "bool_result [RMem bs] = (bs \<noteq> [0])"
| "bool_result _ = False"

definition objc_call ::
  "target \<Rightarrow> 'w goffi \<Rightarrow> objc_vars \<Rightarrow> string \<Rightarrow> rvalue list \<Rightarrow> ('w gstate, retval list) prog" where
  "objc_call T E V name args = call_fn T E (the (map_of objc_functions name)) (objc_fns V name) args []"

definition word_call :: "target \<Rightarrow> 'w goffi \<Rightarrow> objc_vars \<Rightarrow> string \<Rightarrow> rvalue list \<Rightarrow> ('w gstate, uintptr) prog" where
  "word_call T E V name args = bind_st (objc_call T E V name args) (\<lambda>rs. pure_st (word_result rs))"

definition bool_call :: "target \<Rightarrow> 'w goffi \<Rightarrow> objc_vars \<Rightarrow> string \<Rightarrow> rvalue list \<Rightarrow> ('w gstate, bool) prog" where
  "bool_call T E V name args = bind_st (objc_call T E V name args) (\<lambda>rs. pure_st (bool_result rs))"

definition text_call :: "target \<Rightarrow> 'w goffi \<Rightarrow> objc_vars \<Rightarrow> string \<Rightarrow> rvalue list \<Rightarrow> ('w gstate, byte list) prog" where
  "text_call T E V name args = bind_st (objc_call T E V name args) (\<lambda>rs. pure_st (ret_string (hd rs)))"

definition void_call :: "target \<Rightarrow> 'w goffi \<Rightarrow> objc_vars \<Rightarrow> string \<Rightarrow> rvalue list \<Rightarrow> ('w gstate, unit) prog" where
  "void_call T E V name args = bind_st (objc_call T E V name args) (\<lambda>_. pure_st ())"

definition GetClass :: "target \<Rightarrow> 'w goffi \<Rightarrow> objc_vars \<Rightarrow> go_text \<Rightarrow> ('w gstate, uintptr) prog" where
  "GetClass T E V name = word_call T E V ''objc_getClass'' [text_val name]"

section \<open>Initialisation\<close>

definition objc_symbol :: "target \<Rightarrow> 'w goffi \<Rightarrow> uintptr \<Rightarrow> string \<Rightarrow> ('w, uintptr) objc_prog" where
  "objc_symbol T E h name = on_g (bind_st get_st (\<lambda>s.
     case Dlsym T E h name (gmem s) of
       Inl err \<Rightarrow> panic_st (PanicErr (''objc: '' @ Error err))
     | Inr a \<Rightarrow> pure_st a))"

definition set_fn :: "string \<Rightarrow> bound option \<Rightarrow> ('w, unit) objc_prog" where
  "set_fn name b = on_l (objc_fns_update (\<lambda>fns. fns(name := assign b (fns name))))"

definition register_fn :: "target \<Rightarrow> 'w goffi \<Rightarrow> uintptr \<Rightarrow> string \<times> go_type \<Rightarrow> ('w, unit) objc_prog" where
  "register_fn T E h = (\<lambda>(name, ty).
     bind_st (on_g (RegisterLibFunc T E (TPointer ty)
       (if name = ''free'' then RTLD_DEFAULT (rtld (dl_file_of T)) else h) name)) (set_fn name))"

definition objc_path :: string where
  "objc_path = ''/usr/lib/libobjc.A.dylib''"

definition init_stret :: "target \<Rightarrow> 'w goffi \<Rightarrow> uintptr \<Rightarrow> ('w, unit) objc_prog" where
  "init_stret T E h =
     (if GOARCH T = AMD64 then
        bind_st (objc_symbol T E h ''objc_msgSend_stret'') (\<lambda>a.
        bind_st (on_l (msgSend_stret_fn_update (\<lambda>_. a))) (\<lambda>_.
        bind_st (objc_symbol T E h ''objc_msgSendSuper2_stret'') (\<lambda>a.
          on_l (msgSendSuper2_stret_fn_update (\<lambda>_. a)))))
      else pure_st ())"

text \<open>
  \<open>newBlockCache\<close> gets its class by a call of \<open>GetClass\<close>, through the variable that has just been set; \<open>texts\<close> gives
  the address of the data of the Go string it passes.
\<close>

definition objc_init :: "target \<Rightarrow> 'w goffi \<Rightarrow> (string \<Rightarrow> uintptr) \<Rightarrow> ('w, unit) objc_prog" where
  "objc_init T E texts =
     bind_st (on_g (on_mem (\<lambda>m. Inr (Dlopen_engine E objc_path
       (or (RTLD_GLOBAL (rtld (dl_file_of T))) (RTLD_NOW (rtld (dl_file_of T)))) m)))) (\<lambda>r. case r of
       Inl err \<Rightarrow> panic_st (PanicErr (''objc: '' @ Error err))
     | Inr h \<Rightarrow>
         bind_st (objc_symbol T E h ''objc_msgSend'') (\<lambda>send.
         bind_st (on_l (msgSend_fn_update (\<lambda>_. send))) (\<lambda>_.
         bind_st (init_stret T E h) (\<lambda>_.
         bind_st (on_g (RegisterFunc T E (TPointer (msgSend_type ID_type ID_type)) send)) (\<lambda>b.
         bind_st (set_fn ''objc_msgSend'' b) (\<lambda>_.
         bind_st (objc_symbol T E h ''objc_msgSendSuper2'') (\<lambda>super.
         bind_st (on_l (msgSendSuper2_fn_update (\<lambda>_. super))) (\<lambda>_.
         bind_st (on_g (RegisterFunc T E (TPointer (msgSend_type (TPointer objc_super_type) ID_type)) super)) (\<lambda>b.
         bind_st (set_fn ''objc_msgSendSuper2'' b) (\<lambda>_.
         bind_st (for_st (register_fn T E h) objc_functions) (\<lambda>_.
         bind_st get_l (\<lambda>V.
         bind_st (on_g (newBlockCache E (\<lambda>name. GetClass T E V (texts name, bytes_of name)))) (\<lambda>cache.
           on_l (theBlocksCache_update (\<lambda>_. Some cache)))))))))))))))"

section \<open>Objects, selectors and classes\<close>

definition ID_Class :: "target \<Rightarrow> 'w goffi \<Rightarrow> objc_vars \<Rightarrow> uintptr \<Rightarrow> ('w gstate, uintptr) prog" where
  "ID_Class T E V i = word_call T E V ''object_getClass'' [word_arg ID_type i]"

definition ID_GetIvar :: "target \<Rightarrow> 'w goffi \<Rightarrow> objc_vars \<Rightarrow> uintptr \<Rightarrow> uintptr \<Rightarrow> ('w gstate, uintptr) prog" where
  "ID_GetIvar T E V i ivar = word_call T E V ''object_getIvar'' [word_arg ID_type i, word_arg Ivar_type ivar]"

definition ID_SetIvar ::
  "target \<Rightarrow> 'w goffi \<Rightarrow> objc_vars \<Rightarrow> uintptr \<Rightarrow> uintptr \<Rightarrow> uintptr \<Rightarrow> ('w gstate, unit) prog" where
  "ID_SetIvar T E V i ivar x =
     void_call T E V ''object_setIvar'' [word_arg ID_type i, word_arg Ivar_type ivar, word_arg ID_type x]"

definition RegisterName :: "target \<Rightarrow> 'w goffi \<Rightarrow> objc_vars \<Rightarrow> go_text \<Rightarrow> ('w gstate, uintptr) prog" where
  "RegisterName T E V name = word_call T E V ''sel_registerName'' [text_val name]"

definition Class_SuperClass :: "target \<Rightarrow> 'w goffi \<Rightarrow> objc_vars \<Rightarrow> uintptr \<Rightarrow> ('w gstate, uintptr) prog" where
  "Class_SuperClass T E V c = word_call T E V ''class_getSuperclass'' [word_arg Class_type c]"

definition Class_AddMethod ::
  "target \<Rightarrow> 'w goffi \<Rightarrow> objc_vars \<Rightarrow> uintptr \<Rightarrow> uintptr \<Rightarrow> uintptr \<Rightarrow> go_text \<Rightarrow> ('w gstate, bool) prog" where
  "Class_AddMethod T E V c name imp types = bool_call T E V ''class_addMethod''
     [word_arg Class_type c, word_arg SEL_type name, word_arg IMP_type imp, text_val types]"

definition Class_AddProtocol :: "target \<Rightarrow> 'w goffi \<Rightarrow> objc_vars \<Rightarrow> uintptr \<Rightarrow> uintptr \<Rightarrow> ('w gstate, bool) prog" where
  "Class_AddProtocol T E V c p =
     bool_call T E V ''class_addProtocol'' [word_arg Class_type c, ptr_arg Protocol_ptr p]"

definition Class_InstanceSize :: "target \<Rightarrow> 'w goffi \<Rightarrow> objc_vars \<Rightarrow> uintptr \<Rightarrow> ('w gstate, uintptr) prog" where
  "Class_InstanceSize T E V c = word_call T E V ''class_getInstanceSize'' [word_arg Class_type c]"

definition Class_InstanceVariable ::
  "target \<Rightarrow> 'w goffi \<Rightarrow> objc_vars \<Rightarrow> uintptr \<Rightarrow> go_text \<Rightarrow> ('w gstate, uintptr) prog" where
  "Class_InstanceVariable T E V c name =
     word_call T E V ''class_getInstanceVariable'' [word_arg Class_type c, text_val name]"

definition Ivar_Offset :: "target \<Rightarrow> 'w goffi \<Rightarrow> objc_vars \<Rightarrow> uintptr \<Rightarrow> ('w gstate, uintptr) prog" where
  "Ivar_Offset T E V i = word_call T E V ''ivar_getOffset'' [word_arg Ivar_type i]"

definition Ivar_Name :: "target \<Rightarrow> 'w goffi \<Rightarrow> objc_vars \<Rightarrow> uintptr \<Rightarrow> ('w gstate, byte list) prog" where
  "Ivar_Name T E V i = text_call T E V ''ivar_getName'' [word_arg Ivar_type i]"

definition Property_Name :: "target \<Rightarrow> 'w goffi \<Rightarrow> objc_vars \<Rightarrow> uintptr \<Rightarrow> ('w gstate, byte list) prog" where
  "Property_Name T E V p = text_call T E V ''property_getName'' [word_arg Property_type p]"

definition Property_Attributes :: "target \<Rightarrow> 'w goffi \<Rightarrow> objc_vars \<Rightarrow> uintptr \<Rightarrow> ('w gstate, byte list) prog" where
  "Property_Attributes T E V p = text_call T E V ''property_getAttributes'' [word_arg Property_type p]"

text \<open>\<open>MethodDescription\<close>: two C strings.\<close>

record method_description =
  md_name :: uintptr
  md_types :: uintptr

definition MethodDescription_Name :: "method_description \<Rightarrow> ('w gstate, byte list) prog" where
  "MethodDescription_Name m = read_st strings_GoString (md_name m)"

definition MethodDescription_Types :: "method_description \<Rightarrow> ('w gstate, byte list) prog" where
  "MethodDescription_Types m = read_st strings_GoString (md_types m)"

section \<open>Protocols\<close>

definition GetProtocol :: "target \<Rightarrow> 'w goffi \<Rightarrow> objc_vars \<Rightarrow> go_text \<Rightarrow> ('w gstate, uintptr) prog" where
  "GetProtocol T E V name = word_call T E V ''objc_getProtocol'' [text_val name]"

definition AllocateProtocol :: "target \<Rightarrow> 'w goffi \<Rightarrow> objc_vars \<Rightarrow> go_text \<Rightarrow> ('w gstate, uintptr) prog" where
  "AllocateProtocol T E V name = word_call T E V ''objc_allocateProtocol'' [text_val name]"

definition Protocol_Register :: "target \<Rightarrow> 'w goffi \<Rightarrow> objc_vars \<Rightarrow> uintptr \<Rightarrow> ('w gstate, unit) prog" where
  "Protocol_Register T E V p = void_call T E V ''objc_registerProtocol'' [ptr_arg Protocol_ptr p]"

definition Protocol_Name :: "target \<Rightarrow> 'w goffi \<Rightarrow> objc_vars \<Rightarrow> uintptr \<Rightarrow> ('w gstate, byte list) prog" where
  "Protocol_Name T E V p = text_call T E V ''protocol_getName'' [ptr_arg Protocol_ptr p]"

definition Protocol_Equals :: "target \<Rightarrow> 'w goffi \<Rightarrow> objc_vars \<Rightarrow> uintptr \<Rightarrow> uintptr \<Rightarrow> ('w gstate, bool) prog" where
  "Protocol_Equals T E V p p2 =
     bool_call T E V ''protocol_isEqual'' [ptr_arg Protocol_ptr p, ptr_arg Protocol_ptr p2]"

definition Protocol_AddMethodDescription ::
  "target \<Rightarrow> 'w goffi \<Rightarrow> objc_vars \<Rightarrow> uintptr \<Rightarrow> uintptr \<Rightarrow> go_text \<Rightarrow> bool \<Rightarrow> bool \<Rightarrow> ('w gstate, unit) prog" where
  "Protocol_AddMethodDescription T E V p name types required inst =
     void_call T E V ''protocol_addMethodDescription''
       [ptr_arg Protocol_ptr p, word_arg SEL_type name, text_val types, bool_arg required, bool_arg inst]"

definition Protocol_AddProtocol :: "target \<Rightarrow> 'w goffi \<Rightarrow> objc_vars \<Rightarrow> uintptr \<Rightarrow> uintptr \<Rightarrow> ('w gstate, unit) prog" where
  "Protocol_AddProtocol T E V p p2 =
     void_call T E V ''protocol_addProtocol'' [ptr_arg Protocol_ptr p, ptr_arg Protocol_ptr p2]"

text \<open>The slice of attributes is the address of its first element and its length.\<close>

definition Protocol_AddProperty ::
  "target \<Rightarrow> 'w goffi \<Rightarrow> objc_vars \<Rightarrow> uintptr \<Rightarrow> go_text \<Rightarrow> uintptr \<times> nat \<Rightarrow> bool \<Rightarrow> bool \<Rightarrow> ('w gstate, unit) prog" where
  "Protocol_AddProperty T E V p name attributes required inst =
     void_call T E V ''protocol_addProperty''
       [ptr_arg Protocol_ptr p, text_val name, ptr_arg (TSlice PropertyAttribute_type) (fst attributes),
        word_arg (TPrim PUint32) (ucast (of_nat (snd attributes) :: u32)), bool_arg required, bool_arg inst]"

text \<open>
  The three functions that copy a list. The runtime's array is read through a slice of \<open>count\<close> elements
  (\<open>unsafe.Slice\<close>, which panics for a null pointer with a count), copied, and freed; a null array gives
  the nil slice \<open>None\<close>.
\<close>

definition objc_free :: "target \<Rightarrow> 'w goffi \<Rightarrow> objc_vars \<Rightarrow> uintptr \<Rightarrow> ('w gstate, unit) prog" where
  "objc_free T E V p = void_call T E V ''free'' [ptr_arg (TPrim PUnsafePointer) p]"

definition load_array :: "nat \<Rightarrow> uintptr \<Rightarrow> nat \<Rightarrow> ('w gstate, byte list list) prog" where
  "load_array esz p n = for_st (\<lambda>i. load_st (p + of_nat (esz * i)) esz) [0..<n]"

definition clone :: "nat \<Rightarrow> uintptr \<Rightarrow> nat \<Rightarrow> ('w gstate, byte list list option) prog" where
  "clone esz p n = (if p = 0 then pure_st None else bind_st (load_array esz p n) (\<lambda>xs. pure_st (Some xs)))"

definition copy_list ::
  "target \<Rightarrow> 'w goffi \<Rightarrow> objc_vars \<Rightarrow> nat \<Rightarrow> (uintptr \<Rightarrow> ('w gstate, uintptr) prog) \<Rightarrow> ('w gstate, byte list list option) prog" where
  "copy_list T E V esz fetch =
     bind_st (new_st (replicate 4 0)) (\<lambda>outCount.
     bind_st (fetch outCount) (\<lambda>desc.
     bind_st (load_st outCount 4) (\<lambda>count.
       if desc = 0 \<and> of_le count \<noteq> 0 then panic_st (PanicErr ''unsafe.Slice: ptr is nil and len is not zero'')
       else
         bind_st (clone esz desc (unat (of_le count))) (\<lambda>xs.
         bind_st (objc_free T E V desc) (\<lambda>_. pure_st xs)))))"

definition CopyMethodDescriptionList ::
  "target \<Rightarrow> 'w goffi \<Rightarrow> objc_vars \<Rightarrow> uintptr \<Rightarrow> bool \<Rightarrow> bool \<Rightarrow> ('w gstate, byte list list option) prog" where
  "CopyMethodDescriptionList T E V p required inst = copy_list T E V 16 (\<lambda>count.
     word_call T E V ''protocol_copyMethodDescriptionList''
       [ptr_arg Protocol_ptr p, bool_arg required, bool_arg inst, ptr_arg uint32_ptr count])"

definition CopyProtocolList :: "target \<Rightarrow> 'w goffi \<Rightarrow> objc_vars \<Rightarrow> uintptr \<Rightarrow> ('w gstate, byte list list option) prog" where
  "CopyProtocolList T E V p = copy_list T E V 8 (\<lambda>count.
     word_call T E V ''protocol_copyProtocolList'' [ptr_arg Protocol_ptr p, ptr_arg uint32_ptr count])"

definition CopyPropertyList ::
  "target \<Rightarrow> 'w goffi \<Rightarrow> objc_vars \<Rightarrow> uintptr \<Rightarrow> bool \<Rightarrow> bool \<Rightarrow> ('w gstate, byte list list option) prog" where
  "CopyPropertyList T E V p required inst = copy_list T E V 8 (\<lambda>count.
     word_call T E V ''protocol_copyPropertyList2''
       [ptr_arg Protocol_ptr p, ptr_arg uint32_ptr count, bool_arg required, bool_arg inst])"

section \<open>Messages\<close>

definition maxRegAllocStructSize :: nat where
  "maxRegAllocStructSize = 16"

definition ID_Send ::
  "target \<Rightarrow> 'w goffi \<Rightarrow> objc_vars \<Rightarrow> uintptr \<Rightarrow> uintptr \<Rightarrow> rvalue option list \<Rightarrow> ('w gstate, uintptr) prog" where
  "ID_Send T E V i sel args =
     bind_st (call_fn T E (msgSend_type ID_type ID_type) (objc_fns V ''objc_msgSend'')
       [word_arg ID_type i, word_arg SEL_type sel] args) (\<lambda>rs. pure_st (word_result rs))"

text \<open>A large struct comes back through the entry point for structs, which only amd64 has.\<close>

definition returns_stret :: "target \<Rightarrow> go_type \<Rightarrow> bool" where
  "returns_stret T t \<longleftrightarrow> GOARCH T = AMD64 \<and> Kind t = KStruct \<and> maxRegAllocStructSize < Size t"

definition Send ::
  "target \<Rightarrow> 'w goffi \<Rightarrow> objc_vars \<Rightarrow> go_type \<Rightarrow> uintptr \<Rightarrow> uintptr \<Rightarrow> rvalue option list \<Rightarrow> ('w gstate, retval) prog" where
  "Send T E V t i sel args =
     bind_st (RegisterFunc T E (TPointer (msgSend_type ID_type t))
       (if returns_stret T t then msgSend_stret_fn V else msgSend_fn V)) (\<lambda>fn.
     bind_st (call_fn T E (msgSend_type ID_type t) fn [word_arg ID_type i, word_arg SEL_type sel] args) (\<lambda>rs.
       pure_st (hd rs)))"

definition new_super :: "target \<Rightarrow> 'w goffi \<Rightarrow> objc_vars \<Rightarrow> uintptr \<Rightarrow> ('w gstate, uintptr) prog" where
  "new_super T E V i =
     bind_st (ID_Class T E V i) (\<lambda>c. new_st (le_bytes 8 i @ le_bytes 8 c))"

definition ID_SendSuper ::
  "target \<Rightarrow> 'w goffi \<Rightarrow> objc_vars \<Rightarrow> uintptr \<Rightarrow> uintptr \<Rightarrow> rvalue option list \<Rightarrow> ('w gstate, uintptr) prog" where
  "ID_SendSuper T E V i sel args =
     bind_st (new_super T E V i) (\<lambda>super.
     bind_st (call_fn T E (msgSend_type (TPointer objc_super_type) ID_type) (objc_fns V ''objc_msgSendSuper2'')
       [ptr_arg (TPointer objc_super_type) super, word_arg SEL_type sel] args) (\<lambda>rs. pure_st (word_result rs)))"

definition SendSuper ::
  "target \<Rightarrow> 'w goffi \<Rightarrow> objc_vars \<Rightarrow> go_type \<Rightarrow> uintptr \<Rightarrow> uintptr \<Rightarrow> rvalue option list \<Rightarrow> ('w gstate, retval) prog" where
  "SendSuper T E V t i sel args =
     bind_st (new_super T E V i) (\<lambda>super.
     bind_st (RegisterFunc T E (TPointer (msgSend_type (TPointer objc_super_type) t))
       (if returns_stret T t then msgSendSuper2_stret_fn V else msgSendSuper2_fn V)) (\<lambda>fn.
     bind_st (call_fn T E (msgSend_type (TPointer objc_super_type) t) fn
       [ptr_arg (TPointer objc_super_type) super, word_arg SEL_type sel] args) (\<lambda>rs. pure_st (hd rs))))"

section \<open>The runtime that classes are made with\<close>

text \<open>
  The functions \<open>RegisterClass\<close> calls are the variables \<open>init\<close> has bound. \<open>texts\<close> gives the address of
  the data of a Go string.
\<close>

definition bound_runtime ::
  "target \<Rightarrow> 'w goffi \<Rightarrow> objc_vars \<Rightarrow> (string \<Rightarrow> uintptr) \<Rightarrow> 'w class_runtime" where
  "bound_runtime T E V texts =
     (let text = (\<lambda>s. (texts s, bytes_of s)) in
      \<lparr>objc_allocateClassPair = (\<lambda>super name extraBytes. word_call T E V ''objc_allocateClassPair''
         [word_arg Class_type super, text_val (text name), word_arg (TPrim PUintptr) extraBytes]),
       objc_registerClassPair = (\<lambda>c. void_call T E V ''objc_registerClassPair'' [word_arg Class_type c]),
       sel_registerName = (\<lambda>name. RegisterName T E V (text name)),
       class_addMethod = (\<lambda>c sel imp types. Class_AddMethod T E V c sel imp (text types)),
       class_addIvar = (\<lambda>c name sz al types. bool_call T E V ''class_addIvar''
         [word_arg Class_type c, text_val (text name), word_arg (TPrim PUintptr) (of_nat sz),
          word_arg (TPrim PUint8) (ucast al), text_val (text types)]),
       class_addProtocol = (\<lambda>c p. Class_AddProtocol T E V c p),
       class_getInstanceVariable = (\<lambda>c name. Class_InstanceVariable T E V c (text name)),
       ivar_getOffset = (\<lambda>iv. Ivar_Offset T E V iv),
       protocol_getName = (\<lambda>p. bind_st (Protocol_Name T E V p) (\<lambda>bs. pure_st (of_bytes bs)))\<rparr>)"

section \<open>NSString\<close>

record nsstring_vars =
  sel_isKindOf :: uintptr
  sel_UTF8String :: uintptr
  class_NSString :: uintptr

text \<open>The texts are constants of the program; \<open>texts\<close> gives the address of each.\<close>

definition nsstrings_init ::
  "target \<Rightarrow> 'w goffi \<Rightarrow> objc_vars \<Rightarrow> (string \<Rightarrow> uintptr) \<Rightarrow> ('w gstate, nsstring_vars) prog" where
  "nsstrings_init T E V texts =
     bind_st (on_mem (\<lambda>m. Inr (Dlopen_engine E ''/System/Library/Frameworks/Foundation.framework/Foundation''
       (or (RTLD_GLOBAL (rtld (dl_file_of T))) (RTLD_NOW (rtld (dl_file_of T)))) m))) (\<lambda>r. case r of
       Inl err \<Rightarrow> panic_st (PanicErr (''cstrings: '' @ Error err))
     | Inr _ \<Rightarrow>
         let const = (\<lambda>s. (texts s, bytes_of s)) in
         bind_st (RegisterName T E V (const ''isKindOfClass:'')) (\<lambda>k.
         bind_st (RegisterName T E V (const ''UTF8String'')) (\<lambda>u.
         bind_st (GetClass T E V (const ''NSString'')) (\<lambda>c.
           pure_st \<lparr>sel_isKindOf = k, sel_UTF8String = u, class_NSString = c\<rparr>))))"

definition NSStringToString ::
  "target \<Rightarrow> 'w goffi \<Rightarrow> objc_vars \<Rightarrow> nsstring_vars \<Rightarrow> uintptr \<Rightarrow> ('w gstate, byte list) prog" where
  "NSStringToString T E V N s =
     (if s = 0 then pure_st []
      else bind_st (ID_Send T E V s (sel_isKindOf N) [Some (word_arg Class_type (class_NSString N))]) (\<lambda>k.
        if k = 0 then panic_st (PanicMsg ''cstrings: provided ID is not an NSString'')
        else bind_st (ID_Send T E V s (sel_UTF8String N) []) (\<lambda>p. read_st strings_GoString p)))"

section \<open>What initialisation binds\<close>

text \<open>A variable of type \<open>ty\<close> holds a function that calls \<open>a\<close> with the values of that type.\<close>

fun bound_to :: "go_type \<Rightarrow> uintptr \<Rightarrow> bound \<Rightarrow> bool" where
  "bound_to ty a (FastBound w cif c) \<longleftrightarrow> c = a \<and> fits (map Kind (func_ins ty)) (0 < NumOut ty) w"
| "bound_to ty a (SlowBound sf) \<longleftrightarrow> sf_cfn sf = a \<and> sf_type sf = ty"

lemma try_fast_fits:
  assumes "snd (try_fast T ty)"
  shows "\<exists>w. try_fast T ty = (Some w, True) \<and> fits (map Kind (func_ins ty)) (0 < NumOut ty) w"
proof -
  have fast: "tryRegisterFastPath (GOOS T) (GOARCH T) ty = try_fast T ty"
    using assms by (auto simp: try_fast_def tryRegisterFastPath_fallback_def split: if_splits)
  obtain w where "try_fast T ty = (Some w, True)"
    using assms try_exact [of "GOOS T" "GOARCH T" ty] by (cases "try_fast T ty") (auto simp: fast)
  then show ?thesis
    using try_fits [of "GOOS T" "GOARCH T" ty w] fast by simp
qed

lemma make_binding_binds:
  assumes "make_binding T E sf = Inr b"
  shows "\<exists>f. b = Some f \<and> bound_to (sf_type sf) (sf_cfn sf) f"
  using assms try_fast_fits [of T "sf_type sf"]
  by (auto simp: make_binding_def split: if_splits prod.splits option.splits)

lemma RegisterFunc_binds:
  assumes "RegisterFunc T E (TPointer ty) a s = (Inr b, s')"
  shows "\<exists>f. b = Some f \<and> bound_to ty a f"
proof -
  obtain conv marked start where mk: "marker_of ty = (conv, marked, start)"
    by (cases "marker_of ty") auto
  obtain sf where "make_binding T E sf = Inr b" "sf_type sf = ty" "sf_cfn sf = a"
    using assms unfolding RegisterFunc_def by (fastforce simp: mk Let_def st_simps split: if_splits)
  then show ?thesis
    using make_binding_binds by blast
qed

definition symbol_handle :: "target \<Rightarrow> uintptr \<Rightarrow> string \<Rightarrow> uintptr" where
  "symbol_handle T h name = (if name = ''free'' then RTLD_DEFAULT (rtld (dl_file_of T)) else h)"

definition objc_bound :: "target \<Rightarrow> 'w goffi \<Rightarrow> uintptr \<Rightarrow> objc_vars \<Rightarrow> string \<times> go_type \<Rightarrow> bool" where
  "objc_bound T E h V = (\<lambda>(name, ty). \<exists>f a m s s'. objc_fns V name = Some f \<and> bound_to ty a f \<and>
     Dlsym T E (symbol_handle T h name) name m = Inr a \<and> RegisterFunc T E (TPointer ty) a s = (Inr (Some f), s'))"

text \<open>The other variables.\<close>

definition same_vars :: "objc_vars \<Rightarrow> objc_vars \<Rightarrow> bool" where
  "same_vars V V' \<longleftrightarrow> V'\<lparr>objc_fns := objc_fns V\<rparr> = V"

lemma same_vars_iff:
  "same_vars V V' \<longleftrightarrow> msgSend_fn V' = msgSend_fn V \<and> msgSend_stret_fn V' = msgSend_stret_fn V \<and>
     msgSendSuper2_fn V' = msgSendSuper2_fn V \<and> msgSendSuper2_stret_fn V' = msgSendSuper2_stret_fn V \<and>
     theBlocksCache V' = theBlocksCache V"
  by (cases V; cases V') (auto simp: same_vars_def)

lemma register_fn_binds:
  assumes "register_fn T E h (name, ty) (s, V) = (Inr u, (s', V'))"
  shows "objc_bound T E h V' (name, ty) \<and> (\<forall>n. n \<noteq> name \<longrightarrow> objc_fns V' n = objc_fns V n) \<and> same_vars V V'"
proof -
  obtain a b m where a: "Dlsym T E (symbol_handle T h name) name m = Inr a"
    and b: "RegisterFunc T E (TPointer ty) a s = (Inr b, s')"
    and V': "V' = objc_fns_update (\<lambda>fns. fns(name := assign b (fns name))) V"
    using assms unfolding register_fn_def RegisterLibFunc_def symbol_handle_def [symmetric] set_fn_def
    by (auto simp: st_simps split: sum.splits)
  obtain f where "b = Some f" "bound_to ty a f"
    using RegisterFunc_binds [OF b] by blast
  then show ?thesis
    using a b V' by (auto simp: objc_bound_def assign_def same_vars_iff)
qed

lemma register_fns_bind:
  assumes "for_st (register_fn T E h) fs (s, V) = (Inr us, (s', V'))" "distinct (map fst fs)"
  shows "(\<forall>f \<in> set fs. objc_bound T E h V' f) \<and>
    (\<forall>n. n \<notin> fst ` set fs \<longrightarrow> objc_fns V' n = objc_fns V n) \<and> same_vars V V'"
  using assms
proof (induction fs arbitrary: s V us)
  case Nil
  then show ?case
    by (auto simp: same_vars_def st_simps)
next
  case (Cons f fs)
  obtain name ty where f: "f = (name, ty)"
    by (cases f)
  obtain u s1 V1 vs where 1: "register_fn T E h (name, ty) (s, V) = (Inr u, (s1, V1))"
    and 2: "for_st (register_fn T E h) fs (s1, V1) = (Inr vs, (s', V'))"
    using Cons.prems(1) by (auto simp: f st_simps)
  note 1 = register_fn_binds [OF 1]
  note 2 = Cons.IH [OF 2]
  have "name \<notin> fst ` set fs"
    using Cons.prems(2) by (simp add: f)
  then have "objc_bound T E h V' (name, ty)"
    using 1 2 Cons.prems(2) by (simp add: objc_bound_def)
  with 1 2 show ?case
    using Cons.prems(2) by (auto simp: f same_vars_iff)
qed

definition objc_variables :: "(string \<times> go_type) list" where
  "objc_variables =
     (''objc_msgSend'', msgSend_type ID_type ID_type) #
     (''objc_msgSendSuper2'', msgSend_type (TPointer objc_super_type) ID_type) # objc_functions"

lemma distinct_objc_variables: "distinct (map fst objc_variables)"
  by (simp add: objc_variables_def objc_functions_def)

lemma objc_symbol_Inr [st_simps]:
  "objc_symbol T E h name (s, V) = (Inr a, (s', V')) \<longleftrightarrow> Dlsym T E h name (gmem s) = Inr a \<and> s' = s \<and> V' = V"
  by (auto simp: objc_symbol_def st_simps split: sum.splits)

lemma set_fn_Inr [st_simps]:
  "set_fn name b (s, V) = (Inr u, (s', V')) \<longleftrightarrow>
     s' = s \<and> V' = objc_fns_update (\<lambda>fns. fns(name := assign b (fns name))) V"
  by (auto simp: set_fn_def)

lemma init_stret_Inr:
  "init_stret T E h (s, V) = (Inr u, (s', V')) \<longleftrightarrow> s' = s \<and>
     (if GOARCH T = AMD64 then \<exists>a a'. Dlsym T E h ''objc_msgSend_stret'' (gmem s) = Inr a \<and>
        Dlsym T E h ''objc_msgSendSuper2_stret'' (gmem s) = Inr a' \<and>
        V' = V\<lparr>msgSend_stret_fn := a, msgSendSuper2_stret_fn := a'\<rparr>
      else V' = V)"
  by (auto simp: init_stret_def st_simps)

lemma case_panic_Inr:
  "(case x of Inl e \<Rightarrow> panic_st (f e) | Inr y \<Rightarrow> p y) s = (Inr u, s') \<longleftrightarrow> (\<exists>y. x = Inr y \<and> p y s = (Inr u, s'))"
  by (auto split: sum.split)

lemma objc_init_steps:
  assumes "objc_init T E G (s, V) = (Inr u, (s', V'))"
  shows "\<exists>h. (\<exists>m m'. Dlopen_engine E objc_path (or (RTLD_GLOBAL (rtld (dl_file_of T))) (RTLD_NOW (rtld (dl_file_of T)))) m = (Inr h, m')) \<and>
    (\<forall>f \<in> set objc_variables. objc_bound T E h V' f) \<and>
    (\<exists>m. Dlsym T E h ''objc_msgSend'' m = Inr (msgSend_fn V')) \<and>
    (\<exists>m. Dlsym T E h ''objc_msgSendSuper2'' m = Inr (msgSendSuper2_fn V')) \<and>
    (if GOARCH T = AMD64 then (\<exists>m. Dlsym T E h ''objc_msgSend_stret'' m = Inr (msgSend_stret_fn V')) \<and>
         (\<exists>m. Dlsym T E h ''objc_msgSendSuper2_stret'' m = Inr (msgSendSuper2_stret_fn V'))
     else msgSend_stret_fn V' = msgSend_stret_fn V \<and> msgSendSuper2_stret_fn V' = msgSendSuper2_stret_fn V) \<and>
    theBlocksCache V' \<noteq> None"
proof -
  let ?send = "msgSend_type ID_type ID_type" and ?super = "msgSend_type (TPointer objc_super_type) ID_type"
  obtain h m s0 s1 s2 s3 s4 V1 V2 V4 send super b c us cache where
    dl: "Dlopen_engine E objc_path (or (RTLD_GLOBAL (rtld (dl_file_of T))) (RTLD_NOW (rtld (dl_file_of T)))) (gmem s) = (Inr h, m)"
    and send: "Dlsym T E h ''objc_msgSend'' m = Inr send"
    and V1: "init_stret T E h (s1, V\<lparr>msgSend_fn := send\<rparr>) = (Inr (), (s0, V1))"
    and b: "RegisterFunc T E (TPointer ?send) send s0 = (Inr b, s2)"
    and super: "Dlsym T E h ''objc_msgSendSuper2'' (gmem s2) = Inr super"
    and c: "RegisterFunc T E (TPointer ?super) super s2 = (Inr c, s3)"
    and V2: "V2 = objc_fns_update (\<lambda>fns. fns(''objc_msgSendSuper2'' := assign c (fns ''objc_msgSendSuper2'')))
      (msgSendSuper2_fn_update (\<lambda>_. super)
        (objc_fns_update (\<lambda>fns. fns(''objc_msgSend'' := assign b (fns ''objc_msgSend''))) V1))"
    and fns: "for_st (register_fn T E h) objc_functions (s3, V2) = (Inr us, (s4, V4))"
    and V': "V' = V4\<lparr>theBlocksCache := Some cache\<rparr>"
    using assms unfolding objc_init_def
    by (auto simp: st_simps case_panic_Inr)
  obtain f g where f: "b = Some f" "bound_to ?send send f" and g: "c = Some g" "bound_to ?super super g"
    using RegisterFunc_binds [OF b] RegisterFunc_binds [OF c] by blast
  have "distinct (map fst objc_functions)"
    using distinct_objc_variables by (simp add: objc_variables_def)
  note 1 = register_fns_bind [OF fns this]
  have fresh: "''objc_msgSend'' \<notin> fst ` set objc_functions" "''objc_msgSendSuper2'' \<notin> fst ` set objc_functions"
    using distinct_objc_variables by (auto simp: objc_variables_def)
  have handle: "symbol_handle T h ''objc_msgSend'' = h" "symbol_handle T h ''objc_msgSendSuper2'' = h"
    by (simp_all add: symbol_handle_def)
  have "objc_fns V4 ''objc_msgSend'' = Some f" "objc_fns V4 ''objc_msgSendSuper2'' = Some g"
    using 1 fresh f g V2 by (simp_all add: assign_def)
  then have "\<forall>f \<in> set objc_variables. objc_bound T E h V4 f"
    using 1 send super b c f g handle by (auto simp: objc_variables_def objc_bound_def)
  then have "\<forall>f \<in> set objc_variables. objc_bound T E h V' f"
    by (simp add: V' objc_bound_def)
  moreover have "msgSend_fn V' = send" "msgSendSuper2_fn V' = super" "msgSend_stret_fn V' = msgSend_stret_fn V1"
    "msgSendSuper2_stret_fn V' = msgSendSuper2_stret_fn V1"
    using 1 V1 by (auto simp: V' V2 same_vars_iff init_stret_Inr split: if_splits)
  ultimately show ?thesis
    using dl send super V1 by (intro exI [of _ h]) (auto simp: V' init_stret_Inr split: if_splits)
qed

section \<open>Properties of initialisation\<close>

text \<open>
  Property C39. If the package's \<open>init\<close> returns, every function variable is set, and calls with the types
  of that variable the address that the dynamic linker gave for the symbol of its name (\<open>free\<close> is
  looked up in the whole process, the others in the library that \<^verbatim>\<open>Dlopen\<close> has opened); the addresses of the entry points for
  messages are those of their symbols, the two for struct results on amd64 only; and the
  cache of blocks exists.
\<close>

theorem objc_init_binds:
  assumes "objc_init T E G (s, V) = (Inr u, (s', V'))"
  shows "\<exists>h. (\<exists>m m'. Dlopen_engine E objc_path (or (RTLD_GLOBAL (rtld (dl_file_of T))) (RTLD_NOW (rtld (dl_file_of T)))) m = (Inr h, m')) \<and>
    (\<forall>f \<in> set objc_variables. objc_bound T E h V' f) \<and>
    (\<exists>m. Dlsym T E h ''objc_msgSend'' m = Inr (msgSend_fn V')) \<and>
    (\<exists>m. Dlsym T E h ''objc_msgSendSuper2'' m = Inr (msgSendSuper2_fn V')) \<and>
    (if GOARCH T = AMD64 then (\<exists>m. Dlsym T E h ''objc_msgSend_stret'' m = Inr (msgSend_stret_fn V')) \<and>
         (\<exists>m. Dlsym T E h ''objc_msgSendSuper2_stret'' m = Inr (msgSendSuper2_stret_fn V'))
     else msgSend_stret_fn V' = msgSend_stret_fn V \<and> msgSendSuper2_stret_fn V' = msgSendSuper2_stret_fn V) \<and>
    theBlocksCache V' \<noteq> None"
  using assms by (rule objc_init_steps)

text \<open>A machine on which everything is found but \<open>dladdr\<close>.\<close>

abbreviation darwin_amd64 :: target where
  "darwin_amd64 \<equiv> \<lparr>GOOS = Darwin, GOARCH = AMD64\<rparr>"

definition objc_engine :: "unit goffi" where
  "objc_engine = idle_engine\<lparr>LoadLibrary := (\<lambda>p m. (Inr 1, m)),
     GetSymbol := (\<lambda>h n m. if n = ''dladdr'' then Inl ''undefined symbol'' else Inr 64)\<rparr>"

lemma objc_engine_simps:
  "LoadLibrary objc_engine = (\<lambda>p m. (Inr 1, m))"
  "GetSymbol objc_engine = (\<lambda>h n m. if n = ''dladdr'' then Inl ''undefined symbol'' else Inr 64)"
  "fst (PrepareCallInterface objc_engine c r ts) = None"
  "ffi_NewCallback objc_engine t f m = Inr (4096, m)"
  by (simp_all add: objc_engine_def idle_engine_def)

lemma Dlsym_objc: "Dlsym darwin_amd64 objc_engine h n m = (if n = ''dladdr'' then Inl (Dlerror ''undefined symbol'') else Inr 64)"
  by (simp add: Dlsym_def dl_file_of_def Dlsym_unix_def objc_engine_simps)

lemma symbol_name_objc:
  assumes "lf_fn (dladdr_lazy s) = 0"
  shows "\<exists>s'. symbol_name darwin_amd64 objc_engine a s = (Inr [], s') \<and> lf_fn (dladdr_lazy s') = 0 \<and>
    gmem s' = gmem s \<and> slowCallPool s' = slowCallPool s"
  using assms by (auto simp: symbol_name_def getSymbolName_def bind_st_def dladdrOnce_def once_lazy_def initDladdr_def Dlsym_objc)

lemma objc_functions_accepted: "list_all (\<lambda>(name, ty). rejection ty = None \<and> \<not> IsVariadic ty) objc_functions"
  by code_simp

lemma message_registers:
  assumes "lf_fn (dladdr_lazy s) = 0" and "\<not> is_marker r" "goArgTypeToFfiType r = Inr d"
    and "t \<noteq> errorType" "goTypeToFfiType t = Inr d'"
  shows "\<exists>b s'. RegisterFunc darwin_amd64 objc_engine (TPointer (msgSend_type r t)) 64 s = (Inr b, s') \<and>
    lf_fn (dladdr_lazy s') = 0 \<and> gmem s' = gmem s \<and> slowCallPool s' = slowCallPool s"
proof -
  obtain s' where n: "symbol_name darwin_amd64 objc_engine 64 s = (Inr [], s')" "lf_fn (dladdr_lazy s') = 0"
    "gmem s' = gmem s" "slowCallPool s' = slowCallPool s"
    using symbol_name_objc [OF assms(1)] by blast
  have mk: "marker_of (msgSend_type r t) = (DefaultCall, False, 0)"
    using assms(2) by (auto simp: marker_of_def msgSend_type_def is_marker_def)
  have kind: "Kind (msgSend_type r t) = KFunc" "IsVariadic (msgSend_type r t)" "NumIn (msgSend_type r t) = 3"
    "func_ins (msgSend_type r t) = [r, SEL_type, TSlice TInterface]"
    "check_results (msgSend_type r t) = Inr False" "return_type (msgSend_type r t) False = Inr d'"
    using assms(4,5) by (simp_all add: msgSend_type_def NumIn_def NumOut_def check_results_def return_type_def)
  have sel: "goArgTypeToFfiType SEL_type = Inr UInt64TypeDescriptor"
    by (simp add: SEL_type_def goArgTypeToFfiType_def)
  obtain ds where "map_res (\<lambda>i. goArgTypeToFfiType ([r, SEL_type, TSlice TInterface] ! i)) [0..<3 - 1] = Inr ds"
    using assms(3) sel by (auto simp: upt_rec)
  then show ?thesis
    using n by (simp add: RegisterFunc_def mk kind Let_def resolve_variadic_def bind_st_def variadic_heuristic_def
        has_prefix_def lift_res_def make_binding_def)
qed

lemma make_binding_objc: "\<exists>b. make_binding darwin_amd64 objc_engine sf = Inr b"
  by (simp add: make_binding_def split: prod.split option.split)
    (metis fst_conv objc_engine_simps(3) option.distinct(1))

lemma objc_registers:
  assumes "(name, ty) \<in> set objc_functions"
  shows "\<exists>V'. register_fn darwin_amd64 objc_engine h (name, ty) (s, V) = (Inr (), (s, V'))"
proof -
  have ok: "rejection ty = None" "\<not> IsVariadic ty"
    using objc_functions_accepted assms by (auto simp: list_all_iff)
  obtain ts r where "RegisterFunc darwin_amd64 objc_engine (TPointer ty) 64 s =
      lift_res (make_binding darwin_amd64 objc_engine (fixed_sf ty 64 ts r)) s"
    using RegisterFunc_fixed [OF ok(2), of 64 darwin_amd64 objc_engine s] ok(1) by auto
  moreover obtain b where "make_binding darwin_amd64 objc_engine (fixed_sf ty 64 ts r) = Inr b"
    using make_binding_objc by blast
  moreover have "name \<noteq> ''dladdr''"
    using assms by (auto simp: objc_functions_def)
  ultimately show ?thesis
    by (simp add: register_fn_def RegisterLibFunc_def Dlsym_objc bind_st_def on_g_def lift_res_def set_fn_def on_l_def)
qed

lemma objc_registers_all:
  assumes "set fs \<subseteq> set objc_functions"
  shows "\<exists>us V'. for_st (register_fn darwin_amd64 objc_engine h) fs (s, V) = (Inr us, (s, V'))"
  using assms
proof (induction fs arbitrary: V)
  case (Cons f fs)
  obtain V1 where 1: "register_fn darwin_amd64 objc_engine h f (s, V) = (Inr (), (s, V1))"
    using objc_registers [of "fst f" "snd f" h s V] Cons.prems by auto
  obtain us V2 where "for_st (register_fn darwin_amd64 objc_engine h) fs (s, V1) = (Inr us, (s, V2))"
    using Cons.IH Cons.prems by force
  with 1 show ?case
    by (simp add: bind_st_def)
qed simp

lemma objc_types:
  "\<not> is_marker ID_type" "\<not> is_marker (TPointer objc_super_type)" "ID_type \<noteq> errorType"
  "\<exists>d. goTypeToFfiType ID_type = Inr d" "\<exists>d. goArgTypeToFfiType ID_type = Inr d"
  "\<exists>d. goArgTypeToFfiType (TPointer objc_super_type) = Inr d"
  by (simp_all add: is_marker_def ID_type_def CDecl_def Variadic_def errorType_def goArgTypeToFfiType_def)

text \<open>Memory with the text of \<open>blockBaseClass\<close>, and the call of \<open>GetClass\<close> that makes the cache of blocks.\<close>

definition class_mem :: "unit mem" where
  "class_mem = \<lparr>mbytes = (\<lambda>a. if 200 \<le> unat a \<and> unat a < 217 then Some (bytes_of blockBaseClass ! (unat a - 200)) else None),
     mbrk = 4096, world = ()\<rparr>"

abbreviation class_name :: rvalue where
  "class_name \<equiv> text_val (200, bytes_of blockBaseClass)"

lemma class_name_ok: "value_ok class_mem class_name"
proof -
  have "unat (200 + of_nat i :: uintptr) = 200 + i" if "i < 17" for i
    using that unat_heap_offset [of 200 17 i] by (simp add: heap_limit_def)
  moreover have "length (bytes_of blockBaseClass) = 17"
    by (simp add: bytes_of_def blockBaseClass_def)
  ultimately show ?thesis
    by (simp add: value_ok_def text_val_def holds_def class_mem_def load_Inr_iff settled_def)
qed

lemma GetClass_runs:
  assumes f: "objc_bound darwin_amd64 objc_engine h V (''objc_getClass'', TFunc [str] [Class_type] False)"
    and s: "gmem s = class_mem" "slowCallPool s = []"
  shows "\<exists>isa s'. GetClass darwin_amd64 objc_engine V (200, bytes_of blockBaseClass) s = (Inr isa, s')"
proof -
  let ?ty = "TFunc [str] [Class_type] False"
  have ty: "\<not> IsVariadic ?ty" "\<not> fast_params (map Kind (func_ins ?ty))" "marker_of ?ty = (DefaultCall, False, 0)"
    "\<not> returns_error ?ty" "NumIn ?ty = 1"
    by (simp_all add: fast_params_def is_word_kind_def is_float_kind_def word_kinds_def float_kinds_def marker_of_def
        is_marker_def CDecl_def Variadic_def returns_error_def NumOut_def NumIn_def errorType_def Class_type_def)
  obtain g a m t t' where g: "objc_fns V ''objc_getClass'' = Some g"
    and a: "Dlsym darwin_amd64 objc_engine (symbol_handle darwin_amd64 h ''objc_getClass'') ''objc_getClass'' m = Inr a"
    and reg: "RegisterFunc darwin_amd64 objc_engine (TPointer ?ty) a t = (Inr (Some g), t')"
    using f by (auto simp: objc_bound_def)
  have "a = 64"
    using a by (simp add: Dlsym_objc)
  moreover have "rejection ?ty = None"
    using objc_functions_accepted by (simp add: objc_functions_def)
  ultimately obtain ts r where "lift_res (make_binding darwin_amd64 objc_engine (fixed_sf ?ty 64 ts r)) t = (Inr (Some g), t')"
    using RegisterFunc_fixed [OF ty(1), of 64 darwin_amd64 objc_engine t] reg by auto
  then have "make_binding darwin_amd64 objc_engine (fixed_sf ?ty 64 ts r) = Inr (Some g)"
    by (simp add: lift_res_eq_Inr)
  moreover have "fst (try_fast darwin_amd64 ?ty) = None \<and> \<not> snd (try_fast darwin_amd64 ?ty)"
    using try_exact [of Darwin AMD64 ?ty] ty(2) try_fast_fits [of darwin_amd64 ?ty]
    by (auto simp: try_fast_def tryRegisterFastPath_fallback_def)
  ultimately obtain cif where sf: "g = SlowBound ((fixed_sf ?ty 64 ts r)\<lparr>sf_fixedCif := cif\<rparr>)"
    by (auto simp: make_binding_def fixed_sf_def split: prod.splits option.splits if_splits)
  let ?sf = "(fixed_sf ?ty 64 ts r)\<lparr>sf_fixedCif := cif\<rparr>"
  have fields: "sf_startIn ?sf = 0" "sf_fixedIn ?sf = 1" "\<not> sf_hasError ?sf" "\<not> sf_isGoVariadic ?sf" "sf_type ?sf = ?ty"
    using ty by (simp_all add: fixed_sf_def)
  have pool: "slow_pool_ok s"
    by (simp add: slow_pool_ok_def slow_pool_clean_def pool_ok_def s class_mem_def heap_limit_def)
  have "mbrk class_mem + slow_ctx_size + (41 + (length (bytes_of blockBaseClass) + 2 * Size Class_type)) < heap_limit"
    by (simp add: class_mem_def slow_ctx_size_def bytes_of_def blockBaseClass_def Class_type_def heap_limit_def)
  then have plain: "plain_call s ?sf [class_name]"
    using class_name_ok unfolding plain_call_def fields
    by (simp add: s(1) packable_def text_val_def call_room_def fields pack_room_def)
  have out: "Class_type = func_outs (sf_type ?sf) ! 0" "Kind Class_type \<notin> {KSlice, KFunc}" "hasActualReturn ?sf"
    using fields(3) unfolding hasActualReturn_def fields(5) by (simp_all add: NumOut_def Class_type_def)
  have E: "callbacks_extend objc_engine" "keeps_heap objc_engine"
    by (simp_all add: callbacks_extend_def keeps_heap_def grows_def objc_engine_def idle_engine_def)
  obtain rv ptrs m1 callErrno err m' where mapped: "hasActualReturn ?sf \<longrightarrow>
      mapped m1 rv (if Kind Class_type \<in> set retBuf_kinds then 8 else Size Class_type)"
    and call: "CallFunction objc_engine (sf_fixedCif ?sf) (sf_cfn ?sf) rv ptrs m1 = (callErrno, err, m')"
    and result: "fst (slow_call darwin_amd64 objc_engine ?sf [class_name] [] s) =
      (case err of Some e \<Rightarrow> Inl (PanicErr e)
       | None \<Rightarrow> if hasActualReturn ?sf then bind_res (result_value Class_type m' rv) (\<lambda>v. Inr [v]) else Inr [])"
    using slow_call_runs [OF pool plain E out(1,2), where T = darwin_amd64 and vars = "[]"] by blast
  have "err = None" "m' = m1"
    using call by (simp_all add: objc_engine_def idle_engine_def)
  moreover have "Kind Class_type = KUintptr" "Size Class_type = 8"
    by (simp_all add: Class_type_def)
  moreover from this obtain bs where "load m1 rv 8 = Inr bs"
    using mapped out(3) load_mapped [of m1 rv 8] by (auto simp: retBuf_kinds_def)
  ultimately have "fst (slow_call darwin_amd64 objc_engine ?sf [class_name] [] s) = Inr [RMem bs]"
    using result out(3) by (simp add: result_value_def)
  then obtain s' where "slow_call darwin_amd64 objc_engine ?sf [class_name] [] s = (Inr [RMem bs], s')"
    by (metis prod.collapse)
  then have "GetClass darwin_amd64 objc_engine V (200, bytes_of blockBaseClass) s = (Inr (of_le bs), s')"
    by (simp add: GetClass_def word_call_def objc_call_def call_fn_def g sf bind_st_def word_result_def)
  then show ?thesis
    by blast
qed

lemma objc_init_runs:
  "\<exists>s' V'. objc_init darwin_amd64 objc_engine (\<lambda>_. 200) (start_state class_mem, no_objc_vars) = (Inr (), (s', V'))"
proof -
  let ?s = "start_state class_mem"
  have start: "lf_fn (dladdr_lazy ?s) = 0" "gmem ?s = class_mem" "slowCallPool ?s = []"
    by (simp_all add: start_state_def unresolved_def)
  obtain b s1 where 1: "RegisterFunc darwin_amd64 objc_engine (TPointer (msgSend_type ID_type ID_type)) 64 ?s = (Inr b, s1)"
    "lf_fn (dladdr_lazy s1) = 0" "gmem s1 = class_mem" "slowCallPool s1 = []"
    using message_registers [OF start(1), of ID_type _ ID_type] objc_types start by metis
  obtain c s2 where 2: "RegisterFunc darwin_amd64 objc_engine (TPointer (msgSend_type (TPointer objc_super_type) ID_type)) 64
      s1 = (Inr c, s2)" "gmem s2 = class_mem" "slowCallPool s2 = []"
    using message_registers [OF 1(2), of "TPointer objc_super_type" _ ID_type] objc_types 1 by metis
  have same: "?s\<lparr>gmem := gmem ?s\<rparr> = ?s"
    by simp
  let ?V = "objc_fns_update (\<lambda>fns. fns(''objc_msgSendSuper2'' := assign c (fns ''objc_msgSendSuper2'')))
      (msgSendSuper2_fn_update (\<lambda>_. 64) (objc_fns_update (\<lambda>fns. fns(''objc_msgSend'' := assign b (fns ''objc_msgSend'')))
        (no_objc_vars\<lparr>msgSend_fn := 64, msgSend_stret_fn := 64, msgSendSuper2_stret_fn := 64\<rparr>)))"
  obtain us V where 3: "for_st (register_fn darwin_amd64 objc_engine 1) objc_functions (s2, ?V) = (Inr us, (s2, V))"
    using objc_registers_all [of objc_functions 1 s2 ?V] by blast
  have "(''objc_getClass'', TFunc [str] [Class_type] False) \<in> set objc_functions" "distinct (map fst objc_functions)"
    using distinct_objc_variables by (simp_all add: objc_functions_def objc_variables_def)
  then have "objc_bound darwin_amd64 objc_engine 1 V (''objc_getClass'', TFunc [str] [Class_type] False)"
    using register_fns_bind [OF 3] by blast
  then obtain isa s3 where 4: "GetClass darwin_amd64 objc_engine V (200, bytes_of blockBaseClass) s2 = (Inr isa, s3)"
    using GetClass_runs 2(2,3) by blast
  then obtain cache where 5: "newBlockCache objc_engine (\<lambda>name. GetClass darwin_amd64 objc_engine V (200, bytes_of name)) s2 =
      (Inr cache, s3)"
    by (simp add: newBlockCache_def NewCallback_def is_marker_def Block_type_def CDecl_def Variadic_def NumIn_def
        on_mem_def lift_st_def objc_engine_simps bind_st_def)
  have "objc_init darwin_amd64 objc_engine (\<lambda>_. 200) (?s, no_objc_vars) = (Inr (), (s3, V\<lparr>theBlocksCache := Some cache\<rparr>))"
    using 3 5 by (simp add: objc_init_def bind_st_def on_g_def on_mem_def lift_st_def Dlopen_engine_def
        objc_engine_simps objc_symbol_def Dlsym_objc init_stret_def on_l_def set_fn_def same 1(1) 2(1) get_l_def)
  then show ?thesis
    by blast
qed

theorem objc_init_binds_witness:
  "\<exists>s' V'. objc_init darwin_amd64 objc_engine (\<lambda>_. 200) (start_state class_mem, no_objc_vars) = (Inr (), (s', V')) \<and>
     msgSend_stret_fn V' = 64 \<and>
     (\<exists>f. objc_fns V' ''sel_registerName'' = Some f \<and> bound_to (TFunc [str] [SEL_type] False) 64 f)"
proof -
  obtain s' V' where run: "objc_init darwin_amd64 objc_engine (\<lambda>_. 200) (start_state class_mem, no_objc_vars) = (Inr (), (s', V'))"
    using objc_init_runs by blast
  obtain h where all: "\<forall>f \<in> set objc_variables. objc_bound darwin_amd64 objc_engine h V' f"
    and stret: "\<exists>m. Dlsym darwin_amd64 objc_engine h ''objc_msgSend_stret'' m = Inr (msgSend_stret_fn V')"
    using objc_init_binds [OF run] by auto
  have "(''sel_registerName'', TFunc [str] [SEL_type] False) \<in> set objc_variables"
    by (simp add: objc_variables_def objc_functions_def)
  with all have "objc_bound darwin_amd64 objc_engine h V' (''sel_registerName'', TFunc [str] [SEL_type] False)"
    by blast
  then show ?thesis
    using run stret by (auto simp: objc_bound_def Dlsym_objc)
qed

section \<open>Message sends\<close>

lemma message_call:
  assumes "GOOS T = Darwin" and "symbol_name T E a s = (Inr name, s2)"
    and "has_prefix name (bytes_of ''objc_msgSend'') \<or> name = []"
    and "RegisterFunc T E (TPointer (msgSend_type r t)) a s = (Inr b, s1)" and "\<not> is_marker r"
  shows "\<exists>sf. b = Some (SlowBound sf) \<and> sf_cfn sf = a \<and> sf_type sf = msgSend_type r t \<and>
    sf_convention sf = DefaultCall \<and> sf_isGoVariadic sf \<and> \<not> sf_isCVariadic sf"
proof -
  have mk: "marker_of (msgSend_type r t) = (DefaultCall, False, 0)"
    using assms(5) by (auto simp: marker_of_def msgSend_type_def is_marker_def)
  have kind: "Kind (msgSend_type r t) = KFunc" "IsVariadic (msgSend_type r t)"
    by (simp_all add: msgSend_type_def)
  have heuristic: "resolve_variadic T E True False a s = (Inr False, s2)"
    using assms(1-3) by (auto simp: resolve_variadic_def bind_st_def variadic_heuristic_def)
  obtain sf where "make_binding T E sf = Inr b" "sf_cfn sf = a" "sf_type sf = msgSend_type r t"
    "sf_convention sf = DefaultCall" "sf_isGoVariadic sf" "\<not> sf_isCVariadic sf"
    using assms(4) unfolding RegisterFunc_def
    by (fastforce simp: mk heuristic kind Let_def st_simps split: if_splits)
  then show ?thesis
    by (auto simp: make_binding_def)
qed

text \<open>
  Property C40. A message is sent through the entry point for struct results exactly on amd64 and for a
  struct of more than 16 bytes, else through the ordinary one; with the receiver and the selector as
  the first arguments; and, on a machine where the entry point's symbol has its own name or none, as
  a call of an ordinary function, although the Go type has a final \<open>...\<close> parameter.
\<close>

theorem Send_message:
  assumes "GOOS T = Darwin"
    and "a = (if GOARCH T = AMD64 \<and> Kind t = KStruct \<and> 16 < Size t then msgSend_stret_fn V else msgSend_fn V)"
    and "symbol_name T E a s = (Inr name, s2)"
    and "has_prefix name (bytes_of ''objc_msgSend'') \<or> name = []"
    and "RegisterFunc T E (TPointer (msgSend_type ID_type t)) a s = (Inr b, s1)"
  shows "\<exists>sf. sf_cfn sf = a \<and> sf_type sf = msgSend_type ID_type t \<and>
    call_cif E sf ds =
      (case PrepareCallInterface E (sf_convention sf) (sf_retType sf) ds of
         (Some err, _) \<Rightarrow> Inl (PanicErr err) | (None, cif) \<Rightarrow> Inr cif) \<and>
    Send T E V t i sel args s =
      bind_st (slow_call T E sf [word_arg ID_type i, word_arg SEL_type sel] args) (\<lambda>rs. pure_st (hd rs)) s1"
proof -
  have "\<not> is_marker ID_type"
    by (simp add: is_marker_def ID_type_def CDecl_def Variadic_def)
  then obtain sf where sf: "b = Some (SlowBound sf)" "sf_cfn sf = a" "sf_type sf = msgSend_type ID_type t"
    "sf_isGoVariadic sf" "\<not> sf_isCVariadic sf"
    using message_call [OF assms(1,3-5)] by blast
  have "Send T E V t i sel args s =
      bind_st (slow_call T E sf [word_arg ID_type i, word_arg SEL_type sel] args) (\<lambda>rs. pure_st (hd rs)) s1"
    using assms(2,5) sf(1) by (simp add: Send_def returns_stret_def maxRegAllocStructSize_def bind_st_def call_fn_def)
  then show ?thesis
    using sf by (intro exI [of _ sf]) (auto simp: call_cif_def)
qed


definition rect :: go_type where
  "rect = TStruct [(''x'', TPrim PUint64), (''y'', TPrim PUint64), (''w'', TPrim PUint64)]"

theorem Send_message_witness:
  "\<exists>sf s1. sf_cfn sf = 64 \<and> sf_type sf = msgSend_type ID_type rect \<and>
     Send darwin_amd64 objc_engine (no_objc_vars\<lparr>msgSend_stret_fn := 64\<rparr>) rect 5 6 [] (start_state text_mem) =
       bind_st (slow_call darwin_amd64 objc_engine sf [word_arg ID_type 5, word_arg SEL_type 6] [])
         (\<lambda>rs. pure_st (hd rs)) s1"
proof -
  have start: "lf_fn (dladdr_lazy (start_state text_mem :: unit gstate)) = 0"
    by (simp add: start_state_def unresolved_def)
  have rect: "rect \<noteq> errorType" "\<exists>d. goTypeToFfiType rect = Inr d" "Kind rect = KStruct" "16 < Size rect"
    by (simp_all add: rect_def errorType_def align_up_def)
  obtain s2 where 1: "symbol_name darwin_amd64 objc_engine 64 (start_state text_mem) = (Inr [], s2)"
    using symbol_name_objc [OF start] by blast
  obtain b s1 where 2: "RegisterFunc darwin_amd64 objc_engine (TPointer (msgSend_type ID_type rect)) 64
      (start_state text_mem) = (Inr b, s1)"
    using message_registers [OF start, of ID_type _ rect] rect objc_types by blast
  have "64 = (if GOARCH darwin_amd64 = AMD64 \<and> Kind rect = KStruct \<and> 16 < Size rect
      then msgSend_stret_fn (no_objc_vars\<lparr>msgSend_stret_fn := 64\<rparr>) else msgSend_fn (no_objc_vars\<lparr>msgSend_stret_fn := 64\<rparr>))"
    using rect by simp
  from Send_message [OF _ this 1 _ 2, of "[]" 5 6 "[]"] show ?thesis
    by auto
qed

end
