(* ===== verification/ObjcBlockLife.thy ===== *)
theory ObjcBlockLife
  imports ObjcBlocks
begin

text \<open>
  The life of a block (\<^verbatim>\<open>objc_block_darwin.go\<close>), from \<open>NewBlock\<close> to its dispose helper: which Go function
  a live block runs, and that no function outlives its block, whatever the goroutines of the program
  and the blocks runtime do in between. The steps of the package are the definitions of \<open>ObjcBlocks\<close>,
  run on the state of the program; what the blocks runtime does itself is described by the guards of its steps.
\<close>

section \<open>The runtime's side of a block\<close>












section \<open>The literals\<close>






lemma blocks_ok_Functions [simp]: "blocks_ok E (s, c\<lparr>Functions := m\<rparr>) = blocks_ok E (s, c)"
  by (simp add: blocks_ok_def layout_ok_def)





section \<open>The invariant\<close>






















section \<open>Running and releasing blocks\<close>



















end
