(* ===== verification/Generator.thy ===== *)
theory Generator
  imports FastInterleaved GoReflect
begin

text \<open>
  The text that the generator (\<^verbatim>\<open>genfastfunc.go\<close>) writes, emitter by emitter: the templates as
  lists of lines, the loops over counts, widths, masks and positions as maps over ranges. \<open>GoText\<close> reads
  it, and \<open>GeneratorTables\<close> shows what the text says.
\<close>

section \<open>Lines\<close>

text \<open>A line is its indentation and its text; the emitters write whole lines.\<close>

type_synonym gen_line = "nat \<times> string"

definition newline :: char where
  "newline = char_of (10 :: nat)"

definition tab :: char where
  "tab = char_of (9 :: nat)"

definition text_of :: "gen_line list \<Rightarrow> string" where
  "text_of ls = concat (map (\<lambda>(k, s). replicate k tab @ s @ [newline]) ls)"

section \<open>Wrappers\<close>

definition tmplFastWord :: "gen_line list" where
  "tmplFastWord =
     [(0, ''''),
      (0, ''// fastWord is the type of an integer-class argument of a fast wrapper.''),
      (0, ''//''),
      (0, ''// The wrapper is installed under the registered function's own type''),
      (0, ''// (forceFuncPtr), so its parameters must match that type slot for slot in''),
      (0, ''// the GC's eyes: a pointer argument has to arrive as a pointer, or the GC''),
      (0, ''// neither keeps its object alive for the duration of the C call nor adjusts''),
      (0, ''// it when the stack moves. Each wrapper below is therefore generic over''),
      (0, ''// uintptr and unsafe.Pointer per argument, and tryRegisterFastPath picks the''),
      (0, ''// instantiation whose pointer slots match the registered signature.''),
      (0, ''type fastWord interface{ uintptr | unsafe.Pointer }'')]"

definition wrapperName :: "nat \<Rightarrow> nat \<Rightarrow> bool \<Rightarrow> string" where
  "wrapperName n bits ret =
     ''fastInts'' @ decimal n @ (if bits \<noteq> 0 then ''F'' @ decimal bits else []) @ (if ret then ''R'' else ''V'')"

definition type_params :: "nat \<Rightarrow> string" where
  "type_params n =
     (if n > 0 then ''['' @ join '', '' (map (\<lambda>i. ''A'' @ decimal i) [1..<n + 1]) @ '' fastWord]'' else [])"

definition wrapper_params :: "nat \<Rightarrow> nat \<Rightarrow> string list" where
  "wrapper_params n bits =
     map (\<lambda>i. ''a'' @ decimal i @ '' A'' @ decimal i) [1..<n + 1] @
     (if bits \<noteq> 0 then [''f1 float'' @ decimal bits] else [])"

definition impl_line :: "string list \<Rightarrow> bool \<Rightarrow> string" where
  "impl_line params ret = ''impl := func('' @ join '', '' params @ '')'' @ (if ret then '' uintptr'' else []) @ '' {''"

definition emitWrapper_text :: "nat \<Rightarrow> nat \<Rightarrow> bool \<Rightarrow> gen_line list" where
  "emitWrapper_text n bits ret =
     [(0, ''''),
      (0, ''func '' @ wrapperName n bits ret @ type_params n @
        ''(fn reflect.Value, cif *types.CallInterface, cfn uintptr) {''),
      (1, impl_line (wrapper_params n bits) ret),
      (2, ''var ints [15]uintptr'')] @
     map (\<lambda>i. (2, ''ints['' @ decimal (i - 1) @ ''] = uintptr(a'' @ decimal i @ '')'')) [1..<n + 1] @
     [(2, ''var floats [8]uintptr'')] @
     (if bits \<noteq> 0 then [(2, ''floats[0] = uintptr(math.Float'' @ decimal bits @ ''bits(f1))'')] else []) @
     [(2, if ret then ''r := fastCallIF(cif, cfn, ints, floats)'' else ''fastCallIF(cif, cfn, ints, floats)'')] @
     map (\<lambda>i. (2, ''runtime.KeepAlive(a'' @ decimal i @ '')'')) [1..<n + 1] @
     (if ret then [(2, ''return r'')] else []) @
     [(1, ''}''), (1, ''forceFuncPtr(fn, &impl)''), (0, ''}'')]"

definition maxInts :: "nat \<Rightarrow> nat" where
  "maxInts bits = (if bits \<noteq> 0 then 14 else 15)"

definition emitWrappers_text :: "gen_line list" where
  "emitWrappers_text = tmplFastWord @
     concat (map (\<lambda>bits. concat (map (\<lambda>n. concat (map (\<lambda>ret. emitWrapper_text n bits ret) [True, False]))
       [0..<maxInts bits + 1])) [0, 32, 64])"

section \<open>The dispatch function\<close>

definition instance_text :: "nat \<Rightarrow> nat \<Rightarrow> string" where
  "instance_text n m =
     (if n > 0 then ''['' @ join '', '' (map (\<lambda>i. if bit m i then ''unsafe.Pointer'' else ''uintptr'') [0..<n]) @ '']''
      else [])"

definition emitCase_text :: "nat \<Rightarrow> nat \<Rightarrow> nat \<Rightarrow> gen_line list" where
  "emitCase_text bits n m =
     [(3, ''case '' @ decimal m @ '':''),
      (4, ''if hasReturn {''),
      (5, wrapperName n bits True @ instance_text n m @ ''(fn, cif, cfn)''),
      (4, ''} else {''),
      (5, wrapperName n bits False @ instance_text n m @ ''(fn, cif, cfn)''),
      (4, ''}''),
      (4, ''return true'')]"

definition masks_of :: "nat \<Rightarrow> nat" where
  "masks_of n = (if n \<le> maxPointerMaskArgs then 2 ^ n else 1)"

definition emitDispatch_text :: "gen_line list" where
  "emitDispatch_text =
     [(0, ''''),
      (0, ''// registerFastFunc sets fn to a zero-allocation wrapper whose parameter types''),
      (0, ''// match the registered signature, and reports whether one was generated for''),
      (0, ''// it. See fastWord.''),
      (0, ''func registerFastFunc(fn reflect.Value, cif *types.CallInterface, cfn uintptr, '' @
        ''numInts int, ptrMask uint32, floatBits int, hasReturn bool) bool {''),
      (1, ''switch floatBits {'')] @
     concat (map (\<lambda>bits.
       [(1, ''case '' @ decimal bits @ '':''), (2, ''switch numInts {'')] @
       concat (map (\<lambda>n.
         [(2, ''case '' @ decimal n @ '':''), (3, ''switch ptrMask {'')] @
         concat (map (emitCase_text bits n) [0..<masks_of n]) @
         [(3, ''}'')]) [0..<maxInts bits + 1]) @
       [(2, ''}'')]) [0, 32, 64]) @
     [(1, ''}''), (1, ''return false''), (0, ''}'')]"

section \<open>The interleaved wrappers\<close>

definition interleaved_params :: "nat \<Rightarrow> nat \<Rightarrow> string list" where
  "interleaved_params totalArgs floatPos =
     map (\<lambda>i. if i = floatPos then ''f1 float32''
       else ''a'' @ decimal (if i < floatPos then i + 1 else i) @ '' uintptr'') [0..<totalArgs]"

definition interleaved_impl_text :: "nat \<Rightarrow> nat \<Rightarrow> bool \<Rightarrow> gen_line list" where
  "interleaved_impl_text totalArgs floatPos ret =
     [(4, impl_line (interleaved_params totalArgs floatPos) ret),
      (5, ''var ints [15]uintptr'')] @
     map (\<lambda>i. (5, ''ints['' @ decimal i @ ''] = a'' @ decimal (i + 1))) [0..<totalArgs - 1] @
     [(5, ''var floats [8]uintptr''),
      (5, ''floats[0] = uintptr(math.Float32bits(f1))''),
      (5, if ret then ''return fastCallIF(cif, cfn, ints, floats)'' else ''fastCallIF(cif, cfn, ints, floats)''),
      (4, ''}''),
      (4, ''forceFuncPtr(fn, &impl)'')]"

definition emitInterleavedFloat32x1_text :: "gen_line list" where
  "emitInterleavedFloat32x1_text =
     [(0, ''func registerFastFuncInterleavedFloat32x1(fn reflect.Value, cif *types.CallInterface, cfn uintptr, '' @
        ''totalArgs, floatPos int, hasReturn bool) {''),
      (1, ''switch totalArgs {'')] @
     concat (map (\<lambda>totalArgs.
       [(1, ''case '' @ decimal totalArgs @ '':''), (2, ''switch floatPos {'')] @
       concat (map (\<lambda>floatPos.
         [(2, ''case '' @ decimal floatPos @ '':''), (3, ''if hasReturn {'')] @
         interleaved_impl_text totalArgs floatPos True @
         [(3, ''} else {'')] @
         interleaved_impl_text totalArgs floatPos False @
         [(3, ''}'')]) [0..<totalArgs - 1]) @
       [(2, ''}'')]) [2..<16]) @
     [(1, ''}''), (0, ''}'')]"

section \<open>The file\<close>

text \<open>
  The header and \<open>tryRegisterFastPath\<close> are the same in every run; what they say is modelled in
  \<open>FastCall\<close> and \<open>FastPath\<close>. \<open>generated_text\<close> is the buffer of \<open>main\<close> before it is formatted.
\<close>

definition tmplHeader :: "gen_line list" where
  \<open>tmplHeader =
     [(0, ''// Code generated by genfastfunc.go; DO NOT EDIT.''),
      (0, ''''),
      (0, ''// SPDX-License-Identifier: BSD-3-Clause''),
      (0, ''// SPDX-FileCopyrightText: 2026 unxed''),
      (0, ''''),
      (0, ''//go:build (amd64 || arm64) && (darwin || freebsd || linux || netbsd) && !windows''),
      (0, ''''),
      (0, ''package purego''),
      (0, ''''),
      (0, ''import (''),
      (1, ''"math"''),
      (1, ''"reflect"''),
      (1, ''"runtime"''),
      (1, ''"sync"''),
      (1, ''"unsafe"''),
      (0, ''''),
      (1, ''"github.com/go-webgpu/goffi/ffi"''),
      (1, ''"github.com/go-webgpu/goffi/types"''),
      (0, '')''),
      (0, ''''),
      (0, ''func forceFuncPtr(dst reflect.Value, src any) {''),
      (1, ''dstPtr := dst.Addr().UnsafePointer()''),
      (1, ''srcPtr := (*unsafe.Pointer)(reflect.ValueOf(src).UnsafePointer())''),
      (1, ''*(*unsafe.Pointer)(dstPtr) = *srcPtr''),
      (0, ''}''),
      (0, ''''),
      (0, ''type fastCallContext struct {''),
      (1, ''ints   [15]uintptr''),
      (1, ''floats [8]uintptr''),
      (1, ''args   [23]unsafe.Pointer''),
      (1, ''ret    uintptr''),
      (0, ''}''),
      (0, ''''),
      (0, ''var fastCallPool = sync.Pool{''),
      (1, ''New: func() any {''),
      (2, ''return &fastCallContext{}''),
      (1, ''},''),
      (0, ''}''),
      (0, ''''),
      (0, ''func fastCallIF(cif *types.CallInterface, cfn uintptr, ints [15]uintptr, floats [8]uintptr) uintptr {''),
      (1, ''ctx := fastCallPool.Get().(*fastCallContext)''),
      (1, ''ctx.ints = ints''),
      (1, ''ctx.floats = floats''),
      (0, ''''),
      (1, ''var argIdx, iIdx, fIdx int''),
      (1, ''for _, t := range cif.ArgTypes {''),
      (2, ''if t.Kind == types.FloatType || t.Kind == types.DoubleType {''),
      (3, ''ctx.args[argIdx] = unsafe.Pointer(&ctx.floats[fIdx])''),
      (3, ''fIdx++''),
      (2, ''} else {''),
      (3, ''ctx.args[argIdx] = unsafe.Pointer(&ctx.ints[iIdx])''),
      (3, ''iIdx++''),
      (2, ''}''),
      (2, ''argIdx++''),
      (1, ''}''),
      (0, ''''),
      (1, ''ctx.ret = 0''),
      (1, ''_, _ = ffi.CallFunction(cif, unsafe.Pointer(cfn), unsafe.Pointer(&ctx.ret), ctx.args[:argIdx])''),
      (1, ''ret := ctx.ret''),
      (1, ''fastCallPool.Put(ctx)''),
      (1, ''return ret''),
      (0, ''}'')]\<close>

definition tmplTryRegisterFastPath :: "gen_line list" where
  \<open>tmplTryRegisterFastPath =
     [(0, ''func tryRegisterFastPath(fn reflect.Value, cif *types.CallInterface, cfn uintptr, ty reflect.Type) bool {''),
      (1, ''if !((runtime.GOARCH == "amd64" || runtime.GOARCH == "arm64") && runtime.GOOS != "windows") {''),
      (2, ''return false''),
      (1, ''}''),
      (1, ''numIn := ty.NumIn()''),
      (1, ''if numIn > 15 {''),
      (2, ''return false''),
      (1, ''}''),
      (0, ''''),
      (1, ''var numFloats, numInts int''),
      (1, ''var ptrMask uint32''),
      (1, ''trailingFloats := true''),
      (1, ''seenFloat := false''),
      (1, ''floatPos := -1''),
      (0, ''''),
      (1, ''for i := 0; i < numIn; i++ {''),
      (2, ''switch ty.In(i).Kind() {''),
      (2, ''// The fast wrappers take every integer argument as a uintptr, and''),
      (2, ''// forceFuncPtr installs them under fn's own type. Go's register ABI''),
      (2, ''// lets the callee spill its register arguments into a spill area the''),
      (2, ''// caller reserves and lays out from the declared type, so the two''),
      (2, ''// layouts must agree slot for slot. A narrower argument (int32, bool,''),
      (2, ''// ...) packs tighter in the caller's area than a uintptr does in the''),
      (2, ''// wrapper's: the wrapper then spills past the end of that area over''),
      (2, ''// the caller's own frame, and the GC later finds an integer where the''),
      (2, ''// caller keeps a pointer ("invalid pointer found on stack"). Only''),
      (2, ''// pointer-sized arguments share the layout, so anything narrower''),
      (2, ''// takes the reflect path.''),
      (2, ''case reflect.Uintptr, reflect.Uint, reflect.Uint64,''),
      (3, ''reflect.Int, reflect.Int64,''),
      (3, ''reflect.Pointer, reflect.UnsafePointer:''),
      (3, ''if seenFloat {''),
      (4, ''trailingFloats = false''),
      (3, ''}''),
      (3, ''if k := ty.In(i).Kind(); k == reflect.Pointer || k == reflect.UnsafePointer {''),
      (4, ''ptrMask |= 1 << numInts''),
      (3, ''}''),
      (3, ''numInts++''),
      (2, ''case reflect.Float32, reflect.Float64:''),
      (3, ''if !seenFloat {''),
      (4, ''floatPos = i''),
      (3, ''}''),
      (3, ''seenFloat = true''),
      (3, ''numFloats++''),
      (2, ''default:''),
      (3, ''return false // Fallback for Structs, Arrays, Strings, Slices''),
      (2, ''}''),
      (1, ''}''),
      (1, ''if numFloats > 8 || numInts > 15 {''),
      (2, ''return false''),
      (1, ''}''),
      (0, ''''),
      (1, ''hasReturn := ty.NumOut() > 0''),
      (1, ''if hasReturn {''),
      (2, ''switch ty.Out(0).Kind() {''),
      (2, ''case reflect.Uintptr, reflect.Uint, reflect.Uint8, reflect.Uint16, reflect.Uint32, reflect.Uint64,''),
      (3, ''reflect.Int, reflect.Int8, reflect.Int16, reflect.Int32, reflect.Int64,''),
      (3, ''reflect.Bool, reflect.Pointer, reflect.UnsafePointer:''),
      (2, ''case reflect.Float32, reflect.Float64:''),
      (3, ''return false // Fast wrappers return uintptr, which uses a different ABI register class.''),
      (2, ''default:''),
      (3, ''return false''),
      (2, ''}''),
      (1, ''}''),
      (0, ''''),
      (1, ''if numFloats == 0 {''),
      (2, ''return registerFastFunc(fn, cif, cfn, numInts, ptrMask, 0, hasReturn)''),
      (1, ''}''),
      (1, ''if numFloats == 1 && trailingFloats && ty.In(numInts).Kind() == reflect.Float32 {''),
      (2, ''return registerFastFunc(fn, cif, cfn, numInts, ptrMask, 32, hasReturn)''),
      (1, ''}''),
      (1, ''if numFloats == 1 && trailingFloats && ty.In(numInts).Kind() == reflect.Float64 {''),
      (2, ''return registerFastFunc(fn, cif, cfn, numInts, ptrMask, 64, hasReturn)''),
      (1, ''}''),
      (1, ''// The interleaved wrappers take every integer argument as a uintptr, so''),
      (1, ''// they only fit signatures without pointers (see fastWord).''),
      (1, ''if numFloats == 1 && !trailingFloats && ptrMask == 0 && ty.In(floatPos).Kind() == reflect.Float32 {''),
      (2, ''registerFastFuncInterleavedFloat32x1(fn, cif, cfn, numIn, floatPos, hasReturn)''),
      (2, ''return true''),
      (1, ''}''),
      (0, ''''),
      (1, ''return false''),
      (0, ''}'')]\<close>

definition generated_text :: string where
  "generated_text =
     text_of (tmplHeader @ emitWrappers_text @ emitDispatch_text @ emitInterleavedFloat32x1_text @
       tmplTryRegisterFastPath)"

end
