(* ===== verification/GoText.thy ===== *)
theory GoText
  imports Generator
begin

text \<open>
  A reader of the part of Go in which the generator writes: lines, then functions with their nested
  switches, then what each wrapper does. Everything it does not know is rejected with \<open>None\<close>.
\<close>

section \<open>Characters\<close>

fun after :: "string \<Rightarrow> string \<Rightarrow> string option" where
  "after [] s = Some s"
| "after (c # p) (d # s) = (if c = d then after p s else None)"
| "after (c # p) [] = None"

definition is_digit :: "char \<Rightarrow> bool" where
  "is_digit c \<longleftrightarrow> 48 \<le> (of_char c :: nat) \<and> (of_char c :: nat) \<le> 57"

definition digits_value :: "string \<Rightarrow> nat" where
  "digits_value s = foldl (\<lambda>n c. 10 * n + (of_char c - 48)) 0 s"

definition read_nat :: "string \<Rightarrow> (nat \<times> string) option" where
  "read_nat s =
     (case takeWhile is_digit s of [] \<Rightarrow> None | ds \<Rightarrow> Some (digits_value ds, dropWhile is_digit s))"

fun split_on :: "char \<Rightarrow> string \<Rightarrow> string list" where
  "split_on c [] = [[]]"
| "split_on c (d # s) =
     (if d = c then [] # split_on c s
      else case split_on c s of [] \<Rightarrow> [[d]] | x # xs \<Rightarrow> (d # x) # xs)"

text \<open>A list with commas, each followed by a blank.\<close>

definition read_list :: "(string \<Rightarrow> 'a option) \<Rightarrow> string \<Rightarrow> 'a list option" where
  "read_list f s =
     (if s = [] then Some []
      else case split_on CHR '','' s of
        [] \<Rightarrow> None
      | x # xs \<Rightarrow> those (f x # map (\<lambda>y. Option.bind (after '' '' y) f) xs))"

section \<open>Lines\<close>

datatype gvar = A nat | F1

datatype gtype = TypeParam nat | Uintptr | UnsafePointer | Float nat

datatype wrapper_name = Wrapper nat nat bool

datatype go_line =
  Func wrapper_name "nat list"
| FuncDispatch
| FuncInterleaved
| Impl "(gvar \<times> gtype) list" bool
| VarInts
| VarFloats
| SetInt nat gvar
| SetFloat nat nat gvar
| Call
| CallResult
| ReturnCall
| KeepAlive gvar
| ReturnResult
| Install
| Switch string
| Case nat
| IfReturn
| Else
| Instance wrapper_name "gtype list"
| Return bool
| Close

definition read_name :: "string \<Rightarrow> (wrapper_name \<times> string) option" where
  "read_name s =
     Option.bind (after ''fastInts'' s) (\<lambda>s. Option.bind (read_nat s) (\<lambda>(n, s).
     Option.bind (case after ''F'' s of Some s \<Rightarrow> read_nat s | None \<Rightarrow> Some (0, s)) (\<lambda>(bits, s).
       case s of
         [] \<Rightarrow> None
       | c # s \<Rightarrow> if c = CHR ''R'' then Some (Wrapper n bits True, s)
           else if c = CHR ''V'' then Some (Wrapper n bits False, s) else None)))"

definition read_type :: "string \<Rightarrow> gtype option" where
  "read_type s =
     (if s = ''uintptr'' then Some Uintptr
      else if s = ''unsafe.Pointer'' then Some UnsafePointer
      else case after ''float'' s of
        Some s \<Rightarrow> Option.bind (read_nat s) (\<lambda>(n, s). if s = [] then Some (Float n) else None)
      | None \<Rightarrow> Option.bind (after ''A'' s) (\<lambda>s. Option.bind (read_nat s) (\<lambda>(n, s).
          if s = [] then Some (TypeParam n) else None)))"

definition read_var :: "string \<Rightarrow> (gvar \<times> string) option" where
  "read_var s =
     (case after ''f1'' s of
        Some s \<Rightarrow> Some (F1, s)
      | None \<Rightarrow> Option.bind (after ''a'' s) (\<lambda>s. Option.bind (read_nat s) (\<lambda>(n, s). Some (A n, s))))"

definition read_param :: "string \<Rightarrow> (gvar \<times> gtype) option" where
  "read_param s =
     Option.bind (read_var s) (\<lambda>(v, s). Option.bind (after '' '' s) (\<lambda>s.
     Option.bind (read_type s) (\<lambda>t. Some (v, t))))"

text \<open>A list in brackets, which may be missing; \<open>close\<close> ends it.\<close>

definition brackets :: "string \<Rightarrow> string \<times> string" where
  "brackets s =
     (case s of
        c # r \<Rightarrow> if c = CHR ''['' then (takeWhile (\<lambda>c. c \<noteq> CHR '']'') r, drop 1 (dropWhile (\<lambda>c. c \<noteq> CHR '']'') r))
                 else ([], s)
      | [] \<Rightarrow> ([], s))"

definition type_param_list :: "string \<Rightarrow> nat list option" where
  "type_param_list s =
     (if s = [] then Some []
      else case split_on CHR '' '' s of
        ws \<Rightarrow> if last ws = ''fastWord''
          then read_list (\<lambda>s. Option.bind (read_type s) (\<lambda>t. case t of TypeParam n \<Rightarrow> Some n | _ \<Rightarrow> None)) (join '' '' (butlast ws))
          else None)"

definition signature :: string where
  "signature = ''(fn reflect.Value, cif *types.CallInterface, cfn uintptr''"

definition read_func :: "string \<Rightarrow> go_line option" where
  "read_func s =
     (if s = ''registerFastFunc'' @ signature @ '', numInts int, ptrMask uint32, floatBits int, hasReturn bool) bool {''
      then Some FuncDispatch
      else if s = ''registerFastFuncInterleavedFloat32x1'' @ signature @ '', totalArgs, floatPos int, hasReturn bool) {''
      then Some FuncInterleaved
      else Option.bind (read_name s) (\<lambda>(w, s). case brackets s of (ps, s) \<Rightarrow>
        if s = signature @ '') {'' then map_option (Func w) (type_param_list ps) else None))"

definition read_impl_line :: "string \<Rightarrow> go_line option" where
  "read_impl_line s =
     (let ps = takeWhile (\<lambda>c. c \<noteq> CHR '')'') s; rest = dropWhile (\<lambda>c. c \<noteq> CHR '')'') s in
      if rest = '') uintptr {'' then map_option (\<lambda>ps. Impl ps True) (read_list read_param ps)
      else if rest = '') {'' then map_option (\<lambda>ps. Impl ps False) (read_list read_param ps)
      else None)"

text \<open>An assignment to an element of \<open>ints\<close>: a variable, or the conversion of one to \<open>uintptr\<close>.\<close>

definition read_set_int :: "string \<Rightarrow> go_line option" where
  "read_set_int s =
     Option.bind (read_nat s) (\<lambda>(k, s). Option.bind (after ''] = '' s) (\<lambda>s.
       case after ''uintptr('' s of
         Some s \<Rightarrow> Option.bind (read_var s) (\<lambda>(v, s). if s = '')'' then Some (SetInt k v) else None)
       | None \<Rightarrow> Option.bind (read_var s) (\<lambda>(v, s). if s = [] then Some (SetInt k v) else None)))"

definition read_set_float :: "string \<Rightarrow> go_line option" where
  "read_set_float s =
     Option.bind (read_nat s) (\<lambda>(k, s). Option.bind (after ''] = uintptr(math.Float'' s) (\<lambda>s.
     Option.bind (read_nat s) (\<lambda>(bits, s). Option.bind (after ''bits('' s) (\<lambda>s.
     Option.bind (read_var s) (\<lambda>(v, s). if s = ''))'' then Some (SetFloat k bits v) else None)))))"

definition read_keep :: "string \<Rightarrow> go_line option" where
  "read_keep s = Option.bind (read_var s) (\<lambda>(v, s). if s = '')'' then Some (KeepAlive v) else None)"

definition read_switch_line :: "string \<Rightarrow> go_line option" where
  "read_switch_line s =
     (let tag = takeWhile (\<lambda>c. c \<noteq> CHR '' '') s in if dropWhile (\<lambda>c. c \<noteq> CHR '' '') s = '' {'' then Some (Switch tag) else None)"

definition read_case :: "string \<Rightarrow> go_line option" where
  "read_case s = Option.bind (read_nat s) (\<lambda>(n, s). if s = '':'' then Some (Case n) else None)"

definition read_instance :: "string \<Rightarrow> go_line option" where
  "read_instance s =
     Option.bind (read_name s) (\<lambda>(w, s). case brackets s of (ts, s) \<Rightarrow>
       if s = ''(fn, cif, cfn)'' then map_option (Instance w) (read_list read_type ts) else None)"

definition fixed_lines :: "(string \<times> go_line) list" where
  "fixed_lines =
     [(''var ints [15]uintptr'', VarInts),
      (''var floats [8]uintptr'', VarFloats),
      (''fastCallIF(cif, cfn, ints, floats)'', Call),
      (''r := fastCallIF(cif, cfn, ints, floats)'', CallResult),
      (''return fastCallIF(cif, cfn, ints, floats)'', ReturnCall),
      (''return r'', ReturnResult),
      (''return true'', Return True),
      (''return false'', Return False),
      (''forceFuncPtr(fn, &impl)'', Install),
      (''if hasReturn {'', IfReturn),
      (''} else {'', Else),
      (''}'', Close)]"

text \<open>The other lines, by their first words.\<close>

definition line_forms :: "(string \<times> (string \<Rightarrow> go_line option)) list" where
  "line_forms =
     [(''func '', read_func),
      (''impl := func('', read_impl_line),
      (''ints['', read_set_int),
      (''floats['', read_set_float),
      (''runtime.KeepAlive('', read_keep),
      (''switch '', read_switch_line),
      (''case '', read_case)]"

fun first_form :: "(string \<times> (string \<Rightarrow> go_line option)) list \<Rightarrow> string \<Rightarrow> go_line option" where
  "first_form [] s = read_instance s"
| "first_form ((p, f) # fs) s = (case after p s of Some r \<Rightarrow> f r | None \<Rightarrow> first_form fs s)"

definition read_line :: "string \<Rightarrow> go_line option" where
  "read_line s = (case map_of fixed_lines s of Some l \<Rightarrow> Some l | None \<Rightarrow> first_form line_forms s)"

text \<open>Empty lines, comments and the declaration of \<open>fastWord\<close> have no code.\<close>

definition no_code :: "string \<Rightarrow> bool" where
  "no_code s \<longleftrightarrow> s = [] \<or> after ''//'' s \<noteq> None \<or> s = ''type fastWord interface{ uintptr | unsafe.Pointer }''"

definition read_lines :: "string \<Rightarrow> go_line list option" where
  "read_lines t = those (map read_line
     (filter (\<lambda>s. \<not> no_code s) (map (dropWhile (\<lambda>c. c = tab)) (split_on newline t))))"

section \<open>Wrappers\<close>

text \<open>
  The body of a function literal, run line by line: what it stores in the two arrays, and what it keeps
  alive. The arrays are declared before they are filled, and filled before the call.
\<close>

datatype phase = Start | Ints | Floats | Called | CalledResult | Returned

record body =
  phase :: phase
  set_ints :: "(nat \<times> gvar) list"
  set_floats :: "(nat \<times> nat \<times> gvar) list"
  kept_vars :: "gvar list"

definition no_body :: body where
  "no_body = \<lparr>phase = Start, set_ints = [], set_floats = [], kept_vars = []\<rparr>"

fun body_step :: "body \<Rightarrow> go_line \<Rightarrow> body option" where
  "body_step b VarInts = (if phase b = Start then Some (b\<lparr>phase := Ints\<rparr>) else None)"
| "body_step b (SetInt k v) = (if phase b = Ints then Some (b\<lparr>set_ints := set_ints b @ [(k, v)]\<rparr>) else None)"
| "body_step b VarFloats = (if phase b = Ints then Some (b\<lparr>phase := Floats\<rparr>) else None)"
| "body_step b (SetFloat k n v) =
     (if phase b = Floats then Some (b\<lparr>set_floats := set_floats b @ [(k, n, v)]\<rparr>) else None)"
| "body_step b Call = (if phase b = Floats then Some (b\<lparr>phase := Called\<rparr>) else None)"
| "body_step b CallResult = (if phase b = Floats then Some (b\<lparr>phase := CalledResult\<rparr>) else None)"
| "body_step b ReturnCall = (if phase b = Floats then Some (b\<lparr>phase := Returned\<rparr>) else None)"
| "body_step b (KeepAlive v) =
     (if phase b \<in> {Called, CalledResult} then Some (b\<lparr>kept_vars := kept_vars b @ [v]\<rparr>) else None)"
| "body_step b ReturnResult = (if phase b = CalledResult then Some (b\<lparr>phase := Returned\<rparr>) else None)"
| "body_step b _ = None"

fun body_steps :: "body \<Rightarrow> go_line list \<Rightarrow> body option" where
  "body_steps b [] = Some b"
| "body_steps b (l # ls) = Option.bind (body_step b l) (\<lambda>b. body_steps b ls)"

fun pos :: "gvar \<Rightarrow> gvar list \<Rightarrow> nat option" where
  "pos v [] = None"
| "pos v (w # ws) = (if v = w then Some 0 else map_option Suc (pos v ws))"

fun slot :: "fparam list \<Rightarrow> gtype \<Rightarrow> fparam option" where
  "slot As (TypeParam i) = (if 1 \<le> i \<and> i \<le> length As then Some (As ! (i - 1)) else None)"
| "slot As Uintptr = Some PWord"
| "slot As UnsafePointer = Some PPtr"
| "slot As (Float n) = (if n = 32 then Some PF32 else if n = 64 then Some PF64 else None)"

text \<open>\<open>math.Float32bits\<close> of a \<open>float32\<close>, \<open>math.Float64bits\<close> of a \<open>float64\<close>.\<close>

definition float_bits :: "nat \<Rightarrow> fval \<Rightarrow> uintptr" where
  "float_bits n v = (if n = 32 then ucast (Float32bits v) else Float64bits v)"

definition impl_of :: "fparam list \<Rightarrow> (gvar \<times> gtype) list \<Rightarrow> bool \<Rightarrow> go_line list \<Rightarrow> fast_impl option" where
  "impl_of As ps ret ls =
     Option.bind (body_steps no_body ls) (\<lambda>b.
     Option.bind (those (map (\<lambda>(v, t). slot As t) ps)) (\<lambda>types.
     Option.bind (those (map (\<lambda>(k, v). map_option (Pair k) (pos v (map fst ps))) (set_ints b))) (\<lambda>is.
     Option.bind (those (map (\<lambda>(k, n, v). map_option (\<lambda>i. (k, n, i)) (pos v (map fst ps))) (set_floats b))) (\<lambda>fs.
     Option.bind (those (map (\<lambda>v. pos v (map fst ps)) (kept_vars b))) (\<lambda>keep.
       if phase b = (if ret then Returned else Called)
       then Some \<lparr>impl_params = types, impl_result = ret,
         impl_ints = (\<lambda>a. foldl (\<lambda>ints (k, i). ints[k := conv_uintptr (a ! i)]) zeros15 is),
         impl_floats = (\<lambda>a. foldl (\<lambda>floats (k, n, i). floats[k := float_bits n (a ! i)]) zeros8 fs),
         impl_keep = keep\<rparr>
       else None)))))"

text \<open>Reading a given line, or what one line says.\<close>

fun expect :: "go_line \<Rightarrow> go_line list \<Rightarrow> go_line list option" where
  "expect l [] = None"
| "expect l (k # ls) = (if k = l then Some ls else None)"

fun expects :: "go_line list \<Rightarrow> go_line list \<Rightarrow> go_line list option" where
  "expects [] ls = Some ls"
| "expects (k # ks) ls = Option.bind (expect k ls) (expects ks)"

text \<open>A function literal and its installation, with what follows.\<close>

fun read_impl :: "go_line list \<Rightarrow> ((fparam list \<Rightarrow> fast_impl option) \<times> go_line list) option" where
  "read_impl (Impl ps ret # ls) =
     map_option (Pair (\<lambda>As. impl_of As ps ret (takeWhile (\<lambda>l. l \<noteq> Close) ls)))
       (expects [Close, Install] (dropWhile (\<lambda>l. l \<noteq> Close) ls))"
| "read_impl _ = None"

text \<open>A wrapper function can be instantiated with as many types as it has type parameters.\<close>

type_synonym wrappers = "(wrapper_name \<times> (fparam list \<Rightarrow> fast_impl option)) list"

fun read_wrappers :: "nat \<Rightarrow> go_line list \<Rightarrow> (wrappers \<times> go_line list) option" where
  "read_wrappers (Suc fuel) (Func w ps # ls) =
     (if ps \<noteq> [1..<length ps + 1] then None
      else Option.bind (read_impl ls) (\<lambda>(f, ls).
        Option.bind (expect Close ls) (\<lambda>ls.
        map_option (\<lambda>(ws, ls). ((w, \<lambda>As. if length As = length ps then f As else None) # ws, ls))
          (read_wrappers fuel ls))))"
| "read_wrappers _ ls = Some ([], ls)"

section \<open>Switches\<close>

fun read_cases :: "nat \<Rightarrow> (go_line list \<Rightarrow> ('a \<times> go_line list) option) \<Rightarrow> go_line list \<Rightarrow> ((nat \<times> 'a) list \<times> go_line list) option" where
  "read_cases (Suc fuel) p (Case i # ls) =
     Option.bind (p ls) (\<lambda>(x, ls). map_option (\<lambda>(xs, ls). ((i, x) # xs, ls)) (read_cases fuel p ls))"
| "read_cases fuel p ls = map_option (Pair []) (expect Close ls)"

definition read_switch :: "string \<Rightarrow> (go_line list \<Rightarrow> ('a \<times> go_line list) option) \<Rightarrow> go_line list \<Rightarrow> ((nat \<times> 'a) list \<times> go_line list) option" where
  "read_switch tag p ls = Option.bind (expect (Switch tag) ls) (\<lambda>ls. read_cases (length ls) p ls)"

text \<open>The two branches of \<open>if hasReturn\<close>.\<close>

type_synonym wrapper_instance = "wrapper_name \<times> gtype list"

fun read_instance_line :: "go_line list \<Rightarrow> (wrapper_instance \<times> go_line list) option" where
  "read_instance_line (Instance w ts # ls) = Some ((w, ts), ls)"
| "read_instance_line _ = None"

definition read_instances :: "go_line list \<Rightarrow> ((wrapper_instance \<times> wrapper_instance) \<times> go_line list) option" where
  "read_instances ls =
     Option.bind (expect IfReturn ls) (\<lambda>ls. Option.bind (read_instance_line ls) (\<lambda>(v, ls).
     Option.bind (expect Else ls) (\<lambda>ls. Option.bind (read_instance_line ls) (\<lambda>(w, ls).
     map_option (Pair (v, w)) (expects [Close, Return True] ls)))))"

definition read_impls :: "go_line list \<Rightarrow> ((fast_impl option \<times> fast_impl option) \<times> go_line list) option" where
  "read_impls ls =
     Option.bind (expect IfReturn ls) (\<lambda>ls. Option.bind (read_impl ls) (\<lambda>(f, ls).
     Option.bind (expect Else ls) (\<lambda>ls. Option.bind (read_impl ls) (\<lambda>(g, ls).
     map_option (Pair (f [], g [])) (expect Close ls)))))"

section \<open>The two dispatch functions\<close>

type_synonym dispatch_table =
  "(nat \<times> (nat \<times> (nat \<times> (wrapper_instance \<times> wrapper_instance)) list) list) list"

type_synonym interleaved_table = "(nat \<times> (nat \<times> (fast_impl option \<times> fast_impl option)) list) list"

definition instantiate :: "wrappers \<Rightarrow> wrapper_instance \<Rightarrow> fast_impl option" where
  "instantiate ws = (\<lambda>(w, ts). Option.bind (map_of ws w) (\<lambda>f. Option.bind (those (map (slot []) ts)) f))"

definition run_dispatch :: "wrappers \<Rightarrow> dispatch_table \<Rightarrow> nat \<Rightarrow> u32 \<Rightarrow> nat \<Rightarrow> bool \<Rightarrow> fast_impl option" where
  "run_dispatch ws table numInts ptrMask floatBits hasReturn =
     Option.bind (map_of table floatBits) (\<lambda>counts.
     Option.bind (map_of counts numInts) (\<lambda>masks.
     Option.bind (map_of masks (unat ptrMask)) (\<lambda>(r, v).
       instantiate ws (if hasReturn then r else v))))"

definition run_interleaved :: "interleaved_table \<Rightarrow> nat \<Rightarrow> nat \<Rightarrow> bool \<Rightarrow> fast_impl option" where
  "run_interleaved table totalArgs floatPos hasReturn =
     Option.bind (map_of table totalArgs) (\<lambda>cases.
     Option.bind (map_of cases floatPos) (\<lambda>(r, v). if hasReturn then r else v))"

definition read_dispatch :: "go_line list \<Rightarrow> (dispatch_table \<times> go_line list) option" where
  "read_dispatch ls =
     Option.bind (expect FuncDispatch ls) (\<lambda>ls.
     Option.bind (read_switch ''floatBits'' (read_switch ''numInts'' (read_switch ''ptrMask'' read_instances)) ls)
       (\<lambda>(table, ls). map_option (Pair table) (expects [Return False, Close] ls)))"

definition read_interleaved :: "go_line list \<Rightarrow> (interleaved_table \<times> go_line list) option" where
  "read_interleaved ls =
     Option.bind (expect FuncInterleaved ls) (\<lambda>ls.
     Option.bind (read_switch ''totalArgs'' (read_switch ''floatPos'' read_impls) ls)
       (\<lambda>(table, ls). map_option (Pair table) (expect Close ls)))"

text \<open>The three generated parts of the file.\<close>

definition read_file ::
  "string \<Rightarrow> ((nat \<Rightarrow> u32 \<Rightarrow> nat \<Rightarrow> bool \<Rightarrow> fast_impl option) \<times> (nat \<Rightarrow> nat \<Rightarrow> bool \<Rightarrow> fast_impl option)) option" where
  "read_file t =
     Option.bind (read_lines t) (\<lambda>ls.
     Option.bind (read_wrappers (length ls) ls) (\<lambda>(ws, ls).
     Option.bind (read_dispatch ls) (\<lambda>(table, ls).
     Option.bind (read_interleaved ls) (\<lambda>(inter, ls).
       if ls = [] then Some (run_dispatch ws table, run_interleaved inter) else None))))"

end
