(* ===== verification/GeneratorText.thy ===== *)
theory GeneratorText
  imports GoText
begin

text \<open>
  Reading what the generator writes: the text of \<^verbatim>\<open>genfastfunc.go\<close> means the tables that the theories
  \<open>FastDispatch\<close> and \<open>FastInterleaved\<close> translate from \<^verbatim>\<open>zz_fast_func.go\<close>.
\<close>

section \<open>Characters and numbers\<close>

declare decimal.simps [simp del]

lemma newline_eq: "newline = CHR 0x0A"
  by code_simp

lemma tab_eq: "tab = CHR 0x09"
  by code_simp

lemma after_append [simp]: "after p (p @ s) = Some s"
  by (induction p) auto

lemma char_digit: "k < 10 \<Longrightarrow> of_char (char_of (48 + k :: nat)) = 48 + k"
  by (simp add: of_char_of)

lemma is_digit_char: "k < 10 \<Longrightarrow> is_digit (char_of (48 + k :: nat))"
  by (simp add: is_digit_def char_digit)

lemma decimal_ne [simp]: "decimal n \<noteq> []"
  by (subst decimal.simps) simp

lemma decimal_digits: "list_all is_digit (decimal n)"
proof (induction n rule: decimal.induct)
  case (1 n)
  then show ?case
    by (subst decimal.simps) (auto simp: is_digit_char)
qed

lemma digits_value_snoc: "digits_value (s @ [c]) = 10 * digits_value s + (of_char c - 48)"
  by (simp add: digits_value_def)

lemma digits_value_decimal [simp]: "digits_value (decimal n) = n"
proof (induction n rule: decimal.induct)
  case (1 n)
  then show ?case
    by (subst decimal.simps) (auto simp: digits_value_snoc char_digit, simp add: digits_value_def char_digit)
qed

lemma read_nat_decimal:
  assumes "s = [] \<or> \<not> is_digit (hd s)"
  shows "read_nat (decimal n @ s) = Some (n, s)"
proof -
  have "takeWhile is_digit s = []" "dropWhile is_digit s = s"
    using assms by (cases s; simp)+
  then have "takeWhile is_digit (decimal n @ s) = decimal n" "dropWhile is_digit (decimal n @ s) = s"
    using decimal_digits [of n] by (simp_all add: list_all_iff takeWhile_append2 dropWhile_append2)
  moreover obtain c cs where "decimal n = c # cs"
    by (meson decimal_ne list.exhaust)
  moreover from this have "digits_value (c # cs) = n"
    using digits_value_decimal [of n] by simp
  ultimately show ?thesis
    unfolding read_nat_def by simp
qed

lemma read_nat_end [simp]: "read_nat (decimal n) = Some (n, [])"
  using read_nat_decimal [of "[]" n] by simp

text \<open>A character that is not a digit is in no number.\<close>

lemma decimal_chars: "\<not> is_digit c \<Longrightarrow> c \<notin> set (decimal n)"
  using decimal_digits [of n] by (auto simp: list_all_iff)

section \<open>Lists with commas\<close>

lemma split_on_no [simp]: "c \<notin> set s \<Longrightarrow> split_on c s = [s]"
  by (induction s) auto

lemma split_on_ne [simp]: "split_on c s \<noteq> []"
  by (cases s) (auto split: list.split)

lemma split_on_at [simp]: "c \<notin> set s \<Longrightarrow> split_on c (s @ c # t) = s # split_on c t"
  by (induction s) auto

lemma join_Cons: "join sep (x # xs) = (if xs = [] then x else x @ sep @ join sep xs)"
  by (cases xs) auto

lemma split_on_join:
  assumes "\<forall>x \<in> set (x # xs). CHR '','' \<notin> set x" and "CHR '','' \<notin> set y"
  shows "split_on CHR '','' (y @ join '', '' (x # xs)) = (y @ x) # map ((#) CHR '' '') xs"
  using assms
proof (induction xs arbitrary: x y)
  case (Cons z zs)
  have "split_on CHR '','' (y @ join '', '' (x # z # zs)) = (y @ x) # split_on CHR '','' ('' '' @ join '', '' (z # zs))"
    using Cons.prems split_on_at [of "CHR '',''" "y @ x" "'' '' @ join '', '' (z # zs)"] by simp
  also have "split_on CHR '','' ('' '' @ join '', '' (z # zs)) = ('' '' @ z) # map ((#) CHR '' '') zs"
    using Cons.prems by (intro Cons.IH) auto
  finally show ?case
    by simp
qed simp

lemma those_map: "(\<forall>x \<in> set xs. f x = Some (g x)) \<Longrightarrow> those (map f xs) = Some (map g xs)"
  by (induction xs) auto

lemma read_list_join:
  assumes "\<forall>x \<in> set xs. CHR '','' \<notin> set (t x) \<and> t x \<noteq> [] \<and> f (t x) = Some (g x)"
  shows "read_list f (join '', '' (map t xs)) = Some (map g xs)"
proof (cases xs)
  case (Cons y ys)
  have "join '', '' (map t xs) \<noteq> []"
    using assms by (simp add: Cons join_Cons)
  moreover have "split_on CHR '','' (join '', '' (map t xs)) = t y # map ((#) CHR '' '') (map t ys)"
    using split_on_join [of "t y" "map t ys" "[]"] assms by (simp add: Cons)
  moreover have "those (map ((\<lambda>y. Option.bind (after '' '' y) f) \<circ> ((#) CHR '' '' \<circ> t)) ys) = Some (map g ys)"
    using assms by (intro those_map) (simp add: Cons)
  ultimately show ?thesis
    using assms by (simp add: read_list_def Cons)
qed (simp add: read_list_def)

section \<open>The lines the generator writes\<close>

lemma digit_literals [simp]:
  "\<not> is_digit CHR ''a''" "\<not> is_digit CHR '']''" "\<not> is_digit CHR '')''" "\<not> is_digit CHR '':''" "\<not> is_digit CHR '' ''"
  "\<not> is_digit CHR '',''" "\<not> is_digit CHR ''F''" "\<not> is_digit CHR ''R''" "\<not> is_digit CHR ''V''" "\<not> is_digit CHR ''b''"
  "is_digit CHR ''0''"
  by code_simp+

lemma digit_controls [simp]: "\<not> is_digit newline" "\<not> is_digit tab"
  by code_simp+

lemma fixed_lines_read [simp]:
  "read_line ''var ints [15]uintptr'' = Some VarInts"
  "read_line ''var floats [8]uintptr'' = Some VarFloats"
  "read_line ''floats[0] = uintptr(math.Float32bits(f1))'' = Some (SetFloat 0 32 F1)"
  "read_line ''fastCallIF(cif, cfn, ints, floats)'' = Some Call"
  "read_line ''r := fastCallIF(cif, cfn, ints, floats)'' = Some CallResult"
  "read_line ''return fastCallIF(cif, cfn, ints, floats)'' = Some ReturnCall"
  "read_line ''return r'' = Some ReturnResult"
  "read_line ''return true'' = Some (Return True)"
  "read_line ''return false'' = Some (Return False)"
  "read_line ''forceFuncPtr(fn, &impl)'' = Some Install"
  "read_line ''if hasReturn {'' = Some IfReturn"
  "read_line ''} else {'' = Some Else"
  "read_line ''}'' = Some Close"
  "read_line ''switch floatBits {'' = Some (Switch ''floatBits'')"
  "read_line ''switch numInts {'' = Some (Switch ''numInts'')"
  "read_line ''switch ptrMask {'' = Some (Switch ''ptrMask'')"
  "read_line ''switch totalArgs {'' = Some (Switch ''totalArgs'')"
  "read_line ''switch floatPos {'' = Some (Switch ''floatPos'')"
  by code_simp+

lemma dispatch_line:
  "read_line (''func registerFastFunc(fn reflect.Value, cif *types.CallInterface, cfn uintptr, '' @
     ''numInts int, ptrMask uint32, floatBits int, hasReturn bool) bool {'') = Some FuncDispatch"
  by code_simp

lemma interleaved_line:
  "read_line (''func registerFastFuncInterleavedFloat32x1(fn reflect.Value, cif *types.CallInterface, cfn uintptr, '' @
     ''totalArgs, floatPos int, hasReturn bool) {'') = Some FuncInterleaved"
  by code_simp

lemma read_line_form:
  assumes "map_of fixed_lines (p @ s) = None" "first_form line_forms (p @ s) = f s"
  shows "read_line (p @ s) = f s"
  using assms by (simp add: read_line_def)

lemma case_line: "read_line (''case '' @ decimal n @ '':'') = Some (Case n)"
  by (simp add: read_line_def fixed_lines_def line_forms_def read_case_def read_nat_decimal)

lemma keep_line: "read_line (''runtime.KeepAlive(a'' @ decimal i @ '')'') = Some (KeepAlive (A i))"
  by (simp add: read_line_def fixed_lines_def line_forms_def read_keep_def read_var_def read_nat_decimal)

lemma int_line: "read_line (''ints['' @ decimal k @ ''] = a'' @ decimal i) = Some (SetInt k (A i))"
  by (simp add: read_line_def fixed_lines_def line_forms_def read_set_int_def read_var_def read_nat_decimal)

lemma int_conversion_line:
  "read_line (''ints['' @ decimal k @ ''] = uintptr(a'' @ decimal i @ '')'') = Some (SetInt k (A i))"
  by (simp add: read_line_def fixed_lines_def line_forms_def read_set_int_def read_var_def read_nat_decimal)

lemma float_line:
  "read_line (''floats[0] = uintptr(math.Float'' @ decimal bits @ ''bits(f1))'') = Some (SetFloat 0 bits F1)"
proof -
  have "read_nat (CHR ''0'' # CHR '']'' # s) = Some (0, CHR '']'' # s)" for s
    by (simp add: read_nat_def digits_value_def)
  then show ?thesis
    by (simp add: read_line_def fixed_lines_def line_forms_def read_set_float_def read_var_def read_nat_decimal)
qed

text \<open>Names and types.\<close>

lemma after_F: "after ''F'' s = (case s of [] \<Rightarrow> None | c # r \<Rightarrow> if c = CHR ''F'' then Some r else None)"
  by (cases s) auto

lemma read_name [simp]: "read_name (wrapperName n bits ret @ s) = Some (Wrapper n bits ret, s)"
proof (cases "bits = 0")
  case True
  then show ?thesis
    by (cases ret) (simp_all add: read_name_def wrapperName_def read_nat_decimal)
next
  case False
  then show ?thesis
    by (cases ret) (simp_all add: read_name_def wrapperName_def read_nat_decimal)
qed

lemma read_type_texts [simp]:
  "read_type (CHR ''A'' # decimal n) = Some (TypeParam n)"
  "read_type ''uintptr'' = Some Uintptr"
  "read_type ''unsafe.Pointer'' = Some UnsafePointer"
  "read_type (CHR ''f'' # CHR ''l'' # CHR ''o'' # CHR ''a'' # CHR ''t'' # decimal n) = Some (Float n)"
  by (simp_all add: read_type_def)

lemma split_at:
  assumes "c \<notin> set s"
  shows "takeWhile (\<lambda>x. x \<noteq> c) (s @ c # r) = s" "dropWhile (\<lambda>x. x \<noteq> c) (s @ c # r) = c # r"
  using assms by (induction s) auto

lemma brackets_list [simp]: "CHR '']'' \<notin> set s \<Longrightarrow> brackets (CHR ''['' # s @ CHR '']'' # r) = (s, r)"
  by (simp add: brackets_def split_at)

lemma in_join: "c \<in> set (join sep xs) \<Longrightarrow> c \<in> set sep \<or> (\<exists>x \<in> set xs. c \<in> set x)"
  by (induction xs) (auto simp: join_Cons split: if_splits)

lemma wrapperName_starts: "\<exists>r. wrapperName n bits ret = ''fastInts'' @ r"
  by (simp add: wrapperName_def)

lemma split_on_last: "c \<notin> set t \<Longrightarrow> split_on c (s @ c # t) = split_on c s @ [t]"
  by (induction s) (auto split: list.split)

lemma join_split_on [simp]: "join [c] (split_on c s) = s"
  by (induction s) (auto simp: join_Cons split: list.split)

definition instance_type :: "nat \<Rightarrow> nat \<Rightarrow> gtype" where
  "instance_type m i = (if bit m i then UnsafePointer else Uintptr)"

lemma type_param_list_read:
  "type_param_list (join '', '' (map (\<lambda>i. ''A'' @ decimal i) xs) @ '' fastWord'') = Some xs"
proof -
  let ?s = "join '', '' (map (\<lambda>i. ''A'' @ decimal i) xs)"
  let ?f = "\<lambda>s. Option.bind (read_type s) (\<lambda>t. case t of TypeParam n \<Rightarrow> Some n | _ \<Rightarrow> None)"
  have "read_list ?f ?s = Some (map (\<lambda>i. i) xs)"
    by (rule read_list_join) (simp add: decimal_chars)
  then show ?thesis
    using split_on_last [of "CHR '' ''" "''fastWord''" ?s] by (simp add: type_param_list_def)
qed

lemma func_line:
  "read_line (''func '' @ wrapperName n bits ret @ type_params n @
     ''(fn reflect.Value, cif *types.CallInterface, cfn uintptr) {'') = Some (Func (Wrapper n bits ret) [1..<n + 1])"
proof -
  obtain r where w: "wrapperName n bits ret = ''fastInts'' @ r"
    using wrapperName_starts by blast
  let ?s = "type_params n @ ''(fn reflect.Value, cif *types.CallInterface, cfn uintptr) {''"
  have "read_line (''func '' @ wrapperName n bits ret @ ?s) = read_func (wrapperName n bits ret @ ?s)"
    by (simp add: read_line_def fixed_lines_def line_forms_def)
  also have "\<dots> = Option.bind (read_name (wrapperName n bits ret @ ?s)) (\<lambda>(w, s). case brackets s of (ps, s) \<Rightarrow>
        if s = signature @ '') {'' then map_option (Func w) (type_param_list ps) else None)"
    by (simp add: read_func_def w)
  also have "\<dots> = Some (Func (Wrapper n bits ret) [1..<n + 1])"
  proof (cases "n = 0")
    case True
    then show ?thesis
      by (simp add: type_params_def brackets_def signature_def type_param_list_def)
  next
    case False
    let ?ps = "join '', '' (map (\<lambda>i. ''A'' @ decimal i) [1..<n + 1]) @ '' fastWord''"
    have "CHR '']'' \<notin> set ?ps"
      by (auto dest!: in_join simp: decimal_chars)
    then have "brackets ?s = (?ps, ''(fn reflect.Value, cif *types.CallInterface, cfn uintptr) {'')"
      using False brackets_list [of ?ps] by (simp add: type_params_def)
    then show ?thesis
      using type_param_list_read [of "[1..<n + 1]"] by (simp add: signature_def)
  qed
  finally show ?thesis .
qed

lemma instance_line:
  "read_line (wrapperName n bits ret @ instance_text n m @ ''(fn, cif, cfn)'') =
     Some (Instance (Wrapper n bits ret) (map (instance_type m) [0..<n]))"
proof -
  obtain r where w: "wrapperName n bits ret = ''fastInts'' @ r"
    using wrapperName_starts by blast
  let ?s = "instance_text n m @ ''(fn, cif, cfn)''"
  have "read_line (wrapperName n bits ret @ ?s) = read_instance (wrapperName n bits ret @ ?s)"
    by (simp add: w read_line_def fixed_lines_def line_forms_def)
  also have "\<dots> = Some (Instance (Wrapper n bits ret) (map (instance_type m) [0..<n]))"
  proof (cases "n = 0")
    case True
    then show ?thesis
      by (simp add: read_instance_def instance_text_def brackets_def read_list_def)
  next
    case False
    let ?t = "\<lambda>i. if bit m i then ''unsafe.Pointer'' else ''uintptr''"
    let ?ts = "join '', '' (map ?t [0..<n])"
    have "CHR '']'' \<notin> set ?ts"
      by (auto dest!: in_join split: if_splits)
    then have "brackets ?s = (?ts, ''(fn, cif, cfn)'')"
      using False brackets_list [of ?ts] by (simp add: instance_text_def)
    moreover have "read_list read_type ?ts = Some (map (instance_type m) [0..<n])"
      by (rule read_list_join) (simp add: instance_type_def)
    ultimately show ?thesis
      by (simp add: read_instance_def)
  qed
  finally show ?thesis .
qed

lemmas line_reads [simp] = case_line [unfolded append_Cons append_Nil] keep_line [unfolded append_Cons append_Nil]
  int_line [unfolded append_Cons append_Nil] int_conversion_line [unfolded append_Cons append_Nil]
  float_line [unfolded append_Cons append_Nil] dispatch_line [unfolded append_Cons append_Nil]
  interleaved_line [unfolded append_Cons append_Nil] func_line [unfolded append_Cons append_Nil]
  instance_line [unfolded append_Cons append_Nil]

text \<open>The line of a function literal, for parameters that read as they should.\<close>

definition good_param :: "string \<Rightarrow> gvar \<times> gtype \<Rightarrow> bool" where
  "good_param s p \<longleftrightarrow> CHR '','' \<notin> set s \<and> CHR '')'' \<notin> set s \<and> s \<noteq> [] \<and> read_param s = Some p"

lemma impl_line_read:
  assumes "\<forall>x \<in> set xs. good_param (t x) (g x)"
  shows "read_line (impl_line (map t xs) ret) = Some (Impl (map g xs) ret)"
proof -
  let ?ps = "join '', '' (map t xs)"
  have "CHR '')'' \<notin> set ?ps"
    using assms by (auto dest!: in_join simp: good_param_def)
  note split = split_at [OF this]
  have "read_list read_param ?ps = Some (map g xs)"
    using assms by (intro read_list_join) (simp add: good_param_def)
  then show ?thesis
    by (cases ret) (simp_all add: read_line_def fixed_lines_def line_forms_def impl_line_def read_impl_line_def Let_def split)
qed

section \<open>Reading a text line by line\<close>

definition plain :: "string \<Rightarrow> bool" where
  "plain s \<longleftrightarrow> newline \<notin> set s \<and> (s = [] \<or> hd s \<noteq> tab)"

definition reads :: "gen_line list \<Rightarrow> go_line list \<Rightarrow> bool" where
  "reads ls ts \<longleftrightarrow> (\<forall>(k, s) \<in> set ls. plain s) \<and>
     those (map read_line (filter (\<lambda>s. \<not> no_code s) (map snd ls))) = Some ts"

lemma split_on_text:
  "(\<forall>(k, s) \<in> set ls. plain s) \<Longrightarrow>
     split_on newline (text_of ls) = map (\<lambda>(k, s). replicate k tab @ s) ls @ [[]]"
proof (induction ls)
  case (Cons l ls)
  obtain k t where l: "l = (k, t)"
    by (cases l)
  have "tab \<noteq> newline"
    by (simp add: tab_eq newline_eq)
  then have "newline \<notin> set (replicate k tab @ t)"
    using Cons.prems by (auto simp: l plain_def)
  then have "split_on newline ((replicate k tab @ t) @ newline # text_of ls) =
      (replicate k tab @ t) # split_on newline (text_of ls)"
    by (rule split_on_at)
  then show ?case
    using Cons by (simp add: l text_of_def)
qed (simp add: text_of_def)

lemma strip_tabs: "s = [] \<or> hd s \<noteq> tab \<Longrightarrow> dropWhile (\<lambda>c. c = tab) (replicate k tab @ s) = s"
  by (induction k) (cases s; simp)+

lemma reads_text:
  assumes "reads ls ts"
  shows "read_lines (text_of ls) = Some ts"
proof -
  have plain: "\<forall>(k, s) \<in> set ls. plain s"
    using assms by (simp add: reads_def)
  then have "dropWhile (\<lambda>c. c = tab) (replicate k tab @ s) = s" if "(k, s) \<in> set ls" for k s
    using that by (intro strip_tabs) (auto simp: plain_def)
  then have strip: "map (dropWhile (\<lambda>c. c = tab)) (map (\<lambda>(k, s). replicate k tab @ s) ls @ [[]]) = map snd ls @ [[]]"
    by auto
  have "filter (\<lambda>s. \<not> no_code s) (map snd ls @ [[]]) = filter (\<lambda>s. \<not> no_code s) (map snd ls)"
    by (simp add: no_code_def)
  then show ?thesis
    using assms unfolding read_lines_def split_on_text [OF plain] strip reads_def by simp
qed

lemma after_Some: "after p s = Some r \<Longrightarrow> s = p @ r"
  by (induction p s rule: after.induct) (auto split: if_splits)

lemma read_line_no_code:
  assumes "no_code s"
  shows "read_line s = None"
proof -
  have "read_line (''//'' @ r) = None" for r
    by (simp add: read_line_def fixed_lines_def line_forms_def read_instance_def read_name_def)
  moreover have "read_line [] = None" "read_line ''type fastWord interface{ uintptr | unsafe.Pointer }'' = None"
    by code_simp+
  ultimately show ?thesis
    using assms after_Some [of "''//''" s] by (auto simp: no_code_def)
qed

lemma reads_Nil: "reads [] []"
  by (simp add: reads_def)

lemma reads_code: "read_line s = Some t \<Longrightarrow> plain s \<Longrightarrow> reads ls ts \<Longrightarrow> reads ((k, s) # ls) (t # ts)"
  using read_line_no_code [of s] by (auto simp: reads_def)

lemma reads_comment: "no_code s \<Longrightarrow> plain s \<Longrightarrow> reads ls ts \<Longrightarrow> reads ((k, s) # ls) ts"
  by (simp add: reads_def)

lemma those_append: "those xs = Some ys \<Longrightarrow> those zs = Some ws \<Longrightarrow> those (xs @ zs) = Some (ys @ ws)"
  by (induction xs arbitrary: ys) (auto split: option.splits)

lemma reads_append: "reads ls ts \<Longrightarrow> reads ks us \<Longrightarrow> reads (ls @ ks) (ts @ us)"
  by (auto simp: reads_def intro: those_append)

lemma reads_concat: "(\<And>x. x \<in> set xs \<Longrightarrow> reads (f x) (g x)) \<Longrightarrow> reads (concat (map f xs)) (concat (map g xs))"
  by (induction xs) (auto intro: reads_append reads_Nil)

lemma reads_map:
  assumes "\<And>x. x \<in> set xs \<Longrightarrow> read_line (f x) = Some (g x) \<and> plain (f x)"
  shows "reads (map (\<lambda>x. (k, f x)) xs) (map g xs)"
  using assms by (induction xs) (auto intro: reads_code reads_Nil)

lemmas reads_rules = reads_Nil reads_code reads_comment reads_append reads_map

lemma no_controls [simp]: "CHR 0x0A \<notin> set (decimal n)" "CHR 0x09 \<notin> set (decimal n)"
  using digit_controls by (auto simp: newline_eq tab_eq dest: decimal_chars)

lemma hd_decimal: "hd (decimal n @ s) \<noteq> CHR 0x09"
  by (cases "decimal n") (use no_controls(2) [of n] in auto)

lemmas plain_simps = plain_def newline_eq tab_eq wrapperName_def type_params_def instance_text_def impl_line_def

lemma plain_starts:
  "plain (CHR ''i'' # s) \<longleftrightarrow> CHR 0x0A \<notin> set s" "plain (CHR ''f'' # s) \<longleftrightarrow> CHR 0x0A \<notin> set s"
  "plain (CHR ''r'' # s) \<longleftrightarrow> CHR 0x0A \<notin> set s" "plain (CHR ''v'' # s) \<longleftrightarrow> CHR 0x0A \<notin> set s"
  "plain (CHR ''}'' # s) \<longleftrightarrow> CHR 0x0A \<notin> set s" "plain (CHR ''s'' # s) \<longleftrightarrow> CHR 0x0A \<notin> set s"
  "plain (CHR ''c'' # s) \<longleftrightarrow> CHR 0x0A \<notin> set s" "plain (CHR ''t'' # s) \<longleftrightarrow> CHR 0x0A \<notin> set s"
  "plain (CHR ''/'' # s) \<longleftrightarrow> CHR 0x0A \<notin> set s" "plain []"
  by (simp_all add: plain_simps)

lemma plain_join: "CHR 0x0A \<notin> set (join '', '' xs) \<longleftrightarrow> (\<forall>x \<in> set xs. CHR 0x0A \<notin> set x)"
  by (induction xs) (auto simp: join_Cons)

section \<open>What the generator writes, as lines of Go\<close>

definition wrapper_vars :: "nat \<Rightarrow> nat \<Rightarrow> (gvar \<times> gtype) list" where
  "wrapper_vars n bits =
     map (\<lambda>i. (A i, TypeParam i)) [1..<n + 1] @ (if bits \<noteq> 0 then [(F1, Float bits)] else [])"

definition wrapper_body :: "nat \<Rightarrow> nat \<Rightarrow> bool \<Rightarrow> go_line list" where
  "wrapper_body n bits ret =
     [VarInts] @ map (\<lambda>i. SetInt (i - 1) (A i)) [1..<n + 1] @ [VarFloats] @
     (if bits \<noteq> 0 then [SetFloat 0 bits F1] else []) @ [if ret then CallResult else Call] @
     map (\<lambda>i. KeepAlive (A i)) [1..<n + 1] @ (if ret then [ReturnResult] else [])"

definition wrapper_lines :: "nat \<Rightarrow> nat \<Rightarrow> bool \<Rightarrow> go_line list" where
  "wrapper_lines n bits ret =
     [Func (Wrapper n bits ret) [1..<n + 1], Impl (wrapper_vars n bits) ret] @ wrapper_body n bits ret @
     [Close, Install, Close]"

fun var_text :: "gvar \<times> gtype \<Rightarrow> string" where
  "var_text (A i, TypeParam k) = ''a'' @ decimal i @ '' A'' @ decimal k"
| "var_text (A i, t) = ''a'' @ decimal i @ '' uintptr''"
| "var_text (F1, Float b) = ''f1 float'' @ decimal b"
| "var_text (F1, t) = []"

lemma wrapper_params_text: "wrapper_params n bits = map var_text (wrapper_vars n bits)"
  by (simp add: wrapper_params_def wrapper_vars_def)

lemma good_params:
  "good_param (''a'' @ decimal i @ '' A'' @ decimal k) (A i, TypeParam k)"
  "good_param (''a'' @ decimal i @ '' uintptr'') (A i, Uintptr)"
  "good_param (''f1 float'' @ decimal b) (F1, Float b)"
  by (simp_all add: good_param_def read_param_def read_var_def read_nat_decimal decimal_chars)

lemma wrapper_reads: "reads (emitWrapper_text n bits ret) (wrapper_lines n bits ret)"
proof -
  have "read_line (impl_line (map var_text (wrapper_vars n bits)) ret) = Some (Impl (map (\<lambda>p. p) (wrapper_vars n bits)) ret)"
    by (rule impl_line_read) (auto simp: wrapper_vars_def good_params [simplified])
  then have impl: "read_line (impl_line (wrapper_params n bits) ret) = Some (Impl (wrapper_vars n bits) ret)"
    by (simp add: wrapper_params_text)
  have plains: "plain (impl_line (wrapper_params n bits) ret)"
    "plain (''func '' @ wrapperName n bits ret @ type_params n @ ''(fn reflect.Value, cif *types.CallInterface, cfn uintptr) {'')"
    by (auto simp: plain_simps plain_join wrapper_params_def)
  have ints: "reads (map (\<lambda>i. (2, ''ints['' @ decimal (i - 1) @ ''] = uintptr(a'' @ decimal i @ '')'')) [1..<n + 1])
      (map (\<lambda>i. SetInt (i - 1) (A i)) [1..<n + 1])"
    by (rule reads_map) (simp add: plain_starts)
  have keeps: "reads (map (\<lambda>i. (2, ''runtime.KeepAlive(a'' @ decimal i @ '')'')) [1..<n + 1]) (map (\<lambda>i. KeepAlive (A i)) [1..<n + 1])"
    by (rule reads_map) (simp add: plain_starts)
  have floats: "reads (if bits \<noteq> 0 then [(2, ''floats[0] = uintptr(math.Float'' @ decimal bits @ ''bits(f1))'')] else [])
      (if bits \<noteq> 0 then [SetFloat 0 bits F1] else [])"
    by (auto intro!: reads_code reads_Nil simp: plain_starts)
  have ret: "reads [(2, if ret then ''r := fastCallIF(cif, cfn, ints, floats)'' else ''fastCallIF(cif, cfn, ints, floats)'')]
      [if ret then CallResult else Call]" "reads (if ret then [(2, ''return r'')] else []) (if ret then [ReturnResult] else [])"
    by (auto intro!: reads_code reads_Nil simp: plain_starts)
  have head: "reads [(0, ''''), (0, ''func '' @ wrapperName n bits ret @ type_params n @
        ''(fn reflect.Value, cif *types.CallInterface, cfn uintptr) {''),
      (1, impl_line (wrapper_params n bits) ret), (2, ''var ints [15]uintptr'')]
      [Func (Wrapper n bits ret) [1..<n + 1], Impl (wrapper_vars n bits) ret, VarInts]"
    by (rule reads_comment, simp add: no_code_def, simp add: plain_starts)
      (intro reads_code reads_Nil func_line impl plains; simp add: plain_starts)
  have tail: "reads [(1, ''}''), (1, ''forceFuncPtr(fn, &impl)''), (0, ''}'')] [Close, Install, Close]"
    by (intro reads_code reads_Nil; simp add: plain_starts)
  have var: "reads [(2, ''var floats [8]uintptr'')] [VarFloats]"
    by (intro reads_code reads_Nil; simp add: plain_starts)
  from reads_append [OF head reads_append [OF ints reads_append [OF var reads_append [OF floats
    reads_append [OF ret(1) reads_append [OF keeps reads_append [OF ret(2) tail]]]]]]]
  show ?thesis
    unfolding emitWrapper_text_def wrapper_lines_def wrapper_body_def by simp
qed

definition case_lines :: "nat \<Rightarrow> nat \<Rightarrow> nat \<Rightarrow> go_line list" where
  "case_lines bits n m =
     [IfReturn, Instance (Wrapper n bits True) (map (instance_type m) [0..<n]),
      Else, Instance (Wrapper n bits False) (map (instance_type m) [0..<n]), Close, Return True]"

definition switch_lines :: "string \<Rightarrow> ('a \<Rightarrow> nat) \<Rightarrow> ('a \<Rightarrow> go_line list) \<Rightarrow> 'a list \<Rightarrow> go_line list" where
  "switch_lines tag c t xs = Switch tag # concat (map (\<lambda>x. Case (c x) # t x) xs) @ [Close]"

definition dispatch_lines :: "go_line list" where
  "dispatch_lines =
     FuncDispatch # switch_lines ''floatBits'' id (\<lambda>bits.
       switch_lines ''numInts'' id (\<lambda>n.
         switch_lines ''ptrMask'' id (case_lines bits n) [0..<masks_of n]) [0..<maxInts bits + 1]) [0, 32, 64] @
     [Return False, Close]"

definition interleaved_vars :: "nat \<Rightarrow> nat \<Rightarrow> (gvar \<times> gtype) list" where
  "interleaved_vars totalArgs floatPos =
     map (\<lambda>i. if i = floatPos then (F1, Float 32) else (A (if i < floatPos then i + 1 else i), Uintptr)) [0..<totalArgs]"

definition interleaved_body :: "nat \<Rightarrow> bool \<Rightarrow> go_line list" where
  "interleaved_body totalArgs ret =
     [VarInts] @ map (\<lambda>i. SetInt i (A (i + 1))) [0..<totalArgs - 1] @
     [VarFloats, SetFloat 0 32 F1, if ret then ReturnCall else Call]"

definition interleaved_impl_lines :: "nat \<Rightarrow> nat \<Rightarrow> bool \<Rightarrow> go_line list" where
  "interleaved_impl_lines totalArgs floatPos ret =
     Impl (interleaved_vars totalArgs floatPos) ret # interleaved_body totalArgs ret @ [Close, Install]"

definition interleaved_lines :: "go_line list" where
  "interleaved_lines =
     FuncInterleaved # switch_lines ''totalArgs'' id (\<lambda>totalArgs.
       switch_lines ''floatPos'' id (\<lambda>floatPos.
         IfReturn # interleaved_impl_lines totalArgs floatPos True @
         Else # interleaved_impl_lines totalArgs floatPos False @ [Close]) [0..<totalArgs - 1]) [2..<16] @
     [Close]"

lemma reads_one: "read_line s = Some t \<Longrightarrow> plain s \<Longrightarrow> reads [(k, s)] [t]"
  by (intro reads_code reads_Nil)

lemma reads_switch:
  assumes "\<And>x. x \<in> set xs \<Longrightarrow> reads (f x) (t x)" and "read_line s = Some (Switch tag)" "plain s"
  shows "reads ((k, s) # concat (map (\<lambda>x. (k', ''case '' @ decimal (c x) @ '':'') # f x) xs) @ [(k'', ''}'')])
    (switch_lines tag c t xs)"
proof -
  have "reads (concat (map (\<lambda>x. (k', ''case '' @ decimal (c x) @ '':'') # f x) xs)) (concat (map (\<lambda>x. Case (c x) # t x) xs))"
    by (rule reads_concat, rule reads_code) (simp_all add: assms(1) plain_starts)
  moreover have "reads [(k'', ''}'')] [Close]"
    by (rule reads_one) (simp_all add: plain_starts)
  ultimately show ?thesis
    unfolding switch_lines_def by (intro reads_code [OF assms(2,3)] reads_append)
qed

lemma plain_instance: "plain (wrapperName n bits ret @ instance_text n m @ ''(fn, cif, cfn)'')"
  by (auto simp: plain_simps plain_join)

lemma case_reads:
  "reads (tl (emitCase_text bits n m)) (case_lines bits n m)"
  "emitCase_text bits n m = (3, ''case '' @ decimal m @ '':'') # tl (emitCase_text bits n m)"
proof -
  show "reads (tl (emitCase_text bits n m)) (case_lines bits n m)"
    unfolding emitCase_text_def case_lines_def list.sel
    by (intro reads_code reads_Nil instance_line plain_instance; simp add: plain_starts)
qed (simp add: emitCase_text_def)

lemma dispatch_reads: "reads emitDispatch_text dispatch_lines"
proof -
  have masks: "reads ((3, ''switch ptrMask {'') # concat (map (emitCase_text bits n) [0..<masks_of n]) @ [(3, ''}'')])
      (switch_lines ''ptrMask'' id (case_lines bits n) [0..<masks_of n])" for bits n
    using reads_switch [of "[0..<masks_of n]" "\<lambda>m. tl (emitCase_text bits n m)" "case_lines bits n" "''switch ptrMask {''"
        "''ptrMask''" 3 3 id 3] case_reads by (simp add: plain_starts case_reads(2) [symmetric])
  have counts: "reads ((2, ''switch numInts {'') #
      concat (map (\<lambda>n. (2, ''case '' @ decimal (id n) @ '':'') #
        ((3, ''switch ptrMask {'') # concat (map (emitCase_text bits n) [0..<masks_of n]) @ [(3, ''}'')])) [0..<maxInts bits + 1]) @
      [(2, ''}'')])
      (switch_lines ''numInts'' id (\<lambda>n. switch_lines ''ptrMask'' id (case_lines bits n) [0..<masks_of n]) [0..<maxInts bits + 1])"
    for bits
    by (rule reads_switch, rule masks) (simp_all add: plain_starts)
  have bits: "reads ((1, ''switch floatBits {'') #
      concat (map (\<lambda>bits. (1, ''case '' @ decimal (id bits) @ '':'') #
        ((2, ''switch numInts {'') #
          concat (map (\<lambda>n. (2, ''case '' @ decimal (id n) @ '':'') #
            ((3, ''switch ptrMask {'') # concat (map (emitCase_text bits n) [0..<masks_of n]) @ [(3, ''}'')])) [0..<maxInts bits + 1]) @
          [(2, ''}'')])) [0, 32, 64]) @
      [(1, ''}'')])
      (switch_lines ''floatBits'' id (\<lambda>bits.
        switch_lines ''numInts'' id (\<lambda>n. switch_lines ''ptrMask'' id (case_lines bits n) [0..<masks_of n])
          [0..<maxInts bits + 1]) [0, 32, 64])"
    by (rule reads_switch, rule counts) (simp_all add: plain_starts)
  have head: "reads
     [(0, ''''),
      (0, ''// registerFastFunc sets fn to a zero-allocation wrapper whose parameter types''),
      (0, ''// match the registered signature, and reports whether one was generated for''),
      (0, ''// it. See fastWord.''),
      (0, ''func registerFastFunc(fn reflect.Value, cif *types.CallInterface, cfn uintptr, '' @
        ''numInts int, ptrMask uint32, floatBits int, hasReturn bool) bool {'')] [FuncDispatch]"
    by (intro reads_comment reads_one dispatch_line; simp add: no_code_def plain_starts)
  have tail: "reads [(1, ''return false''), (0, ''}'')] [Return False, Close]"
    by (intro reads_code reads_Nil; simp add: plain_starts)
  from reads_append [OF head reads_append [OF bits tail]] show ?thesis
    unfolding emitDispatch_text_def dispatch_lines_def by simp
qed

lemma interleaved_impl_reads:
  "reads (interleaved_impl_text totalArgs floatPos ret) (interleaved_impl_lines totalArgs floatPos ret)"
proof -
  have "decimal 32 = ''32''"
    by code_simp
  then have params: "interleaved_params totalArgs floatPos = map var_text (interleaved_vars totalArgs floatPos)"
    by (simp add: interleaved_params_def interleaved_vars_def)
  have "read_line (impl_line (map var_text (interleaved_vars totalArgs floatPos)) ret) =
      Some (Impl (map (\<lambda>p. p) (interleaved_vars totalArgs floatPos)) ret)"
    by (rule impl_line_read) (auto simp: interleaved_vars_def good_params [simplified])
  then have impl: "read_line (impl_line (interleaved_params totalArgs floatPos) ret) =
      Some (Impl (interleaved_vars totalArgs floatPos) ret)"
    by (simp add: params)
  have plain: "plain (impl_line (interleaved_params totalArgs floatPos) ret)"
    by (auto simp: plain_simps plain_join interleaved_params_def)
  have head: "reads [(4, impl_line (interleaved_params totalArgs floatPos) ret), (5, ''var ints [15]uintptr'')]
      [Impl (interleaved_vars totalArgs floatPos) ret, VarInts]"
    by (intro reads_code reads_Nil impl plain; simp add: plain_starts)
  have ints: "reads (map (\<lambda>i. (5, ''ints['' @ decimal i @ ''] = a'' @ decimal (i + 1))) [0..<totalArgs - 1])
      (map (\<lambda>i. SetInt i (A (i + 1))) [0..<totalArgs - 1])"
    by (rule reads_map) (simp add: plain_starts)
  have tail: "reads [(5, ''var floats [8]uintptr''),
      (5, ''floats[0] = uintptr(math.Float32bits(f1))''),
      (5, if ret then ''return fastCallIF(cif, cfn, ints, floats)'' else ''fastCallIF(cif, cfn, ints, floats)''),
      (4, ''}''), (4, ''forceFuncPtr(fn, &impl)'')]
      [VarFloats, SetFloat 0 32 F1, if ret then ReturnCall else Call, Close, Install]"
    by (intro reads_code reads_Nil) (auto simp: plain_starts)
  from reads_append [OF head reads_append [OF ints tail]] show ?thesis
    unfolding interleaved_impl_text_def interleaved_impl_lines_def interleaved_body_def by simp
qed

lemma interleaved_reads: "reads emitInterleavedFloat32x1_text interleaved_lines"
proof -
  have one: "reads
      ((3, ''if hasReturn {'') # interleaved_impl_text t p True @ (3, ''} else {'') # interleaved_impl_text t p False @ [(3, ''}'')])
      (IfReturn # interleaved_impl_lines t p True @ Else # interleaved_impl_lines t p False @ [Close])" for t p
    by (intro reads_append interleaved_impl_reads reads_code reads_Nil; simp add: plain_starts)
  have cases: "reads ((2, ''switch floatPos {'') #
      concat (map (\<lambda>p. (2, ''case '' @ decimal (id p) @ '':'') #
        ((3, ''if hasReturn {'') # interleaved_impl_text t p True @ (3, ''} else {'') # interleaved_impl_text t p False @ [(3, ''}'')]))
        [0..<t - 1]) @ [(2, ''}'')])
      (switch_lines ''floatPos'' id
        (\<lambda>p. IfReturn # interleaved_impl_lines t p True @ Else # interleaved_impl_lines t p False @ [Close]) [0..<t - 1])" for t
    by (rule reads_switch, rule one) (simp_all add: plain_starts)
  have totals: "reads ((1, ''switch totalArgs {'') #
      concat (map (\<lambda>t. (1, ''case '' @ decimal (id t) @ '':'') #
        ((2, ''switch floatPos {'') #
          concat (map (\<lambda>p. (2, ''case '' @ decimal (id p) @ '':'') #
            ((3, ''if hasReturn {'') # interleaved_impl_text t p True @ (3, ''} else {'') #
              interleaved_impl_text t p False @ [(3, ''}'')])) [0..<t - 1]) @ [(2, ''}'')])) [2..<16]) @ [(1, ''}'')])
      (switch_lines ''totalArgs'' id (\<lambda>t. switch_lines ''floatPos'' id
        (\<lambda>p. IfReturn # interleaved_impl_lines t p True @ Else # interleaved_impl_lines t p False @ [Close]) [0..<t - 1]) [2..<16])"
    by (rule reads_switch, rule cases) (simp_all add: plain_starts)
  have head: "reads [(0, ''func registerFastFuncInterleavedFloat32x1(fn reflect.Value, cif *types.CallInterface, cfn uintptr, '' @
        ''totalArgs, floatPos int, hasReturn bool) {'')] [FuncInterleaved]"
    by (intro reads_one interleaved_line) (simp add: plain_starts)
  have tail: "reads [(0, ''}'')] [Close]"
    by (rule reads_one) (simp_all add: plain_starts)
  from reads_append [OF head reads_append [OF totals tail]] show ?thesis
    unfolding emitInterleavedFloat32x1_text_def interleaved_lines_def by simp
qed

definition all_wrappers :: "(nat \<times> nat \<times> bool) list" where
  "all_wrappers = concat (map (\<lambda>bits. concat (map (\<lambda>n. [(n, bits, True), (n, bits, False)]) [0..<maxInts bits + 1])) [0, 32, 64])"

lemma concat_pairs: "concat (concat (map (\<lambda>x. [f x, g x]) xs)) = concat (map (\<lambda>x. f x @ g x) xs)"
  by (induction xs) auto

lemma wrappers_read: "reads emitWrappers_text (concat (map (\<lambda>(n, bits, ret). wrapper_lines n bits ret) all_wrappers))"
proof -
  have "reads tmplFastWord []"
    unfolding tmplFastWord_def by (intro reads_comment reads_Nil; simp add: no_code_def plain_starts)
  moreover have "reads (concat (map (\<lambda>(n, bits, ret). emitWrapper_text n bits ret) all_wrappers))
      (concat (map (\<lambda>(n, bits, ret). wrapper_lines n bits ret) all_wrappers))"
    by (rule reads_concat) (simp add: wrapper_reads split: prod.split)
  moreover have "concat (map (\<lambda>bits. concat (map (\<lambda>n. concat (map (\<lambda>ret. emitWrapper_text n bits ret) [True, False]))
       [0..<maxInts bits + 1])) [0, 32, 64]) = concat (map (\<lambda>(n, bits, ret). emitWrapper_text n bits ret) all_wrappers)"
    by (simp add: all_wrappers_def map_concat comp_def concat_pairs del: upt_Suc)
  ultimately show ?thesis
    using reads_append [of tmplFastWord "[]"] by (simp add: emitWrappers_text_def)
qed

end
