(* ===== verification/GeneratorTables.thy ===== *)
theory GeneratorTables
  imports GeneratorText
begin

text \<open>
  What the reader makes of the lines the generator writes: each switch becomes a table of its cases,
  each wrapper and each function literal the \<open>fast_impl\<close> of \<open>FastCall\<close>, and so the generated text the
  two tables \<open>emitDispatch\<close> and \<open>emitInterleavedTable\<close>.
\<close>

section \<open>Switches\<close>

lemma expects_append [simp]: "expects ls (ls @ rest) = Some rest"
  by (induction ls) auto

lemma cases_read:
  assumes "\<And>x ls. x \<in> set xs \<Longrightarrow> p (t x @ ls) = Some (val x, ls)" and "length xs \<le> fuel"
  shows "read_cases fuel p (concat (map (\<lambda>x. Case (c x) # t x) xs) @ Close # rest) =
    Some (map (\<lambda>x. (c x, val x)) xs, rest)"
  using assms
proof (induction xs arbitrary: fuel)
  case Nil
  then show ?case
    by (cases fuel) simp_all
next
  case (Cons x xs)
  then obtain fuel' where "fuel = Suc fuel'"
    by (cases fuel) auto
  then show ?case
    using Cons by simp
qed

lemma switch_read:
  assumes "\<And>x ls. x \<in> set xs \<Longrightarrow> p (t x @ ls) = Some (val x, ls)"
  shows "read_switch tag p (switch_lines tag c t xs @ rest) = Some (map (\<lambda>x. (c x, val x)) xs, rest)"
proof -
  have "length xs \<le> length (concat (map (\<lambda>x. Case (c x) # t x) xs))"
    by (induction xs) auto
  then show ?thesis
    using cases_read [where c = c, OF assms] by (simp add: read_switch_def switch_lines_def)
qed

lemma map_of_table: "map_of (map (\<lambda>i. (i, f i)) xs) x = (if x \<in> set xs then Some (f x) else None)"
  by (induction xs) auto

definition case_instances :: "nat \<Rightarrow> nat \<Rightarrow> nat \<Rightarrow> wrapper_instance \<times> wrapper_instance" where
  "case_instances bits n m =
     ((Wrapper n bits True, map (instance_type m) [0..<n]), (Wrapper n bits False, map (instance_type m) [0..<n]))"

lemma case_read: "read_instances (case_lines bits n m @ ls) = Some (case_instances bits n m, ls)"
  by (simp add: read_instances_def case_lines_def case_instances_def)

definition dispatch_table_of :: dispatch_table where
  "dispatch_table_of = map (\<lambda>bits. (bits, map (\<lambda>n. (n, map (\<lambda>m. (m, case_instances bits n m)) [0..<masks_of n]))
     [0..<maxInts bits + 1])) [0, 32, 64]"

lemma dispatch_read: "read_dispatch (dispatch_lines @ ls) = Some (dispatch_table_of, ls)"
proof -
  have masks: "read_switch ''ptrMask'' read_instances (switch_lines ''ptrMask'' id (case_lines bits n) [0..<masks_of n] @ ls) =
      Some (map (\<lambda>m. (m, case_instances bits n m)) [0..<masks_of n], ls)" for bits n ls
    using switch_read [of _ read_instances "case_lines bits n" _ _ id, OF case_read] by simp
  have counts: "read_switch ''numInts'' (read_switch ''ptrMask'' read_instances) (switch_lines ''numInts'' id
        (\<lambda>n. switch_lines ''ptrMask'' id (case_lines bits n) [0..<masks_of n]) [0..<maxInts bits + 1] @ ls) =
      Some (map (\<lambda>n. (n, map (\<lambda>m. (m, case_instances bits n m)) [0..<masks_of n])) [0..<maxInts bits + 1], ls)" for bits ls
    using switch_read [of _ "read_switch ''ptrMask'' read_instances" _ _ _ id, OF masks] by simp
  show ?thesis
    using switch_read [of _ "read_switch ''numInts'' (read_switch ''ptrMask'' read_instances)" _ _ _ id, OF counts]
    by (simp add: read_dispatch_def dispatch_lines_def dispatch_table_of_def)
qed

section \<open>Function literals\<close>

lemma body_steps_append: "body_steps b (ls @ ks) = Option.bind (body_steps b ls) (\<lambda>b. body_steps b ks)"
  by (induction ls arbitrary: b) (simp_all split: bind_splits)

lemma body_steps_ints:
  "phase b = Ints \<Longrightarrow> body_steps b (map (\<lambda>i. SetInt (k i) (v i)) xs) = Some (b\<lparr>set_ints := set_ints b @ map (\<lambda>i. (k i, v i)) xs\<rparr>)"
  by (induction xs arbitrary: b) simp_all

lemma body_steps_keeps:
  "phase b \<in> {Called, CalledResult} \<Longrightarrow>
     body_steps b (map (\<lambda>i. KeepAlive (v i)) xs) = Some (b\<lparr>kept_vars := kept_vars b @ map v xs\<rparr>)"
  by (induction xs arbitrary: b) auto

lemma wrapper_body_steps:
  "body_steps no_body (wrapper_body n bits ret) =
     Some \<lparr>phase = (if ret then Returned else Called), set_ints = map (\<lambda>i. (i - 1, A i)) [1..<n + 1],
       set_floats = (if bits \<noteq> 0 then [(0, bits, F1)] else []), kept_vars = map A [1..<n + 1]\<rparr>"
  by (cases ret; cases "bits = 0")
    (simp_all add: wrapper_body_def no_body_def body_steps_append body_steps_ints body_steps_keeps del: upt_Suc)

lemma interleaved_body_steps:
  "body_steps no_body (interleaved_body totalArgs ret) =
     Some \<lparr>phase = (if ret then Returned else Called), set_ints = map (\<lambda>i. (i, A (i + 1))) [0..<totalArgs - 1],
       set_floats = [(0, 32, F1)], kept_vars = []\<rparr>"
  by (cases ret) (simp_all add: interleaved_body_def no_body_def body_steps_append body_steps_ints del: upt_Suc)

lemma pos_distinct: "distinct vs \<Longrightarrow> i < length vs \<Longrightarrow> pos (vs ! i) vs = Some i"
proof (induction vs arbitrary: i)
  case (Cons v vs)
  then show ?case
    by (cases i) auto
qed simp

lemma pos_at: "distinct vs \<Longrightarrow> i < length vs \<Longrightarrow> vs ! i = v \<Longrightarrow> pos v vs = Some i"
  using pos_distinct by blast

lemma wrapper_vars_distinct: "distinct (map fst (wrapper_vars n bits))"
  by (auto simp: wrapper_vars_def distinct_map inj_on_def)

lemma wrapper_pos:
  "1 \<le> i \<Longrightarrow> i \<le> n \<Longrightarrow> pos (A i) (map fst (wrapper_vars n bits)) = Some (i - 1)"
  "bits \<noteq> 0 \<Longrightarrow> pos F1 (map fst (wrapper_vars n bits)) = Some n"
  by (rule pos_at [OF wrapper_vars_distinct]; auto simp: wrapper_vars_def nth_append)+

lemma foldl_map_pairs: "foldl (\<lambda>a (k, i). g a k i) z (map (\<lambda>i. (k i, h i)) xs) = foldl (\<lambda>a i. g a (k i) (h i)) z xs"
  by (induction xs arbitrary: z) simp_all

lemma wrapper_types:
  assumes "length As = n" "bits \<in> {0, 32, 64}"
  shows "those (map (\<lambda>(v, t). slot As t) (wrapper_vars n bits)) =
    Some (As @ (if bits = 0 then [] else if bits = 32 then [PF32] else [PF64]))"
proof -
  have "those (map (\<lambda>i. slot As (TypeParam i)) [1..<n + 1]) = Some (map (\<lambda>i. As ! (i - 1)) [1..<n + 1])"
    using assms by (intro those_map) auto
  moreover have "map (\<lambda>i. As ! (i - 1)) [1..<n + 1] = As"
    using assms by (intro nth_equalityI) (auto simp del: upt_Suc)
  ultimately have "those (map (\<lambda>i. slot As (TypeParam i)) [1..<n + 1]) = Some As"
    by simp
  with those_append [OF this] show ?thesis
    using assms(2) by (auto simp: wrapper_vars_def comp_def simp del: upt_Suc slot.simps(1))
qed

lemma wrapper_impl_of:
  assumes "length As = n" "bits \<in> {0, 32, 64}"
  shows "impl_of As (wrapper_vars n bits) ret (wrapper_body n bits ret) = Some (emitWrapper As bits ret)"
proof -
  let ?vs = "map fst (wrapper_vars n bits)"
  have shift: "map (\<lambda>i. i - 1) [1..<n + 1] = [0..<n]"
    by (intro nth_equalityI) (auto simp del: upt_Suc)
  have "those (map (\<lambda>(k, v). map_option (Pair k) (pos v ?vs)) (map (\<lambda>i. (i - 1, A i)) [1..<n + 1])) =
      Some (map (\<lambda>i. (i - 1, i - 1)) [1..<n + 1])"
    unfolding map_map by (rule those_map) (auto simp: wrapper_pos)
  also have "map (\<lambda>i. (i - 1, i - 1)) [1..<n + 1] = map (\<lambda>i. (i, i)) (map (\<lambda>i. i - 1) [1..<n + 1])"
    by simp
  finally have ints: "those (map (\<lambda>(k, v). map_option (Pair k) (pos v ?vs)) (map (\<lambda>i. (i - 1, A i)) [1..<n + 1])) =
      Some (map (\<lambda>i. (i, i)) [0..<n])"
    by (simp only: shift)
  have floats: "those (map (\<lambda>(k, n, v). map_option (\<lambda>i. (k, n, i)) (pos v ?vs)) (if bits \<noteq> 0 then [(0, bits, F1)] else [])) =
      Some (if bits \<noteq> 0 then [(0, bits, n)] else [])"
    by (simp add: wrapper_pos)
  have "those (map (\<lambda>v. pos v ?vs) (map A [1..<n + 1])) = Some (map (\<lambda>i. i - 1) [1..<n + 1])"
    unfolding map_map by (rule those_map) (auto simp: wrapper_pos)
  note keeps = this [unfolded shift]
  show ?thesis
    unfolding impl_of_def wrapper_body_steps bind.bind_lunit body.select_convs ints floats keeps wrapper_types [OF assms]
    using assms by (auto simp: emitWrapper_def foldl_map_pairs float_bits_def)
qed

lemma interleaved_pos:
  assumes "floatPos < totalArgs"
  shows "i < totalArgs - 1 \<Longrightarrow> pos (A (i + 1)) (map fst (interleaved_vars totalArgs floatPos)) =
      Some (if i < floatPos then i else Suc i)"
    and "pos F1 (map fst (interleaved_vars totalArgs floatPos)) = Some floatPos"
proof -
  have "distinct (map fst (interleaved_vars totalArgs floatPos))"
    by (auto simp: interleaved_vars_def distinct_map inj_on_def split: if_splits)
  note at = pos_at [OF this]
  show "i < totalArgs - 1 \<Longrightarrow> pos (A (i + 1)) (map fst (interleaved_vars totalArgs floatPos)) =
      Some (if i < floatPos then i else Suc i)"
    by (rule at) (use assms in \<open>auto simp: interleaved_vars_def\<close>)
  show "pos F1 (map fst (interleaved_vars totalArgs floatPos)) = Some floatPos"
    by (rule at) (use assms in \<open>auto simp: interleaved_vars_def\<close>)
qed

lemma interleaved_impl_of:
  assumes "floatPos < totalArgs"
  shows "impl_of [] (interleaved_vars totalArgs floatPos) ret (interleaved_body totalArgs ret) =
    Some (emitInterleaved totalArgs floatPos ret)"
proof -
  let ?vs = "map fst (interleaved_vars totalArgs floatPos)"
  have ints: "those (map (\<lambda>(k, v). map_option (Pair k) (pos v ?vs)) (map (\<lambda>i. (i, A (i + 1))) [0..<totalArgs - 1])) =
      Some (map (\<lambda>i. (i, if i < floatPos then i else Suc i)) [0..<totalArgs - 1])"
    unfolding map_map by (rule those_map) (use interleaved_pos(1) [OF assms] in auto)
  have types: "those (map (\<lambda>(v, t). slot [] t) (interleaved_vars totalArgs floatPos)) =
      Some (map (\<lambda>i. if i = floatPos then PF32 else PWord) [0..<totalArgs])"
    unfolding interleaved_vars_def map_map by (rule those_map) auto
  show ?thesis
    unfolding impl_of_def interleaved_body_steps bind.bind_lunit body.select_convs ints types
    by (simp add: interleaved_pos(2) [OF assms] emitInterleaved_def foldl_map_pairs float_bits_def)
qed

text \<open>The lines of a body do not close it, so the first \<open>Close\<close> is its end.\<close>

lemma read_impl_body:
  assumes "Close \<notin> set body"
  shows "read_impl (Impl ps ret # body @ Close # Install # ls) = Some (\<lambda>As. impl_of As ps ret body, ls)"
proof -
  have "takeWhile (\<lambda>l. l \<noteq> Close) (body @ Close # Install # ls) = body"
    "dropWhile (\<lambda>l. l \<noteq> Close) (body @ Close # Install # ls) = Close # Install # ls"
    using split_at [OF assms] by simp_all
  then show ?thesis
    by simp
qed

lemma no_close: "Close \<notin> set (wrapper_body n bits ret)" "Close \<notin> set (interleaved_body totalArgs ret)"
  by (auto simp: wrapper_body_def interleaved_body_def)

definition interleaved_table_of :: interleaved_table where
  "interleaved_table_of = map (\<lambda>t. (t, map (\<lambda>p. (p,
     impl_of [] (interleaved_vars t p) True (interleaved_body t True),
     impl_of [] (interleaved_vars t p) False (interleaved_body t False))) [0..<t - 1])) [2..<16]"

lemma interleaved_read: "read_interleaved (interleaved_lines @ ls) = Some (interleaved_table_of, ls)"
proof -
  have one: "read_impls ((IfReturn # interleaved_impl_lines t p True @ Else # interleaved_impl_lines t p False @ [Close]) @ ls) =
      Some ((impl_of [] (interleaved_vars t p) True (interleaved_body t True),
        impl_of [] (interleaved_vars t p) False (interleaved_body t False)), ls)" for t p ls
    by (simp add: read_impls_def interleaved_impl_lines_def read_impl_body no_close del: read_impl.simps)
  have cases: "read_switch ''floatPos'' read_impls (switch_lines ''floatPos'' id
        (\<lambda>p. IfReturn # interleaved_impl_lines t p True @ Else # interleaved_impl_lines t p False @ [Close]) [0..<t - 1] @ ls) =
      Some (map (\<lambda>p. (p, impl_of [] (interleaved_vars t p) True (interleaved_body t True),
        impl_of [] (interleaved_vars t p) False (interleaved_body t False))) [0..<t - 1], ls)" for t ls
    using switch_read [of _ read_impls _ _ _ id, OF one] by simp
  show ?thesis
    using switch_read [of _ "read_switch ''floatPos'' read_impls" _ _ _ id, OF cases]
    by (simp add: read_interleaved_def interleaved_lines_def interleaved_table_of_def)
qed

section \<open>The wrapper functions\<close>

definition wrapper_of :: "nat \<times> nat \<times> bool \<Rightarrow> wrapper_name \<times> (fparam list \<Rightarrow> fast_impl option)" where
  "wrapper_of = (\<lambda>(n, bits, ret). (Wrapper n bits ret,
     \<lambda>As. if length As = n then impl_of As (wrapper_vars n bits) ret (wrapper_body n bits ret) else None))"

lemma wrappers_table:
  assumes "length xs \<le> fuel"
  shows "read_wrappers fuel (concat (map (\<lambda>(n, bits, ret). wrapper_lines n bits ret) xs) @ FuncDispatch # ls) =
    Some (map wrapper_of xs, FuncDispatch # ls)"
  using assms
proof (induction xs arbitrary: fuel)
  case Nil
  then show ?case
    by (cases fuel) simp_all
next
  case (Cons x xs)
  obtain n bits ret where x: "x = (n, bits, ret)"
    by (cases x)
  obtain fuel' where fuel: "fuel = Suc fuel'"
    using Cons.prems by (cases fuel) auto
  have "read_impl (Impl (wrapper_vars n bits) ret # wrapper_body n bits ret @ Close # Install # Close # rest) =
      Some (\<lambda>As. impl_of As (wrapper_vars n bits) ret (wrapper_body n bits ret), Close # rest)" for rest
    by (rule read_impl_body) (rule no_close)
  then show ?case
    using Cons by (simp add: fuel x wrapper_lines_def wrapper_of_def del: read_impl.simps upt_Suc)
qed

lemma wrappers_lookup:
  "map_of (map wrapper_of xs) (Wrapper n bits ret) =
     (if (n, bits, ret) \<in> set xs then Some (snd (wrapper_of (n, bits, ret))) else None)"
  by (induction xs) (auto simp: wrapper_of_def)

lemma in_all_wrappers: "(n, bits, ret) \<in> set all_wrappers \<longleftrightarrow> bits \<in> {0, 32, 64} \<and> n \<le> maxInts bits"
  by (cases ret) (auto simp: all_wrappers_def simp del: upt_Suc)

lemma slot_instance: "those (map (slot []) (map (instance_type m) [0..<n])) =
    Some (map (\<lambda>i. if bit m i then PPtr else PWord) [0..<n])"
  unfolding map_map by (rule those_map) (simp add: instance_type_def)

lemma instantiate_wrapper:
  assumes "bits \<in> {0, 32, 64}" "n \<le> maxInts bits"
  shows "instantiate (map wrapper_of all_wrappers) (Wrapper n bits ret, map (instance_type m) [0..<n]) =
    Some (emitWrapper (map (\<lambda>i. if bit m i then PPtr else PWord) [0..<n]) bits ret)"
  unfolding instantiate_def prod.case slot_instance wrappers_lookup
  using assms by (simp add: in_all_wrappers wrapper_of_def wrapper_impl_of)

lemma dispatch_table_lookup:
  assumes "bits \<in> {0, 32, 64}"
  shows "map_of dispatch_table_of bits = Some (map (\<lambda>n. (n, map (\<lambda>m. (m, case_instances bits n m)) [0..<masks_of n]))
     [0..<maxInts bits + 1])"
  using assms unfolding dispatch_table_of_def map_of_table by auto

lemma dispatch_meaning: "run_dispatch (map wrapper_of all_wrappers) dispatch_table_of = emitDispatch"
proof (intro ext)
  fix n ptrMask bits ret
  have masks: "masks_of n = (if n \<le> maxPointerMaskArgs then 2 ^ n else 1)"
    by (simp add: masks_of_def)
  show "run_dispatch (map wrapper_of all_wrappers) dispatch_table_of n ptrMask bits ret = emitDispatch n ptrMask bits ret"
  proof (cases "bits \<in> {0, 32, 64}")
    case True
    have counts: "n \<le> maxInts bits \<longleftrightarrow> n \<le> (if bits = 0 then 15 else 14)"
      by (simp add: maxInts_def)
    show ?thesis
    proof (cases "n \<le> maxInts bits \<and> unat ptrMask < masks_of n")
      case True
      then show ?thesis
        using \<open>bits \<in> {0, 32, 64}\<close> counts masks instantiate_wrapper [OF \<open>bits \<in> {0, 32, 64}\<close>, of n ret "unat ptrMask"]
        by (cases ret)
          (simp_all add: run_dispatch_def dispatch_table_lookup map_of_table case_instances_def emitDispatch_def mask_params_def
            bit_unsigned_iff del: upt_Suc)
    next
      case False
      then show ?thesis
        using \<open>bits \<in> {0, 32, 64}\<close> counts masks
        by (auto simp: run_dispatch_def dispatch_table_lookup map_of_table emitDispatch_def simp del: upt_Suc)
    qed
  qed (auto simp: run_dispatch_def dispatch_table_of_def map_of_table emitDispatch_def simp del: upt_Suc)
qed

lemma interleaved_meaning: "run_interleaved interleaved_table_of = emitInterleavedTable"
proof (intro ext)
  fix totalArgs floatPos ret
  show "run_interleaved interleaved_table_of totalArgs floatPos ret = emitInterleavedTable totalArgs floatPos ret"
    by (auto simp: run_interleaved_def interleaved_table_of_def map_of_table emitInterleavedTable_def interleaved_impl_of
      simp del: upt_Suc upt_rec_numeral)
qed

section \<open>The generated text\<close>

lemma text_of_append: "text_of (ls @ ks) = text_of ls @ text_of ks"
  by (simp add: text_of_def)

lemma wrapper_lines_length: "length xs \<le> length (concat (map (\<lambda>(n, bits, ret). wrapper_lines n bits ret) xs))"
  by (induction xs) (auto simp: wrapper_lines_def)

lemma read_generated:
  "read_file (text_of (emitWrappers_text @ emitDispatch_text @ emitInterleavedFloat32x1_text)) =
     Some (emitDispatch, emitInterleavedTable)"
proof -
  let ?w = "concat (map (\<lambda>(n, bits, ret). wrapper_lines n bits ret) all_wrappers)"
  have "read_lines (text_of (emitWrappers_text @ emitDispatch_text @ emitInterleavedFloat32x1_text)) =
      Some (?w @ dispatch_lines @ interleaved_lines)"
    by (intro reads_text reads_append wrappers_read dispatch_reads interleaved_reads)
  moreover obtain ds where ds: "dispatch_lines = FuncDispatch # ds"
    by (simp add: dispatch_lines_def)
  have "read_wrappers (length (?w @ dispatch_lines @ interleaved_lines)) (?w @ dispatch_lines @ interleaved_lines) =
      Some (map wrapper_of all_wrappers, dispatch_lines @ interleaved_lines)"
    unfolding ds append_Cons by (rule wrappers_table) (use wrapper_lines_length [of all_wrappers] in simp)
  ultimately show ?thesis
    using dispatch_read [of interleaved_lines] interleaved_read [of "[]"]
    by (simp add: read_file_def dispatch_meaning interleaved_meaning)
qed

text \<open>
  Property C11. The file that \<open>genfastfunc\<close> writes is its header, a generated part and the text of
  \<open>tryRegisterFastPath\<close>. The generated part, read back by a parser of that part of Go, is the pair of
  tables of its specification: the dispatch on (float width, integer count, pointer mask, result) and the
  one on (total, float position, result), each entry a function literal that fills the arrays as
  \<open>emitWrapper\<close> and \<open>emitInterleaved\<close> state.
\<close>

theorem generator_text_meaning:
  "\<exists>generated. generated_text = text_of tmplHeader @ generated @ text_of tmplTryRegisterFastPath \<and>
     read_file generated = Some (emitDispatch, emitInterleavedTable)"
proof (intro exI conjI)
  show "generated_text = text_of tmplHeader @
      text_of (emitWrappers_text @ emitDispatch_text @ emitInterleavedFloat32x1_text) @ text_of tmplTryRegisterFastPath"
    by (simp add: generated_text_def text_of_append)
qed (rule read_generated)

end
