(* ===== verification/Spec2Isabelle.thy ===== *)
theory Spec2Isabelle
  imports FastPath FastArgs Syscalls ObjcRuntime ObjcBlockLife GeneratorTables
begin

text \<open>
  A verification development for \<^verbatim>\<open>pureffi\<close>, a Go library that calls C functions without cgo. It keeps
  the interface of \<^verbatim>\<open>purego\<close> and puts the call engine \<^verbatim>\<open>github.com/go-webgpu/goffi\<close> under it. All
  paths below are relative to \<^verbatim>\<open>src/\<close>.

  \<^bold>\<open>The program.\<close> \<^verbatim>\<open>purego.go\<close> binds a Go function variable to a C address (\<open>RegisterFunc\<close>): it checks the
  function type, translates its parameters and its result to type descriptors of the engine, has the
  engine prepare a call interface, and installs one of two things. If the signature is simple,
  \<open>tryRegisterFastPath\<close> (\<^verbatim>\<open>zz_fast_func.go\<close>, generated by \<^verbatim>\<open>genfastfunc.go\<close>) overwrites the function value
  with a compiled wrapper of another Go type whose layout has to be the declared one. Otherwise the
  variable gets a closure made by \<open>reflect.MakeFunc\<close> that packs each argument (\<open>packArg\<close>), calls the engine
  and converts the result (\<open>unpackRet\<close>). Around that are C strings (\<^verbatim>\<open>cstring.go\<close>,
  \<^verbatim>\<open>internal/strings/strings.go\<close>), errno and raw calls (\<^verbatim>\<open>syscall_*.go\<close>), the dynamic loader (\<^verbatim>\<open>dlfcn_*.go\<close>,
  \<^verbatim>\<open>sym_*.go\<close>, \<^verbatim>\<open>stub_arm.go\<close>), and on macOS the Objective-C runtime (\<^verbatim>\<open>objc/\<close>) with \<open>NSString\<close>
  (\<^verbatim>\<open>cstrings/\<close>). The Objective-C functions are themselves bound with \<open>RegisterLibFunc\<close>, so that every
  message send is a call through one of the two paths.

  \<^bold>\<open>How the model represents it.\<close> Machine integers have their width (\<open>uintptr\<close> is \<open>64 word\<close>). Memory is
  one space of bytes with a mapped part, shared by Go, the engine and native code (\<open>GoMemory\<close>), and
  reading what is not mapped is a fault. A Go function that may panic returns \<open>panic + 'a\<close>; one with state is
  a function from the state to such an outcome and the state left (\<open>prog\<close> in \<open>Prelude\<close>), and \<open>defer_st\<close>
  runs a deferred function on both. The library's state is the record \<open>gstate\<close>: memory, the pools of
  call contexts, the cells behind \<open>sync.Once\<close> and the number of \<open>LockOSThread\<close> calls that are open. Go types are
  the datatype \<open>go_type\<close>, with size, alignment and offsets computed as the compiler does (\<open>GoReflect\<close>). What is not in
  this repository is a parameter: the engine, the C functions behind it and the Windows calls are the
  fields of the record \<open>goffi\<close> (\<open>Goffi\<close>); the functions of the Objective-C runtime are those of
  \<open>class_runtime\<close>, and \<open>bound_runtime\<close> instantiates that record with the calls that the package makes
  through its own bindings; which Go types implement an interface, what a Go function does when
  called and where the text of a string constant lies are arguments. A property needs no more of them than it states.

  \<^bold>\<open>Theories and sources.\<close>
  \<^item> \<open>Prelude\<close>, \<open>GoMemory\<close>, \<open>GoState\<close>, \<open>GoPool\<close>, \<open>GoReflect\<close>, \<open>Goffi\<close>: the vocabulary above, \<open>sync.Once\<close>
    (locale \<open>once_cell\<close>), \<open>sync.Pool\<close> (locale \<open>context_pool\<close>), the simplification and introduction sets.
  \<^item> \<open>FfiDesc\<close>: \<open>goTypeToFfiType\<close>, \<open>goArgTypeToFfiType\<close>.
  \<^item> \<open>FastCall\<close>, \<open>FastWrappers\<close>, \<open>FastDispatch\<close>, \<open>FastInterleaved\<close>: \<open>fastCallIF\<close> and every generated wrapper
    and switch of \<^verbatim>\<open>zz_fast_func.go\<close>, one definition for each, proved equal to three parametric ones
    (\<open>emitWrapper\<close>, \<open>emitDispatch\<close>, \<open>emitInterleavedTable\<close>). \<open>FastPath\<close>: \<open>tryRegisterFastPath\<close>, which
    signatures it takes and that the wrapper fits. \<open>FastArgs\<close>: what native code then sees.
  \<^item> \<open>Generator\<close>, \<open>GoText\<close>, \<open>GeneratorText\<close>, \<open>GeneratorTables\<close>: the text \<^verbatim>\<open>genfastfunc.go\<close> writes, emitter by
    emitter; a reader of the part of Go it writes in; and that the text read back is the same two tables.
    Together with the item before, generator and generated file are both proved against one specification.
  \<^item> \<open>ArgPacking\<close>: \<open>packArg\<close>. \<open>RegisterFn\<close>: \<open>RegisterFunc\<close>, \<open>RegisterLibFunc\<close>, \<open>NewCallback\<close> and the closure
    of the reflect path with its pooled context and deferred functions; the locale \<open>call_invariant\<close>
    carries an invariant through every step of a call. \<open>SlowPath\<close>: what that closure passes to native code.
    \<open>Results\<close>: what it makes of the result. \<open>Registration\<close>: which functions are rejected, which path each gets, and
    variadic functions. \<open>Invoke\<close>: that both paths agree. \<open>Callbacks\<close>: \<open>reflect.Value.Call\<close> and what a
    callback runs.
  \<^item> \<open>CStrings\<close>: the three readers (locale \<open>c_string_reader\<close>, interpreted for each) and the writer.
    \<open>Symbols\<close>: \<open>Dlsym\<close>, \<open>Dlclose\<close>, errno, \<open>dladdr\<close>, \<open>malloc\<close>, \<open>CString\<close>. \<open>Syscalls\<close>: \<open>SyscallN\<close>.
    \<open>Loader\<close>: \<open>Dlopen\<close> of all targets, and the arm stubs.
  \<^item> \<open>ObjcEncoding\<close>: \<open>encodeType\<close>, \<open>encodeFunc\<close>. \<open>ObjcClass\<close>: \<open>NewIMP\<close>, \<open>RegisterClass\<close> and the accessors of
    instance variables. \<open>ObjcBlocks\<close>: layouts, the map from blocks to functions, \<open>NewBlock\<close>,
    \<open>InvokeBlock\<close> and what native code runs through a block. \<open>ObjcBlockLife\<close>: the step relation \<open>block_step\<close>, in which blocks
    are made, retained, released, disposed of and freed by several threads; the steps of the package are
    runs of the definitions of \<open>ObjcBlocks\<close>. \<open>ObjcRuntime\<close>: \<open>init\<close>, \<open>Send\<close>, \<open>SendSuper\<close>, the functions that call one
    runtime function each, and \<open>NSStringToString\<close>.

  \<^bold>\<open>What is shown.\<close> Calls (C1 to C10): on either path native code is entered once with every argument in its C form
  at its place; a wrapper has the layout of the declared type and keeps its pointers alive; the reflect
  path refines its specification, restores lock depth and pools however it ends, and agrees with the fast
  path. The generator (C9 to C11). Registration and packing (C12 to C17): what is rejected and with which message,
  which path is bound, what \<open>packArg\<close> leaves behind its pointer, and for which types a descriptor
  is the C layout. Strings, errno, raw calls and the loader (C18 to C26): readers and writers are inverse,
  when a reader ends, that errno reports the call, and that pools and locks are kept. Callbacks (C27).
  Objective-C (C28 to C40): which encodings are those of C, the literals of blocks and the caches of layouts and functions, the
  function that a block runs under all interleavings, the sequence of runtime calls that makes a class, what \<open>init\<close> binds, and message sends.

  \<^bold>\<open>Loops and bounds.\<close> A reader of C strings scans memory that may have no NUL. It is a
  \<open>partial_function\<close> whose value \<open>None\<close> is that it runs on, and C19 says when it ends. Every other recursion follows its data. The
  reader of the generated text has fuel: as many steps as there are lines, which is enough as each
  step reads at least one (\<open>wrappers_table\<close>, \<open>switch_read\<close>). The fixed sizes are those of the code: 15 integers, 8 floats
  and 23 pointers in a fast context, 32 pointers in the others, masks for at most 6 integer arguments.

  \<^bold>\<open>Not modelled.\<close> \<open>gofmt\<close> and the file operations of the generator; its table \<open>patterns\<close>, which nothing uses;
  \<^verbatim>\<open>gen.go\<close>, a single directive; \<^verbatim>\<open>internal/xreflect\<close>, which only calls \<open>reflect\<close>; the program
  \<^verbatim>\<open>cmd/universal-probe\<close>, which prints results of library calls; tests and benchmarks. Of Go: recursive
  types, the direction of channels, 32-bit targets but for the arm stubs, the Go memory model, and the scheduler, except as
  the interleavings of \<open>block_step\<close> and as the lock depth. A garbage collection is the freedom to take
  another context from a pool. The engine and libobjc are not described, only called. So is the blocks runtime, except for
  what its own steps in \<open>block_step\<close> say of its reference counts: a copy is at an address not in use, the dispose helper of the literal runs
  once after the last release, and the address is free only then; \<open>copies_quietly\<close> adds that a copy runs no Go code.
\<close>

end
